(* ===== verification/Prelude.thy ===== *)
theory Prelude
  imports Main "HOL-Library.Sublist" "HOL-Library.List_Lexorder" "HOL-Library.Char_ord"
begin

text \<open>
  Shared vocabulary of the development. A Go \<open>string\<close> is a HOL \<open>string\<close>: both are
  sequences of bytes (a HOL \<open>char\<close> is one byte), so \<open>length\<close> is Go's \<open>len\<close>.
  The theory models the functions of Go's \<open>strings\<close>, \<open>strconv\<close> and \<open>fmt\<close> packages
  that the sources call (\<open>TrimSpace\<close>, \<open>ToLower\<close>, \<open>Trim\<close>, decimal formatting),
  Go maps as association lists in key order, and the generic lemmas on lists and maps that
  the component theories share.
\<close>

named_theorems trim_simps \<open>facts about \<open>strings.TrimSpace\<close>\<close>
named_theorems gomap_simps \<open>lookup and update of Go maps\<close>

type_synonym bytes = string
type_synonym time = nat

section \<open>strings.TrimSpace on UTF-8 bytes\<close>

text \<open>
  \<open>unicode.IsSpace\<close> holds of six ASCII bytes, of two code points whose UTF-8 form has two
  bytes (U+0085, U+00A0), and of seventeen whose form has three (U+1680, U+2000 to U+200A,
  U+2028, U+2029, U+202F, U+205F, U+3000). UTF-8 is self-synchronising, so a leading or a
  trailing space rune is exactly a leading or a trailing occurrence of such a byte sequence.
\<close>

definition space1 :: "char \<Rightarrow> bool" where
  "space1 c \<longleftrightarrow> c = CHR '' '' \<or> c = CHR 0x0A \<or> c = CHR 0x09 \<or> c = CHR 0x0D
     \<or> c = CHR 0x0B \<or> c = CHR 0x0C"

definition space2 :: "char \<Rightarrow> char \<Rightarrow> bool" where
  "space2 a b \<longleftrightarrow> a = CHR 0xC2 \<and> (b = CHR 0x85 \<or> b = CHR 0xA0)"

definition space3 :: "char \<Rightarrow> char \<Rightarrow> char \<Rightarrow> bool" where
  "space3 a b c \<longleftrightarrow>
     (a = CHR 0xE1 \<and> b = CHR 0x9A \<and> c = CHR 0x80)
   \<or> (a = CHR 0xE2 \<and> b = CHR 0x80 \<and>
        (CHR 0x80 \<le> c \<and> c \<le> CHR 0x8A \<or> c = CHR 0xA8 \<or> c = CHR 0xA9 \<or> c = CHR 0xAF))
   \<or> (a = CHR 0xE2 \<and> b = CHR 0x81 \<and> c = CHR 0x9F)
   \<or> (a = CHR 0xE3 \<and> b = CHR 0x80 \<and> c = CHR 0x80)"

type_synonym space_test = "(char \<Rightarrow> bool) \<times> (char \<Rightarrow> char \<Rightarrow> bool) \<times> (char \<Rightarrow> char \<Rightarrow> char \<Rightarrow> bool)"

text \<open>The width of the space sequence at the head of a string, 0 when there is none.\<close>

fun head_space :: "space_test \<Rightarrow> string \<Rightarrow> nat" where
  "head_space (p1, p2, p3) [] = 0"
| "head_space (p1, p2, p3) (a # s) =
     (if p1 a then 1
      else case s of
        [] \<Rightarrow> 0
      | b # t \<Rightarrow>
          if p2 a b then 2
          else (case t of [] \<Rightarrow> 0 | c # u \<Rightarrow> if p3 a b c then 3 else 0))"

lemma head_space_le: "head_space ps s \<le> length s"
  by (cases ps; cases s) (auto split: list.splits)

function drop_spaces :: "space_test \<Rightarrow> string \<Rightarrow> string" where
  "drop_spaces ps s =
     (if head_space ps s = 0 then s else drop_spaces ps (drop (head_space ps s) s))"
  by pat_completeness auto
termination
proof (relation "measure (\<lambda>(ps, s). length s)")
  show "wf (measure (\<lambda>(ps :: space_test, s :: string). length s))" by simp
next
  fix ps :: space_test and s :: string
  assume "head_space ps s \<noteq> 0"
  with head_space_le [of ps s]
  show "((ps, drop (head_space ps s) s), ps, s) \<in> measure (\<lambda>(ps, s). length s)" by simp
qed

declare drop_spaces.simps [simp del]

definition trim_left :: "string \<Rightarrow> string" where
  "trim_left s = drop_spaces (space1, space2, space3) s"

definition trim_right :: "string \<Rightarrow> string" where
  "trim_right s =
     rev (drop_spaces (space1, \<lambda>b a. space2 a b, \<lambda>c b a. space3 a b c) (rev s))"

definition TrimSpace :: "string \<Rightarrow> string" where
  "TrimSpace s = trim_right (trim_left s)"

lemma drop_spaces_suffix: "suffix (drop_spaces ps s) s"
proof (induction ps s rule: drop_spaces.induct)
  case (1 ps s)
  show ?case
  proof (cases "head_space ps s = 0")
    case True
    then show ?thesis by (simp add: drop_spaces.simps [of ps s])
  next
    case False
    with "1.IH" have "suffix (drop_spaces ps (drop (head_space ps s) s)) s"
      using suffix_drop suffix_order.trans by blast
    with False show ?thesis by (simp add: drop_spaces.simps [of ps s])
  qed
qed

lemma drop_spaces_stable: "head_space ps (drop_spaces ps s) = 0"
proof (induction ps s rule: drop_spaces.induct)
  case (1 ps s)
  then show ?case
    by (cases "head_space ps s = 0") (simp_all add: drop_spaces.simps [of ps s])
qed

lemma drop_spaces_id: "head_space ps s = 0 \<Longrightarrow> drop_spaces ps s = s"
  by (simp add: drop_spaces.simps)

lemma head_space_prefix:
  assumes "prefix u s" and "head_space ps s = 0"
  shows "head_space ps u = 0"
  using assms
  by (cases ps; cases u; cases s) (auto split: list.splits if_splits simp: prefix_Cons)

lemma trim_right_prefix: "prefix (trim_right s) s"
  using drop_spaces_suffix [of _ "rev s"] by (simp add: trim_right_def suffix_to_prefix)

lemma trim_left_id: "head_space (space1, space2, space3) s = 0 \<Longrightarrow> trim_left s = s"
  by (simp add: trim_left_def drop_spaces_id)

lemma trim_right_idem: "trim_right (trim_right s) = trim_right s"
  by (simp add: trim_right_def drop_spaces_stable drop_spaces_id)

lemma TrimSpace_idem [simp, trim_simps]: "TrimSpace (TrimSpace s) = TrimSpace s"
proof -
  let ?t = "trim_left s"
  have "head_space (space1, space2, space3) ?t = 0"
    by (simp add: trim_left_def drop_spaces_stable)
  then have "head_space (space1, space2, space3) (trim_right ?t) = 0"
    using head_space_prefix trim_right_prefix by blast
  then show ?thesis
    by (simp add: TrimSpace_def trim_left_id trim_right_idem)
qed

lemma TrimSpace_Nil [simp, trim_simps]: "TrimSpace [] = []"
  by (simp add: TrimSpace_def trim_left_def trim_right_def drop_spaces.simps)

lemma TrimSpace_sublist: "sublist (TrimSpace s) s"
proof -
  have "prefix (TrimSpace s) (trim_left s)"
    by (simp add: TrimSpace_def trim_right_prefix)
  moreover have "suffix (trim_left s) s"
    by (simp add: trim_left_def drop_spaces_suffix)
  ultimately show ?thesis
    using prefix_imp_sublist suffix_imp_sublist sublist_order.order.trans by blast
qed

lemma set_TrimSpace: "set (TrimSpace s) \<subseteq> set s"
  using TrimSpace_sublist set_mono_sublist by blast

lemma length_TrimSpace: "length (TrimSpace s) \<le> length s"
  using TrimSpace_sublist sublist_length_le by blast

text \<open>Bytes that no space sequence starts or ends with.\<close>

definition solid :: "char \<Rightarrow> bool" where
  "solid c \<longleftrightarrow> \<not> space1 c \<and> c < CHR 0x80"

lemma solid_not_space:
  assumes "solid c"
  shows "\<not> space1 c" "\<not> space2 c b" "\<not> space2 b c" "\<not> space3 c b a" "\<not> space3 a b c"
  using assms unfolding solid_def space2_def space3_def
  by (auto simp: less_char_def less_eq_char_def)

lemma TrimSpace_solid_ends:
  assumes "s \<noteq> []" and "solid (hd s)" and "solid (last s)"
  shows "TrimSpace s = s"
proof -
  from assms(1) obtain a t where s: "s = a # t" by (cases s) auto
  have l: "head_space (space1, space2, space3) s = 0"
    using assms(2) by (auto simp: s solid_not_space split: list.splits)
  from assms(1) obtain t' z where s': "s = t' @ [z]" by (metis rev_exhaust)
  have "head_space (space1, \<lambda>b a. space2 a b, \<lambda>c b a. space3 a b c) (rev s) = 0"
    using assms(3) by (auto simp: s' solid_not_space split: list.splits)
  then show ?thesis
    by (simp add: TrimSpace_def trim_left_id [OF l] trim_right_def drop_spaces_id)
qed

section \<open>Other string functions\<close>

text \<open>
  \<open>strings.ToLower\<close>, for comparison with ASCII literals: the ASCII letters, and the two
  code points outside ASCII whose lower case is an ASCII letter (U+0130 gives \<open>i\<close>,
  U+212A gives \<open>k\<close>). Every other code point outside ASCII has a lower case outside
  ASCII, so its bytes are left as they are: no such byte occurs in a literal.
\<close>

definition lower_char :: "char \<Rightarrow> char" where
  "lower_char c = (if CHR ''A'' \<le> c \<and> c \<le> CHR ''Z'' then char_of (of_char c + (32 :: nat)) else c)"

fun ToLower :: "string \<Rightarrow> string" where
  "ToLower [] = []"
| "ToLower (a # s) =
     (case s of
        b # t \<Rightarrow>
          if a = CHR 0xC4 \<and> b = CHR 0xB0 then CHR ''i'' # ToLower t
          else (case t of
              c # u \<Rightarrow>
                if a = CHR 0xE2 \<and> b = CHR 0x84 \<and> c = CHR 0xAA then CHR ''k'' # ToLower u
                else lower_char a # ToLower s
            | [] \<Rightarrow> lower_char a # ToLower s)
      | [] \<Rightarrow> [lower_char a])"

text \<open>\<open>strings.Trim(s, cutset)\<close> with a cutset of one ASCII byte.\<close>

definition TrimByte :: "char \<Rightarrow> string \<Rightarrow> string" where
  "TrimByte c s = rev (dropWhile ((=) c) (rev (dropWhile ((=) c) s)))"

definition TrimSuffix :: "string \<Rightarrow> string \<Rightarrow> string" where
  "TrimSuffix s suf = (if suffix suf s then take (length s - length suf) s else s)"

text \<open>\<open>strings.Split(s, sep)\<close> with a separator of one byte: always at least one part.\<close>

fun SplitByte :: "char \<Rightarrow> string \<Rightarrow> string list" where
  "SplitByte c [] = [[]]"
| "SplitByte c (a # s) =
     (if a = c then [] # SplitByte c s
      else case SplitByte c s of [] \<Rightarrow> [[a]] | p # ps \<Rightarrow> (a # p) # ps)"

fun JoinBytes :: "string \<Rightarrow> string list \<Rightarrow> string" where
  "JoinBytes sep [] = []"
| "JoinBytes sep [p] = p"
| "JoinBytes sep (p # q # ps) = p @ sep @ JoinBytes sep (q # ps)"

lemma SplitByte_nonempty [simp]: "SplitByte c s \<noteq> []"
  by (cases s) (auto split: list.splits)

lemma SplitByte_parts: "p \<in> set (SplitByte c s) \<Longrightarrow> c \<notin> set p"
proof (induction s arbitrary: p)
  case (Cons a s)
  then show ?case by (cases "SplitByte c s") (auto split: if_splits)
qed simp

lemma JoinBytes_SplitByte: "JoinBytes [c] (SplitByte c s) = s"
proof (induction s)
  case (Cons a s)
  obtain p ps where p: "SplitByte c s = p # ps"
    using SplitByte_nonempty by (cases "SplitByte c s") blast+
  with Cons show ?case by (cases ps) auto
qed simp

section \<open>Decimal numbers (fmt and strconv)\<close>

definition digit_char :: "nat \<Rightarrow> char" where
  "digit_char d = char_of (48 + d)"

definition char_digit :: "char \<Rightarrow> nat option" where
  "char_digit c = (if CHR ''0'' \<le> c \<and> c \<le> CHR ''9'' then Some (of_char c - 48) else None)"

fun show_nat :: "nat \<Rightarrow> string" where
  "show_nat n = (if n < 10 then [digit_char n] else show_nat (n div 10) @ [digit_char (n mod 10)])"

declare show_nat.simps [simp del]

definition show_int :: "int \<Rightarrow> string" where
  "show_int i = (if i < 0 then CHR ''-'' # show_nat (nat (- i)) else show_nat (nat i))"

text \<open>Reading a maximal run of digits with an accumulator.\<close>

fun read_digits :: "nat \<Rightarrow> string \<Rightarrow> nat \<times> string" where
  "read_digits acc [] = (acc, [])"
| "read_digits acc (c # s) =
     (case char_digit c of None \<Rightarrow> (acc, c # s) | Some d \<Rightarrow> read_digits (10 * acc + d) s)"

definition is_digit :: "char \<Rightarrow> bool" where
  "is_digit c \<longleftrightarrow> char_digit c \<noteq> None"

lemma char_digit_digit_char [simp]: "d < 10 \<Longrightarrow> char_digit (digit_char d) = Some d"
  by (auto simp: char_digit_def digit_char_def less_eq_char_def)

lemma is_digit_digit_char [simp]: "d < 10 \<Longrightarrow> is_digit (digit_char d)"
  by (simp add: is_digit_def)

lemma show_nat_digits: "c \<in> set (show_nat n) \<Longrightarrow> is_digit c"
proof (induction n rule: show_nat.induct)
  case (1 n)
  then show ?case by (subst (asm) show_nat.simps) (auto split: if_splits)
qed

lemma show_nat_nonempty [simp]: "show_nat n \<noteq> []"
  by (subst show_nat.simps) simp

definition stops_digits :: "string \<Rightarrow> bool" where
  "stops_digits s \<longleftrightarrow> (case s of [] \<Rightarrow> True | c # _ \<Rightarrow> \<not> is_digit c)"

lemma read_digits_stop: "stops_digits s \<Longrightarrow> read_digits acc s = (acc, s)"
  by (cases s) (auto simp: stops_digits_def is_digit_def)

lemma read_digits_append:
  "(\<And>c. c \<in> set ds \<Longrightarrow> is_digit c) \<Longrightarrow>
   read_digits acc (ds @ s) = read_digits (fst (read_digits acc ds)) s"
proof (induction ds arbitrary: acc)
  case (Cons c ds)
  then obtain d where "char_digit c = Some d" by (auto simp: is_digit_def)
  with Cons show ?case by simp
qed simp

lemma fst_read_digits_show_nat: "fst (read_digits 0 (show_nat n)) = n"
proof (induction n rule: show_nat.induct)
  case (1 n)
  show ?case
  proof (cases "n < 10")
    case True
    then show ?thesis by (subst show_nat.simps) simp
  next
    case False
    with "1.IH" have "fst (read_digits 0 (show_nat (n div 10))) = n div 10" by simp
    then have "read_digits 0 (show_nat (n div 10) @ [digit_char (n mod 10)]) =
        read_digits (n div 10) [digit_char (n mod 10)]"
      by (subst read_digits_append) (auto dest: show_nat_digits)
    with False show ?thesis by (subst show_nat.simps) simp
  qed
qed

lemma read_digits_show_nat: "stops_digits s \<Longrightarrow> read_digits 0 (show_nat n @ s) = (n, s)"
  by (subst read_digits_append)
    (auto dest: show_nat_digits simp: fst_read_digits_show_nat read_digits_stop)

lemma show_nat_inject [simp]: "show_nat m = show_nat n \<longleftrightarrow> m = n"
  by (metis fst_read_digits_show_nat)

section \<open>Runes\<close>

text \<open>
  Ranging over a Go string yields its runes: the byte sequences of well-formed UTF-8, and one
  byte at a time where the text is malformed (\<open>unicode/utf8.DecodeRune\<close>).
\<close>

definition byte_in :: "nat \<Rightarrow> nat \<Rightarrow> char \<Rightarrow> bool" where
  "byte_in lo hi c \<longleftrightarrow> lo \<le> of_char c \<and> of_char c \<le> (hi :: nat)"

definition rune_tail :: "nat \<Rightarrow> nat \<Rightarrow> nat \<Rightarrow> string \<Rightarrow> bool" where
  "rune_tail n lo hi s \<longleftrightarrow>
     n \<le> length s \<and> byte_in lo hi (hd s) \<and> (\<forall>c \<in> set (tl (take n s)). byte_in 128 191 c)"

definition rune_width :: "char \<Rightarrow> string \<Rightarrow> nat" where
  "rune_width c s =
     (if byte_in 194 223 c \<and> rune_tail 1 128 191 s then 2
      else if byte_in 224 224 c \<and> rune_tail 2 160 191 s then 3
      else if (byte_in 225 236 c \<or> byte_in 238 239 c) \<and> rune_tail 2 128 191 s then 3
      else if byte_in 237 237 c \<and> rune_tail 2 128 159 s then 3
      else if byte_in 240 240 c \<and> rune_tail 3 144 191 s then 4
      else if byte_in 241 243 c \<and> rune_tail 3 128 191 s then 4
      else if byte_in 244 244 c \<and> rune_tail 3 128 143 s then 4
      else 1)"

function runes :: "string \<Rightarrow> string list" where
  "runes [] = []"
| "runes (c # s) = (c # take (rune_width c s - 1) s) # runes (drop (rune_width c s - 1) s)"
  by pat_completeness auto
termination
  by (relation "measure length") auto

lemma concat_runes: "concat (runes s) = s"
  by (induction s rule: runes.induct) simp_all

lemma runes_nonempty: "r \<in> set (runes s) \<Longrightarrow> r \<noteq> []"
  by (induction s rule: runes.induct) auto

lemma runes_eq_Nil [simp]: "runes s = [] \<longleftrightarrow> s = []"
  by (cases s) simp_all

lemma rune_width_ascii: "of_char c < (128::nat) \<Longrightarrow> rune_width c s = 1"
  by (auto simp: rune_width_def byte_in_def)

lemma runes_ascii: "(\<forall>c \<in> set s. of_char c < (128::nat)) \<Longrightarrow> runes s = map (\<lambda>c. [c]) s"
  by (induction s rule: runes.induct) (auto simp: rune_width_ascii)

section \<open>Go maps\<close>

text \<open>
  A Go map with string keys is an association list in increasing key order, the order in
  which \<open>encoding/json\<close> writes a map. Assignment \<open>m[k] = v\<close> is \<open>map_put\<close>,
  \<open>delete(m, k)\<close> is \<open>map_del\<close>, and \<open>m[k]\<close> with its presence flag is the
  library's \<open>map_of\<close>.
\<close>

type_synonym 'v gomap = "(string \<times> 'v) list"

fun map_put :: "'k::linorder \<Rightarrow> 'v \<Rightarrow> ('k \<times> 'v) list \<Rightarrow> ('k \<times> 'v) list" where
  "map_put k v [] = [(k, v)]"
| "map_put k v ((j, w) # m) =
     (if k = j then (k, v) # m
      else if k < j then (k, v) # (j, w) # m
      else (j, w) # map_put k v m)"

definition map_del :: "'k \<Rightarrow> ('k \<times> 'v) list \<Rightarrow> ('k \<times> 'v) list" where
  "map_del k m = filter (\<lambda>p. fst p \<noteq> k) m"

definition map_wf :: "('k::linorder \<times> 'v) list \<Rightarrow> bool" where
  "map_wf m \<longleftrightarrow> sorted_wrt (<) (map fst m)"

text \<open>\<open>maps.Copy(dst, src)\<close>.\<close>

definition map_copy :: "('k::linorder \<times> 'v) list \<Rightarrow> ('k \<times> 'v) list \<Rightarrow> ('k \<times> 'v) list" where
  "map_copy dst src = fold (\<lambda>(k, v) m. map_put k v m) src dst"

lemma map_of_put [simp, gomap_simps]: "map_of (map_put k v m) = (map_of m)(k \<mapsto> v)"
  by (induction m) (auto simp: fun_eq_iff)

lemma map_of_del [simp, gomap_simps]: "map_of (map_del k m) = (map_of m)(k := None)"
  by (induction m) (auto simp: map_del_def fun_eq_iff)

lemma set_put_subset: "set (map_put k v m) \<subseteq> insert (k, v) (set m)"
  by (induction m) (auto split: if_splits)

lemma set_keys_put: "fst ` set (map_put k v m) = insert k (fst ` set m)"
proof (induction m)
  case (Cons p m)
  then show ?case by (cases p) (simp add: insert_commute)
qed simp

lemma map_wf_put: "map_wf m \<Longrightarrow> map_wf (map_put k v m)"
proof (induction m)
  case (Cons p m)
  then show ?case
    using set_keys_put [of k v m] by (cases p) (auto simp: map_wf_def)
qed (simp add: map_wf_def)

lemma map_wf_del: "map_wf m \<Longrightarrow> map_wf (map_del k m)"
  unfolding map_wf_def map_del_def by (induction m) auto

lemma map_wf_distinct: "map_wf m \<Longrightarrow> distinct (map fst m)"
  using strict_sorted_iff by (auto simp: map_wf_def)

lemma map_of_copy: "map_of (map_copy dst src) = map_of dst ++ map_of (rev src)"
  unfolding map_copy_def
proof (induction src arbitrary: dst)
  case (Cons p src)
  then show ?case by (cases p) (simp add: map_add_def fun_eq_iff split: option.splits)
qed simp

lemma map_wf_copy: "map_wf dst \<Longrightarrow> map_wf (map_copy dst src)"
  unfolding map_copy_def
  by (induction src arbitrary: dst) (auto simp: map_wf_put)

text \<open>
  The contract of a keyed table, as the runtime's session table, the store's writer table
  and a payload's fields use it: what a lookup returns after an assignment or a deletion, and
  that every operation keeps the representation invariant.
\<close>

locale keyed_table =
  fixes get :: "'m \<Rightarrow> 'k \<Rightarrow> 'v option"
    and put :: "'k \<Rightarrow> 'v \<Rightarrow> 'm \<Rightarrow> 'm"
    and del :: "'k \<Rightarrow> 'm \<Rightarrow> 'm"
    and wf :: "'m \<Rightarrow> bool"
  assumes get_put: "get (put k v m) = (get m)(k \<mapsto> v)"
    and get_del: "get (del k m) = (get m)(k := None)"
    and wf_put: "wf m \<Longrightarrow> wf (put k v m)"
    and wf_del: "wf m \<Longrightarrow> wf (del k m)"
    and ext: "wf m \<Longrightarrow> wf m' \<Longrightarrow> get m = get m' \<Longrightarrow> m = m'"
begin

lemma put_same: "wf m \<Longrightarrow> get m k = Some v \<Longrightarrow> put k v m = m"
  by (rule ext) (auto simp: get_put wf_put)

lemma put_put: "wf m \<Longrightarrow> put k v (put k w m) = put k v m"
  by (rule ext) (auto simp: get_put wf_put)

lemma put_commute: "wf m \<Longrightarrow> j \<noteq> k \<Longrightarrow> put j v (put k w m) = put k w (put j v m)"
  by (rule ext) (auto simp: get_put wf_put)

lemma del_put: "wf m \<Longrightarrow> get m k = None \<Longrightarrow> del k (put k v m) = m"
  by (rule ext) (auto simp: get_put get_del wf_put wf_del)

end

lemma map_wf_ext:
  assumes "map_wf m" and "map_wf m'" and "map_of m = map_of m'"
  shows "m = m'"
proof -
  have d: "distinct (map fst m)" "distinct (map fst m')"
    using assms(1,2) by (auto intro: map_wf_distinct)
  with assms(3) have eq: "set m = set m'" by (simp add: map_of_inject_set)
  have "sorted (map fst m)" "sorted (map fst m')"
    using assms(1,2) by (auto simp: map_wf_def strict_sorted_iff)
  with d eq show ?thesis
    by (intro map_sorted_distinct_set_unique [of fst]) (auto simp: distinct_map)
qed

interpretation gotable: keyed_table map_of map_put map_del map_wf
  by unfold_locales (auto simp: map_wf_put map_wf_del intro: map_wf_ext)

section \<open>Names of turns\<close>

text \<open>\<open>fmt.Sprintf("%s:%d", backendID, n)\<close>\<close>

definition turn_id :: "string \<Rightarrow> nat \<Rightarrow> string" where
  "turn_id b n = b @ '':'' @ show_nat n"

lemma turn_id_inj: "turn_id b n = turn_id b' n' \<Longrightarrow> n = n'"
proof -
  have "takeWhile is_digit (rev (turn_id b n)) = rev (show_nat n)" for b n
  proof -
    have "\<not> is_digit (CHR '':'')" by (simp add: is_digit_def char_digit_def less_eq_char_def)
    moreover have "takeWhile is_digit (rev (show_nat n) @ CHR '':'' # rev b)
        = rev (show_nat n) @ takeWhile is_digit (CHR '':'' # rev b)"
      by (rule takeWhile_append2) (simp add: show_nat_digits)
    ultimately show ?thesis by (simp add: turn_id_def)
  qed
  then show "turn_id b n = turn_id b' n' \<Longrightarrow> n = n'" by (metis rev_is_rev_conv show_nat_inject)
qed

lemma turn_id_nonempty [simp]: "turn_id b n \<noteq> []"
  by (simp add: turn_id_def)

end
