(* ===== verification/Json.thy ===== *)
theory Json
  imports Prelude
begin

text \<open>
  The part of Go's \<open>encoding/json\<close> the sources use: a tree of JSON values, the compact
  text \<open>json.Marshal\<close> writes for it and the reader \<open>json.Unmarshal\<close>, with the
  theorem that reading back what was written gives the tree again. The trees also stand for
  Go's \<open>any\<close> in event payloads (\<open>map[string]any\<close>). Numbers are integers; text is
  taken to be UTF-8, whose bytes above ASCII pass through unchanged in both directions.
\<close>

datatype json =
    JNull
  | JBool bool
  | JNum int
  | JStr string
  | JArr "json list"
  | JObj "(string \<times> json) list"

type_synonym any = json
type_synonym payload = "any gomap"

abbreviation quote_char :: char where "quote_char \<equiv> CHR 0x22"
abbreviation backslash :: char where "backslash \<equiv> CHR 0x5C"
abbreviation newline :: char where "newline \<equiv> CHR 0x0A"

section \<open>Writing\<close>

definition hex_char :: "nat \<Rightarrow> char" where
  "hex_char d = (if d < 10 then char_of (48 + d) else char_of (87 + d))"

definition short_escape :: "char \<Rightarrow> char option" where
  "short_escape c =
     (if c = quote_char \<or> c = backslash then Some c
      else if c = CHR 0x08 then Some (CHR ''b'')
      else if c = CHR 0x0C then Some (CHR ''f'')
      else if c = CHR 0x0A then Some (CHR ''n'')
      else if c = CHR 0x0D then Some (CHR ''r'')
      else if c = CHR 0x09 then Some (CHR ''t'')
      else None)"

definition long_escape :: "char \<Rightarrow> bool" where
  "long_escape c \<longleftrightarrow> c < CHR 0x20 \<or> c = CHR ''<'' \<or> c = CHR ''>'' \<or> c = CHR ''&''"

definition esc_char :: "char \<Rightarrow> string" where
  "esc_char c =
     (case short_escape c of
        Some e \<Rightarrow> [backslash, e]
      | None \<Rightarrow>
          if long_escape c
          then [backslash, CHR ''u'', CHR ''0'', CHR ''0'',
                hex_char (of_char c div 16), hex_char (of_char c mod 16)]
          else [c])"

definition write_string :: "string \<Rightarrow> string" where
  "write_string s = quote_char # concat (map esc_char s) @ [quote_char]"

fun marshal :: "json \<Rightarrow> string" where
  "marshal JNull = ''null''"
| "marshal (JBool b) = (if b then ''true'' else ''false'')"
| "marshal (JNum i) = show_int i"
| "marshal (JStr s) = write_string s"
| "marshal (JArr vs) = CHR ''['' # JoinBytes '','' (map marshal vs) @ '']''"
| "marshal (JObj fs) =
     CHR ''{'' # JoinBytes '',''
       (map (\<lambda>f. write_string (fst f) @ CHR '':'' # marshal (snd f)) fs) @ ''}''"

section \<open>Reading\<close>

definition json_space :: "char \<Rightarrow> bool" where
  "json_space c \<longleftrightarrow> c = CHR '' '' \<or> c = CHR 0x09 \<or> c = CHR 0x0A \<or> c = CHR 0x0D"

definition skip_ws :: "string \<Rightarrow> string" where
  "skip_ws s = dropWhile json_space s"

definition hex_digit :: "char \<Rightarrow> nat option" where
  "hex_digit c =
     (if CHR ''0'' \<le> c \<and> c \<le> CHR ''9'' then Some (of_char c - 48)
      else if CHR ''a'' \<le> c \<and> c \<le> CHR ''f'' then Some (of_char c - 87)
      else if CHR ''A'' \<le> c \<and> c \<le> CHR ''F'' then Some (of_char c - 55)
      else None)"

definition hex4 :: "char \<Rightarrow> char \<Rightarrow> char \<Rightarrow> char \<Rightarrow> nat option" where
  "hex4 a b c d =
     (case (hex_digit a, hex_digit b, hex_digit c, hex_digit d) of
        (Some w, Some x, Some y, Some z) \<Rightarrow> Some (((w * 16 + x) * 16 + y) * 16 + z)
      | _ \<Rightarrow> None)"

text \<open>UTF-8 bytes of a code point below U+10000.\<close>

definition utf8 :: "nat \<Rightarrow> string" where
  "utf8 n =
     (if n < 128 then [char_of n]
      else if n < 2048 then [char_of (192 + n div 64), char_of (128 + n mod 64)]
      else [char_of (224 + n div 4096), char_of (128 + n div 64 mod 64), char_of (128 + n mod 64)])"

definition unesc_char :: "char \<Rightarrow> char option" where
  "unesc_char e =
     (if e = quote_char \<or> e = backslash \<or> e = CHR ''/'' then Some e
      else if e = CHR ''b'' then Some (CHR 0x08)
      else if e = CHR ''f'' then Some (CHR 0x0C)
      else if e = CHR ''n'' then Some (CHR 0x0A)
      else if e = CHR ''r'' then Some (CHR 0x0D)
      else if e = CHR ''t'' then Some (CHR 0x09)
      else None)"

fun read_str :: "string \<Rightarrow> (string \<times> string) option" where
  "read_str [] = None"
| "read_str (c # s) =
     (if c = quote_char then Some ([], s)
      else if c = backslash then
        (case s of
           [] \<Rightarrow> None
         | e # t \<Rightarrow>
             if e = CHR ''u'' then
               (case t of
                  h1 # h2 # h3 # h4 # u \<Rightarrow>
                    (case hex4 h1 h2 h3 h4 of
                       None \<Rightarrow> None
                     | Some n \<Rightarrow> map_option (apfst ((@) (utf8 n))) (read_str u))
                | _ \<Rightarrow> None)
             else
               (case unesc_char e of
                  None \<Rightarrow> None
                | Some d \<Rightarrow> map_option (apfst ((#) d)) (read_str t)))
      else if c < CHR 0x20 then None
      else map_option (apfst ((#) c)) (read_str s))"

definition read_nat :: "string \<Rightarrow> (nat \<times> string) option" where
  "read_nat s =
     (case s of
        [] \<Rightarrow> None
      | c # t \<Rightarrow> if c = CHR ''0'' then Some (0, t)
                 else if is_digit c then Some (read_digits 0 s) else None)"

definition read_int :: "string \<Rightarrow> (int \<times> string) option" where
  "read_int s =
     (case s of
        [] \<Rightarrow> None
      | c # t \<Rightarrow> if c = CHR ''-'' then map_option (apfst (\<lambda>n. - int n)) (read_nat t)
                 else map_option (apfst int) (read_nat s))"

definition read_lit :: "string \<Rightarrow> json \<Rightarrow> string \<Rightarrow> (json \<times> string) option" where
  "read_lit lit v s = (if prefix lit s then Some (v, drop (length lit) s) else None)"

text \<open>
  The reader descends into nested values; its first argument bounds the number of calls and
  \<open>unmarshal\<close> starts it with more than the text can need.
\<close>

fun read_value :: "nat \<Rightarrow> string \<Rightarrow> (json \<times> string) option"
  and read_elems :: "nat \<Rightarrow> string \<Rightarrow> (json list \<times> string) option"
  and read_fields :: "nat \<Rightarrow> string \<Rightarrow> ((string \<times> json) list \<times> string) option" where
  "read_value 0 s = None"
| "read_value (Suc n) s =
     (case skip_ws s of
        [] \<Rightarrow> None
      | c # t \<Rightarrow>
          if c = CHR ''{'' then
            (case skip_ws t of
               [] \<Rightarrow> None
             | d # u \<Rightarrow> if d = CHR ''}'' then Some (JObj [], u)
                        else map_option (apfst JObj) (read_fields n (d # u)))
          else if c = CHR ''['' then
            (case skip_ws t of
               [] \<Rightarrow> None
             | d # u \<Rightarrow> if d = CHR '']'' then Some (JArr [], u)
                        else map_option (apfst JArr) (read_elems n (d # u)))
          else if c = quote_char then map_option (apfst JStr) (read_str t)
          else if c = CHR ''n'' then read_lit ''null'' JNull (c # t)
          else if c = CHR ''t'' then read_lit ''true'' (JBool True) (c # t)
          else if c = CHR ''f'' then read_lit ''false'' (JBool False) (c # t)
          else map_option (apfst JNum) (read_int (c # t)))"
| "read_elems 0 s = None"
| "read_elems (Suc n) s =
     (case read_value n s of
        None \<Rightarrow> None
      | Some (v, t) \<Rightarrow>
          (case skip_ws t of
             [] \<Rightarrow> None
           | c # u \<Rightarrow> if c = CHR '','' then map_option (apfst ((#) v)) (read_elems n u)
                      else if c = CHR '']'' then Some ([v], u)
                      else None))"
| "read_fields 0 s = None"
| "read_fields (Suc n) s =
     (case skip_ws s of
        [] \<Rightarrow> None
      | q # s1 \<Rightarrow>
          if q \<noteq> quote_char then None
          else (case read_str s1 of
             None \<Rightarrow> None
           | Some (k, s2) \<Rightarrow>
               (case skip_ws s2 of
                  [] \<Rightarrow> None
                | col # s3 \<Rightarrow>
                    if col \<noteq> CHR '':'' then None
                    else (case read_value n s3 of
                       None \<Rightarrow> None
                     | Some (v, t) \<Rightarrow>
                         (case skip_ws t of
                            [] \<Rightarrow> None
                          | c # u \<Rightarrow>
                              if c = CHR '','' then map_option (apfst ((#) (k, v))) (read_fields n u)
                              else if c = CHR ''}'' then Some ([(k, v)], u)
                              else None)))))"

definition unmarshal :: "string \<Rightarrow> json option" where
  "unmarshal s =
     (case read_value (Suc (length s)) s of
        None \<Rightarrow> None
      | Some (v, r) \<Rightarrow> if skip_ws r = [] then Some v else None)"

section \<open>Reading back what was written\<close>

lemma hex_digit_hex_char: "d < 16 \<Longrightarrow> hex_digit (hex_char d) = Some d"
  by (auto simp: hex_digit_def hex_char_def less_eq_char_def)

lemma hex4_esc:
  assumes "n < 128"
  shows "hex4 (CHR ''0'') (CHR ''0'') (hex_char (n div 16)) (hex_char (n mod 16)) = Some n"
proof -
  have "hex_digit (CHR ''0'') = Some 0" by (simp add: hex_digit_def less_eq_char_def)
  moreover from assms have "n div 16 < 16" and "n mod 16 < 16" by auto
  ultimately show ?thesis by (simp add: hex4_def hex_digit_hex_char)
qed

lemma read_str_u_escape:
  assumes "of_char c < (128 :: nat)"
  shows "read_str (backslash # CHR ''u'' # CHR ''0'' # CHR ''0'' # hex_char (of_char c div 16)
           # hex_char (of_char c mod 16) # s) = map_option (apfst ((#) c)) (read_str s)"
proof -
  have "utf8 (of_char c) = [c]" using assms by (simp add: utf8_def)
  moreover have "((@) [c]) = ((#) c)" by (simp add: fun_eq_iff)
  ultimately show ?thesis by (simp add: hex4_esc [OF assms])
qed

lemma read_str_short_escape:
  "unesc_char e = Some c \<Longrightarrow> e \<noteq> CHR ''u'' \<Longrightarrow>
   read_str (backslash # e # s) = map_option (apfst ((#) c)) (read_str s)"
  by simp

lemma unesc_short_escape: "short_escape c = Some e \<Longrightarrow> unesc_char e = Some c \<and> e \<noteq> CHR ''u''"
  by (auto simp: short_escape_def unesc_char_def split: if_splits)

lemma plain_char: "short_escape c = None \<Longrightarrow> \<not> long_escape c \<Longrightarrow>
    c \<noteq> quote_char \<and> c \<noteq> backslash \<and> \<not> c < CHR 0x20"
  by (auto simp: short_escape_def long_escape_def split: if_splits)

lemma long_escape_ascii: "long_escape c \<Longrightarrow> of_char c < (128 :: nat)"
  by (auto simp: long_escape_def less_char_def)

lemma read_str_esc_char:
  "read_str (esc_char c @ s) = map_option (apfst ((#) c)) (read_str s)"
proof (cases "short_escape c")
  case (Some e)
  then show ?thesis
    using unesc_short_escape [OF Some]
    by (simp add: esc_char_def read_str_short_escape del: read_str.simps)
next
  case None
  show ?thesis
  proof (cases "long_escape c")
    case True
    with None show ?thesis
      by (simp add: esc_char_def read_str_u_escape long_escape_ascii del: read_str.simps)
  next
    case False
    with None plain_char [OF None False] show ?thesis by (simp add: esc_char_def)
  qed
qed

lemma read_str_escaped: "read_str (concat (map esc_char s) @ quote_char # r) = Some (s, r)"
proof (induction s)
  case (Cons c s)
  then show ?case using read_str_esc_char [of c "concat (map esc_char s) @ quote_char # r"] by simp
qed simp

lemma digit_char_0: "digit_char 0 = CHR ''0''"
  by code_simp

lemma hd_show_nat_zero: "hd (show_nat n) = CHR ''0'' \<longleftrightarrow> n = 0"
proof (induction n rule: show_nat.induct)
  case (1 n)
  show ?case
  proof (cases "n < 10")
    case True
    then have "digit_char n = digit_char 0 \<longleftrightarrow> n = 0"
      by (metis char_digit_digit_char option.inject zero_less_numeral)
    with True show ?thesis by (subst show_nat.simps) (simp add: digit_char_0)
  next
    case False
    with 1 show ?thesis by (subst show_nat.simps) (simp add: div_eq_0_iff)
  qed
qed

lemma read_nat_show_nat: "stops_digits r \<Longrightarrow> read_nat (show_nat n @ r) = Some (n, r)"
proof (cases "n = 0")
  case True
  then have "show_nat n = ''0''" by (subst show_nat.simps) (simp add: digit_char_0)
  then show ?thesis by (simp add: read_nat_def True)
next
  case False
  assume r: "stops_digits r"
  obtain c t where s: "show_nat n = c # t" by (cases "show_nat n") auto
  with False hd_show_nat_zero [of n] have "c \<noteq> CHR ''0''" by simp
  moreover have "is_digit c" using s show_nat_digits [of c n] by simp
  ultimately show ?thesis
    using read_digits_show_nat [OF r, of n] by (simp add: read_nat_def s)
qed

lemma digit_bounds: "is_digit c \<longleftrightarrow> CHR ''0'' \<le> c \<and> c \<le> CHR ''9''"
  by (simp add: is_digit_def char_digit_def)

lemma hd_show_nat_digit: "show_nat n = c # t \<Longrightarrow> is_digit c"
  using show_nat_digits [of c n] by simp

lemma read_int_show_int: "stops_digits r \<Longrightarrow> read_int (show_int i @ r) = Some (i, r)"
proof -
  assume r: "stops_digits r"
  obtain c t where s: "show_nat (nat i) = c # t" by (cases "show_nat (nat i)") auto
  then have "c \<noteq> CHR ''-''"
    using hd_show_nat_digit [OF s] by (auto simp: digit_bounds less_eq_char_def)
  then show ?thesis
    using read_nat_show_nat [OF r, of "nat i"] read_nat_show_nat [OF r, of "nat (- i)"] s
    by (auto simp: read_int_def show_int_def)
qed

text \<open>How many nested calls a value takes, and that its text is at least that long.\<close>

fun need :: "json \<Rightarrow> nat" where
  "need (JArr vs) = Suc (sum_list (map (\<lambda>v. Suc (need v)) vs))"
| "need (JObj fs) = Suc (sum_list (map (\<lambda>f. Suc (need (snd f))) fs))"
| "need _ = 1"

lemma length_JoinBytes_ge:
  "sum_list (map length ps) + length ps \<le> Suc (length (JoinBytes '','' ps))"
  by (induction "('','' :: string)" ps rule: JoinBytes.induct) auto

lemma sum_list_Suc_mono:
  "(\<And>x. x \<in> set xs \<Longrightarrow> f x \<le> length (g x)) \<Longrightarrow>
   sum_list (map (\<lambda>x. Suc (f x)) xs) \<le> sum_list (map length (map g xs)) + length xs"
proof (induction xs)
  case (Cons x xs)
  have "f x \<le> length (g x)" using Cons.prems by simp
  moreover have "sum_list (map (\<lambda>x. Suc (f x)) xs) \<le> sum_list (map length (map g xs)) + length xs"
    using Cons.prems by (intro Cons.IH) simp
  ultimately show ?case by simp
qed simp

lemma need_le_length: "need j \<le> length (marshal j)"
proof (induction j rule: need.induct)
  case (1 vs)
  then show ?case
    using sum_list_Suc_mono [of vs need marshal] length_JoinBytes_ge [of "map marshal vs"] by simp
next
  case (2 fs)
  let ?g = "\<lambda>f. write_string (fst f) @ CHR '':'' # marshal (snd f)"
  have "need (snd f) \<le> length (?g f)" if "f \<in> set fs" for f
    using 2 [OF that] by simp
  then show ?case
    using sum_list_Suc_mono [of fs "\<lambda>f. need (snd f)" ?g] length_JoinBytes_ge [of "map ?g fs"] by simp
qed (auto simp: write_string_def show_int_def Suc_le_eq)

text \<open>Every text starts with a character that is no JSON space.\<close>

lemma marshal_head:
  obtains c t where "marshal j = c # t" and "\<not> json_space c" and "c \<noteq> CHR '']''" and "c \<noteq> CHR ''}''"
proof (cases j)
  case (JNum i)
  obtain c t where s: "show_nat (nat i) = c # t" by (cases "show_nat (nat i)") auto
  from hd_show_nat_digit [OF s] have "\<not> json_space c" "c \<noteq> CHR '']''" "c \<noteq> CHR ''}''"
    by (auto simp: digit_bounds json_space_def less_eq_char_def)
  with s that JNum show ?thesis
    by (cases "i < 0") (auto simp: show_int_def json_space_def)
next
  case (JBool b)
  with that show ?thesis by (cases b) (auto simp: json_space_def)
qed (use that in \<open>auto simp: write_string_def json_space_def split: if_splits\<close>)

lemma skip_ws_id: "\<not> json_space c \<Longrightarrow> skip_ws (c # t) = c # t"
  by (simp add: skip_ws_def)

lemma skip_ws_structural [simp]:
  "skip_ws (CHR '','' # s) = CHR '','' # s"
  "skip_ws (CHR '']'' # s) = CHR '']'' # s"
  "skip_ws (CHR ''}'' # s) = CHR ''}'' # s"
  "skip_ws (CHR '':'' # s) = CHR '':'' # s"
  "skip_ws (quote_char # s) = quote_char # s"
  by (auto simp: skip_ws_def json_space_def)

lemma stops_structural [simp]:
  "stops_digits (CHR '','' # s)" "stops_digits (CHR '']'' # s)" "stops_digits (CHR ''}'' # s)"
  "stops_digits (newline # s)" "stops_digits []"
  by (auto simp: stops_digits_def digit_bounds less_eq_char_def)

definition reads_back :: "json \<Rightarrow> bool" where
  "reads_back v \<longleftrightarrow>
     (\<forall>n r. need v \<le> n \<longrightarrow> stops_digits r \<longrightarrow> read_value n (marshal v @ r) = Some (v, r))"

lemma read_elems_joined:
  assumes "\<And>v. v \<in> set vs \<Longrightarrow> reads_back v" and "vs \<noteq> []"
    and "sum_list (map (\<lambda>v. Suc (need v)) vs) \<le> n"
  shows "read_elems n (JoinBytes '','' (map marshal vs) @ CHR '']'' # r) = Some (vs, r)"
  using assms
proof (induction vs arbitrary: n)
  case (Cons v vs)
  then obtain m where n: "n = Suc m" and v: "need v \<le> m"
    and vs: "sum_list (map (\<lambda>v. Suc (need v)) vs) \<le> m"
    by (cases n) auto
  from Cons.prems(1) have rb: "reads_back v" by simp
  show ?case
  proof (cases vs)
    case Nil
    with rb v n show ?thesis by (simp add: reads_back_def)
  next
    case (Cons w ws)
    then have "read_elems m (JoinBytes '','' (map marshal vs) @ CHR '']'' # r) = Some (vs, r)"
      using Cons.IH Cons.prems(1) vs by simp
    with Cons rb v n show ?thesis by (simp add: reads_back_def)
  qed
qed simp

lemma read_fields_joined:
  assumes "\<And>f. f \<in> set fs \<Longrightarrow> reads_back (snd f)" and "fs \<noteq> []"
    and "sum_list (map (\<lambda>f. Suc (need (snd f))) fs) \<le> n"
  shows "read_fields n (JoinBytes '',''
      (map (\<lambda>f. write_string (fst f) @ CHR '':'' # marshal (snd f)) fs) @ CHR ''}'' # r) = Some (fs, r)"
  using assms
proof (induction fs arbitrary: n)
  case (Cons f fs)
  then obtain m where n: "n = Suc m" and f: "need (snd f) \<le> m"
    and fs: "sum_list (map (\<lambda>f. Suc (need (snd f))) fs) \<le> m"
    by (cases n) auto
  from Cons.prems(1) have rb: "reads_back (snd f)" by simp
  show ?case
  proof (cases fs)
    case Nil
    with rb f n show ?thesis
      by (simp add: reads_back_def write_string_def read_str_escaped)
  next
    case (Cons g gs)
    then have "read_fields m (JoinBytes '',''
        (map (\<lambda>f. write_string (fst f) @ CHR '':'' # marshal (snd f)) fs) @ CHR ''}'' # r) = Some (fs, r)"
      using Cons.IH Cons.prems(1) fs by simp
    with Cons rb f n show ?thesis
      by (simp add: reads_back_def write_string_def read_str_escaped)
  qed
qed simp

lemma JoinBytes_head:
  "p \<noteq> [] \<Longrightarrow> \<exists>t. JoinBytes sep (p # ps) = hd p # t"
  by (cases ps) (auto simp: neq_Nil_conv)

lemma reads_back_arr:
  assumes "\<And>v. v \<in> set vs \<Longrightarrow> reads_back v"
  shows "reads_back (JArr vs)"
  unfolding reads_back_def
proof (intro allI impI)
  fix n r assume n: "need (JArr vs) \<le> n" and r: "stops_digits r"
  from n obtain m where m: "n = Suc m" "sum_list (map (\<lambda>v. Suc (need v)) vs) \<le> m"
    by (cases n) auto
  show "read_value n (marshal (JArr vs) @ r) = Some (JArr vs, r)"
  proof (cases vs)
    case Nil
    with m show ?thesis by (simp add: skip_ws_id json_space_def)
  next
    case (Cons v ws)
    obtain c t where ct: "marshal v = c # t" "\<not> json_space c" "c \<noteq> CHR '']''"
      using marshal_head by metis
    let ?body = "JoinBytes '','' (map marshal vs) @ CHR '']'' # r"
    obtain u where u: "?body = c # u"
      using JoinBytes_head [of "marshal v" "'',''" "map marshal ws"] ct Cons by auto
    have "read_elems m ?body = Some (vs, r)"
      using assms m Cons by (intro read_elems_joined) auto
    with u ct m show ?thesis by (simp add: skip_ws_id json_space_def)
  qed
qed

lemma reads_back_obj:
  assumes "\<And>f. f \<in> set fs \<Longrightarrow> reads_back (snd f)"
  shows "reads_back (JObj fs)"
  unfolding reads_back_def
proof (intro allI impI)
  fix n r assume n: "need (JObj fs) \<le> n" and r: "stops_digits r"
  from n obtain m where m: "n = Suc m" "sum_list (map (\<lambda>f. Suc (need (snd f))) fs) \<le> m"
    by (cases n) auto
  show "read_value n (marshal (JObj fs) @ r) = Some (JObj fs, r)"
  proof (cases fs)
    case Nil
    with m show ?thesis by (simp add: skip_ws_id json_space_def)
  next
    case (Cons f gs)
    let ?g = "\<lambda>f. write_string (fst f) @ CHR '':'' # marshal (snd f)"
    let ?body = "JoinBytes '','' (map ?g fs) @ CHR ''}'' # r"
    obtain u where u: "?body = quote_char # u"
      using JoinBytes_head [of "?g f" "'',''" "map ?g gs"] Cons by (auto simp: write_string_def)
    have "read_fields m ?body = Some (fs, r)"
      using assms m Cons by (intro read_fields_joined) auto
    with u m show ?thesis by (simp add: skip_ws_id json_space_def)
  qed
qed

lemma reads_back_num: "reads_back (JNum i)"
  unfolding reads_back_def
proof (intro allI impI)
  fix n r assume n: "need (JNum i) \<le> n" and r: "stops_digits r"
  from n obtain m where m: "n = Suc m" by (cases n) auto
  obtain d u where d: "show_nat (nat \<bar>i\<bar>) = d # u" by (cases "show_nat (nat \<bar>i\<bar>)") auto
  then have "is_digit d" by (rule hd_show_nat_digit)
  moreover obtain c t where ct: "show_int i = c # t" and c: "c = CHR ''-'' \<or> c = d"
    using d by (cases "i < 0") (auto simp: show_int_def)
  ultimately have "\<not> json_space c" "c \<noteq> CHR ''{''" "c \<noteq> CHR ''[''" "c \<noteq> quote_char"
      "c \<noteq> CHR ''n''" "c \<noteq> CHR ''t''" "c \<noteq> CHR ''f''"
    by (auto simp: digit_bounds json_space_def less_eq_char_def)
  with ct m read_int_show_int [OF r, of i] show "read_value n (marshal (JNum i) @ r) = Some (JNum i, r)"
    by (simp add: skip_ws_id)
qed

lemma reads_back_atom:
  "reads_back JNull" "reads_back (JBool b)" "reads_back (JStr s)"
  unfolding reads_back_def
  by (auto simp: Suc_le_eq gr0_conv_Suc skip_ws_id json_space_def read_lit_def write_string_def
      read_str_escaped)

lemma reads_back_all: "reads_back v"
proof (induction v)
  case (JArr vs)
  then show ?case by (rule reads_back_arr)
next
  case (JObj fs)
  then show ?case
    by (intro reads_back_obj) (auto simp: snds.simps fsts.simps intro: snds.intros)
qed (simp_all add: reads_back_atom reads_back_num)

lemma unmarshal_marshal_ws:
  assumes "stops_digits r" and "skip_ws r = []"
  shows "unmarshal (marshal v @ r) = Some v"
proof -
  have "need v \<le> Suc (length (marshal v @ r))" using need_le_length [of v] by simp
  with reads_back_all [of v] assms have
    "read_value (Suc (length (marshal v @ r))) (marshal v @ r) = Some (v, r)"
    unfolding reads_back_def by blast
  with assms(2) show ?thesis by (simp add: unmarshal_def)
qed

lemma unmarshal_marshal [simp]: "unmarshal (marshal v) = Some v"
  using unmarshal_marshal_ws [of "[]" v] by (simp add: skip_ws_def)

lemma unmarshal_marshal_line [simp]: "unmarshal (marshal v @ [newline]) = Some v"
  by (rule unmarshal_marshal_ws) (auto simp: skip_ws_def json_space_def)

lemma marshal_inject [simp]: "marshal v = marshal w \<longleftrightarrow> v = w"
  by (metis option.inject unmarshal_marshal)

section \<open>Written text is one line\<close>

lemma hex_char_ge: "d < 16 \<Longrightarrow> CHR 0x20 \<le> hex_char d"
  by (auto simp: hex_char_def less_eq_char_def)

lemma esc_char_printable: "x \<in> set (esc_char c) \<Longrightarrow> CHR 0x20 \<le> x"
proof (cases "short_escape c")
  case (Some e)
  then have "CHR 0x20 \<le> e"
    by (auto simp: short_escape_def less_eq_char_def split: if_splits)
  moreover assume "x \<in> set (esc_char c)"
  ultimately show ?thesis using Some by (auto simp: esc_char_def less_eq_char_def)
next
  case None
  assume x: "x \<in> set (esc_char c)"
  show ?thesis
  proof (cases "long_escape c")
    case True
    then have "of_char c div 16 < (16 :: nat)" using long_escape_ascii [OF True] by simp
    with True None x show ?thesis
      by (auto simp: esc_char_def hex_char_ge)
  next
    case False
    with None x show ?thesis by (auto simp: esc_char_def long_escape_def)
  qed
qed

lemma write_string_printable: "x \<in> set (write_string s) \<Longrightarrow> CHR 0x20 \<le> x"
  using esc_char_printable by (auto simp: write_string_def less_eq_char_def)

lemma show_int_printable: "x \<in> set (show_int i) \<Longrightarrow> CHR 0x20 \<le> x"
  using show_nat_digits
  by (auto simp: show_int_def digit_bounds less_eq_char_def split: if_splits) fastforce+

lemma set_JoinBytes: "set (JoinBytes sep ps) \<subseteq> set sep \<union> \<Union> (set (map set ps))"
  by (induction sep ps rule: JoinBytes.induct) auto

lemma marshal_printable: "x \<in> set (marshal v) \<Longrightarrow> CHR 0x20 \<le> x"
proof (induction v arbitrary: x)
  case (JArr vs)
  then have "x \<in> {CHR ''['', CHR '','', CHR '']''} \<or> (\<exists>v \<in> set vs. x \<in> set (marshal v))"
    using set_JoinBytes [of "'',''" "map marshal vs"] by auto
  with JArr.IH show ?case by (auto simp: less_eq_char_def)
next
  case (JObj fs)
  let ?g = "\<lambda>f. write_string (fst f) @ CHR '':'' # marshal (snd f)"
  from JObj.prems have "x \<in> {CHR ''{'', CHR '','', CHR ''}'', CHR '':''}
      \<or> (\<exists>f \<in> set fs. x \<in> set (write_string (fst f)) \<or> x \<in> set (marshal (snd f)))"
    using set_JoinBytes [of "'',''" "map ?g fs"] by (auto split: if_splits)
  with JObj.IH write_string_printable show ?case
    by (auto simp: less_eq_char_def intro: snds.intros)
next
  case (JNum i)
  then show ?case using show_int_printable by simp
next
  case (JStr s)
  then show ?case using write_string_printable by simp
qed (auto simp: less_eq_char_def split: if_splits)

lemma marshal_no_newline [simp]: "newline \<notin> set (marshal v)"
  using marshal_printable [of newline v] by (auto simp: less_eq_char_def)

lemma marshal_nonempty [simp]: "marshal v \<noteq> []"
  using marshal_head [of v] by (metis list.discI)

section \<open>Values as Go reads them\<close>

text \<open>
  \<open>json.Unmarshal\<close> into a \<open>map[string]any\<close>: an object becomes a map (a repeated key
  keeps its last value) and \<open>null\<close> leaves the map nil; anything else is an error. Nested
  objects become maps too, so writing such a value again orders its keys (\<open>canon\<close>).
\<close>

fun canon :: "json \<Rightarrow> json" where
  "canon (JArr vs) = JArr (map canon vs)"
| "canon (JObj fs) = JObj (map_copy [] (map (\<lambda>f. (fst f, canon (snd f))) fs))"
| "canon v = v"

definition decode_map :: "string \<Rightarrow> payload option" where
  "decode_map raw =
     (case unmarshal raw of
        Some (JObj fs) \<Rightarrow> (case canon (JObj fs) of JObj m \<Rightarrow> Some m | _ \<Rightarrow> None)
      | Some JNull \<Rightarrow> Some []
      | _ \<Rightarrow> None)"

text \<open>\<open>v, _ := data[key].(string)\<close> and \<open>data[key].(map[string]any)\<close>.\<close>

definition str_at :: "payload \<Rightarrow> string \<Rightarrow> string" where
  "str_at m k = (case map_of m k of Some (JStr s) \<Rightarrow> s | _ \<Rightarrow> [])"

definition obj_at :: "payload \<Rightarrow> string \<Rightarrow> payload" where
  "obj_at m k = (case map_of m k of Some (JObj fs) \<Rightarrow> fs | _ \<Rightarrow> [])"

definition any_at :: "payload \<Rightarrow> string \<Rightarrow> any" where
  "any_at m k = (case map_of m k of Some v \<Rightarrow> v | None \<Rightarrow> JNull)"

end
