(* ===== verification/Host_Types.thy ===== *)
theory Host_Types
  imports Json
begin

text \<open>
  The provider-neutral data model of \<open>src/host/types.go\<close>: backends, requests, events and
  interactions, each Go struct as a record with its fields in the source's order, each closed
  set of constants as a datatype. The JSON forms that are written to and read from journal
  records (struct tags, \<open>omitempty\<close>) are given with their round trips.
\<close>

named_theorems codec_simps \<open>reading a JSON object field by field\<close>

section \<open>Struct fields as JSON\<close>

text \<open>
  Writing a struct emits its fields in order, leaving out an empty field tagged
  \<open>omitempty\<close>; reading one takes the last occurrence of each key, treats a missing key or
  \<open>null\<close> as the zero value and fails on a value of the wrong kind.
\<close>

definition sget :: "(string \<times> json) list \<Rightarrow> string \<Rightarrow> json option" where
  "sget fs k = map_of (rev fs) k"

definition opt_str :: "string \<Rightarrow> string \<Rightarrow> (string \<times> json) list" where
  "opt_str k s = (if s = [] then [] else [(k, JStr s)])"

definition opt_bool :: "string \<Rightarrow> bool \<Rightarrow> (string \<times> json) list" where
  "opt_bool k b = (if b then [(k, JBool True)] else [])"

definition opt_list :: "string \<Rightarrow> json list \<Rightarrow> (string \<times> json) list" where
  "opt_list k vs = (if vs = [] then [] else [(k, JArr vs)])"

definition opt_map :: "string \<Rightarrow> payload \<Rightarrow> (string \<times> json) list" where
  "opt_map k m = (if m = [] then [] else [(k, JObj m)])"

definition get_str :: "(string \<times> json) list \<Rightarrow> string \<Rightarrow> string option" where
  "get_str fs k =
     (case sget fs k of
        None \<Rightarrow> Some [] | Some JNull \<Rightarrow> Some [] | Some (JStr s) \<Rightarrow> Some s | _ \<Rightarrow> None)"

definition get_bool :: "(string \<times> json) list \<Rightarrow> string \<Rightarrow> bool option" where
  "get_bool fs k =
     (case sget fs k of
        None \<Rightarrow> Some False | Some JNull \<Rightarrow> Some False | Some (JBool b) \<Rightarrow> Some b | _ \<Rightarrow> None)"

definition get_int :: "(string \<times> json) list \<Rightarrow> string \<Rightarrow> int option" where
  "get_int fs k =
     (case sget fs k of
        None \<Rightarrow> Some 0 | Some JNull \<Rightarrow> Some 0 | Some (JNum i) \<Rightarrow> Some i | _ \<Rightarrow> None)"

definition get_list :: "(string \<times> json) list \<Rightarrow> string \<Rightarrow> json list option" where
  "get_list fs k =
     (case sget fs k of
        None \<Rightarrow> Some [] | Some JNull \<Rightarrow> Some [] | Some (JArr vs) \<Rightarrow> Some vs | _ \<Rightarrow> None)"

definition get_map :: "(string \<times> json) list \<Rightarrow> string \<Rightarrow> payload option" where
  "get_map fs k =
     (case sget fs k of
        None \<Rightarrow> Some []
      | Some JNull \<Rightarrow> Some []
      | Some (JObj m) \<Rightarrow> (case canon (JObj m) of JObj m' \<Rightarrow> Some m' | _ \<Rightarrow> None)
      | _ \<Rightarrow> None)"

fun map_all :: "('a \<Rightarrow> 'b option) \<Rightarrow> 'a list \<Rightarrow> 'b list option" where
  "map_all f [] = Some []"
| "map_all f (x # xs) =
     (case f x of None \<Rightarrow> None | Some y \<Rightarrow> map_option ((#) y) (map_all f xs))"

lemma map_all_map: "(\<And>x. x \<in> set xs \<Longrightarrow> f (g x) = Some x) \<Longrightarrow> map_all f (map g xs) = Some xs"
  by (induction xs) auto

lemma sget_append [codec_simps]:
  "sget (a @ b) k = (case sget b k of None \<Rightarrow> sget a k | Some v \<Rightarrow> Some v)"
  by (simp add: sget_def map_add_def split: option.splits)

lemma sget_fields [codec_simps]:
  "sget [] k = None"
  "sget (opt_str j s) k = (if k = j \<and> s \<noteq> [] then Some (JStr s) else None)"
  "sget (opt_bool j b) k = (if k = j \<and> b then Some (JBool True) else None)"
  "sget (opt_list j vs) k = (if k = j \<and> vs \<noteq> [] then Some (JArr vs) else None)"
  "sget (opt_map j m) k = (if k = j \<and> m \<noteq> [] then Some (JObj m) else None)"
  by (simp_all add: sget_def opt_str_def opt_bool_def opt_list_def opt_map_def)

lemma sget_Cons [codec_simps]:
  "sget ((j, v) # fs) k =
     (case sget fs k of None \<Rightarrow> (if k = j then Some v else None) | Some w \<Rightarrow> Some w)"
  by (simp add: sget_def map_add_def split: option.splits)

text \<open>A payload in the form reading gives it back: keys in order at every level.\<close>

definition canonical :: "payload \<Rightarrow> bool" where
  "canonical m \<longleftrightarrow> canon (JObj m) = JObj m"

lemma canonical_Nil [simp]: "canonical []"
  by (simp add: canonical_def map_copy_def)

section \<open>Backends, sessions and configurations (types.go 8--74)\<close>

type_synonym Backend = string

record BackendStatus =
  st_Backend :: Backend
  st_Available :: bool
  st_Command :: string
  st_Version :: string
  st_Error :: string

record BackendPermissionMode =
  pm_ID :: string
  pm_Label :: string
  pm_Description :: string

record BackendReasoning =
  re_ID :: string
  re_Label :: string
  re_Description :: string

record BackendSlashCommand =
  sc_Name :: string
  sc_Description :: string
  sc_InputHint :: string

record BackendModel =
  bm_ID :: string
  bm_Label :: string
  bm_Reasoning :: "BackendReasoning list"

record BackendCatalog =
  cat_Models :: "BackendModel list"
  cat_PermissionModes :: "BackendPermissionMode list"
  cat_Reasoning :: "BackendReasoning list"
  cat_SlashCommands :: "BackendSlashCommand list"

record Attachment =
  at_ID :: string
  at_Name :: string
  at_MimeType :: string
  at_Size :: int
  at_DataBase64 :: string
  at_Path :: string

record BackendSession =
  bs_ID :: string
  bs_ThreadID :: string
  bs_TurnID :: string

definition no_backend_session :: BackendSession where
  "no_backend_session = \<lparr>bs_ID = [], bs_ThreadID = [], bs_TurnID = []\<rparr>"

record SessionConfiguration =
  cfg_Model :: string
  cfg_Reasoning :: string
  cfg_PermissionMode :: string

definition no_configuration :: SessionConfiguration where
  "no_configuration = \<lparr>cfg_Model = [], cfg_Reasoning = [], cfg_PermissionMode = []\<rparr>"

section \<open>Event types (types.go 76--103)\<close>

text \<open>
  \<open>EventType\<close> is an open string type in Go. The constants of the source are constructors;
  every other name (a host-owned dotted extension name, or an unknown one) is
  \<open>EventOther\<close>.
\<close>

datatype EventType =
    EventMessage | EventThinking | EventToolStarted | EventToolOutput | EventPermission
  | EventFileChanged | EventTurnStarted | EventTurnComplete | EventTurnFailed | EventProcessExited
  | EventQueueUpdated | EventTraceUpdated | EventAgentStalled | EventAgentRecovered
  | EventAgentResumeFailed | EventPlanUpdate | EventTodoUpdate | EventPermissionModes
  | EventModels | EventReasoningLevels | EventAvailableCommands | EventConfigCatalog
  | EventInteractionRequested | EventInteractionResolved
  | EventOther string

fun event_type_string :: "EventType \<Rightarrow> string" where
  "event_type_string EventMessage = ''message''"
| "event_type_string EventThinking = ''thinking''"
| "event_type_string EventToolStarted = ''tool_started''"
| "event_type_string EventToolOutput = ''tool_output''"
| "event_type_string EventPermission = ''permission_request''"
| "event_type_string EventFileChanged = ''file_changed''"
| "event_type_string EventTurnStarted = ''turn_started''"
| "event_type_string EventTurnComplete = ''turn_completed''"
| "event_type_string EventTurnFailed = ''turn_failed''"
| "event_type_string EventProcessExited = ''process_exited''"
| "event_type_string EventQueueUpdated = ''queue_updated''"
| "event_type_string EventTraceUpdated = ''trace_updated''"
| "event_type_string EventAgentStalled = ''agent_stalled''"
| "event_type_string EventAgentRecovered = ''agent_recovered''"
| "event_type_string EventAgentResumeFailed = ''agent_resume_failed''"
| "event_type_string EventPlanUpdate = ''plan_update''"
| "event_type_string EventTodoUpdate = ''todo_update''"
| "event_type_string EventPermissionModes = ''permission_modes''"
| "event_type_string EventModels = ''models''"
| "event_type_string EventReasoningLevels = ''reasoning_levels''"
| "event_type_string EventAvailableCommands = ''available_commands''"
| "event_type_string EventConfigCatalog = ''config_catalog''"
| "event_type_string EventInteractionRequested = ''interaction_requested''"
| "event_type_string EventInteractionResolved = ''interaction_resolved''"
| "event_type_string (EventOther s) = s"

record ToolDisplay =
  td_ID :: string
  td_Title :: string
  td_Kind :: string
  td_Status :: string
  td_Command :: string
  td_Target :: string

section \<open>Interactions (types.go 114--167)\<close>

datatype InteractionKind =
  InteractionPermission | InteractionChoice | InteractionForm | InteractionPlan | InteractionOther string

fun kind_string :: "InteractionKind \<Rightarrow> string" where
  "kind_string InteractionPermission = ''permission''"
| "kind_string InteractionChoice = ''choice''"
| "kind_string InteractionForm = ''form''"
| "kind_string InteractionPlan = ''plan''"
| "kind_string (InteractionOther s) = s"

definition kind_of_string :: "string \<Rightarrow> InteractionKind" where
  "kind_of_string s =
     (if s = ''permission'' then InteractionPermission
      else if s = ''choice'' then InteractionChoice
      else if s = ''form'' then InteractionForm
      else if s = ''plan'' then InteractionPlan
      else InteractionOther s)"

record InteractionOption =
  io_ID :: string
  io_Label :: string
  io_Description :: string

record InteractionField =
  if_ID :: string
  if_Label :: string
  if_Description :: string
  if_Required :: bool
  if_Options :: "InteractionOption list"
  if_AllowFreeText :: bool

record InteractionRequest =
  ir_ID :: string
  ir_Kind :: InteractionKind
  ir_Title :: string
  ir_Message :: string
  ir_Options :: "InteractionOption list"
  ir_Fields :: "InteractionField list"
  ir_Data :: payload

record InteractionResponse =
  rs_RequestID :: string
  rs_Action :: string
  rs_OptionID :: string
  rs_Message :: string
  rs_Values :: payload

section \<open>Events (types.go 169--193)\<close>

record Event =
  ev_SourceEventID :: string
  ev_SessionID :: string
  ev_Backend :: Backend
  ev_BackendSessionID :: string
  ev_BackendThreadID :: string
  ev_BackendTurnID :: string
  ev_Seq :: int
  ev_Type :: EventType
  ev_Role :: string
  ev_Message :: string
  ev_Data :: payload
  ev_ToolDisplay :: "ToolDisplay option"
  ev_Interaction :: "InteractionRequest option"
  ev_InteractionResponse :: "InteractionResponse option"
  ev_Time :: string
  ev_Local :: payload

definition new_event :: "EventType \<Rightarrow> Event" where
  "new_event ty =
     \<lparr>ev_SourceEventID = [], ev_SessionID = [], ev_Backend = [], ev_BackendSessionID = [],
      ev_BackendThreadID = [], ev_BackendTurnID = [], ev_Seq = 0, ev_Type = ty, ev_Role = [],
      ev_Message = [], ev_Data = [], ev_ToolDisplay = None, ev_Interaction = None,
      ev_InteractionResponse = None, ev_Time = [], ev_Local = []\<rparr>"

definition EventLocalReplay :: string where
  "EventLocalReplay = ''durable-acp.replay''"

definition EventLocalReplayStart :: string where
  "EventLocalReplayStart = ''durable-acp.replay_start''"

text \<open>\<open>event.Local[key] == true\<close>.\<close>

definition local_flag :: "Event \<Rightarrow> string \<Rightarrow> bool" where
  "local_flag e k \<longleftrightarrow> map_of (ev_Local e) k = Some (JBool True)"

section \<open>Requests (types.go 195--253)\<close>

record StartSessionRequest =
  ss_Backend :: Backend
  ss_SessionID :: string
  ss_Worktree :: string
  ss_Prompt :: string
  ss_Ext :: bytes
  ss_Attachments :: "Attachment list"
  ss_Model :: string
  ss_Reasoning :: string
  ss_PermissionMode :: string
  ss_ResumeBackendSessionID :: string

record SendTurnRequest =
  tr_SessionID :: string
  tr_Prompt :: string
  tr_Ext :: bytes
  tr_Attachments :: "Attachment list"
  tr_Model :: string
  tr_Reasoning :: string
  tr_PermissionMode :: string

record ForkMCPEnv =
  fe_Name :: string
  fe_Value :: string

record ForkMCPHTTPHeader =
  fh_Name :: string
  fh_Value :: string

record ForkMCPServer =
  fm_Type :: string
  fm_Name :: string
  fm_Command :: string
  fm_Args :: "string list"
  fm_Env :: "ForkMCPEnv list"
  fm_URL :: string
  fm_Headers :: "ForkMCPHTTPHeader list"

record ForkPromptRequest =
  fp_SessionID :: string
  fp_Prompt :: string
  fp_Instructions :: string
  fp_MCPServers :: "ForkMCPServer list"

record ForkPromptResponse =
  fr_Accepted :: bool

section \<open>JSON forms\<close>

definition enc_backend_session :: "BackendSession \<Rightarrow> json" where
  "enc_backend_session b =
     JObj (opt_str ''id'' (bs_ID b) @ opt_str ''thread_id'' (bs_ThreadID b)
       @ opt_str ''turn_id'' (bs_TurnID b))"

definition dec_backend_session :: "json \<Rightarrow> BackendSession option" where
  "dec_backend_session j =
     (case j of
        JNull \<Rightarrow> Some no_backend_session
      | JObj fs \<Rightarrow>
          (case (get_str fs ''id'', get_str fs ''thread_id'', get_str fs ''turn_id'') of
             (Some i, Some th, Some tu) \<Rightarrow> Some \<lparr>bs_ID = i, bs_ThreadID = th, bs_TurnID = tu\<rparr>
           | _ \<Rightarrow> None)
      | _ \<Rightarrow> None)"

definition enc_configuration :: "SessionConfiguration \<Rightarrow> json" where
  "enc_configuration c =
     JObj (opt_str ''model'' (cfg_Model c) @ opt_str ''reasoning'' (cfg_Reasoning c)
       @ opt_str ''permission_mode'' (cfg_PermissionMode c))"

definition dec_configuration :: "json \<Rightarrow> SessionConfiguration option" where
  "dec_configuration j =
     (case j of
        JNull \<Rightarrow> Some no_configuration
      | JObj fs \<Rightarrow>
          (case (get_str fs ''model'', get_str fs ''reasoning'', get_str fs ''permission_mode'') of
             (Some m, Some r, Some p) \<Rightarrow>
               Some \<lparr>cfg_Model = m, cfg_Reasoning = r, cfg_PermissionMode = p\<rparr>
           | _ \<Rightarrow> None)
      | _ \<Rightarrow> None)"

definition enc_option :: "InteractionOption \<Rightarrow> json" where
  "enc_option q =
     JObj ([(''id'', JStr (io_ID q))] @ opt_str ''label'' (io_Label q)
       @ opt_str ''description'' (io_Description q))"

definition dec_option :: "json \<Rightarrow> InteractionOption option" where
  "dec_option j =
     (case j of
        JNull \<Rightarrow> Some \<lparr>io_ID = [], io_Label = [], io_Description = []\<rparr>
      | JObj fs \<Rightarrow>
          (case (get_str fs ''id'', get_str fs ''label'', get_str fs ''description'') of
             (Some i, Some l, Some d) \<Rightarrow> Some \<lparr>io_ID = i, io_Label = l, io_Description = d\<rparr>
           | _ \<Rightarrow> None)
      | _ \<Rightarrow> None)"

definition enc_field :: "InteractionField \<Rightarrow> json" where
  "enc_field q =
     JObj ([(''id'', JStr (if_ID q))] @ opt_str ''label'' (if_Label q)
       @ opt_str ''description'' (if_Description q) @ opt_bool ''required'' (if_Required q)
       @ opt_list ''options'' (map enc_option (if_Options q))
       @ opt_bool ''allow_free_text'' (if_AllowFreeText q))"

definition dec_options :: "json list option \<Rightarrow> InteractionOption list option" where
  "dec_options vs = (case vs of None \<Rightarrow> None | Some vs \<Rightarrow> map_all dec_option vs)"

definition dec_field :: "json \<Rightarrow> InteractionField option" where
  "dec_field j =
     (case j of
        JNull \<Rightarrow> Some \<lparr>if_ID = [], if_Label = [], if_Description = [], if_Required = False,
                       if_Options = [], if_AllowFreeText = False\<rparr>
      | JObj fs \<Rightarrow>
          (case (get_str fs ''id'', get_str fs ''label'', get_str fs ''description'',
                 get_bool fs ''required'', dec_options (get_list fs ''options''),
                 get_bool fs ''allow_free_text'') of
             (Some i, Some l, Some d, Some r, Some os, Some a) \<Rightarrow>
               Some \<lparr>if_ID = i, if_Label = l, if_Description = d, if_Required = r,
                     if_Options = os, if_AllowFreeText = a\<rparr>
           | _ \<Rightarrow> None)
      | _ \<Rightarrow> None)"

definition dec_fields :: "json list option \<Rightarrow> InteractionField list option" where
  "dec_fields vs = (case vs of None \<Rightarrow> None | Some vs \<Rightarrow> map_all dec_field vs)"

definition enc_interaction :: "InteractionRequest \<Rightarrow> json" where
  "enc_interaction q =
     JObj ([(''id'', JStr (ir_ID q)), (''kind'', JStr (kind_string (ir_Kind q)))]
       @ opt_str ''title'' (ir_Title q) @ opt_str ''message'' (ir_Message q)
       @ opt_list ''options'' (map enc_option (ir_Options q))
       @ opt_list ''fields'' (map enc_field (ir_Fields q)) @ opt_map ''data'' (ir_Data q))"

definition dec_interaction :: "json \<Rightarrow> InteractionRequest option" where
  "dec_interaction j =
     (case j of
        JObj fs \<Rightarrow>
          (case (get_str fs ''id'', get_str fs ''kind'', get_str fs ''title'', get_str fs ''message'',
                 dec_options (get_list fs ''options''), dec_fields (get_list fs ''fields''),
                 get_map fs ''data'') of
             (Some i, Some k, Some t, Some m, Some os, Some qs, Some d) \<Rightarrow>
               Some \<lparr>ir_ID = i, ir_Kind = kind_of_string k, ir_Title = t, ir_Message = m,
                     ir_Options = os, ir_Fields = qs, ir_Data = d\<rparr>
           | _ \<Rightarrow> None)
      | _ \<Rightarrow> None)"

definition enc_response :: "InteractionResponse \<Rightarrow> json" where
  "enc_response q =
     JObj ([(''request_id'', JStr (rs_RequestID q)), (''action'', JStr (rs_Action q))]
       @ opt_str ''option_id'' (rs_OptionID q) @ opt_str ''message'' (rs_Message q)
       @ opt_map ''values'' (rs_Values q))"

definition dec_response :: "json \<Rightarrow> InteractionResponse option" where
  "dec_response j =
     (case j of
        JObj fs \<Rightarrow>
          (case (get_str fs ''request_id'', get_str fs ''action'', get_str fs ''option_id'',
                 get_str fs ''message'', get_map fs ''values'') of
             (Some i, Some a, Some op, Some m, Some vs) \<Rightarrow>
               Some \<lparr>rs_RequestID = i, rs_Action = a, rs_OptionID = op, rs_Message = m, rs_Values = vs\<rparr>
           | _ \<Rightarrow> None)
      | _ \<Rightarrow> None)"

text \<open>What a value needs so that its JSON form determines it.\<close>

definition kind_wf :: "InteractionKind \<Rightarrow> bool" where
  "kind_wf k \<longleftrightarrow> kind_of_string (kind_string k) = k"

definition interaction_wf :: "InteractionRequest \<Rightarrow> bool" where
  "interaction_wf q \<longleftrightarrow> kind_wf (ir_Kind q) \<and> canonical (ir_Data q)"

lemmas get_defs = get_str_def get_bool_def get_int_def get_list_def get_map_def

lemma dec_enc_backend_session [simp]: "dec_backend_session (enc_backend_session b) = Some b"
  by (simp add: dec_backend_session_def enc_backend_session_def get_defs codec_simps)

lemma dec_enc_configuration [simp]: "dec_configuration (enc_configuration c) = Some c"
  by (simp add: dec_configuration_def enc_configuration_def get_defs codec_simps)

lemma dec_enc_option [simp]: "dec_option (enc_option q) = Some q"
  by (simp add: dec_option_def enc_option_def get_defs codec_simps)

lemma dec_enc_options [simp]: "map_all dec_option (map enc_option qs) = Some qs"
  by (rule map_all_map) simp

lemma dec_enc_field [simp]: "dec_field (enc_field q) = Some q"
  by (simp add: dec_field_def enc_field_def get_defs codec_simps dec_options_def)

lemma dec_enc_fields [simp]: "map_all dec_field (map enc_field qs) = Some qs"
  by (rule map_all_map) simp

lemma dec_enc_interaction: "interaction_wf q \<Longrightarrow> dec_interaction (enc_interaction q) = Some q"
  by (simp add: dec_interaction_def enc_interaction_def get_defs codec_simps dec_options_def
      dec_fields_def interaction_wf_def kind_wf_def canonical_def)

lemma dec_enc_response: "canonical (rs_Values q) \<Longrightarrow> dec_response (enc_response q) = Some q"
  by (simp add: dec_response_def enc_response_def get_defs codec_simps canonical_def)

text \<open>\<open>AdapterSessionForkSupport\<close> (types.go 276--289): the capability flags of an adapter.\<close>

definition adapterSessionForkSupport :: "bool \<Rightarrow> (string \<Rightarrow> bool \<times> string) option \<Rightarrow> string \<Rightarrow> bool \<times> string" where
  "adapterSessionForkSupport isForker capability sessionID =
     (if \<not> isForker then (False, [])
      else case capability of Some f \<Rightarrow> f sessionID | None \<Rightarrow> (True, []))"

end
