(* ===== verification/Journal_Record.thy ===== *)
theory Journal_Record
  imports Host_Types
begin

text \<open>
  The durable journal entry of \<open>src/journal/record.go\<close> and its line format: one JSON object
  per line, written by \<open>json.Marshal\<close> and read by \<open>json.Unmarshal\<close> in
  \<open>src/journal/store.go\<close>. \<open>Data\<close> is a \<open>json.RawMessage\<close>, that is, text. A
  timestamp is a number of ticks since the zero time (so 0 is \<open>Time.IsZero\<close>) and its JSON
  text is that number in decimal, standing for the RFC 3339 text Go writes.
\<close>

section \<open>Records (record.go)\<close>

record Presentation =
  pr_Surfaces :: "string list"
  pr_Label :: string
  pr_Detail :: string
  pr_Attention :: bool

record Record =
  r_Schema :: string
  r_SchemaVersion :: int
  r_EventVersion :: int
  r_EventID :: string
  r_SourceEventID :: string
  r_Sequence :: nat
  r_Timestamp :: time
  r_SessionID :: string
  r_Conversation :: string
  r_Event :: string
  r_TurnID :: string
  r_Data :: bytes
  r_Presentation :: "Presentation option"

definition zero_record :: Record where
  "zero_record =
     \<lparr>r_Schema = [], r_SchemaVersion = 0, r_EventVersion = 0, r_EventID = [], r_SourceEventID = [],
      r_Sequence = 0, r_Timestamp = 0, r_SessionID = [], r_Conversation = [], r_Event = [],
      r_TurnID = [], r_Data = [], r_Presentation = None\<rparr>"

section \<open>The line format\<close>

definition enc_presentation :: "Presentation \<Rightarrow> json" where
  "enc_presentation p =
     JObj (opt_list ''surfaces'' (map JStr (pr_Surfaces p)) @ opt_str ''label'' (pr_Label p)
       @ opt_str ''detail'' (pr_Detail p) @ opt_bool ''attention'' (pr_Attention p))"

fun dec_str :: "json \<Rightarrow> string option" where
  "dec_str (JStr s) = Some s"
| "dec_str JNull = Some []"
| "dec_str _ = None"

definition dec_presentation :: "json \<Rightarrow> Presentation option" where
  "dec_presentation j =
     (case j of
        JObj fs \<Rightarrow>
          (case (Option.bind (get_list fs ''surfaces'') (map_all dec_str), get_str fs ''label'',
                 get_str fs ''detail'', get_bool fs ''attention'') of
             (Some ss, Some l, Some d, Some a) \<Rightarrow>
               Some \<lparr>pr_Surfaces = ss, pr_Label = l, pr_Detail = d, pr_Attention = a\<rparr>
           | _ \<Rightarrow> None)
      | _ \<Rightarrow> None)"

definition opt_presentation :: "string \<Rightarrow> Presentation option \<Rightarrow> (string \<times> json) list" where
  "opt_presentation k q = (case q of None \<Rightarrow> [] | Some p \<Rightarrow> [(k, enc_presentation p)])"

definition record_fields :: "Record \<Rightarrow> json \<Rightarrow> (string \<times> json) list" where
  "record_fields r d =
       [(''schema'', JStr (r_Schema r)), (''schema_version'', JNum (r_SchemaVersion r)),
            (''event_version'', JNum (r_EventVersion r)), (''event_id'', JStr (r_EventID r))]
       @ opt_str ''source_event_id'' (r_SourceEventID r)
       @ [(''sequence'', JNum (int (r_Sequence r))), (''timestamp'', JStr (show_nat (r_Timestamp r))),
          (''session_id'', JStr (r_SessionID r)), (''conversation'', JStr (r_Conversation r)),
          (''event'', JStr (r_Event r))]
       @ opt_str ''turn_id'' (r_TurnID r)
       @ [(''data'', d)]
       @ opt_presentation ''presentation'' (r_Presentation r)"

definition enc_record :: "Record \<Rightarrow> json \<Rightarrow> json" where
  "enc_record r d = JObj (record_fields r d)"

text \<open>
  \<open>json.Marshal(record)\<close>: an error exactly when the raw data is no JSON text. A nil
  \<open>RawMessage\<close> is written as \<open>null\<close>.
\<close>

definition marshal_record :: "Record \<Rightarrow> bytes option" where
  "marshal_record r =
     (if r_Data r = [] then Some (marshal (enc_record r JNull))
      else map_option (\<lambda>d. marshal (enc_record r d)) (unmarshal (r_Data r)))"

definition get_uint64 :: "(string \<times> json) list \<Rightarrow> string \<Rightarrow> nat option" where
  "get_uint64 fs k =
     (case get_int fs k of
        Some i \<Rightarrow> if 0 \<le> i \<and> i < 2 ^ 64 then Some (nat i) else None
      | None \<Rightarrow> None)"

definition get_time :: "(string \<times> json) list \<Rightarrow> string \<Rightarrow> time option" where
  "get_time fs k =
     (case sget fs k of
        None \<Rightarrow> Some 0
      | Some JNull \<Rightarrow> Some 0
      | Some (JStr s) \<Rightarrow> (case read_nat s of Some (n, []) \<Rightarrow> Some n | _ \<Rightarrow> None)
      | _ \<Rightarrow> None)"

definition get_raw :: "(string \<times> json) list \<Rightarrow> string \<Rightarrow> bytes" where
  "get_raw fs k = (case sget fs k of None \<Rightarrow> [] | Some v \<Rightarrow> marshal v)"

definition get_presentation :: "(string \<times> json) list \<Rightarrow> string \<Rightarrow> Presentation option option" where
  "get_presentation fs k =
     (case sget fs k of
        None \<Rightarrow> Some None | Some JNull \<Rightarrow> Some None
      | Some v \<Rightarrow> map_option Some (dec_presentation v))"

definition dec_record :: "json \<Rightarrow> Record option" where
  "dec_record j =
     (case j of
        JNull \<Rightarrow> Some zero_record
      | JObj fs \<Rightarrow>
          (case (get_str fs ''schema'', get_int fs ''schema_version'', get_int fs ''event_version'',
                 get_str fs ''event_id'', get_str fs ''source_event_id'', get_uint64 fs ''sequence'') of
             (Some sc, Some sv, Some v, Some i, Some src, Some sq) \<Rightarrow>
               (case (get_time fs ''timestamp'', get_str fs ''session_id'', get_str fs ''conversation'',
                      get_str fs ''event'', get_str fs ''turn_id'', get_presentation fs ''presentation'') of
                  (Some ts, Some si, Some co, Some e, Some tu, Some pr) \<Rightarrow>
                    Some \<lparr>r_Schema = sc, r_SchemaVersion = sv, r_EventVersion = v, r_EventID = i,
                          r_SourceEventID = src, r_Sequence = sq, r_Timestamp = ts, r_SessionID = si,
                          r_Conversation = co, r_Event = e, r_TurnID = tu, r_Data = get_raw fs ''data'',
                          r_Presentation = pr\<rparr>
                | _ \<Rightarrow> None)
           | _ \<Rightarrow> None)
      | _ \<Rightarrow> None)"

text \<open>\<open>json.Unmarshal(line, &record)\<close>.\<close>

definition unmarshal_record :: "bytes \<Rightarrow> Record option" where
  "unmarshal_record line = Option.bind (unmarshal line) dec_record"

section \<open>Reading a written line\<close>

text \<open>Raw data as \<open>json.Marshal\<close> writes it, and records whose line determines them.\<close>

definition compact_json :: "bytes \<Rightarrow> bool" where
  "compact_json raw \<longleftrightarrow> (case unmarshal raw of Some d \<Rightarrow> marshal d = raw | None \<Rightarrow> False)"

lemma compact_json_marshal [simp]: "compact_json (marshal d)"
  by (simp add: compact_json_def)

lemma compact_jsonE:
  assumes "compact_json raw"
  obtains d where "raw = marshal d"
  using assms by (auto simp: compact_json_def split: option.splits)

lemma read_nat_show_nat_all: "read_nat (show_nat n) = Some (n, [])"
  using read_nat_show_nat [of "[]" n] by simp

lemma map_all_dec_str [simp]: "map_all dec_str (map JStr ss) = Some ss"
  by (rule map_all_map) simp

lemma dec_enc_presentation [simp]: "dec_presentation (enc_presentation p) = Some p"
  by (simp add: dec_presentation_def enc_presentation_def get_defs codec_simps)

definition pres_json :: "Presentation option \<Rightarrow> json option" where
  "pres_json q = map_option enc_presentation q"

lemma sget_presentation [codec_simps]:
  "sget (opt_presentation j q) k = (if k = j then pres_json q else None)"
  by (cases q) (auto simp: codec_simps opt_presentation_def pres_json_def)

lemma get_presentation_enc:
  "sget fs k = pres_json q \<Longrightarrow> get_presentation fs k = Some q"
  using dec_enc_presentation
  by (cases q) (auto simp: get_presentation_def pres_json_def enc_presentation_def)

lemma get_record_fields:
  "get_str (record_fields r d) ''schema'' = Some (r_Schema r)"
  "get_int (record_fields r d) ''schema_version'' = Some (r_SchemaVersion r)"
  "get_int (record_fields r d) ''event_version'' = Some (r_EventVersion r)"
  "get_str (record_fields r d) ''event_id'' = Some (r_EventID r)"
  "get_str (record_fields r d) ''source_event_id'' = Some (r_SourceEventID r)"
  "get_int (record_fields r d) ''sequence'' = Some (int (r_Sequence r))"
  "get_time (record_fields r d) ''timestamp'' = Some (r_Timestamp r)"
  "get_str (record_fields r d) ''session_id'' = Some (r_SessionID r)"
  "get_str (record_fields r d) ''conversation'' = Some (r_Conversation r)"
  "get_str (record_fields r d) ''event'' = Some (r_Event r)"
  "get_str (record_fields r d) ''turn_id'' = Some (r_TurnID r)"
  "get_raw (record_fields r d) ''data'' = marshal d"
  by (simp_all add: record_fields_def get_defs codec_simps get_time_def get_raw_def
      read_nat_show_nat_all)

lemma get_record_presentation:
  "get_presentation (record_fields r d) ''presentation'' = Some (r_Presentation r)"
  by (rule get_presentation_enc, cases "pres_json (r_Presentation r)")
    (simp_all add: record_fields_def codec_simps)

lemma dec_enc_record:
  assumes "r_Sequence r < 2 ^ 64" and "r_Data r = marshal d"
  shows "dec_record (enc_record r d) = Some r"
  using assms
  by (simp add: dec_record_def enc_record_def get_record_fields get_record_presentation get_uint64_def)

text \<open>What a written record reads back as: \<open>json.Marshal\<close> compacts the raw data.\<close>

definition as_written :: "Record \<Rightarrow> Record" where
  "as_written r =
     r\<lparr>r_Data := (if r_Data r = [] then marshal JNull
                  else case unmarshal (r_Data r) of Some d \<Rightarrow> marshal d | None \<Rightarrow> r_Data r)\<rparr>"

lemma as_written_compact [simp]: "compact_json (r_Data r) \<Longrightarrow> as_written r = r"
  by (auto simp: as_written_def elim: compact_jsonE)

lemma as_written_keeps [simp]:
  "r_Schema (as_written r) = r_Schema r" "r_SchemaVersion (as_written r) = r_SchemaVersion r"
  "r_SessionID (as_written r) = r_SessionID r" "r_Sequence (as_written r) = r_Sequence r"
  "r_Event (as_written r) = r_Event r"
  by (simp_all add: as_written_def)

lemma marshal_record_Some:
  assumes "marshal_record r = Some line"
  obtains d where "r_Data (as_written r) = marshal d" and "line = marshal (enc_record r d)"
proof (cases "r_Data r = []")
  case True
  with assms show ?thesis by (intro that [of JNull]) (auto simp: marshal_record_def as_written_def)
next
  case False
  with assms show ?thesis by (auto simp: marshal_record_def as_written_def intro: that)
qed

lemma unmarshal_marshal_record:
  assumes "r_Sequence r < 2 ^ 64" and "marshal_record r = Some line"
  shows "unmarshal_record (line @ [newline]) = Some (as_written r)"
proof -
  obtain d where d: "r_Data (as_written r) = marshal d" "line = marshal (enc_record r d)"
    using assms(2) by (rule marshal_record_Some)
  have "enc_record r d = enc_record (as_written r) d"
    by (simp add: enc_record_def record_fields_def as_written_def)
  then show ?thesis
    using d(1) assms(1) by (simp add: unmarshal_record_def d(2) dec_enc_record)
qed

lemma marshal_record_line:
  assumes "marshal_record r = Some line"
  shows "newline \<notin> set line" and "line \<noteq> []"
  using assms by (auto simp: marshal_record_def split: if_splits)

section \<open>Properties\<close>



end
