(* ===== verification/Journal_File.thy ===== *)
theory Journal_File
  imports Journal_Record
begin

text \<open>
  One journal file as bytes, from \<open>src/journal/store.go\<close>: the repair of a torn tail before
  a writer is opened, and the reader \<open>readJournal\<close> with its checks, its cursor range and
  its ring buffer for the last records. The reader's contract with the line format is the
  locale \<open>line_codec\<close>.
\<close>

definition defaultSchemaID :: string where "defaultSchemaID = ''durable-acp.journal.v1''"
definition schemaVersion :: int where "schemaVersion = 1"
definition defaultEventVersion :: int where "defaultEventVersion = 1"
definition journalFileExtension :: string where "journalFileExtension = ''.jsonl''"

section \<open>Lines\<close>

text \<open>
  \<open>reader.ReadBytes('\n')\<close> until the end of the file: the lines that end in a newline,
  each with its newline. A last line without one is dropped by the reader.
\<close>

fun lines_from :: "bytes \<Rightarrow> bytes \<Rightarrow> bytes list" where
  "lines_from acc [] = []"
| "lines_from acc (c # s) =
     (if c = newline then (acc @ [c]) # lines_from [] s else lines_from (acc @ [c]) s)"

definition complete_lines :: "bytes \<Rightarrow> bytes list" where
  "complete_lines s = lines_from [] s"

text \<open>The bytes up to and including the last newline.\<close>

definition keep_lines :: "bytes \<Rightarrow> bytes" where
  "keep_lines s = rev (dropWhile ((\<noteq>) newline) (rev s))"

lemma lines_from_plain: "newline \<notin> set l \<Longrightarrow> lines_from acc (l @ s) = lines_from (acc @ l) s"
  by (induction l arbitrary: acc) auto

lemma complete_lines_Cons:
  "newline \<notin> set l \<Longrightarrow> complete_lines (l @ newline # s) = (l @ [newline]) # complete_lines s"
  by (simp add: complete_lines_def lines_from_plain)

lemma complete_lines_partial: "newline \<notin> set l \<Longrightarrow> complete_lines l = []"
  using lines_from_plain [of l "[]" "[]"] by (simp add: complete_lines_def)

lemma split_at_newline:
  obtains "newline \<notin> set s" | l r where "s = l @ newline # r" and "newline \<notin> set l"
  by (metis split_list_first)

lemma complete_lines_append:
  "complete_lines (keep_lines s @ t) = complete_lines s @ complete_lines t"
proof (induction "length s" arbitrary: s rule: less_induct)
  case less
  show ?case
  proof (cases s rule: split_at_newline)
    case 1
    then have "keep_lines s = []" by (auto simp: keep_lines_def)
    with 1 show ?thesis by (simp add: complete_lines_partial)
  next
    case (2 l r)
    have "keep_lines s = l @ newline # keep_lines r"
      by (auto simp: 2(1) keep_lines_def dropWhile_append)
    moreover have "complete_lines (keep_lines r @ t) = complete_lines r @ complete_lines t"
      using less 2(1) by simp
    ultimately show ?thesis using 2 by (simp add: complete_lines_Cons)
  qed
qed

lemma concat_complete_lines: "concat (complete_lines s) = keep_lines s"
proof (induction "length s" arbitrary: s rule: less_induct)
  case less
  show ?case
  proof (cases s rule: split_at_newline)
    case 1
    then have "keep_lines s = []" by (auto simp: keep_lines_def)
    with 1 show ?thesis by (simp add: complete_lines_partial)
  next
    case (2 l r)
    have "keep_lines s = l @ newline # keep_lines r"
      by (auto simp: 2(1) keep_lines_def dropWhile_append)
    with less 2 show ?thesis by (simp add: complete_lines_Cons)
  qed
qed

lemma keep_lines_idem [simp]: "keep_lines (keep_lines s) = keep_lines s"
  by (simp add: keep_lines_def)

lemma complete_lines_keep [simp]: "complete_lines (keep_lines s) = complete_lines s"
  using complete_lines_append [of s "[]"] by (simp add: complete_lines_def)

lemma keep_lines_snoc: "keep_lines (s @ [newline]) = s @ [newline]"
  by (simp add: keep_lines_def)

lemma keep_lines_append_partial:
  "newline \<notin> set t \<Longrightarrow> keep_lines (s @ t) = keep_lines s"
  by (auto simp: keep_lines_def dropWhile_append)

section \<open>repairTornTail\<close>

text \<open>\<open>bytes.LastIndexByte\<close>.\<close>

fun last_index :: "'a \<Rightarrow> 'a list \<Rightarrow> nat option" where
  "last_index c [] = None"
| "last_index c (x # xs) =
     (case last_index c xs of
        Some i \<Rightarrow> Some (Suc i)
      | None \<Rightarrow> if x = c then Some 0 else None)"

text \<open>
  The backward scan, a buffer of \<open>b\<close> bytes at a time: \<open>start := max(0, end - len(buffer))\<close>
  is truncating subtraction. The result is the length to truncate the file to.
\<close>

function scan_back :: "nat \<Rightarrow> bytes \<Rightarrow> nat \<Rightarrow> nat" where
  "scan_back b s e =
     (if e = 0 \<or> b = 0 then 0
      else let start = e - b in
        case last_index newline (take (e - start) (drop start s)) of
          Some i \<Rightarrow> start + i + 1
        | None \<Rightarrow> scan_back b s start)"
  by pat_completeness auto
termination
  by (relation "measure (\<lambda>(b, s, e). e)") auto

declare scan_back.simps [simp del]

definition repair_buffer :: nat where
  "repair_buffer = 32 * 1024"

definition repairTornTail :: "bytes \<Rightarrow> bytes" where
  "repairTornTail s =
     (if s = [] then s
      else if last s = newline then s
      else take (scan_back repair_buffer s (length s)) s)"

lemma last_index_None: "last_index c xs = None \<longleftrightarrow> c \<notin> set xs"
  by (induction xs) (auto split: option.splits)

lemma last_index_Some:
  "last_index c xs = Some i \<Longrightarrow> \<exists>u v. xs = u @ c # v \<and> c \<notin> set v \<and> length u = i"
proof (induction xs arbitrary: i)
  case (Cons x xs)
  show ?case
  proof (cases "last_index c xs")
    case None
    with Cons.prems have "x = c" "i = 0" by (auto split: if_splits)
    with None show ?thesis by (auto simp: last_index_None)
  next
    case (Some j)
    with Cons.prems have i: "i = Suc j" by simp
    obtain u v where "xs = u @ c # v" "c \<notin> set v" "length u = j"
      using Cons.IH [OF Some] by blast
    with i have "x # xs = (x # u) @ c # v \<and> c \<notin> set v \<and> length (x # u) = i" by simp
    then show ?thesis by blast
  qed
qed simp

lemma keep_lines_at: "newline \<notin> set v \<Longrightarrow> keep_lines (u @ newline # v) = u @ [newline]"
  by (auto simp: keep_lines_def dropWhile_append)

lemma scan_back_keep:
  "0 < b \<Longrightarrow> e \<le> length s \<Longrightarrow> take (scan_back b s e) s = keep_lines (take e s)"
proof (induction b s e rule: scan_back.induct)
  case (1 b s e)
  show ?case
  proof (cases "e = 0")
    case True
    then show ?thesis by (simp add: scan_back.simps keep_lines_def)
  next
    case False
    define start where "start = e - b"
    define buf where "buf = take (e - start) (drop start s)"
    have eq: "take e s = take start s @ buf"
      using "1.prems" by (simp add: buf_def start_def take_add [symmetric])
    show ?thesis
    proof (cases "last_index newline buf")
      case None
      have "take (scan_back b s start) s = keep_lines (take start s)"
      proof (rule "1.IH" [OF _ start_def _ "1.prems"(1)])
        show "\<not> (e = 0 \<or> b = 0)" using False "1.prems" by simp
        show "last_index newline (take (e - start) (drop start s)) = None"
          using None by (simp only: buf_def)
        show "start \<le> length s" using "1.prems"(2) by (simp add: start_def)
      qed
      moreover have "keep_lines (take e s) = keep_lines (take start s)"
        using None by (simp add: eq last_index_None keep_lines_append_partial)
      moreover have "scan_back b s e = scan_back b s start"
        using None False "1.prems" unfolding start_def buf_def
        by (subst scan_back.simps) (simp add: Let_def)
      ultimately show ?thesis by simp
    next
      case (Some i)
      obtain u v where uv: "buf = u @ newline # v" "newline \<notin> set v" "length u = i"
        using last_index_Some [OF Some] by auto
      have l: "length (take start s) = start" using "1.prems" by (simp add: start_def)
      have te: "take e s = (take start s @ u @ [newline]) @ v" using uv(1) by (simp add: eq)
      have "keep_lines (take e s) = take start s @ u @ [newline]"
        using keep_lines_at [OF uv(2), of "take start s @ u"] by (simp add: te)
      also have "\<dots> = take (start + i + 1) (take e s)"
        unfolding te using l uv(3) by simp
      also have "\<dots> = take (start + i + 1) s"
      proof -
        have "length (take e s) = e" using "1.prems" by simp
        then have "start + i + 1 \<le> e" unfolding te using l uv(3) by simp
        then show ?thesis by (simp add: min_def)
      qed
      finally show ?thesis
        using Some False "1.prems" unfolding start_def buf_def
        by (subst scan_back.simps) (simp add: Let_def)
    qed
  qed
qed

lemma repairTornTail_keep [code]: "repairTornTail s = keep_lines s"
proof -
  have "keep_lines s = s" if "s \<noteq> []" and "last s = newline"
    using that keep_lines_snoc [of "butlast s"] by (metis append_butlast_last_id)
  moreover have "take (scan_back repair_buffer s (length s)) s = keep_lines s"
    using scan_back_keep [of repair_buffer "length s" s] by (simp add: repair_buffer_def)
  ultimately show ?thesis by (auto simp: repairTornTail_def keep_lines_def)
qed

section \<open>readJournal\<close>

text \<open>Every error the store reports; line numbers and session identifiers as in the messages.\<close>

datatype store_error =
  DirectoryRequired | SchemaIDRequired | CreateDirectory | SecureDirectory
| SessionAndEventRequired | UnsupportedSchema string | UnsupportedVersion int
| OpenJournal string | SecureJournal string | RepairJournal string
| NotExist | DecodeLine nat | SchemaAtLine nat
| FilenameCollision nat string string | NonMonotonicLine nat
| ReplayReduce string | ReduceFailed string
| ReducerDroppedIdentity | ReducerChangedSession
| MarshalFailed string | WriteFailed string | SyncFailed string
| SessionRequired | RangeReversed | TailLimit

text \<open>The local variables of the reading loop: \<open>out\<close>, \<open>tailStart\<close>, \<open>lastSequence\<close>.\<close>

record reader =
  rd_out :: "Record list"
  rd_tailStart :: nat
  rd_last :: "nat option"

definition in_range :: "nat \<Rightarrow> nat \<Rightarrow> Record \<Rightarrow> bool" where
  "in_range after through r \<longleftrightarrow>
     after < r_Sequence r \<and> (through = 0 \<or> r_Sequence r \<le> through)"

definition ring_push :: "nat \<Rightarrow> 'a \<Rightarrow> 'a list \<times> nat \<Rightarrow> 'a list \<times> nat" where
  "ring_push tail r b =
     (let (out, start) = b in
      if 0 < tail \<and> length out = tail then (out[start := r], (start + 1) mod tail)
      else (out @ [r], start))"

definition ring_order :: "'a list \<times> nat \<Rightarrow> 'a list" where
  "ring_order b = (let (out, start) = b in if 0 < start then drop start out @ take start out else out)"

definition check_line :: "string \<Rightarrow> string \<Rightarrow> nat \<Rightarrow> bytes \<Rightarrow> nat option \<Rightarrow> store_error + Record" where
  "check_line schema sid n line prev =
     (case unmarshal_record line of
        None \<Rightarrow> Inl (DecodeLine n)
      | Some r \<Rightarrow>
          if r_Schema r \<noteq> schema \<or> r_SchemaVersion r \<noteq> schemaVersion then Inl (SchemaAtLine n)
          else if r_SessionID r \<noteq> sid then Inl (FilenameCollision n (r_SessionID r) sid)
          else if (case prev of Some q \<Rightarrow> r_Sequence r \<le> q | None \<Rightarrow> False)
               then Inl (NonMonotonicLine n)
          else Inr r)"

definition accept_record :: "nat \<Rightarrow> nat \<Rightarrow> nat \<Rightarrow> Record \<Rightarrow> reader \<Rightarrow> reader" where
  "accept_record after through tail r st =
     (let (out, start) =
        (if in_range after through r then ring_push tail r (rd_out st, rd_tailStart st)
         else (rd_out st, rd_tailStart st))
      in \<lparr>rd_out = out, rd_tailStart = start, rd_last = Some (r_Sequence r)\<rparr>)"

fun read_lines ::
  "string \<Rightarrow> string \<Rightarrow> nat \<Rightarrow> nat \<Rightarrow> nat \<Rightarrow> nat \<Rightarrow> bytes list \<Rightarrow> reader \<Rightarrow> store_error + reader" where
  "read_lines schema sid after through tail n [] st = Inr st"
| "read_lines schema sid after through tail n (l # ls) st =
     (case check_line schema sid (n + 1) l (rd_last st) of
        Inl e \<Rightarrow> Inl e
      | Inr r \<Rightarrow> read_lines schema sid after through tail (n + 1) ls (accept_record after through tail r st))"

text \<open>A missing file is \<open>None\<close>: \<open>os.Open\<close> fails.\<close>

definition readJournal ::
  "bytes option \<Rightarrow> string \<Rightarrow> string \<Rightarrow> nat \<Rightarrow> nat \<Rightarrow> nat \<Rightarrow> store_error + Record list" where
  "readJournal file schema sid after through tail =
     (case file of
        None \<Rightarrow> Inl NotExist
      | Some s \<Rightarrow>
          (case read_lines schema sid after through tail 0 (complete_lines s)
                  \<lparr>rd_out = [], rd_tailStart = 0, rd_last = None\<rparr> of
             Inl e \<Rightarrow> Inl e
           | Inr st \<Rightarrow> Inr (ring_order (rd_out st, rd_tailStart st))))"

section \<open>The ring buffer keeps the last records\<close>

definition last_n :: "nat \<Rightarrow> 'a list \<Rightarrow> 'a list" where
  "last_n tail xs = (if tail = 0 then xs else drop (length xs - tail) xs)"

definition ring_wf :: "nat \<Rightarrow> 'a list \<times> nat \<Rightarrow> bool" where
  "ring_wf tail b \<longleftrightarrow>
     (let (out, start) = b in
      if tail = 0 then start = 0
      else length out \<le> tail \<and> start < tail \<and> (length out < tail \<longrightarrow> start = 0))"

lemma ring_wf_empty: "ring_wf tail ([], 0)"
  by (simp add: ring_wf_def)

lemma ring_wf_push: "ring_wf tail b \<Longrightarrow> ring_wf tail (ring_push tail r b)"
  by (auto simp: ring_wf_def ring_push_def Let_def split: prod.splits if_splits)

lemma ring_order_full:
  assumes "start < length out"
  shows "ring_order (out[start := r], (start + 1) mod length out) = tl (ring_order (out, start) @ [r])"
proof (cases "start + 1 = length out")
  case True
  obtain ys y where out: "out = ys @ [y]" using assms by (cases out rule: rev_cases) auto
  then have start: "start = length ys" using True by simp
  then show ?thesis using out by (cases ys) (auto simp: ring_order_def)
next
  case False
  then have lt: "start + 1 < length out" using assms by simp
  have "drop (start + 1) (out[start := r]) = drop (start + 1) out" by simp
  moreover have "take (start + 1) (out[start := r]) = take start out @ [r]"
    using assms by (simp add: take_Suc_conv_app_nth)
  moreover have "tl (drop start out @ take start out @ [r]) = drop (start + 1) out @ take start out @ [r]"
    using assms by (simp add: Cons_nth_drop_Suc [symmetric])
  moreover have "tl (out @ [r]) = drop (start + 1) out @ take start out @ [r]" if "start = 0"
    using that assms by (cases out) auto
  ultimately show ?thesis using lt by (auto simp: ring_order_def)
qed

lemma ring_order_push:
  assumes "ring_wf tail b"
  shows "ring_order (ring_push tail r b) = last_n tail (ring_order b @ [r])"
proof -
  obtain out start where b: "b = (out, start)" by (cases b)
  show ?thesis
  proof (cases "0 < tail \<and> length out = tail")
    case True
    with assms b have lt: "start < length out" by (simp add: ring_wf_def)
    have len: "length (ring_order b) = tail" using True lt by (simp add: b ring_order_def)
    have "ring_order (ring_push tail r b) = tl (ring_order b @ [r])"
      using True ring_order_full [OF lt] by (simp add: b ring_push_def)
    also have "\<dots> = drop 1 (ring_order b @ [r])" by (simp only: One_nat_def drop_Suc drop_0)
    also have "\<dots> = last_n tail (ring_order b @ [r])"
    proof -
      have "length (ring_order b @ [r]) - tail = 1" using len by simp
      then show ?thesis unfolding last_n_def using True by (metis less_numeral_extra(3))
    qed
    finally show ?thesis .
  next
    case False
    with assms have "start = 0" "tail \<noteq> 0 \<longrightarrow> length out < tail"
      by (auto simp: ring_wf_def b split: if_splits)
    with False show ?thesis by (auto simp: b ring_push_def ring_order_def last_n_def)
  qed
qed

lemma last_n_last_n_snoc: "last_n tail (last_n tail xs @ [r]) = last_n tail (xs @ [r])"
proof (cases "tail \<le> length xs")
  case True
  then show ?thesis by (auto simp: last_n_def Suc_diff_le)
qed (auto simp: last_n_def)

section \<open>The reader computes a range of the checked records\<close>

text \<open>The specification: the checked records of a list of lines, all of them.\<close>

fun checked :: "string \<Rightarrow> string \<Rightarrow> nat \<Rightarrow> nat option \<Rightarrow> bytes list \<Rightarrow> store_error + Record list" where
  "checked schema sid n prev [] = Inr []"
| "checked schema sid n prev (l # ls) =
     (case check_line schema sid (n + 1) l prev of
        Inl e \<Rightarrow> Inl e
      | Inr r \<Rightarrow> map_sum id ((#) r) (checked schema sid (n + 1) (Some (r_Sequence r)) ls))"

definition journal_records :: "string \<Rightarrow> string \<Rightarrow> bytes \<Rightarrow> store_error + Record list" where
  "journal_records schema sid s = checked schema sid 0 None (complete_lines s)"

lemma accept_record_last [simp]: "rd_last (accept_record a th tail r st) = Some (r_Sequence r)"
  by (simp add: accept_record_def Let_def split: prod.splits)

lemma accept_record_ring:
  "(rd_out (accept_record a th tail r st), rd_tailStart (accept_record a th tail r st)) =
     (if in_range a th r then ring_push tail r (rd_out st, rd_tailStart st)
      else (rd_out st, rd_tailStart st))"
  by (simp add: accept_record_def Let_def split: prod.splits)

lemma read_lines_checked:
  assumes "ring_wf tail (rd_out st, rd_tailStart st)"
    and "ring_order (rd_out st, rd_tailStart st) = last_n tail seen"
  shows "map_sum id (\<lambda>st'. ring_order (rd_out st', rd_tailStart st'))
           (read_lines schema sid a th tail n ls st) =
         map_sum id (\<lambda>rs. last_n tail (seen @ filter (in_range a th) rs))
           (checked schema sid n (rd_last st) ls)"
  using assms
proof (induction ls arbitrary: n st seen)
  case Nil
  then show ?case by simp
next
  case (Cons l ls)
  show ?case
  proof (cases "check_line schema sid (n + 1) l (rd_last st)")
    case (Inl e)
    then show ?thesis by simp
  next
    case (Inr r)
    define st' where "st' = accept_record a th tail r st"
    define seen' where "seen' = (if in_range a th r then seen @ [r] else seen)"
    note ring = accept_record_ring [of a th tail r st, folded st'_def]
    have wf: "ring_wf tail (rd_out st', rd_tailStart st')"
      unfolding ring using Cons.prems(1) by (simp add: ring_wf_push)
    have ord: "ring_order (rd_out st', rd_tailStart st') = last_n tail seen'"
      unfolding ring seen'_def using Cons.prems
      by (simp add: ring_order_push last_n_last_n_snoc)
    have last: "rd_last st' = Some (r_Sequence r)" by (simp add: st'_def)
    have seen: "seen @ filter (in_range a th) (r # rs) = seen' @ filter (in_range a th) rs" for rs
      by (simp add: seen'_def)
    show ?thesis
      using Cons.IH [OF wf ord, of "n + 1"] Inr
      by (simp add: st'_def [symmetric] last sum.map_comp comp_def seen del: filter.simps)
  qed
qed

lemma readJournal_range:
  "readJournal (Some s) schema sid after through tail =
     map_sum id (\<lambda>rs. last_n tail (filter (in_range after through) rs)) (journal_records schema sid s)"
proof -
  define st where "st = \<lparr>rd_out = [], rd_tailStart = 0, rd_last = None :: nat option\<rparr>"
  have "map_sum id (\<lambda>st'. ring_order (rd_out st', rd_tailStart st'))
           (read_lines schema sid after through tail 0 (complete_lines s) st) =
         map_sum id (\<lambda>rs. last_n tail ([] @ filter (in_range after through) rs))
           (checked schema sid 0 (rd_last st) (complete_lines s))"
    by (rule read_lines_checked) (simp_all add: st_def ring_wf_empty ring_order_def last_n_def)
  then show ?thesis
    by (cases "read_lines schema sid after through tail 0 (complete_lines s) st")
      (simp_all add: readJournal_def journal_records_def st_def)
qed

text \<open>What the checks give: one session, one schema, increasing sequences.\<close>

lemma check_line_Inr:
  "check_line schema sid n l prev = Inr r \<longleftrightarrow>
     unmarshal_record l = Some r \<and> r_Schema r = schema \<and> r_SchemaVersion r = schemaVersion
     \<and> r_SessionID r = sid \<and> (\<forall>q. prev = Some q \<longrightarrow> q < r_Sequence r)"
  by (auto simp: check_line_def not_le split: option.splits)

definition last_sequence :: "nat option \<Rightarrow> Record list \<Rightarrow> nat option" where
  "last_sequence prev rs = (if rs = [] then prev else Some (r_Sequence (last rs)))"

definition follows :: "nat option \<Rightarrow> Record list \<Rightarrow> bool" where
  "follows prev rs \<longleftrightarrow> sorted_wrt (<) (map r_Sequence rs)
     \<and> (\<forall>q. prev = Some q \<longrightarrow> (\<forall>r \<in> set rs. q < r_Sequence r))"

lemma follows_Cons:
  "follows prev (r # rs) \<longleftrightarrow>
     (\<forall>q. prev = Some q \<longrightarrow> q < r_Sequence r) \<and> follows (Some (r_Sequence r)) rs"
  by (auto simp: follows_def intro: less_trans)

lemma map_sum_Inr_iff: "map_sum id f s = Inr y \<longleftrightarrow> (\<exists>x. s = Inr x \<and> y = f x)"
  by (cases s) auto

lemma checked_Inr:
  "checked schema sid n prev ls = Inr rs \<longleftrightarrow>
     map unmarshal_record ls = map Some rs \<and> follows prev rs
     \<and> (\<forall>r \<in> set rs. r_Schema r = schema \<and> r_SchemaVersion r = schemaVersion \<and> r_SessionID r = sid)"
proof (induction ls arbitrary: n prev rs)
  case Nil
  then show ?case by (auto simp: follows_def)
next
  case (Cons l ls)
  show ?case
  proof (cases "check_line schema sid (n + 1) l prev")
    case (Inl e)
    then have "\<not> (\<exists>r. unmarshal_record l = Some r \<and> r_Schema r = schema
        \<and> r_SchemaVersion r = schemaVersion \<and> r_SessionID r = sid
        \<and> (\<forall>q. prev = Some q \<longrightarrow> q < r_Sequence r))"
      using check_line_Inr [of schema sid "n + 1" l prev] by auto
    then show ?thesis using Inl by (cases rs) (auto simp: follows_Cons)
  next
    case (Inr r)
    then show ?thesis
      using check_line_Inr [of schema sid "n + 1" l prev r]
      by (cases rs) (auto simp: follows_Cons Cons.IH map_sum_Inr_iff)
  qed
qed

section \<open>The line codec as an interface\<close>

text \<open>
  What the file relies on: a written line has no newline inside and decodes to the value that
  was written, in its written form.
\<close>

locale line_codec =
  fixes enc :: "'r \<Rightarrow> bytes option"
    and dec :: "bytes \<Rightarrow> 'r option"
    and ok :: "'r \<Rightarrow> bool"
    and norm :: "'r \<Rightarrow> 'r"
  assumes enc_plain: "enc r = Some l \<Longrightarrow> newline \<notin> set l"
    and dec_enc: "ok r \<Longrightarrow> enc r = Some l \<Longrightarrow> dec (l @ [newline]) = Some (norm r)"
begin

text \<open>A complete append adds one line that decodes to the value.\<close>

lemma append_line:
  assumes "ok r" and "enc r = Some l"
  shows "map dec (complete_lines (keep_lines s @ l @ [newline])) =
           map dec (complete_lines s) @ [Some (norm r)]"
    and "keep_lines (keep_lines s @ l @ [newline]) = keep_lines s @ l @ [newline]"
proof -
  have "complete_lines (l @ newline # []) = [l @ [newline]]"
    by (subst complete_lines_Cons [OF enc_plain [OF assms(2)]]) (simp add: complete_lines_def)
  then show "map dec (complete_lines (keep_lines s @ l @ [newline])) =
      map dec (complete_lines s) @ [Some (norm r)]"
    using dec_enc [OF assms] by (simp add: complete_lines_append)
  show "keep_lines (keep_lines s @ l @ [newline]) = keep_lines s @ l @ [newline]"
    using keep_lines_snoc [of "keep_lines s @ l"] by simp
qed

text \<open>A torn append leaves the lines that were there before.\<close>

lemma torn_line:
  assumes "enc r = Some l" and "n \<le> length l"
  shows "keep_lines (keep_lines s @ take n (l @ [newline])) = keep_lines s"
proof -
  have "take n (l @ [newline]) = take n l" using assms(2) by simp
  moreover have "newline \<notin> set (take n l)"
    using enc_plain [OF assms(1)] set_take_subset by fast
  ultimately show ?thesis by (simp add: keep_lines_append_partial)
qed

end

interpretation record_line: line_codec marshal_record unmarshal_record "\<lambda>r. r_Sequence r < 2 ^ 64" as_written
  by unfold_locales (auto simp: marshal_record_line unmarshal_marshal_record)

end
