(* ===== verification/Journal_Store.thy ===== *)
theory Journal_Store
  imports Journal_File
begin

text \<open>
  The store of \<open>src/journal/store.go\<close>: a directory of journal files, one per session, with
  a cached writer per session, an optional reducer and listeners. The directory is the field
  \<open>so_disk\<close>, file names to contents; an open \<open>*os.File\<close> of a writer is the file of
  its session's path. The failures of the file system during one call are the argument
  \<open>io\<close>; the values of the clock and of the identifier source are arguments too. Every
  operation runs under the store's lock, so it is one step on the store.
\<close>

section \<open>Names\<close>

definition safe_char :: "char \<Rightarrow> bool" where
  "safe_char c \<longleftrightarrow> (of_char c :: nat) \<in> {97..122} \<union> {65..90} \<union> {48..57} \<or> c = CHR ''-'' \<or> c = CHR ''_''"

definition safe_rune :: "string \<Rightarrow> char" where
  "safe_rune r = (case r of [c] \<Rightarrow> if safe_char c then c else CHR ''_'' | _ \<Rightarrow> CHR ''_'')"

definition safeSessionID :: "string \<Rightarrow> string" where
  "safeSessionID sid = map safe_rune (runes (TrimSpace sid))"

text \<open>The name of the file inside the store's directory.\<close>

definition path :: "string \<Rightarrow> string" where
  "path sid = safeSessionID sid @ journalFileExtension"

section \<open>State\<close>

type_synonym Reducer = "bytes \<Rightarrow> Record \<Rightarrow> (bytes \<times> Record) option"

record writer =
  w_seq :: nat
  w_state :: bytes

record Store =
  so_disk :: "bytes gomap"
  so_schemaID :: string
  so_writers :: "writer gomap"
  so_listeners :: "nat list"
  so_reducer :: "Reducer option"

datatype repair_result = Repaired | NotTruncated | NotSynced
datatype write_result = Written | ShortWrite nat

record io =
  io_open :: bool
  io_chmod :: bool
  io_repair :: repair_result
  io_write :: write_result
  io_sync :: bool

definition io_ok :: io where
  "io_ok = \<lparr>io_open = True, io_chmod = True, io_repair = Repaired, io_write = Written, io_sync = True\<rparr>"

datatype StoreOption = WithSchemaID string | WithReducer "Reducer option"

fun apply_options :: "StoreOption option list \<Rightarrow> string \<times> Reducer option \<Rightarrow> string \<times> Reducer option" where
  "apply_options [] c = c"
| "apply_options (None # os) c = apply_options os c"
| "apply_options (Some (WithSchemaID s) # os) (_, r) = apply_options os (TrimSpace s, r)"
| "apply_options (Some (WithReducer r) # os) (s, _) = apply_options os (s, r)"

text \<open>\<open>mkdir\<close> and \<open>chmod\<close> say whether creating and securing the directory succeed.\<close>

definition NewStore ::
  "bool \<Rightarrow> bool \<Rightarrow> bytes gomap \<Rightarrow> string \<Rightarrow> StoreOption option list \<Rightarrow> store_error + Store" where
  "NewStore mkdir chmod disk dir options =
     (if TrimSpace dir = [] then Inl DirectoryRequired
      else let (schema, reducer) = apply_options options (defaultSchemaID, None) in
        if schema = [] then Inl SchemaIDRequired
        else if \<not> mkdir then Inl CreateDirectory
        else if \<not> chmod then Inl SecureDirectory
        else Inr \<lparr>so_disk = disk, so_schemaID = schema, so_writers = [], so_listeners = [],
                  so_reducer = reducer\<rparr>)"

definition Subscribe :: "nat option \<Rightarrow> Store \<Rightarrow> Store" where
  "Subscribe listener st =
     (case listener of None \<Rightarrow> st | Some l \<Rightarrow> st\<lparr>so_listeners := so_listeners st @ [l]\<rparr>)"

section \<open>Opening a writer\<close>

definition put_file :: "string \<Rightarrow> bytes \<Rightarrow> Store \<Rightarrow> Store" where
  "put_file sid s st = st\<lparr>so_disk := map_put (path sid) s (so_disk st)\<rparr>"

definition file_of :: "Store \<Rightarrow> string \<Rightarrow> bytes option" where
  "file_of st sid = map_of (so_disk st) (path sid)"

text \<open>\<open>O_CREATE\<close>: a missing file is created empty.\<close>

definition open_file :: "string \<Rightarrow> Store \<Rightarrow> Store" where
  "open_file sid st = (case file_of st sid of Some _ \<Rightarrow> st | None \<Rightarrow> put_file sid [] st)"

definition opened :: "Store \<Rightarrow> string \<Rightarrow> bytes" where
  "opened st sid = (case file_of st sid of Some s \<Rightarrow> s | None \<Rightarrow> [])"

fun replay_reducer :: "Reducer \<Rightarrow> bytes \<Rightarrow> Record list \<Rightarrow> bytes option" where
  "replay_reducer f state [] = Some state"
| "replay_reducer f state (r # rs) =
     (case f state r of None \<Rightarrow> None | Some (state', _) \<Rightarrow> replay_reducer f state' rs)"

definition writerLocked :: "io \<Rightarrow> string \<Rightarrow> Store \<Rightarrow> (store_error + writer) \<times> Store" where
  "writerLocked io sid st =
     (case map_of (so_writers st) sid of
        Some w \<Rightarrow> (Inr w, st)
      | None \<Rightarrow>
          if \<not> io_open io then (Inl (OpenJournal sid), st)
          else let st1 = open_file sid st in
          if \<not> io_chmod io then (Inl (SecureJournal sid), st1)
          else let st2 = put_file sid (repairTornTail (opened st1 sid)) st1 in
          if io_repair io = NotTruncated then (Inl (RepairJournal sid), st1)
          else if io_repair io = NotSynced then (Inl (RepairJournal sid), st2)
          else (case readJournal (file_of st2 sid) (so_schemaID st) sid 0 0 0 of
             Inl e \<Rightarrow> (Inl e, st2)
           | Inr events \<Rightarrow>
               let seq = (if events = [] then 0 else r_Sequence (last events)) in
               (case (case so_reducer st of None \<Rightarrow> Some [] | Some f \<Rightarrow> replay_reducer f [] events) of
                  None \<Rightarrow> (Inl (ReplayReduce sid), st2)
                | Some state \<Rightarrow>
                    let w = \<lparr>w_seq = seq, w_state = state\<rparr> in
                    (Inr w, st2\<lparr>so_writers := map_put sid w (so_writers st2)\<rparr>))))"

section \<open>Append\<close>

definition empty_object :: bytes where "empty_object = ''{}''"

definition default_data :: "Record \<Rightarrow> Record" where
  "default_data r = (if r_Data r = [] then r\<lparr>r_Data := empty_object\<rparr> else r)"

definition default_schema :: "Store \<Rightarrow> Record \<Rightarrow> Record" where
  "default_schema st r = (if r_Schema r = [] then r\<lparr>r_Schema := so_schemaID st\<rparr> else r)"

definition default_version :: "Record \<Rightarrow> Record" where
  "default_version r = (if r_SchemaVersion r = 0 then r\<lparr>r_SchemaVersion := schemaVersion\<rparr> else r)"

definition default_identity :: "time \<Rightarrow> string \<Rightarrow> Record \<Rightarrow> Record" where
  "default_identity now newID r =
     (let r1 = (if r_EventVersion r = 0 then r\<lparr>r_EventVersion := defaultEventVersion\<rparr> else r);
          r2 = (if r_EventID r1 = [] then r1\<lparr>r_EventID := newID\<rparr> else r1)
      in if r_Timestamp r2 = 0 then r2\<lparr>r_Timestamp := now\<rparr> else r2)"

text \<open>The envelope defaults assigned before the lock is taken.\<close>

definition envelope :: "time \<Rightarrow> string \<Rightarrow> Store \<Rightarrow> Record \<Rightarrow> store_error + Record" where
  "envelope now newID st r0 =
     (let r1 = r0\<lparr>r_SessionID := TrimSpace (r_SessionID r0), r_Event := TrimSpace (r_Event r0)\<rparr> in
      if r_SessionID r1 = [] \<or> r_Event r1 = [] then Inl SessionAndEventRequired
      else let r2 = default_schema st r1 in
      if r_Schema r2 \<noteq> so_schemaID st then Inl (UnsupportedSchema (r_Schema r2))
      else let r3 = default_version r2 in
      if r_SchemaVersion r3 \<noteq> schemaVersion then Inl (UnsupportedVersion (r_SchemaVersion r3))
      else Inr (default_data (default_identity now newID r3)))"

text \<open>The reducer's turn: its next state and its record with the envelope put back.\<close>

definition reduced :: "Store \<Rightarrow> writer \<Rightarrow> Record \<Rightarrow> store_error + bytes \<times> Record" where
  "reduced st w r =
     (case so_reducer st of
        None \<Rightarrow> Inr (w_state w, r)
      | Some f \<Rightarrow>
          (case f (w_state w) r of
             None \<Rightarrow> Inl (ReduceFailed (r_SessionID r))
           | Some (state, n) \<Rightarrow>
               let n' = n\<lparr>r_Schema := so_schemaID st, r_SchemaVersion := schemaVersion,
                          r_EventVersion := r_EventVersion r, r_EventID := r_EventID r,
                          r_SourceEventID := r_SourceEventID r, r_Sequence := r_Sequence r,
                          r_Timestamp := r_Timestamp r, r_SessionID := TrimSpace (r_SessionID n),
                          r_Event := TrimSpace (r_Event n)\<rparr> in
               if r_SessionID n' = [] \<or> r_Event n' = [] then Inl ReducerDroppedIdentity
               else if r_SessionID n' \<noteq> r_SessionID r then Inl ReducerChangedSession
               else Inr (state, default_data n')))"

definition append_bytes :: "string \<Rightarrow> bytes \<Rightarrow> Store \<Rightarrow> Store" where
  "append_bytes sid b st = put_file sid (opened st sid @ b) st"

definition drop_writer :: "string \<Rightarrow> Store \<Rightarrow> Store" where
  "drop_writer sid st = st\<lparr>so_writers := map_del sid (so_writers st)\<rparr>"

text \<open>Marshal, write, sync, and the writer's bookkeeping.\<close>

definition persist :: "io \<Rightarrow> bytes \<Rightarrow> Record \<Rightarrow> Store \<Rightarrow> (store_error + Record) \<times> Store" where
  "persist io state r st =
     (let sid = r_SessionID r in
      case marshal_record r of
        None \<Rightarrow> (Inl (MarshalFailed sid), st)
      | Some l \<Rightarrow>
          let line = l @ [newline] in
          (case io_write io of
             ShortWrite n \<Rightarrow>
               (Inl (WriteFailed sid), drop_writer sid (append_bytes sid (take n line) st))
           | Written \<Rightarrow>
               let st1 = append_bytes sid line st in
               if \<not> io_sync io then (Inl (SyncFailed sid), drop_writer sid st1)
               else (Inr r, st1\<lparr>so_writers :=
                       map_put sid \<lparr>w_seq = r_Sequence r, w_state = state\<rparr> (so_writers st1)\<rparr>)))"

definition uint64 :: "nat \<Rightarrow> nat" where
  "uint64 n = n mod 2 ^ 64"

lemma uint64_code [code]: "uint64 n = nat (int n mod 18446744073709551616)"
  by (simp add: uint64_def nat_mod_distrib)

text \<open>
  \<open>Append\<close>: the result, the store and the calls of the listeners, which run after the lock
  is released. The sequence is a \<open>uint64\<close> and wraps.
\<close>

definition Append ::
  "io \<Rightarrow> time \<Rightarrow> string \<Rightarrow> Record \<Rightarrow> Store \<Rightarrow> (store_error + Record) \<times> Store \<times> (nat \<times> Record) list" where
  "Append io now newID r0 st =
     (case envelope now newID st r0 of
        Inl e \<Rightarrow> (Inl e, st, [])
      | Inr r1 \<Rightarrow>
          (case writerLocked io (r_SessionID r1) st of
             (Inl e, st1) \<Rightarrow> (Inl e, st1, [])
           | (Inr w, st1) \<Rightarrow>
               (case reduced st1 w (r1\<lparr>r_Sequence := uint64 (w_seq w + 1)\<rparr>) of
                  Inl e \<Rightarrow> (Inl e, st1, [])
                | Inr (state, r2) \<Rightarrow>
                    (case persist io state r2 st1 of
                       (Inl e, st2) \<Rightarrow> (Inl e, st2, [])
                     | (Inr r3, st2) \<Rightarrow> (Inr r3, st2, map (\<lambda>l. (l, r3)) (so_listeners st2))))))"

section \<open>Reading\<close>

definition syncSession :: "bool \<Rightarrow> string \<Rightarrow> Store \<Rightarrow> store_error option" where
  "syncSession sync sid st =
     (case map_of (so_writers st) sid of
        Some _ \<Rightarrow> if sync then None else Some (SyncFailed sid)
      | None \<Rightarrow> None)"

definition read_journal :: "bool \<Rightarrow> string \<Rightarrow> nat \<Rightarrow> nat \<Rightarrow> nat \<Rightarrow> Store \<Rightarrow> store_error + Record list" where
  "read_journal sync sessionID after through tail st =
     (let sid = TrimSpace sessionID in
      if sid = [] then Inl SessionRequired
      else if through \<noteq> 0 \<and> through < after then Inl RangeReversed
      else case syncSession sync sid st of
        Some e \<Rightarrow> Inl e
      | None \<Rightarrow> readJournal (file_of st sid) (so_schemaID st) sid after through tail)"

definition Read :: "bool \<Rightarrow> string \<Rightarrow> nat \<Rightarrow> nat \<Rightarrow> Store \<Rightarrow> store_error + Record list" where
  "Read sync sid after through st = read_journal sync sid after through 0 st"

definition ReadAfter :: "bool \<Rightarrow> string \<Rightarrow> nat \<Rightarrow> Store \<Rightarrow> store_error + Record list" where
  "ReadAfter sync sid after st = Read sync sid after 0 st"

definition Tail :: "bool \<Rightarrow> string \<Rightarrow> int \<Rightarrow> Store \<Rightarrow> store_error + Record list" where
  "Tail sync sid limit st =
     (if limit \<le> 0 then Inl TailLimit else read_journal sync sid 0 0 (nat limit) st)"

definition LastSequence :: "bool \<Rightarrow> string \<Rightarrow> Store \<Rightarrow> store_error + nat" where
  "LastSequence sync sessionID st =
     (let sid = TrimSpace sessionID in
      if sid = [] then Inl SessionRequired
      else case syncSession sync sid st of
        Some e \<Rightarrow> Inl e
      | None \<Rightarrow>
          (case map_of (so_writers st) sid of
             Some w \<Rightarrow> Inr (w_seq w)
           | None \<Rightarrow>
               (case readJournal (file_of st sid) (so_schemaID st) sid 0 0 1 of
                  Inl e \<Rightarrow> Inl e
                | Inr rs \<Rightarrow> Inr (if rs = [] then 0 else r_Sequence (last rs)))))"

text \<open>\<open>filepath.Ext\<close> of a file name, and the stems of the journals of the directory.\<close>

definition file_ext :: "string \<Rightarrow> string" where
  "file_ext name = (case last_index CHR ''.'' name of Some i \<Rightarrow> drop i name | None \<Rightarrow> [])"

definition Sessions :: "Store \<Rightarrow> string list" where
  "Sessions st =
     map (\<lambda>n. TrimSuffix n journalFileExtension)
       (filter (\<lambda>n. file_ext n = journalFileExtension) (map fst (so_disk st)))"

definition Close_store :: "Store \<Rightarrow> Store" where
  "Close_store st = st\<lparr>so_writers := []\<rparr>"

section \<open>Session names on disk\<close>

lemma safe_rune_safe: "safe_char (safe_rune r)"
  by (auto simp: safe_rune_def safe_char_def split: list.splits)

lemma safeSessionID_safe: "c \<in> set (safeSessionID sid) \<Longrightarrow> safe_char c"
  by (auto simp: safeSessionID_def safe_rune_safe)

lemma safeSessionID_Nil [simp]: "safeSessionID sid = [] \<longleftrightarrow> TrimSpace sid = []"
  by (simp add: safeSessionID_def)

lemma safe_char_code: "safe_char c \<Longrightarrow> 45 \<le> (of_char c :: nat) \<and> (of_char c :: nat) < 128"
  unfolding safe_char_def by auto

lemma safe_char_solid: "safe_char c \<Longrightarrow> solid c \<and> (of_char c :: nat) < 128"
proof -
  assume "safe_char c"
  then have code: "45 \<le> (of_char c :: nat) \<and> (of_char c :: nat) < 128" by (rule safe_char_code)
  moreover have "(of_char c :: nat) \<le> 32" if "space1 c" using that by (auto simp: space1_def)
  ultimately show ?thesis by (auto simp: solid_def less_char_def)
qed

lemma safeSessionID_id:
  assumes "\<forall>c \<in> set s. safe_char c"
  shows "safeSessionID s = s"
proof -
  have "TrimSpace s = s"
    using assms safe_char_solid by (cases "s = []") (auto intro!: TrimSpace_solid_ends)
  moreover have "runes s = map (\<lambda>c. [c]) s"
    using assms safe_char_solid by (intro runes_ascii) auto
  moreover have "map (safe_rune \<circ> (\<lambda>c. [c])) s = s"
    using assms by (induction s) (auto simp: safe_rune_def)
  ultimately show ?thesis by (simp add: safeSessionID_def)
qed

lemma safeSessionID_idem [simp]: "safeSessionID (safeSessionID sid) = safeSessionID sid"
  by (rule safeSessionID_id) (auto dest: safeSessionID_safe)

lemma path_inject: "path a = path b \<longleftrightarrow> safeSessionID a = safeSessionID b"
  by (simp add: path_def)

section \<open>The contract of one session's journal\<close>

text \<open>
  The journal of a session holds exactly the records \<open>recs\<close>: its file decodes to them,
  and an open writer agrees with the file.
\<close>

definition last_seq :: "Record list \<Rightarrow> nat" where
  "last_seq rs = (if rs = [] then 0 else r_Sequence (last rs))"

definition writer_agrees :: "Store \<Rightarrow> string \<Rightarrow> Record list \<Rightarrow> writer \<Rightarrow> bool" where
  "writer_agrees st sid recs w \<longleftrightarrow>
     w_seq w = last_seq recs \<and> (case file_of st sid of Some s \<Rightarrow> keep_lines s = s | None \<Rightarrow> False)"

definition session_ok :: "Store \<Rightarrow> string \<Rightarrow> Record list \<Rightarrow> bool" where
  "session_ok st sid recs \<longleftrightarrow>
     journal_records (so_schemaID st) sid (opened st sid) = Inr recs
     \<and> (\<forall>r \<in> set recs. 0 < r_Sequence r)
     \<and> (case map_of (so_writers st) sid of Some w \<Rightarrow> writer_agrees st sid recs w | None \<Rightarrow> True)"

lemma file_of_put [simp]:
  "file_of (put_file sid s st) sid' = (if path sid' = path sid then Some s else file_of st sid')"
  by (simp add: file_of_def put_file_def)

lemma opened_put [simp]:
  "opened (put_file sid s st) sid' = (if path sid' = path sid then s else opened st sid')"
  by (simp add: opened_def)

lemma put_file_keeps [simp]:
  "so_schemaID (put_file sid s st) = so_schemaID st" "so_writers (put_file sid s st) = so_writers st"
  "so_listeners (put_file sid s st) = so_listeners st" "so_reducer (put_file sid s st) = so_reducer st"
  by (simp_all add: put_file_def)

lemma file_of_writers [simp]:
  "file_of (st\<lparr>so_writers := ws\<rparr>) sid = file_of st sid"
  "opened (st\<lparr>so_writers := ws\<rparr>) sid = opened st sid"
  by (simp_all add: file_of_def opened_def)

lemma open_file_keeps [simp]:
  "so_schemaID (open_file sid st) = so_schemaID st" "so_writers (open_file sid st) = so_writers st"
  "so_listeners (open_file sid st) = so_listeners st" "so_reducer (open_file sid st) = so_reducer st"
  "opened (open_file sid st) sid' = opened st sid'"
  by (auto simp: open_file_def opened_def split: option.splits) (simp add: file_of_def)

lemma file_of_open_file:
  "path sid' \<noteq> path sid \<Longrightarrow> file_of (open_file sid st) sid' = file_of st sid'"
  by (simp add: open_file_def split: option.splits)

lemma journal_records_keep [simp]: "journal_records schema sid (keep_lines s) = journal_records schema sid s"
  by (simp add: journal_records_def)

text \<open>What every operation on one session leaves alone: the settings and the other sessions.\<close>

definition elsewhere :: "string \<Rightarrow> Store \<Rightarrow> Store \<Rightarrow> bool" where
  "elsewhere sid st st' \<longleftrightarrow>
     so_schemaID st' = so_schemaID st \<and> so_listeners st' = so_listeners st
     \<and> so_reducer st' = so_reducer st
     \<and> (\<forall>sid'. path sid' \<noteq> path sid \<longrightarrow>
          file_of st' sid' = file_of st sid'
          \<and> map_of (so_writers st') sid' = map_of (so_writers st) sid')"

lemma elsewhere_refl [simp]: "elsewhere sid st st"
  by (simp add: elsewhere_def)

lemma elsewhere_trans: "elsewhere sid a b \<Longrightarrow> elsewhere sid b c \<Longrightarrow> elsewhere sid a c"
  by (simp add: elsewhere_def)

lemma elsewhere_steps [intro]:
  "elsewhere sid st (open_file sid st)"
  "elsewhere sid st (put_file sid s st)"
  "elsewhere sid st (st\<lparr>so_writers := map_put sid w (so_writers st)\<rparr>)"
  "elsewhere sid st (drop_writer sid st)"
  "elsewhere sid st (append_bytes sid b st)"
  by (auto simp: elsewhere_def file_of_open_file drop_writer_def append_bytes_def)

lemma session_ok_elsewhere:
  "elsewhere sid st st' \<Longrightarrow> path sid' \<noteq> path sid \<Longrightarrow> session_ok st' sid' recs = session_ok st sid' recs"
  by (simp add: session_ok_def elsewhere_def opened_def writer_agrees_def cong: option.case_cong)

lemma writerLocked_elsewhere: "elsewhere sid st (snd (writerLocked io sid st))"
proof -
  let ?st2 = "put_file sid (repairTornTail (opened (open_file sid st) sid)) (open_file sid st)"
  have st2: "elsewhere sid st ?st2"
    by (rule elsewhere_trans [OF elsewhere_steps(1)]) (rule elsewhere_steps)
  have "elsewhere sid st (?st2\<lparr>so_writers := map_put sid w (so_writers ?st2)\<rparr>)" for w
    by (rule elsewhere_trans [OF st2]) (rule elsewhere_steps)
  with st2 show ?thesis
    by (auto simp: writerLocked_def Let_def split: option.splits sum.splits)
qed

lemma persist_elsewhere: "elsewhere (r_SessionID r) st (snd (persist io state r st))"
proof -
  let ?sid = "r_SessionID r"
  have "elsewhere ?sid st (drop_writer ?sid (append_bytes ?sid b st))"
    and "elsewhere ?sid st ((append_bytes ?sid b st)\<lparr>so_writers :=
           map_put ?sid w (so_writers (append_bytes ?sid b st))\<rparr>)" for b w
    by (rule elsewhere_trans [OF elsewhere_steps(5)], rule elsewhere_steps)+
  then show ?thesis
    by (auto simp: persist_def Let_def split: option.splits write_result.splits)
qed

section \<open>Opening a writer keeps the records\<close>

lemma session_ok_sync:
  assumes "session_ok st sid recs" and "map_of (so_writers st) sid = None"
    and "opened st' sid = opened st sid \<or> opened st' sid = keep_lines (opened st sid)"
    and "so_schemaID st' = so_schemaID st" and "so_writers st' = so_writers st"
  shows "session_ok st' sid recs"
  using assms by (auto simp: session_ok_def)

lemma writerLocked_contract:
  assumes ok: "session_ok st sid recs" and run: "writerLocked io sid st = (res, st')"
  shows "session_ok st' sid recs"
    and "res = Inr w \<Longrightarrow> map_of (so_writers st') sid = Some w"
proof -
  let ?st1 = "open_file sid st"
  let ?st2 = "put_file sid (keep_lines (opened st sid)) ?st1"
  have "session_ok st' sid recs \<and> (res = Inr w \<longrightarrow> map_of (so_writers st') sid = Some w)"
  proof (cases "map_of (so_writers st) sid")
    case (Some v)
    with ok run show ?thesis by (auto simp: writerLocked_def)
  next
    case None
    have ok1: "session_ok ?st1 sid recs"
      by (rule session_ok_sync [OF ok None]) simp_all
    have ok2: "session_ok ?st2 sid recs"
      by (rule session_ok_sync [OF ok None]) simp_all
    have read: "readJournal (file_of ?st2 sid) (so_schemaID st) sid 0 0 0 = Inr recs"
      using ok by (simp add: readJournal_range session_ok_def last_n_def in_range_def)
    have ok3: "session_ok (?st2\<lparr>so_writers := map_put sid \<lparr>w_seq = last_seq recs, w_state = state\<rparr>
        (so_writers ?st2)\<rparr>) sid recs" for state
      using ok by (simp add: session_ok_def writer_agrees_def)
    show ?thesis
      using run ok ok1 ok2 ok3 None read unfolding last_seq_def
      by (auto simp: writerLocked_def Let_def repairTornTail_keep split: if_splits option.splits)
  qed
  then show "session_ok st' sid recs" and "res = Inr w \<Longrightarrow> map_of (so_writers st') sid = Some w"
    by auto
qed

section \<open>What Append does to a session\<close>

lemma default_keeps [simp]:
  "r_SessionID (default_schema st r) = r_SessionID r" "r_Event (default_schema st r) = r_Event r"
  "r_SessionID (default_version r) = r_SessionID r" "r_Event (default_version r) = r_Event r"
  "r_Schema (default_version r) = r_Schema r"
  "r_SessionID (default_identity now i r) = r_SessionID r" "r_Event (default_identity now i r) = r_Event r"
  "r_Schema (default_identity now i r) = r_Schema r"
  "r_SchemaVersion (default_identity now i r) = r_SchemaVersion r"
  "r_SessionID (default_data r) = r_SessionID r" "r_Event (default_data r) = r_Event r"
  "r_Schema (default_data r) = r_Schema r" "r_SchemaVersion (default_data r) = r_SchemaVersion r"
  "r_Sequence (default_data r) = r_Sequence r" "r_Data (default_data r) \<noteq> []"
  by (simp_all add: default_schema_def default_version_def default_identity_def default_data_def
      empty_object_def Let_def)

lemma envelope_Inr:
  assumes "envelope now newID st r0 = Inr r"
  shows "r_SessionID r = TrimSpace (r_SessionID r0)" and "r_SessionID r \<noteq> []"
    and "r_Schema r = so_schemaID st" and "r_SchemaVersion r = schemaVersion"
    and "r_Event r = TrimSpace (r_Event r0)" and "r_Data r \<noteq> []"
  using assms
  by (auto simp: envelope_def Let_def split: if_splits)

lemma reduced_Inr:
  assumes "reduced st w r = Inr (state, r')"
    and "r_Schema r = so_schemaID st" and "r_SchemaVersion r = schemaVersion"
  shows "r_SessionID r' = r_SessionID r" and "r_Sequence r' = r_Sequence r"
    and "r_Schema r' = so_schemaID st" and "r_SchemaVersion r' = schemaVersion"
  using assms
  by (auto simp: reduced_def Let_def split: if_splits option.splits)

lemma follows_snoc:
  assumes "follows None recs" and "r_Sequence r = last_seq recs + 1"
  shows "follows None (recs @ [r])"
proof -
  have "r_Sequence x \<le> last_seq recs" if "x \<in> set recs" for x
  proof -
    from that have "recs \<noteq> []" by auto
    then obtain ys y where recs: "recs = ys @ [y]" by (metis rev_exhaust)
    then show ?thesis
      using that assms(1) by (auto simp: follows_def last_seq_def sorted_wrt_append)
  qed
  with assms show ?thesis by (fastforce simp: follows_def sorted_wrt_append)
qed

definition appendable :: "Store \<Rightarrow> Record list \<Rightarrow> Record \<Rightarrow> bool" where
  "appendable st recs r \<longleftrightarrow>
     r_Schema r = so_schemaID st \<and> r_SchemaVersion r = schemaVersion
     \<and> r_Sequence r = last_seq recs + 1 \<and> r_Sequence r < 2 ^ 64"

lemma journal_records_append:
  assumes recs: "journal_records schema (r_SessionID r) s = Inr recs"
    and r: "r_Schema r = schema" "r_SchemaVersion r = schemaVersion"
      "r_Sequence r = last_seq recs + 1" "r_Sequence r < 2 ^ 64"
    and line: "marshal_record r = Some l"
  shows "journal_records schema (r_SessionID r) (keep_lines s @ l @ [newline]) =
           Inr (recs @ [as_written r])"
proof -
  note lines = record_line.append_line(1) [OF r(4) line, of s]
  have "follows None (recs @ [as_written r])"
    using recs r(3) by (intro follows_snoc) (auto simp: journal_records_def checked_Inr)
  then show ?thesis
    using recs r lines by (auto simp: journal_records_def checked_Inr)
qed

lemma persist_contract:
  assumes ok: "session_ok st (r_SessionID r) recs" and w: "map_of (so_writers st) (r_SessionID r) = Some w"
    and r: "appendable st recs r" and run: "persist io state r st = (res, st')"
  shows "res = Inr r' \<Longrightarrow> r' = r \<and> session_ok st' (r_SessionID r) (recs @ [as_written r])"
    and "session_ok st' (r_SessionID r) recs \<or> session_ok st' (r_SessionID r) (recs @ [as_written r])"
proof -
  let ?sid = "r_SessionID r"
  obtain s where s: "file_of st ?sid = Some s" "keep_lines s = s" "w_seq w = last_seq recs"
    using ok w by (auto simp: session_ok_def writer_agrees_def split: option.splits)
  have recs: "journal_records (so_schemaID st) ?sid s = Inr recs" "\<forall>x \<in> set recs. 0 < r_Sequence x"
    using ok s(1) by (auto simp: session_ok_def opened_def)
  have seq: "0 < r_Sequence r" using r by (simp add: appendable_def)
  have "(\<forall>r'. res = Inr r' \<longrightarrow> r' = r \<and> session_ok st' ?sid (recs @ [as_written r]))
      \<and> (session_ok st' ?sid recs \<or> session_ok st' ?sid (recs @ [as_written r]))"
  proof (cases "marshal_record r")
    case None
    with run ok show ?thesis by (auto simp: persist_def)
  next
    case (Some l)
    let ?all = "append_bytes ?sid (l @ [newline]) st"
    have full: "journal_records (so_schemaID st) ?sid (s @ l @ [newline]) = Inr (recs @ [as_written r])"
      using journal_records_append [OF recs(1) _ _ _ _ Some] r s(2) by (simp add: appendable_def)
    have dropped: "session_ok (drop_writer ?sid ?all) ?sid (recs @ [as_written r])"
      using full recs(2) seq s(1) by (simp add: session_ok_def append_bytes_def drop_writer_def opened_def)
    have kept: "session_ok (?all\<lparr>so_writers := map_put ?sid \<lparr>w_seq = r_Sequence r, w_state = state\<rparr>
        (so_writers ?all)\<rparr>) ?sid (recs @ [as_written r])"
      using full recs(2) seq s keep_lines_snoc [of "s @ l"]
      by (simp add: session_ok_def append_bytes_def opened_def writer_agrees_def last_seq_def)
    have torn: "session_ok (drop_writer ?sid (append_bytes ?sid (take n (l @ [newline])) st)) ?sid recs"
      if "n \<le> length l" for n
    proof -
      have "keep_lines (s @ take n (l @ [newline])) = s"
        using record_line.torn_line [OF Some that, of s] s(2) by simp
      then have "journal_records (so_schemaID st) ?sid (s @ take n (l @ [newline])) = Inr recs"
        using journal_records_keep recs(1) by metis
      then show ?thesis
        using recs(2) s(1) by (simp add: session_ok_def append_bytes_def drop_writer_def opened_def)
    qed
    show ?thesis
    proof (cases "io_write io")
      case Written
      with run Some dropped kept show ?thesis
        by (cases "io_sync io") (auto simp: persist_def Let_def)
    next
      case (ShortWrite n)
      show ?thesis
      proof (cases "n \<le> length l")
        case True
        with run Some ShortWrite torn [OF True] show ?thesis by (auto simp: persist_def Let_def)
      next
        case False
        then have "take n (l @ [newline]) = l @ [newline]" by simp
        with run Some ShortWrite dropped show ?thesis by (auto simp: persist_def Let_def)
      qed
    qed
  qed
  then show "res = Inr r' \<Longrightarrow> r' = r \<and> session_ok st' ?sid (recs @ [as_written r])"
    and "session_ok st' ?sid recs \<or> session_ok st' ?sid (recs @ [as_written r])" by auto
qed

definition at_most_next :: "Record list \<Rightarrow> Record list \<Rightarrow> bool" where
  "at_most_next recs new \<longleftrightarrow>
     new = [] \<or> (\<exists>r. new = [r] \<and> r_Sequence r = last_seq recs + 1)"

text \<open>
  One append against the contract: a successful one adds its record, a failed one adds at most
  that record, and no other session is touched. The bound excludes the wrap of the sequence.
\<close>

lemma Append_contract:
  assumes ok: "session_ok st (TrimSpace (r_SessionID r0)) recs" and bound: "last_seq recs + 1 < 2 ^ 64"
    and run: "Append io now newID r0 st = (res, st', calls)"
  shows "res = Inr r \<Longrightarrow> r_SessionID r = TrimSpace (r_SessionID r0)
           \<and> r_Sequence r = last_seq recs + 1
           \<and> session_ok st' (TrimSpace (r_SessionID r0)) (recs @ [as_written r])"
    and "\<exists>new. at_most_next recs new \<and> session_ok st' (TrimSpace (r_SessionID r0)) (recs @ new)"
proof -
  let ?sid = "TrimSpace (r_SessionID r0)"
  have none: "\<exists>new. at_most_next recs new \<and> session_ok s ?sid (recs @ new)" if "session_ok s ?sid recs" for s
    using that by (intro exI [of _ "[]"]) (simp add: at_most_next_def)
  have "(\<forall>r. res = Inr r \<longrightarrow> r_SessionID r = ?sid \<and> r_Sequence r = last_seq recs + 1
           \<and> session_ok st' ?sid (recs @ [as_written r]))
      \<and> (\<exists>new. at_most_next recs new \<and> session_ok st' ?sid (recs @ new))"
  proof (cases "envelope now newID st r0")
    case (Inl e)
    with run ok none show ?thesis by (auto simp: Append_def)
  next
    case (Inr r1)
    note env = envelope_Inr [OF Inr]
    obtain wres st1 where wl: "writerLocked io ?sid st = (wres, st1)" by fastforce
    have else1: "elsewhere ?sid st st1" using writerLocked_elsewhere [of ?sid st io] wl by simp
    have ok1: "session_ok st1 ?sid recs" by (rule writerLocked_contract(1) [OF ok wl])
    show ?thesis
    proof (cases wres)
      case (Inl e)
      with run \<open>envelope now newID st r0 = Inr r1\<close> env wl ok1 none show ?thesis
        by (auto simp: Append_def)
    next
      case w: (Inr w)
      have w1: "map_of (so_writers st1) ?sid = Some w" using writerLocked_contract(2) [OF ok wl w] .
      have seq: "w_seq w = last_seq recs"
        using ok1 w1 by (simp add: session_ok_def writer_agrees_def)
      let ?r = "r1\<lparr>r_Sequence := uint64 (w_seq w + 1)\<rparr>"
      have schema: "so_schemaID st1 = so_schemaID st" using else1 by (simp add: elsewhere_def)
      show ?thesis
      proof (cases "reduced st1 w ?r")
        case (Inl e)
        with run \<open>envelope now newID st r0 = Inr r1\<close> env wl w ok1 none show ?thesis
          by (auto simp: Append_def)
      next
        case red: (Inr sr)
        obtain state r2 where sr: "sr = (state, r2)" by fastforce
        have r2: "r_SessionID r2 = ?sid" "r_Sequence r2 = last_seq recs + 1"
            "r_Schema r2 = so_schemaID st1" "r_SchemaVersion r2 = schemaVersion"
          using reduced_Inr [OF red [unfolded sr]] env schema seq bound by (simp_all add: uint64_def)
        obtain pres st2 where ps: "persist io state r2 st1 = (pres, st2)" by fastforce
        have able: "appendable st1 recs r2" using r2 bound by (simp add: appendable_def)
        note con = persist_contract [OF _ _ able ps, unfolded r2(1), OF ok1 w1]
        have st': "st' = st2" "res = pres"
          using run \<open>envelope now newID st r0 = Inr r1\<close> env wl w red sr ps
          by (auto simp: Append_def split: sum.splits)
        have "\<exists>new. at_most_next recs new \<and> session_ok st2 ?sid (recs @ new)"
          using con(2) none [of st2] r2(2)
          by (auto simp: at_most_next_def intro: exI [of _ "[as_written r2]"])
        with st' con(1) r2 show ?thesis by auto
      qed
    qed
  qed
  then show "res = Inr r \<Longrightarrow> r_SessionID r = ?sid \<and> r_Sequence r = last_seq recs + 1
           \<and> session_ok st' ?sid (recs @ [as_written r])"
    and "\<exists>new. at_most_next recs new \<and> session_ok st' ?sid (recs @ new)" by auto
qed

lemma Append_session:
  assumes "fst (Append io now newID r0 st) = Inr r"
  shows "r_SessionID r = TrimSpace (r_SessionID r0)"
proof -
  obtain r1 where r1: "envelope now newID st r0 = Inr r1"
    using assms by (auto simp: Append_def split: sum.splits)
  have "so_schemaID (snd (writerLocked io (r_SessionID r1) st)) = so_schemaID st"
    using writerLocked_elsewhere [of "r_SessionID r1" st io] by (simp add: elsewhere_def)
  with assms r1 envelope_Inr [OF r1] show ?thesis
    by (auto simp: Append_def persist_def Let_def dest!: reduced_Inr(1)
        split: sum.splits prod.splits option.splits write_result.splits if_splits)
qed

lemma Append_elsewhere:
  "elsewhere (TrimSpace (r_SessionID r0)) st (fst (snd (Append io now newID r0 st)))"
proof (cases "envelope now newID st r0")
  case (Inl e)
  then show ?thesis by (simp add: Append_def)
next
  case (Inr r1)
  let ?sid = "TrimSpace (r_SessionID r0)"
  note env = envelope_Inr [OF Inr]
  obtain wres st1 where wl: "writerLocked io ?sid st = (wres, st1)" by fastforce
  have else1: "elsewhere ?sid st st1" using writerLocked_elsewhere [of ?sid st io] wl by simp
  have "elsewhere ?sid st (snd (persist io state r2 st1))"
    if "reduced st1 w (r1\<lparr>r_Sequence := n\<rparr>) = Inr (state, r2)" for w n state r2
  proof -
    have "r_SessionID r2 = ?sid"
      using reduced_Inr(1) [OF that] env else1 by (simp add: elsewhere_def)
    then show ?thesis using elsewhere_trans [OF else1] persist_elsewhere [of r2 st1] by simp
  qed
  with Inr wl else1 env(1) show ?thesis
    by (fastforce simp: Append_def split: sum.splits prod.splits)
qed

section \<open>Reading back\<close>

lemma read_journal_ok:
  assumes ok: "session_ok st sid recs" and present: "file_of st sid \<noteq> None"
    and sid: "TrimSpace sid = sid" "sid \<noteq> []" and range: "through = 0 \<or> after \<le> through"
  shows "read_journal True sid after through tail st =
           Inr (last_n tail (filter (in_range after through) recs))"
proof -
  obtain s where s: "file_of st sid = Some s" using present by auto
  then have "journal_records (so_schemaID st) sid s = Inr recs"
    using ok by (simp add: session_ok_def opened_def)
  with s sid range show ?thesis
    by (auto simp: read_journal_def syncSession_def readJournal_range split: option.splits)
qed

lemma session_ok_all: "session_ok st sid recs \<Longrightarrow> filter (in_range 0 0) recs = recs"
  by (simp add: session_ok_def in_range_def)

lemma last_n_1: "last_n (Suc 0) xs = (if xs = [] then [] else [last xs])"
  by (cases xs rule: rev_cases) (auto simp: last_n_def)

lemma LastSequence_ok:
  assumes ok: "session_ok st sid recs" and present: "file_of st sid \<noteq> None"
    and sid: "TrimSpace sid = sid" "sid \<noteq> []"
  shows "LastSequence True sid st = Inr (last_seq recs)"
proof (cases "map_of (so_writers st) sid")
  case (Some w)
  then show ?thesis
    using ok sid by (simp add: LastSequence_def syncSession_def session_ok_def writer_agrees_def)
next
  case None
  obtain s where s: "file_of st sid = Some s" using present by auto
  then have "readJournal (Some s) (so_schemaID st) sid 0 0 1 = Inr (last_n 1 recs)"
    using ok session_ok_all [OF ok] by (simp add: readJournal_range session_ok_def opened_def)
  with None s sid show ?thesis
    by (auto simp: LastSequence_def syncSession_def last_n_1 last_seq_def)
qed

section \<open>Histories of a store\<close>

text \<open>
  What happens to a store over its life: appends, a close, and a restart of the process, which
  forgets everything but the directory.
\<close>

datatype store_op = OpAppend io time string Record | OpClose | OpRestart

fun store_step :: "store_op \<Rightarrow> Store \<Rightarrow> Store" where
  "store_step (OpAppend io now newID r) st = fst (snd (Append io now newID r st))"
| "store_step OpClose st = Close_store st"
| "store_step OpRestart st = st\<lparr>so_writers := [], so_listeners := []\<rparr>"

text \<open>The record acknowledged to the caller of an operation on session \<open>sid\<close>, as written.\<close>

fun store_ack :: "string \<Rightarrow> store_op \<Rightarrow> Store \<Rightarrow> Record list" where
  "store_ack sid (OpAppend io now newID r) st =
     (case fst (Append io now newID r st) of
        Inr r' \<Rightarrow> if r_SessionID r' = sid then [as_written r'] else []
      | Inl _ \<Rightarrow> [])"
| "store_ack sid _ st = []"

text \<open>No other session of the history shares the file name of \<open>sid\<close>.\<close>

fun apart :: "string \<Rightarrow> store_op \<Rightarrow> bool" where
  "apart sid (OpAppend io now newID r) \<longleftrightarrow>
     TrimSpace (r_SessionID r) = sid \<or> path (TrimSpace (r_SessionID r)) \<noteq> path sid"
| "apart sid _ \<longleftrightarrow> True"

text \<open>The outputs of a sequence of operations.\<close>

fun collect :: "('op \<Rightarrow> 'st \<Rightarrow> 'st) \<Rightarrow> ('op \<Rightarrow> 'st \<Rightarrow> 'r list) \<Rightarrow> 'op list \<Rightarrow> 'st \<Rightarrow> 'r list" where
  "collect step out [] st = []"
| "collect step out (a # as) st = out a st @ collect step out as (step a st)"

text \<open>
  The contract of a durable log, for any representation: \<open>holds n st k xs\<close> says that the
  log of key \<open>k\<close> holds \<open>xs\<close> with room for \<open>n\<close> more operations.
\<close>

locale durable_log =
  fixes holds :: "nat \<Rightarrow> 'st \<Rightarrow> 'k \<Rightarrow> 'r list \<Rightarrow> bool"
    and step :: "'op \<Rightarrow> 'st \<Rightarrow> 'st"
    and ack :: "'k \<Rightarrow> 'op \<Rightarrow> 'st \<Rightarrow> 'r list"
    and safe :: "'k \<Rightarrow> 'op \<Rightarrow> bool"
  assumes step_holds: "holds (Suc n) st k xs \<Longrightarrow> safe k a \<Longrightarrow>
      \<exists>new. length new \<le> 1 \<and> holds n (step a st) k (xs @ new) \<and> subseq (ack k a st) new"
begin

lemma run_holds:
  "holds (length as + n) st k xs \<Longrightarrow> \<forall>a \<in> set as. safe k a \<Longrightarrow>
     \<exists>new. length new \<le> length as \<and> holds n (fold step as st) k (xs @ new) \<and> subseq (collect step (ack k) as st) new"
proof (induction as arbitrary: st xs)
  case Nil
  then show ?case by (intro exI [of _ "[]"]) simp
next
  case (Cons a as)
  obtain m where m: "length m \<le> 1" "holds (length as + n) (step a st) k (xs @ m)" "subseq (ack k a st) m"
    using step_holds [of "length as + n" st k xs a] Cons.prems by auto
  obtain ms where ms: "length ms \<le> length as" "holds n (fold step as (step a st)) k ((xs @ m) @ ms)"
      "subseq (collect step (ack k) as (step a st)) ms"
    using Cons.IH [OF m(2)] Cons.prems(2) by auto
  show ?case
    using m ms by (intro exI [of _ "m @ ms"]) (auto intro: list_emb_append_mono)
qed

end

text \<open>Room below the wrap of the sequence.\<close>

definition holds_room :: "nat \<Rightarrow> Store \<Rightarrow> string \<Rightarrow> Record list \<Rightarrow> bool" where
  "holds_room n st sid recs \<longleftrightarrow> session_ok st sid recs \<and> last_seq recs + n < 2 ^ 64"

lemma last_seq_snoc [simp]: "last_seq (recs @ [r]) = r_Sequence r"
  by (simp add: last_seq_def)

lemma session_ok_forget:
  "session_ok st sid recs \<Longrightarrow> so_disk st' = so_disk st \<Longrightarrow> so_schemaID st' = so_schemaID st
    \<Longrightarrow> so_writers st' = [] \<Longrightarrow> session_ok st' sid recs"
  by (simp add: session_ok_def opened_def file_of_def)

lemma holds_room_next:
  assumes "last_seq recs + Suc n < 2 ^ 64" and "at_most_next recs new" and "session_ok st sid (recs @ new)"
  shows "length new \<le> 1 \<and> holds_room n st sid (recs @ new)"
  using assms by (auto simp: at_most_next_def holds_room_def)

lemma store_step_holds:
  assumes h: "holds_room (Suc n) st sid recs" and safe: "apart sid a"
  shows "\<exists>new. length new \<le> 1 \<and> holds_room n (store_step a st) sid (recs @ new)
           \<and> subseq (store_ack sid a st) new"
proof -
  have ok: "session_ok st sid recs" and room: "last_seq recs + Suc n < 2 ^ 64"
    using h by (auto simp: holds_room_def)
  show ?thesis
  proof (cases a)
    case (OpAppend io now newID r0)
    obtain res st' calls where run: "Append io now newID r0 st = (res, st', calls)"
      by (cases "Append io now newID r0 st") auto
    show ?thesis
    proof (cases "TrimSpace (r_SessionID r0) = sid")
      case True
      note con = Append_contract [OF ok [folded True] _ run, unfolded True]
      show ?thesis
      proof (cases res)
        case (Inl e)
        then show ?thesis
          using con(2) room holds_room_next [OF room] OpAppend run by fastforce
      next
        case (Inr r)
        then have "r_SessionID r = sid" "r_Sequence r = last_seq recs + 1"
            "session_ok st' sid (recs @ [as_written r])"
          using con(1) room by auto
        then show ?thesis
          using holds_room_next [OF room, of "[as_written r]" st' sid] OpAppend run Inr
          by (intro exI [of _ "[as_written r]"]) (auto simp: at_most_next_def)
      qed
    next
      case False
      have "session_ok st' sid recs"
        using ok session_ok_elsewhere [OF Append_elsewhere [of r0 st io now newID]] safe False
        by (simp add: OpAppend run)
      moreover have "store_ack sid a st = []"
        using Append_session [of io now newID r0 st] False
        by (auto simp: OpAppend run split: sum.splits)
      ultimately show ?thesis
        using room by (intro exI [of _ "[]"]) (simp add: OpAppend run holds_room_def)
    qed
  next
    case OpClose
    have "session_ok (Close_store st) sid recs"
      by (rule session_ok_forget [OF ok]) (simp_all add: Close_store_def)
    with room show ?thesis by (intro exI [of _ "[]"]) (simp add: OpClose holds_room_def)
  next
    case OpRestart
    have "session_ok (store_step OpRestart st) sid recs"
      by (rule session_ok_forget [OF ok]) simp_all
    with room show ?thesis by (intro exI [of _ "[]"]) (simp add: OpRestart holds_room_def)
  qed
qed

interpretation store_log: durable_log holds_room store_step store_ack apart
  by unfold_locales (rule store_step_holds)

section \<open>Properties\<close>

lemma session_ok_file: "session_ok st sid recs \<Longrightarrow> recs \<noteq> [] \<Longrightarrow> file_of st sid \<noteq> None"
  by (cases "file_of st sid")
    (auto simp: session_ok_def opened_def journal_records_def complete_lines_def)

lemma Append_file:
  assumes "session_ok st (TrimSpace (r_SessionID r0)) recs" and "last_seq recs + 1 < 2 ^ 64"
    and "Append io now newID r0 st = (Inr r, st', calls)"
  shows "file_of st' (TrimSpace (r_SessionID r0)) \<noteq> None"
proof -
  have "session_ok st' (TrimSpace (r_SessionID r0)) (recs @ [as_written r])"
    using Append_contract(1) [OF assms] by simp
  then show ?thesis by (rule session_ok_file) simp
qed

text \<open>Without failures an append to a healthy session succeeds.\<close>

lemma writerLocked_io_ok:
  assumes ok: "session_ok st sid recs" and red: "so_reducer st = None"
  obtains w st1 where "writerLocked io_ok sid st = (Inr w, st1)" and "so_reducer st1 = None"
    and "w_seq w = last_seq recs" and "so_listeners st1 = so_listeners st"
proof (cases "map_of (so_writers st) sid")
  case (Some w)
  with ok red show ?thesis
    by (intro that [of w st]) (simp_all add: writerLocked_def session_ok_def writer_agrees_def)
next
  case None
  let ?st2 = "put_file sid (keep_lines (opened st sid)) (open_file sid st)"
  have "readJournal (file_of ?st2 sid) (so_schemaID st) sid 0 0 0 = Inr recs"
    using ok by (simp add: readJournal_range session_ok_def last_n_def in_range_def)
  with None red have "writerLocked io_ok sid st = (Inr \<lparr>w_seq = last_seq recs, w_state = []\<rparr>,
      ?st2\<lparr>so_writers := map_put sid \<lparr>w_seq = last_seq recs, w_state = []\<rparr> (so_writers ?st2)\<rparr>)"
    by (simp add: writerLocked_def io_ok_def Let_def repairTornTail_keep last_seq_def)
  then show ?thesis by (rule that) (simp_all add: red)
qed

lemma Append_io_ok:
  assumes ok: "session_ok st (TrimSpace (r_SessionID r0)) recs" and red: "so_reducer st = None"
    and env: "envelope now newID st r0 = Inr r1" and json: "unmarshal (r_Data r1) \<noteq> None"
    and r: "r = r1\<lparr>r_Sequence := uint64 (last_seq recs + 1)\<rparr>"
  shows "\<exists>st'. Append io_ok now newID r0 st = (Inr r, st', map (\<lambda>l. (l, r)) (so_listeners st))"
proof -
  obtain w st1 where w: "writerLocked io_ok (r_SessionID r1) st = (Inr w, st1)" "so_reducer st1 = None"
      "w_seq w = last_seq recs" "so_listeners st1 = so_listeners st"
    using writerLocked_io_ok [OF ok red] envelope_Inr(1) [OF env] by metis
  have "marshal_record r \<noteq> None"
    using json envelope_Inr(6) [OF env] by (simp add: marshal_record_def r)
  then show ?thesis
    using env w by (auto simp: Append_def reduced_def persist_def io_ok_def r append_bytes_def Let_def)
qed

text \<open>
  C12: an acknowledged append is durable. If the journal of the session holds \<open>recs\<close> and
  \<open>Append\<close> succeeds, then reading the session returns those records and the new one in
  its written form, its sequence number is the next one, \<open>LastSequence\<close> reports it, and
  \<open>Tail\<close> returns the last records up to its limit.
\<close>

theorem append_then_read:
  assumes ok: "session_ok st (TrimSpace (r_SessionID r0)) recs" and bound: "last_seq recs + 1 < 2 ^ 64"
    and run: "Append io now newID r0 st = (Inr r, st', calls)" and sid: "TrimSpace (r_SessionID r0) \<noteq> []"
  shows "Read True (r_SessionID r0) 0 0 st' = Inr (recs @ [as_written r])
       \<and> r_Sequence r = last_seq recs + 1
       \<and> LastSequence True (r_SessionID r0) st' = Inr (last_seq recs + 1)
       \<and> Tail True (r_SessionID r0) (int (Suc limit)) st' = Inr (last_n (Suc limit) (recs @ [as_written r]))"
proof -
  let ?sid = "TrimSpace (r_SessionID r0)"
  have seq: "r_Sequence r = last_seq recs + 1" and ok': "session_ok st' ?sid (recs @ [as_written r])"
    using Append_contract(1) [OF ok bound run] by auto
  note present = Append_file [OF ok bound run]
  have read: "read_journal True (r_SessionID r0) 0 0 n st' = Inr (last_n n (recs @ [as_written r]))" for n
    using read_journal_ok [OF ok' present _ sid, of 0 0 n] session_ok_all [OF ok']
    by (simp add: read_journal_def)
  have "LastSequence True (r_SessionID r0) st' = LastSequence True ?sid st'"
    by (simp add: LastSequence_def)
  moreover have "Tail True (r_SessionID r0) (int (Suc limit)) st' =
      read_journal True (r_SessionID r0) 0 0 (Suc limit) st'"
    unfolding Tail_def by (simp del: of_nat_Suc)
  moreover have "Read True (r_SessionID r0) 0 0 st' = Inr (recs @ [as_written r])"
    using read [of 0] by (simp add: Read_def last_n_def)
  ultimately show ?thesis
    using read seq LastSequence_ok [OF ok' present _ sid] by simp
qed

definition demo_store :: Store where
  "demo_store = \<lparr>so_disk = [], so_schemaID = defaultSchemaID, so_writers = [], so_listeners = [7],
                 so_reducer = None\<rparr>"

definition demo_record :: "string \<Rightarrow> Record" where
  "demo_record sid = zero_record\<lparr>r_SessionID := sid, r_Event := ''e'', r_Data := marshal JNull\<rparr>"

lemma demo_trim [simp]: "TrimSpace ''s1'' = ''s1''" "TrimSpace ''e'' = ''e''"
  by code_simp+

lemma demo_ok [simp]: "session_ok demo_store sid []"
  by (simp add: session_ok_def demo_store_def opened_def file_of_def journal_records_def
      complete_lines_def)

lemma demo_envelope:
  "TrimSpace sid \<noteq> [] \<Longrightarrow>
     \<exists>r. envelope 5 ''id'' demo_store (demo_record sid) = Inr r \<and> r_Data r = marshal JNull"
  by (simp add: envelope_def demo_store_def demo_record_def Let_def default_schema_def
      default_version_def default_identity_def default_data_def zero_record_def defaultSchemaID_def)

lemma demo_append:
  assumes "TrimSpace sid \<noteq> []"
  obtains r st' calls where "Append io_ok 5 ''id'' (demo_record sid) demo_store = (Inr r, st', calls)"
proof -
  obtain r where r: "envelope 5 ''id'' demo_store (demo_record sid) = Inr r" "r_Data r = marshal JNull"
    using demo_envelope [OF assms] by auto
  have "so_reducer demo_store = None" by (simp add: demo_store_def)
  moreover have "unmarshal (r_Data r) \<noteq> None" using unmarshal_marshal [of JNull] r(2) by simp
  ultimately show ?thesis using Append_io_ok [OF demo_ok _ r(1) _ refl] that by blast
qed

theorem append_then_read_witness:
  "\<exists>r st' calls. Append io_ok 5 ''id'' (demo_record ''s1'') demo_store = (Inr r, st', calls)
     \<and> Read True ''s1'' 0 0 st' = Inr [as_written r] \<and> r_Sequence r = 1"
proof -
  obtain r st' calls where run: "Append io_ok 5 ''id'' (demo_record ''s1'') demo_store = (Inr r, st', calls)"
    using demo_append [of "''s1''"] by auto
  then show ?thesis
    using append_then_read [OF _ _ run, of "[]"] by (simp add: demo_record_def last_seq_def)
qed

text \<open>
  C2: no acknowledged record is lost, whatever fails. Over any history of appends with any
  failures of the file system, closes and restarts of the process, the journal of a session
  keeps the records it had, in order, and every record acknowledged during the history is among
  the records added, in order; no operation adds more than one.
\<close>

theorem acknowledged_never_lost:
  assumes ok: "session_ok st sid recs" and room: "last_seq recs + length ops < 2 ^ 64"
    and apart: "\<forall>a \<in> set ops. apart sid a"
  shows "\<exists>new. session_ok (fold store_step ops st) sid (recs @ new) \<and> length new \<le> length ops
           \<and> subseq (collect store_step (store_ack sid) ops st) new"
proof -
  have "holds_room (length ops + 0) st sid recs" using ok room by (simp add: holds_room_def)
  from store_log.run_holds [OF this apart] show ?thesis by (auto simp: holds_room_def)
qed

theorem acknowledged_never_lost_witness:
  "\<exists>new r. session_ok (fold store_step [OpAppend io_ok 5 ''id'' (demo_record ''s1''), OpRestart] demo_store)
             ''s1'' new
         \<and> store_ack ''s1'' (OpAppend io_ok 5 ''id'' (demo_record ''s1'')) demo_store = [r] \<and> r \<in> set new"
proof -
  let ?ops = "[OpAppend io_ok 5 ''id'' (demo_record ''s1''), OpRestart]"
  obtain r st' calls where run: "Append io_ok 5 ''id'' (demo_record ''s1'') demo_store = (Inr r, st', calls)"
    using demo_append [of "''s1''"] by auto
  have "r_SessionID r = ''s1''"
    using Append_session [of io_ok 5 "''id''" "demo_record ''s1''" demo_store r] run by (simp add: demo_record_def)
  then have ack: "store_ack ''s1'' (OpAppend io_ok 5 ''id'' (demo_record ''s1'')) demo_store = [as_written r]"
    using run by simp
  obtain new where "session_ok (fold store_step ?ops demo_store) ''s1'' ([] @ new)"
      "subseq (collect store_step (store_ack ''s1'') ?ops demo_store) new"
    using acknowledged_never_lost [of demo_store "''s1''" "[]" ?ops]
    by (auto simp: last_seq_def demo_record_def)
  with ack show ?thesis
    by (intro exI [of _ new] exI [of _ "as_written r"]) (auto simp: subseq_singleton_left)
qed

text \<open>
  C32: the reader sees exactly the checked records. A read of a present file returns the records
  of its complete lines whose sequence lies in the cursor range, the last \<open>tail\<close> of them
  when a limit is given, and reports the first bad line otherwise; a torn last line is ignored.
\<close>

theorem reader_range:
  "readJournal (Some s) schema sid after through tail =
     map_sum id (\<lambda>rs. last_n tail (filter (in_range after through) rs)) (journal_records schema sid s)
   \<and> journal_records schema sid (keep_lines s) = journal_records schema sid s"
  by (simp add: readJournal_range)

text \<open>
  Repairing a torn tail, in backward reads of 32 KiB, truncates the file after its last
  newline: what remains is a prefix of the file that ends in a newline or is empty, the bytes
  cut off hold no newline, and the complete lines are those of the file.
\<close>

theorem repair_cuts_torn_tail:
  "\<exists>cut. s = repairTornTail s @ cut \<and> newline \<notin> set cut
     \<and> (repairTornTail s = [] \<or> last (repairTornTail s) = newline)
     \<and> complete_lines (repairTornTail s) = complete_lines s"
proof -
  let ?cut = "rev (takeWhile ((\<noteq>) newline) (rev s))"
  have "s = keep_lines s @ ?cut"
    unfolding keep_lines_def by (metis rev_append rev_rev_ident takeWhile_dropWhile_id)
  moreover have "newline \<notin> set ?cut" by (auto dest: set_takeWhileD)
  moreover have "keep_lines s = [] \<or> last (keep_lines s) = newline"
  proof (cases "dropWhile ((\<noteq>) newline) (rev s) = []")
    case False
    then have "hd (dropWhile ((\<noteq>) newline) (rev s)) = newline"
      using hd_dropWhile [OF False] by simp
    with False show ?thesis unfolding keep_lines_def by (simp add: last_rev)
  qed (simp add: keep_lines_def)
  ultimately show ?thesis by (metis complete_lines_keep repairTornTail_keep)
qed

lemma journal_records_collision:
  assumes recs: "journal_records schema sid s = Inr recs" and ne: "recs \<noteq> []" and other: "sid' \<noteq> sid"
  shows "journal_records schema sid' s = Inl (FilenameCollision 1 sid sid')"
proof -
  obtain r rs where r: "recs = r # rs" using ne by (cases recs) auto
  with recs obtain l ls where l: "complete_lines s = l # ls" "unmarshal_record l = Some r"
    by (auto simp: journal_records_def checked_Inr map_eq_Cons_conv)
  have "r_Schema r = schema \<and> r_SchemaVersion r = schemaVersion \<and> r_SessionID r = sid"
    using recs r by (simp add: journal_records_def checked_Inr)
  with l other show ?thesis by (simp add: journal_records_def check_line_def)
qed

lemma writerLocked_collision:
  assumes ok: "session_ok st sid recs" and ne: "recs \<noteq> []" and other: "sid' \<noteq> sid"
    and same: "path sid' = path sid" and closed: "map_of (so_writers st) sid' = None"
  shows "isl (fst (writerLocked io sid' st))" and "session_ok (snd (writerLocked io sid' st)) sid recs"
proof -
  obtain s where s: "file_of st sid = Some s"
    using session_ok_file [OF ok ne] by auto
  let ?st2 = "put_file sid' (keep_lines (opened st sid')) st"
  have open': "open_file sid' st = st"
    using s by (simp add: open_file_def file_of_def same)
  have eq: "opened st sid' = opened st sid" by (simp add: opened_def file_of_def same)
  then have coll: "journal_records (so_schemaID st) sid' (opened st sid') = Inl (FilenameCollision 1 sid sid')"
    using journal_records_collision [OF _ ne other] ok by (simp add: session_ok_def)
  have ok2: "session_ok ?st2 sid recs"
    using ok same eq by (auto simp: session_ok_def writer_agrees_def split: option.splits)
  have read: "readJournal (file_of ?st2 sid') (so_schemaID st) sid' 0 0 0 = Inl (FilenameCollision 1 sid sid')"
    using coll by (simp add: readJournal_range)
  show "isl (fst (writerLocked io sid' st))"
    using closed read by (simp add: writerLocked_def Let_def repairTornTail_keep open')
  show "session_ok (snd (writerLocked io sid' st)) sid recs"
    using closed read ok ok2 by (simp add: writerLocked_def Let_def repairTornTail_keep open')
qed

text \<open>
  Two sessions whose identifiers map to the same file name never mix. While a session holds
  records, reading and appending under a different identifier with the same file name fail, and
  the session keeps its records. (The other identifier has no open writer.)
\<close>

theorem filename_collision_detected:
  assumes ok: "session_ok st sid recs" and ne: "recs \<noteq> []"
    and other: "TrimSpace (r_SessionID r0) \<noteq> sid" and same: "path (TrimSpace (r_SessionID r0)) = path sid"
    and closed: "map_of (so_writers st) (TrimSpace (r_SessionID r0)) = None"
    and sid: "TrimSpace (r_SessionID r0) \<noteq> []"
  shows "isl (fst (Append io now newID r0 st))
       \<and> session_ok (fst (snd (Append io now newID r0 st))) sid recs
       \<and> Read True (r_SessionID r0) 0 0 st =
           Inl (FilenameCollision 1 sid (TrimSpace (r_SessionID r0)))"
proof -
  let ?sid = "TrimSpace (r_SessionID r0)"
  note wl = writerLocked_collision [OF ok ne other same closed]
  have "journal_records (so_schemaID st) ?sid (opened st ?sid) = Inl (FilenameCollision 1 sid ?sid)"
    using journal_records_collision [OF _ ne other] ok same
    by (simp add: session_ok_def opened_def file_of_def)
  moreover obtain s where "file_of st ?sid = Some s"
    using session_ok_file [OF ok ne] same by (auto simp: file_of_def)
  ultimately have read: "Read True (r_SessionID r0) 0 0 st = Inl (FilenameCollision 1 sid ?sid)"
    using closed sid
    by (simp add: Read_def read_journal_def syncSession_def readJournal_range opened_def)
  have "isl (fst (Append io now newID r0 st)) \<and> session_ok (fst (snd (Append io now newID r0 st))) sid recs"
  proof (cases "envelope now newID st r0")
    case (Inl e)
    then show ?thesis using ok by (simp add: Append_def)
  next
    case (Inr r1)
    obtain res st1 where run: "writerLocked io ?sid st = (res, st1)" by fastforce
    with wl [of io] obtain e where "res = Inl e" "session_ok st1 sid recs" by (cases res) auto
    with Inr run envelope_Inr(1) [OF Inr] show ?thesis by (simp add: Append_def)
  qed
  with read show ?thesis by simp
qed

theorem filename_collision_detected_witness:
  "\<exists>st r. session_ok st ''a_b'' [r] \<and> isl (fst (Append io_ok 5 ''id'' (demo_record ''a b'') st))
     \<and> Read True ''a b'' 0 0 st = Inl (FilenameCollision 1 ''a_b'' ''a b'')"
proof -
  have trim: "TrimSpace ''a_b'' = ''a_b''" "TrimSpace ''a b'' = ''a b''" by code_simp+
  have path: "path ''a b'' = path ''a_b''"
    by (simp add: path_inject safeSessionID_def trim rune_width_ascii safe_rune_def safe_char_def)
  obtain r st calls where run: "Append io_ok 5 ''id'' (demo_record ''a_b'') demo_store = (Inr r, st, calls)"
    using demo_append [of "''a_b''"] trim by auto
  then have "session_ok st ''a_b'' [as_written r]"
    using Append_contract(1) [OF demo_ok _ run] by (simp add: demo_record_def trim last_seq_def)
  then have ok: "session_ok (store_step OpRestart st) ''a_b'' [as_written r]"
    by (rule session_ok_forget) simp_all
  then show ?thesis
    using filename_collision_detected [OF ok, of "demo_record ''a b''" io_ok 5 "''id''"]
    by (intro exI [of _ "store_step OpRestart st"] exI [of _ "as_written r"])
      (simp add: demo_record_def trim path)
qed

text \<open>
  a session identifier cannot lead outside the store's directory. The file name of any
  identifier is made of ASCII letters, digits, hyphens and underscores, followed by the
  extension; it is stable under a second translation, so the stems listed by \<open>Sessions\<close>
  name the same files.
\<close>

lemma session_path_safe:
  "list_all safe_char (safeSessionID sid) \<and> path (safeSessionID sid) = path sid
     \<and> (\<exists>stem. path sid = stem @ ''.jsonl'' \<and> CHR ''/'' \<notin> set stem \<and> CHR ''.'' \<notin> set stem)"
proof -
  have "\<not> safe_char CHR ''/''" "\<not> safe_char CHR ''.''" by (auto simp: safe_char_def)
  then show ?thesis
    using safeSessionID_safe [of _ sid] by (auto simp: path_def journalFileExtension_def list_all_iff)
qed

end
