(* ===== verification/Journal_Events.thy ===== *)
theory Journal_Events
  imports Journal_Record
begin

text \<open>
  The neutral journal vocabulary of \<open>src/journal/events.go\<close> and \<open>Translate\<close>, which
  turns a normalized host event into a journal record or decides that the event is live-only.
\<close>

section \<open>The vocabulary\<close>

definition EventUserMessage :: string where "EventUserMessage = ''user.message''"
definition EventUserRequestResolved :: string where "EventUserRequestResolved = ''user.request_resolved''"
definition EventAgentMessage :: string where "EventAgentMessage = ''agent.message''"
definition EventAgentPermission :: string where "EventAgentPermission = ''agent.permission_requested''"
definition EventAgentInteraction :: string where "EventAgentInteraction = ''agent.interaction_requested''"
definition EventAgentWorkspace :: string where "EventAgentWorkspace = ''agent.workspace_changed''"
definition EventAgentTurnStarted :: string where "EventAgentTurnStarted = ''agent.turn_started''"
definition EventAgentYielded :: string where "EventAgentYielded = ''agent.yielded''"
definition EventAgentInterrupted :: string where "EventAgentInterrupted = ''agent.interrupted''"
definition EventAgentTurnFailed :: string where "EventAgentTurnFailed = ''agent.turn_failed''"
definition EventAgentProcessExited :: string where "EventAgentProcessExited = ''agent.process_exited''"
definition JEventAgentStalled :: string where "JEventAgentStalled = ''agent.stalled''"
definition JEventAgentRecovered :: string where "JEventAgentRecovered = ''agent.recovered''"
definition JEventAgentResumeFailed :: string where "JEventAgentResumeFailed = ''agent.resume_failed''"
definition EventAgentPlanProposed :: string where "EventAgentPlanProposed = ''agent.plan_proposed''"
definition EventAgentTodoUpdated :: string where "EventAgentTodoUpdated = ''agent.todo_updated''"

lemmas journal_names =
  EventUserMessage_def EventUserRequestResolved_def EventAgentMessage_def EventAgentPermission_def
  EventAgentInteraction_def EventAgentWorkspace_def EventAgentTurnStarted_def EventAgentYielded_def
  EventAgentInterrupted_def EventAgentTurnFailed_def EventAgentProcessExited_def
  JEventAgentStalled_def JEventAgentRecovered_def JEventAgentResumeFailed_def
  EventAgentPlanProposed_def EventAgentTodoUpdated_def

section \<open>Translation\<close>

definition dotted :: "string \<Rightarrow> bool" where
  "dotted s \<longleftrightarrow> CHR ''.'' \<in> set s"

definition translatedEventName :: "Event \<Rightarrow> string" where
  "translatedEventName e =
     (let name = TrimSpace (event_type_string (ev_Type e)) in
      if dotted name then name
      else case ev_Type e of
        EventMessage \<Rightarrow>
          (let role = ToLower (TrimSpace (ev_Role e)) in
           if role = ''user'' then EventUserMessage
           else if role = ''assistant'' \<or> role = ''agent'' then EventAgentMessage
           else [])
      | EventPermission \<Rightarrow> EventAgentPermission
      | EventInteractionRequested \<Rightarrow>
          (case ev_Interaction e of
             Some q \<Rightarrow> if ir_Kind q = InteractionPermission then EventAgentPermission
                       else EventAgentInteraction
           | None \<Rightarrow> EventAgentInteraction)
      | EventInteractionResolved \<Rightarrow> EventUserRequestResolved
      | EventFileChanged \<Rightarrow> EventAgentWorkspace
      | EventTurnStarted \<Rightarrow> EventAgentTurnStarted
      | EventTurnComplete \<Rightarrow> EventAgentYielded
      | EventTurnFailed \<Rightarrow> EventAgentTurnFailed
      | EventProcessExited \<Rightarrow> EventAgentProcessExited
      | EventAgentStalled \<Rightarrow> JEventAgentStalled
      | EventAgentRecovered \<Rightarrow> JEventAgentRecovered
      | EventAgentResumeFailed \<Rightarrow> JEventAgentResumeFailed
      | EventPlanUpdate \<Rightarrow> EventAgentPlanProposed
      | EventTodoUpdate \<Rightarrow> EventAgentTodoUpdated
      | _ \<Rightarrow> [])"

definition put_nonempty :: "string \<Rightarrow> string \<Rightarrow> payload \<Rightarrow> payload" where
  "put_nonempty k s m = (if s \<noteq> [] then map_put k (JStr s) m else m)"

definition put_some :: "string \<Rightarrow> json option \<Rightarrow> payload \<Rightarrow> payload" where
  "put_some k v m = (case v of None \<Rightarrow> m | Some v \<Rightarrow> map_put k v m)"

definition agent_reference :: "Event \<Rightarrow> json" where
  "agent_reference e =
     JObj [(''backend'', JStr (ev_Backend e)), (''backend_session_id'', JStr (ev_BackendSessionID e)),
           (''backend_thread_id'', JStr (ev_BackendThreadID e)), (''backend_turn_id'', JStr (ev_BackendTurnID e))]"

definition translated_data :: "Event \<Rightarrow> payload" where
  "translated_data e =
     put_some ''agent'' (if ev_Backend e \<noteq> [] then Some (agent_reference e) else None)
       (put_some ''interaction_response'' (map_option enc_response (ev_InteractionResponse e))
         (put_some ''interaction'' (map_option enc_interaction (ev_Interaction e))
           (put_nonempty ''message'' (ev_Message e) (map_copy [] (ev_Data e)))))"

text \<open>\<open>Translate\<close>: \<open>None\<close> is \<open>(Record{}, false)\<close>. Writing a payload of this
  model never fails, so the error branch of \<open>json.Marshal\<close> does not arise.\<close>

definition Translate :: "Event \<Rightarrow> Record option" where
  "Translate e =
     (let name = translatedEventName e in
      if name = [] then None
      else Some (zero_record\<lparr>r_SourceEventID := ev_SourceEventID e, r_SessionID := ev_SessionID e,
                   r_Event := name, r_TurnID := ev_BackendTurnID e,
                   r_Data := marshal (JObj (translated_data e))\<rparr>))"

section \<open>Facts\<close>

lemma map_of_put_nonempty [simp]:
  "map_of (put_nonempty k s m) = (if s \<noteq> [] then (map_of m)(k \<mapsto> JStr s) else map_of m)"
  by (simp add: put_nonempty_def)

lemma map_of_put_some [simp]:
  "map_of (put_some k v m) = (case v of None \<Rightarrow> map_of m | Some v \<Rightarrow> (map_of m)(k \<mapsto> v))"
  by (simp add: put_some_def split: option.splits)

lemma translated_data_wf: "map_wf (translated_data e)"
proof -
  have "map_wf (map_copy [] (ev_Data e))" by (rule map_wf_copy) (simp add: map_wf_def)
  then show ?thesis
    by (auto simp: translated_data_def put_some_def put_nonempty_def map_wf_put split: option.splits)
qed

lemma Translate_Some:
  "Translate e = Some r \<longleftrightarrow>
     translatedEventName e \<noteq> [] \<and>
     r = zero_record\<lparr>r_SourceEventID := ev_SourceEventID e, r_SessionID := ev_SessionID e,
           r_Event := translatedEventName e, r_TurnID := ev_BackendTurnID e,
           r_Data := marshal (JObj (translated_data e))\<rparr>"
  by (auto simp: Translate_def Let_def)

text \<open>The types the journal never sees, whatever the rest of the event holds.\<close>

definition live_only :: "EventType \<Rightarrow> bool" where
  "live_only ty \<longleftrightarrow> ty \<in> {EventThinking, EventToolStarted, EventToolOutput, EventQueueUpdated,
     EventTraceUpdated, EventPermissionModes, EventModels, EventReasoningLevels,
     EventAvailableCommands, EventConfigCatalog}"

lemma dotted_builtin:
  "\<not> dotted (TrimSpace (event_type_string ty))" if "\<And>s. ty \<noteq> EventOther s"
proof -
  have "\<not> dotted (event_type_string ty)"
    using that by (cases ty) (auto simp: dotted_def)
  then show ?thesis using set_TrimSpace by (auto simp: dotted_def)
qed

lemma Translate_live_only: "live_only (ev_Type e) \<Longrightarrow> Translate e = None"
  using dotted_builtin [of "ev_Type e"]
  by (auto simp: live_only_def Translate_def translatedEventName_def Let_def)

lemma translatedEventName_dotted:
  "translatedEventName e \<noteq> [] \<Longrightarrow> dotted (translatedEventName e)"
  using dotted_builtin [of "ev_Type e"]
  by (cases "ev_Type e")
    (auto simp: translatedEventName_def Let_def journal_names dotted_def split: if_splits option.splits)

section \<open>Properties\<close>

lemma canonical_map:
  "map_of (map_copy [] (map (\<lambda>f. (fst f, canon (snd f))) m)) k = map_option canon (map_of m k)"
  if "map_wf m"
proof -
  have d: "distinct (map fst (map (\<lambda>f. (fst f, canon (snd f))) m))"
    using map_wf_distinct [OF that] by (simp add: comp_def)
  have "map_of (map (\<lambda>f. (fst f, canon (snd f))) m) k = map_option canon (map_of m k)"
    by (induction m) auto
  moreover have "map_of (rev (map (\<lambda>f. (fst f, canon (snd f))) m)) = map_of (map (\<lambda>f. (fst f, canon (snd f))) m)"
    using d by (subst map_of_inject_set) (simp_all add: rev_map [symmetric])
  ultimately show ?thesis by (simp add: map_of_copy)
qed

text \<open>
  What reaches the journal. An event that is translated carries its session, turn and
  source identifiers, its name is a dotted journal name, and its data decodes to a map with the
  event's message and, when the backend is known, its agent reference; thinking, tool activity,
  queue, trace and catalog events are never translated.
\<close>

theorem translate_faithful:
  assumes "Translate e = Some r"
  shows "\<not> live_only (ev_Type e) \<and> dotted (r_Event r) \<and> r_SessionID r = ev_SessionID e
       \<and> r_TurnID r = ev_BackendTurnID e \<and> r_SourceEventID r = ev_SourceEventID e
       \<and> (\<exists>m. decode_map (r_Data r) = Some m
            \<and> (ev_Message e \<noteq> [] \<longrightarrow> str_at m ''message'' = ev_Message e)
            \<and> (ev_Backend e \<noteq> [] \<longrightarrow>
                 str_at (obj_at m ''agent'') ''backend_thread_id'' = ev_BackendThreadID e))"
proof -
  let ?m = "map_copy [] (map (\<lambda>f. (fst f, canon (snd f))) (translated_data e))"
  from assms have r: "r = zero_record\<lparr>r_SourceEventID := ev_SourceEventID e, r_SessionID := ev_SessionID e,
      r_Event := translatedEventName e, r_TurnID := ev_BackendTurnID e,
      r_Data := marshal (JObj (translated_data e))\<rparr>" and ne: "translatedEventName e \<noteq> []"
    by (simp_all add: Translate_Some)
  have m: "decode_map (r_Data r) = Some ?m" by (simp add: r decode_map_def del: marshal.simps)
  have "str_at ?m ''message'' = ev_Message e" if "ev_Message e \<noteq> []"
    using that by (simp add: str_at_def canonical_map translated_data_wf)
      (simp add: translated_data_def split: option.splits)
  moreover have "str_at (obj_at ?m ''agent'') ''backend_thread_id'' = ev_BackendThreadID e"
    if "ev_Backend e \<noteq> []"
    using that by (simp add: obj_at_def canonical_map translated_data_wf)
      (simp add: translated_data_def agent_reference_def str_at_def map_copy_def split: option.splits)
  moreover have "\<not> live_only (ev_Type e)" using assms Translate_live_only by force
  ultimately show ?thesis
    using m ne translatedEventName_dotted [OF ne] by (auto simp: r)
qed

theorem translate_faithful_witness:
  "\<exists>r m. Translate (new_event EventPlanUpdate\<lparr>ev_Message := ''plan''\<rparr>) = Some r
     \<and> decode_map (r_Data r) = Some m \<and> str_at m ''message'' = ''plan''"
proof -
  have "translatedEventName (new_event EventPlanUpdate\<lparr>ev_Message := ''plan''\<rparr>) \<noteq> []"
    by code_simp
  then obtain r where "Translate (new_event EventPlanUpdate\<lparr>ev_Message := ''plan''\<rparr>) = Some r"
    by (auto simp: Translate_Some)
  with translate_faithful [OF this] show ?thesis by (auto simp: new_event_def)
qed

end
