(* ===== verification/Journal_Replay.thy ===== *)
theory Journal_Replay
  imports Journal_Events
begin

text \<open>
  Replay deduplication of \<open>src/journal/replay.go\<close>: the keys under which persisted records
  are remembered, the matcher built from a journal, and the cursor that moves through it while
  a resumed provider replays its history.
\<close>

section \<open>Keys\<close>

record replayKey =
  k_session :: string
  k_conversation :: string
  k_thread :: string
  k_turn :: string
  k_event :: string
  k_providerID :: string
  k_content :: string
  k_source :: string

record replayTurn =
  t_session :: string
  t_conversation :: string
  t_thread :: string
  t_turn :: string

record ReplayMatcher =
  m_records :: "replayKey list"
  m_completedTurns :: "replayTurn list"
  m_next :: nat
  m_limit :: nat

definition replayString :: "payload \<Rightarrow> string \<Rightarrow> string" where
  "replayString data key = TrimSpace (str_at data key)"

definition replayJSON :: "any \<Rightarrow> string" where
  "replayJSON v = marshal v"

definition replayAgentString :: "payload \<Rightarrow> string \<Rightarrow> string" where
  "replayAgentString data key = replayString (obj_at data ''agent'') key"

definition replayTerminal :: "string \<Rightarrow> bool" where
  "replayTerminal event \<longleftrightarrow>
     event = EventAgentYielded \<or> event = EventAgentInterrupted
   \<or> event = EventAgentTurnFailed \<or> event = EventAgentProcessExited"

text \<open>The content part of a key; \<open>None\<close> is the default branch, an event kind that is
  never matched.\<close>

definition replayContent :: "string \<Rightarrow> payload \<Rightarrow> Record \<Rightarrow> string option" where
  "replayContent event data r =
     (if event = EventUserMessage \<or> event = EventAgentMessage \<or> event = EventAgentPlanProposed
        then Some (replayString data ''message'')
      else if event = EventAgentTodoUpdated then Some (replayJSON (any_at data ''todos''))
      else if event = EventAgentWorkspace then Some (replayJSON (any_at data ''selected''))
      else if event = EventAgentPermission then Some (replayJSON (any_at data ''selected''))
      else if event = EventAgentTurnStarted \<or> replayTerminal event then Some (TrimSpace (r_TurnID r))
      else None)"

definition replayKeyFor :: "Record \<Rightarrow> replayKey option" where
  "replayKeyFor r =
     (case decode_map (r_Data r) of
        None \<Rightarrow> None
      | Some data \<Rightarrow>
          (let event = TrimSpace (r_Event r); provider = replayString data ''provider_event_id'' in
           case replayContent event data r of
             None \<Rightarrow> None
           | Some content \<Rightarrow>
               if provider \<noteq> [] \<or> content \<noteq> []
               then Some \<lparr>k_session = TrimSpace (r_SessionID r),
                          k_conversation = TrimSpace (r_Conversation r),
                          k_thread = replayAgentString data ''backend_thread_id'',
                          k_turn = TrimSpace (r_TurnID r), k_event = event,
                          k_providerID = provider, k_content = content,
                          k_source = TrimSpace (r_SourceEventID r)\<rparr>
               else None))"

definition replayScopeMatches :: "string \<Rightarrow> string \<Rightarrow> bool" where
  "replayScopeMatches a b \<longleftrightarrow> a = [] \<or> b = [] \<or> a = b"

definition sameStream :: "replayKey \<Rightarrow> replayKey \<Rightarrow> bool" where
  "sameStream a b \<longleftrightarrow>
     k_event a = k_event b \<and> replayScopeMatches (k_session a) (k_session b)
   \<and> replayScopeMatches (k_conversation a) (k_conversation b)
   \<and> replayScopeMatches (k_thread a) (k_thread b)"

definition turn_matches :: "replayTurn \<Rightarrow> replayKey \<Rightarrow> bool" where
  "turn_matches a b \<longleftrightarrow>
     t_turn a = k_turn b \<and> replayScopeMatches (t_session a) (k_session b)
   \<and> replayScopeMatches (t_conversation a) (k_conversation b)
   \<and> replayScopeMatches (t_thread a) (k_thread b)"

section \<open>The matcher\<close>

definition empty_matcher :: ReplayMatcher where
  "empty_matcher = \<lparr>m_records = [], m_completedTurns = [], m_next = 0, m_limit = 0\<rparr>"

definition matcher_append :: "Record \<Rightarrow> ReplayMatcher \<Rightarrow> ReplayMatcher" where
  "matcher_append r m =
     (case replayKeyFor r of
        None \<Rightarrow> m
      | Some key \<Rightarrow>
          if k_source key \<noteq> [] \<and> m_records m \<noteq> []
             \<and> k_source (last (m_records m)) = k_source key \<and> sameStream (last (m_records m)) key
          then m\<lparr>m_records := butlast (m_records m) @ [key]\<rparr>
          else m\<lparr>m_records := m_records m @ [key],
                 m_completedTurns := m_completedTurns m @
                   (if replayTerminal (k_event key) \<and> k_turn key \<noteq> []
                    then [\<lparr>t_session = k_session key, t_conversation = k_conversation key,
                           t_thread = k_thread key, t_turn = k_turn key\<rparr>]
                    else [])\<rparr>)"

definition NewReplayMatcher :: "Record list \<Rightarrow> ReplayMatcher" where
  "NewReplayMatcher rs =
     (let m = fold matcher_append rs empty_matcher in m\<lparr>m_limit := length (m_records m)\<rparr>)"

text \<open>\<open>for index := m.next; index < m.limit; index++\<close>: the first index that satisfies the test.\<close>

function scan :: "(replayKey \<Rightarrow> bool) \<Rightarrow> replayKey list \<Rightarrow> nat \<Rightarrow> nat \<Rightarrow> nat option" where
  "scan P ks i lim =
     (if i < lim then (if P (ks ! i) then Some i else scan P ks (Suc i) lim) else None)"
  by pat_completeness auto
termination
  by (relation "measure (\<lambda>(P, ks, i, lim). lim - i)") auto

declare scan.simps [simp del]

definition provider_match :: "replayKey \<Rightarrow> replayKey \<Rightarrow> bool" where
  "provider_match key persisted \<longleftrightarrow>
     sameStream persisted key \<and> k_providerID persisted \<noteq> [] \<and> k_providerID persisted = k_providerID key"

definition content_match :: "replayKey \<Rightarrow> replayKey \<Rightarrow> bool" where
  "content_match key persisted \<longleftrightarrow> sameStream persisted key \<and> k_content persisted = k_content key"

definition match_index :: "replayKey \<Rightarrow> ReplayMatcher \<Rightarrow> nat option" where
  "match_index key m =
     (case (if k_providerID key \<noteq> []
            then scan (provider_match key) (m_records m) (m_next m) (m_limit m) else None) of
        Some i \<Rightarrow> Some i
      | None \<Rightarrow> if k_content key \<noteq> []
                then scan (content_match key) (m_records m) (m_next m) (m_limit m) else None)"

definition Match :: "Record \<Rightarrow> ReplayMatcher \<Rightarrow> bool \<times> ReplayMatcher" where
  "Match r m =
     (case replayKeyFor r of
        None \<Rightarrow> (False, m)
      | Some key \<Rightarrow>
          (case match_index key m of
             Some i \<Rightarrow> (True, m\<lparr>m_next := Suc i\<rparr>)
           | None \<Rightarrow> (False, m)))"

definition MatchesCompletedTurn :: "Record \<Rightarrow> ReplayMatcher \<Rightarrow> bool" where
  "MatchesCompletedTurn r m =
     (case replayKeyFor r of
        None \<Rightarrow> False
      | Some key \<Rightarrow> k_turn key \<noteq> [] \<and> list_ex (\<lambda>t. turn_matches t key) (m_completedTurns m))"

definition Reset :: "ReplayMatcher \<Rightarrow> ReplayMatcher" where
  "Reset m = m\<lparr>m_next := 0, m_limit := length (m_records m)\<rparr>"

section \<open>Well-formed matchers\<close>

text \<open>Every index the loops read is in range.\<close>

definition matcher_wf :: "ReplayMatcher \<Rightarrow> bool" where
  "matcher_wf m \<longleftrightarrow> m_limit m \<le> length (m_records m) \<and> m_next m \<le> m_limit m"

lemma scan_Some:
  "scan P ks i lim = Some j \<longleftrightarrow> i \<le> j \<and> j < lim \<and> P (ks ! j) \<and> (\<forall>l. i \<le> l \<and> l < j \<longrightarrow> \<not> P (ks ! l))"
proof (induction P ks i lim rule: scan.induct)
  case (1 P ks i lim)
  show ?case
  proof (cases "i < lim \<and> \<not> P (ks ! i)")
    case True
    with 1 have "scan P ks i lim = Some j \<longleftrightarrow>
        Suc i \<le> j \<and> j < lim \<and> P (ks ! j) \<and> (\<forall>l. Suc i \<le> l \<and> l < j \<longrightarrow> \<not> P (ks ! l))"
      by (simp add: scan.simps [of P ks i lim])
    also have "\<dots> \<longleftrightarrow> i \<le> j \<and> j < lim \<and> P (ks ! j) \<and> (\<forall>l. i \<le> l \<and> l < j \<longrightarrow> \<not> P (ks ! l))"
      using True by (metis Suc_leD le_antisym not_less_eq_eq)
    finally show ?thesis .
  next
    case False
    then show ?thesis by (auto simp: scan.simps [of P ks i lim] not_less dest: le_neq_implies_less)
  qed
qed

lemma scan_finds:
  assumes "i \<le> j" and "j < lim" and "P (ks ! j)"
  obtains l where "scan P ks i lim = Some l" and "l \<le> j"
proof -
  define l where "l = (LEAST l. i \<le> l \<and> P (ks ! l))"
  have l: "i \<le> l \<and> P (ks ! l)" unfolding l_def using assms(1,3) by (intro LeastI) auto
  have min: "\<not> P (ks ! l')" if "i \<le> l'" and "l' < l" for l'
    using that not_less_Least unfolding l_def by blast
  have "l \<le> j" unfolding l_def using assms(1,3) by (intro Least_le) auto
  moreover have "scan P ks i lim = Some l"
    using l min \<open>l \<le> j\<close> assms(2) by (auto simp: scan_Some)
  ultimately show thesis using that by blast
qed

lemma match_index_bounds:
  "match_index key m = Some i \<Longrightarrow> m_next m \<le> i \<and> i < m_limit m"
  by (auto simp: match_index_def scan_Some split: option.splits if_splits)

lemma matcher_wf_empty: "matcher_wf empty_matcher"
  by (simp add: matcher_wf_def empty_matcher_def)

lemma length_matcher_append: "length (m_records m) \<le> length (m_records (matcher_append r m))"
  by (auto simp: matcher_append_def split: option.splits)

lemma matcher_append_keeps [simp]:
  "m_next (matcher_append r m) = m_next m" "m_limit (matcher_append r m) = m_limit m"
  by (auto simp: matcher_append_def split: option.splits)

lemma matcher_wf_append: "matcher_wf m \<Longrightarrow> matcher_wf (matcher_append r m)"
  using length_matcher_append [of m r] by (auto simp: matcher_wf_def)

lemma matcher_wf_Match: "matcher_wf m \<Longrightarrow> matcher_wf (snd (Match r m))"
  by (auto simp: Match_def matcher_wf_def dest: match_index_bounds split: option.splits)

lemma matcher_wf_Reset: "matcher_wf (Reset m)"
  by (simp add: matcher_wf_def Reset_def)

lemma fold_append_next: "m_next (fold matcher_append rs m) = m_next m"
  by (induction rs arbitrary: m) auto

lemma matcher_wf_New: "matcher_wf (NewReplayMatcher rs)"
  by (simp add: NewReplayMatcher_def Let_def matcher_wf_def fold_append_next empty_matcher_def)

section \<open>Replaying a history\<close>

text \<open>The answers of \<open>Match\<close> for a run of replayed records.\<close>

fun match_all :: "Record list \<Rightarrow> ReplayMatcher \<Rightarrow> bool list \<times> ReplayMatcher" where
  "match_all [] m = ([], m)"
| "match_all (r # rs) m =
     (let (b, m') = Match r m; (bs, m'') = match_all rs m' in (b # bs, m''))"

lemma replayKeyFor_nonempty:
  "replayKeyFor r = Some key \<Longrightarrow> k_providerID key \<noteq> [] \<or> k_content key \<noteq> []"
  by (auto simp: replayKeyFor_def Let_def split: option.splits if_splits)

lemma sameStream_refl [simp]: "sameStream k k"
  by (simp add: sameStream_def replayScopeMatches_def)

lemma match_index_self:
  assumes "m_next m \<le> j" and "j < m_limit m" and "m_records m ! j = key"
    and "k_providerID key \<noteq> [] \<or> k_content key \<noteq> []"
  obtains i where "match_index key m = Some i" and "m_next m \<le> i" and "i \<le> j"
proof (cases "k_providerID key = []")
  case False
  with assms(3) have "provider_match key (m_records m ! j)" by (simp add: provider_match_def)
  with assms(1,2) obtain i where
    "scan (provider_match key) (m_records m) (m_next m) (m_limit m) = Some i" "i \<le> j"
    by (rule scan_finds)
  moreover from this have "m_next m \<le> i" by (simp add: scan_Some)
  ultimately show ?thesis using that False by (simp add: match_index_def)
next
  case True
  with assms(3,4) have "content_match key (m_records m ! j)" "k_content key \<noteq> []"
    by (simp_all add: content_match_def)
  with assms(1,2) obtain i where
    "scan (content_match key) (m_records m) (m_next m) (m_limit m) = Some i" "i \<le> j"
    by (metis scan_finds)
  moreover from this have "m_next m \<le> i" by (simp add: scan_Some)
  ultimately show ?thesis using that True \<open>k_content key \<noteq> []\<close> by (simp add: match_index_def)
qed

text \<open>The keys still ahead of the cursor.\<close>

definition ahead :: "ReplayMatcher \<Rightarrow> replayKey list" where
  "ahead m = drop (m_next m) (take (m_limit m) (m_records m))"

lemma subseq_Cons_split:
  assumes "subseq (x # xs) ys"
  obtains us vs where "ys = us @ x # vs" and "subseq xs vs"
  using list_emb_ConsD [OF assms] by auto

lemma Match_subseq_step:
  assumes wf: "matcher_wf m" and key: "replayKeyFor r = Some k" and sub: "subseq (k # ks) (ahead m)"
  shows "fst (Match r m)" and "subseq ks (ahead (snd (Match r m)))"
proof -
  obtain us vs where uv: "ahead m = us @ k # vs" and vs: "subseq ks vs"
    using sub by (rule subseq_Cons_split)
  let ?j = "m_next m + length us"
  have len: "length (ahead m) = m_limit m - m_next m"
    using wf by (simp add: ahead_def matcher_wf_def)
  have j: "?j < m_limit m" using uv len wf by (simp add: matcher_wf_def)
  have "ahead m ! length us = m_records m ! ?j"
    using j wf by (simp add: ahead_def matcher_wf_def)
  then have at: "m_records m ! ?j = k" using uv by simp
  have jn: "m_next m \<le> ?j" by simp
  obtain i where i: "match_index k m = Some i" "i \<le> ?j"
    using match_index_self [OF jn j at replayKeyFor_nonempty [OF key]] by metis
  then have m': "Match r m = (True, m\<lparr>m_next := Suc i\<rparr>)" by (simp add: Match_def key)
  then show "fst (Match r m)" by simp
  have "ahead (m\<lparr>m_next := Suc ?j\<rparr>) = vs"
    using arg_cong [OF uv, of "drop (Suc (length us))"]
    by (simp add: ahead_def add.commute)
  moreover have "suffix (ahead (m\<lparr>m_next := Suc ?j\<rparr>)) (ahead (m\<lparr>m_next := Suc i\<rparr>))"
    using i(2) suffix_drop [of "?j - i" "ahead (m\<lparr>m_next := Suc i\<rparr>)"] by (simp add: ahead_def)
  ultimately have "subseq vs (ahead (m\<lparr>m_next := Suc i\<rparr>))"
    using suffix_imp_subseq by metis
  with vs m' show "subseq ks (ahead (snd (Match r m)))"
    using subseq_order.trans by fastforce
qed

lemma match_all_subseq:
  assumes "matcher_wf m" and "map replayKeyFor rs = map Some ks" and "subseq ks (ahead m)"
  shows "fst (match_all rs m) = replicate (length rs) True"
  using assms
proof (induction rs arbitrary: m ks)
  case (Cons r rs)
  then obtain k ks' where ks: "ks = k # ks'" and key: "replayKeyFor r = Some k"
    and rest: "map replayKeyFor rs = map Some ks'"
    by (cases ks) auto
  have sub: "subseq (k # ks') (ahead m)" using Cons.prems(3) ks by simp
  note step = Match_subseq_step [OF Cons.prems(1) key sub]
  have "fst (match_all rs (snd (Match r m))) = replicate (length rs) True"
    using Cons.IH [OF matcher_wf_Match [OF Cons.prems(1)] rest step(2)] .
  with step(1) show ?case by (simp add: Let_def split_beta)
qed simp

lemma match_all_bound:
  "matcher_wf m \<Longrightarrow>
   length (filter (\<lambda>b. b) (fst (match_all rs m))) \<le> m_limit m - m_next m"
proof (induction rs arbitrary: m)
  case (Cons r rs)
  have "length (filter (\<lambda>b. b) (fst (match_all rs (snd (Match r m)))))
      \<le> m_limit (snd (Match r m)) - m_next (snd (Match r m))"
    using Cons.IH [OF matcher_wf_Match [OF Cons.prems]] .
  moreover have "m_next m \<le> i \<and> i < m_limit m" if "match_index k m = Some i" for k i
    using that by (rule match_index_bounds)
  ultimately show ?case
    by (fastforce simp: Match_def Let_def split_beta split: option.splits)
qed simp

lemma Match_sound:
  assumes "fst (Match r m)"
  obtains key i where "replayKeyFor r = Some key" and "m_next m \<le> i" and "i < m_limit m"
    and "sameStream (m_records m ! i) key"
    and "k_providerID key \<noteq> [] \<and> k_providerID (m_records m ! i) = k_providerID key
       \<or> k_content key \<noteq> [] \<and> k_content (m_records m ! i) = k_content key"
    and "m_next (snd (Match r m)) = Suc i"
proof -
  from assms obtain key i where key: "replayKeyFor r = Some key" and i: "match_index key m = Some i"
    by (auto simp: Match_def split: option.splits)
  have "sameStream (m_records m ! i) key \<and>
      (k_providerID key \<noteq> [] \<and> k_providerID (m_records m ! i) = k_providerID key
       \<or> k_content key \<noteq> [] \<and> k_content (m_records m ! i) = k_content key)"
    using i by (auto simp: match_index_def scan_Some provider_match_def content_match_def
        split: option.splits if_splits)
  moreover have "m_next (snd (Match r m)) = Suc i" using key i by (simp add: Match_def)
  ultimately show thesis using that [OF key] match_index_bounds [OF i] by blast
qed

section \<open>Properties\<close>

lemma matcher_append_plain:
  assumes "\<forall>k. replayKeyFor r = Some k \<longrightarrow> k_source k = []"
  shows "m_records (matcher_append r m) = m_records m @ (case replayKeyFor r of Some k \<Rightarrow> [k] | None \<Rightarrow> [])"
  using assms by (auto simp: matcher_append_def split: option.splits)

lemma replayKeyFor_source: "replayKeyFor r = Some k \<Longrightarrow> k_source k = TrimSpace (r_SourceEventID r)"
  by (auto simp: replayKeyFor_def Let_def split: option.splits if_splits)

lemma fold_append_plain:
  "\<forall>r \<in> set rs. TrimSpace (r_SourceEventID r) = [] \<Longrightarrow>
     m_records (fold matcher_append rs m) = m_records m @ List.map_filter replayKeyFor rs"
proof (induction rs arbitrary: m)
  case (Cons r rs)
  then show ?case
    using matcher_append_plain [of r m] replayKeyFor_source [of r]
    by (auto simp: List.map_filter_simps split: option.splits)
qed (simp add: List.map_filter_simps)

lemma ahead_New: "ahead (NewReplayMatcher rs) = m_records (fold matcher_append rs empty_matcher)"
  by (simp add: ahead_def NewReplayMatcher_def Let_def fold_append_next empty_matcher_def)

lemma map_filter_all: "(\<forall>r \<in> set rs. f r \<noteq> None) \<Longrightarrow> map f rs = map Some (List.map_filter f rs)"
  by (induction rs) (auto simp: List.map_filter_simps split: option.splits)

text \<open>
  An exact replay is suppressed. Let the provider replay, in order, any part of the journal
  the matcher was built from (a subsequence of its records, so also any suffix), given by
  records that the matcher can key; then every replayed record is matched. (The journal holds
  no two versions of one source event.)
\<close>

theorem replay_suppressed:
  assumes sub: "subseq replayed journal"
    and keyed: "\<forall>r \<in> set replayed. replayKeyFor r \<noteq> None"
    and plain: "\<forall>r \<in> set journal. TrimSpace (r_SourceEventID r) = []"
  shows "fst (match_all replayed (NewReplayMatcher journal)) = replicate (length replayed) True"
proof (rule match_all_subseq [OF matcher_wf_New])
  show "map replayKeyFor replayed = map Some (List.map_filter replayKeyFor replayed)"
    using keyed by (rule map_filter_all)
  have "subseq (List.map_filter replayKeyFor replayed) (List.map_filter replayKeyFor journal)"
    using sub by (simp add: List.map_filter_def subseq_map subseq_filter)
  then show "subseq (List.map_filter replayKeyFor replayed) (ahead (NewReplayMatcher journal))"
    using fold_append_plain [OF plain, of empty_matcher] by (simp add: ahead_New empty_matcher_def)
qed

definition demo_message :: "string \<Rightarrow> Record" where
  "demo_message text =
     zero_record\<lparr>r_SessionID := ''s1'', r_Event := EventUserMessage,
       r_Data := marshal (JObj [(''message'', JStr text)])\<rparr>"

lemma decode_map_marshal: "decode_map (marshal (JObj fs)) =
    Some (map_copy [] (map (\<lambda>f. (fst f, canon (snd f))) fs))"
  by (simp add: decode_map_def del: marshal.simps)

lemma demo_message_keyed:
  assumes "TrimSpace text \<noteq> []"
  shows "replayKeyFor (demo_message text) \<noteq> None"
proof -
  have "TrimSpace EventUserMessage = EventUserMessage" by code_simp
  with assms show ?thesis
    by (simp add: replayKeyFor_def demo_message_def decode_map_marshal replayContent_def Let_def
        replayString_def str_at_def map_copy_def del: marshal.simps)
qed

theorem replay_suppressed_witness:
  "fst (match_all [demo_message ''b''] (NewReplayMatcher [demo_message ''a'', demo_message ''b''])) = [True]"
proof -
  have "TrimSpace ''b'' \<noteq> []" by code_simp
  then show ?thesis
    using replay_suppressed [of "[demo_message ''b'']" "[demo_message ''a'', demo_message ''b'']"]
      demo_message_keyed [of "''b''"]
    by (simp add: demo_message_def zero_record_def)
qed

text \<open>
  C34: suppression is sound and bounded. A record is matched only by a persisted record ahead of
  the cursor, of the same event kind and stream, with the same provider identifier or the same
  content, and the cursor moves past it; so the number of records suppressed in any run is at
  most the number of persisted records still ahead.
\<close>

theorem suppression_sound:
  assumes wf: "matcher_wf m"
  shows "(fst (Match r m) \<longrightarrow>
           (\<exists>key i. replayKeyFor r = Some key \<and> m_next m \<le> i \<and> i < m_limit m
             \<and> sameStream (m_records m ! i) key
             \<and> (k_providerID key \<noteq> [] \<and> k_providerID (m_records m ! i) = k_providerID key
                \<or> k_content key \<noteq> [] \<and> k_content (m_records m ! i) = k_content key)
             \<and> m_next (snd (Match r m)) = Suc i))
       \<and> length (filter id (fst (match_all rs m))) \<le> length (ahead m)"
proof
  show "length (filter id (fst (match_all rs m))) \<le> length (ahead m)"
    using match_all_bound [OF wf, of rs] wf by (simp add: id_def ahead_def matcher_wf_def)
qed (auto elim: Match_sound)

theorem suppression_sound_witness:
  "matcher_wf (NewReplayMatcher [demo_message ''a'']) \<and>
   length (filter id (fst (match_all [demo_message ''a'', demo_message ''a'']
     (NewReplayMatcher [demo_message ''a''])))) \<le> length (ahead (NewReplayMatcher [demo_message ''a'']))"
  using suppression_sound [OF matcher_wf_New] matcher_wf_New by blast

text \<open>
  Workspace changes without a \<open>selected\<close> field all look alike to the matcher. Two
  \<open>agent.workspace_changed\<close> records of one session that carry neither a provider event
  identifier nor \<open>selected\<close> (as the ACP adapter writes them, with \<open>path\<close> and
  \<open>tool_call_id\<close>) have the same content, so a journalled change suppresses a replayed
  change of a different file.
\<close>

theorem workspace_changes_collide:
  assumes "r_Event a = EventAgentWorkspace" and "r_Event b = EventAgentWorkspace"
    and "r_SessionID a = r_SessionID b" and "r_Conversation a = r_Conversation b"
    and da: "decode_map (r_Data a) = Some x" and db: "decode_map (r_Data b) = Some y"
    and "map_of x ''selected'' = None" "map_of y ''selected'' = None"
    and "map_of x ''provider_event_id'' = None" "map_of y ''provider_event_id'' = None"
    and "replayAgentString x ''backend_thread_id'' = replayAgentString y ''backend_thread_id''"
  shows "fst (Match b (NewReplayMatcher [a]))"
proof -
  have tr: "TrimSpace EventAgentWorkspace = EventAgentWorkspace" by code_simp
  have null: "replayJSON (any_at z ''selected'') = ''null''" if "map_of z ''selected'' = None" for z
    using that by (simp add: replayJSON_def any_at_def)
  have content: "replayContent EventAgentWorkspace z r = Some ''null''" if "map_of z ''selected'' = None" for z r
    using null [OF that] by (simp add: replayContent_def journal_names)
  have prov: "replayString z ''provider_event_id'' = []" if "map_of z ''provider_event_id'' = None" for z
    using that by (simp add: replayString_def str_at_def)
  obtain ka where ka: "replayKeyFor a = Some ka" "k_content ka = ''null''"
      "k_event ka = EventAgentWorkspace" "k_session ka = TrimSpace (r_SessionID a)"
      "k_conversation ka = TrimSpace (r_Conversation a)" "k_thread ka = replayAgentString x ''backend_thread_id''"
    using assms content prov by (simp add: replayKeyFor_def tr Let_def)
  obtain kb where kb: "replayKeyFor b = Some kb" "k_content kb = ''null''" "k_providerID kb = []"
      "k_event kb = EventAgentWorkspace" "k_session kb = TrimSpace (r_SessionID b)"
      "k_conversation kb = TrimSpace (r_Conversation b)" "k_thread kb = replayAgentString y ''backend_thread_id''"
    using assms content prov by (simp add: replayKeyFor_def tr Let_def)
  have "m_records (NewReplayMatcher [a]) = [ka]" "m_next (NewReplayMatcher [a]) = 0"
      "m_limit (NewReplayMatcher [a]) = 1"
    using ka(1) by (simp_all add: NewReplayMatcher_def matcher_append_def empty_matcher_def Let_def)
  moreover have "content_match kb ka"
    using ka kb assms by (simp add: content_match_def sameStream_def replayScopeMatches_def)
  ultimately show ?thesis
    using kb by (simp add: Match_def match_index_def scan.simps)
qed

definition demo_change :: "string \<Rightarrow> Record" where
  "demo_change file =
     zero_record\<lparr>r_SessionID := ''s1'', r_Event := EventAgentWorkspace,
       r_Data := marshal (JObj [(''path'', JStr file)])\<rparr>"

theorem workspace_changes_collide_witness:
  "fst (Match (demo_change ''b.go'') (NewReplayMatcher [demo_change ''a.go'']))"
  by (rule workspace_changes_collide [where x = "[(''path'', JStr ''a.go'')]" and y = "[(''path'', JStr ''b.go'')]"])
    (simp_all add: demo_change_def decode_map_marshal map_copy_def replayAgentString_def obj_at_def
      del: marshal.simps)

end
