(* ===== verification/Session_Lifecycle.thy ===== *)
theory Session_Lifecycle
  imports Host_Types
begin

text \<open>
  The validated session lifecycle of \<open>src/session/session.go\<close>: six statuses, the table of
  allowed transitions, \<open>New\<close> and \<open>Transition\<close>. The clock reading that the Go code takes
  from \<open>time.Now().UTC()\<close> is an argument.
\<close>

section \<open>Statuses and transitions\<close>

datatype Status =
  StatusCreating | StatusActive | StatusRunning | StatusWaitingInput | StatusFailed | StatusClosed

instantiation Status :: enum
begin

definition enum_Status :: "Status list" where
  "enum_Status =
     [StatusCreating, StatusActive, StatusRunning, StatusWaitingInput, StatusFailed, StatusClosed]"

definition enum_all_Status :: "(Status \<Rightarrow> bool) \<Rightarrow> bool" where
  "enum_all_Status P \<longleftrightarrow> list_all P enum_class.enum"

definition enum_ex_Status :: "(Status \<Rightarrow> bool) \<Rightarrow> bool" where
  "enum_ex_Status P \<longleftrightarrow> list_ex P enum_class.enum"

instance
proof
  show "(UNIV :: Status set) = set enum_class.enum"
    by (auto simp: enum_Status_def) (metis Status.exhaust)
  show "distinct (enum_class.enum :: Status list)" by (simp add: enum_Status_def)
  have split: "(\<forall>s. P s) \<longleftrightarrow> list_all P enum_class.enum" for P :: "Status \<Rightarrow> bool"
    by (auto simp: enum_Status_def) (metis Status.exhaust)
  show "enum_class.enum_all P \<longleftrightarrow> Ball UNIV P" for P :: "Status \<Rightarrow> bool"
    by (simp add: enum_all_Status_def split)
  show "enum_class.enum_ex P \<longleftrightarrow> Bex UNIV P" for P :: "Status \<Rightarrow> bool"
    using split [of "\<lambda>s. \<not> P s"] by (auto simp: enum_ex_Status_def list_ex_iff list_all_iff)
qed

end

record Session =
  s_ID :: string
  s_Backend :: Backend
  s_Worktree :: string
  s_Status :: Status
  s_CreatedAt :: time
  s_UpdatedAt :: time
  s_BackendSession :: BackendSession

fun allowedTransitions :: "Status \<Rightarrow> Status list" where
  "allowedTransitions StatusCreating = [StatusActive, StatusFailed, StatusClosed]"
| "allowedTransitions StatusActive = [StatusRunning, StatusFailed, StatusClosed]"
| "allowedTransitions StatusRunning = [StatusActive, StatusWaitingInput, StatusFailed, StatusClosed]"
| "allowedTransitions StatusWaitingInput = [StatusActive, StatusRunning, StatusFailed, StatusClosed]"
| "allowedTransitions StatusFailed = [StatusClosed]"
| "allowedTransitions StatusClosed = []"

definition New :: "string \<Rightarrow> Backend \<Rightarrow> string \<Rightarrow> time \<Rightarrow> Session" where
  "New i backend worktree now =
     \<lparr>s_ID = i, s_Backend = backend, s_Worktree = worktree, s_Status = StatusCreating,
      s_CreatedAt = now, s_UpdatedAt = now, s_BackendSession = no_backend_session\<rparr>"

datatype transition_error = NilSession | InvalidTransition Status Status

text \<open>The receiver may be nil, which is \<open>None\<close>.\<close>

definition Transition :: "Session option \<Rightarrow> Status \<Rightarrow> time \<Rightarrow> transition_error + Session" where
  "Transition receiver nxt now =
     (case receiver of
        None \<Rightarrow> Inl NilSession
      | Some s \<Rightarrow>
          if nxt \<notin> set (allowedTransitions (s_Status s))
          then Inl (InvalidTransition (s_Status s) nxt)
          else Inr (s\<lparr>s_Status := nxt, s_UpdatedAt := now\<rparr>))"

text \<open>
  \<open>_ = s.Transition(next)\<close>, as the runtime calls it: an error leaves the session as it was.
\<close>

definition transition_to :: "Status \<Rightarrow> time \<Rightarrow> Session \<Rightarrow> Session" where
  "transition_to nxt now s = (case Transition (Some s) nxt now of Inl _ \<Rightarrow> s | Inr s' \<Rightarrow> s')"

lemma Transition_Some:
  "Transition (Some s) nxt now =
     (if nxt \<in> set (allowedTransitions (s_Status s))
      then Inr (s\<lparr>s_Status := nxt, s_UpdatedAt := now\<rparr>)
      else Inl (InvalidTransition (s_Status s) nxt))"
  by (simp add: Transition_def)

lemma transition_to_eq:
  "transition_to nxt now s =
     (if nxt \<in> set (allowedTransitions (s_Status s))
      then s\<lparr>s_Status := nxt, s_UpdatedAt := now\<rparr> else s)"
  by (simp add: transition_to_def Transition_Some)

text \<open>What no transition changes.\<close>

definition session_identity :: "Session \<Rightarrow> string \<times> Backend \<times> string \<times> time \<times> BackendSession" where
  "session_identity s = (s_ID s, s_Backend s, s_Worktree s, s_CreatedAt s, s_BackendSession s)"

lemma transition_to_keeps [simp]:
  "s_ID (transition_to nxt now s) = s_ID s"
  "s_Backend (transition_to nxt now s) = s_Backend s"
  "s_Worktree (transition_to nxt now s) = s_Worktree s"
  "s_CreatedAt (transition_to nxt now s) = s_CreatedAt s"
  "s_BackendSession (transition_to nxt now s) = s_BackendSession s"
  by (simp_all add: transition_to_eq)

lemma closed_is_final [simp]: "s_Status s = StatusClosed \<Longrightarrow> transition_to nxt now s = s"
  by (simp add: transition_to_eq)

lemma can_close: "s_Status s \<noteq> StatusClosed \<Longrightarrow> StatusClosed \<in> set (allowedTransitions (s_Status s))"
  by (cases "s_Status s") auto

section \<open>Runs of transitions\<close>

text \<open>A caller that asks for a list of transitions and ignores the refusals.\<close>

fun transitions :: "(Status \<times> time) list \<Rightarrow> Session \<Rightarrow> Session" where
  "transitions [] s = s"
| "transitions ((nxt, now) # ts) s = transitions ts (transition_to nxt now s)"

lemma transitions_closed: "s_Status s = StatusClosed \<Longrightarrow> transitions ts s = s"
proof (induction ts)
  case (Cons t ts)
  then show ?case by (cases t) simp
qed simp

lemma transitions_identity: "session_identity (transitions ts s) = session_identity s"
proof (induction ts arbitrary: s)
  case (Cons t ts)
  then show ?case by (cases t) (simp add: session_identity_def)
qed simp

lemma transitions_failed:
  "s_Status s \<in> {StatusFailed, StatusClosed} \<Longrightarrow>
   s_Status (transitions ts s) \<in> {StatusFailed, StatusClosed}"
proof (induction ts arbitrary: s)
  case (Cons t ts)
  obtain nxt now where t: "t = (nxt, now)" by (cases t)
  have "s_Status (transition_to nxt now s) \<in> {StatusFailed, StatusClosed}"
    using Cons.prems by (auto simp: transition_to_eq split: if_splits)
  then show ?case using Cons.IH by (simp add: t)
qed simp

section \<open>Properties\<close>

text \<open>
  The session lifecycle. Whatever transitions are requested, in any order and with refusals
  ignored, a closed session stays exactly as it is, a failed session can only become closed,
  every session that is not closed can be closed, and no transition changes the session's
  identity, backend, worktree, creation time or backend session.
\<close>

theorem lifecycle_terminal:
  "(s_Status s = StatusClosed \<longrightarrow> transitions ts s = s)
   \<and> (s_Status s = StatusFailed \<longrightarrow> s_Status (transitions ts s) \<in> {StatusFailed, StatusClosed})
   \<and> (s_Status s \<noteq> StatusClosed \<longrightarrow> s_Status (transition_to StatusClosed now s) = StatusClosed)
   \<and> session_identity (transitions ts s) = session_identity s"
  using transitions_closed [of s ts] transitions_failed [of s ts] transitions_identity [of ts s] can_close [of s]
  by (simp add: transition_to_eq)

theorem lifecycle_terminal_witness:
  "s_Status (transitions [(StatusFailed, 2), (StatusActive, 3)] (New ''s1'' ''codex'' ''/w'' 1)) = StatusFailed
   \<and> s_Status (transitions [(StatusRunning, 4)] (transitions [(StatusFailed, 2)] (New ''s1'' ''codex'' ''/w'' 1)))
       \<in> {StatusFailed, StatusClosed}"
proof -
  have "s_Status (transitions [(StatusFailed, 2)] (New ''s1'' ''codex'' ''/w'' 1)) = StatusFailed"
    by (simp add: New_def transition_to_eq)
  with lifecycle_terminal [of "transitions [(StatusFailed, 2)] (New ''s1'' ''codex'' ''/w'' 1)" "[(StatusRunning, 4)]" 5]
  show ?thesis by (simp add: New_def transition_to_eq)
qed

end
