(* ===== verification/Coalescer.thy ===== *)
theory Coalescer
  imports Host_Types
begin

text \<open>
  The delta coalescer of \<open>src/runtime/coalesce.go\<close>: rapid assistant deltas become
  cumulative snapshots of one stream, under a stable source identifier. Each operation runs
  under the coalescer's lock and returns the events it hands to \<open>deliver\<close> after releasing
  it. The timer is a flag: set, it may fire at any moment.
\<close>

section \<open>Streams\<close>

definition no_type :: EventType where
  "no_type = EventOther []"

definition delta_text :: "Event \<Rightarrow> string" where
  "delta_text e = str_at (ev_Data e) ''delta''"

definition isAssistantDelta :: "Event \<Rightarrow> bool" where
  "isAssistantDelta e \<longleftrightarrow>
     \<not> ((ev_Type e \<noteq> EventMessage \<and> ev_Type e \<noteq> EventThinking) \<or> ev_Role e = ''user'') \<and> delta_text e \<noteq> []"

definition isAssistantSnapshot :: "Event \<Rightarrow> bool" where
  "isAssistantSnapshot e \<longleftrightarrow>
     \<not> ((ev_Type e \<noteq> EventMessage \<and> ev_Type e \<noteq> EventThinking) \<or> ev_Role e = ''user'') \<and> delta_text e = []"

definition streamSourceID :: "string \<Rightarrow> string \<Rightarrow> nat \<Rightarrow> string" where
  "streamSourceID sid turn index =
     sid @ '':turn:'' @ (if turn = [] then ''-'' else turn) @ '':msg:'' @ show_nat index"

definition streamData :: "Event \<Rightarrow> payload" where
  "streamData e =
     (let source = str_at (ev_Data e) ''provider_event_id''; data = [(''streaming'', JBool True)] in
      if source \<noteq> [] then map_put ''provider_event_id'' (JStr source) data else data)"

section \<open>The coalescer\<close>

record deltaCoalescer =
  co_turnID :: string
  co_streamType :: EventType
  co_message :: nat
  co_pending :: "Event option"
  co_flushed :: nat
  co_timer :: bool
  co_closed :: bool

definition newDeltaCoalescer :: deltaCoalescer where
  "newDeltaCoalescer =
     \<lparr>co_turnID = [], co_streamType = no_type, co_message = 0, co_pending = None, co_flushed = 0,
      co_timer = False, co_closed = False\<rparr>"

definition flushLocked :: "deltaCoalescer \<Rightarrow> Event list \<times> deltaCoalescer" where
  "flushLocked c =
     (case co_pending c of
        None \<Rightarrow> ([], c)
      | Some p \<Rightarrow>
          if length (ev_Message p) = co_flushed c then ([], c)
          else ([p\<lparr>ev_Data := streamData p\<rparr>], c\<lparr>co_flushed := length (ev_Message p)\<rparr>))"

definition clearLocked :: "deltaCoalescer \<Rightarrow> deltaCoalescer" where
  "clearLocked c =
     c\<lparr>co_pending := None, co_flushed := 0, co_turnID := [], co_streamType := no_type, co_timer := False\<rparr>"

text \<open>The three branches of \<open>Handle\<close>.\<close>

definition open_stream :: "Event \<Rightarrow> deltaCoalescer \<Rightarrow> Event list \<times> deltaCoalescer" where
  "open_stream e c =
     (let (before, c1) = flushLocked c;
          c2 = clearLocked c1;
          c3 = c2\<lparr>co_message := co_message c2 + 1\<rparr>;
          snapshot = e\<lparr>ev_SourceEventID := streamSourceID (ev_SessionID e) (ev_BackendTurnID e) (co_message c3),
                       ev_Data := streamData e\<rparr>;
          c4 = c3\<lparr>co_turnID := ev_BackendTurnID e, co_streamType := ev_Type e,
                  co_pending := Some snapshot, co_flushed := 0\<rparr>;
          (first, c5) = flushLocked c4
      in (before @ first, c5))"

definition extend_stream :: "Event \<Rightarrow> Event \<Rightarrow> deltaCoalescer \<Rightarrow> Event list \<times> deltaCoalescer" where
  "extend_stream p e c =
     ([], c\<lparr>co_pending := Some (p\<lparr>ev_Message := ev_Message p @ ev_Message e, ev_Time := ev_Time e\<rparr>),
            co_timer := True\<rparr>)"

definition finish_stream :: "Event \<Rightarrow> Event \<Rightarrow> deltaCoalescer \<Rightarrow> Event list \<times> deltaCoalescer" where
  "finish_stream p e c =
     (let final = (if length (ev_Message e) < length (ev_Message p) then e\<lparr>ev_Message := ev_Message p\<rparr> else e)
      in ([final\<lparr>ev_Seq := ev_Seq p, ev_SourceEventID := ev_SourceEventID p\<rparr>], clearLocked c))"

definition pass_event :: "Event \<Rightarrow> deltaCoalescer \<Rightarrow> Event list \<times> deltaCoalescer" where
  "pass_event e c = (let (before, c1) = flushLocked c in (before @ [e], clearLocked c1))"

definition Handle :: "Event \<Rightarrow> deltaCoalescer \<Rightarrow> Event list \<times> deltaCoalescer" where
  "Handle e c =
     (if co_closed c then ([], c)
      else if isAssistantDelta e then
        (case co_pending c of
           None \<Rightarrow> open_stream e c
         | Some p \<Rightarrow>
             if co_turnID c \<noteq> ev_BackendTurnID e \<or> co_streamType c \<noteq> ev_Type e then open_stream e c
             else extend_stream p e c)
      else
        (case co_pending c of
           Some p \<Rightarrow>
             if isAssistantSnapshot e \<and> ev_BackendTurnID e = co_turnID c \<and> ev_Type e = co_streamType c
             then finish_stream p e c else pass_event e c
         | None \<Rightarrow> pass_event e c))"

definition Close_coalescer :: "deltaCoalescer \<Rightarrow> Event list \<times> deltaCoalescer" where
  "Close_coalescer c =
     (if co_closed c then ([], c)
      else let (es, c1) = flushLocked c in (es, clearLocked (c1\<lparr>co_closed := True\<rparr>)))"

text \<open>The function given to \<open>time.AfterFunc\<close>; a stopped timer does not fire.\<close>

definition timer_fires :: "deltaCoalescer \<Rightarrow> Event list \<times> deltaCoalescer" where
  "timer_fires c =
     (if \<not> co_timer c then ([], c)
      else let c1 = c\<lparr>co_timer := False\<rparr> in if co_closed c then ([], c1) else flushLocked c1)"

section \<open>Runs\<close>

datatype co_input = InEvent Event | InTimer

fun co_step :: "co_input \<Rightarrow> deltaCoalescer \<Rightarrow> Event list \<times> deltaCoalescer" where
  "co_step (InEvent e) c = Handle e c"
| "co_step InTimer c = timer_fires c"

fun co_run :: "co_input list \<Rightarrow> deltaCoalescer \<Rightarrow> Event list \<times> deltaCoalescer" where
  "co_run [] c = ([], c)"
| "co_run (i # is) c = (let (es, c1) = co_step i c; (fs, c2) = co_run is c1 in (es @ fs, c2))"

text \<open>The events of an input, and the inputs that continue the stream of a given event.\<close>

fun events_of :: "co_input list \<Rightarrow> Event list" where
  "events_of [] = []"
| "events_of (InEvent e # is) = e # events_of is"
| "events_of (InTimer # is) = events_of is"

definition same_stream :: "Event \<Rightarrow> Event \<Rightarrow> bool" where
  "same_stream a b \<longleftrightarrow>
     isAssistantDelta b \<and> ev_BackendTurnID a = ev_BackendTurnID b \<and> ev_Type a = ev_Type b"

section \<open>Invariant\<close>

text \<open>
  A pending stream has the text \<open>t\<close>, of which a prefix was handed on; text that was not
  handed on yet has its timer set.
\<close>

definition streaming :: "string \<Rightarrow> Event \<Rightarrow> string \<Rightarrow> deltaCoalescer \<Rightarrow> bool" where
  "streaming src e t c \<longleftrightarrow>
     \<not> co_closed c \<and> co_turnID c = ev_BackendTurnID e \<and> co_streamType c = ev_Type e
     \<and> (\<exists>p. co_pending c = Some p \<and> ev_Message p = t \<and> ev_SourceEventID p = src)
     \<and> co_flushed c \<le> length t \<and> (co_flushed c < length t \<longrightarrow> co_timer c)"

lemma flushLocked_streaming:
  assumes "streaming src e t c"
  shows "streaming src e t (snd (flushLocked c))" and "co_flushed (snd (flushLocked c)) = length t"
    and "map ev_Message (fst (flushLocked c)) = (if co_flushed c < length t then [t] else [])"
    and "\<forall>x \<in> set (fst (flushLocked c)). ev_SourceEventID x = src"
  using assms by (auto simp: streaming_def flushLocked_def split: if_splits)

lemma co_run_streaming:
  assumes "streaming src e t c" and "\<forall>x \<in> set (events_of is). same_stream e x"
  shows "streaming src e (t @ concat (map ev_Message (events_of is))) (snd (co_run is c))
     \<and> (\<forall>x \<in> set (fst (co_run is c)). ev_SourceEventID x = src
          \<and> prefix (ev_Message x) (t @ concat (map ev_Message (events_of is))))"
  using assms
proof (induction "is" arbitrary: t c)
  case Nil
  then show ?case by simp
next
  case (Cons i "is")
  obtain es c1 where step: "co_step i c = (es, c1)" by fastforce
  show ?case
  proof (cases i)
    case (InEvent x)
    have x: "same_stream e x" using Cons.prems(2) InEvent by simp
    have "streaming src e (t @ ev_Message x) c1" "es = []"
      using step InEvent Cons.prems(1) x
      by (auto simp: Handle_def same_stream_def streaming_def extend_stream_def split: option.splits)
    with Cons.IH [of "t @ ev_Message x" c1] Cons.prems(2) InEvent step show ?thesis
      by (auto simp: Let_def split: prod.splits)
  next
    case InTimer
    have c1: "streaming src e t c1" and es: "\<forall>x \<in> set es. ev_SourceEventID x = src \<and> ev_Message x = t"
      using step InTimer Cons.prems(1)
      by (auto simp: timer_fires_def streaming_def flushLocked_def Let_def split: if_splits)
    with Cons.IH [OF c1] Cons.prems(2) InTimer step show ?thesis
      by (auto simp: Let_def split: prod.splits)
  qed
qed

lemma streaming_open:
  assumes "isAssistantDelta e" and "co_pending c = None" and "\<not> co_closed c"
  shows "streaming (streamSourceID (ev_SessionID e) (ev_BackendTurnID e) (co_message c + 1)) e (ev_Message e)
           (snd (Handle e c))"
    and "map ev_Message (fst (Handle e c)) = (if ev_Message e = [] then [] else [ev_Message e])"
    and "\<forall>x \<in> set (fst (Handle e c)).
           ev_SourceEventID x = streamSourceID (ev_SessionID e) (ev_BackendTurnID e) (co_message c + 1)"
  using assms
  by (auto simp: Handle_def open_stream_def flushLocked_def clearLocked_def streaming_def Let_def)

text \<open>The events shown for one source: the last one with its identifier, which replaces the rest.\<close>

definition shown :: "string \<Rightarrow> Event list \<Rightarrow> string" where
  "shown src es =
     (let xs = filter (\<lambda>x. ev_SourceEventID x = src) es in if xs = [] then [] else ev_Message (last xs))"

text \<open>What was handed on of a stream: the last snapshot holds the first \<open>co_flushed\<close> bytes.\<close>

lemma co_run_shown:
  assumes "streaming src e t c" and "\<forall>x \<in> set (events_of is). same_stream e x"
    and "shown src before = take (co_flushed c) t"
  shows "shown src (before @ fst (co_run is c)) =
           take (co_flushed (snd (co_run is c))) (t @ concat (map ev_Message (events_of is)))"
  using assms
proof (induction "is" arbitrary: t c before)
  case Nil
  then show ?case by simp
next
  case (Cons i "is")
  obtain es c1 where step: "co_step i c = (es, c1)" by fastforce
  show ?case
  proof (cases i)
    case (InEvent x)
    have x: "same_stream e x" using Cons.prems(2) InEvent by simp
    have "streaming src e (t @ ev_Message x) c1" "es = []" "co_flushed c1 = co_flushed c" "co_flushed c \<le> length t"
      using step InEvent Cons.prems(1) x
      by (auto simp: Handle_def same_stream_def streaming_def extend_stream_def split: option.splits)
    with Cons.IH [of "t @ ev_Message x" c1 before] Cons.prems InEvent step show ?thesis
      by (auto simp: Let_def split: prod.splits)
  next
    case InTimer
    have c1: "streaming src e t c1" "shown src (before @ es) = take (co_flushed c1) t"
      using step InTimer Cons.prems(1,3)
      by (auto simp: timer_fires_def streaming_def flushLocked_def Let_def shown_def split: if_splits)
    with Cons.IH [OF c1(1), of "before @ es"] Cons.prems(2) InTimer step show ?thesis
      by (auto simp: Let_def split: prod.splits)
  qed
qed

lemma flush_shown:
  assumes "streaming src e t c" and "shown src before = take (co_flushed c) t"
  shows "shown src (before @ fst (flushLocked c)) = t"
  using assms by (auto simp: streaming_def flushLocked_def shown_def split: if_splits)

section \<open>Properties\<close>

text \<open>
  C25: coalescing loses no text. Open a stream with an assistant delta, continue it with any
  deltas of the same turn and type, with timer firings anywhere between, and then end it with a
  flush (a timer, the close, or an event of another kind): the text shown under the stream's
  source identifier is the concatenation of all delta texts, every snapshot on the way carries
  that identifier and shows a prefix of the text.
\<close>

theorem coalescing_lossless:
  assumes first: "isAssistantDelta e" and idle: "co_pending c = None" "\<not> co_closed c"
    and same: "\<forall>x \<in> set (events_of is). same_stream e x"
    and run: "co_run (InEvent e # is) c = (es, c')"
  shows "shown (streamSourceID (ev_SessionID e) (ev_BackendTurnID e) (co_message c + 1)) (es @ fst (flushLocked c'))
           = concat (map ev_Message (e # events_of is))
       \<and> (\<forall>x \<in> set es. ev_SourceEventID x = streamSourceID (ev_SessionID e) (ev_BackendTurnID e) (co_message c + 1)
            \<and> prefix (ev_Message x) (concat (map ev_Message (e # events_of is))))"
proof -
  let ?src = "streamSourceID (ev_SessionID e) (ev_BackendTurnID e) (co_message c + 1)"
  obtain fs c1 where h: "Handle e c = (fs, c1)" by fastforce
  note st = streaming_open [OF first idle, unfolded h, simplified]
  have fs: "shown ?src fs = take (co_flushed c1) (ev_Message e)"
    using h first idle
    by (auto simp: Handle_def open_stream_def flushLocked_def clearLocked_def shown_def Let_def split: if_splits)
  obtain gs where gs: "co_run is c1 = (gs, c')" "es = fs @ gs"
    using run h by (auto simp: Let_def split: prod.splits)
  have c': "streaming ?src e (ev_Message e @ concat (map ev_Message (events_of is))) c'"
    and gs': "\<forall>x \<in> set gs. ev_SourceEventID x = ?src
        \<and> prefix (ev_Message x) (ev_Message e @ concat (map ev_Message (events_of is)))"
    using co_run_streaming [OF _ same, of ?src "ev_Message e" c1] st(1) gs(1) by auto
  have "shown ?src es = take (co_flushed c') (ev_Message e @ concat (map ev_Message (events_of is)))"
    using co_run_shown [OF _ same fs] st(1) gs by simp
  from flush_shown [OF c' this] have all: "shown ?src (es @ fst (flushLocked c')) =
      concat (map ev_Message (e # events_of is))" by simp
  have "ev_Message x = ev_Message e" if "x \<in> set fs" for x
    using st(2) that by (metis (no_types) image_eqI list.set_map singletonD list.set(1,2) empty_iff)
  with st(3) gs' gs(2) all show ?thesis by auto
qed

text \<open>What the three ways to end a stream hand on: the flush of the pending snapshot comes first.\<close>

lemma ends_flush:
  "\<not> co_closed c \<Longrightarrow> fst (Close_coalescer c) = fst (flushLocked c)"
  "\<not> co_closed c \<Longrightarrow> \<not> isAssistantDelta x \<Longrightarrow> \<not> isAssistantSnapshot x \<Longrightarrow>
     fst (Handle x c) = fst (flushLocked c) @ [x]"
  by (auto simp: Close_coalescer_def Handle_def pass_event_def Let_def split: option.splits prod.splits)

definition demo_delta :: "string \<Rightarrow> Event" where
  "demo_delta text =
     new_event EventMessage\<lparr>ev_SessionID := ''s1'', ev_BackendTurnID := ''t1'', ev_Message := text,
       ev_Data := [(''delta'', JStr text)]\<rparr>"

lemma demo_delta_delta: "text \<noteq> [] \<Longrightarrow> isAssistantDelta (demo_delta text)"
  by (simp add: isAssistantDelta_def demo_delta_def new_event_def delta_text_def str_at_def)

theorem coalescing_lossless_witness:
  "\<exists>es c. co_run [InEvent (demo_delta ''ab''), InEvent (demo_delta ''cd''), InTimer, InEvent (demo_delta ''e'')]
       newDeltaCoalescer = (es, c)
     \<and> shown ''s1:turn:t1:msg:1'' (es @ fst (flushLocked c)) = ''abcde''"
proof -
  let ?is = "[InEvent (demo_delta ''cd''), InTimer, InEvent (demo_delta ''e'')]"
  obtain es c where run: "co_run (InEvent (demo_delta ''ab'') # ?is) newDeltaCoalescer = (es, c)" by fastforce
  have same: "\<forall>x \<in> set (events_of ?is). same_stream (demo_delta ''ab'') x"
    using demo_delta_delta by (simp add: same_stream_def) (simp add: demo_delta_def new_event_def)
  have src: "streamSourceID ''s1'' ''t1'' 1 = ''s1:turn:t1:msg:1''"
    by code_simp
  show ?thesis
    using coalescing_lossless [OF _ _ _ same run] demo_delta_delta [of "''ab''"] run src
    by (auto simp: newDeltaCoalescer_def demo_delta_def new_event_def)
qed

end
