(* ===== verification/Runtime_Types.thy ===== *)
theory Runtime_Types
  imports Coalescer Session_Lifecycle Journal_Replay Journal_Store
begin

text \<open>
  The data of \<open>src/runtime/runtime.go\<close> and \<open>errors.go\<close>: errors, requests and
  results, the managed session, and the pure functions on configurations. Values of the model
  are never shared, so the clone functions of the source (\<open>cloneSendTurnRequest\<close>,
  \<open>cloneQueueEntry\<close>, \<open>cloneInteractionRequest\<close>, \<open>cloneBackendCatalog\<close>,
  \<open>cloneData\<close>) are the identity here.
\<close>

section \<open>Errors (errors.go)\<close>

datatype runtime_error =
  UnsupportedOperationError string string
| SessionNotFoundError string
| SessionExistsError string
| SessionClosedError string
| QueueFullError string nat nat
| QueueEntryNotFoundError string string
| TurnActiveError string string
| RestartUnsupportedError string
| BackendRequired | WorktreeRequired | WorktreeMissing string | UnsupportedBackend string
| SessionIDRequired | PromptRequired | TerminalEventRequired | InteractionIDRequired
| MustBeClosed string | NewIDFailed | BadTransition
| AdapterFailed string | JournalFailed store_error | ShutdownFailed "(string \<times> string) list"
| JournalRequired | NoLifecycle string

text \<open>\<open>errors.Is(err, ErrUnsupportedOperation)\<close>: the two error types that unwrap to it.\<close>

definition unsupported_operation :: "runtime_error \<Rightarrow> bool" where
  "unsupported_operation e =
     (case e of UnsupportedOperationError _ _ \<Rightarrow> True | RestartUnsupportedError _ \<Rightarrow> True | _ \<Rightarrow> False)"

section \<open>Requests and results\<close>

record CreateRequest =
  cr_ID :: string
  cr_Backend :: Backend
  cr_Worktree :: string

record RestoreRequest =
  rq_ID :: string
  rq_Backend :: Backend
  rq_Worktree :: string
  rq_BackendSession :: BackendSession
  rq_Configuration :: SessionConfiguration

record QueueEntry =
  qe_ID :: string
  qe_Request :: SendTurnRequest

record RemoveQueuedTurnResult =
  rm_Removed :: bool
  rm_Entry :: "QueueEntry option"
  rm_QueueDepth :: nat

record TurnDispatch =
  dt_SessionID :: string
  dt_QueueEntryID :: string
  dt_Request :: SendTurnRequest
  dt_Queued :: bool

record TurnSubmission =
  sb_Dispatch :: TurnDispatch
  sb_Session :: BackendSession

record SendResult =
  sr_Session :: BackendSession
  sr_Accepted :: bool
  sr_Queued :: bool
  sr_QueueEntryID :: string
  sr_QueueDepth :: nat

record RuntimeState =
  sta_Session :: Session
  sta_Configuration :: SessionConfiguration
  sta_QueueDepth :: nat
  sta_QueueEntries :: "QueueEntry list"
  sta_TurnActive :: bool
  sta_ActiveTurnID :: string
  sta_DispatchBlocked :: bool
  sta_PendingInteraction :: "InteractionRequest option"

section \<open>The managed session\<close>

record queueView =
  qv_depth :: nat
  qv_active :: bool
  qv_activeTurnID :: string
  qv_dispatchBlocked :: bool

record configurationEventVersions =
  cv_model :: nat
  cv_reasoning :: nat
  cv_permission :: nat

definition no_versions :: configurationEventVersions where
  "no_versions = \<lparr>cv_model = 0, cv_reasoning = 0, cv_permission = 0\<rparr>"

text \<open>
  The fields of \<open>managedSession\<close>, and one ghost field that the code does not have:
  \<open>ms_retired\<close> records what became of every queue entry that left the queue.
\<close>

datatype fate = Dispatched string | Removed string | Discarded string

record managedSession =
  ms_session :: Session
  ms_configuration :: SessionConfiguration
  ms_configurationEvent :: configurationEventVersions
  ms_queue :: "QueueEntry list"
  ms_dispatching :: bool
  ms_active :: bool
  ms_activeTurnID :: string
  ms_dispatchBlocked :: bool
  ms_pendingInteraction :: "InteractionRequest option"
  ms_replay :: "ReplayMatcher option"
  ms_nextQueueSeq :: nat
  ms_nextSeq :: int
  ms_coalescer :: "deltaCoalescer option"
  ms_lastQueue :: "queueView option"
  ms_retired :: "fate list"

text \<open>\<open>&managedSession{session: s, configuration: c, nextSeq: n}\<close>; \<open>ms_lastQueue\<close> is
  \<open>None\<close> while \<open>queueEmitted\<close> is false.\<close>

definition new_managed :: "Session \<Rightarrow> SessionConfiguration \<Rightarrow> int \<Rightarrow> managedSession" where
  "new_managed s c n =
     \<lparr>ms_session = s, ms_configuration = c, ms_configurationEvent = no_versions, ms_queue = [],
      ms_dispatching = False, ms_active = False, ms_activeTurnID = [], ms_dispatchBlocked = False,
      ms_pendingInteraction = None, ms_replay = None, ms_nextQueueSeq = 0, ms_nextSeq = n,
      ms_coalescer = None, ms_lastQueue = None, ms_retired = []\<rparr>"

definition stateLocked :: "managedSession \<Rightarrow> RuntimeState" where
  "stateLocked m =
     \<lparr>sta_Session = ms_session m, sta_Configuration = ms_configuration m,
      sta_QueueDepth = length (ms_queue m), sta_QueueEntries = ms_queue m,
      sta_TurnActive = ms_active m, sta_ActiveTurnID = ms_activeTurnID m,
      sta_DispatchBlocked = ms_dispatchBlocked m, sta_PendingInteraction = ms_pendingInteraction m\<rparr>"

abbreviation status_of :: "managedSession \<Rightarrow> Status" where
  "status_of m \<equiv> s_Status (ms_session m)"

definition set_status :: "Status \<Rightarrow> time \<Rightarrow> managedSession \<Rightarrow> managedSession" where
  "set_status s now m = m\<lparr>ms_session := transition_to s now (ms_session m)\<rparr>"

definition queue_view :: "managedSession \<Rightarrow> queueView" where
  "queue_view m =
     \<lparr>qv_depth = length (ms_queue m), qv_active = ms_active m, qv_activeTurnID = ms_activeTurnID m,
      qv_dispatchBlocked = ms_dispatchBlocked m\<rparr>"

section \<open>Configurations\<close>

definition normalizeConfiguration :: "SessionConfiguration \<Rightarrow> SessionConfiguration" where
  "normalizeConfiguration c =
     \<lparr>cfg_Model = TrimSpace (cfg_Model c), cfg_Reasoning = TrimSpace (cfg_Reasoning c),
      cfg_PermissionMode = TrimSpace (cfg_PermissionMode c)\<rparr>"

definition configurationFromStart :: "StartSessionRequest \<Rightarrow> SessionConfiguration" where
  "configurationFromStart q =
     normalizeConfiguration \<lparr>cfg_Model = ss_Model q, cfg_Reasoning = ss_Reasoning q,
       cfg_PermissionMode = ss_PermissionMode q\<rparr>"

definition configurationFromTurn :: "SendTurnRequest \<Rightarrow> SessionConfiguration" where
  "configurationFromTurn q =
     normalizeConfiguration \<lparr>cfg_Model = tr_Model q, cfg_Reasoning = tr_Reasoning q,
       cfg_PermissionMode = tr_PermissionMode q\<rparr>"

definition either :: "string \<Rightarrow> string \<Rightarrow> string" where
  "either new old = (if new \<noteq> [] then new else old)"

definition mergeConfiguration :: "SessionConfiguration \<Rightarrow> SessionConfiguration \<Rightarrow> SessionConfiguration" where
  "mergeConfiguration current update =
     (let u = normalizeConfiguration update in
      normalizeConfiguration
        \<lparr>cfg_Model = either (cfg_Model u) (cfg_Model current),
         cfg_Reasoning = either (cfg_Reasoning u) (cfg_Reasoning current),
         cfg_PermissionMode = either (cfg_PermissionMode u) (cfg_PermissionMode current)\<rparr>)"

definition fill :: "string \<Rightarrow> string \<Rightarrow> string" where
  "fill given configured = (if TrimSpace given = [] then configured else given)"

definition fillStartConfiguration :: "StartSessionRequest \<Rightarrow> SessionConfiguration \<Rightarrow> StartSessionRequest" where
  "fillStartConfiguration q c =
     q\<lparr>ss_Model := fill (ss_Model q) (cfg_Model c), ss_Reasoning := fill (ss_Reasoning q) (cfg_Reasoning c),
       ss_PermissionMode := fill (ss_PermissionMode q) (cfg_PermissionMode c)\<rparr>"

definition fillTurnConfiguration :: "SendTurnRequest \<Rightarrow> SessionConfiguration \<Rightarrow> SendTurnRequest" where
  "fillTurnConfiguration q c =
     q\<lparr>tr_Model := fill (tr_Model q) (cfg_Model c), tr_Reasoning := fill (tr_Reasoning q) (cfg_Reasoning c),
       tr_PermissionMode := fill (tr_PermissionMode q) (cfg_PermissionMode c)\<rparr>"

datatype config_field = FieldModel | FieldReasoning | FieldPermissionMode

fun set_field :: "config_field \<Rightarrow> string \<Rightarrow> managedSession \<Rightarrow> managedSession" where
  "set_field FieldModel v m =
     m\<lparr>ms_configuration := (ms_configuration m)\<lparr>cfg_Model := v\<rparr>,
       ms_configurationEvent := (ms_configurationEvent m)\<lparr>cv_model := cv_model (ms_configurationEvent m) + 1\<rparr>\<rparr>"
| "set_field FieldReasoning v m =
     m\<lparr>ms_configuration := (ms_configuration m)\<lparr>cfg_Reasoning := v\<rparr>,
       ms_configurationEvent := (ms_configurationEvent m)\<lparr>cv_reasoning := cv_reasoning (ms_configurationEvent m) + 1\<rparr>\<rparr>"
| "set_field FieldPermissionMode v m =
     m\<lparr>ms_configuration := (ms_configuration m)\<lparr>cfg_PermissionMode := v\<rparr>,
       ms_configurationEvent := (ms_configurationEvent m)\<lparr>cv_permission := cv_permission (ms_configurationEvent m) + 1\<rparr>\<rparr>"

definition reconcileConfigurationValue :: "payload \<Rightarrow> string \<Rightarrow> config_field \<Rightarrow> managedSession \<Rightarrow> managedSession" where
  "reconcileConfigurationValue data key field m =
     (case map_of data key of
        Some (JStr s) \<Rightarrow> set_field field (TrimSpace s) m
      | _ \<Rightarrow> m)"

definition reconcileConfiguration :: "Event \<Rightarrow> managedSession \<Rightarrow> managedSession" where
  "reconcileConfiguration e m =
     (case ev_Type e of
        EventModels \<Rightarrow> reconcileConfigurationValue (ev_Data e) ''current_model'' FieldModel m
      | EventReasoningLevels \<Rightarrow> reconcileConfigurationValue (ev_Data e) ''current_reasoning'' FieldReasoning m
      | EventPermissionModes \<Rightarrow> reconcileConfigurationValue (ev_Data e) ''current_mode'' FieldPermissionMode m
      | EventConfigCatalog \<Rightarrow>
          reconcileConfigurationValue (ev_Data e) ''current_mode'' FieldPermissionMode
            (reconcileConfigurationValue (ev_Data e) ''current_reasoning'' FieldReasoning
              (reconcileConfigurationValue (ev_Data e) ''current_model'' FieldModel m))
      | _ \<Rightarrow> m)"

definition unreported :: "string \<Rightarrow> nat \<Rightarrow> nat \<Rightarrow> string \<Rightarrow> string" where
  "unreported new version before old = (if new \<noteq> [] \<and> version = before then new else old)"

definition mergeUnreportedConfiguration ::
  "SessionConfiguration \<Rightarrow> configurationEventVersions \<Rightarrow> managedSession \<Rightarrow> managedSession" where
  "mergeUnreportedConfiguration update before m =
     (let u = normalizeConfiguration update; v = ms_configurationEvent m; c = ms_configuration m in
      m\<lparr>ms_configuration :=
          \<lparr>cfg_Model = unreported (cfg_Model u) (cv_model v) (cv_model before) (cfg_Model c),
           cfg_Reasoning = unreported (cfg_Reasoning u) (cv_reasoning v) (cv_reasoning before) (cfg_Reasoning c),
           cfg_PermissionMode =
             unreported (cfg_PermissionMode u) (cv_permission v) (cv_permission before) (cfg_PermissionMode c)\<rparr>\<rparr>)"

section \<open>Facts about configurations\<close>

lemma normalize_idem [simp]: "normalizeConfiguration (normalizeConfiguration c) = normalizeConfiguration c"
  by (simp add: normalizeConfiguration_def)

text \<open>The part of a managed session that configuration updates leave alone.\<close>

definition turn_part :: "managedSession \<Rightarrow> Session \<times> QueueEntry list \<times> bool \<times> bool \<times> string \<times> bool \<times> nat \<times> fate list" where
  "turn_part m = (ms_session m, ms_queue m, ms_dispatching m, ms_active m, ms_activeTurnID m,
     ms_dispatchBlocked m, ms_nextQueueSeq m, ms_retired m)"

lemma set_field_turn_part [simp]: "turn_part (set_field f v m) = turn_part m"
  by (cases f) (simp_all add: turn_part_def)

lemma reconcileConfigurationValue_turn_part [simp]:
  "turn_part (reconcileConfigurationValue d k f m) = turn_part m"
  by (simp add: reconcileConfigurationValue_def del: set_field.simps split: option.splits json.splits)

lemma reconcileConfiguration_turn_part [simp]: "turn_part (reconcileConfiguration e m) = turn_part m"
  by (simp add: reconcileConfiguration_def split: EventType.splits)

lemma mergeUnreported_turn_part [simp]: "turn_part (mergeUnreportedConfiguration u b m) = turn_part m"
  by (simp add: mergeUnreportedConfiguration_def turn_part_def Let_def)

fun get_field :: "config_field \<Rightarrow> SessionConfiguration \<Rightarrow> string" where
  "get_field FieldModel c = cfg_Model c"
| "get_field FieldReasoning c = cfg_Reasoning c"
| "get_field FieldPermissionMode c = cfg_PermissionMode c"

text \<open>
  A configuration value reported by the agent wins over the one requested with a turn. If
  the agent reports a field between the start of a submission and its end, the submission
  leaves the reported value; every other field takes the requested value when that is not blank
  and keeps its own otherwise. Nothing else of the session changes.
\<close>

theorem reported_configuration_wins:
  "let m' = mergeUnreportedConfiguration update (ms_configurationEvent m)
              (reconcileConfigurationValue [(key, JStr v)] key f m) in
     get_field f (ms_configuration m') = TrimSpace v
   \<and> (g \<noteq> f \<longrightarrow> get_field g (ms_configuration m') =
        either (TrimSpace (get_field g update)) (get_field g (ms_configuration m)))
   \<and> turn_part m' = turn_part m"
  by (cases f; cases g)
    (simp_all add: Let_def mergeUnreportedConfiguration_def unreported_def normalizeConfiguration_def
      reconcileConfigurationValue_def either_def turn_part_def)

theorem reported_configuration_wins_witness:
  "let m = new_managed (New ''s1'' ''codex'' ''/w'' 1) no_configuration 0;
       m' = mergeUnreportedConfiguration \<lparr>cfg_Model = ''a'', cfg_Reasoning = ''high'', cfg_PermissionMode = []\<rparr>
              (ms_configurationEvent m) (reconcileConfigurationValue [(''current_model'', JStr ''b'')] ''current_model'' FieldModel m)
   in cfg_Model (ms_configuration m') = ''b'' \<and> cfg_Reasoning (ms_configuration m') = ''high''"
proof -
  have "TrimSpace ''b'' = ''b''" "TrimSpace ''high'' = ''high''" by code_simp+
  with reported_configuration_wins [of "\<lparr>cfg_Model = ''a'', cfg_Reasoning = ''high'', cfg_PermissionMode = []\<rparr>"
      "new_managed (New ''s1'' ''codex'' ''/w'' 1) no_configuration 0" "''current_model''" "''b''" FieldModel FieldReasoning]
  show ?thesis by (simp add: Let_def either_def)
qed

end
