(* ===== verification/Paths.thy ===== *)
theory Paths
  imports Prelude
begin

text \<open>
  The functions of Go's \<open>path/filepath\<close> the sources use, on Unix: \<open>Clean\<close>, \<open>Join\<close>,
  \<open>Dir\<close>, \<open>Base\<close> and \<open>Rel\<close>, with the lemmas that a clean absolute path is the list of its
  parts and that \<open>Rel\<close> tells whether one path is below another.
\<close>

section \<open>filepath.Clean\<close>

text \<open>The elements kept so far are in reverse order.\<close>

fun clean_parts :: "bool \<Rightarrow> string list \<Rightarrow> string list \<Rightarrow> string list" where
  "clean_parts rooted kept [] = rev kept"
| "clean_parts rooted kept (p # ps) =
     (if p = [] \<or> p = ''.'' then clean_parts rooted kept ps
      else if p = ''..'' then
        (case kept of
           [] \<Rightarrow> if rooted then clean_parts rooted [] ps else clean_parts rooted [p] ps
         | k # ks \<Rightarrow> if k = ''..'' then clean_parts rooted (p # kept) ps else clean_parts rooted ks ps)
      else clean_parts rooted (p # kept) ps)"

definition Clean :: "string \<Rightarrow> string" where
  "Clean p =
     (let rooted = (p \<noteq> [] \<and> hd p = CHR ''/'');
          body = JoinBytes ''/'' (clean_parts rooted [] (SplitByte CHR ''/'' p)) in
      if rooted then CHR ''/'' # body else if body = [] then ''.'' else body)"

abbreviation slash :: char where "slash \<equiv> CHR ''/''"

section \<open>Join, Dir, Base\<close>

definition JoinPath :: "string list \<Rightarrow> string" where
  "JoinPath parts =
     (case filter (\<lambda>p. p \<noteq> []) parts of [] \<Rightarrow> [] | ps \<Rightarrow> Clean (JoinBytes [slash] ps))"

definition DirPath :: "string \<Rightarrow> string" where
  "DirPath p = Clean (rev (dropWhile (\<lambda>c. c \<noteq> slash) (rev p)))"

definition BasePath :: "string \<Rightarrow> string" where
  "BasePath p =
     (if p = [] then ''.''
      else let q = rev (dropWhile ((=) slash) (rev p)) in
        if q = [] then [slash] else rev (takeWhile (\<lambda>c. c \<noteq> slash) (rev q)))"

definition IsAbs :: "string \<Rightarrow> bool" where
  "IsAbs p \<longleftrightarrow> p \<noteq> [] \<and> hd p = slash"

section \<open>Rel\<close>

text \<open>
  The elements \<open>Rel\<close> walks over: those between slashes, the one before a leading slash being
  empty; the root has no element after it.
\<close>

definition rel_parts :: "string \<Rightarrow> string list" where
  "rel_parts p = (if p = [] then [] else if p = [slash] then [[]] else SplitByte slash p)"

fun rel_from :: "string list \<Rightarrow> string list \<Rightarrow> string option" where
  "rel_from [] ts = Some (JoinBytes [slash] ts)"
| "rel_from (b # bs) [] = Some (JoinBytes [slash] (map (\<lambda>_. ''..'') (b # bs)))"
| "rel_from (b # bs) (t # ts) =
     (if b = t then rel_from bs ts
      else if b = ''..'' then None
      else Some (JoinBytes [slash] (map (\<lambda>_. ''..'') (b # bs) @ t # ts)))"

definition Rel :: "string \<Rightarrow> string \<Rightarrow> string option" where
  "Rel basepath targpath =
     (let base0 = Clean basepath; targ = Clean targpath in
      if targ = base0 then Some ''.''
      else let base = (if base0 = ''.'' then [] else base0) in
        if IsAbs base \<noteq> IsAbs targ then None else rel_from (rel_parts base) (rel_parts targ))"

section \<open>Clean absolute paths\<close>

text \<open>An element that cleaning keeps.\<close>

definition plain :: "string \<Rightarrow> bool" where
  "plain p \<longleftrightarrow> p \<notin> {[], ''.'', ''..''} \<and> slash \<notin> set p"

definition abs_of :: "string list \<Rightarrow> string" where
  "abs_of ps = slash # JoinBytes [slash] ps"

lemma SplitByte_plain: "c \<notin> set p \<Longrightarrow> SplitByte c p = [p]"
  by (induction p) auto

lemma SplitByte_append: "c \<notin> set p \<Longrightarrow> SplitByte c (p @ c # s) = p # SplitByte c s"
  by (induction p) auto

lemma SplitByte_JoinBytes:
  "ps \<noteq> [] \<Longrightarrow> \<forall>p \<in> set ps. c \<notin> set p \<Longrightarrow> SplitByte c (JoinBytes [c] ps) = ps"
  by (induction "[c]" ps rule: JoinBytes.induct) (simp_all add: SplitByte_plain SplitByte_append)

lemma clean_parts_plain: "\<forall>p \<in> set ps. plain p \<Longrightarrow> clean_parts rooted kept ps = rev kept @ ps"
  by (induction ps arbitrary: kept) (auto simp: plain_def)

lemma clean_parts_empty_first: "clean_parts rooted kept ([] # ps) = clean_parts rooted kept ps"
  by simp

lemma clean_parts_rooted:
  "\<forall>p \<in> set kept. plain p \<Longrightarrow> \<forall>p \<in> set ps. slash \<notin> set p \<Longrightarrow> \<forall>p \<in> set (clean_parts True kept ps). plain p"
proof (induction ps arbitrary: kept)
  case (Cons p ps)
  consider "p = [] \<or> p = ''.''" | "p = ''..''" | "plain p" using Cons.prems(2) by (auto simp: plain_def)
  then show ?case
  proof cases
    case 1
    then show ?thesis using Cons.IH [OF Cons.prems(1)] Cons.prems(2) by auto
  next
    case 2
    have "\<forall>q \<in> set (clean_parts True (tl kept) ps). plain q"
      using Cons.prems by (intro Cons.IH) (cases kept; auto)+
    moreover have "kept = k # ks \<Longrightarrow> k \<noteq> ''..''" for k ks using Cons.prems(1) by (auto simp: plain_def)
    ultimately show ?thesis using 2 by (cases kept) auto
  next
    case 3
    then have "\<forall>q \<in> set (clean_parts True (p # kept) ps). plain q"
      using Cons.prems by (intro Cons.IH) auto
    then show ?thesis using 3 by (auto simp: plain_def)
  qed
qed simp

lemma Clean_abs_of:
  assumes "\<forall>p \<in> set ps. plain p"
  shows "Clean (abs_of ps) = abs_of ps"
proof (cases "ps = []")
  case False
  have "SplitByte slash (abs_of ps) = [] # ps"
    using SplitByte_JoinBytes [OF False, of slash] assms by (simp add: abs_of_def plain_def)
  then show ?thesis
    using clean_parts_plain [OF assms, of True "[]"] by (simp add: Clean_def abs_of_def)
qed (simp add: Clean_def abs_of_def)

lemma Clean_rooted: "IsAbs p \<Longrightarrow> \<exists>ps. Clean p = abs_of ps \<and> (\<forall>q \<in> set ps. plain q)"
proof -
  assume "IsAbs p"
  moreover have "\<forall>q \<in> set (clean_parts True [] (SplitByte slash p)). plain q"
    using SplitByte_parts by (intro clean_parts_rooted) auto
  ultimately show ?thesis
    by (auto simp: Clean_def IsAbs_def abs_of_def)
qed

lemma JoinBytes_nonempty: "ps \<noteq> [] \<Longrightarrow> \<forall>p \<in> set ps. p \<noteq> [] \<Longrightarrow> JoinBytes sep ps \<noteq> []"
  by (cases "(sep, ps)" rule: JoinBytes.cases) auto

lemma rel_parts_abs_of:
  assumes "\<forall>p \<in> set ps. plain p"
  shows "rel_parts (abs_of ps) = [] # ps"
proof (cases "ps = []")
  case False
  have "\<forall>p \<in> set ps. slash \<notin> set p" "\<forall>p \<in> set ps. p \<noteq> []"
    using assms by (simp_all add: plain_def)
  then have "SplitByte slash (JoinBytes [slash] ps) = ps" "JoinBytes [slash] ps \<noteq> []"
    using SplitByte_JoinBytes JoinBytes_nonempty False by blast+
  then show ?thesis by (simp add: rel_parts_def abs_of_def)
qed (simp add: rel_parts_def abs_of_def)

lemma abs_of_inject:
  assumes "\<forall>p \<in> set ps. plain p" and "\<forall>p \<in> set qs. plain p" and "abs_of ps = abs_of qs"
  shows "ps = qs"
  by (metis assms rel_parts_abs_of list.inject)

lemma rel_from_common: "rel_from (bs @ xs) (bs @ ys) = rel_from xs ys"
  by (induction bs) auto

section \<open>Being below a directory\<close>

text \<open>The test of the worktree manager and of the engine: the relative path does not go up.\<close>

definition within :: "string \<Rightarrow> string \<Rightarrow> bool" where
  "within root path =
     (case Rel (Clean root) (Clean path) of
        None \<Rightarrow> False
      | Some rel \<Rightarrow> rel \<noteq> ''..'' \<and> \<not> prefix ''../'' rel \<and> \<not> IsAbs rel)"

lemma rel_from_up:
  assumes "\<forall>p \<in> set bs. plain p" and "\<forall>p \<in> set ts. plain p" and "rel_from bs ts = Some rel"
  shows "(rel = ''..'' \<or> prefix ''../'' rel) \<longleftrightarrow> \<not> prefix bs ts"
  using assms
proof (induction bs ts rule: rel_from.induct)
  case (1 ts)
  have "JoinBytes [slash] ts \<noteq> ''..'' \<and> \<not> prefix ''../'' (JoinBytes [slash] ts)"
  proof (cases ts rule: remdups_adj.cases)
    case (2 t)
    then show ?thesis using 1 by (auto simp: plain_def prefix_def)
  next
    case (3 t u us)
    then have t: "plain t" using 1 by simp
    have "t @ slash # z = ''../'' @ w \<Longrightarrow> t = ''..''" for z w
    proof -
      assume "t @ slash # z = ''../'' @ w"
      then have "takeWhile (\<lambda>c. c \<noteq> slash) (t @ slash # z) = ''..''" by simp
      moreover have "takeWhile (\<lambda>c. c \<noteq> slash) (t @ slash # z) = t"
        using t by (subst takeWhile_append2) (auto simp: plain_def)
      ultimately show "t = ''..''" by simp
    qed
    with t 3 show ?thesis by (auto simp: plain_def prefix_def append_eq_Cons_conv)
  qed simp
  then show ?case using 1 by simp
next
  case (2 b bs)
  then show ?case by (cases bs) (auto simp: prefix_def)
next
  case (3 b bs t ts)
  have "JoinBytes [slash] (''..'' # xs) = ''..'' \<or> prefix ''../'' (JoinBytes [slash] (''..'' # xs))" for xs
    by (cases xs) (auto simp: prefix_def)
  then show ?case using 3 by (auto split: if_splits)
qed

lemma rel_from_plain: "\<forall>p \<in> set bs. plain p \<Longrightarrow> \<exists>rel. rel_from bs ts = Some rel"
  by (induction bs ts rule: rel_from.induct) (auto simp: plain_def)

lemma JoinBytes_not_abs: "\<forall>p \<in> set ps. p \<noteq> [] \<and> hd p \<noteq> slash \<Longrightarrow> \<not> IsAbs (JoinBytes sep ps)"
  by (cases "(sep, ps)" rule: JoinBytes.cases) (auto simp: IsAbs_def)

lemma rel_from_not_abs:
  assumes "\<forall>p \<in> set ts. plain p" and "rel_from bs ts = Some rel"
  shows "\<not> IsAbs rel"
proof -
  have plain_hd: "plain p \<Longrightarrow> p \<noteq> [] \<and> hd p \<noteq> slash" for p
    by (cases p) (auto simp: plain_def)
  have "rel_from bs ts = Some rel \<Longrightarrow> \<exists>ps. rel = JoinBytes [slash] ps \<and> (\<forall>p \<in> set ps. p = ''..'' \<or> p \<in> set ts)"
    by (induction bs ts rule: rel_from.induct) (force split: if_splits)+
  then obtain ps where ps: "rel = JoinBytes [slash] ps" "\<forall>p \<in> set ps. p = ''..'' \<or> p \<in> set ts"
    using assms(2) by blast
  have "\<forall>p \<in> set ps. p \<noteq> [] \<and> hd p \<noteq> slash"
    using ps(2) assms(1) plain_hd by fastforce
  then show ?thesis using JoinBytes_not_abs ps(1) by blast
qed

text \<open>A clean absolute path is within another exactly when it extends its list of parts.\<close>

lemma within_abs:
  assumes "\<forall>p \<in> set rs. plain p" and "\<forall>p \<in> set ts. plain p"
  shows "within (abs_of rs) (abs_of ts) \<longleftrightarrow> prefix rs ts"
proof (cases "rs = ts")
  case True
  then show ?thesis using assms by (simp add: within_def Rel_def Clean_abs_of IsAbs_def prefix_def)
next
  case False
  then have ne: "abs_of ts \<noteq> abs_of rs" using abs_of_inject assms by blast
  have a: "IsAbs (abs_of rs)" "IsAbs (abs_of ts)" "abs_of rs \<noteq> ''.''" by (simp_all add: IsAbs_def abs_of_def)
  have rel: "Rel (abs_of rs) (abs_of ts) = rel_from rs ts"
    using assms ne a by (simp add: Rel_def Clean_abs_of rel_parts_abs_of)
  obtain r where r: "rel_from rs ts = Some r" using rel_from_plain [OF assms(1)] by blast
  have "\<not> IsAbs r" by (rule rel_from_not_abs [OF assms(2) r])
  then show ?thesis
    using rel_from_up [OF assms r] rel r assms by (simp add: within_def Clean_abs_of) blast
qed

text \<open>Joining plain names to a clean absolute path appends them to its parts.\<close>

lemma JoinBytes_append:
  "ps \<noteq> [] \<Longrightarrow> qs \<noteq> [] \<Longrightarrow> JoinBytes sep (ps @ qs) = JoinBytes sep ps @ sep @ JoinBytes sep qs"
proof (induction sep ps rule: JoinBytes.induct)
  case (2 sep p)
  then show ?case by (cases qs) auto
qed auto

lemma SplitByte_slashes: "SplitByte c (s @ c # t) = SplitByte c s @ SplitByte c t"
proof (induction s)
  case (Cons a s)
  then show ?case by (cases "SplitByte c s") (auto simp: SplitByte_nonempty)
qed simp

lemma JoinPath_plain:
  assumes "\<forall>p \<in> set rs. plain p" and "\<forall>p \<in> set ps. plain p" and "ps \<noteq> []"
  shows "JoinPath (abs_of rs # ps) = abs_of (rs @ ps)"
proof -
  have ne: "filter (\<lambda>p. p \<noteq> []) (abs_of rs # ps) = abs_of rs # ps"
    using assms(2) by (auto simp: abs_of_def plain_def filter_id_conv)
  have all: "\<forall>p \<in> set (rs @ ps). plain p" using assms by auto
  have join: "JoinBytes [slash] (abs_of rs # ps) = abs_of rs @ [slash] @ JoinBytes [slash] ps"
    using assms(3) by (cases ps) auto
  have sp: "SplitByte slash (JoinBytes [slash] ps) = ps"
    using assms(2,3) by (intro SplitByte_JoinBytes) (auto simp: plain_def)
  have sr: "SplitByte slash (abs_of rs) = [] # (if rs = [] then [[]] else rs)"
    using assms(1) SplitByte_JoinBytes [of rs slash] by (auto simp: abs_of_def plain_def)
  have "SplitByte slash (JoinBytes [slash] (abs_of rs # ps)) = [] # (if rs = [] then [[]] else rs) @ ps"
    unfolding join by (simp add: SplitByte_slashes sr sp)
  then have "clean_parts True [] (SplitByte slash (JoinBytes [slash] (abs_of rs # ps))) = rs @ ps"
    using clean_parts_plain [OF all, of True "[]"] clean_parts_plain [OF assms(2), of True "[]"] by auto
  then show ?thesis
    unfolding JoinPath_def ne list.case Clean_def Let_def join
    by (simp add: abs_of_def)
qed

lemma DirPath_snoc:
  assumes "\<forall>p \<in> set (ps @ [p]). plain p"
  shows "DirPath (abs_of (ps @ [p])) = abs_of ps"
proof -
  have p: "slash \<notin> set p" using assms by (simp add: plain_def)
  have split: "abs_of (ps @ [p]) = (if ps = [] then [slash] else abs_of ps @ [slash]) @ p"
    by (simp add: abs_of_def JoinBytes_append)
  have "dropWhile (\<lambda>c. c \<noteq> slash) (rev (abs_of (ps @ [p]))) = rev (if ps = [] then [slash] else abs_of ps @ [slash])"
    unfolding split rev_append using p by (subst dropWhile_append2) auto
  then have dir: "DirPath (abs_of (ps @ [p])) = Clean (if ps = [] then [slash] else abs_of ps @ [slash])"
    by (simp add: DirPath_def)
  have plain: "\<forall>q \<in> set ps. plain q" using assms by simp
  show ?thesis
  proof (cases "ps = []")
    case False
    have "SplitByte slash (abs_of ps) = [] # ps"
      using SplitByte_JoinBytes [OF False, of slash] plain by (simp add: abs_of_def plain_def)
    then have "SplitByte slash (abs_of ps @ [slash]) = [] # ps @ [[]]"
      using SplitByte_slashes [of slash "abs_of ps" "[]"] by simp
    moreover have "clean_parts True kept (ps @ [[]]) = rev kept @ ps" for kept
      using plain by (induction ps arbitrary: kept) (auto simp: plain_def)
    ultimately show ?thesis using dir False by (simp add: Clean_def abs_of_def)
  next
    case True
    then show ?thesis using dir by (simp add: abs_of_def Clean_def)
  qed
qed

end
