(* ===== verification/Runtime_Restore.thy ===== *)
theory Runtime_Restore
  imports Runtime_Types Paths
begin

text \<open>
  The reconstruction of a session from its journal, from \<open>Restore\<close> in
  \<open>src/runtime/runtime.go\<close>: the loop over the records as a fold, one function per event
  kind, and the events that close a turn left active by the previous process.
\<close>

section \<open>Reading records back\<close>

definition max_int :: nat where
  "max_int = 2 ^ 63 - 1"

lemma max_int_code [code]: "max_int = nat 9223372036854775807"
  by (simp add: max_int_def)

definition restoredEventSequence :: "nat \<Rightarrow> int" where
  "restoredEventSequence n = (if max_int < n then int max_int else int n)"

lemma restoredEventSequence_code [code]:
  "restoredEventSequence n = (if 9223372036854775807 < int n then 9223372036854775807 else int n)"
  by (auto simp: restoredEventSequence_def max_int_def)

text \<open>\<open>json.Unmarshal\<close> into a struct: \<open>None\<close> is an error; \<open>null\<close> leaves the zero value.\<close>

definition fields_of :: "bytes \<Rightarrow> (string \<times> json) list option" where
  "fields_of raw =
     (case unmarshal raw of Some (JObj fs) \<Rightarrow> Some fs | Some JNull \<Rightarrow> Some [] | _ \<Rightarrow> None)"

definition dec_pointer :: "(json \<Rightarrow> 'a option) \<Rightarrow> json option \<Rightarrow> 'a option option" where
  "dec_pointer dec v =
     (case v of None \<Rightarrow> Some None | Some JNull \<Rightarrow> Some None | Some j \<Rightarrow> map_option Some (dec j))"

definition dec_value :: "(json \<Rightarrow> 'a option) \<Rightarrow> 'a \<Rightarrow> json option \<Rightarrow> 'a option" where
  "dec_value dec z v = (case v of None \<Rightarrow> Some z | Some JNull \<Rightarrow> Some z | Some j \<Rightarrow> dec j)"

definition created_data :: "bytes \<Rightarrow> (Backend \<times> string) option" where
  "created_data raw =
     (case fields_of raw of
        None \<Rightarrow> None
      | Some fs \<Rightarrow>
          (case (get_str fs ''backend'', get_str fs ''worktree'') of
             (Some b, Some w) \<Rightarrow> if b = [] \<or> w = [] then None else Some (b, w)
           | _ \<Rightarrow> None))"

definition started_data :: "bytes \<Rightarrow> (BackendSession \<times> SessionConfiguration) option" where
  "started_data raw =
     (case fields_of raw of
        None \<Rightarrow> None
      | Some fs \<Rightarrow>
          (case (dec_value dec_backend_session no_backend_session (sget fs ''backend_session''),
                 dec_value dec_configuration no_configuration (sget fs ''configuration'')) of
             (Some b, Some c) \<Rightarrow> Some (b, c)
           | _ \<Rightarrow> None))"

definition interactionFromRecord :: "Record \<Rightarrow> InteractionRequest option" where
  "interactionFromRecord r =
     (case fields_of (r_Data r) of
        None \<Rightarrow> None
      | Some fs \<Rightarrow>
          (case dec_pointer dec_interaction (sget fs ''interaction'') of
             Some (Some q) \<Rightarrow> if TrimSpace (ir_ID q) = [] then None else Some q
           | _ \<Rightarrow> None))"

definition interactionResponseFromRecord :: "Record \<Rightarrow> InteractionResponse option" where
  "interactionResponseFromRecord r =
     (case fields_of (r_Data r) of
        None \<Rightarrow> None
      | Some fs \<Rightarrow>
          (case dec_pointer dec_response (sget fs ''interaction_response'') of
             Some (Some q) \<Rightarrow> Some q
           | _ \<Rightarrow> None))"

section \<open>The loop of Restore\<close>

definition restore_created :: "RestoreRequest \<Rightarrow> string \<Rightarrow> time \<Rightarrow> Record \<Rightarrow> managedSession option \<Rightarrow> managedSession option" where
  "restore_created q sid now r acc =
     (case created_data (r_Data r) of
        None \<Rightarrow> acc
      | Some (backend, worktree) \<Rightarrow>
          let created = (New sid backend worktree now)\<lparr>s_CreatedAt := r_Timestamp r, s_UpdatedAt := r_Timestamp r,
                          s_BackendSession := rq_BackendSession q\<rparr> in
          Some (new_managed (transition_to StatusActive now created)
                  (normalizeConfiguration (rq_Configuration q)) (restoredEventSequence (r_Sequence r))))"

definition restore_started :: "Record \<Rightarrow> managedSession \<Rightarrow> managedSession" where
  "restore_started r m =
     (case started_data (r_Data r) of
        None \<Rightarrow> m
      | Some (b, c) \<Rightarrow> m\<lparr>ms_session := (ms_session m)\<lparr>s_BackendSession := b\<rparr>,
                         ms_configuration := normalizeConfiguration c\<rparr>)"

definition restore_closed :: "time \<Rightarrow> managedSession \<Rightarrow> managedSession" where
  "restore_closed now m = (if status_of m \<noteq> StatusClosed then set_status StatusClosed now m else m)"

definition restore_turn_started :: "time \<Rightarrow> Record \<Rightarrow> managedSession \<Rightarrow> managedSession" where
  "restore_turn_started now r m =
     (if TrimSpace (r_TurnID r) = [] then m
      else let m1 = m\<lparr>ms_active := True, ms_activeTurnID := TrimSpace (r_TurnID r)\<rparr> in
        if status_of m1 = StatusActive then set_status StatusRunning now m1 else m1)"

definition restore_interaction :: "time \<Rightarrow> Record \<Rightarrow> managedSession \<Rightarrow> managedSession" where
  "restore_interaction now r m =
     (case interactionFromRecord r of
        None \<Rightarrow> m
      | Some q \<Rightarrow>
          let m1 = m\<lparr>ms_pendingInteraction := Some q\<rparr> in
          if status_of m1 = StatusRunning then set_status StatusWaitingInput now m1 else m1)"

definition restore_resolved :: "time \<Rightarrow> Record \<Rightarrow> managedSession \<Rightarrow> managedSession" where
  "restore_resolved now r m =
     (case (ms_pendingInteraction m, interactionResponseFromRecord r) of
        (Some q, Some a) \<Rightarrow>
          if rs_RequestID a = [] \<or> rs_RequestID a = ir_ID q
          then let m1 = m\<lparr>ms_pendingInteraction := None\<rparr> in
            (if status_of m1 = StatusWaitingInput then set_status StatusRunning now m1 else m1)
          else m
      | _ \<Rightarrow> m)"

definition idle_turn :: "time \<Rightarrow> managedSession \<Rightarrow> managedSession" where
  "idle_turn now m =
     (let m1 = m\<lparr>ms_active := False, ms_activeTurnID := [], ms_pendingInteraction := None\<rparr> in
      if status_of m1 = StatusRunning \<or> status_of m1 = StatusWaitingInput
      then set_status StatusActive now m1 else m1)"

definition restore_terminal :: "time \<Rightarrow> Record \<Rightarrow> managedSession \<Rightarrow> managedSession" where
  "restore_terminal now r m =
     (if r_Event r = EventAgentProcessExited \<or> r_TurnID r = [] \<or> ms_activeTurnID m = []
         \<or> r_TurnID r = ms_activeTurnID m
      then idle_turn now m else m)"

definition restore_record :: "RestoreRequest \<Rightarrow> string \<Rightarrow> time \<Rightarrow> Record \<Rightarrow> managedSession option \<Rightarrow> managedSession option" where
  "restore_record q sid now r acc0 =
     (let seq = restoredEventSequence (r_Sequence r);
          acc = map_option (\<lambda>m. if ms_nextSeq m < seq then m\<lparr>ms_nextSeq := seq\<rparr> else m) acc0;
          ev = r_Event r in
      if ev = ''session.created'' then restore_created q sid now r acc
      else if ev = ''session.started'' then map_option (restore_started r) acc
      else if ev = ''session.closed'' then map_option (restore_closed now) acc
      else if ev = EventAgentTurnStarted then map_option (restore_turn_started now r) acc
      else if ev = EventAgentInteraction \<or> ev = EventAgentPermission
        then map_option (restore_interaction now r) acc
      else if ev = EventUserRequestResolved then map_option (restore_resolved now r) acc
      else if replayTerminal ev then map_option (restore_terminal now r) acc
      else acc)"

definition restore_start :: "RestoreRequest \<Rightarrow> string \<Rightarrow> time \<Rightarrow> managedSession option" where
  "restore_start q sid now =
     (let backend = TrimSpace (rq_Backend q); worktree = TrimSpace (rq_Worktree q) in
      if backend \<noteq> [] \<and> worktree \<noteq> []
      then Some (new_managed
             ((transition_to StatusActive now (New sid backend (Clean worktree) now))
                \<lparr>s_BackendSession := rq_BackendSession q\<rparr>)
             (normalizeConfiguration (rq_Configuration q)) 0)
      else None)"

definition restore_session :: "RestoreRequest \<Rightarrow> string \<Rightarrow> time \<Rightarrow> Record list \<Rightarrow> managedSession option" where
  "restore_session q sid now records = fold (restore_record q sid now) records (restore_start q sid now)"

section \<open>Events that end a recovered turn (reconcileRecoveredTurn)\<close>

definition recovered_resolution :: "managedSession \<Rightarrow> InteractionRequest \<Rightarrow> Event" where
  "recovered_resolution m q =
     (new_event EventInteractionResolved)\<lparr>
        ev_Backend := s_Backend (ms_session m),
        ev_BackendSessionID := bs_ID (s_BackendSession (ms_session m)),
        ev_BackendThreadID := bs_ThreadID (s_BackendSession (ms_session m)),
        ev_BackendTurnID := ms_activeTurnID m,
        ev_InteractionResponse := Some \<lparr>rs_RequestID = ir_ID q, rs_Action = ''cancel'', rs_OptionID = [],
          rs_Message = ''Interaction cancelled because the host runtime restarted.'', rs_Values = []\<rparr>,
        ev_Data := [(''reason'', JStr ''host_runtime_restarted''), (''recovered'', JBool True)]\<rparr>"

definition recovered_failure :: "managedSession \<Rightarrow> Event" where
  "recovered_failure m =
     (new_event EventTurnFailed)\<lparr>
        ev_Backend := s_Backend (ms_session m),
        ev_BackendSessionID := bs_ID (s_BackendSession (ms_session m)),
        ev_BackendThreadID := bs_ThreadID (s_BackendSession (ms_session m)),
        ev_BackendTurnID := ms_activeTurnID m,
        ev_Message := s_Backend (ms_session m) @ '' turn interrupted during host runtime restart'',
        ev_Data := [(''interrupted'', JBool True), (''reason'', JStr ''host_runtime_restarted''),
          (''recovered'', JBool True), (''retryable'', JBool True)]\<rparr>"

definition recovery_events :: "managedSession \<Rightarrow> Event list" where
  "recovery_events m =
     (if \<not> ms_active m then []
      else (case ms_pendingInteraction m of None \<Rightarrow> [] | Some q \<Rightarrow> [recovered_resolution m q])
           @ [recovered_failure m])"

end
