(* ===== verification/Runtime_Core.thy ===== *)
theory Runtime_Core
  imports Runtime_Restore
begin

text \<open>
  The runtime of \<open>src/runtime/runtime.go\<close> as a machine of critical sections. A method is
  a sequence of sections, each one stretch of code under \<open>r.mu\<close> (or under a coalescer's or
  the store's lock) with the calls that follow it up to the next lock. A section is a
  \<open>action\<close>; running it changes the runtime, leaves the actions that the same goroutine
  executes next, and may start goroutines. Between two actions any other goroutine may run.

  Calls out of the runtime are oracles indexed by a tick that every action advances: the
  adapters (what they emit during the call, then what they return), the file system under the
  journal, clocks and random identifiers. A coalescer lives in its session; one whose session
  was forgotten hands its events to a session that no longer exists, which drops them.
\<close>

section \<open>Adapters and the environment\<close>

record adapter =
  ad_Backend :: Backend
  ad_Detect :: "nat \<Rightarrow> BackendStatus"
  ad_StartSession :: "nat \<Rightarrow> string \<Rightarrow> StartSessionRequest \<Rightarrow> Event list \<times> (string + BackendSession)"
  ad_SendTurn :: "nat \<Rightarrow> string \<Rightarrow> SendTurnRequest \<Rightarrow> Event list \<times> (string + BackendSession)"
  ad_Interrupt :: "nat \<Rightarrow> string \<Rightarrow> Event list \<times> string option"
  ad_CloseSession :: "nat \<Rightarrow> string \<Rightarrow> string option"
  ad_ForkPrompt :: "(nat \<Rightarrow> ForkPromptRequest \<Rightarrow> string + ForkPromptResponse) option"
  ad_RestartSession :: "(nat \<Rightarrow> string \<Rightarrow> Event list \<times> (string + BackendSession)) option"
  ad_RespondInteraction :: "(nat \<Rightarrow> string \<Rightarrow> InteractionResponse \<Rightarrow> string option) option"
  ad_RespondPermission :: "(nat \<Rightarrow> string \<Rightarrow> string \<Rightarrow> bool \<Rightarrow> string \<Rightarrow> string \<Rightarrow> string option) option"
  ad_Catalog :: "(nat \<Rightarrow> string + BackendCatalog) option"

record env =
  en_io :: "nat \<Rightarrow> io"
  en_now :: "nat \<Rightarrow> time"
  en_stamp :: "nat \<Rightarrow> string"
  en_eventID :: "nat \<Rightarrow> string"
  en_newID :: "nat \<Rightarrow> string option"
  en_stat :: "string \<Rightarrow> bool"
  en_describe :: "store_error \<Rightarrow> string"

section \<open>The runtime\<close>

datatype api_result =
  RState "runtime_error + RuntimeState"
| RBackend "runtime_error + BackendSession"
| RSend "runtime_error + SendResult"
| RUnit "runtime_error option"
| RFork "runtime_error + ForkPromptResponse"
| RRemove "runtime_error + RemoveQueuedTurnResult"
| REntry "runtime_error + QueueEntry"

record Config =
  cn_Journal :: "Store option"
  cn_EventSink :: bool
  cn_TurnDispatched :: "(TurnDispatch \<Rightarrow> string option) option"
  cn_TurnSubmitted :: bool
  cn_MaxQueuedTurns :: int
  cn_CatalogCacheDir :: string
  cn_CatalogUpdated :: bool
  cn_DisableCoalescing :: bool
  cn_DisableJournalWrites :: bool

text \<open>
  The fields of \<open>Runtime\<close> and, after them, what its callbacks were given: the events
  emitted, the turns announced and submitted, the results returned to callers.
\<close>

record Runtime =
  rt_adapters :: "adapter gomap"
  rt_sessions :: "managedSession gomap"
  rt_journal :: "Store option"
  rt_journalWrites :: bool
  rt_emit :: bool
  rt_turnDispatched :: "(TurnDispatch \<Rightarrow> string option) option"
  rt_turnSubmitted :: bool
  rt_maxQueuedTurns :: nat
  rt_coalesceEvents :: bool
  rt_catalogCacheDir :: string
  rt_catalogUpdated :: bool
  rt_catalog :: "BackendCatalog gomap"
  rt_emitted :: "Event list"
  rt_announced :: "TurnDispatch list"
  rt_submitted :: "TurnSubmission list"
  rt_returned :: "api_result list"
  rt_tick :: nat

definition defaultQueueDepth :: nat where
  "defaultQueueDepth = 16"

definition register :: "adapter option \<Rightarrow> adapter gomap \<Rightarrow> adapter gomap" where
  "register a as =
     (case a of
        None \<Rightarrow> as
      | Some x \<Rightarrow> if TrimSpace (ad_Backend x) \<noteq> [] then map_put (ad_Backend x) x as else as)"

definition New_runtime :: "Config \<Rightarrow> adapter option list \<Rightarrow> Runtime" where
  "New_runtime c adapters =
     \<lparr>rt_adapters = fold register adapters [], rt_sessions = [], rt_journal = cn_Journal c,
      rt_journalWrites = (\<not> cn_DisableJournalWrites c), rt_emit = cn_EventSink c,
      rt_turnDispatched = cn_TurnDispatched c, rt_turnSubmitted = cn_TurnSubmitted c,
      rt_maxQueuedTurns = (if cn_MaxQueuedTurns c \<le> 0 then defaultQueueDepth else nat (cn_MaxQueuedTurns c)),
      rt_coalesceEvents = (\<not> cn_DisableCoalescing c),
      rt_catalogCacheDir = TrimSpace (cn_CatalogCacheDir c), rt_catalogUpdated = cn_CatalogUpdated c,
      rt_catalog = [], rt_emitted = [], rt_announced = [], rt_submitted = [], rt_returned = [], rt_tick = 0\<rparr>"

section \<open>Actions\<close>

text \<open>The methods a host calls, at their entry.\<close>

datatype call =
  ACreate CreateRequest
| AStart StartSessionRequest
| ASend SendTurnRequest bool
| AInterrupt string
| AInterruptActive string
| AReconcileTurn string Event
| ASetReplayHistory string "Record list"
| ARespondInteraction string InteractionResponse
| AForkPrompt ForkPromptRequest
| ARemoveQueuedTurn string string
| AReplaceQueuedTurn string string SendTurnRequest
| ABlockDispatch string
| AUnblockDispatch string
| ARestart string
| AClose string
| AForget string
| AShutdown
| AState string
| ASetConfiguration string SessionConfiguration
| ARestore RestoreRequest

text \<open>The sections of turns and events.\<close>

datatype turn_action =
  ASubmit Backend TurnDispatch
| ASubmitCall Backend TurnDispatch
| ASubmitDone TurnDispatch configurationEventVersions "string + BackendSession"
| AFailSubmission string string string
| ANotifySubmitted TurnDispatch BackendSession
| ASubmitEnd TurnDispatch "string + BackendSession"
| ADispatchQueued string
| AEmitQueue string
| ADeliver string Event
| AHandle string Event
| ATimer string
| ADeliverNow string Event
| APersist Event
| AEmit Event
| AGoDispatch string

text \<open>The later sections of the methods that manage sessions.\<close>

datatype life_action =
  ACreateAppend string Backend string
| AStartCall string StartSessionRequest SessionConfiguration
| AStartDone string StartSessionRequest SessionConfiguration "string + BackendSession"
| AStartAppend string StartSessionRequest BackendSession
| AInterruptCall string Backend bool
| AInterruptDone string Backend bool string BackendSession "string option"
| ARespondCall string Backend InteractionResponse bool
| ARespondResolve string InteractionResponse
| ARestartCall string Backend
| ARestartDone string "string + BackendSession"
| ARestartAppend string BackendSession
| ACloseCoalescer string
| ACloseCall string Backend
| ACloseDone string
| ACloseAppend string
| AShutdownCall "(string \<times> Backend) list" "(string \<times> string) list"
| ARestoreInsert string managedSession
| AReconcileRecovered string

datatype action = Call call | Turn turn_action | Life life_action | Return api_result

type_synonym thread = "action list"

text \<open>What an action leaves: the runtime, the goroutine's next actions, new goroutines.\<close>

type_synonym outcome = "Runtime \<times> thread \<times> thread list"

definition deliver_all :: "string \<Rightarrow> Event list \<Rightarrow> thread" where
  "deliver_all sid events = map (\<lambda>e. Turn (ADeliver sid e)) events"

section \<open>Sessions of the runtime\<close>

definition get_session :: "Runtime \<Rightarrow> string \<Rightarrow> managedSession option" where
  "get_session rt sid = map_of (rt_sessions rt) sid"

definition put_session :: "string \<Rightarrow> managedSession \<Rightarrow> Runtime \<Rightarrow> Runtime" where
  "put_session sid m rt = rt\<lparr>rt_sessions := map_put sid m (rt_sessions rt)\<rparr>"

definition update_session :: "string \<Rightarrow> (managedSession \<Rightarrow> managedSession) \<Rightarrow> Runtime \<Rightarrow> Runtime" where
  "update_session sid f rt =
     (case get_session rt sid of None \<Rightarrow> rt | Some m \<Rightarrow> put_session sid (f m) rt)"

definition delete_session :: "string \<Rightarrow> Runtime \<Rightarrow> Runtime" where
  "delete_session sid rt = rt\<lparr>rt_sessions := map_del sid (rt_sessions rt)\<rparr>"

definition adapterLocked :: "string \<Rightarrow> Runtime \<Rightarrow> runtime_error + managedSession \<times> adapter" where
  "adapterLocked sid rt =
     (case get_session rt sid of
        None \<Rightarrow> Inl (SessionNotFoundError sid)
      | Some m \<Rightarrow>
          (case map_of (rt_adapters rt) (s_Backend (ms_session m)) of
             None \<Rightarrow> Inl (UnsupportedBackend (s_Backend (ms_session m)))
           | Some a \<Rightarrow> Inr (m, a)))"

definition quit :: "Runtime \<Rightarrow> api_result \<Rightarrow> outcome" where
  "quit rt r = (rt, [Return r], [])"

section \<open>The journal\<close>

text \<open>\<open>r.journal.Append\<close>: \<open>None\<close> is success. Listeners of the store are not modelled here.\<close>

definition journal_append :: "env \<Rightarrow> nat \<Rightarrow> Record \<Rightarrow> Runtime \<Rightarrow> store_error option \<times> Runtime" where
  "journal_append en n r rt =
     (case rt_journal rt of
        None \<Rightarrow> (None, rt)
      | Some st \<Rightarrow>
          (case Append (en_io en n) (en_now en n) (en_eventID en n) r st of
             (Inl e, st', _) \<Rightarrow> (Some e, rt\<lparr>rt_journal := Some st'\<rparr>)
           | (Inr _, st', _) \<Rightarrow> (None, rt\<lparr>rt_journal := Some st'\<rparr>)))"

definition appendLifecycle :: "env \<Rightarrow> nat \<Rightarrow> string \<Rightarrow> string \<Rightarrow> json \<Rightarrow> Runtime \<Rightarrow> store_error option \<times> Runtime" where
  "appendLifecycle en n sid name data rt =
     (if rt_journal rt = None \<or> \<not> rt_journalWrites rt then (None, rt)
      else journal_append en n (zero_record\<lparr>r_SessionID := sid, r_Event := name, r_Data := marshal data\<rparr>) rt)"

section \<open>Create and Start\<close>

definition create :: "env \<Rightarrow> nat \<Rightarrow> CreateRequest \<Rightarrow> Runtime \<Rightarrow> outcome" where
  "create en n q rt =
     (let backend = TrimSpace (cr_Backend q); worktree0 = TrimSpace (cr_Worktree q) in
      if backend = [] then quit rt (RState (Inl BackendRequired))
      else if worktree0 = [] then quit rt (RState (Inl WorktreeRequired))
      else let worktree = Clean worktree0 in
      if \<not> en_stat en worktree then quit rt (RState (Inl (WorktreeMissing worktree)))
      else if map_of (rt_adapters rt) backend = None then quit rt (RState (Inl (UnsupportedBackend backend)))
      else (case (if TrimSpace (cr_ID q) = [] then en_newID en n else Some (TrimSpace (cr_ID q))) of
         None \<Rightarrow> quit rt (RState (Inl NewIDFailed))
       | Some sid \<Rightarrow>
           if get_session rt sid \<noteq> None then quit rt (RState (Inl (SessionExistsError sid)))
           else (case Transition (Some (New sid backend worktree (en_now en n))) StatusActive (en_now en n) of
              Inl _ \<Rightarrow> quit rt (RState (Inl BadTransition))
            | Inr created \<Rightarrow>
                (put_session sid (new_managed created no_configuration 0) rt,
                 [Life (ACreateAppend sid backend worktree)], []))))"

definition create_append :: "env \<Rightarrow> nat \<Rightarrow> string \<Rightarrow> Backend \<Rightarrow> string \<Rightarrow> Runtime \<Rightarrow> outcome" where
  "create_append en n sid backend worktree rt =
     (case appendLifecycle en n sid ''session.created''
             (JObj [(''backend'', JStr backend), (''worktree'', JStr worktree)]) rt of
        (Some e, rt1) \<Rightarrow> quit (delete_session sid rt1) (RState (Inl (JournalFailed e)))
      | (None, rt1) \<Rightarrow> (rt1, [Call (AState sid)], []))"

definition start :: "StartSessionRequest \<Rightarrow> Runtime \<Rightarrow> outcome" where
  "start q0 rt =
     (let sid = TrimSpace (ss_SessionID q0) in
      if sid = [] then quit rt (RBackend (Inl SessionIDRequired))
      else case adapterLocked sid rt of
        Inl e \<Rightarrow> quit rt (RBackend (Inl e))
      | Inr (m, _) \<Rightarrow>
          if status_of m = StatusClosed then quit rt (RBackend (Inl (SessionClosedError sid)))
          else let
            q1 = q0\<lparr>ss_SessionID := sid, ss_Backend := s_Backend (ms_session m), ss_Worktree := s_Worktree (ms_session m)\<rparr>;
            previous = ms_configuration m;
            configuration = mergeConfiguration (ms_configuration m) (configurationFromStart q1);
            q2 = fillStartConfiguration q1 configuration;
            initialTurn = (TrimSpace (ss_Prompt q2) \<noteq> [] \<or> ss_Attachments q2 \<noteq> []);
            m1 = m\<lparr>ms_configuration := configuration, ms_dispatching := (initialTurn \<or> ms_dispatching m)\<rparr>
          in (put_session sid m1 rt, [Life (AStartCall sid q2 previous)], []))"

definition start_call :: "nat \<Rightarrow> string \<Rightarrow> StartSessionRequest \<Rightarrow> SessionConfiguration \<Rightarrow> Runtime \<Rightarrow> outcome" where
  "start_call n sid q previous rt =
     (case map_of (rt_adapters rt) (ss_Backend q) of
        None \<Rightarrow> (rt, [], [])
      | Some a \<Rightarrow>
          let (events, res) = ad_StartSession a n sid q in
          (rt, deliver_all sid events @ [Life (AStartDone sid q previous res)], []))"

definition start_done ::
  "string \<Rightarrow> StartSessionRequest \<Rightarrow> SessionConfiguration \<Rightarrow> string + BackendSession \<Rightarrow> Runtime \<Rightarrow> outcome" where
  "start_done sid q previous res rt =
     (case res of
        Inl err \<Rightarrow>
          quit (update_session sid (\<lambda>m. m\<lparr>ms_dispatching := False, ms_configuration := previous\<rparr>) rt)
            (RBackend (Inl (AdapterFailed err)))
      | Inr b \<Rightarrow>
          (update_session sid (\<lambda>m. m\<lparr>ms_session := (ms_session m)\<lparr>s_BackendSession := b\<rparr>\<rparr>) rt,
           [Life (AStartAppend sid q b)], []))"

definition managedConfiguration :: "Runtime \<Rightarrow> string \<Rightarrow> SessionConfiguration" where
  "managedConfiguration rt sid =
     (case get_session rt sid of Some m \<Rightarrow> ms_configuration m | None \<Rightarrow> no_configuration)"

definition start_append :: "env \<Rightarrow> nat \<Rightarrow> string \<Rightarrow> StartSessionRequest \<Rightarrow> BackendSession \<Rightarrow> Runtime \<Rightarrow> outcome" where
  "start_append en n sid q b rt =
     (case appendLifecycle en n sid ''session.started''
             (JObj [(''backend'', JStr (ss_Backend q)), (''backend_session'', enc_backend_session b),
                    (''configuration'', enc_configuration (managedConfiguration rt sid))]) rt of
        (Some e, rt1) \<Rightarrow> quit rt1 (RBackend (Inl (JournalFailed e)))
      | (None, rt1) \<Rightarrow> quit rt1 (RBackend (Inr b)))"

section \<open>Send, submission and the queue\<close>

definition entry_id :: "string \<Rightarrow> nat \<Rightarrow> string" where
  "entry_id sid k = sid @ '':q:'' @ show_nat k"

definition busy :: "managedSession \<Rightarrow> bool" where
  "busy m \<longleftrightarrow> ms_active m \<or> ms_dispatching m \<or> ms_dispatchBlocked m"

definition enqueue :: "string \<Rightarrow> bool \<Rightarrow> SendTurnRequest \<Rightarrow> managedSession \<Rightarrow> managedSession" where
  "enqueue sid nxt q m =
     (let k = ms_nextQueueSeq m + 1; entry = \<lparr>qe_ID = entry_id sid k, qe_Request = q\<rparr> in
      m\<lparr>ms_nextQueueSeq := k, ms_queue := (if nxt then entry # ms_queue m else ms_queue m @ [entry])\<rparr>)"

definition begin_dispatch :: "managedSession \<Rightarrow> managedSession" where
  "begin_dispatch m = m\<lparr>ms_dispatching := True, ms_active := False, ms_activeTurnID := []\<rparr>"

definition send :: "SendTurnRequest \<Rightarrow> bool \<Rightarrow> Runtime \<Rightarrow> outcome" where
  "send q0 nxt rt =
     (let sid = TrimSpace (tr_SessionID q0) in
      if sid = [] then quit rt (RSend (Inl SessionIDRequired))
      else if TrimSpace (tr_Prompt q0) = [] \<and> tr_Attachments q0 = [] then quit rt (RSend (Inl PromptRequired))
      else case adapterLocked sid rt of
        Inl e \<Rightarrow> quit rt (RSend (Inl e))
      | Inr (m, a) \<Rightarrow>
          if status_of m = StatusClosed then quit rt (RSend (Inl (SessionClosedError sid)))
          else let q = fillTurnConfiguration (q0\<lparr>tr_SessionID := sid\<rparr>) (ms_configuration m) in
          if busy m then
            (if rt_maxQueuedTurns rt \<le> length (ms_queue m)
             then quit rt (RSend (Inl (QueueFullError sid (length (ms_queue m)) (rt_maxQueuedTurns rt))))
             else let m1 = enqueue sid nxt q m in
               (put_session sid m1 rt,
                [Turn (AEmitQueue sid),
                 Return (RSend (Inr \<lparr>sr_Session = no_backend_session, sr_Accepted = True, sr_Queued = True,
                   sr_QueueEntryID = entry_id sid (ms_nextQueueSeq m1), sr_QueueDepth = length (ms_queue m1)\<rparr>))], []))
          else
            (put_session sid (begin_dispatch m) rt,
             [Turn (ASubmit (s_Backend (ms_session m))
                \<lparr>dt_SessionID = sid, dt_QueueEntryID = [], dt_Request = q, dt_Queued = False\<rparr>)], []))"

definition submit :: "Backend \<Rightarrow> TurnDispatch \<Rightarrow> Runtime \<Rightarrow> outcome" where
  "submit backend d rt =
     (case rt_turnDispatched rt of
        None \<Rightarrow> (rt, [Turn (ASubmitCall backend d)], [])
      | Some f \<Rightarrow>
          let rt1 = rt\<lparr>rt_announced := rt_announced rt @ [d]\<rparr> in
          (case f d of
             Some err \<Rightarrow> (rt1, [Turn (AFailSubmission (dt_SessionID d) (dt_QueueEntryID d) err), Turn (ASubmitEnd d (Inl err))], [])
           | None \<Rightarrow> (rt1, [Turn (ASubmitCall backend d)], [])))"

definition submit_call :: "nat \<Rightarrow> Backend \<Rightarrow> TurnDispatch \<Rightarrow> Runtime \<Rightarrow> outcome" where
  "submit_call n backend d rt =
     (let sid = dt_SessionID d;
          versions = (case get_session rt sid of Some m \<Rightarrow> ms_configurationEvent m | None \<Rightarrow> no_versions) in
      case map_of (rt_adapters rt) backend of
        None \<Rightarrow> (rt, [], [])
      | Some a \<Rightarrow>
          let (events, res) = ad_SendTurn a n sid (dt_Request d) in
          (rt, deliver_all sid events @ [Turn (ASubmitDone d versions res)], []))"

definition submit_done ::
  "TurnDispatch \<Rightarrow> configurationEventVersions \<Rightarrow> string + BackendSession \<Rightarrow> Runtime \<Rightarrow> outcome" where
  "submit_done d versions res rt =
     (let sid = dt_SessionID d in
      case res of
        Inl err \<Rightarrow> (rt, [Turn (AFailSubmission sid (dt_QueueEntryID d) err), Turn (ASubmitEnd d (Inl err))], [])
      | Inr b \<Rightarrow>
          (update_session sid (\<lambda>m. mergeUnreportedConfiguration (configurationFromTurn (dt_Request d)) versions
              (m\<lparr>ms_session := (ms_session m)\<lparr>s_BackendSession := b\<rparr>\<rparr>)) rt,
           [Turn (ANotifySubmitted d b), Turn (ASubmitEnd d (Inr b))], []))"

definition notify_submitted :: "TurnDispatch \<Rightarrow> BackendSession \<Rightarrow> Runtime \<Rightarrow> outcome" where
  "notify_submitted d b rt =
     (if rt_turnSubmitted rt
      then (rt\<lparr>rt_submitted := rt_submitted rt @ [\<lparr>sb_Dispatch = d, sb_Session = b\<rparr>]\<rparr>, [], [])
      else (rt, [], []))"

text \<open>What follows \<open>submitTurn\<close> in its two callers, \<open>send\<close> and \<open>dispatchQueued\<close>.\<close>

definition submit_end :: "TurnDispatch \<Rightarrow> string + BackendSession \<Rightarrow> Runtime \<Rightarrow> outcome" where
  "submit_end d res rt =
     (if dt_Queued d
      then (case res of Inl _ \<Rightarrow> (rt, [Turn (ADispatchQueued (dt_SessionID d))], []) | Inr _ \<Rightarrow> (rt, [], []))
      else (case res of
          Inl err \<Rightarrow> quit rt (RSend (Inl (AdapterFailed err)))
        | Inr b \<Rightarrow>
            (rt, [Turn (AEmitQueue (dt_SessionID d)),
               Return (RSend (Inr \<lparr>sr_Session = b, sr_Accepted = True, sr_Queued = False,
                 sr_QueueEntryID = [], sr_QueueDepth = 0\<rparr>))], [])))"

definition failed_turn :: "time \<Rightarrow> managedSession \<Rightarrow> managedSession" where
  "failed_turn now m =
     (let m1 = m\<lparr>ms_dispatching := False, ms_active := False, ms_activeTurnID := []\<rparr> in
      if status_of m1 = StatusRunning then set_status StatusActive now m1 else m1)"

definition failSubmission :: "time \<Rightarrow> string \<Rightarrow> string \<Rightarrow> string \<Rightarrow> Runtime \<Rightarrow> outcome" where
  "failSubmission now sid qid err rt =
     (update_session sid (failed_turn now) rt,
      [Turn (ADeliver sid ((new_event EventTurnFailed)\<lparr>ev_Message := err,
         ev_Data := [(''queue_entry_id'', JStr qid), (''submission_failed'', JBool True)]\<rparr>))], [])"

definition dispatchable :: "managedSession \<Rightarrow> bool" where
  "dispatchable m \<longleftrightarrow> \<not> busy m \<and> ms_queue m \<noteq> [] \<and> status_of m \<noteq> StatusClosed"

definition take_next :: "managedSession \<Rightarrow> managedSession" where
  "take_next m =
     begin_dispatch (m\<lparr>ms_queue := tl (ms_queue m), ms_retired := ms_retired m @ [Dispatched (qe_ID (hd (ms_queue m)))]\<rparr>)"

definition dispatchQueued :: "string \<Rightarrow> Runtime \<Rightarrow> outcome" where
  "dispatchQueued sid rt =
     (case adapterLocked sid rt of
        Inl _ \<Rightarrow> (rt, [], [])
      | Inr (m, _) \<Rightarrow>
          if \<not> dispatchable m then (rt, [], [])
          else let entry = hd (ms_queue m) in
            (put_session sid (take_next m) rt,
             [Turn (AEmitQueue sid),
              Turn (ASubmit (s_Backend (ms_session m))
                \<lparr>dt_SessionID = sid, dt_QueueEntryID = qe_ID entry, dt_Request = qe_Request entry, dt_Queued = True\<rparr>)], []))"

definition emitQueue :: "string \<Rightarrow> Runtime \<Rightarrow> outcome" where
  "emitQueue sid rt =
     (case get_session rt sid of
        None \<Rightarrow> (rt, [], [])
      | Some m \<Rightarrow>
          let view = queue_view m in
          if ms_lastQueue m = Some view then (rt, [], [])
          else
            (put_session sid (m\<lparr>ms_lastQueue := Some view\<rparr>) rt,
             [Turn (ADeliver sid ((new_event EventQueueUpdated)\<lparr>ev_SessionID := sid, ev_Backend := s_Backend (ms_session m),
                ev_Data := [(''active'', JBool (qv_active view)), (''active_turn_id'', JStr (qv_activeTurnID view)),
                  (''dispatch_blocked'', JBool (qv_dispatchBlocked view)), (''max_depth'', JNum (int (rt_maxQueuedTurns rt))),
                  (''queue_depth'', JNum (int (qv_depth view)))]\<rparr>))], []))"

end
