(* ===== verification/Runtime_Events.thy ===== *)
theory Runtime_Events
  imports Runtime_Core
begin

text \<open>
  Event delivery, from \<open>src/runtime/runtime.go\<close>: \<open>deliver\<close> completes an event and
  passes it to the session's coalescer, \<open>deliverNow\<close> applies it to the session's state,
  suppresses replays, journals and emits it, and starts the next queued turn.
\<close>

section \<open>deliver\<close>

definition default_to :: "string \<Rightarrow> string \<Rightarrow> string" where
  "default_to v d = (if v = [] then d else v)"

text \<open>The turn an event without a turn identifier belongs to.\<close>

definition current_turn :: "managedSession \<Rightarrow> string" where
  "current_turn m =
     (if ms_activeTurnID m \<noteq> [] then ms_activeTurnID m
      else if \<not> ms_active m \<and> \<not> ms_dispatching m then bs_TurnID (s_BackendSession (ms_session m))
      else [])"

definition complete_event :: "string \<Rightarrow> string \<Rightarrow> managedSession \<Rightarrow> Event \<Rightarrow> Event" where
  "complete_event stamp sid m e =
     e\<lparr>ev_SessionID := default_to (ev_SessionID e) sid,
       ev_Backend := default_to (ev_Backend e) (s_Backend (ms_session m)),
       ev_BackendSessionID := default_to (ev_BackendSessionID e) (bs_ID (s_BackendSession (ms_session m))),
       ev_BackendThreadID := default_to (ev_BackendThreadID e) (bs_ThreadID (s_BackendSession (ms_session m))),
       ev_BackendTurnID := (if ev_Type e = EventTurnStarted then ev_BackendTurnID e
                            else default_to (ev_BackendTurnID e) (current_turn m)),
       ev_Time := default_to (ev_Time e) stamp,
       ev_Seq := (if ev_Seq e = 0 then ms_nextSeq m + 1 else ev_Seq e)\<rparr>"

definition take_seq :: "Event \<Rightarrow> managedSession \<Rightarrow> managedSession" where
  "take_seq e m = (if ev_Seq e = 0 then m\<lparr>ms_nextSeq := ms_nextSeq m + 1\<rparr> else m)"

definition source_event :: "Event \<Rightarrow> Event" where
  "source_event e =
     (if ev_SourceEventID e = [] then e\<lparr>ev_SourceEventID := ev_SessionID e @ '':'' @ show_int (ev_Seq e)\<rparr> else e)"

definition ensure_coalescer :: "managedSession \<Rightarrow> managedSession" where
  "ensure_coalescer m =
     (case ms_coalescer m of None \<Rightarrow> m\<lparr>ms_coalescer := Some newDeltaCoalescer\<rparr> | Some _ \<Rightarrow> m)"

definition deliver :: "string \<Rightarrow> string \<Rightarrow> Event \<Rightarrow> Runtime \<Rightarrow> outcome" where
  "deliver stamp sid e0 rt =
     (case get_session rt sid of
        None \<Rightarrow> (rt, [], [])
      | Some m \<Rightarrow>
          let e1 = complete_event stamp sid m e0;
              m1 = reconcileConfiguration e1 (take_seq e0 m);
              e2 = source_event e1
          in if \<not> rt_coalesceEvents rt
             then (put_session sid m1 rt, [Turn (ADeliverNow sid e2)], [])
             else (put_session sid (ensure_coalescer m1) rt,
                   [if ev_Type e2 = EventQueueUpdated \<or> ev_Type e2 = EventTraceUpdated
                    then Turn (ADeliverNow sid e2) else Turn (AHandle sid e2)], []))"

section \<open>The coalescer of a session\<close>

definition deliver_now_all :: "string \<Rightarrow> Event list \<Rightarrow> thread" where
  "deliver_now_all sid events = map (\<lambda>e. Turn (ADeliverNow sid e)) events"

text \<open>Run an operation of the session's coalescer and deliver the events it hands on.\<close>

definition coalesce :: "string \<Rightarrow> (deltaCoalescer \<Rightarrow> Event list \<times> deltaCoalescer) \<Rightarrow> Runtime \<Rightarrow> outcome" where
  "coalesce sid f rt =
     (case get_session rt sid of
        None \<Rightarrow> (rt, [], [])
      | Some m \<Rightarrow>
          (case ms_coalescer m of
             None \<Rightarrow> (rt, [], [])
           | Some c \<Rightarrow>
               let (events, c') = f c in
               (put_session sid (m\<lparr>ms_coalescer := Some c'\<rparr>) rt, deliver_now_all sid events, [])))"

section \<open>deliverNow\<close>

definition terminal_type :: "EventType \<Rightarrow> bool" where
  "terminal_type ty \<longleftrightarrow> ty = EventTurnComplete \<or> ty = EventTurnFailed \<or> ty = EventProcessExited"

definition terminalMatches :: "Event \<Rightarrow> managedSession \<Rightarrow> bool" where
  "terminalMatches e m \<longleftrightarrow>
     ev_Type e = EventProcessExited \<or> ev_BackendTurnID e = [] \<or> ms_activeTurnID m = []
     \<or> ev_BackendTurnID e = ms_activeTurnID m"

definition turn_started :: "time \<Rightarrow> Event \<Rightarrow> managedSession \<Rightarrow> managedSession" where
  "turn_started now e m =
     (let m1 = m\<lparr>ms_dispatching := False, ms_active := True, ms_activeTurnID := ev_BackendTurnID e\<rparr> in
      if status_of m1 = StatusActive then set_status StatusRunning now m1 else m1)"

definition interaction_requested :: "time \<Rightarrow> Event \<Rightarrow> managedSession \<Rightarrow> managedSession" where
  "interaction_requested now e m =
     (let m1 = m\<lparr>ms_pendingInteraction := ev_Interaction e\<rparr> in
      if status_of m1 = StatusRunning then set_status StatusWaitingInput now m1 else m1)"

definition interaction_resolved :: "Event \<Rightarrow> managedSession \<Rightarrow> managedSession" where
  "interaction_resolved e m =
     (case (ev_InteractionResponse e, ms_pendingInteraction m) of
        (Some a, Some q) \<Rightarrow> if rs_RequestID a = ir_ID q then m\<lparr>ms_pendingInteraction := None\<rparr> else m
      | _ \<Rightarrow> m\<lparr>ms_pendingInteraction := None\<rparr>)"

definition turn_ended :: "time \<Rightarrow> managedSession \<Rightarrow> managedSession" where
  "turn_ended now m = idle_turn now (m\<lparr>ms_dispatching := False\<rparr>)"

text \<open>
  The switch of \<open>deliverNow\<close>: the session after the event, \<open>queueChanged\<close>, and
  \<open>dispatchNext\<close>.
\<close>

definition apply_event :: "time \<Rightarrow> Event \<Rightarrow> managedSession \<Rightarrow> managedSession \<times> bool \<times> bool" where
  "apply_event now e m =
     (case ev_Type e of
        EventTurnStarted \<Rightarrow> if ev_BackendTurnID e \<noteq> [] then (turn_started now e m, True, False) else (m, False, False)
      | EventInteractionRequested \<Rightarrow> (interaction_requested now e m, False, False)
      | EventInteractionResolved \<Rightarrow> (interaction_resolved e m, False, False)
      | _ \<Rightarrow>
          if terminal_type (ev_Type e) \<and> terminalMatches e m
          then let m1 = turn_ended now m in (m1, True, ms_queue m1 \<noteq> [] \<and> \<not> ms_dispatchBlocked m1)
          else (m, False, False))"

definition suppressReplayActivity :: "EventType \<Rightarrow> bool" where
  "suppressReplayActivity ty \<longleftrightarrow> ty = EventThinking \<or> ty = EventToolStarted \<or> ty = EventToolOutput"

definition replay_record :: "Record \<Rightarrow> ReplayMatcher \<Rightarrow> bool \<times> ReplayMatcher" where
  "replay_record r x =
     (let (matched, x1) = Match r x; suppress = (matched \<or> MatchesCompletedTurn r x1) in
      (suppress, if suppress then x1 else matcher_append r x1))"

definition suppress_replay :: "Event \<Rightarrow> managedSession \<Rightarrow> bool \<times> managedSession" where
  "suppress_replay e m =
     (case ms_replay m of
        None \<Rightarrow> (False, m)
      | Some x0 \<Rightarrow>
          if \<not> local_flag e EventLocalReplay then (False, m)
          else let x = (if local_flag e EventLocalReplayStart then Reset x0 else x0) in
            (case Translate e of
               Some r \<Rightarrow> (let (s, x1) = replay_record r x in (s, m\<lparr>ms_replay := Some x1\<rparr>))
             | None \<Rightarrow> (suppressReplayActivity (ev_Type e), m\<lparr>ms_replay := Some x\<rparr>)))"

definition deliverNow :: "time \<Rightarrow> string \<Rightarrow> Event \<Rightarrow> Runtime \<Rightarrow> outcome" where
  "deliverNow now sid e rt =
     (case get_session rt sid of
        None \<Rightarrow> (rt, [], [])
      | Some m \<Rightarrow>
          let (m1, queueChanged, dispatchNext) = apply_event now e m;
              (suppress, m2) = suppress_replay e m1;
              rt1 = put_session sid m2 rt
          in if suppress then (rt1, [], [])
             else (rt1,
                   [Turn (APersist e)]
                   @ (if dispatchNext then [Turn (AGoDispatch sid)] else [])
                   @ (if queueChanged then [Turn (AEmitQueue sid)] else []), []))"

text \<open>The journal append of \<open>deliverNow\<close>, then the event sink.\<close>

definition persist_event :: "env \<Rightarrow> nat \<Rightarrow> Event \<Rightarrow> Runtime \<Rightarrow> outcome" where
  "persist_event en n e rt =
     (if rt_journal rt = None \<or> \<not> rt_journalWrites rt then (rt, [Turn (AEmit e)], [])
      else (case Translate e of
          None \<Rightarrow> (rt, [Turn (AEmit e)], [])
        | Some r \<Rightarrow>
            (case journal_append en n r rt of
               (None, rt1) \<Rightarrow> (rt1, [Turn (AEmit e)], [])
             | (Some err, rt1) \<Rightarrow>
                 (rt1, [Turn (AEmit (e\<lparr>ev_Data :=
                    map_put ''persistence_error'' (JStr (en_describe en err)) (map_copy [] (ev_Data e))\<rparr>))], []))))"

definition emit_event :: "Event \<Rightarrow> Runtime \<Rightarrow> outcome" where
  "emit_event e rt = (if rt_emit rt then (rt\<lparr>rt_emitted := rt_emitted rt @ [e]\<rparr>, [], []) else (rt, [], []))"

text \<open>\<open>go r.dispatchQueued(sessionID)\<close>.\<close>

definition go_dispatch :: "string \<Rightarrow> Runtime \<Rightarrow> outcome" where
  "go_dispatch sid rt = (rt, [], [[Turn (ADispatchQueued sid)]])"

section \<open>The sections of turns and events\<close>

fun exec_turn :: "env \<Rightarrow> nat \<Rightarrow> turn_action \<Rightarrow> Runtime \<Rightarrow> outcome" where
  "exec_turn en n (ASubmit b d) rt = submit b d rt"
| "exec_turn en n (ASubmitCall b d) rt = submit_call n b d rt"
| "exec_turn en n (ASubmitDone d v res) rt = submit_done d v res rt"
| "exec_turn en n (AFailSubmission sid qid err) rt = failSubmission (en_now en n) sid qid err rt"
| "exec_turn en n (ANotifySubmitted d b) rt = notify_submitted d b rt"
| "exec_turn en n (ASubmitEnd d res) rt = submit_end d res rt"
| "exec_turn en n (ADispatchQueued sid) rt = dispatchQueued sid rt"
| "exec_turn en n (AEmitQueue sid) rt = emitQueue sid rt"
| "exec_turn en n (ADeliver sid e) rt = deliver (en_stamp en n) sid e rt"
| "exec_turn en n (AHandle sid e) rt = coalesce sid (Handle e) rt"
| "exec_turn en n (ATimer sid) rt = coalesce sid timer_fires rt"
| "exec_turn en n (ADeliverNow sid e) rt = deliverNow (en_now en n) sid e rt"
| "exec_turn en n (APersist e) rt = persist_event en n e rt"
| "exec_turn en n (AEmit e) rt = emit_event e rt"
| "exec_turn en n (AGoDispatch sid) rt = go_dispatch sid rt"

end
