(* ===== verification/Runtime_Methods.thy ===== *)
theory Runtime_Methods
  imports Runtime_Events
begin

text \<open>
  The remaining methods of the runtime (\<open>src/runtime/runtime.go\<close>): interrupts,
  reconciliation, interactions, forks, queue edits, dispatch blocking, restart, close, forget,
  shutdown, state, configuration and restore; and the dispatch of every action to its section.
\<close>

definition unit_error :: "Runtime \<Rightarrow> runtime_error \<Rightarrow> outcome" where
  "unit_error rt e = quit rt (RUnit (Some e))"

definition unit_ok :: action where
  "unit_ok = Return (RUnit None)"

section \<open>Interrupts\<close>

definition discard_queue :: "managedSession \<Rightarrow> managedSession" where
  "discard_queue m =
     m\<lparr>ms_queue := [], ms_retired := ms_retired m @ map (\<lambda>e. Discarded (qe_ID e)) (ms_queue m)\<rparr>"

definition interrupt :: "string \<Rightarrow> Runtime \<Rightarrow> outcome" where
  "interrupt sessionID rt =
     (let sid = TrimSpace sessionID in
      case adapterLocked sid rt of
        Inl e \<Rightarrow> unit_error rt e
      | Inr (m, a) \<Rightarrow>
          (put_session sid (discard_queue m) rt,
           if ms_active m then [Life (AInterruptCall sid (s_Backend (ms_session m)) True)]
           else [Turn (AEmitQueue sid), unit_ok], []))"

definition interruptActive :: "string \<Rightarrow> Runtime \<Rightarrow> outcome" where
  "interruptActive sessionID rt =
     (let sid = TrimSpace sessionID in
      case adapterLocked sid rt of
        Inl e \<Rightarrow> unit_error rt e
      | Inr (m, a) \<Rightarrow>
          if ms_active m then (rt, [Life (AInterruptCall sid (s_Backend (ms_session m)) False)], [])
          else (rt, [unit_ok], []))"

definition interrupt_call :: "nat \<Rightarrow> string \<Rightarrow> Backend \<Rightarrow> bool \<Rightarrow> Runtime \<Rightarrow> outcome" where
  "interrupt_call n sid backend flush rt =
     (let (turnID, b) = (case get_session rt sid of
             None \<Rightarrow> ([], no_backend_session)
           | Some m \<Rightarrow> (ms_activeTurnID m, s_BackendSession (ms_session m))) in
      case map_of (rt_adapters rt) backend of
        None \<Rightarrow> (rt, [], [])
      | Some a \<Rightarrow>
          let (events, err) = ad_Interrupt a n sid in
          (rt, deliver_all sid events @ [Life (AInterruptDone sid backend flush turnID b err)], []))"

definition interrupted_event :: "Backend \<Rightarrow> string \<Rightarrow> BackendSession \<Rightarrow> Event" where
  "interrupted_event backend turnID b =
     (new_event EventTurnFailed)\<lparr>ev_Message := backend @ '' turn interrupted'',
        ev_BackendSessionID := bs_ID b, ev_BackendThreadID := bs_ThreadID b, ev_BackendTurnID := turnID,
        ev_Data := [(''interrupted'', JBool True), (''session_id'', JStr (bs_ID b)),
          (''source'', JStr ''runtime_interrupt_fallback''), (''turn_id'', JStr turnID)]\<rparr>"

definition interrupt_done ::
  "string \<Rightarrow> Backend \<Rightarrow> bool \<Rightarrow> string \<Rightarrow> BackendSession \<Rightarrow> string option \<Rightarrow> Runtime \<Rightarrow> outcome" where
  "interrupt_done sid backend flush turnID b err rt =
     (case err of
        Some e \<Rightarrow> unit_error rt (AdapterFailed e)
      | None \<Rightarrow>
          let needsTerminal = (case get_session rt sid of
                 None \<Rightarrow> False | Some m \<Rightarrow> ms_active m \<and> ms_activeTurnID m = turnID) in
          (rt, (if needsTerminal then [Turn (ADeliver sid (interrupted_event backend turnID b))] else [])
               @ (if flush then [Turn (AEmitQueue sid)] else []) @ [unit_ok], []))"

section \<open>Reconciliation, replay history, interactions, forks\<close>

definition reconcileTurn :: "string \<Rightarrow> Event \<Rightarrow> Runtime \<Rightarrow> outcome" where
  "reconcileTurn sessionID e rt =
     (let sid = TrimSpace sessionID in
      if \<not> terminal_type (ev_Type e) then unit_error rt TerminalEventRequired
      else if get_session rt sid = None then unit_error rt (SessionNotFoundError sid)
      else (rt, [Turn (ADeliver sid e), unit_ok], []))"

definition setReplayHistory :: "string \<Rightarrow> Record list \<Rightarrow> Runtime \<Rightarrow> outcome" where
  "setReplayHistory sessionID records rt =
     (let sid = TrimSpace sessionID in
      case get_session rt sid of
        None \<Rightarrow> unit_error rt (SessionNotFoundError sid)
      | Some m \<Rightarrow> (put_session sid (m\<lparr>ms_replay := Some (NewReplayMatcher records)\<rparr>) rt, [unit_ok], []))"

definition respondInteraction :: "time \<Rightarrow> string \<Rightarrow> InteractionResponse \<Rightarrow> Runtime \<Rightarrow> outcome" where
  "respondInteraction now sessionID response rt =
     (let sid = TrimSpace sessionID in
      if TrimSpace (rs_RequestID response) = [] then unit_error rt InteractionIDRequired
      else case adapterLocked sid rt of
        Inl e \<Rightarrow> unit_error rt e
      | Inr (m, a) \<Rightarrow>
          let pending = (case ms_pendingInteraction m of
                 Some q \<Rightarrow> ir_ID q = rs_RequestID response | None \<Rightarrow> False);
              m1 = (if status_of m = StatusWaitingInput then set_status StatusRunning now m else m)
          in (put_session sid m1 rt,
              [Life (ARespondCall sessionID (s_Backend (ms_session m)) response pending)], []))"

definition answer_adapter :: "nat \<Rightarrow> adapter \<Rightarrow> string \<Rightarrow> InteractionResponse \<Rightarrow> runtime_error option" where
  "answer_adapter n a sessionID response =
     (case ad_RespondInteraction a of
        Some f \<Rightarrow> map_option AdapterFailed (f n sessionID response)
      | None \<Rightarrow>
          (case ad_RespondPermission a of
             Some f \<Rightarrow>
               let allow = (rs_Action response = ''approve'' \<or> rs_Action response = ''allow'') in
               map_option AdapterFailed (f n sessionID (rs_RequestID response) allow (rs_Message response) [])
           | None \<Rightarrow> Some (UnsupportedOperationError (ad_Backend a) ''interaction responses'')))"

definition respond_call :: "nat \<Rightarrow> string \<Rightarrow> Backend \<Rightarrow> InteractionResponse \<Rightarrow> bool \<Rightarrow> Runtime \<Rightarrow> outcome" where
  "respond_call n sessionID backend response pending rt =
     (case map_of (rt_adapters rt) backend of
        None \<Rightarrow> (rt, [], [])
      | Some a \<Rightarrow>
          (case answer_adapter n a sessionID response of
             Some e \<Rightarrow> unit_error rt e
           | None \<Rightarrow>
               if \<not> pending then (rt, [unit_ok], [])
               else (rt, [Life (ARespondResolve (TrimSpace sessionID) response)], [])))"

definition respond_resolve :: "string \<Rightarrow> InteractionResponse \<Rightarrow> Runtime \<Rightarrow> outcome" where
  "respond_resolve sid response rt =
     (let resolved = (case get_session rt sid of
             None \<Rightarrow> True
           | Some m \<Rightarrow> (case ms_pendingInteraction m of
                None \<Rightarrow> True | Some q \<Rightarrow> ir_ID q \<noteq> rs_RequestID response)) in
      (rt, (if resolved then []
            else [Turn (ADeliver sid ((new_event EventInteractionResolved)\<lparr>ev_InteractionResponse := Some response\<rparr>))])
           @ [unit_ok], []))"

definition forkPrompt :: "nat \<Rightarrow> ForkPromptRequest \<Rightarrow> Runtime \<Rightarrow> outcome" where
  "forkPrompt n q rt =
     (let sid = TrimSpace (fp_SessionID q) in
      if sid = [] then quit rt (RFork (Inl SessionIDRequired))
      else case adapterLocked sid rt of
        Inl e \<Rightarrow> quit rt (RFork (Inl e))
      | Inr (m, a) \<Rightarrow>
          (case ad_ForkPrompt a of
             None \<Rightarrow> quit rt (RFork (Inl (UnsupportedOperationError (ad_Backend a) ''session forks'')))
           | Some f \<Rightarrow>
               quit rt (RFork (map_sum AdapterFailed id (f n (q\<lparr>fp_SessionID := sid\<rparr>))))))"

section \<open>The queue of a session\<close>

definition queueEntries :: "Runtime \<Rightarrow> string \<Rightarrow> runtime_error + QueueEntry list" where
  "queueEntries rt sessionID =
     (case get_session rt (TrimSpace sessionID) of
        None \<Rightarrow> Inl (SessionNotFoundError (TrimSpace sessionID))
      | Some m \<Rightarrow> Inr (ms_queue m))"

text \<open>The index of the first entry with an identifier.\<close>

fun find_entry :: "string \<Rightarrow> QueueEntry list \<Rightarrow> nat option" where
  "find_entry qid [] = None"
| "find_entry qid (e # es) = (if qe_ID e = qid then Some 0 else map_option Suc (find_entry qid es))"

definition remove_entry :: "nat \<Rightarrow> managedSession \<Rightarrow> managedSession" where
  "remove_entry i m =
     m\<lparr>ms_queue := take i (ms_queue m) @ drop (i + 1) (ms_queue m),
       ms_retired := ms_retired m @ [Removed (qe_ID (ms_queue m ! i))]\<rparr>"

definition removeQueuedTurn :: "string \<Rightarrow> string \<Rightarrow> Runtime \<Rightarrow> outcome" where
  "removeQueuedTurn sessionID entryID rt =
     (let sid = TrimSpace sessionID; qid = TrimSpace entryID in
      case get_session rt sid of
        None \<Rightarrow> quit rt (RRemove (Inl (SessionNotFoundError sid)))
      | Some m \<Rightarrow>
          (case find_entry qid (ms_queue m) of
             None \<Rightarrow> quit rt (RRemove (Inr \<lparr>rm_Removed = False, rm_Entry = None, rm_QueueDepth = length (ms_queue m)\<rparr>))
           | Some i \<Rightarrow>
               let m1 = remove_entry i m in
               (put_session sid m1 rt,
                [Turn (AEmitQueue sid),
                 Return (RRemove (Inr \<lparr>rm_Removed = True, rm_Entry = Some (ms_queue m ! i),
                   rm_QueueDepth = length (ms_queue m1)\<rparr>))], [])))"

definition replace_entry :: "nat \<Rightarrow> SendTurnRequest \<Rightarrow> managedSession \<Rightarrow> managedSession" where
  "replace_entry i q m = m\<lparr>ms_queue := (ms_queue m)[i := (ms_queue m ! i)\<lparr>qe_Request := q\<rparr>]\<rparr>"

definition replaceQueuedTurn :: "string \<Rightarrow> string \<Rightarrow> SendTurnRequest \<Rightarrow> Runtime \<Rightarrow> outcome" where
  "replaceQueuedTurn sessionID entryID q0 rt =
     (let sid = TrimSpace sessionID; qid = TrimSpace entryID in
      if TrimSpace (tr_Prompt q0) = [] \<and> tr_Attachments q0 = [] then quit rt (REntry (Inl PromptRequired))
      else case get_session rt sid of
        None \<Rightarrow> quit rt (REntry (Inl (SessionNotFoundError sid)))
      | Some m \<Rightarrow>
          (case find_entry qid (ms_queue m) of
             None \<Rightarrow> quit rt (REntry (Inl (QueueEntryNotFoundError sid qid)))
           | Some i \<Rightarrow>
               let q = fillTurnConfiguration (q0\<lparr>tr_SessionID := sid\<rparr>) (ms_configuration m);
                   m1 = replace_entry i q m in
               (put_session sid m1 rt, [Turn (AEmitQueue sid), Return (REntry (Inr (ms_queue m1 ! i)))], [])))"

definition blockDispatch :: "string \<Rightarrow> Runtime \<Rightarrow> outcome" where
  "blockDispatch sessionID rt =
     (let sid = TrimSpace sessionID in
      case get_session rt sid of
        None \<Rightarrow> unit_error rt (SessionNotFoundError sid)
      | Some m \<Rightarrow> (put_session sid (m\<lparr>ms_dispatchBlocked := True\<rparr>) rt, [Turn (AEmitQueue sid), unit_ok], []))"

definition unblockDispatch :: "string \<Rightarrow> Runtime \<Rightarrow> outcome" where
  "unblockDispatch sessionID rt =
     (let sid = TrimSpace sessionID in
      case get_session rt sid of
        None \<Rightarrow> unit_error rt (SessionNotFoundError sid)
      | Some m \<Rightarrow>
          let m1 = m\<lparr>ms_dispatchBlocked := False\<rparr>;
              dispatch = (\<not> ms_active m1 \<and> \<not> ms_dispatching m1 \<and> ms_queue m1 \<noteq> [] \<and> status_of m1 \<noteq> StatusClosed)
          in (put_session sid m1 rt,
              [Turn (AEmitQueue sid)] @ (if dispatch then [Turn (AGoDispatch sid)] else []) @ [unit_ok], []))"

section \<open>Restart\<close>

definition restart :: "string \<Rightarrow> Runtime \<Rightarrow> outcome" where
  "restart sessionID rt =
     (let sid = TrimSpace sessionID in
      case adapterLocked sid rt of
        Inl e \<Rightarrow> quit rt (RBackend (Inl e))
      | Inr (m, a) \<Rightarrow>
          if status_of m = StatusClosed then quit rt (RBackend (Inl (SessionClosedError sid)))
          else if ms_active m \<or> ms_dispatching m
            then quit rt (RBackend (Inl (TurnActiveError sid (ms_activeTurnID m))))
          else if ad_RestartSession a = None
            then quit rt (RBackend (Inl (RestartUnsupportedError (ad_Backend a))))
          else (rt, [Life (ARestartCall sid (s_Backend (ms_session m)))], []))"

definition restart_call :: "nat \<Rightarrow> string \<Rightarrow> Backend \<Rightarrow> Runtime \<Rightarrow> outcome" where
  "restart_call n sid backend rt =
     (case Option.bind (map_of (rt_adapters rt) backend) ad_RestartSession of
        None \<Rightarrow> (rt, [], [])
      | Some f \<Rightarrow>
          let (events, res) = f n sid in
          (rt, deliver_all sid events @ [Life (ARestartDone sid res)], []))"

definition restarted :: "BackendSession \<Rightarrow> managedSession \<Rightarrow> managedSession" where
  "restarted b m =
     m\<lparr>ms_session := (ms_session m)\<lparr>s_BackendSession := b\<rparr>, ms_dispatching := False, ms_activeTurnID := []\<rparr>"

definition restart_done :: "string \<Rightarrow> string + BackendSession \<Rightarrow> Runtime \<Rightarrow> outcome" where
  "restart_done sid res rt =
     (case res of
        Inl err \<Rightarrow> quit rt (RBackend (Inl (AdapterFailed err)))
      | Inr b \<Rightarrow> (update_session sid (restarted b) rt, [Life (ARestartAppend sid b)], []))"

definition restart_append :: "env \<Rightarrow> nat \<Rightarrow> string \<Rightarrow> BackendSession \<Rightarrow> Runtime \<Rightarrow> outcome" where
  "restart_append en n sid b rt =
     (case appendLifecycle en n sid ''session.restarted'' (JObj [(''backend_session'', enc_backend_session b)]) rt of
        (Some e, rt1) \<Rightarrow> quit rt1 (RBackend (Inl (JournalFailed e)))
      | (None, rt1) \<Rightarrow> quit rt1 (RBackend (Inr b)))"

section \<open>Close, Forget and Shutdown\<close>

definition close :: "string \<Rightarrow> Runtime \<Rightarrow> outcome" where
  "close sessionID rt =
     (let sid = TrimSpace sessionID in
      case adapterLocked sid rt of
        Inl e \<Rightarrow> unit_error rt e
      | Inr (m, a) \<Rightarrow>
          if status_of m = StatusClosed then (rt, [unit_ok], [])
          else (rt, [Life (ACloseCoalescer sid), Life (ACloseCall sid (s_Backend (ms_session m)))], []))"

definition close_call :: "nat \<Rightarrow> string \<Rightarrow> Backend \<Rightarrow> Runtime \<Rightarrow> outcome" where
  "close_call n sid backend rt =
     (case map_of (rt_adapters rt) backend of
        None \<Rightarrow> (rt, [], [])
      | Some a \<Rightarrow>
          (case ad_CloseSession a n sid of
             Some err \<Rightarrow> unit_error rt (AdapterFailed err)
           | None \<Rightarrow> (rt, [Life (ACloseDone sid)], [])))"

definition closed_session :: "time \<Rightarrow> managedSession \<Rightarrow> managedSession" where
  "closed_session now m =
     (if status_of m = StatusClosed then m
      else (discard_queue (set_status StatusClosed now m))
             \<lparr>ms_dispatching := False, ms_active := False, ms_activeTurnID := []\<rparr>)"

definition close_done :: "time \<Rightarrow> string \<Rightarrow> Runtime \<Rightarrow> outcome" where
  "close_done now sid rt = (update_session sid (closed_session now) rt, [Life (ACloseAppend sid)], [])"

definition close_append :: "env \<Rightarrow> nat \<Rightarrow> string \<Rightarrow> Runtime \<Rightarrow> outcome" where
  "close_append en n sid rt =
     (case appendLifecycle en n sid ''session.closed'' JNull rt of
        (Some e, rt1) \<Rightarrow> unit_error rt1 (JournalFailed e)
      | (None, rt1) \<Rightarrow> (rt1, [Turn (AEmitQueue sid), unit_ok], []))"

text \<open>The closed coalescer of a forgotten session flushes into a session that is gone.\<close>

definition forget :: "string \<Rightarrow> Runtime \<Rightarrow> outcome" where
  "forget sessionID rt =
     (let sid = TrimSpace sessionID in
      case get_session rt sid of
        None \<Rightarrow> (rt, [unit_ok], [])
      | Some m \<Rightarrow>
          if status_of m \<noteq> StatusClosed then unit_error rt (MustBeClosed sid)
          else (delete_session sid rt,
                (case ms_coalescer m of
                   None \<Rightarrow> [] | Some c \<Rightarrow> deliver_now_all sid (fst (Close_coalescer c))) @ [unit_ok], []))"

text \<open>Go visits the sessions in an unspecified order; the model takes them in key order.\<close>

definition shutdown :: "Runtime \<Rightarrow> outcome" where
  "shutdown rt =
     (let coalescers = map fst (filter (\<lambda>(sid, m). ms_coalescer m \<noteq> None) (rt_sessions rt));
          closings = map (\<lambda>(sid, m). (sid, s_Backend (ms_session m)))
            (filter (\<lambda>(sid, m). status_of m \<noteq> StatusClosed
                \<and> map_of (rt_adapters rt) (s_Backend (ms_session m)) \<noteq> None) (rt_sessions rt))
      in (rt, map (\<lambda>sid. Life (ACloseCoalescer sid)) coalescers @ [Life (AShutdownCall closings [])], []))"

fun shutdown_call :: "nat \<Rightarrow> (string \<times> Backend) list \<Rightarrow> (string \<times> string) list \<Rightarrow> Runtime \<Rightarrow> outcome" where
  "shutdown_call n [] errs rt =
     (if errs = [] then (rt, [unit_ok], []) else unit_error rt (ShutdownFailed errs))"
| "shutdown_call n ((sid, backend) # rest) errs rt =
     (case map_of (rt_adapters rt) backend of
        None \<Rightarrow> (rt, [Life (AShutdownCall rest errs)], [])
      | Some a \<Rightarrow>
          (rt, [Life (AShutdownCall rest
             (case ad_CloseSession a n sid of None \<Rightarrow> errs | Some err \<Rightarrow> errs @ [(sid, err)]))], []))"

section \<open>State and configuration\<close>

definition state :: "Runtime \<Rightarrow> string \<Rightarrow> runtime_error + RuntimeState" where
  "state rt sessionID =
     (case get_session rt (TrimSpace sessionID) of
        None \<Rightarrow> Inl (SessionNotFoundError (TrimSpace sessionID))
      | Some m \<Rightarrow> Inr (stateLocked m))"

definition setConfiguration :: "string \<Rightarrow> SessionConfiguration \<Rightarrow> Runtime \<Rightarrow> outcome" where
  "setConfiguration sessionID c rt =
     (let sid = TrimSpace sessionID in
      case get_session rt sid of
        None \<Rightarrow> unit_error rt (SessionNotFoundError sid)
      | Some m \<Rightarrow> (put_session sid (m\<lparr>ms_configuration := normalizeConfiguration c\<rparr>) rt, [unit_ok], []))"

text \<open>\<open>Sessions\<close>: by creation time, then by identifier.\<close>

definition sessions :: "Runtime \<Rightarrow> RuntimeState list" where
  "sessions rt =
     sort_key (\<lambda>x. s_CreatedAt (sta_Session x))
       (sort_key (\<lambda>x. s_ID (sta_Session x)) (map (\<lambda>(sid, m). stateLocked m) (rt_sessions rt)))"

section \<open>Restore\<close>

definition restore :: "env \<Rightarrow> nat \<Rightarrow> RestoreRequest \<Rightarrow> Runtime \<Rightarrow> outcome" where
  "restore en n q rt =
     (case rt_journal rt of
        None \<Rightarrow> quit rt (RState (Inl JournalRequired))
      | Some st \<Rightarrow>
          let sid = TrimSpace (rq_ID q) in
          (case Read (io_sync (en_io en n)) sid 0 0 st of
             Inl e \<Rightarrow> quit rt (RState (Inl (JournalFailed e)))
           | Inr records \<Rightarrow>
               (case restore_session q sid (en_now en n) records of
                  None \<Rightarrow> quit rt (RState (Inl (NoLifecycle sid)))
                | Some m \<Rightarrow> (rt, [Life (ARestoreInsert sid m)], []))))"

definition restore_insert :: "string \<Rightarrow> managedSession \<Rightarrow> Runtime \<Rightarrow> outcome" where
  "restore_insert sid m rt =
     (if get_session rt sid = None
      then (put_session sid m rt, [Life (AReconcileRecovered sid), Call (AState sid)], [])
      else (rt, [Call (AState sid)], []))"

definition reconcileRecoveredTurn :: "string \<Rightarrow> Runtime \<Rightarrow> outcome" where
  "reconcileRecoveredTurn sid rt =
     (case get_session rt sid of
        None \<Rightarrow> (rt, [], [])
      | Some m \<Rightarrow> (rt, deliver_all sid (recovery_events m), []))"

section \<open>Running an action\<close>

fun exec_call :: "env \<Rightarrow> nat \<Rightarrow> call \<Rightarrow> Runtime \<Rightarrow> outcome" where
  "exec_call en n (ACreate q) rt = create en n q rt"
| "exec_call en n (AStart q) rt = start q rt"
| "exec_call en n (ASend q nxt) rt = send q nxt rt"
| "exec_call en n (AInterrupt sid) rt = interrupt sid rt"
| "exec_call en n (AInterruptActive sid) rt = interruptActive sid rt"
| "exec_call en n (AReconcileTurn sid e) rt = reconcileTurn sid e rt"
| "exec_call en n (ASetReplayHistory sid rs) rt = setReplayHistory sid rs rt"
| "exec_call en n (ARespondInteraction sid a) rt = respondInteraction (en_now en n) sid a rt"
| "exec_call en n (AForkPrompt q) rt = forkPrompt n q rt"
| "exec_call en n (ARemoveQueuedTurn sid qid) rt = removeQueuedTurn sid qid rt"
| "exec_call en n (AReplaceQueuedTurn sid qid q) rt = replaceQueuedTurn sid qid q rt"
| "exec_call en n (ABlockDispatch sid) rt = blockDispatch sid rt"
| "exec_call en n (AUnblockDispatch sid) rt = unblockDispatch sid rt"
| "exec_call en n (ARestart sid) rt = restart sid rt"
| "exec_call en n (AClose sid) rt = close sid rt"
| "exec_call en n (AForget sid) rt = forget sid rt"
| "exec_call en n AShutdown rt = shutdown rt"
| "exec_call en n (AState sid) rt = quit rt (RState (state rt sid))"
| "exec_call en n (ASetConfiguration sid c) rt = setConfiguration sid c rt"
| "exec_call en n (ARestore q) rt = restore en n q rt"

fun exec_life :: "env \<Rightarrow> nat \<Rightarrow> life_action \<Rightarrow> Runtime \<Rightarrow> outcome" where
  "exec_life en n (ACreateAppend sid b w) rt = create_append en n sid b w rt"
| "exec_life en n (AStartCall sid q c) rt = start_call n sid q c rt"
| "exec_life en n (AStartDone sid q c res) rt = start_done sid q c res rt"
| "exec_life en n (AStartAppend sid q b) rt = start_append en n sid q b rt"
| "exec_life en n (AInterruptCall sid b f) rt = interrupt_call n sid b f rt"
| "exec_life en n (AInterruptDone sid b f t s err) rt = interrupt_done sid b f t s err rt"
| "exec_life en n (ARespondCall sid b a p) rt = respond_call n sid b a p rt"
| "exec_life en n (ARespondResolve sid a) rt = respond_resolve sid a rt"
| "exec_life en n (ARestartCall sid b) rt = restart_call n sid b rt"
| "exec_life en n (ARestartDone sid res) rt = restart_done sid res rt"
| "exec_life en n (ARestartAppend sid b) rt = restart_append en n sid b rt"
| "exec_life en n (ACloseCoalescer sid) rt = coalesce sid Close_coalescer rt"
| "exec_life en n (ACloseCall sid b) rt = close_call n sid b rt"
| "exec_life en n (ACloseDone sid) rt = close_done (en_now en n) sid rt"
| "exec_life en n (ACloseAppend sid) rt = close_append en n sid rt"
| "exec_life en n (AShutdownCall cs errs) rt = shutdown_call n cs errs rt"
| "exec_life en n (ARestoreInsert sid m) rt = restore_insert sid m rt"
| "exec_life en n (AReconcileRecovered sid) rt = reconcileRecoveredTurn sid rt"

fun exec_action :: "env \<Rightarrow> nat \<Rightarrow> action \<Rightarrow> Runtime \<Rightarrow> outcome" where
  "exec_action en n (Call c) rt = exec_call en n c rt"
| "exec_action en n (Turn t) rt = exec_turn en n t rt"
| "exec_action en n (Life l) rt = exec_life en n l rt"
| "exec_action en n (Return r) rt = (rt\<lparr>rt_returned := rt_returned rt @ [r]\<rparr>, [], [])"

text \<open>One step: run the action at the current tick, then advance the tick.\<close>

definition exec :: "env \<Rightarrow> action \<Rightarrow> Runtime \<Rightarrow> outcome" where
  "exec en a rt =
     (let (rt1, acts, spawned) = exec_action en (rt_tick rt) a rt
      in (rt1\<lparr>rt_tick := rt_tick rt + 1\<rparr>, acts, spawned))"

end
