(* ===== verification/Runtime_Machine.thy ===== *)
theory Runtime_Machine
  imports Runtime_Methods
begin

text \<open>
  The concurrent runtime: a pool of goroutines, each a list of actions, of which any may run its
  next action. New goroutines come from \<open>go\<close> statements, from callers of the methods, from
  adapters that emit an event at any moment, and from coalescer timers. The journal store is shared
  with its other holders, who may append to it or close it at any moment. The locale
  \<open>session_contract\<close> says what a property of managed sessions must satisfy to hold in
  every reachable state; its conditions are about the state updates of single sections.
\<close>

section \<open>The step relation\<close>

record machine =
  mc_rt :: Runtime
  mc_threads :: "thread list"

inductive step :: "env \<Rightarrow> machine \<Rightarrow> machine \<Rightarrow> bool" for en where
  run: "i < length (mc_threads s) \<Longrightarrow> mc_threads s ! i = a # acts \<Longrightarrow>
        exec en a (mc_rt s) = (rt', new, spawned) \<Longrightarrow>
        step en s \<lparr>mc_rt = rt', mc_threads = (mc_threads s)[i := new @ acts] @ spawned\<rparr>"
| host_call: "step en s (s\<lparr>mc_threads := mc_threads s @ [[Call c]]\<rparr>)"
| adapter_event: "step en s (s\<lparr>mc_threads := mc_threads s @ [[Turn (ADeliver sid e)]]\<rparr>)"
| timer: "step en s (s\<lparr>mc_threads := mc_threads s @ [[Turn (ATimer sid)]]\<rparr>)"
| shared_store: "rt_journal (mc_rt s) = Some st \<Longrightarrow> step en s (s\<lparr>mc_rt := (mc_rt s)\<lparr>rt_journal := Some st'\<rparr>\<rparr>)"

inductive_cases stepE: "step en s s'"

definition reachable :: "env \<Rightarrow> Config \<Rightarrow> adapter option list \<Rightarrow> machine \<Rightarrow> bool" where
  "reachable en c as s \<longleftrightarrow>
     (step en)\<^sup>*\<^sup>* \<lparr>mc_rt = New_runtime c as, mc_threads = []\<rparr> s"

section \<open>What a session property may depend on\<close>

definition core :: "managedSession \<Rightarrow> (string \<times> Status) \<times> QueueEntry list \<times> bool \<times> bool \<times> string \<times> bool \<times> nat \<times> fate list" where
  "core m = ((s_ID (ms_session m), status_of m), ms_queue m, ms_dispatching m, ms_active m, ms_activeTurnID m,
     ms_dispatchBlocked m, ms_nextQueueSeq m, ms_retired m)"

lemma core_turn_part: "turn_part m' = turn_part m \<Longrightarrow> core m' = core m"
  by (simp add: turn_part_def core_def)

lemma core_updates [simp]:
  "core (m\<lparr>ms_configuration := c\<rparr>) = core m"
  "core (m\<lparr>ms_configurationEvent := v\<rparr>) = core m"
  "core (m\<lparr>ms_replay := x\<rparr>) = core m"
  "core (m\<lparr>ms_coalescer := y\<rparr>) = core m"
  "core (m\<lparr>ms_lastQueue := z\<rparr>) = core m"
  "core (m\<lparr>ms_nextSeq := k\<rparr>) = core m"
  "core (m\<lparr>ms_pendingInteraction := q\<rparr>) = core m"
  "core (m\<lparr>ms_session := (ms_session m)\<lparr>s_BackendSession := b\<rparr>\<rparr>) = core m"
  by (simp_all add: core_def)

lemma core_functions [simp]:
  "core (reconcileConfiguration e m) = core m"
  "core (mergeUnreportedConfiguration u v m) = core m"
  "core (take_seq e m) = core m"
  "core (ensure_coalescer m) = core m"
  "core (snd (suppress_replay e m)) = core m"
  "core (interaction_resolved e m) = core m"
  by (rule core_turn_part, simp)
    (auto intro: core_turn_part simp: take_seq_def ensure_coalescer_def suppress_replay_def
      interaction_resolved_def Let_def split: option.splits prod.splits)

text \<open>
  Changes of the status alone, as the sections make them: from running or waiting to another
  status that is not closed, or from active to running.
\<close>

definition with_status :: "Status \<Rightarrow> managedSession \<Rightarrow> managedSession" where
  "with_status st m = m\<lparr>ms_session := (ms_session m)\<lparr>s_Status := st\<rparr>\<rparr>"

lemma core_set_status:
  "core (set_status st now m) = core m \<or> core (set_status st now m) = core (with_status st m)"
  by (simp add: core_def set_status_def with_status_def transition_to_eq)

section \<open>The contract of a session property\<close>

text \<open>The session an action is about to insert.\<close>

fun restoring :: "action \<Rightarrow> (string \<times> managedSession) option" where
  "restoring (Life (ARestoreInsert sid m)) = Some (sid, m)"
| "restoring _ = None"

lemma restoring_deliver [simp]:
  "x \<in> set (deliver_all sid es) \<Longrightarrow> restoring x = None"
  "x \<in> set (deliver_now_all sid es) \<Longrightarrow> restoring x = None"
  by (auto simp: deliver_all_def deliver_now_all_def)

locale session_contract =
  fixes P :: "nat \<Rightarrow> string \<Rightarrow> managedSession \<Rightarrow> bool"
  assumes same: "core m' = core m \<Longrightarrow> P k sid m \<Longrightarrow> P k sid m'"
    and status: "P k sid m \<Longrightarrow> st \<noteq> StatusClosed \<Longrightarrow> status_of m \<noteq> StatusClosed \<Longrightarrow> P k sid (with_status st m)"
    and created: "s_ID s = sid \<Longrightarrow> P k sid (new_managed s c n)"
    and restored: "restore_session rq sid now rs = Some m \<Longrightarrow> P k sid m"
    and dispatching: "P k sid m \<Longrightarrow> P k sid (m\<lparr>ms_dispatching := b\<rparr>)"
    and blocked: "P k sid m \<Longrightarrow> P k sid (m\<lparr>ms_dispatchBlocked := b\<rparr>)"
    and started: "P k sid m \<Longrightarrow> t \<noteq> [] \<Longrightarrow>
        P k sid (m\<lparr>ms_dispatching := False, ms_active := True, ms_activeTurnID := t\<rparr>)"
    and ended: "P k sid m \<Longrightarrow> P k sid (m\<lparr>ms_dispatching := b, ms_active := False, ms_activeTurnID := []\<rparr>)"
    and restarting: "P k sid m \<Longrightarrow> P k sid (m\<lparr>ms_dispatching := False, ms_activeTurnID := []\<rparr>)"
    and enqueued: "P k sid m \<Longrightarrow> length (ms_queue m) < k \<Longrightarrow> status_of m \<noteq> StatusClosed \<Longrightarrow>
        P k sid (enqueue sid nxt q m)"
    and taken: "P k sid m \<Longrightarrow> dispatchable m \<Longrightarrow> P k sid (take_next m)"
    and discarded: "P k sid m \<Longrightarrow> P k sid (discard_queue m)"
    and closed: "P k sid m \<Longrightarrow> ms_queue m = [] \<Longrightarrow> P k sid (with_status StatusClosed m)"
    and removed: "P k sid m \<Longrightarrow> i < length (ms_queue m) \<Longrightarrow> P k sid (remove_entry i m)"
    and replaced: "P k sid m \<Longrightarrow> i < length (ms_queue m) \<Longrightarrow> P k sid (replace_entry i q m)"
begin

text \<open>The property holds of every session of a runtime, and of every session about to be restored.\<close>

definition holds :: "Runtime \<Rightarrow> bool" where
  "holds rt \<longleftrightarrow> (\<forall>sid m. get_session rt sid = Some m \<longrightarrow> P (rt_maxQueuedTurns rt) sid m)"

definition action_ok :: "nat \<Rightarrow> action \<Rightarrow> bool" where
  "action_ok k a \<longleftrightarrow> (case restoring a of Some (sid, m) \<Rightarrow> P k sid m | None \<Rightarrow> True)"

definition outcome_ok :: "nat \<Rightarrow> outcome \<Rightarrow> bool" where
  "outcome_ok k out \<longleftrightarrow>
     holds (fst out) \<and> rt_maxQueuedTurns (fst out) = k
     \<and> (\<forall>a \<in> set (fst (snd out)). action_ok k a) \<and> (\<forall>t \<in> set (snd (snd out)). \<forall>a \<in> set t. action_ok k a)"

lemma holds_get: "holds rt \<Longrightarrow> get_session rt sid = Some m \<Longrightarrow> P (rt_maxQueuedTurns rt) sid m"
  by (simp add: holds_def)

lemma holds_put: "holds rt \<Longrightarrow> P (rt_maxQueuedTurns rt) sid m \<Longrightarrow> holds (put_session sid m rt)"
  by (simp add: holds_def put_session_def get_session_def)

lemma holds_delete: "holds rt \<Longrightarrow> holds (delete_session sid rt)"
  by (simp add: holds_def delete_session_def get_session_def)

lemma holds_update:
  "holds rt \<Longrightarrow> (\<And>m. P (rt_maxQueuedTurns rt) sid m \<Longrightarrow> P (rt_maxQueuedTurns rt) sid (f m)) \<Longrightarrow>
     holds (update_session sid f rt)"
  by (auto simp: update_session_def holds_put holds_get split: option.splits)

lemma set_status_ok:
  assumes "P k sid m" and "st \<noteq> StatusClosed"
  shows "P k sid (set_status st now m)"
proof (cases "status_of m = StatusClosed")
  case True
  then have "core (set_status st now m) = core m" by (simp add: core_def set_status_def)
  with assms(1) show ?thesis using same by blast
next
  case False
  then show ?thesis using core_set_status [of st now m] assms status same by metis
qed

lemma apply_event_ok:
  assumes "P k sid m"
  shows "P k sid (fst (apply_event now e m))"
proof -
  have started': "P k sid (turn_started now e m)" if "ev_BackendTurnID e \<noteq> []"
    using started [OF assms that] by (simp add: turn_started_def Let_def set_status_ok)
  have requested: "P k sid (interaction_requested now e m)"
    using same [OF core_updates(7) assms] by (simp add: interaction_requested_def Let_def set_status_ok)
  have resolved: "P k sid (interaction_resolved e m)"
    by (rule same [OF core_functions(6) assms])
  have ended': "P k sid (turn_ended now m)"
  proof -
    have "core (m\<lparr>ms_dispatching := False, ms_active := False, ms_activeTurnID := [], ms_pendingInteraction := None\<rparr>)
        = core (m\<lparr>ms_dispatching := False, ms_active := False, ms_activeTurnID := []\<rparr>)"
      by (simp add: core_def)
    from same [OF this ended [OF assms]] show ?thesis
      by (simp add: turn_ended_def idle_turn_def Let_def set_status_ok)
  qed
  show ?thesis
    using assms started' requested resolved ended'
    by (simp add: apply_event_def Let_def terminal_type_def split: EventType.splits)
qed

lemma failed_turn_ok: "P k sid m \<Longrightarrow> P k sid (failed_turn now m)"
  using ended [of k sid m False] by (simp add: failed_turn_def Let_def set_status_ok)

lemma begin_dispatch_ok: "P k sid m \<Longrightarrow> P k sid (begin_dispatch m)"
  using ended [of k sid m True] by (simp add: begin_dispatch_def)

lemma closed_session_ok:
  assumes "P k sid m"
  shows "P k sid (closed_session now m)"
proof -
  let ?d = "(discard_queue m)\<lparr>ms_dispatching := False, ms_active := False, ms_activeTurnID := []\<rparr>"
  have "P k sid (with_status StatusClosed ?d)"
    by (rule closed [OF ended [OF discarded [OF assms]]]) (simp add: discard_queue_def)
  moreover have "core (closed_session now m) = core (with_status StatusClosed ?d)"
    if "status_of m \<noteq> StatusClosed"
    using can_close [OF that] that
    by (simp add: closed_session_def core_def with_status_def discard_queue_def set_status_def transition_to_eq)
  ultimately show ?thesis
    using same assms by (cases "status_of m = StatusClosed") (auto simp: closed_session_def)
qed

lemma backend_session_ok:
  "P k sid m \<Longrightarrow> P k sid (m\<lparr>ms_session := (ms_session m)\<lparr>s_BackendSession := b\<rparr>\<rparr>)"
  by (rule same [OF core_updates(8)])

lemma restarted_ok: "P k sid m \<Longrightarrow> P k sid (restarted b m)"
  using restarting [OF backend_session_ok, of k sid m b] by (simp add: restarted_def)

lemma find_entry_bound: "find_entry qid es = Some i \<Longrightarrow> i < length es"
  by (induction es arbitrary: i) (auto split: if_splits)

section \<open>Every section keeps the property\<close>

lemma holds_fields [simp]:
  "holds (rt\<lparr>rt_journal := j\<rparr>) = holds rt" "holds (rt\<lparr>rt_emitted := es\<rparr>) = holds rt"
  "holds (rt\<lparr>rt_announced := ds\<rparr>) = holds rt" "holds (rt\<lparr>rt_submitted := ss\<rparr>) = holds rt"
  "holds (rt\<lparr>rt_returned := rs\<rparr>) = holds rt" "holds (rt\<lparr>rt_tick := n\<rparr>) = holds rt"
  by (simp_all add: holds_def get_session_def)

lemma max_put [simp]:
  "rt_maxQueuedTurns (put_session sid m rt) = rt_maxQueuedTurns rt"
  "rt_maxQueuedTurns (update_session sid f rt) = rt_maxQueuedTurns rt"
  "rt_maxQueuedTurns (delete_session sid rt) = rt_maxQueuedTurns rt"
  by (simp_all add: put_session_def update_session_def delete_session_def split: option.splits)

lemma outcome_okI [intro!]:
  "holds rt' \<Longrightarrow> rt_maxQueuedTurns rt' = k \<Longrightarrow> list_all (action_ok k) acts \<Longrightarrow>
     list_all (list_all (action_ok k)) spawned \<Longrightarrow> outcome_ok k (rt', acts, spawned)"
  by (simp add: outcome_ok_def list_all_iff)

lemma quit_ok [simp]: "outcome_ok k (quit rt r) \<longleftrightarrow> holds rt \<and> rt_maxQueuedTurns rt = k"
  by (auto simp: outcome_ok_def quit_def action_ok_def)

end

lemma journal_append_session [simp]:
  "get_session (snd (journal_append en n r rt)) sid = get_session rt sid"
  "rt_maxQueuedTurns (snd (journal_append en n r rt)) = rt_maxQueuedTurns rt"
  by (auto simp: journal_append_def get_session_def split: option.splits prod.splits sum.splits)

lemma appendLifecycle_session [simp]:
  "get_session (snd (appendLifecycle en n sid0 name d rt)) sid = get_session rt sid"
  "rt_maxQueuedTurns (snd (appendLifecycle en n sid0 name d rt)) = rt_maxQueuedTurns rt"
  by (simp_all add: appendLifecycle_def)

lemma adapterLocked_Inr: "adapterLocked sid rt = Inr (m, a) \<Longrightarrow> get_session rt sid = Some m"
  by (auto simp: adapterLocked_def split: option.splits)

context session_contract
begin

lemma holds_append [simp]:
  "holds (snd (journal_append en n r rt)) = holds rt"
  "holds (snd (appendLifecycle en n sid name d rt)) = holds rt"
  by (simp_all add: holds_def)

lemma submit_ok: "holds rt \<Longrightarrow> outcome_ok (rt_maxQueuedTurns rt) (submit b d rt)"
  by (auto simp: action_ok_def submit_def Let_def split: option.splits)

lemma submit_call_ok: "holds rt \<Longrightarrow> outcome_ok (rt_maxQueuedTurns rt) (submit_call n b d rt)"
  by (auto simp: action_ok_def submit_call_def Let_def list_all_iff split: option.splits prod.splits)

lemma submit_done_ok: "holds rt \<Longrightarrow> outcome_ok (rt_maxQueuedTurns rt) (submit_done d v res rt)"
  by (auto simp: action_ok_def submit_done_def Let_def intro!: holds_update same [OF core_functions(2)] backend_session_ok
      split: sum.splits)

lemma submit_end_ok: "holds rt \<Longrightarrow> outcome_ok (rt_maxQueuedTurns rt) (submit_end d res rt)"
  by (auto simp: action_ok_def submit_end_def split: sum.splits)

lemma failSubmission_ok: "holds rt \<Longrightarrow> outcome_ok (rt_maxQueuedTurns rt) (failSubmission now sid q err rt)"
  by (auto simp: action_ok_def failSubmission_def intro!: holds_update failed_turn_ok)

lemma dispatchQueued_ok: "holds rt \<Longrightarrow> outcome_ok (rt_maxQueuedTurns rt) (dispatchQueued sid rt)"
  by (auto simp: action_ok_def dispatchQueued_def Let_def intro: holds_get intro!: holds_put taken dest!: adapterLocked_Inr
      split: sum.splits prod.splits)

lemma emitQueue_ok: "holds rt \<Longrightarrow> outcome_ok (rt_maxQueuedTurns rt) (emitQueue sid rt)"
  by (auto simp: action_ok_def emitQueue_def Let_def intro: holds_get intro!: holds_put same [OF core_updates(5)] split: option.splits)

lemma deliver_ok: "holds rt \<Longrightarrow> outcome_ok (rt_maxQueuedTurns rt) (deliver stamp sid e rt)"
  by (auto simp: action_ok_def deliver_def Let_def intro: holds_get intro!: holds_put same [OF core_functions(4)] same [OF core_functions(1)]
      same [OF core_functions(3)] split: option.splits)

lemma coalesce_ok: "holds rt \<Longrightarrow> outcome_ok (rt_maxQueuedTurns rt) (coalesce sid f rt)"
  by (auto simp: action_ok_def coalesce_def Let_def list_all_iff intro: holds_get intro!: holds_put same [OF core_updates(4)]
      split: option.splits prod.splits)

lemma deliverNow_ok:
  assumes "holds rt"
  shows "outcome_ok (rt_maxQueuedTurns rt) (deliverNow now sid e rt)"
proof (cases "get_session rt sid")
  case None
  with assms show ?thesis by (auto simp: action_ok_def deliverNow_def)
next
  case (Some m)
  obtain m1 b c where ap: "apply_event now e m = (m1, b, c)" by (cases "apply_event now e m") auto
  obtain s m2 where su: "suppress_replay e m1 = (s, m2)" by fastforce
  have "P (rt_maxQueuedTurns rt) sid m1"
    using apply_event_ok [OF holds_get [OF assms Some], of now e] ap by simp
  then have "P (rt_maxQueuedTurns rt) sid m2"
    using same [OF core_functions(5), of _ sid m1 e] su by simp
  then show ?thesis
    using assms Some ap su by (auto simp: action_ok_def deliverNow_def Let_def intro: holds_get intro!: holds_put)
qed

lemma persist_event_ok: "holds rt \<Longrightarrow> outcome_ok (rt_maxQueuedTurns rt) (persist_event en n e rt)"
proof -
  assume h: "holds rt"
  have "holds rt1 \<and> rt_maxQueuedTurns rt1 = rt_maxQueuedTurns rt" if "journal_append en n r rt = (x, rt1)" for r x rt1
    using that h holds_append(1) [of en n r rt] journal_append_session(2) [of en n r rt] by simp
  with h show ?thesis
    by (auto simp: action_ok_def persist_event_def split: option.splits prod.splits)
qed

lemma exec_turn_ok: "holds rt \<Longrightarrow> outcome_ok (rt_maxQueuedTurns rt) (exec_turn en n t rt)"
  by (cases t) (auto simp: action_ok_def submit_ok submit_call_ok submit_done_ok failSubmission_ok submit_end_ok
      dispatchQueued_ok emitQueue_ok deliver_ok coalesce_ok deliverNow_ok persist_event_ok
      notify_submitted_def emit_event_def go_dispatch_def)

lemma create_ok: "holds rt \<Longrightarrow> outcome_ok (rt_maxQueuedTurns rt) (create en n q rt)"
  by (auto simp: action_ok_def create_def Let_def Transition_Some New_def intro!: holds_put created
      split: option.splits sum.splits)

lemma start_ok: "holds rt \<Longrightarrow> outcome_ok (rt_maxQueuedTurns rt) (start q rt)"
proof -
  assume h: "holds rt"
  have "P (rt_maxQueuedTurns rt) sid (m\<lparr>ms_configuration := c, ms_dispatching := b\<rparr>)"
    if "get_session rt sid = Some m" for sid m b c
    by (rule dispatching [OF same [OF core_updates(1) holds_get [OF h that]]])
  with h show ?thesis
    by (auto simp: action_ok_def start_def Let_def intro: holds_get intro!: holds_put dest!: adapterLocked_Inr split: sum.splits prod.splits)
qed

lemma send_ok: "holds rt \<Longrightarrow> outcome_ok (rt_maxQueuedTurns rt) (send q nxt rt)"
  by (auto simp: action_ok_def send_def Let_def not_le intro: holds_get intro!: holds_put enqueued begin_dispatch_ok
      dest!: adapterLocked_Inr split: sum.splits prod.splits)

lemma replaced_ok: "holds rt \<Longrightarrow> outcome_ok (rt_maxQueuedTurns rt) (replaceQueuedTurn sid qid q rt)"
  by (auto simp: action_ok_def replaceQueuedTurn_def Let_def intro: holds_get intro!: holds_put replaced find_entry_bound
      split: option.splits)

lemma removed_ok: "holds rt \<Longrightarrow> outcome_ok (rt_maxQueuedTurns rt) (removeQueuedTurn sid qid rt)"
  by (auto simp: action_ok_def removeQueuedTurn_def Let_def intro: holds_get intro!: holds_put removed find_entry_bound
      split: option.splits)

lemma interrupts_ok:
  assumes "holds rt"
  shows "outcome_ok (rt_maxQueuedTurns rt) (interrupt sid rt)"
    and "outcome_ok (rt_maxQueuedTurns rt) (interruptActive sid rt)"
  using assms
  by (auto simp: action_ok_def interrupt_def interruptActive_def unit_error_def unit_ok_def Let_def
      intro: holds_get intro!: holds_put discarded dest!: adapterLocked_Inr split: sum.splits prod.splits)

lemma respondInteraction_ok: "holds rt \<Longrightarrow> outcome_ok (rt_maxQueuedTurns rt) (respondInteraction now sid a rt)"
  by (auto simp: action_ok_def respondInteraction_def unit_error_def Let_def
      intro: holds_get intro!: holds_put set_status_ok dest!: adapterLocked_Inr split: sum.splits prod.splits)

lemma blocks_ok:
  assumes "holds rt"
  shows "outcome_ok (rt_maxQueuedTurns rt) (blockDispatch sid rt)"
    and "outcome_ok (rt_maxQueuedTurns rt) (unblockDispatch sid rt)"
  using assms
  by (auto simp: action_ok_def blockDispatch_def unblockDispatch_def unit_error_def unit_ok_def Let_def
      intro: holds_get intro!: holds_put blocked split: option.splits)

lemma settings_ok:
  assumes "holds rt"
  shows "outcome_ok (rt_maxQueuedTurns rt) (setConfiguration sid c rt)"
    and "outcome_ok (rt_maxQueuedTurns rt) (setReplayHistory sid rs rt)"
  using assms
  by (auto simp: action_ok_def setConfiguration_def setReplayHistory_def unit_error_def unit_ok_def Let_def
      intro: holds_get intro!: holds_put same [OF core_updates(1)] same [OF core_updates(3)] split: option.splits)

lemma calls_without_state_ok:
  assumes "holds rt"
  shows "outcome_ok (rt_maxQueuedTurns rt) (reconcileTurn sid e rt)"
    and "outcome_ok (rt_maxQueuedTurns rt) (forkPrompt n fq rt)"
    and "outcome_ok (rt_maxQueuedTurns rt) (restart sid rt)"
    and "outcome_ok (rt_maxQueuedTurns rt) (close sid rt)"
    and "outcome_ok (rt_maxQueuedTurns rt) (shutdown rt)"
  using assms
  by (auto simp: action_ok_def reconcileTurn_def forkPrompt_def restart_def close_def shutdown_def unit_error_def
      unit_ok_def Let_def list_all_iff split: option.splits sum.splits prod.splits)

lemma forget_ok: "holds rt \<Longrightarrow> outcome_ok (rt_maxQueuedTurns rt) (forget sid rt)"
  by (auto simp: action_ok_def forget_def unit_error_def unit_ok_def Let_def list_all_iff intro!: holds_delete
      split: option.splits)

lemma restore_ok: "holds rt \<Longrightarrow> outcome_ok (rt_maxQueuedTurns rt) (restore en n q rt)"
  by (auto simp: action_ok_def restore_def Let_def intro!: restored split: option.splits sum.splits)

lemma exec_call_ok: "holds rt \<Longrightarrow> outcome_ok (rt_maxQueuedTurns rt) (exec_call en n c rt)"
  by (cases c) (simp_all add: create_ok start_ok send_ok interrupts_ok calls_without_state_ok settings_ok
      respondInteraction_ok removed_ok replaced_ok blocks_ok forget_ok restore_ok)

lemma appends_ok:
  assumes "holds rt"
  shows "outcome_ok (rt_maxQueuedTurns rt) (create_append en n sid b w rt)"
    and "outcome_ok (rt_maxQueuedTurns rt) (start_append en n sid sq bs rt)"
    and "outcome_ok (rt_maxQueuedTurns rt) (restart_append en n sid bs rt)"
    and "outcome_ok (rt_maxQueuedTurns rt) (close_append en n sid rt)"
proof -
  have "holds rt1 \<and> rt_maxQueuedTurns rt1 = rt_maxQueuedTurns rt"
    if "appendLifecycle en n sid name d rt = (x, rt1)" for name d x rt1
    using that assms holds_append(2) [of en n sid name d rt] appendLifecycle_session(2) [of en n sid name d rt]
    by simp
  then show "outcome_ok (rt_maxQueuedTurns rt) (create_append en n sid b w rt)"
    and "outcome_ok (rt_maxQueuedTurns rt) (start_append en n sid sq bs rt)"
    and "outcome_ok (rt_maxQueuedTurns rt) (restart_append en n sid bs rt)"
    and "outcome_ok (rt_maxQueuedTurns rt) (close_append en n sid rt)"
    by (auto simp: action_ok_def create_append_def start_append_def restart_append_def close_append_def unit_error_def
        unit_ok_def intro!: holds_delete split: option.splits prod.splits)
qed

lemma dones_ok:
  assumes "holds rt"
  shows "outcome_ok (rt_maxQueuedTurns rt) (start_done sid sq c res rt)"
    and "outcome_ok (rt_maxQueuedTurns rt) (restart_done sid res rt)"
    and "outcome_ok (rt_maxQueuedTurns rt) (close_done now sid rt)"
proof -
  have "P k sid' (m\<lparr>ms_dispatching := False, ms_configuration := c\<rparr>)" if "P k sid' m" for k sid' m
    by (rule same [OF core_updates(1) dispatching [OF that]])
  then show "outcome_ok (rt_maxQueuedTurns rt) (start_done sid sq c res rt)"
    using assms by (auto simp: action_ok_def start_done_def intro!: holds_update backend_session_ok split: sum.splits)
  show "outcome_ok (rt_maxQueuedTurns rt) (restart_done sid res rt)"
    and "outcome_ok (rt_maxQueuedTurns rt) (close_done now sid rt)"
    using assms by (auto simp: action_ok_def restart_done_def close_done_def
        intro!: holds_update restarted_ok closed_session_ok split: sum.splits)
qed

lemma outside_calls_ok:
  assumes "holds rt"
  shows "outcome_ok (rt_maxQueuedTurns rt) (start_call n sid sq c rt)"
    and "outcome_ok (rt_maxQueuedTurns rt) (interrupt_call n sid b f rt)"
    and "outcome_ok (rt_maxQueuedTurns rt) (interrupt_done sid b f tn bs err rt)"
    and "outcome_ok (rt_maxQueuedTurns rt) (respond_call n sid b a p rt)"
    and "outcome_ok (rt_maxQueuedTurns rt) (respond_resolve sid a rt)"
    and "outcome_ok (rt_maxQueuedTurns rt) (restart_call n sid b rt)"
    and "outcome_ok (rt_maxQueuedTurns rt) (close_call n sid b rt)"
    and "outcome_ok (rt_maxQueuedTurns rt) (reconcileRecoveredTurn sid rt)"
  using assms
  by (auto simp: action_ok_def start_call_def interrupt_call_def interrupt_done_def respond_call_def respond_resolve_def
      restart_call_def close_call_def reconcileRecoveredTurn_def unit_error_def unit_ok_def Let_def
      list_all_iff deliver_all_def split: option.splits prod.splits)

lemma shutdown_call_ok: "holds rt \<Longrightarrow> outcome_ok (rt_maxQueuedTurns rt) (shutdown_call n cs errs rt)"
  by (cases "(n, cs, errs, rt)" rule: shutdown_call.cases)
    (auto simp: action_ok_def unit_error_def unit_ok_def split: option.splits)

lemma restore_insert_ok:
  "holds rt \<Longrightarrow> P (rt_maxQueuedTurns rt) sid m \<Longrightarrow> outcome_ok (rt_maxQueuedTurns rt) (restore_insert sid m rt)"
  by (auto simp: action_ok_def restore_insert_def intro!: holds_put)

lemma exec_life_ok:
  "holds rt \<Longrightarrow> action_ok (rt_maxQueuedTurns rt) (Life l) \<Longrightarrow>
     outcome_ok (rt_maxQueuedTurns rt) (exec_life en n l rt)"
  by (cases l) (simp_all add: action_ok_def appends_ok dones_ok outside_calls_ok shutdown_call_ok
      restore_insert_ok coalesce_ok)

lemma exec_ok:
  assumes "holds rt" and "action_ok (rt_maxQueuedTurns rt) a" and "exec en a rt = (rt', acts, spawned)"
  shows "outcome_ok (rt_maxQueuedTurns rt) (rt', acts, spawned)"
proof -
  obtain rt1 where ex: "exec_action en (rt_tick rt) a rt = (rt1, acts, spawned)"
      and rt': "rt' = rt1\<lparr>rt_tick := rt_tick rt + 1\<rparr>"
    using assms(3) by (auto simp: action_ok_def exec_def Let_def split: prod.splits)
  have "outcome_ok (rt_maxQueuedTurns rt) (exec_action en (rt_tick rt) a rt)"
    using assms by (cases a) (auto simp: action_ok_def exec_call_ok exec_turn_ok exec_life_ok)
  then show ?thesis by (simp add: ex rt' outcome_ok_def)
qed

section \<open>Every reachable state\<close>

definition machine_ok :: "nat \<Rightarrow> machine \<Rightarrow> bool" where
  "machine_ok k s \<longleftrightarrow> holds (mc_rt s) \<and> rt_maxQueuedTurns (mc_rt s) = k
     \<and> (\<forall>t \<in> set (mc_threads s). \<forall>a \<in> set t. action_ok k a)"

lemma step_ok: "step en s s' \<Longrightarrow> machine_ok k s \<Longrightarrow> machine_ok k s'"
proof (erule stepE)
  fix i a acts rt' new spawned
  assume s': "s' = \<lparr>mc_rt = rt', mc_threads = (mc_threads s)[i := new @ acts] @ spawned\<rparr>"
    and i: "i < length (mc_threads s)" "mc_threads s ! i = a # acts" and ex: "exec en a (mc_rt s) = (rt', new, spawned)"
    and ok: "machine_ok k s"
  have t: "\<forall>x \<in> set (a # acts). action_ok k x" using ok i nth_mem unfolding machine_ok_def by metis
  then have "outcome_ok k (rt', new, spawned)"
    using exec_ok [of "mc_rt s" a en rt' new spawned] ok ex by (simp add: machine_ok_def)
  then have out: "holds rt'" "rt_maxQueuedTurns rt' = k" "\<forall>x \<in> set new. action_ok k x"
      "\<forall>u \<in> set spawned. \<forall>x \<in> set u. action_ok k x"
    by (simp_all add: outcome_ok_def)
  have "\<forall>x \<in> set u. action_ok k x" if "u \<in> set (mc_threads s')" for u
  proof -
    have "u = new @ acts \<or> u \<in> set (mc_threads s) \<or> u \<in> set spawned"
      using that set_update_subset_insert [of "mc_threads s" i "new @ acts"] by (auto simp: s')
    then show ?thesis using t out(3,4) ok unfolding machine_ok_def by auto
  qed
  then show "machine_ok k s'" using out(1,2) by (simp add: machine_ok_def s')
qed (auto simp: action_ok_def machine_ok_def holds_def get_session_def)

lemma reachable_ok:
  assumes "reachable en c as s"
  shows "machine_ok (rt_maxQueuedTurns (New_runtime c as)) s"
  using assms unfolding reachable_def
proof (induction rule: rtranclp_induct)
  case base
  show ?case by (simp add: machine_ok_def holds_def get_session_def New_runtime_def)
next
  case (step y z)
  then show ?case using step_ok by blast
qed

lemma reachable_session:
  assumes "reachable en c as s" and "get_session (mc_rt s) sid = Some m"
  shows "P (rt_maxQueuedTurns (New_runtime c as)) sid m"
  using reachable_ok [OF assms(1)] assms(2) holds_get [of "mc_rt s" sid m] by (simp add: machine_ok_def)

end

end
