(* ===== verification/Runtime_Invariants.thy ===== *)
theory Runtime_Invariants
  imports Runtime_Machine "HOL-Library.Multiset"
begin

text \<open>
  What holds of every managed session in every reachable state of the concurrent runtime, by
  interpretation of \<open>session_contract\<close>: the accounting of the turn queue and the
  consistency of identity, active turn and closed sessions.
\<close>

section \<open>Restored sessions\<close>

definition fresh_session :: "string \<Rightarrow> managedSession \<Rightarrow> bool" where
  "fresh_session sid m \<longleftrightarrow>
     s_ID (ms_session m) = sid \<and> ms_queue m = [] \<and> ms_retired m = [] \<and> ms_nextQueueSeq m = 0
     \<and> \<not> ms_dispatching m \<and> (ms_activeTurnID m \<noteq> [] \<longrightarrow> ms_active m)"

lemma fresh_new: "s_ID s = sid \<Longrightarrow> fresh_session sid (new_managed s c n)"
  by (simp add: fresh_session_def new_managed_def)

lemma fresh_set_status [simp]: "fresh_session sid (set_status st now m) = fresh_session sid m"
  by (simp add: fresh_session_def set_status_def)

lemma fresh_steps:
  assumes "fresh_session sid m"
  shows "fresh_session sid (restore_started r m)" and "fresh_session sid (restore_closed now m)"
    and "fresh_session sid (restore_turn_started now r m)" and "fresh_session sid (restore_interaction now r m)"
    and "fresh_session sid (restore_resolved now r m)" and "fresh_session sid (restore_terminal now r m)"
    and "fresh_session sid (m\<lparr>ms_nextSeq := k\<rparr>)"
  using assms
  by (auto simp: restore_started_def restore_closed_def restore_turn_started_def restore_interaction_def
      restore_resolved_def restore_terminal_def idle_turn_def Let_def split: option.splits)
    (simp_all add: fresh_session_def)

definition fresh_option :: "string \<Rightarrow> managedSession option \<Rightarrow> bool" where
  "fresh_option sid acc \<longleftrightarrow> (case acc of Some m \<Rightarrow> fresh_session sid m | None \<Rightarrow> True)"

lemma fresh_map: "fresh_option sid acc \<Longrightarrow> (\<And>m. fresh_session sid m \<Longrightarrow> fresh_session sid (f m)) \<Longrightarrow>
    fresh_option sid (map_option f acc)"
  by (cases acc) (auto simp: fresh_option_def)

lemma fresh_record:
  assumes "fresh_option sid acc"
  shows "fresh_option sid (restore_record q sid now r acc)"
proof -
  define acc' where "acc' = map_option (\<lambda>m. if ms_nextSeq m < restoredEventSequence (r_Sequence r)
      then m\<lparr>ms_nextSeq := restoredEventSequence (r_Sequence r)\<rparr> else m) acc"
  have acc: "fresh_option sid acc'" unfolding acc'_def using assms by (rule fresh_map) (simp add: fresh_steps)
  then have created: "fresh_option sid (restore_created q sid now r acc')"
    by (auto simp: restore_created_def New_def Let_def fresh_new fresh_option_def transition_to_eq split: option.splits)
  show ?thesis
    unfolding restore_record_def Let_def acc'_def [symmetric]
    using created acc fresh_map [OF acc] fresh_steps by simp
qed

lemma fresh_restore: "restore_session q sid now rs = Some m \<Longrightarrow> fresh_session sid m"
proof -
  have start: "fresh_option sid (restore_start q sid now)"
    by (auto simp: restore_start_def fresh_option_def New_def Let_def intro!: fresh_new)
  have "fresh_option sid (fold (restore_record q sid now) rs acc)" if "fresh_option sid acc" for acc
    using that by (induction rs arbitrary: acc) (simp_all add: fresh_record)
  from this [OF start] show "restore_session q sid now rs = Some m \<Longrightarrow> fresh_session sid m"
    by (simp add: restore_session_def fresh_option_def)
qed

section \<open>Accounting of the queue\<close>

fun fate_id :: "fate \<Rightarrow> string" where
  "fate_id (Dispatched i) = i"
| "fate_id (Removed i) = i"
| "fate_id (Discarded i) = i"

definition issued :: "string \<Rightarrow> nat \<Rightarrow> string list" where
  "issued sid n = map (entry_id sid) [1..<Suc n]"

definition accounts :: "nat \<Rightarrow> string \<Rightarrow> managedSession \<Rightarrow> bool" where
  "accounts k sid m \<longleftrightarrow>
     length (ms_queue m) \<le> k
     \<and> mset (map qe_ID (ms_queue m) @ map fate_id (ms_retired m)) = mset (issued sid (ms_nextQueueSeq m))"

lemma issued_Suc: "issued sid (Suc n) = issued sid n @ [entry_id sid (Suc n)]"
  by (simp add: issued_def)

lemma distinct_issued: "distinct (issued sid n)"
  by (auto simp: issued_def distinct_map inj_on_def entry_id_def)

lemma accounts_core: "core m' = core m \<Longrightarrow> accounts k sid m \<Longrightarrow> accounts k sid m'"
  by (simp add: accounts_def core_def)

lemma accounts_enqueue:
  "accounts k sid m \<Longrightarrow> length (ms_queue m) < k \<Longrightarrow> accounts k sid (enqueue sid nxt q m)"
  by (simp add: accounts_def enqueue_def issued_Suc Let_def)

lemma accounts_take: "accounts k sid m \<Longrightarrow> ms_queue m \<noteq> [] \<Longrightarrow> accounts k sid (take_next m)"
  by (cases "ms_queue m") (simp_all add: accounts_def take_next_def begin_dispatch_def)

lemma accounts_discard: "accounts k sid m \<Longrightarrow> accounts k sid (discard_queue m)"
  by (simp add: accounts_def discard_queue_def comp_def add.commute)

lemma accounts_remove:
  assumes "accounts k sid m" and "i < length (ms_queue m)"
  shows "accounts k sid (remove_entry i m)"
proof -
  have "ms_queue m = take i (ms_queue m) @ (ms_queue m ! i) # drop (i + 1) (ms_queue m)"
    using assms(2) by (simp add: id_take_nth_drop)
  then have "mset (map qe_ID (ms_queue m)) =
      mset (map qe_ID (take i (ms_queue m) @ drop (i + 1) (ms_queue m))) + {#qe_ID (ms_queue m ! i)#}"
    by (metis (no_types, lifting) list.simps(9) map_append mset.simps(2) mset_append union_mset_add_mset_right add_mset_add_single)
  with assms show ?thesis by (simp add: accounts_def remove_entry_def add.assoc) linarith
qed

lemma accounts_replace: "accounts k sid m \<Longrightarrow> accounts k sid (replace_entry i q m)"
proof -
  have "map qe_ID ((ms_queue m)[i := (ms_queue m ! i)\<lparr>qe_Request := q\<rparr>]) = map qe_ID (ms_queue m)"
    by (cases "i < length (ms_queue m)") (simp_all add: map_update list_update_same_conv list_update_beyond)
  then show "accounts k sid m \<Longrightarrow> accounts k sid (replace_entry i q m)"
    by (simp add: accounts_def replace_entry_def)
qed

lemma accounts_fresh: "fresh_session sid m \<Longrightarrow> accounts k sid m"
  by (simp add: accounts_def fresh_session_def issued_def)

interpretation queue: session_contract accounts
proof
  fix k sid m rq now rs
  show "restore_session rq sid now rs = Some m \<Longrightarrow> accounts k sid m"
    by (rule accounts_fresh) (rule fresh_restore)
qed (auto simp: accounts_discard accounts_replace accounts_remove accounts_take accounts_enqueue dispatchable_def
    intro: accounts_fresh fresh_new accounts_core, (simp_all add: accounts_def with_status_def)?)

section \<open>Identity, active turn, closed sessions\<close>

definition consistent :: "nat \<Rightarrow> string \<Rightarrow> managedSession \<Rightarrow> bool" where
  "consistent k sid m \<longleftrightarrow>
     s_ID (ms_session m) = sid \<and> (ms_activeTurnID m \<noteq> [] \<longrightarrow> ms_active m)
     \<and> (status_of m = StatusClosed \<longrightarrow> ms_queue m = [])"

lemma consistent_fresh: "fresh_session sid m \<Longrightarrow> consistent k sid m"
  by (simp add: consistent_def fresh_session_def)

interpretation identity: session_contract consistent
proof
  fix k sid m rq now rs
  show "restore_session rq sid now rs = Some m \<Longrightarrow> consistent k sid m"
    by (rule consistent_fresh) (rule fresh_restore)
qed (auto simp: consistent_def with_status_def core_def enqueue_def take_next_def begin_dispatch_def Let_def
    dispatchable_def discard_queue_def remove_entry_def replace_entry_def new_managed_def)

end
