(* ===== verification/Runtime_Properties.thy ===== *)
theory Runtime_Properties
  imports Runtime_Invariants
begin

text \<open>
  The properties of the runtime: what every reachable state satisfies, and what the sections of
  sending, dispatching, delivering, interrupting, closing and restoring do on every branch.
\<close>

section \<open>A concrete runtime\<close>

definition demo_adapter :: adapter where
  "demo_adapter =
     \<lparr>ad_Backend = ''codex'',
      ad_Detect = (\<lambda>n. \<lparr>st_Backend = ''codex'', st_Available = True, st_Command = [], st_Version = [], st_Error = []\<rparr>),
      ad_StartSession = (\<lambda>n sid q. ([], Inl ''no agent'')),
      ad_SendTurn = (\<lambda>n sid q. ([], Inl ''no agent'')),
      ad_Interrupt = (\<lambda>n sid. ([], None)),
      ad_CloseSession = (\<lambda>n sid. Some ''busy''),
      ad_ForkPrompt = None, ad_RestartSession = None, ad_RespondInteraction = None,
      ad_RespondPermission = None, ad_Catalog = None\<rparr>"

definition demo_env :: env where
  "demo_env =
     \<lparr>en_io = (\<lambda>n. io_ok), en_now = (\<lambda>n. n + 1), en_stamp = (\<lambda>n. ''now''), en_eventID = (\<lambda>n. ''id''),
      en_newID = (\<lambda>n. None), en_stat = (\<lambda>w. True), en_describe = (\<lambda>e. ''error'')\<rparr>"

definition demo_config :: Config where
  "demo_config =
     \<lparr>cn_Journal = None, cn_EventSink = True, cn_TurnDispatched = None, cn_TurnSubmitted = True,
      cn_MaxQueuedTurns = 2, cn_CatalogCacheDir = [], cn_CatalogUpdated = False,
      cn_DisableCoalescing = False, cn_DisableJournalWrites = False\<rparr>"

definition demo_session :: managedSession where
  "demo_session =
     new_managed \<lparr>s_ID = ''s1'', s_Backend = ''codex'', s_Worktree = ''/w'', s_Status = StatusActive,
       s_CreatedAt = 1, s_UpdatedAt = 1, s_BackendSession = no_backend_session\<rparr> no_configuration 0"

abbreviation demo_runtime :: Runtime where
  "demo_runtime \<equiv> New_runtime demo_config [Some demo_adapter]"

lemma demo_adapters: "rt_adapters demo_runtime = [(''codex'', demo_adapter)]"
proof -
  have "TrimSpace ''codex'' = ''codex''" by code_simp
  then show ?thesis by (simp add: New_runtime_def register_def demo_adapter_def)
qed

lemma demo_fields [simp]:
  "rt_sessions demo_runtime = []" "rt_maxQueuedTurns demo_runtime = 2" "rt_tick demo_runtime = 0"
  "rt_journal demo_runtime = None" "rt_coalesceEvents demo_runtime"
  by (simp_all add: New_runtime_def demo_config_def)

text \<open>A runtime whose only session is \<open>m\<close>.\<close>

definition demo_with :: "managedSession \<Rightarrow> Runtime" where
  "demo_with m = put_session ''s1'' m demo_runtime"

lemma demo_with_get [simp]: "get_session (demo_with m) ''s1'' = Some m"
  by (simp add: demo_with_def put_session_def get_session_def)

lemma demo_with_adapter:
  "s_Backend (ms_session m) = ''codex'' \<Longrightarrow> adapterLocked ''s1'' (demo_with m) = Inr (m, demo_adapter)"
  using demo_adapters by (simp add: adapterLocked_def) (simp add: demo_with_def put_session_def)

lemma demo_create:
  "\<exists>acts. exec demo_env (Call (ACreate \<lparr>cr_ID = ''s1'', cr_Backend = ''codex'', cr_Worktree = ''/w''\<rparr>)) demo_runtime
     = ((demo_with demo_session)\<lparr>rt_tick := 1\<rparr>, acts, [])"
proof -
  have t: "TrimSpace ''codex'' = ''codex''" "TrimSpace ''/w'' = ''/w''" "TrimSpace ''s1'' = ''s1''"
      "Clean ''/w'' = ''/w''"
    by code_simp+
  show ?thesis
    using demo_adapters
    by (simp add: exec_def create_def t Let_def get_session_def Transition_Some New_def demo_env_def
        demo_with_def demo_session_def put_session_def)
qed

lemma demo_reachable:
  "\<exists>s. reachable demo_env demo_config [Some demo_adapter] s \<and> get_session (mc_rt s) ''s1'' = Some demo_session"
proof -
  let ?call = "ACreate \<lparr>cr_ID = ''s1'', cr_Backend = ''codex'', cr_Worktree = ''/w''\<rparr>"
  let ?s0 = "\<lparr>mc_rt = demo_runtime, mc_threads = []\<rparr>"
  let ?s1 = "\<lparr>mc_rt = demo_runtime, mc_threads = [[Call ?call]]\<rparr>"
  obtain acts where ex: "exec demo_env (Call ?call) demo_runtime = ((demo_with demo_session)\<lparr>rt_tick := 1\<rparr>, acts, [])"
    using demo_create by blast
  let ?s2 = "\<lparr>mc_rt = (demo_with demo_session)\<lparr>rt_tick := 1\<rparr>, mc_threads = [acts]\<rparr>"
  have "step demo_env ?s0 ?s1" using host_call [of demo_env ?s0 ?call] by simp
  moreover have "step demo_env ?s1 ?s2"
    using step.run [of 0 ?s1 "Call ?call" "[]" demo_env "(demo_with demo_session)\<lparr>rt_tick := 1\<rparr>" acts "[]"] ex
    by simp
  ultimately have "reachable demo_env demo_config [Some demo_adapter] ?s2"
    unfolding reachable_def by (meson r_into_rtranclp rtranclp.rtrancl_into_rtrancl)
  moreover have "get_session (mc_rt ?s2) ''s1'' = Some demo_session"
    using demo_with_get [of demo_session] by (simp add: get_session_def)
  ultimately show ?thesis by blast
qed

section \<open>Every reachable state\<close>

text \<open>
  C1: no queued turn is lost or dispatched twice, in any interleaving. In every reachable state
  of the concurrent runtime, whatever adapters, hosts, timers and failures do: the queue of a
  session is within its limit, and the entry identifiers ever issued for the session are exactly
  those still waiting and those that left the queue, each of them once, by one dispatch, one
  removal or one discard.
\<close>

theorem queue_accounting:
  assumes "reachable en c as s" and "get_session (mc_rt s) sid = Some m"
  shows "length (ms_queue m) \<le> rt_maxQueuedTurns (New_runtime c as)
       \<and> distinct (map qe_ID (ms_queue m) @ map fate_id (ms_retired m))
       \<and> set (map qe_ID (ms_queue m) @ map fate_id (ms_retired m)) = set (issued sid (ms_nextQueueSeq m))"
proof -
  have ok: "accounts (rt_maxQueuedTurns (New_runtime c as)) sid m"
    using queue.reachable_session [OF assms] .
  then have eq: "mset (map qe_ID (ms_queue m) @ map fate_id (ms_retired m)) = mset (issued sid (ms_nextQueueSeq m))"
    by (simp only: accounts_def)
  with ok show ?thesis
    using mset_eq_imp_distinct_iff [OF eq] mset_eq_setD [OF eq] distinct_issued by (simp add: accounts_def)
qed

theorem queue_accounting_witness:
  "\<exists>s. reachable demo_env demo_config [Some demo_adapter] s
     \<and> length (ms_queue demo_session) \<le> rt_maxQueuedTurns demo_runtime
     \<and> distinct (map qe_ID (ms_queue demo_session) @ map fate_id (ms_retired demo_session))"
  using demo_reachable queue_accounting by metis

text \<open>
  C23: sessions stay consistent, in any interleaving. In every reachable state a session carries
  the identifier it is filed under, a session with an active turn identifier is active, and a
  closed session has nothing queued.
\<close>

theorem session_consistency:
  assumes "reachable en c as s" and "get_session (mc_rt s) sid = Some m"
  shows "s_ID (ms_session m) = sid \<and> (ms_activeTurnID m = [] \<or> ms_active m)
       \<and> (status_of m \<noteq> StatusClosed \<or> ms_queue m = [])"
  using identity.reachable_session [OF assms] by (auto simp: consistent_def)

theorem session_consistency_witness:
  "\<exists>s. reachable demo_env demo_config [Some demo_adapter] s \<and> s_ID (ms_session demo_session) = ''s1''"
  using demo_reachable session_consistency by metis

section \<open>Sending and dispatching\<close>

lemma get_put_session [simp]: "get_session (put_session sid m rt) sid = Some m"
  by (simp add: get_session_def put_session_def)

text \<open>
  C24: sending a turn. For a turn with a prompt or an attachment on a known session that is not
  closed: an idle session starts the turn at once and leaves its queue alone; a busy one (active,
  dispatching or blocked) with a full queue refuses it and nothing changes; otherwise the turn
  joins the queue, at the front for \<open>SendNext\<close> and at the back for \<open>Send\<close>, under the
  next entry identifier, with the session's configuration filled in.
\<close>

theorem send_decides:
  assumes m: "adapterLocked sid rt = Inr (m, a)" and sid: "TrimSpace (tr_SessionID q) = sid" "sid \<noteq> []"
    and prompt: "TrimSpace (tr_Prompt q) \<noteq> [] \<or> tr_Attachments q \<noteq> []" and opn: "status_of m \<noteq> StatusClosed"
  shows "let q' = fillTurnConfiguration (q\<lparr>tr_SessionID := sid\<rparr>) (ms_configuration m);
             e = \<lparr>qe_ID = entry_id sid (ms_nextQueueSeq m + 1), qe_Request = q'\<rparr>;
             (rt', acts, spawned) = send q nxt rt in
         spawned = [] \<and>
         (if \<not> busy m
          then get_session rt' sid = Some (begin_dispatch m) \<and> ms_queue (begin_dispatch m) = ms_queue m
             \<and> acts = [Turn (ASubmit (s_Backend (ms_session m))
                 \<lparr>dt_SessionID = sid, dt_QueueEntryID = [], dt_Request = q', dt_Queued = False\<rparr>)]
          else if rt_maxQueuedTurns rt \<le> length (ms_queue m)
          then rt' = rt \<and> acts = [Return (RSend (Inl (QueueFullError sid (length (ms_queue m)) (rt_maxQueuedTurns rt))))]
          else (\<exists>m' r. get_session rt' sid = Some m' \<and> ms_nextQueueSeq m' = ms_nextQueueSeq m + 1
             \<and> ms_queue m' = (if nxt then e # ms_queue m else ms_queue m @ [e])
             \<and> acts = [Turn (AEmitQueue sid), Return (RSend (Inr r))]
             \<and> sr_Accepted r \<and> sr_Queued r \<and> sr_QueueEntryID r = qe_ID e \<and> sr_QueueDepth r = length (ms_queue m) + 1))"
  using assms by (auto simp: send_def Let_def enqueue_def quit_def begin_dispatch_def)

definition demo_turn :: SendTurnRequest where
  "demo_turn =
     \<lparr>tr_SessionID = ''s1'', tr_Prompt = ''hi'', tr_Ext = [], tr_Attachments = [], tr_Model = [],
      tr_Reasoning = [], tr_PermissionMode = []\<rparr>"

lemma demo_turn_trim: "TrimSpace (tr_SessionID demo_turn) = ''s1''" "TrimSpace (tr_Prompt demo_turn) \<noteq> []"
  by code_simp+

lemma demo_session_fields [simp]:
  "status_of demo_session = StatusActive" "s_Backend (ms_session demo_session) = ''codex''"
  "\<not> busy demo_session" "ms_queue demo_session = []" "ms_nextQueueSeq demo_session = 0"
  "ms_configuration demo_session = no_configuration"
  by (simp_all add: demo_session_def new_managed_def busy_def)

theorem send_decides_witness:
  "\<exists>rt' r. send demo_turn False (demo_with (begin_dispatch demo_session)) =
       (rt', [Turn (AEmitQueue ''s1''), Return (RSend (Inr r))], []) \<and> sr_QueueEntryID r = ''s1:q:1''"
proof -
  let ?m = "begin_dispatch demo_session"
  have ad: "adapterLocked ''s1'' (demo_with ?m) = Inr (?m, demo_adapter)"
    by (rule demo_with_adapter) (simp add: begin_dispatch_def)
  have b: "busy ?m" "ms_queue ?m = []" "ms_nextQueueSeq ?m = 0" "status_of ?m = StatusActive"
    by (simp_all add: begin_dispatch_def busy_def)
  have m: "rt_maxQueuedTurns (demo_with ?m) = 2" by (simp add: demo_with_def put_session_def)
  have e: "entry_id ''s1'' 1 = ''s1:q:1''" by code_simp
  show ?thesis
    using send_decides [OF ad demo_turn_trim(1) _ _ , of False] demo_turn_trim(2) b m e
    by (auto simp: Let_def split: prod.splits)
qed

text \<open>
  C13: dispatching takes the head of the queue, exactly once and only when it may. If the session
  is unknown or has no adapter, is active, dispatching, blocked or closed, or has an empty queue,
  \<open>dispatchQueued\<close> changes nothing; otherwise the first entry leaves the queue, is recorded
  as dispatched, the slot is taken, and exactly that entry is submitted.
\<close>

theorem dispatch_takes_head:
  "case adapterLocked sid rt of
     Inl e \<Rightarrow> dispatchQueued sid rt = (rt, [], [])
   | Inr (m, a) \<Rightarrow>
       (case ms_queue m of
          [] \<Rightarrow> dispatchQueued sid rt = (rt, [], [])
        | e # es \<Rightarrow>
            if ms_active m \<or> ms_dispatching m \<or> ms_dispatchBlocked m \<or> status_of m = StatusClosed
            then dispatchQueued sid rt = (rt, [], [])
            else \<exists>m'. dispatchQueued sid rt =
                   (put_session sid m' rt,
                    [Turn (AEmitQueue sid),
                     Turn (ASubmit (s_Backend (ms_session m))
                       \<lparr>dt_SessionID = sid, dt_QueueEntryID = qe_ID e, dt_Request = qe_Request e, dt_Queued = True\<rparr>)], [])
                 \<and> ms_queue m' = es \<and> ms_dispatching m' \<and> ms_retired m' = ms_retired m @ [Dispatched (qe_ID e)])"
  by (auto simp: dispatchQueued_def dispatchable_def busy_def take_next_def begin_dispatch_def Let_def
      split: sum.splits prod.splits list.splits)

section \<open>Delivering events\<close>

lemma nextSeq_functions:
  "ms_nextSeq (reconcileConfiguration e m) = ms_nextSeq m"
  "ms_nextSeq (ensure_coalescer m) = ms_nextSeq m"
proof -
  have f: "ms_nextSeq (set_field f v y) = ms_nextSeq y" for f v y by (cases f) simp_all
  have "ms_nextSeq (reconcileConfigurationValue d k f y) = ms_nextSeq y" for d k f y
    by (simp add: reconcileConfigurationValue_def f split: option.splits json.splits)
  then show "ms_nextSeq (reconcileConfiguration e m) = ms_nextSeq m"
    by (simp add: reconcileConfiguration_def split: EventType.splits)
  show "ms_nextSeq (ensure_coalescer m) = ms_nextSeq m"
    by (simp add: ensure_coalescer_def split: option.splits)
qed

text \<open>
  C23: \<open>deliver\<close> completes events. An event that arrives for a known session leaves with a
  session, a time and a source identifier; an event without a sequence gets the next one of the
  session, so the sequences given out strictly increase, and one with a sequence keeps it; what
  the adapter filled in is kept; and the turn state and queue of the session are untouched.
\<close>

theorem deliver_completes:
  assumes "get_session rt sid = Some m" and "sid \<noteq> []"
  shows "\<exists>m' e'. get_session (fst (deliver stamp sid e rt)) sid = Some m'
       \<and> fst (snd (deliver stamp sid e rt)) \<in> {[Turn (ADeliverNow sid e')], [Turn (AHandle sid e')]}
       \<and> ev_SessionID e' \<noteq> [] \<and> ev_SourceEventID e' \<noteq> []
       \<and> ev_SessionID e' = default_to (ev_SessionID e) sid \<and> ev_Time e' = default_to (ev_Time e) stamp
       \<and> (if ev_Seq e = 0 then ev_Seq e' = ms_nextSeq m + 1 \<and> ms_nextSeq m' = ms_nextSeq m + 1
          else ev_Seq e' = ev_Seq e \<and> ms_nextSeq m' = ms_nextSeq m)
       \<and> ev_Type e' = ev_Type e \<and> ev_Message e' = ev_Message e \<and> ev_Data e' = ev_Data e
       \<and> core m' = core m"
proof -
  let ?e1 = "complete_event stamp sid m e"
  let ?e2 = "source_event ?e1"
  have e2: "ev_SessionID ?e2 = default_to (ev_SessionID e) sid" "ev_Time ?e2 = default_to (ev_Time e) stamp"
      "ev_Type ?e2 = ev_Type e" "ev_Message ?e2 = ev_Message e" "ev_Data ?e2 = ev_Data e"
      "ev_Seq ?e2 = (if ev_Seq e = 0 then ms_nextSeq m + 1 else ev_Seq e)" "ev_SourceEventID ?e2 \<noteq> []"
    by (simp_all add: source_event_def complete_event_def)
  have "core (ensure_coalescer m1) = core m \<and> core m1 = core m"
      "ms_nextSeq m1 = (if ev_Seq e = 0 then ms_nextSeq m + 1 else ms_nextSeq m)"
      "ms_nextSeq (ensure_coalescer m1) = ms_nextSeq m1"
    if "m1 = reconcileConfiguration ?e1 (take_seq e m)" for m1
    using that by (simp_all add: nextSeq_functions) (simp add: take_seq_def)
  then show ?thesis
    using assms e2 by (cases "rt_coalesceEvents rt") (auto simp: deliver_def Let_def default_to_def)
qed

theorem deliver_completes_witness:
  "\<exists>m' (e' :: Event). get_session (fst (deliver ''now'' ''s1'' (new_event EventTurnComplete) (demo_with demo_session))) ''s1'' = Some m'
     \<and> ev_SessionID e' = ''s1'' \<and> ev_Seq e' = 1 \<and> ms_nextSeq m' = 1"
proof -
  have z: "ms_nextSeq demo_session = 0" "ev_Seq (new_event EventTurnComplete) = 0"
      "ev_SessionID (new_event EventTurnComplete) = []"
    by (simp_all add: demo_session_def new_managed_def new_event_def)
  show ?thesis
    using deliver_completes [OF demo_with_get, where stamp = "''now''" and e = "new_event EventTurnComplete" and m = demo_session]
    by (simp add: z default_to_def) blast
qed

lemma apply_terminal:
  assumes "terminal_type (ev_Type e)" and "terminalMatches e m"
  shows "apply_event now e m = (turn_ended now m, True, ms_queue m \<noteq> [] \<and> \<not> ms_dispatchBlocked m)"
  using assms
  by (cases "ev_Type e")
    (auto simp: apply_event_def terminal_type_def turn_ended_def idle_turn_def set_status_def Let_def)

lemma turn_ended_facts:
  "\<not> ms_active (turn_ended now m)" "\<not> ms_dispatching (turn_ended now m)" "ms_activeTurnID (turn_ended now m) = []"
  "ms_pendingInteraction (turn_ended now m) = None" "ms_queue (turn_ended now m) = ms_queue m"
  "ms_dispatchBlocked (turn_ended now m) = ms_dispatchBlocked m"
  "status_of (turn_ended now m) \<noteq> StatusRunning" "status_of (turn_ended now m) \<noteq> StatusWaitingInput"
  by (simp_all add: turn_ended_def idle_turn_def set_status_def Let_def transition_to_eq)

text \<open>
  C22: a terminal event frees the turn slot and starts the next turn. A completion, failure or
  process exit that belongs to the active turn and is not a replay ends the turn: the session is
  neither active nor dispatching, waits for no input, has no pending interaction, keeps its queue;
  the event is journalled and emitted first, then a dispatch of the queue is started when a turn
  waits and dispatch is not blocked, and the queue view is announced.
\<close>

theorem terminal_event_frees_slot:
  assumes m: "get_session rt sid = Some m" and e: "terminal_type (ev_Type e)" "terminalMatches e m"
    and live: "ms_replay m = None \<or> \<not> local_flag e EventLocalReplay"
  shows "\<exists>m'. deliverNow now sid e rt =
           (put_session sid m' rt,
            [Turn (APersist e)] @ (if ms_queue m \<noteq> [] \<and> \<not> ms_dispatchBlocked m then [Turn (AGoDispatch sid)] else [])
              @ [Turn (AEmitQueue sid)], [])
         \<and> \<not> ms_active m' \<and> \<not> ms_dispatching m' \<and> ms_activeTurnID m' = [] \<and> ms_pendingInteraction m' = None
         \<and> status_of m' \<noteq> StatusRunning \<and> status_of m' \<noteq> StatusWaitingInput \<and> ms_queue m' = ms_queue m"
proof -
  have "ms_replay (turn_ended now m) = ms_replay m"
    by (simp add: turn_ended_def idle_turn_def set_status_def Let_def)
  then have "suppress_replay e (turn_ended now m) = (False, turn_ended now m)"
    using live by (auto simp: suppress_replay_def split: option.splits)
  with m apply_terminal [OF e, of now] show ?thesis
    by (auto simp: deliverNow_def Let_def turn_ended_facts)
qed

definition demo_active :: managedSession where
  "demo_active =
     (enqueue ''s1'' False demo_turn demo_session)\<lparr>ms_active := True, ms_activeTurnID := ''t1''\<rparr>"

lemma demo_active_fields [simp]:
  "ms_active demo_active" "ms_activeTurnID demo_active = ''t1''" "ms_replay demo_active = None"
  "ms_queue demo_active = [\<lparr>qe_ID = ''s1:q:1'', qe_Request = demo_turn\<rparr>]"
proof -
  have "entry_id ''s1'' 1 = ''s1:q:1''" by code_simp
  then show "ms_queue demo_active = [\<lparr>qe_ID = ''s1:q:1'', qe_Request = demo_turn\<rparr>]"
    by (simp add: demo_active_def enqueue_def Let_def)
qed (simp_all add: demo_active_def demo_session_def new_managed_def enqueue_def Let_def)

theorem terminal_event_frees_slot_witness:
  "\<exists>m'. deliverNow 2 ''s1'' (new_event EventTurnComplete\<lparr>ev_BackendTurnID := ''t1''\<rparr>) (demo_with demo_active) =
     (put_session ''s1'' m' (demo_with demo_active),
      [Turn (APersist (new_event EventTurnComplete\<lparr>ev_BackendTurnID := ''t1''\<rparr>)), Turn (AGoDispatch ''s1''),
       Turn (AEmitQueue ''s1'')], []) \<and> \<not> ms_active m'"
proof -
  have nb: "\<not> ms_dispatchBlocked demo_active"
    by (simp add: demo_active_def demo_session_def new_managed_def enqueue_def Let_def)
  show ?thesis
    using terminal_event_frees_slot [OF demo_with_get, of "new_event EventTurnComplete\<lparr>ev_BackendTurnID := ''t1''\<rparr>" demo_active 2] nb
    by (auto simp: new_event_def terminal_type_def terminalMatches_def)
qed

text \<open>
  The end of another turn is ignored. A completion or failure that names a turn other than
  the active one (a late or replayed event) leaves the turn state, the queue and the status of the
  session as they are, and neither starts a dispatch nor announces the queue.
\<close>

theorem stale_terminal_ignored:
  assumes m: "get_session rt sid = Some m" and e: "ev_Type e = EventTurnComplete \<or> ev_Type e = EventTurnFailed"
    and other: "ev_BackendTurnID e \<noteq> []" "ms_activeTurnID m \<noteq> []" "ev_BackendTurnID e \<noteq> ms_activeTurnID m"
  shows "\<exists>m'. fst (deliverNow now sid e rt) = put_session sid m' rt \<and> core m' = core m
       \<and> ms_pendingInteraction m' = ms_pendingInteraction m
       \<and> snd (deliverNow now sid e rt) \<in> {([], []), ([Turn (APersist e)], [])}"
proof -
  have ap: "apply_event now e m = (m, False, False)"
    using e other by (auto simp: apply_event_def terminal_type_def terminalMatches_def)
  obtain b m2 where su: "suppress_replay e m = (b, m2)" by fastforce
  have "core m2 = core m" using core_functions(5) [of e m] su by simp
  moreover have "ms_pendingInteraction m2 = ms_pendingInteraction m"
    using su by (auto simp: suppress_replay_def Let_def split: option.splits if_splits prod.splits)
  ultimately show ?thesis using m ap su by (auto simp: deliverNow_def Let_def)
qed

theorem stale_terminal_ignored_witness:
  "\<exists>m'. fst (deliverNow 2 ''s1'' (new_event EventTurnFailed\<lparr>ev_BackendTurnID := ''t0''\<rparr>) (demo_with demo_active))
     = put_session ''s1'' m' (demo_with demo_active) \<and> core m' = core demo_active"
  using stale_terminal_ignored [OF demo_with_get, of "new_event EventTurnFailed\<lparr>ev_BackendTurnID := ''t0''\<rparr>" demo_active 2]
  by (auto simp: new_event_def)



section \<open>Recovery after a restart of the process\<close>

lemma apply_resolution:
  "ms_pendingInteraction m = Some q \<Longrightarrow>
     fst (apply_event now (recovered_resolution m q) m) = m\<lparr>ms_pendingInteraction := None\<rparr>"
  by (simp add: apply_event_def recovered_resolution_def new_event_def interaction_resolved_def)

lemma recovered_failure_terminal:
  "ms_activeTurnID m' = ms_activeTurnID m \<Longrightarrow>
     terminal_type (ev_Type (recovered_failure m)) \<and> terminalMatches (recovered_failure m) m'"
  by (simp add: recovered_failure_def new_event_def terminal_type_def terminalMatches_def)

text \<open>
  Recovery ends the interrupted turn. Applying the events that \<open>Restore\<close> delivers for a
  restored session leaves it without an active turn, without a pending interaction and not
  running or waiting; a session that had no active turn gets no events.
\<close>

theorem recovery_ends_turn:
  "let m' = fold (\<lambda>e x. fst (apply_event now e x)) (recovery_events m) m in
     \<not> ms_active m' \<and> (if ms_active m
       then ms_activeTurnID m' = [] \<and> ms_pendingInteraction m' = None
          \<and> status_of m' \<noteq> StatusRunning \<and> status_of m' \<noteq> StatusWaitingInput
       else m' = m \<and> recovery_events m = [])"
proof (cases "ms_active m")
  case True
  define m1 where "m1 = (case ms_pendingInteraction m of None \<Rightarrow> m | Some q \<Rightarrow> m\<lparr>ms_pendingInteraction := None\<rparr>)"
  have "fold (\<lambda>e x. fst (apply_event now e x)) (recovery_events m) m = fst (apply_event now (recovered_failure m) m1)"
    using True by (auto simp: recovery_events_def m1_def apply_resolution split: option.splits)
  also have "\<dots> = turn_ended now m1"
    using recovered_failure_terminal [of m1 m] apply_terminal [of "recovered_failure m" m1 now]
    by (simp add: m1_def split: option.splits)
  finally show ?thesis using True by (simp add: turn_ended_facts Let_def)
qed (simp add: recovery_events_def)

lemma restore_record_failed:
  assumes "r_Event r = EventAgentTurnFailed"
  shows "\<exists>k. restore_record q sid now r (Some m) = Some (restore_terminal now r (m\<lparr>ms_nextSeq := k\<rparr>))"
proof -
  have "\<exists>k. (if ms_nextSeq m < v then m\<lparr>ms_nextSeq := v\<rparr> else m) = m\<lparr>ms_nextSeq := k\<rparr>" for v
    by (cases "ms_nextSeq m < v") (auto intro: exI [of _ "ms_nextSeq m"])
  then show ?thesis
    using assms by (simp add: restore_record_def replayTerminal_def journal_names Let_def) metis
qed

lemma recovered_failure_record:
  assumes "Translate (source_event (complete_event stamp sid m (recovered_failure m))) = Some r"
    and "ms_active m"
  shows "r_Event r = EventAgentTurnFailed \<and> r_TurnID r = ms_activeTurnID m"
proof -
  let ?e = "source_event (complete_event stamp sid m (recovered_failure m))"
  have ty: "ev_Type ?e = EventTurnFailed"
    by (simp add: source_event_def complete_event_def recovered_failure_def new_event_def)
  have "ev_BackendTurnID ?e = ms_activeTurnID m"
    using assms(2)
    by (simp add: source_event_def complete_event_def recovered_failure_def new_event_def default_to_def current_turn_def)
  moreover have "translatedEventName ?e = EventAgentTurnFailed"
    using dotted_builtin [of EventTurnFailed] ty by (simp add: translatedEventName_def)
  ultimately show ?thesis using assms(1) by (simp add: Translate_Some)
qed

text \<open>
  C26: recovery is durable. Let a session be restored with an active turn, and let the journal
  then receive the record of the failure that recovery delivers for that turn. Restoring the
  session again from the longer journal finds no active turn and no pending interaction, and the
  session is not running or waiting.
\<close>

theorem recovery_is_durable:
  assumes m: "restore_session q sid now rs = Some m" "ms_active m"
    and e: "Translate (source_event (complete_event stamp sid m (recovered_failure m))) = Some r0"
    and r: "r_Event r = r_Event r0" "r_TurnID r = r_TurnID r0"
  shows "\<exists>m'. restore_session q sid now (rs @ [r]) = Some m' \<and> \<not> ms_active m' \<and> ms_activeTurnID m' = []
       \<and> ms_pendingInteraction m' = None \<and> status_of m' \<noteq> StatusRunning \<and> status_of m' \<noteq> StatusWaitingInput"
proof -
  have ev: "r_Event r = EventAgentTurnFailed" "r_TurnID r = ms_activeTurnID m"
    using recovered_failure_record [OF e m(2)] r by auto
  obtain k where "restore_record q sid now r (Some m) = Some (restore_terminal now r (m\<lparr>ms_nextSeq := k\<rparr>))"
    using restore_record_failed [OF ev(1)] by blast
  with m(1) ev show ?thesis
    by (simp add: restore_session_def restore_terminal_def idle_turn_def Let_def set_status_def transition_to_eq)
qed

definition demo_restore :: RestoreRequest where
  "demo_restore =
     \<lparr>rq_ID = ''s1'', rq_Backend = ''codex'', rq_Worktree = ''/w'', rq_BackendSession = no_backend_session,
      rq_Configuration = no_configuration\<rparr>"

definition demo_started :: Record where
  "demo_started = zero_record\<lparr>r_SessionID := ''s1'', r_Event := EventAgentTurnStarted, r_TurnID := ''t1'', r_Sequence := 3\<rparr>"

lemma demo_restored:
  "\<exists>m. restore_session demo_restore ''s1'' 1 [demo_started] = Some m \<and> ms_active m"
proof -
  have t: "TrimSpace ''codex'' = ''codex''" "TrimSpace ''/w'' = ''/w''" "TrimSpace ''t1'' = ''t1''" by code_simp+
  show ?thesis
    by (simp add: restore_session_def restore_start_def demo_restore_def t restore_record_def demo_started_def
        journal_names Let_def restore_turn_started_def set_status_def)
qed

theorem recovery_is_durable_witness:
  "\<exists>r m'. restore_session demo_restore ''s1'' 1 [demo_started, r] = Some m' \<and> \<not> ms_active m'"
proof -
  obtain m where m: "restore_session demo_restore ''s1'' 1 [demo_started] = Some m" "ms_active m"
    using demo_restored by blast
  let ?e = "source_event (complete_event ''now'' ''s1'' m (recovered_failure m))"
  have "ev_Type ?e = EventTurnFailed"
    by (simp add: source_event_def complete_event_def recovered_failure_def new_event_def)
  then have "translatedEventName ?e \<noteq> []"
    using dotted_builtin [of EventTurnFailed] by (simp add: translatedEventName_def journal_names)
  then obtain r where "Translate ?e = Some r" by (auto simp: Translate_Some)
  from recovery_is_durable [OF m this refl refl] show ?thesis by auto
qed

lemma fields_of_marshal [simp]: "fields_of (marshal (JObj fs)) = Some fs"
  by (simp add: fields_of_def del: marshal.simps)

definition lifecycle_record :: "string \<Rightarrow> json \<Rightarrow> Record \<Rightarrow> bool" where
  "lifecycle_record name data r \<longleftrightarrow> r_Event r = name \<and> r_Data r = marshal data"

lemma restore_created_record:
  assumes "lifecycle_record ''session.created'' (JObj [(''backend'', JStr b), (''worktree'', JStr w)]) r"
    and "b \<noteq> []" "w \<noteq> []"
  shows "\<exists>m. restore_record q sid now r acc = Some m \<and> s_Backend (ms_session m) = b \<and> s_Worktree (ms_session m) = w
    \<and> s_ID (ms_session m) = sid \<and> status_of m = StatusActive \<and> \<not> ms_active m \<and> ms_queue m = []"
  using assms
  by (simp add: restore_record_def lifecycle_record_def Let_def restore_created_def created_data_def get_defs
      codec_simps new_managed_def transition_to_eq New_def del: marshal.simps)

lemma restore_started_record:
  assumes "lifecycle_record ''session.started'' (JObj [(''backend'', JStr b), (''backend_session'', enc_backend_session bs),
      (''configuration'', enc_configuration c)]) r"
  shows "\<exists>k. restore_record q sid now r (Some m) = Some (m\<lparr>ms_nextSeq := k,
      ms_session := (ms_session m)\<lparr>s_BackendSession := bs\<rparr>, ms_configuration := normalizeConfiguration c\<rparr>)"
proof -
  have v: "dec_value dec_backend_session z (Some (enc_backend_session bs)) = Some bs"
      "dec_value dec_configuration y (Some (enc_configuration c)) = Some c" for y z
    using dec_enc_backend_session [of bs] dec_enc_configuration [of c]
    by (simp_all add: dec_value_def enc_backend_session_def enc_configuration_def)
  have "started_data (r_Data r) = Some (bs, c)"
    using assms by (simp add: lifecycle_record_def started_data_def codec_simps v del: marshal.simps)
  moreover have "\<exists>k. (if ms_nextSeq m < n then m\<lparr>ms_nextSeq := n\<rparr> else m) = m\<lparr>ms_nextSeq := k\<rparr>" for n
    by (cases "ms_nextSeq m < n") (auto intro: exI [of _ "ms_nextSeq m"])
  ultimately show ?thesis
    using assms by (simp add: restore_record_def lifecycle_record_def Let_def restore_started_def) metis
qed

lemma restore_closed_record:
  assumes "r_Event r = ''session.closed''"
  shows "\<exists>k. restore_record q sid now r (Some m) = Some (restore_closed now (m\<lparr>ms_nextSeq := k\<rparr>))"
proof -
  have "\<exists>k. (if ms_nextSeq m < n then m\<lparr>ms_nextSeq := n\<rparr> else m) = m\<lparr>ms_nextSeq := k\<rparr>" for n
    by (cases "ms_nextSeq m < n") (auto intro: exI [of _ "ms_nextSeq m"])
  then show ?thesis using assms by (simp add: restore_record_def Let_def) metis
qed

text \<open>
  The lifecycle records describe the session. Restoring from the records that \<open>Create\<close>
  and \<open>Start\<close> append (and \<open>Close\<close>, when it ran) gives the same backend, worktree,
  provider session and configuration, an empty queue and no active turn; the session is active,
  or closed when it was closed.
\<close>

theorem restore_reads_lifecycle:
  assumes cr: "lifecycle_record ''session.created'' (JObj [(''backend'', JStr b), (''worktree'', JStr w)]) r1"
    and st: "lifecycle_record ''session.started'' (JObj [(''backend'', JStr b), (''backend_session'', enc_backend_session bs),
      (''configuration'', enc_configuration c)]) r2"
    and cl: "r_Event r3 = ''session.closed''" and ne: "b \<noteq> []" "w \<noteq> []"
  shows "\<exists>m m'. restore_session q sid now [r1, r2] = Some m \<and> restore_session q sid now [r1, r2, r3] = Some m'
     \<and> s_ID (ms_session m) = sid \<and> s_Backend (ms_session m) = b \<and> s_Worktree (ms_session m) = w
     \<and> s_BackendSession (ms_session m) = bs \<and> ms_configuration m = normalizeConfiguration c
     \<and> status_of m = StatusActive \<and> \<not> ms_active m \<and> ms_queue m = []
     \<and> status_of m' = StatusClosed \<and> ms_queue m' = [] \<and> s_BackendSession (ms_session m') = bs"
proof -
  obtain m0 where m0: "restore_record q sid now r1 (restore_start q sid now) = Some m0"
      "s_Backend (ms_session m0) = b" "s_Worktree (ms_session m0) = w" "s_ID (ms_session m0) = sid"
      "status_of m0 = StatusActive" "\<not> ms_active m0" "ms_queue m0 = []"
    using restore_created_record [OF cr ne] by blast
  obtain k where m1: "restore_record q sid now r2 (Some m0) = Some (m0\<lparr>ms_nextSeq := k,
      ms_session := (ms_session m0)\<lparr>s_BackendSession := bs\<rparr>, ms_configuration := normalizeConfiguration c\<rparr>)"
    using restore_started_record [OF st] by blast
  obtain l where "restore_record q sid now r3 (Some (m0\<lparr>ms_nextSeq := k,
      ms_session := (ms_session m0)\<lparr>s_BackendSession := bs\<rparr>, ms_configuration := normalizeConfiguration c\<rparr>)) =
      Some (restore_closed now ((m0\<lparr>ms_nextSeq := k,
      ms_session := (ms_session m0)\<lparr>s_BackendSession := bs\<rparr>, ms_configuration := normalizeConfiguration c\<rparr>)\<lparr>ms_nextSeq := l\<rparr>))"
    using restore_closed_record [OF cl] by blast
  with m0 m1 show ?thesis
    by (simp add: restore_session_def restore_closed_def set_status_def transition_to_eq)
qed

definition demo_lifecycle :: "string \<Rightarrow> json \<Rightarrow> Record" where
  "demo_lifecycle name data = zero_record\<lparr>r_Event := name, r_Data := marshal data\<rparr>"

lemma demo_lifecycle_record: "lifecycle_record name data (demo_lifecycle name data)"
  by (simp add: lifecycle_record_def demo_lifecycle_def)

theorem restore_reads_lifecycle_witness:
  "\<exists>m. restore_session demo_restore ''s1'' 1
     [demo_lifecycle ''session.created'' (JObj [(''backend'', JStr ''codex''), (''worktree'', JStr ''/w'')]),
      demo_lifecycle ''session.started'' (JObj [(''backend'', JStr ''codex''),
        (''backend_session'', enc_backend_session no_backend_session), (''configuration'', enc_configuration no_configuration)])] = Some m
     \<and> s_Backend (ms_session m) = ''codex''"
proof -
  have "r_Event (demo_lifecycle ''session.closed'' JNull) = ''session.closed''" by (simp add: demo_lifecycle_def)
  from restore_reads_lifecycle [OF demo_lifecycle_record demo_lifecycle_record this,
      of "''codex''" "''/w''" demo_restore "''s1''" 1 no_backend_session no_configuration]
  show ?thesis by auto
qed

section \<open>Interrupts\<close>

text \<open>
  An interrupt empties the queue and ends the active turn. \<open>Interrupt\<close> discards every
  queued turn; when a turn is active it calls the adapter, and if the same turn is still active
  after the call, it delivers a failure event for that turn, whose application frees the slot.
\<close>

theorem interrupt_ends_turn:
  assumes m: "adapterLocked (TrimSpace sessionID) rt = Inr (m, a)"
    and m2: "get_session rt2 (TrimSpace sessionID) = Some m2" and same: "ms_active m2" "ms_activeTurnID m2 = turnID"
  shows "\<exists>m1 e. fst (interrupt sessionID rt) = put_session (TrimSpace sessionID) m1 rt \<and> ms_queue m1 = []
     \<and> ms_retired m1 = ms_retired m @ map (\<lambda>x. Discarded (qe_ID x)) (ms_queue m)
     \<and> (fst (snd (interrupt sessionID rt)) =
          (if ms_active m then [Life (AInterruptCall (TrimSpace sessionID) (s_Backend (ms_session m)) True)]
           else [Turn (AEmitQueue (TrimSpace sessionID)), unit_ok]))
     \<and> interrupt_done (TrimSpace sessionID) backend flush turnID b None rt2 =
         (rt2, [Turn (ADeliver (TrimSpace sessionID) e)] @ (if flush then [Turn (AEmitQueue (TrimSpace sessionID))] else [])
            @ [unit_ok], [])
     \<and> ev_BackendTurnID e = turnID \<and> terminalMatches e m2 \<and> fst (apply_event now e m2) = turn_ended now m2"
proof -
  let ?e = "interrupted_event backend turnID b"
  have e: "ev_BackendTurnID ?e = turnID" "terminal_type (ev_Type ?e)"
    by (simp_all add: interrupted_event_def new_event_def terminal_type_def)
  then have match: "terminalMatches ?e m2" using same by (simp add: terminalMatches_def)
  then show ?thesis
    using m m2 same e apply_terminal [OF e(2) match, of now]
    by (intro exI [of _ "discard_queue m"] exI [of _ ?e])
      (simp add: interrupt_def interrupt_done_def discard_queue_def Let_def)
qed

theorem interrupt_ends_turn_witness:
  "\<exists>m1 (e :: Event). fst (interrupt ''s1'' (demo_with demo_active)) = put_session ''s1'' m1 (demo_with demo_active)
     \<and> ms_queue m1 = [] \<and> fst (apply_event 2 e demo_active) = turn_ended 2 demo_active"
proof -
  have t: "TrimSpace ''s1'' = ''s1''" by code_simp
  have "s_Backend (ms_session demo_active) = ''codex''" by (simp add: demo_active_def enqueue_def Let_def)
  from demo_with_adapter [OF this] have ad: "adapterLocked (TrimSpace ''s1'') (demo_with demo_active) = Inr (demo_active, demo_adapter)"
    by (simp add: t)
  have get: "get_session (demo_with demo_active) (TrimSpace ''s1'') = Some demo_active" by (simp add: t)
  show ?thesis
    using interrupt_ends_turn [OF ad get demo_active_fields(1) demo_active_fields(2), where now = 2 and backend = "''codex''"
        and flush = True and b = no_backend_session]
    by (simp add: t) blast
qed

section \<open>Three ways the runtime strands or misattributes a turn\<close>

text \<open>
  A failed start strands the queue. When \<open>StartSession\<close> fails after turns were queued
  behind the initial turn, the dispatching flag is cleared and the error returned, but nothing
  dispatches the queue: the session is left ready to dispatch, with turns waiting, and the only
  action that remains is the return to the caller.
\<close>

theorem failed_start_strands_queue:
  assumes "get_session rt sid = Some m" and "ms_queue m \<noteq> []" and "\<not> ms_active m" and "\<not> ms_dispatchBlocked m"
    and "status_of m \<noteq> StatusClosed"
  shows "\<exists>m'. get_session (fst (start_done sid q previous (Inl err) rt)) sid = Some m' \<and> dispatchable m'
     \<and> ms_queue m' = ms_queue m
     \<and> snd (start_done sid q previous (Inl err) rt) = ([Return (RBackend (Inl (AdapterFailed err)))], [])"
  using assms by (simp add: start_done_def update_session_def quit_def dispatchable_def busy_def)

definition demo_waiting :: managedSession where
  "demo_waiting = (enqueue ''s1'' False demo_turn demo_session)\<lparr>ms_dispatching := True\<rparr>"

lemma demo_waiting_fields [simp]:
  "ms_queue demo_waiting \<noteq> []" "\<not> ms_active demo_waiting" "\<not> ms_dispatchBlocked demo_waiting"
  "status_of demo_waiting = StatusActive"
  by (simp_all add: demo_waiting_def demo_session_def new_managed_def enqueue_def Let_def)

definition demo_start :: StartSessionRequest where
  "demo_start =
     \<lparr>ss_Backend = ''codex'', ss_SessionID = ''s1'', ss_Worktree = ''/w'', ss_Prompt = ''hi'', ss_Ext = [],
      ss_Attachments = [], ss_Model = [], ss_Reasoning = [], ss_PermissionMode = [], ss_ResumeBackendSessionID = []\<rparr>"

theorem failed_start_strands_queue_witness:
  "\<exists>m'. get_session (fst (start_done ''s1'' demo_start no_configuration (Inl ''no agent'') (demo_with demo_waiting))) ''s1'' = Some m'
     \<and> dispatchable m'"
  using failed_start_strands_queue [OF demo_with_get, of demo_waiting demo_start no_configuration "''no agent''"] by auto

text \<open>
  A failed close silences the session. \<open>Close\<close> closes the event coalescer before it asks
  the adapter to close; when the adapter then fails, the call returns its error and the session
  keeps its status, but its coalescer stays closed and is never replaced, so every later event
  that passes through it is dropped without reaching state, journal or host.
\<close>

theorem failed_close_silences_session:
  assumes m: "get_session rt sid = Some m" "ms_coalescer m = Some c"
    and a: "map_of (rt_adapters rt) backend = Some a" "ad_CloseSession a n sid = Some err"
  shows "let rt1 = fst (coalesce sid Close_coalescer rt) in
     close_call n sid backend rt1 = (rt1, [Return (RUnit (Some (AdapterFailed err)))], [])
   \<and> snd (coalesce sid (Handle e) rt1) = ([], [])
   \<and> (\<exists>m1. get_session rt1 sid = Some m1 \<and> status_of m1 = status_of m \<and> ensure_coalescer m1 = m1)"
proof -
  obtain es c' where c': "Close_coalescer c = (es, c')" by fastforce
  then have closed: "co_closed c'"
    by (auto simp: Close_coalescer_def clearLocked_def Let_def flushLocked_def split: if_splits prod.splits option.splits)
  have rt1: "fst (coalesce sid Close_coalescer rt) = put_session sid (m\<lparr>ms_coalescer := Some c'\<rparr>) rt"
    using m c' by (simp add: coalesce_def)
  have "close_call n sid backend (put_session sid x rt) =
      (put_session sid x rt, [Return (RUnit (Some (AdapterFailed err)))], [])" for x
    using a by (simp add: close_call_def unit_error_def quit_def put_session_def)
  moreover have "Handle e c' = ([], c')" using closed by (simp add: Handle_def)
  ultimately show ?thesis
    by (simp add: rt1 Let_def ensure_coalescer_def) (simp add: coalesce_def deliver_now_all_def)
qed

theorem failed_close_silences_session_witness:
  "snd (coalesce ''s1'' (Handle (new_event EventTurnComplete))
      (fst (coalesce ''s1'' Close_coalescer (demo_with (ensure_coalescer demo_session))))) = ([], [])"
proof -
  have c: "ms_coalescer (ensure_coalescer demo_session) = Some newDeltaCoalescer"
    by (simp add: ensure_coalescer_def demo_session_def new_managed_def)
  have a: "map_of (rt_adapters (demo_with (ensure_coalescer demo_session))) ''codex'' = Some demo_adapter"
    using demo_adapters by (simp add: demo_with_def put_session_def)
  have f: "ad_CloseSession demo_adapter 0 ''s1'' = Some ''busy''" by (simp add: demo_adapter_def)
  show ?thesis
    using failed_close_silences_session [OF demo_with_get c a f, of "new_event EventTurnComplete"] by (simp add: Let_def)
qed

text \<open>
  A failed submission is reported under the previous turn. The failure event of a submission
  carries no turn identifier, and by then the session is idle, so \<open>deliver\<close> completes it
  with the turn identifier of the provider session, which is the last turn that did run: the
  journal records a failure of a turn that had already ended.
\<close>

theorem failed_submission_blames_previous_turn:
  assumes "get_session rt sid = Some m"
  shows "\<exists>m' e. get_session (fst (failSubmission now sid qid err rt)) sid = Some m'
     \<and> snd (failSubmission now sid qid err rt) = ([Turn (ADeliver sid e)], [])
     \<and> ev_Type e = EventTurnFailed \<and> ev_Message e = err
     \<and> ev_BackendTurnID (complete_event stamp sid m' e) = bs_TurnID (s_BackendSession (ms_session m))"
proof -
  have "ms_active (failed_turn now m) = False" "ms_dispatching (failed_turn now m) = False"
      "ms_activeTurnID (failed_turn now m) = []"
      "s_BackendSession (ms_session (failed_turn now m)) = s_BackendSession (ms_session m)"
    by (simp_all add: failed_turn_def set_status_def Let_def)
  then show ?thesis
    using assms
    by (simp add: failSubmission_def update_session_def complete_event_def current_turn_def new_event_def default_to_def)
qed

theorem failed_submission_blames_previous_turn_witness:
  "\<exists>m' (e :: Event). get_session (fst (failSubmission 2 ''s1'' ''s1:q:1'' ''no agent''
       (demo_with (demo_session\<lparr>ms_session := (ms_session demo_session)\<lparr>s_BackendSession := \<lparr>bs_ID = ''b'', bs_ThreadID = [], bs_TurnID = ''t0''\<rparr>\<rparr>\<rparr>)))) ''s1'' = Some m'
     \<and> ev_BackendTurnID (complete_event ''now'' ''s1'' m' e) = ''t0''"
  using failed_submission_blames_previous_turn [OF demo_with_get, where now = 2 and qid = "''s1:q:1''" and err = "''no agent''"
      and stamp = "''now''" and m = "demo_session\<lparr>ms_session := (ms_session demo_session)\<lparr>s_BackendSession := \<lparr>bs_ID = ''b'', bs_ThreadID = [], bs_TurnID = ''t0''\<rparr>\<rparr>\<rparr>"]
  by auto

end
