(* ===== verification/Runtime_Catalog.thy ===== *)
theory Runtime_Catalog
  imports Runtime_Core
begin

text \<open>
  Provider discovery and the catalog cache of \<open>src/runtime/runtime.go\<close> (1046--1187,
  1508--1589): detecting backends, refreshing their catalogs, and the file
  \<open>model-catalog.json\<close> that keeps the catalogs between processes. A refresh probes every
  provider in a goroutine of its own, so the writes of the cache are steps of an interleaving:
  a save takes the lock \<open>catalogSaveMu\<close>, copies the catalog, writes the file and releases
  the lock.
\<close>

section \<open>The JSON form of a catalog (types.go 18--49)\<close>

definition enc_reasoning :: "BackendReasoning \<Rightarrow> json" where
  "enc_reasoning r =
     JObj ([(''id'', JStr (re_ID r))] @ opt_str ''label'' (re_Label r) @ opt_str ''description'' (re_Description r))"

definition dec_reasoning :: "json \<Rightarrow> BackendReasoning option" where
  "dec_reasoning j =
     (case j of
        JNull \<Rightarrow> Some \<lparr>re_ID = [], re_Label = [], re_Description = []\<rparr>
      | JObj fs \<Rightarrow>
          (case (get_str fs ''id'', get_str fs ''label'', get_str fs ''description'') of
             (Some i, Some l, Some d) \<Rightarrow> Some \<lparr>re_ID = i, re_Label = l, re_Description = d\<rparr>
           | _ \<Rightarrow> None)
      | _ \<Rightarrow> None)"

definition enc_mode :: "BackendPermissionMode \<Rightarrow> json" where
  "enc_mode p =
     JObj ([(''id'', JStr (pm_ID p))] @ opt_str ''label'' (pm_Label p) @ opt_str ''description'' (pm_Description p))"

definition dec_mode :: "json \<Rightarrow> BackendPermissionMode option" where
  "dec_mode j =
     (case j of
        JNull \<Rightarrow> Some \<lparr>pm_ID = [], pm_Label = [], pm_Description = []\<rparr>
      | JObj fs \<Rightarrow>
          (case (get_str fs ''id'', get_str fs ''label'', get_str fs ''description'') of
             (Some i, Some l, Some d) \<Rightarrow> Some \<lparr>pm_ID = i, pm_Label = l, pm_Description = d\<rparr>
           | _ \<Rightarrow> None)
      | _ \<Rightarrow> None)"

definition enc_command :: "BackendSlashCommand \<Rightarrow> json" where
  "enc_command c =
     JObj ([(''name'', JStr (sc_Name c))] @ opt_str ''description'' (sc_Description c)
       @ opt_str ''input_hint'' (sc_InputHint c))"

definition dec_command :: "json \<Rightarrow> BackendSlashCommand option" where
  "dec_command j =
     (case j of
        JNull \<Rightarrow> Some \<lparr>sc_Name = [], sc_Description = [], sc_InputHint = []\<rparr>
      | JObj fs \<Rightarrow>
          (case (get_str fs ''name'', get_str fs ''description'', get_str fs ''input_hint'') of
             (Some n, Some d, Some h) \<Rightarrow> Some \<lparr>sc_Name = n, sc_Description = d, sc_InputHint = h\<rparr>
           | _ \<Rightarrow> None)
      | _ \<Rightarrow> None)"

definition dec_list :: "(json \<Rightarrow> 'a option) \<Rightarrow> json list option \<Rightarrow> 'a list option" where
  "dec_list f vs = (case vs of None \<Rightarrow> None | Some vs \<Rightarrow> map_all f vs)"

text \<open>The reasoning levels of a model have no \<open>omitempty\<close>: a nil slice is written \<open>null\<close>.\<close>

definition enc_model :: "BackendModel \<Rightarrow> json" where
  "enc_model m =
     JObj ([(''id'', JStr (bm_ID m))] @ opt_str ''label'' (bm_Label m)
       @ [(''reasoning'', if bm_Reasoning m = [] then JNull else JArr (map enc_reasoning (bm_Reasoning m)))])"

definition dec_model :: "json \<Rightarrow> BackendModel option" where
  "dec_model j =
     (case j of
        JNull \<Rightarrow> Some \<lparr>bm_ID = [], bm_Label = [], bm_Reasoning = []\<rparr>
      | JObj fs \<Rightarrow>
          (case (get_str fs ''id'', get_str fs ''label'', dec_list dec_reasoning (get_list fs ''reasoning'')) of
             (Some i, Some l, Some rs) \<Rightarrow> Some \<lparr>bm_ID = i, bm_Label = l, bm_Reasoning = rs\<rparr>
           | _ \<Rightarrow> None)
      | _ \<Rightarrow> None)"

definition enc_catalog :: "BackendCatalog \<Rightarrow> json" where
  "enc_catalog c =
     JObj (opt_list ''models'' (map enc_model (cat_Models c))
       @ opt_list ''permission_modes'' (map enc_mode (cat_PermissionModes c))
       @ opt_list ''reasoning'' (map enc_reasoning (cat_Reasoning c))
       @ opt_list ''slash_commands'' (map enc_command (cat_SlashCommands c)))"

definition dec_catalog :: "json \<Rightarrow> BackendCatalog option" where
  "dec_catalog j =
     (case j of
        JNull \<Rightarrow> Some \<lparr>cat_Models = [], cat_PermissionModes = [], cat_Reasoning = [], cat_SlashCommands = []\<rparr>
      | JObj fs \<Rightarrow>
          (case (dec_list dec_model (get_list fs ''models''), dec_list dec_mode (get_list fs ''permission_modes''),
                 dec_list dec_reasoning (get_list fs ''reasoning''), dec_list dec_command (get_list fs ''slash_commands'')) of
             (Some ms, Some ps, Some rs, Some cs) \<Rightarrow>
               Some \<lparr>cat_Models = ms, cat_PermissionModes = ps, cat_Reasoning = rs, cat_SlashCommands = cs\<rparr>
           | _ \<Rightarrow> None)
      | _ \<Rightarrow> None)"

lemma dec_enc_reasoning [simp]: "dec_reasoning (enc_reasoning r) = Some r"
  by (simp add: dec_reasoning_def enc_reasoning_def get_defs codec_simps)

lemma dec_enc_mode [simp]: "dec_mode (enc_mode p) = Some p"
  by (simp add: dec_mode_def enc_mode_def get_defs codec_simps)

lemma dec_enc_command [simp]: "dec_command (enc_command c) = Some c"
  by (simp add: dec_command_def enc_command_def get_defs codec_simps)

lemma dec_list_map [simp]: "(\<And>x. f (g x) = Some x) \<Longrightarrow> dec_list f (Some (map g xs)) = Some xs"
  by (simp add: dec_list_def map_all_map)

lemma dec_list_Nil [simp]: "dec_list f (Some []) = Some []"
  by (simp add: dec_list_def)

lemma dec_enc_model [simp]: "dec_model (enc_model m) = Some m"
  by (simp add: dec_model_def enc_model_def get_defs codec_simps)

lemma dec_enc_catalog [simp]: "dec_catalog (enc_catalog c) = Some c"
  by (simp add: dec_catalog_def enc_catalog_def get_defs codec_simps)

section \<open>The cache file (1508--1568)\<close>

text \<open>
  The file holds the catalogs as one JSON object, keys in order; reading it builds the map key
  by key.
\<close>

definition encode_cache :: "BackendCatalog gomap \<Rightarrow> bytes" where
  "encode_cache m = marshal (JObj (map (\<lambda>(k, c). (k, enc_catalog c)) m))"

fun dec_entries :: "(string \<times> json) list \<Rightarrow> BackendCatalog gomap \<Rightarrow> BackendCatalog gomap option" where
  "dec_entries [] m = Some m"
| "dec_entries ((k, v) # fs) m =
     (case dec_catalog v of None \<Rightarrow> None | Some c \<Rightarrow> dec_entries fs (map_put k c m))"

definition decode_cache :: "bytes \<Rightarrow> BackendCatalog gomap option" where
  "decode_cache raw =
     (case unmarshal raw of
        Some JNull \<Rightarrow> Some [] | Some (JObj fs) \<Rightarrow> dec_entries fs [] | _ \<Rightarrow> None)"

lemma map_put_above: "\<forall>x \<in> set m. fst x < k \<Longrightarrow> map_put k v m = m @ [(k, v)]"
  by (induction m) auto

lemma dec_entries_encoded:
  "sorted_wrt (<) (map fst (acc @ m)) \<Longrightarrow> dec_entries (map (\<lambda>(k, c). (k, enc_catalog c)) m) acc = Some (acc @ m)"
proof (induction m arbitrary: acc)
  case (Cons p m)
  obtain k c where p: "p = (k, c)" by (cases p)
  have "\<forall>x \<in> set acc. fst x < k" using Cons.prems p by (auto simp: sorted_wrt_append)
  then have "map_put k c acc = acc @ [p]" using p by (simp add: map_put_above)
  with Cons.IH [of "acc @ [p]"] Cons.prems p show ?case by simp
qed simp

lemma decode_encode_cache: "map_wf m \<Longrightarrow> decode_cache (encode_cache m) = Some m"
  using dec_entries_encoded [of "[]" m]
  unfolding decode_cache_def encode_cache_def unmarshal_marshal by (simp add: map_wf_def)

text \<open>What the file system answers while the cache is written, in the order of the calls.\<close>

record cache_io =
  ci_MkdirAll :: bool
  ci_CreateTemp :: bool
  ci_Write :: bool
  ci_Chmod :: bool
  ci_Close :: bool
  ci_Rename :: bool

definition cache_written :: "cache_io \<Rightarrow> bool" where
  "cache_written io \<longleftrightarrow>
     ci_MkdirAll io \<and> ci_CreateTemp io \<and> ci_Write io \<and> ci_Chmod io \<and> ci_Close io \<and> ci_Rename io"

text \<open>
  The catalog part of the runtime: the runtime, the file, the lock of the writers and the
  notifications given to \<open>CatalogUpdated\<close>.
\<close>

record catalog_world =
  cw_runtime :: Runtime
  cw_file :: "bytes option"
  cw_saveMu :: bool
  cw_updated :: "(Backend \<times> BackendCatalog) list"

datatype catalog_action =
  CSet Backend BackendCatalog
| CSave
| CWrite bytes cache_io
| CNotify Backend BackendCatalog
| CLoad
| CLoaded "bytes option"
| CRefresh nat

definition setCatalog :: "Backend \<Rightarrow> BackendCatalog \<Rightarrow> Runtime \<Rightarrow> Runtime" where
  "setCatalog backend c rt = rt\<lparr>rt_catalog := map_put backend c (rt_catalog rt)\<rparr>"

definition notifyCatalog :: "Backend \<Rightarrow> BackendCatalog \<Rightarrow> catalog_world \<Rightarrow> catalog_world" where
  "notifyCatalog backend c w =
     (if rt_catalogUpdated (cw_runtime w) then w\<lparr>cw_updated := cw_updated w @ [(backend, c)]\<rparr> else w)"

definition emptyCatalog :: "BackendCatalog \<Rightarrow> bool" where
  "emptyCatalog c \<longleftrightarrow>
     cat_Models c = [] \<and> cat_PermissionModes c = [] \<and> cat_Reasoning c = [] \<and> cat_SlashCommands c = []"

text \<open>\<open>saveCatalogCache\<close>: up to the copy of the catalog, and from the copy to the unlock.\<close>

definition saveCatalogCache :: "cache_io \<Rightarrow> catalog_world \<Rightarrow> catalog_world \<times> catalog_action list" where
  "saveCatalogCache io w =
     (if rt_catalogCacheDir (cw_runtime w) = [] then (w, [])
      else (w\<lparr>cw_saveMu := True\<rparr>, [CWrite (encode_cache (rt_catalog (cw_runtime w))) io]))"

definition write_cache :: "bytes \<Rightarrow> cache_io \<Rightarrow> catalog_world \<Rightarrow> catalog_world" where
  "write_cache raw io w =
     w\<lparr>cw_saveMu := False, cw_file := (if cache_written io then Some raw else cw_file w)\<rparr>"

text \<open>\<open>loadCatalogCache\<close>: up to the file's content, and its use.\<close>

definition loadCatalogCache :: "catalog_world \<Rightarrow> catalog_action list" where
  "loadCatalogCache w =
     (if rt_catalogCacheDir (cw_runtime w) = [] \<or> rt_catalog (cw_runtime w) \<noteq> [] then []
      else [CLoaded (cw_file w)])"

definition use_cache :: "bytes option \<Rightarrow> Runtime \<Rightarrow> Runtime" where
  "use_cache content rt =
     (case Option.bind content decode_cache of
        None \<Rightarrow> rt
      | Some cache \<Rightarrow> if rt_catalog rt = [] then rt\<lparr>rt_catalog := cache\<rparr> else rt)"

section \<open>Detect, refresh and set (1046--1180)\<close>

record CatalogResult =
  cr_Backend :: Backend
  cr_Status :: string
  cr_Detail :: string

definition SetCatalog :: "Backend \<Rightarrow> BackendCatalog \<Rightarrow> catalog_action list" where
  "SetCatalog backend c = (if TrimSpace backend = [] then [] else [CSet backend c, CSave, CNotify backend c])"

text \<open>
  One provider's refresh: its answers at tick \<open>n\<close> decide the result and the steps its
  goroutine then makes.
\<close>

definition refreshCatalogProvider :: "nat \<Rightarrow> adapter \<Rightarrow> CatalogResult \<times> catalog_action list" where
  "refreshCatalogProvider n a =
     (let b = ad_Backend a in
      case ad_Catalog a of
        None \<Rightarrow> (\<lparr>cr_Backend = b, cr_Status = ''skip'', cr_Detail = ''model discovery is unavailable''\<rparr>, [])
      | Some discover \<Rightarrow>
          let status = ad_Detect a n; detail = TrimSpace (st_Error status) in
          if \<not> st_Available status
          then (\<lparr>cr_Backend = b, cr_Status = ''skip'',
                 cr_Detail = (if detail = [] then ''agent is unavailable'' else detail)\<rparr>, [])
          else (case discover n of
                  Inl err \<Rightarrow> (\<lparr>cr_Backend = b, cr_Status = ''fail'', cr_Detail = err\<rparr>, [])
                | Inr c \<Rightarrow>
                    if emptyCatalog c
                    then (\<lparr>cr_Backend = b, cr_Status = ''fail'', cr_Detail = ''agent reported no model configuration''\<rparr>, [])
                    else (\<lparr>cr_Backend = b, cr_Status = ''pass'', cr_Detail = []\<rparr>, [CSet b c, CSave, CNotify b c])))"

definition RefreshCatalog :: "nat \<Rightarrow> Runtime \<Rightarrow> CatalogResult list \<times> catalog_action list list" where
  "RefreshCatalog n rt =
     (let probes = map (\<lambda>(_, a). refreshCatalogProvider n a) (rt_adapters rt) in
      (sort_key cr_Backend (map fst probes), map snd probes))"

definition Detect :: "nat \<Rightarrow> Runtime \<Rightarrow> BackendStatus list" where
  "Detect n rt = sort_key st_Backend (map (\<lambda>(_, a). ad_Detect a n) (rt_adapters rt))"

text \<open>
  \<open>Catalog\<close> loads the file and, with \<open>refresh\<close>, waits for the probes; what it returns is
  the catalog then.
\<close>

definition Catalog :: "nat \<Rightarrow> bool \<Rightarrow> catalog_action list" where
  "Catalog n refresh = CLoad # (if refresh then [CRefresh n] else [])"

section \<open>Steps\<close>

text \<open>A step leaves the world, what its goroutine does next, and the goroutines it starts.\<close>

fun exec_catalog ::
  "cache_io \<Rightarrow> catalog_action \<Rightarrow> catalog_world \<Rightarrow> catalog_world \<times> catalog_action list \<times> catalog_action list list" where
  "exec_catalog io (CSet b c) w = (w\<lparr>cw_runtime := setCatalog b c (cw_runtime w)\<rparr>, [], [])"
| "exec_catalog io CSave w = (case saveCatalogCache io w of (w', acts) \<Rightarrow> (w', acts, []))"
| "exec_catalog io (CWrite raw io') w = (write_cache raw io' w, [], [])"
| "exec_catalog io (CNotify b c) w = (notifyCatalog b c w, [], [])"
| "exec_catalog io CLoad w = (w, loadCatalogCache w, [])"
| "exec_catalog io (CLoaded content) w = (w\<lparr>cw_runtime := use_cache content (cw_runtime w)\<rparr>, [], [])"
| "exec_catalog io (CRefresh n) w = (w, [], snd (RefreshCatalog n (cw_runtime w)))"

text \<open>
  A save waits for the lock; every other step may run at any time. Hosts may call
  \<open>SetCatalog\<close> and \<open>Catalog\<close> at any time. The file system's answers satisfy \<open>fs\<close>.
\<close>

definition catalog_enabled :: "catalog_action \<Rightarrow> catalog_world \<Rightarrow> bool" where
  "catalog_enabled a w \<longleftrightarrow> a \<noteq> CSave \<or> rt_catalogCacheDir (cw_runtime w) = [] \<or> \<not> cw_saveMu w"

record catalog_machine =
  cm_world :: catalog_world
  cm_threads :: "catalog_action list list"

inductive catalog_step :: "(cache_io \<Rightarrow> bool) \<Rightarrow> catalog_machine \<Rightarrow> catalog_machine \<Rightarrow> bool" for fs where
  set_call: "catalog_step fs s (s\<lparr>cm_threads := SetCatalog b c # cm_threads s\<rparr>)"
| catalog_call: "catalog_step fs s (s\<lparr>cm_threads := Catalog n refresh # cm_threads s\<rparr>)"
| refresh_call: "catalog_step fs s (s\<lparr>cm_threads := [CRefresh n] # cm_threads s\<rparr>)"
| run: "cm_threads s = ls @ (a # rest) # rs \<Longrightarrow> catalog_enabled a (cm_world s) \<Longrightarrow> fs io \<Longrightarrow>
    exec_catalog io a (cm_world s) = (w, acts, spawned) \<Longrightarrow>
    catalog_step fs s \<lparr>cm_world = w, cm_threads = ls @ (acts @ rest) # rs @ spawned\<rparr>"

inductive_cases catalog_stepE: "catalog_step fs s s'"

text \<open>A new runtime over a home directory whose cache file has some content.\<close>

definition catalog_start :: "Config \<Rightarrow> adapter option list \<Rightarrow> bytes option \<Rightarrow> catalog_machine" where
  "catalog_start cf as file =
     \<lparr>cm_world = \<lparr>cw_runtime = New_runtime cf as, cw_file = file, cw_saveMu = False, cw_updated = []\<rparr>,
      cm_threads = []\<rparr>"

definition catalog_reachable ::
  "(cache_io \<Rightarrow> bool) \<Rightarrow> Config \<Rightarrow> adapter option list \<Rightarrow> bytes option \<Rightarrow> catalog_machine \<Rightarrow> bool" where
  "catalog_reachable fs cf as file s \<longleftrightarrow> (catalog_step fs)\<^sup>*\<^sup>* (catalog_start cf as file) s"

section \<open>The cache converges\<close>

fun is_write :: "catalog_action \<Rightarrow> bool" where
  "is_write (CWrite raw io) = True"
| "is_write a = False"

text \<open>Shape of the goroutines: a set is followed by a save, and until one set ran none saves.\<close>

fun saves_after :: "catalog_action list \<Rightarrow> bool" where
  "saves_after [] = True"
| "saves_after (CSet b c # t) = (CSave \<in> set t \<and> saves_after t)"
| "saves_after (a # t) = saves_after t"

fun set_first :: "catalog_action list \<Rightarrow> bool" where
  "set_first [] = True"
| "set_first (CSet b c # t) = True"
| "set_first (CSave # t) = False"
| "set_first (a # t) = set_first t"

definition cache_sync :: "bytes option \<Rightarrow> catalog_world \<Rightarrow> catalog_action list list \<Rightarrow> bool" where
  "cache_sync file w ts \<longleftrightarrow>
     rt_catalogCacheDir (cw_runtime w) \<noteq> [] \<and> map_wf (rt_catalog (cw_runtime w))
     \<and> (\<forall>t \<in> set ts. saves_after t)
     \<and> length (filter is_write (concat ts)) = (if cw_saveMu w then 1 else 0)
     \<and> (\<forall>raw io. CWrite raw io \<in> set (concat ts) \<longrightarrow> cache_written io)
     \<and> (if rt_catalog (cw_runtime w) = []
        then cw_file w = file \<and> \<not> cw_saveMu w \<and> (\<forall>t \<in> set ts. set_first t) \<and> (\<forall>c. CLoaded c \<in> set (concat ts) \<longrightarrow> c = file)
        else CSave \<in> set (concat ts)
           \<or> (\<exists>raw io. CWrite raw io \<in> set (concat ts) \<and> decode_cache raw = Some (rt_catalog (cw_runtime w)))
           \<or> (filter is_write (concat ts) = [] \<and> Option.bind (cw_file w) decode_cache = Some (rt_catalog (cw_runtime w))))"

lemma map_put_neq_Nil [simp]: "map_put k v m \<noteq> []"
  by (cases m) (auto split: if_splits prod.splits)

lemma map_wf_decode:
  assumes "decode_cache raw = Some m"
  shows "map_wf m"
proof -
  have "dec_entries fs acc = Some m \<Longrightarrow> map_wf acc \<Longrightarrow> map_wf m" for fs acc
    by (induction fs acc rule: dec_entries.induct) (auto simp: map_wf_put split: option.splits)
  then show ?thesis
    using assms by (force simp: decode_cache_def map_wf_def split: option.splits json.splits)
qed

lemma refresh_threads:
  "t \<in> set (snd (RefreshCatalog n rt)) \<Longrightarrow> t = [] \<or> (\<exists>b c. t = [CSet b c, CSave, CNotify b c])"
  by (auto simp: RefreshCatalog_def refreshCatalogProvider_def Let_def split: option.splits sum.splits if_splits)

text \<open>Adding goroutines that hold no lock and obey the shape keeps the invariant.\<close>

definition fresh_thread :: "catalog_action list \<Rightarrow> bool" where
  "fresh_thread t \<longleftrightarrow> saves_after t \<and> set_first t \<and> (\<forall>a \<in> set t. \<not> is_write a \<and> (\<forall>c. a \<noteq> CLoaded c))"

lemma no_writes: "(\<forall>a \<in> set t. \<not> is_write a) \<Longrightarrow> filter is_write t = []"
  by (simp add: filter_empty_conv)

lemma cache_sync_spawn:
  assumes "cache_sync file w (ls @ rs)" and "\<forall>t \<in> set new. fresh_thread t"
  shows "cache_sync file w (ls @ new @ rs)"
proof -
  have "filter is_write (concat new) = []"
    using assms(2) by (auto simp: filter_empty_conv fresh_thread_def)
  moreover have "CWrite raw io \<notin> set (concat new)" "CLoaded c \<notin> set (concat new)" for raw io c
    using assms(2) by (force simp: fresh_thread_def)+
  moreover have "\<forall>t \<in> set new. saves_after t \<and> set_first t"
    using assms(2) by (simp add: fresh_thread_def)
  ultimately show ?thesis
    using assms(1) by (auto simp: cache_sync_def simp del: set_concat)
qed

lemma cache_sync_pop:
  assumes "cache_sync file w (ls @ (a # rest) # rs)" and "a \<noteq> CSave" and "\<not> is_write a" and "\<forall>b c. a \<noteq> CSet b c"
  shows "cache_sync file w (ls @ rest # rs)"
  using assms by (cases a) (simp_all add: cache_sync_def del: set_concat split: if_split_asm)

lemma cache_sync_fields:
  assumes "cache_sync file w ts" and "cw_runtime w' = cw_runtime w" and "cw_file w' = cw_file w"
    and "cw_saveMu w' = cw_saveMu w"
  shows "cache_sync file w' ts"
  using assms(1) unfolding cache_sync_def assms(2-4) .

lemma cache_sync_run:
  assumes inv: "cache_sync file w (ls @ (a # rest) # rs)" and en: "catalog_enabled a w"
    and ok: "cache_written io" and ex: "exec_catalog io a w = (w', acts, spawned)"
  shows "cache_sync file w' (ls @ (acts @ rest) # rs)"
proof (cases a)
  case (CSet b c)
  have "CSave \<in> set rest" "saves_after rest" "map_wf (map_put b c (rt_catalog (cw_runtime w)))"
    using inv CSet by (simp_all add: cache_sync_def map_wf_put del: set_concat)
  moreover have "w' = w\<lparr>cw_runtime := setCatalog b c (cw_runtime w)\<rparr>" "acts = []" using CSet ex by simp_all
  ultimately show ?thesis
    using inv CSet by (simp add: cache_sync_def setCatalog_def del: set_concat)
next
  case CSave
  let ?raw = "encode_cache (rt_catalog (cw_runtime w))"
  have dec: "decode_cache ?raw = Some (rt_catalog (cw_runtime w))" and dir: "rt_catalogCacheDir (cw_runtime w) \<noteq> []"
    using inv by (simp_all add: cache_sync_def decode_encode_cache)
  then have w': "w' = w\<lparr>cw_saveMu := True\<rparr>" "acts = [CWrite ?raw io]" and free: "\<not> cw_saveMu w"
    using CSave ex en by (simp_all add: saveCatalogCache_def catalog_enabled_def)
  have none: "filter is_write (concat (ls @ rest # rs)) = []" and some: "rt_catalog (cw_runtime w) \<noteq> []"
    using inv CSave free by (auto simp add: cache_sync_def simp del: set_concat split: if_split_asm)
  have "\<exists>raw io. CWrite raw io \<in> set (concat (ls @ (acts @ rest) # rs))
      \<and> decode_cache raw = Some (rt_catalog (cw_runtime w))"
    using dec w'(2) by auto
  moreover have "\<forall>raw io. CWrite raw io \<in> set (concat (ls @ (acts @ rest) # rs)) \<longrightarrow> cache_written io"
    using inv CSave w'(2) ok by (simp add: cache_sync_def del: set_concat)
  ultimately show ?thesis
    using inv CSave none some unfolding w'(1) cache_sync_def
    by (intro conjI) (simp_all add: w'(2) del: set_concat)
next
  case (CWrite raw io')
  have mu: "cw_saveMu w" and none: "filter is_write (concat (ls @ rest # rs)) = []" and written: "cache_written io'"
    using inv CWrite by (simp_all add: cache_sync_def del: set_concat split: if_splits)
  then have only: "CWrite x y \<notin> set (concat (ls @ rest # rs))" for x y
    by (metis (mono_tags, lifting) filter_empty_conv is_write.simps(1))
  have w': "w' = w\<lparr>cw_saveMu := False, cw_file := Some raw\<rparr>" "acts = []"
    using CWrite ex written by (simp_all add: write_cache_def)
  have "rt_catalog (cw_runtime w) \<noteq> []" using inv mu by (auto simp: cache_sync_def split: if_splits)
  then show ?thesis
    using inv CWrite none only unfolding w'
    by (simp add: cache_sync_def del: set_concat)
next
  case (CNotify b c)
  then show ?thesis
    using cache_sync_fields [OF cache_sync_pop [OF inv]] ex by (auto simp: notifyCatalog_def)
next
  case CLoad
  then show ?thesis
    using inv ex by (auto simp: cache_sync_def loadCatalogCache_def simp del: set_concat split: if_splits)
next
  case (CLoaded content)
  have keep: "cache_sync file w (ls @ rest # rs)"
    using CLoaded by (intro cache_sync_pop [OF inv]) simp_all
  show ?thesis
  proof (cases "rt_catalog (cw_runtime w) = [] \<and> Option.bind content decode_cache \<noteq> None")
    case True
    then obtain cache where cache: "Option.bind content decode_cache = Some cache" by blast
    then have "map_wf cache" by (auto simp: Option.bind_eq_Some_conv map_wf_decode)
    moreover have "content = cw_file w" "filter is_write (concat (ls @ rest # rs)) = []"
      using inv True CLoaded by (auto simp: cache_sync_def simp del: set_concat)
    ultimately show ?thesis
      using keep True cache CLoaded ex
      by (auto simp: cache_sync_def use_cache_def simp del: set_concat split: if_splits)
  next
    case False
    then have "w' = w" "acts = []"
      using CLoaded ex by (auto simp: use_cache_def split: option.splits)
    with keep show ?thesis by simp
  qed
next
  case (CRefresh n)
  then show ?thesis
    using cache_sync_pop [OF inv] ex by auto
qed

lemma cache_sync_spawned:
  assumes "exec_catalog io a w = (w', acts, spawned)"
  shows "\<forall>t \<in> set spawned. fresh_thread t"
  using assms refresh_threads
  by (cases a) (auto simp: fresh_thread_def split: prod.splits dest!: refresh_threads)

lemma fresh_calls:
  "fresh_thread (SetCatalog b c)" "fresh_thread (Catalog n refresh)" "fresh_thread [CRefresh n]"
  by (auto simp: fresh_thread_def SetCatalog_def Catalog_def)

lemma cache_sync_step:
  assumes "catalog_step cache_written s s'" and inv: "cache_sync file (cm_world s) (cm_threads s)"
  shows "cache_sync file (cm_world s') (cm_threads s')"
  using assms(1)
proof (cases rule: catalog_step.cases)
  case (set_call b c)
  then show ?thesis using cache_sync_spawn [where ls = "[]" and rs = "cm_threads s" and new = "[SetCatalog b c]"] inv fresh_calls by simp
next
  case (catalog_call n refresh)
  then show ?thesis
    using cache_sync_spawn [where ls = "[]" and rs = "cm_threads s" and new = "[Catalog n refresh]"] inv fresh_calls by simp
next
  case (refresh_call n)
  then show ?thesis using cache_sync_spawn [where ls = "[]" and rs = "cm_threads s" and new = "[[CRefresh n]]"] inv fresh_calls by simp
next
  case (run ls a rest rs io w acts spawned)
  have "cache_sync file w ((ls @ (acts @ rest) # rs) @ [])"
    using cache_sync_run run inv by simp
  from cache_sync_spawn [OF this cache_sync_spawned [OF run(5)]] show ?thesis
    using run by simp
qed

text \<open>
  C36: the catalog cache converges, in any interleaving. Let a new runtime with a cache directory
  run any number of refreshes, \<open>SetCatalog\<close> and \<open>Catalog\<close> calls, whose saves all reach the
  disk. Whenever no save is under way or still to come, the cache file holds exactly the catalogs in
  memory: reading it gives them back. (When there are none in memory, the file is as it was.)
\<close>

theorem cache_converges:
  assumes "catalog_reachable cache_written cf as file s" and "TrimSpace (cn_CatalogCacheDir cf) \<noteq> []"
    and quiet: "CSave \<notin> set (concat (cm_threads s))" "\<not> cw_saveMu (cm_world s)"
  shows "if rt_catalog (cw_runtime (cm_world s)) = [] then cw_file (cm_world s) = file
         else Option.bind (cw_file (cm_world s)) decode_cache = Some (rt_catalog (cw_runtime (cm_world s)))"
proof -
  have "cache_sync file (cm_world s) (cm_threads s)"
    using assms(1) unfolding catalog_reachable_def
  proof (induction rule: rtranclp_induct)
    case base
    show ?case
      using assms(2) by (simp add: cache_sync_def catalog_start_def New_runtime_def map_wf_def)
  next
    case (step s s')
    then show ?case using cache_sync_step by blast
  qed
  then show ?thesis
    using quiet by (auto simp: cache_sync_def filter_empty_conv simp del: set_concat split: if_splits)
qed


definition demo_catalog :: BackendCatalog where
  "demo_catalog = \<lparr>cat_Models = [\<lparr>bm_ID = ''m'', bm_Label = [], bm_Reasoning = []\<rparr>],
     cat_PermissionModes = [], cat_Reasoning = [], cat_SlashCommands = []\<rparr>"

definition cache_config :: Config where
  "cache_config = \<lparr>cn_Journal = None, cn_EventSink = False, cn_TurnDispatched = None, cn_TurnSubmitted = False,
     cn_MaxQueuedTurns = 0, cn_CatalogCacheDir = ''/h'', cn_CatalogUpdated = False,
     cn_DisableCoalescing = False, cn_DisableJournalWrites = False\<rparr>"

definition good_io :: cache_io where
  "good_io = \<lparr>ci_MkdirAll = True, ci_CreateTemp = True, ci_Write = True, ci_Chmod = True, ci_Close = True,
     ci_Rename = True\<rparr>"

lemma cache_config_dir: "TrimSpace (cn_CatalogCacheDir cache_config) = ''/h''"
  by code_simp

text \<open>The steps of one goroutine, run without interruption.\<close>

fun run_thread :: "nat \<Rightarrow> cache_io \<Rightarrow> catalog_action list \<Rightarrow> catalog_world \<Rightarrow> catalog_world" where
  "run_thread 0 io t w = w"
| "run_thread (Suc n) io [] w = w"
| "run_thread (Suc n) io (a # t) w =
     (case exec_catalog io a w of (w', acts, spawned) \<Rightarrow> run_thread n io (acts @ t) w')"

lemma run_SetCatalog:
  assumes "rt_catalogCacheDir (cw_runtime w) \<noteq> []" and "TrimSpace b \<noteq> []" and "cache_written io"
  shows "run_thread 5 io (SetCatalog b c) w =
    notifyCatalog b c (w\<lparr>cw_runtime := setCatalog b c (cw_runtime w), cw_saveMu := False,
      cw_file := Some (encode_cache (map_put b c (rt_catalog (cw_runtime w))))\<rparr>)"
  using assms
  by (simp add: eval_nat_numeral SetCatalog_def saveCatalogCache_def write_cache_def setCatalog_def)

text \<open>
  A catalog set before the first \<open>Catalog\<close> call erases the cached catalogs of the other
  providers. On a new runtime with a cache directory, whatever the cache file held, \<open>SetCatalog\<close>
  writes a file with only its own entry, and a later \<open>Catalog\<close> does not load anything.
\<close>

theorem early_set_erases_cache:
  assumes "TrimSpace (cn_CatalogCacheDir cf) \<noteq> []" and "TrimSpace b \<noteq> []" and "cache_written io"
  shows "let w = run_thread 5 io (SetCatalog b c) (cm_world (catalog_start cf as file)) in
     Option.bind (cw_file w) decode_cache = Some [(b, c)] \<and> loadCatalogCache w = []"
proof -
  let ?w = "cm_world (catalog_start cf as file)"
  have w: "rt_catalogCacheDir (cw_runtime ?w) \<noteq> []" "rt_catalog (cw_runtime ?w) = []"
    using assms(1) by (simp_all add: catalog_start_def New_runtime_def)
  have "decode_cache (encode_cache [(b, c)]) = Some [(b, c)]"
    by (rule decode_encode_cache) (simp add: map_wf_def)
  then show ?thesis
    using w by (simp add: run_SetCatalog [OF w(1) assms(2,3)] Let_def notifyCatalog_def loadCatalogCache_def setCatalog_def)
qed

theorem early_set_erases_cache_witness:
  "let old = Some (encode_cache [(''claude'', demo_catalog)]);
       w = run_thread 5 good_io (SetCatalog ''codex'' demo_catalog) (cm_world (catalog_start cache_config [] old)) in
   Option.bind old decode_cache = Some [(''claude'', demo_catalog)]
   \<and> Option.bind (cw_file w) decode_cache = Some [(''codex'', demo_catalog)] \<and> loadCatalogCache w = []"
proof -
  have "decode_cache (encode_cache [(''claude'', demo_catalog)]) = Some [(''claude'', demo_catalog)]"
    by (rule decode_encode_cache) (simp add: map_wf_def)
  moreover have "TrimSpace ''codex'' \<noteq> []" by code_simp
  ultimately show ?thesis
    using early_set_erases_cache [of cache_config "''codex''" good_io demo_catalog "[]"] cache_config_dir
    by (simp add: Let_def good_io_def cache_written_def)
qed

lemma alone_step:
  assumes "exec_catalog io a w = (w', acts, [])" and "catalog_enabled a w" and "fs io"
  shows "catalog_step fs \<lparr>cm_world = w, cm_threads = [a # rest]\<rparr> \<lparr>cm_world = w', cm_threads = [acts @ rest]\<rparr>"
  using catalog_step.run [of "\<lparr>cm_world = w, cm_threads = [a # rest]\<rparr>" "[]" a rest "[]" fs io w' acts "[]"] assms
  by simp

text \<open>One host call to \<open>SetCatalog\<close> and the steps of its goroutine.\<close>

lemma demo_cache_reachable:
  "\<exists>s. catalog_reachable cache_written cache_config [] file s \<and> CSave \<notin> set (concat (cm_threads s))
    \<and> \<not> cw_saveMu (cm_world s) \<and> rt_catalog (cw_runtime (cm_world s)) = [(''codex'', demo_catalog)]"
proof -
  let ?s0 = "catalog_start cache_config [] file"
  define w0 where "w0 = cm_world ?s0"
  define b where "b = ''codex''"
  define w1 where "w1 = w0\<lparr>cw_runtime := setCatalog b demo_catalog (cw_runtime w0)\<rparr>"
  define raw where "raw = encode_cache [(b, demo_catalog)]"
  have io: "cache_written good_io" by (simp add: good_io_def cache_written_def)
  have dir: "rt_catalogCacheDir (cw_runtime w1) \<noteq> []" "\<not> cw_saveMu w1" "rt_catalog (cw_runtime w1) = [(b, demo_catalog)]"
    by (simp_all add: w1_def w0_def catalog_start_def New_runtime_def cache_config_dir setCatalog_def)
  have "TrimSpace b \<noteq> []" unfolding b_def by code_simp
  then have s1: "catalog_step cache_written ?s0 \<lparr>cm_world = w0, cm_threads = [[CSet b demo_catalog, CSave, CNotify b demo_catalog]]\<rparr>"
    using catalog_step.set_call [of cache_written ?s0 b demo_catalog] by (simp add: SetCatalog_def catalog_start_def w0_def)
  have s2: "catalog_step cache_written \<lparr>cm_world = w0, cm_threads = [[CSet b demo_catalog, CSave, CNotify b demo_catalog]]\<rparr>
      \<lparr>cm_world = w1, cm_threads = [[CSave, CNotify b demo_catalog]]\<rparr>"
    using alone_step [of good_io "CSet b demo_catalog" w0 w1 "[]" cache_written] io by (simp add: catalog_enabled_def w1_def)
  have s3: "catalog_step cache_written \<lparr>cm_world = w1, cm_threads = [[CSave, CNotify b demo_catalog]]\<rparr>
      \<lparr>cm_world = w1\<lparr>cw_saveMu := True\<rparr>, cm_threads = [[CWrite raw good_io, CNotify b demo_catalog]]\<rparr>"
    using alone_step [of good_io CSave w1 "w1\<lparr>cw_saveMu := True\<rparr>" "[CWrite raw good_io]" cache_written] io dir
    by (simp add: catalog_enabled_def saveCatalogCache_def raw_def)
  define w2 where "w2 = write_cache raw good_io (w1\<lparr>cw_saveMu := True\<rparr>)"
  have s4: "catalog_step cache_written \<lparr>cm_world = w1\<lparr>cw_saveMu := True\<rparr>, cm_threads = [[CWrite raw good_io, CNotify b demo_catalog]]\<rparr>
      \<lparr>cm_world = w2, cm_threads = [[CNotify b demo_catalog]]\<rparr>"
    using alone_step [of good_io "CWrite raw good_io" "w1\<lparr>cw_saveMu := True\<rparr>" w2 "[]" cache_written] io
    by (simp add: catalog_enabled_def w2_def)
  have "catalog_reachable cache_written cache_config [] file \<lparr>cm_world = w2, cm_threads = [[CNotify b demo_catalog]]\<rparr>"
    using s1 s2 s3 s4 unfolding catalog_reachable_def by (meson rtranclp.rtrancl_into_rtrancl rtranclp.rtrancl_refl)
  moreover have "\<not> cw_saveMu w2 \<and> rt_catalog (cw_runtime w2) = [(''codex'', demo_catalog)]"
    using dir by (simp add: w2_def write_cache_def b_def)
  ultimately show ?thesis
    by (intro exI [of _ "\<lparr>cm_world = w2, cm_threads = [[CNotify b demo_catalog]]\<rparr>"]) simp
qed

theorem cache_converges_witness:
  "\<exists>s. catalog_reachable cache_written cache_config [] None s
    \<and> Option.bind (cw_file (cm_world s)) decode_cache = Some [(''codex'', demo_catalog)]"
proof -
  obtain s where s: "catalog_reachable cache_written cache_config [] None s" "CSave \<notin> set (concat (cm_threads s))"
    "\<not> cw_saveMu (cm_world s)" "rt_catalog (cw_runtime (cm_world s)) = [(''codex'', demo_catalog)]"
    using demo_cache_reachable by blast
  then show ?thesis
    using cache_converges [OF s(1) _ s(2,3)] cache_config_dir by auto
qed

end
