(* ===== verification/Tool_Display.thy ===== *)
theory Tool_Display
  imports Host_Types
begin

text \<open>
  The tool display of \<open>src/adapters/acpx/display.go\<close>: the untyped payload of an ACP
  tool call, of a permission request or of a Codex item becomes the host's \<open>ToolDisplay\<close>. A
  payload is a JSON object; nil and the empty object are read alike, as the code's \<open>mapValue\<close>
  and \<open>stringValue\<close> do.
\<close>

section \<open>Reading payloads (396--431)\<close>

text \<open>\<open>stringValue\<close> and \<open>mapValue\<close> are the JSON theory's accessors.\<close>

abbreviation stringValue :: "payload \<Rightarrow> string \<Rightarrow> string" where
  "stringValue \<equiv> str_at"

abbreviation mapValue :: "payload \<Rightarrow> string \<Rightarrow> payload" where
  "mapValue \<equiv> obj_at"

fun value_at :: "any \<Rightarrow> string list \<Rightarrow> any option" where
  "value_at v [] = Some v"
| "value_at (JObj m) (k # ks) = value_at (any_at m k) ks"
| "value_at _ (k # ks) = None"

definition stringAtValue :: "payload \<Rightarrow> string list \<Rightarrow> string" where
  "stringAtValue data path = (case value_at (JObj data) path of Some (JStr s) \<Rightarrow> s | _ \<Rightarrow> [])"

definition anyValues :: "any \<Rightarrow> any list" where
  "anyValues raw = (case raw of JArr vs \<Rightarrow> vs | _ \<Rightarrow> [])"

definition firstString :: "payload \<Rightarrow> string list \<Rightarrow> string" where
  "firstString data keys =
     (case filter (\<lambda>k. TrimSpace (stringValue data k) \<noteq> []) keys of
        [] \<Rightarrow> [] | k # _ \<Rightarrow> TrimSpace (stringValue data k))"

definition FirstNonEmpty :: "string list \<Rightarrow> string" where
  "FirstNonEmpty vs = (case filter (\<lambda>v. TrimSpace v \<noteq> []) vs of [] \<Rightarrow> [] | v # _ \<Rightarrow> v)"

text \<open>
  A loop over keys that returns the trimmed value of the first key with a value that is not
  empty: a value of spaces alone ends the loop too.
\<close>

fun first_value :: "payload \<Rightarrow> string list \<Rightarrow> string" where
  "first_value data [] = []"
| "first_value data (k # ks) =
     (if stringValue data k \<noteq> [] then TrimSpace (stringValue data k) else first_value data ks)"

text \<open>A loop over places to look that returns the first result that is not empty.\<close>

fun first_found :: "('a \<Rightarrow> string) \<Rightarrow> 'a list \<Rightarrow> string" where
  "first_found f [] = []"
| "first_found f (x # xs) = (if f x \<noteq> [] then f x else first_found f xs)"

definition nested_keys :: "string list" where
  "nested_keys = [''args'', ''arguments'', ''input'', ''rawInput'']"

text \<open>
  \<open>strings.EqualFold\<close> against an ASCII literal: ASCII case, and the two code points outside
  ASCII that fold to a letter (U+017F to \<open>s\<close>, U+212A to \<open>k\<close>).
\<close>

fun fold_ascii :: "string \<Rightarrow> string" where
  "fold_ascii (a # b # c # s) =
     (if a = CHR 0xC5 \<and> b = CHR 0xBF then CHR ''s'' # fold_ascii (c # s)
      else if a = CHR 0xE2 \<and> b = CHR 0x84 \<and> c = CHR 0xAA then CHR ''k'' # fold_ascii s
      else lower_char a # fold_ascii (b # c # s))"
| "fold_ascii [a, b] =
     (if a = CHR 0xC5 \<and> b = CHR 0xBF then [CHR ''s''] else [lower_char a, lower_char b])"
| "fold_ascii [a] = [lower_char a]"
| "fold_ascii [] = []"

definition EqualFold :: "string \<Rightarrow> string \<Rightarrow> bool" where
  "EqualFold s literal \<longleftrightarrow> fold_ascii s = fold_ascii literal"

section \<open>Vocabularies (177--248)\<close>

definition tool_kinds :: "string list" where
  "tool_kinds = [''read'', ''edit'', ''delete'', ''move'', ''search'', ''execute'', ''think'', ''fetch'', ''other'']"

definition NormalizeToolKind :: "string \<Rightarrow> string" where
  "NormalizeToolKind kind =
     (let k = ToLower (TrimSpace kind) in
      if k \<in> set tool_kinds then k
      else if k \<in> {''switch_mode'', ''switchmode''} then ''other''
      else if k \<in> {''shell'', ''bash'', ''command'', ''commandexecution'', ''command execution''} then ''execute''
      else if k \<in> {''filechange'', ''file change'', ''write''} then ''edit''
      else [])"

definition NormalizeToolStatus :: "string \<Rightarrow> string" where
  "NormalizeToolStatus status =
     (let s = ToLower (TrimSpace status) in
      if s = ''pending'' then ''pending''
      else if s \<in> {''in_progress'', ''in-progress'', ''running'', ''started''} then ''in_progress''
      else if s \<in> {''completed'', ''complete'', ''done'', ''ok'', ''success'', ''allow'', ''allowed'', ''approved''}
      then ''completed''
      else if s \<in> {''failed'', ''failure'', ''error'', ''cancelled'', ''canceled'', ''denied'', ''deny'', ''rejected''}
      then ''failed''
      else [])"

definition DefaultToolTitle :: "string \<Rightarrow> string \<Rightarrow> string" where
  "DefaultToolTitle kind command =
     (if kind = ''execute'' then (if command \<noteq> [] then command else ''command'')
      else if kind = ''read'' then ''read''
      else if kind = ''edit'' then ''edit''
      else if kind = ''search'' then ''search''
      else if kind = ''fetch'' then ''fetch''
      else if kind = ''think'' then ''thinking''
      else [])"

section \<open>Titles, commands and targets (140--175, 265--335)\<close>

text \<open>
  \<open>mapValue\<close> never returns nil, so the test \<open>title != nil\<close> after it always succeeds and the
  last return of the function is never reached.
\<close>

definition toolDisplayTitle :: "payload \<Rightarrow> string" where
  "toolDisplayTitle data =
     (if stringValue data ''title'' \<noteq> [] then TrimSpace (stringValue data ''title'')
      else if data = [] then []
      else TrimSpace (firstString (mapValue data ''title'') [''name'', ''toolName'', ''tool_name'']))"

definition toolDisplayCommand :: "payload \<Rightarrow> string" where
  "toolDisplayCommand data =
     (if stringValue data ''command'' \<noteq> [] then TrimSpace (stringValue data ''command'')
      else case filter (\<lambda>k. stringValue (mapValue data k) ''command'' \<noteq> []) nested_keys of
        [] \<Rightarrow> [] | k # _ \<Rightarrow> TrimSpace (stringValue (mapValue data k) ''command''))"

definition directToolDisplayTarget :: "payload \<Rightarrow> string" where
  "directToolDisplayTarget data =
     first_value data [''target'', ''path'', ''file'', ''filePath'', ''file_path'', ''url'', ''uri'', ''query'', ''pattern'']"

definition change_paths :: "payload \<Rightarrow> string list" where
  "change_paths raw = filter (\<lambda>p. p \<noteq> []) (map (\<lambda>f. TrimSpace (fst f)) raw)"

fun changes_target :: "string list \<Rightarrow> string" where
  "changes_target [] = []"
| "changes_target [p] = p"
| "changes_target ps = show_nat (length ps) @ '' files''"

definition fileChangesTarget :: "payload \<Rightarrow> string" where
  "fileChangesTarget data =
     first_found (\<lambda>k. changes_target (change_paths (mapValue data k))) [''fileChanges'', ''changes'']"

definition nested_target :: "payload \<Rightarrow> string" where
  "nested_target m = (if directToolDisplayTarget m \<noteq> [] then directToolDisplayTarget m else fileChangesTarget m)"

definition ToolDisplayTarget :: "payload \<Rightarrow> string" where
  "ToolDisplayTarget data =
     (if nested_target data \<noteq> [] then nested_target data
      else if first_found (\<lambda>k. nested_target (mapValue data k)) nested_keys \<noteq> []
      then first_found (\<lambda>k. nested_target (mapValue data k)) nested_keys
      else case anyValues (any_at data ''locations'') of
        JObj location # _ \<Rightarrow> TrimSpace (firstString location [''path'', ''uri'', ''url''])
      | _ \<Rightarrow> [])"

section \<open>Mode switches (345--394)\<close>

definition humanModeLabel :: "string \<Rightarrow> string" where
  "humanModeLabel modeID =
     (let m = ToLower (TrimSpace modeID) in
      if m = ''plan'' then ''plan''
      else if m = ''agent'' \<or> m = ''default'' then ''agent''
      else if m = ''ask'' then ''ask''
      else if m = ''debug'' then ''debug''
      else TrimSpace modeID)"

definition switchModeTitle :: "string \<Rightarrow> string" where
  "switchModeTitle modeID =
     (if humanModeLabel modeID = [] then ''Switch mode'' else ''Switch to '' @ humanModeLabel modeID @ '' mode'')"

lemma size_obj_at: "obj_at m k \<noteq> [] \<Longrightarrow> size (JObj (obj_at m k)) < size (JObj m)"
proof -
  have "map_of m k = Some v \<Longrightarrow> size v < size (JObj m)" for v
    by (induction m) (auto split: if_splits)
  then show "obj_at m k \<noteq> [] \<Longrightarrow> size (JObj (obj_at m k)) < size (JObj m)"
    by (auto simp: obj_at_def split: option.splits json.splits)
qed

text \<open>The search goes into the nested payloads, and ends because each is a part of its parent.\<close>

function toolModeTargetID :: "payload \<Rightarrow> string" where
  "toolModeTargetID data =
     (let own = firstString data [''target_mode_id'', ''targetModeId'', ''modeId'', ''mode_id''] in
      if data = [] then []
      else if own \<noteq> [] then own
      else first_found (\<lambda>k. if mapValue data k = [] then [] else toolModeTargetID (mapValue data k)) nested_keys)"
  by pat_completeness auto
termination
  by (relation "measure (\<lambda>m. size (JObj m))") (use size_obj_at in auto)

declare toolModeTargetID.simps [simp del]

definition isSwitchModeDisplay :: "string \<Rightarrow> payload \<Rightarrow> bool" where
  "isSwitchModeDisplay title toolCall \<longleftrightarrow>
     EqualFold (TrimSpace (stringValue toolCall ''kind'')) ''switch_mode''
     \<or> prefix ''switch mode'' (ToLower (TrimSpace title))"

definition polishSwitchModeDisplay :: "payload \<Rightarrow> ToolDisplay \<Rightarrow> ToolDisplay" where
  "polishSwitchModeDisplay toolCall d =
     (let modeID = toolModeTargetID toolCall in
      if modeID = [] \<or> \<not> isSwitchModeDisplay (td_Title d) toolCall then d
      else d\<lparr>td_Title := switchModeTitle modeID, td_Kind := (if td_Kind d = [] then ''other'' else td_Kind d)\<rparr>)"

section \<open>Displays (12--138, 250--263)\<close>

definition update_source :: "payload \<Rightarrow> payload" where
  "update_source data = (if mapValue data ''update'' \<noteq> [] then mapValue data ''update'' else data)"

definition tool_call_of :: "payload \<Rightarrow> payload" where
  "tool_call_of source =
     (if mapValue source ''toolCall'' \<noteq> [] then mapValue source ''toolCall''
      else if mapValue source ''toolCallUpdate'' \<noteq> [] then mapValue source ''toolCallUpdate''
      else source)"

definition or_else :: "string \<Rightarrow> string \<Rightarrow> string" where
  "or_else s t = (if s = [] then t else s)"

definition acp_kind :: "payload \<Rightarrow> payload \<Rightarrow> string" where
  "acp_kind toolCall source =
     or_else (NormalizeToolKind (stringAtValue toolCall [''kind''])) (NormalizeToolKind (stringAtValue source [''kind'']))"

definition acp_target :: "payload \<Rightarrow> payload \<Rightarrow> string" where
  "acp_target toolCall source = or_else (ToolDisplayTarget toolCall) (ToolDisplayTarget source)"

definition acp_title :: "payload \<Rightarrow> payload \<Rightarrow> string" where
  "acp_title toolCall source =
     (let named = or_else (toolDisplayTitle toolCall) (toolDisplayTitle source);
          title = or_else named (DefaultToolTitle (acp_kind toolCall source) (toolDisplayCommand toolCall));
          modeID = toolModeTargetID toolCall in
      if title = [] \<and> modeID \<noteq> [] \<and> EqualFold (TrimSpace (stringValue toolCall ''kind'')) ''switch_mode''
      then switchModeTitle modeID else title)"

definition acp_id :: "payload \<Rightarrow> payload \<Rightarrow> string" where
  "acp_id toolCall source =
     (let ids = [''toolCallId'', ''tool_call_id'', ''id''] in
      FirstNonEmpty [firstString toolCall ids, firstString source ids])"

definition ToolDisplayFromACP :: "payload \<Rightarrow> string \<Rightarrow> ToolDisplay option" where
  "ToolDisplayFromACP data status =
     (let source = update_source data; toolCall = tool_call_of source;
          title = acp_title toolCall source; ident = acp_id toolCall source; target = acp_target toolCall source in
      if title = [] \<and> ident = [] \<and> target = [] then None
      else Some (polishSwitchModeDisplay toolCall
        \<lparr>td_ID = ident, td_Title = title, td_Kind = acp_kind toolCall source,
         td_Status = NormalizeToolStatus (FirstNonEmpty
           [status, stringAtValue toolCall [''status''], stringAtValue source [''status'']]),
         td_Command = toolDisplayCommand toolCall, td_Target = target\<rparr>))"

definition CommandToolDisplay :: "string \<Rightarrow> string \<Rightarrow> ToolDisplay" where
  "CommandToolDisplay command status =
     (let c = TrimSpace command in
      \<lparr>td_ID = [], td_Title = DefaultToolTitle ''execute'' c, td_Kind = ''execute'',
       td_Status = NormalizeToolStatus status, td_Command = c, td_Target = c\<rparr>)"

definition CodexCommandFromData :: "payload \<Rightarrow> string" where
  "CodexCommandFromData data =
     (if stringValue data ''command'' \<noteq> [] then TrimSpace (stringValue data ''command'')
      else TrimSpace (stringValue (mapValue data ''item'') ''command''))"

definition ToolDisplayFromCodexItem :: "payload \<Rightarrow> string \<Rightarrow> ToolDisplay option" where
  "ToolDisplayFromCodexItem item status =
     (let ty = TrimSpace (stringValue item ''type'') in
      if ty = ''commandExecution'' then Some (CommandToolDisplay (CodexCommandFromData item) status)
      else if ty = ''fileChange'' then
        Some \<lparr>td_ID = [], td_Title = DefaultToolTitle ''edit'' [], td_Kind = ''edit'',
              td_Status = NormalizeToolStatus status, td_Command = [], td_Target = ToolDisplayTarget item\<rparr>
      else if ty = ''mcpToolCall'' \<or> ty = ''dynamicToolCall'' then
        Some \<lparr>td_ID = firstString item [''id'', ''itemId'', ''callId'', ''toolCallId''],
              td_Title = or_else (toolDisplayTitle item) ''tool call'',
              td_Kind = NormalizeToolKind (FirstNonEmpty [stringValue item ''kind'', stringValue item ''type'']),
              td_Status = NormalizeToolStatus status, td_Command = toolDisplayCommand item,
              td_Target = ToolDisplayTarget item\<rparr>
      else None)"

definition PermissionToolDisplay :: "string \<Rightarrow> payload \<Rightarrow> string \<Rightarrow> ToolDisplay" where
  "PermissionToolDisplay toolName input status =
     (let command = toolDisplayCommand input;
          kind = or_else (NormalizeToolKind (stringValue input ''kind'')) (if command \<noteq> [] then ''execute'' else []);
          title = or_else (or_else (or_else (TrimSpace toolName) (toolDisplayTitle input)) (DefaultToolTitle kind command))
                    ''permission requested'' in
      \<lparr>td_ID = [], td_Title = title, td_Kind = kind, td_Status = NormalizeToolStatus status,
       td_Command = command, td_Target = ToolDisplayTarget input\<rparr>)"

definition ToolCallIDFromData :: "payload \<Rightarrow> string" where
  "ToolCallIDFromData data =
     (if data = [] then []
      else let source = update_source data in
        FirstNonEmpty
          [firstString source [''toolCallId'', ''tool_call_id''],
           firstString (mapValue source ''toolCall'') [''toolCallId'', ''tool_call_id'', ''id''],
           firstString (mapValue source ''toolCallUpdate'') [''toolCallId'', ''tool_call_id'', ''id'']])"

section \<open>What every display satisfies\<close>

definition tool_statuses :: "string list" where
  "tool_statuses = [''pending'', ''in_progress'', ''completed'', ''failed'']"

text \<open>
  A display in the host's vocabulary: kind and status are known words or empty, and no text has
  space at its ends.
\<close>

definition display_ok :: "ToolDisplay \<Rightarrow> bool" where
  "display_ok d \<longleftrightarrow>
     td_Kind d \<in> set ([] # tool_kinds) \<and> td_Status d \<in> set ([] # tool_statuses)
     \<and> TrimSpace (td_ID d) = td_ID d \<and> TrimSpace (td_Title d) = td_Title d
     \<and> TrimSpace (td_Command d) = td_Command d \<and> TrimSpace (td_Target d) = td_Target d"

lemma kind_known: "NormalizeToolKind k \<in> set ([] # tool_kinds)"
  by (auto simp: NormalizeToolKind_def tool_kinds_def Let_def)

lemma status_known: "NormalizeToolStatus s \<in> set ([] # tool_statuses)"
  by (auto simp: NormalizeToolStatus_def tool_statuses_def Let_def)

definition trimmed :: "string \<Rightarrow> bool" where
  "trimmed s \<longleftrightarrow> TrimSpace s = s"

named_theorems trimmed_intros \<open>texts without space at their ends\<close>

lemma trimmed_simps [simp, trimmed_intros]: "trimmed []" "trimmed (TrimSpace s)"
  by (simp_all add: trimmed_def)

lemma trimmed_or_else [trimmed_intros]: "trimmed s \<Longrightarrow> trimmed t \<Longrightarrow> trimmed (or_else s t)"
  by (simp add: or_else_def)

lemma trimmed_if [trimmed_intros]: "trimmed s \<Longrightarrow> trimmed t \<Longrightarrow> trimmed (if b then s else t)"
  by simp

lemma trimmed_solid:
  assumes "s \<noteq> []" and "solid (hd s)" and "solid (last s)"
  shows "trimmed s"
  using TrimSpace_solid_ends [OF assms] by (simp add: trimmed_def)

lemma solid_literals: "solid (CHR ''S'')" "solid (CHR ''e'')" "solid (CHR ''s'')"
  by code_simp+

lemma solid_digit: "is_digit c \<Longrightarrow> solid c"
  by (cases "of_char c :: nat" rule: nat.exhaust)
    (auto simp: is_digit_def char_digit_def solid_def space1_def less_char_def less_eq_char_def split: if_splits)

lemma trimmed_first_value [trimmed_intros]: "trimmed (first_value data ks)"
  by (induction ks) auto

lemma trimmed_first_found [trimmed_intros]: "(\<And>x. trimmed (f x)) \<Longrightarrow> trimmed (first_found f xs)"
  by (induction xs) auto

lemma trimmed_firstString [trimmed_intros]: "trimmed (firstString data ks)"
  by (simp add: firstString_def split: list.splits)

lemma trimmed_FirstNonEmpty: "\<forall>v \<in> set vs. trimmed v \<Longrightarrow> trimmed (FirstNonEmpty vs)"
proof -
  assume all: "\<forall>v \<in> set vs. trimmed v"
  have "filter P vs = v # rest \<Longrightarrow> trimmed v" for P v rest
    using all by (metis Cons_eq_filterD in_set_conv_decomp)
  then show "trimmed (FirstNonEmpty vs)"
    by (simp add: FirstNonEmpty_def split: list.splits)
qed

lemma trimmed_changes_target: "\<forall>p \<in> set ps. trimmed p \<Longrightarrow> trimmed (changes_target ps)"
proof (induction ps rule: changes_target.induct)
  case (3 p q ps)
  have "show_nat n @ '' files'' \<noteq> []" "solid (hd (show_nat n @ '' files''))" "solid (last (show_nat n @ '' files''))" for n
    using solid_digit [OF show_nat_digits, of "hd (show_nat n)" n] show_nat_nonempty [of n] by (simp_all add: solid_literals)
  then show ?case by (simp only: changes_target.simps) (rule trimmed_solid)
qed simp_all

lemma trimmed_target [trimmed_intros]: "trimmed (ToolDisplayTarget data)"
proof -
  have "trimmed (changes_target (change_paths m))" for m
    by (rule trimmed_changes_target) (auto simp: change_paths_def)
  then have "trimmed (nested_target m)" for m
    unfolding nested_target_def fileChangesTarget_def directToolDisplayTarget_def
    by (intro trimmed_intros)
  then show ?thesis
    unfolding ToolDisplayTarget_def
    by (auto intro!: trimmed_intros split: list.splits json.splits)
qed

lemma trimmed_command [trimmed_intros]: "trimmed (toolDisplayCommand data)"
  by (simp add: toolDisplayCommand_def split: list.splits)

lemma trimmed_title [trimmed_intros]: "trimmed (toolDisplayTitle data)"
  by (simp add: toolDisplayTitle_def)

lemma trimmed_default [trimmed_intros]: "trimmed command \<Longrightarrow> trimmed (DefaultToolTitle kind command)"
proof -
  have "trimmed ''command''" "trimmed ''read''" "trimmed ''edit''" "trimmed ''search''" "trimmed ''fetch''" "trimmed ''thinking''"
    unfolding trimmed_def by code_simp+
  then show "trimmed command \<Longrightarrow> trimmed (DefaultToolTitle kind command)"
    by (simp add: DefaultToolTitle_def)
qed

lemma trimmed_switch [trimmed_intros]: "trimmed (switchModeTitle modeID)"
proof -
  have "trimmed ''Switch mode''" unfolding trimmed_def by code_simp
  then show ?thesis
    by (auto simp: switchModeTitle_def intro!: trimmed_solid simp: solid_literals)
qed

lemma polish_ok: "display_ok d \<Longrightarrow> display_ok (polishSwitchModeDisplay toolCall d)"
  using trimmed_switch by (auto simp: polishSwitchModeDisplay_def display_ok_def Let_def tool_kinds_def trimmed_def)

lemma display_okI:
  assumes "td_Kind d \<in> set ([] # tool_kinds)" and "td_Status d \<in> set ([] # tool_statuses)"
    and "trimmed (td_ID d)" and "trimmed (td_Title d)" and "trimmed (td_Command d)" and "trimmed (td_Target d)"
  shows "display_ok d"
  using assms by (simp add: display_ok_def trimmed_def)

lemma trimmed_acp [trimmed_intros]:
  "trimmed (acp_title toolCall source)" "trimmed (acp_id toolCall source)" "trimmed (acp_target toolCall source)"
  unfolding acp_title_def acp_id_def acp_target_def Let_def
  by (intro trimmed_intros trimmed_FirstNonEmpty ballI, auto intro: trimmed_intros)+

lemma acp_kind_known: "acp_kind toolCall source \<in> set ([] # tool_kinds)"
  using kind_known [of "stringAtValue toolCall [''kind'']"] kind_known [of "stringAtValue source [''kind'']"]
  by (auto simp: acp_kind_def or_else_def)

lemma acp_display_ok: "ToolDisplayFromACP data status = Some d \<Longrightarrow> display_ok d"
  unfolding ToolDisplayFromACP_def Let_def
  by (auto simp only: split: if_splits intro!: polish_ok display_okI acp_kind_known status_known trimmed_intros
      simp: ToolDisplay.simps option.inject option.distinct)

lemma command_display_ok: "display_ok (CommandToolDisplay command status)"
  using status_known [of status]
  by (auto simp: CommandToolDisplay_def Let_def tool_kinds_def intro!: display_okI trimmed_intros)

lemma codex_display_ok: "ToolDisplayFromCodexItem item status = Some d \<Longrightarrow> display_ok d"
proof -
  have lit: "trimmed ''tool call''" unfolding trimmed_def by code_simp
  have edit: "''edit'' \<in> set ([] # tool_kinds)" by (simp add: tool_kinds_def)
  have change: "display_ok \<lparr>td_ID = [], td_Title = DefaultToolTitle ''edit'' [], td_Kind = ''edit'',
      td_Status = NormalizeToolStatus status, td_Command = [], td_Target = ToolDisplayTarget item\<rparr>"
    by (rule display_okI) (simp_all only: ToolDisplay.simps edit status_known trimmed_intros)
  have call: "display_ok \<lparr>td_ID = firstString item ids, td_Title = or_else (toolDisplayTitle item) ''tool call'',
      td_Kind = NormalizeToolKind k, td_Status = NormalizeToolStatus status, td_Command = toolDisplayCommand item,
      td_Target = ToolDisplayTarget item\<rparr>" for ids k
    by (rule display_okI) (simp_all only: ToolDisplay.simps kind_known status_known lit trimmed_intros)
  show "ToolDisplayFromCodexItem item status = Some d \<Longrightarrow> display_ok d"
    unfolding ToolDisplayFromCodexItem_def Let_def
    by (simp only: option.inject option.distinct split: if_split_asm)
      (use change call command_display_ok in blast)+
qed

lemma permission_display_ok: "display_ok (PermissionToolDisplay toolName input status)"
proof -
  have t: "trimmed ''permission requested''" unfolding trimmed_def by code_simp
  have k: "or_else (NormalizeToolKind k) (if b then ''execute'' else []) \<in> set ([] # tool_kinds)" for k b
    using kind_known [of k] by (auto simp: or_else_def tool_kinds_def)
  show ?thesis
    unfolding PermissionToolDisplay_def Let_def
    by (rule display_okI) (simp_all only: ToolDisplay.simps k status_known t trimmed_intros)
qed

lemma kind_idem: "NormalizeToolKind (NormalizeToolKind k) = NormalizeToolKind k"
proof -
  have "list_all (\<lambda>x. NormalizeToolKind x = x) ([] # tool_kinds)" by code_simp
  then show ?thesis using kind_known [of k] by (simp only: list_all_iff)
qed

lemma status_idem: "NormalizeToolStatus (NormalizeToolStatus k) = NormalizeToolStatus k"
proof -
  have "list_all (\<lambda>x. NormalizeToolStatus x = x) ([] # tool_statuses)" by code_simp
  then show ?thesis using status_known [of k] by (simp only: list_all_iff)
qed

text \<open>
  Displays are in the host's vocabulary. Whatever an agent's payload holds, the display made of
  a tool call, a Codex item, a command or a permission request has a known kind and status (or
  none) and texts without space at their ends; a tool call without title, identifier and target has
  no display; and the normal forms of kinds and statuses are fixed by normalising them again.
\<close>

theorem displays_normalised:
  "(case ToolDisplayFromACP data status of
      None \<Rightarrow> True
    | Some d \<Rightarrow> display_ok d \<and> \<not> (td_Title d = [] \<and> td_ID d = [] \<and> td_Target d = []))
   \<and> (case ToolDisplayFromCodexItem data status of None \<Rightarrow> True | Some d \<Rightarrow> display_ok d)
   \<and> display_ok (CommandToolDisplay command status) \<and> display_ok (PermissionToolDisplay name data status)
   \<and> NormalizeToolKind (NormalizeToolKind command) = NormalizeToolKind command
   \<and> NormalizeToolStatus (NormalizeToolStatus command) = NormalizeToolStatus command"
proof -
  have "\<not> (td_Title d = [] \<and> td_ID d = [] \<and> td_Target d = [])" if "ToolDisplayFromACP data status = Some d" for d
    using that
    by (auto simp: ToolDisplayFromACP_def Let_def polishSwitchModeDisplay_def switchModeTitle_def split: if_splits)
  then show ?thesis
    using acp_display_ok [of data status] codex_display_ok [of data status]
    by (auto simp: command_display_ok permission_display_ok kind_idem status_idem split: option.split)
qed

text \<open>
  the wrapped and the direct form of a tool call read alike. A payload that is not itself
  wrapped gives the same display and the same tool-call identifier when it arrives inside an
  \<open>update\<close> field.
\<close>

lemma wrapped_update_same:
  assumes "mapValue m ''update'' = []" and "m \<noteq> []"
  shows "ToolDisplayFromACP [(''update'', JObj m)] status = ToolDisplayFromACP m status
       \<and> ToolCallIDFromData [(''update'', JObj m)] = ToolCallIDFromData m"
proof -
  have "mapValue [(''update'', JObj m)] ''update'' = m" by (simp add: obj_at_def)
  then have "update_source [(''update'', JObj m)] = update_source m"
    using assms by (simp add: update_source_def)
  then show ?thesis
    using assms(2) by (simp add: ToolDisplayFromACP_def ToolCallIDFromData_def)
qed

text \<open>
  The name of a tool is never its title. A payload without a \<open>title\<close> field has no title,
  whatever its fields \<open>name\<close>, \<open>toolName\<close> and \<open>tool_name\<close> hold, and a Codex tool item is
  then shown as ``tool call'': the code's last fallback is unreachable.
\<close>

theorem tool_name_ignored:
  assumes "map_of item ''title'' = None" and "TrimSpace (stringValue item ''type'') = ''mcpToolCall''"
  shows "toolDisplayTitle item = []
       \<and> map_option td_Title (ToolDisplayFromCodexItem item status) = Some ''tool call''"
proof -
  have "firstString [] ks = []" for ks by (induction ks) (auto simp: firstString_def str_at_def)
  then have "toolDisplayTitle item = []"
    using assms(1) by (simp add: toolDisplayTitle_def str_at_def obj_at_def)
  then show ?thesis
    using assms(2) by (simp add: ToolDisplayFromCodexItem_def or_else_def)
qed

theorem tool_name_ignored_witness:
  "map_option td_Title (ToolDisplayFromCodexItem [(''name'', JStr ''search''), (''type'', JStr ''mcpToolCall'')] [])
   = Some ''tool call''"
proof -
  have "TrimSpace ''mcpToolCall'' = ''mcpToolCall''" by code_simp
  then show ?thesis
    using tool_name_ignored [of "[(''name'', JStr ''search''), (''type'', JStr ''mcpToolCall'')]" "[]"]
    by (simp add: str_at_def)
qed

end
