(* ===== verification/Worktree_Manager.thy ===== *)
theory Worktree_Manager
  imports Paths
begin

text \<open>
  The worktree manager of \<open>src/worktree/manager.go\<close>. The git program and the file system are
  not part of the source: they are functions of an operating system record, over a world of any
  type, and every call that may change something is kept in a log. What is proved holds for every
  such system; the nil-manager checks and the contexts are left out.
\<close>

section \<open>Names (346--405)\<close>

definition safe_name_char :: "char \<Rightarrow> bool" where
  "safe_name_char c \<longleftrightarrow>
     byte_in 97 122 c \<or> byte_in 65 90 c \<or> byte_in 48 57 c \<or> c \<in> set ''-_.''"

definition safe_name_rune :: "string \<Rightarrow> char" where
  "safe_name_rune r = (case r of [c] \<Rightarrow> if safe_name_char c then c else CHR ''-'' | _ \<Rightarrow> CHR ''-'')"

definition safePart :: "string \<Rightarrow> string" where
  "safePart value =
     (let v = TrimSpace value; result = TrimByte (CHR ''-'') (map safe_name_rune (runes v)) in
      if v = [] then [] else if result = ''.'' \<or> result = ''..'' then [] else result)"

fun split_at :: "string \<Rightarrow> string \<Rightarrow> (string \<times> string) option" where
  "split_at sep [] = (if sep = [] then Some ([], []) else None)"
| "split_at sep (c # s) =
     (if prefix sep (c # s) then Some ([], drop (length sep) (c # s))
      else map_option (\<lambda>(a, b). (c # a, b)) (split_at sep s))"

definition remote_path :: "string \<Rightarrow> string" where
  "remote_path raw =
     (let value = TrimSuffix (TrimSuffix (TrimSpace raw) ''/'') ''.git'' in
      case split_at ''://'' value of
        Some (_, rest) \<Rightarrow> rest
      | None \<Rightarrow>
          (case split_at '':'' value of
             Some (host, rest) \<Rightarrow> if CHR 0x40 \<in> set host then host @ ''/'' @ rest else value
           | None \<Rightarrow> value))"

definition remoteKey :: "string \<Rightarrow> string" where
  "remoteKey raw =
     (let parts = SplitByte slash (remote_path raw) in
      if length parts < 3 then []
      else let owner = safePart (parts ! (length parts - 2)); repo = safePart (parts ! (length parts - 1)) in
        if owner = [] \<or> repo = [] then [] else JoinPath [owner, repo])"

section \<open>The manager and its environment (14--70)\<close>

record WorktreeConfig =
  wc_Root :: string
  wc_BranchPrefix :: string
  wc_GitCommand :: string

record Manager =
  wm_root :: string
  wm_branchPrefix :: string
  wm_git :: string

record WorktreeSession =
  ws_ID :: string
  ws_Source :: string
  ws_Path :: string
  ws_Branch :: string
  ws_BaseSHA :: string

record WorktreeRequest =
  wr_ID :: string
  wr_Source :: string
  wr_RepositoryKey :: string

datatype worktree_error =
  RootRequired | PrefixRequired | RootNotCreated | RootNotSecured
| WorktreeIDRequired | RepositoryPathRequired | RepositoryKeyInvalid | KeyNotDerived
| TargetEscapes | TargetExists string | TargetNotInspected | ParentNotCreated
| IdentityRequired | PathNotManaged string | NotManaged | WrongBranch string string string | BranchRequired
| GitFailed "string list" string

datatype stat_result = Present | Missing | StatFailed

text \<open>
  \<open>git -C dir args\<close> answers with success and output, or failure and output; \<open>Stat\<close> tells
  whether a path exists.
\<close>

record 'w system =
  sy_git :: "string \<Rightarrow> string \<Rightarrow> string list \<Rightarrow> 'w \<Rightarrow> (bool \<times> string) \<times> 'w"
  sy_Stat :: "string \<Rightarrow> 'w \<Rightarrow> stat_result"
  sy_MkdirAll :: "string \<Rightarrow> 'w \<Rightarrow> bool \<times> 'w"
  sy_Chmod :: "string \<Rightarrow> 'w \<Rightarrow> bool \<times> 'w"
  sy_RemoveAll :: "string \<Rightarrow> 'w \<Rightarrow> 'w"
  sy_EvalSymlinks :: "string \<Rightarrow> 'w \<Rightarrow> string option"

datatype os_call = GitCall string "string list" | MkdirCall string | ChmodCall string | RemoveAllCall string

type_synonym 'w wt_state = "'w \<times> os_call list"
type_synonym ('w, 'a) wt = "'w wt_state \<Rightarrow> (worktree_error + 'a) \<times> 'w wt_state"

definition return_ok :: "'a \<Rightarrow> ('w, 'a) wt" where
  "return_ok v s = (Inr v, s)"

definition fail :: "worktree_error \<Rightarrow> ('w, 'a) wt" where
  "fail e s = (Inl e, s)"

text \<open>Sequencing that stops at an error, and the handling of one.\<close>

definition andThen :: "('w, 'a) wt \<Rightarrow> ('a \<Rightarrow> ('w, 'b) wt) \<Rightarrow> ('w, 'b) wt" where
  "andThen m f s = (case m s of (Inl e, s') \<Rightarrow> (Inl e, s') | (Inr v, s') \<Rightarrow> f v s')"

definition onError :: "('w, 'a) wt \<Rightarrow> (worktree_error \<Rightarrow> ('w, 'a) wt) \<Rightarrow> ('w, 'a) wt" where
  "onError m h s = (case m s of (Inl e, s') \<Rightarrow> h e s' | (Inr v, s') \<Rightarrow> (Inr v, s'))"

text \<open>\<open>_, _ = op\<close>: the error and the result are dropped.\<close>

definition attempt :: "('w, 'a) wt \<Rightarrow> ('w, unit) wt" where
  "attempt f s = (Inr (), snd (f s))"

definition require :: "bool \<Rightarrow> worktree_error \<Rightarrow> ('w, unit) wt" where
  "require b e = (if b then return_ok () else fail e)"

definition gitOutput :: "'w system \<Rightarrow> Manager \<Rightarrow> string \<Rightarrow> string list \<Rightarrow> ('w, string) wt" where
  "gitOutput sy m dir args s =
     (case sy_git sy (wm_git m) dir args (fst s) of
        ((ok, out), w) \<Rightarrow>
          (if ok then Inr (TrimSpace out) else Inl (GitFailed args (TrimSpace out)), (w, snd s @ [GitCall dir args])))"

definition referenceExists :: "'w system \<Rightarrow> Manager \<Rightarrow> string \<Rightarrow> string \<Rightarrow> ('w, bool) wt" where
  "referenceExists sy m source reference s =
     (let args = [''show-ref'', ''--verify'', ''--quiet'', reference] in
      case sy_git sy (wm_git m) source args (fst s) of
        ((ok, out), w) \<Rightarrow> (Inr ok, (w, snd s @ [GitCall source args])))"

definition statPath :: "'w system \<Rightarrow> string \<Rightarrow> ('w, stat_result) wt" where
  "statPath sy p s = (Inr (sy_Stat sy p (fst s)), s)"

definition mkdirAll :: "'w system \<Rightarrow> string \<Rightarrow> worktree_error \<Rightarrow> ('w, unit) wt" where
  "mkdirAll sy p e s =
     (case sy_MkdirAll sy p (fst s) of (ok, w) \<Rightarrow> (if ok then Inr () else Inl e, (w, snd s @ [MkdirCall p])))"

definition chmodPath :: "'w system \<Rightarrow> string \<Rightarrow> worktree_error \<Rightarrow> ('w, unit) wt" where
  "chmodPath sy p e s =
     (case sy_Chmod sy p (fst s) of (ok, w) \<Rightarrow> (if ok then Inr () else Inl e, (w, snd s @ [ChmodCall p])))"

definition removeAll :: "'w system \<Rightarrow> string \<Rightarrow> ('w, unit) wt" where
  "removeAll sy p s = (Inr (), (sy_RemoveAll sy p (fst s), snd s @ [RemoveAllCall p]))"

definition resolve :: "'w system \<Rightarrow> string \<Rightarrow> ('w, string) wt" where
  "resolve sy p s = (Inr (case sy_EvalSymlinks sy p (fst s) of Some q \<Rightarrow> q | None \<Rightarrow> p), s)"

definition NewManager :: "'w system \<Rightarrow> WorktreeConfig \<Rightarrow> ('w, Manager) wt" where
  "NewManager sy cf =
     (let root = TrimSpace (wc_Root cf); pre = TrimByte slash (TrimSpace (wc_BranchPrefix cf));
          git = (if TrimSpace (wc_GitCommand cf) = [] then ''git'' else TrimSpace (wc_GitCommand cf)) in
      andThen (require (root \<noteq> []) RootRequired) (\<lambda>_.
      andThen (require (pre \<noteq> []) PrefixRequired) (\<lambda>_.
      andThen (mkdirAll sy (Clean root) RootNotCreated) (\<lambda>_.
      andThen (chmodPath sy (Clean root) RootNotSecured) (\<lambda>_.
      andThen (resolve sy (Clean root)) (\<lambda>r.
      return_ok \<lparr>wm_root = r, wm_branchPrefix = pre, wm_git = git\<rparr>))))))"

section \<open>Reading a repository (151--175, 297--343)\<close>

definition branch_of :: "Manager \<Rightarrow> string \<Rightarrow> string" where
  "branch_of m ident = wm_branchPrefix m @ ''/'' @ ident"

definition ownsBranch :: "Manager \<Rightarrow> string \<Rightarrow> bool" where
  "ownsBranch m branch \<longleftrightarrow> prefix (wm_branchPrefix m @ ''/'') (TrimSpace branch)"

definition repoRoot :: "'w system \<Rightarrow> Manager \<Rightarrow> string \<Rightarrow> ('w, string) wt" where
  "repoRoot sy m path =
     andThen (require (TrimSpace path \<noteq> []) RepositoryPathRequired) (\<lambda>_.
     andThen (gitOutput sy m (TrimSpace path) [''rev-parse'', ''--show-toplevel'']) (\<lambda>root.
     andThen (resolve sy root) (\<lambda>r. return_ok (Clean r))))"

definition repoKey :: "'w system \<Rightarrow> Manager \<Rightarrow> string \<Rightarrow> ('w, string) wt" where
  "repoKey sy m source =
     andThen (onError (andThen (gitOutput sy m source [''remote'', ''get-url'', ''origin'']) (\<lambda>r. return_ok (remoteKey r)))
                (\<lambda>_. return_ok [])) (\<lambda>key.
       if key \<noteq> [] then return_ok key
       else if safePart (BasePath source) = [] then fail KeyNotDerived
       else return_ok (safePart (BasePath source)))"

definition Inspect :: "'w system \<Rightarrow> Manager \<Rightarrow> string \<Rightarrow> ('w, WorktreeSession) wt" where
  "Inspect sy m path =
     andThen (repoRoot sy m path) (\<lambda>root.
     andThen (gitOutput sy m root [''rev-parse'', ''--abbrev-ref'', ''HEAD'']) (\<lambda>branch.
     andThen (gitOutput sy m root [''rev-parse'', ''HEAD'']) (\<lambda>sha.
     return_ok \<lparr>ws_ID = [], ws_Source = [], ws_Path = root, ws_Branch = branch, ws_BaseSHA = sha\<rparr>)))"

section \<open>Create and its rollback (85--149, 281--289)\<close>

definition rollback :: "'w system \<Rightarrow> Manager \<Rightarrow> string \<Rightarrow> string \<Rightarrow> string \<Rightarrow> bool \<Rightarrow> ('w, unit) wt" where
  "rollback sy m source target branch branchExisted =
     andThen (attempt (gitOutput sy m source [''worktree'', ''remove'', ''--force'', target])) (\<lambda>_.
     andThen (if within (wm_root m) target then removeAll sy target else return_ok ()) (\<lambda>_.
     if branchExisted then return_ok ()
     else andThen (referenceExists sy m source (''refs/heads/'' @ branch)) (\<lambda>exists.
       if exists then attempt (gitOutput sy m source [''branch'', ''-D'', branch]) else return_ok ())))"

definition repository_part :: "'w system \<Rightarrow> Manager \<Rightarrow> WorktreeRequest \<Rightarrow> string \<Rightarrow> ('w, string) wt" where
  "repository_part sy m q source =
     (if TrimSpace (wr_RepositoryKey q) \<noteq> []
      then if safePart (TrimSpace (wr_RepositoryKey q)) = [] then fail RepositoryKeyInvalid
           else return_ok (safePart (TrimSpace (wr_RepositoryKey q)))
      else repoKey sy m source)"

definition add_worktree :: "'w system \<Rightarrow> Manager \<Rightarrow> string \<Rightarrow> string \<Rightarrow> string \<Rightarrow> string \<Rightarrow> ('w, WorktreeSession) wt" where
  "add_worktree sy m source target ident branch =
     andThen (referenceExists sy m source (''refs/heads/'' @ branch)) (\<lambda>existed.
     onError
       (andThen (gitOutput sy m source [''worktree'', ''add'', ''--quiet'', ''-b'', branch, target, ''HEAD'']) (\<lambda>_.
        andThen (Inspect sy m target) (\<lambda>info.
        return_ok (info\<lparr>ws_ID := ident, ws_Source := source, ws_Branch := branch\<rparr>))))
       (\<lambda>e. andThen (rollback sy m source target branch existed) (\<lambda>_. fail e)))"

definition CreateWorktree :: "'w system \<Rightarrow> Manager \<Rightarrow> WorktreeRequest \<Rightarrow> ('w, WorktreeSession) wt" where
  "CreateWorktree sy m q =
     (let ident = safePart (wr_ID q) in
      andThen (require (ident \<noteq> []) WorktreeIDRequired) (\<lambda>_.
      andThen (repoRoot sy m (wr_Source q)) (\<lambda>source.
      andThen (repository_part sy m q source) (\<lambda>repo.
      let target = JoinPath [wm_root m, repo, ident] in
      andThen (require (within (wm_root m) target) TargetEscapes) (\<lambda>_.
      andThen (statPath sy target) (\<lambda>st.
      andThen (case st of Present \<Rightarrow> fail (TargetExists target) | StatFailed \<Rightarrow> fail TargetNotInspected
                 | Missing \<Rightarrow> return_ok ()) (\<lambda>_.
      andThen (mkdirAll sy (DirPath target) ParentNotCreated) (\<lambda>_.
      add_worktree sy m source target ident (branch_of m ident)))))))))"

section \<open>Reopen, repair, branches (178--247)\<close>

definition identified :: "WorktreeSession \<Rightarrow> bool" where
  "identified x \<longleftrightarrow> TrimSpace (ws_Path x) \<noteq> [] \<and> TrimSpace (ws_Source x) \<noteq> [] \<and> TrimSpace (ws_Branch x) \<noteq> []"

definition Reopen :: "'w system \<Rightarrow> Manager \<Rightarrow> WorktreeSession \<Rightarrow> ('w, WorktreeSession) wt" where
  "Reopen sy m x =
     andThen (require (identified x) IdentityRequired) (\<lambda>_.
     andThen (require (within (wm_root m) (ws_Path x)) (PathNotManaged (ws_Path x))) (\<lambda>_.
     andThen (Inspect sy m (ws_Path x)) (\<lambda>info.
     andThen (require (ws_Branch info = ws_Branch x) (WrongBranch (ws_Path x) (ws_Branch info) (ws_Branch x))) (\<lambda>_.
     return_ok (info\<lparr>ws_ID := ws_ID x, ws_Source := ws_Source x\<rparr>)))))"

definition ensureBranch :: "'w system \<Rightarrow> Manager \<Rightarrow> string \<Rightarrow> string \<Rightarrow> ('w, WorktreeSession) wt" where
  "ensureBranch sy m path branch0 =
     (let branch = TrimSpace branch0 in
      andThen (require (branch \<noteq> []) BranchRequired) (\<lambda>_.
      andThen (Inspect sy m path) (\<lambda>info.
      if ws_Branch info = branch then return_ok info
      else
        andThen (referenceExists sy m (ws_Path info) (''refs/heads/'' @ branch)) (\<lambda>exists.
        andThen (gitOutput sy m (ws_Path info)
                   (if exists then [''checkout'', ''--quiet'', branch] else [''checkout'', ''--quiet'', ''-b'', branch])) (\<lambda>_.
        Inspect sy m (ws_Path info))))))"

definition managed :: "Manager \<Rightarrow> WorktreeSession \<Rightarrow> bool" where
  "managed m x \<longleftrightarrow> within (wm_root m) (ws_Path x) \<and> ownsBranch m (ws_Branch x)"

definition EnsureBranch :: "'w system \<Rightarrow> Manager \<Rightarrow> WorktreeSession \<Rightarrow> ('w, WorktreeSession) wt" where
  "EnsureBranch sy m x =
     andThen (require (managed m x) NotManaged) (\<lambda>_.
     andThen (ensureBranch sy m (ws_Path x) (ws_Branch x)) (\<lambda>info.
     return_ok (info\<lparr>ws_ID := ws_ID x, ws_Source := ws_Source x\<rparr>)))"

definition EnsureBranchAt :: "'w system \<Rightarrow> string \<Rightarrow> string \<Rightarrow> ('w, WorktreeSession) wt" where
  "EnsureBranchAt sy path branch = ensureBranch sy \<lparr>wm_root = [], wm_branchPrefix = [], wm_git = ''git''\<rparr> path branch"

definition Repair :: "'w system \<Rightarrow> Manager \<Rightarrow> WorktreeSession \<Rightarrow> ('w, WorktreeSession) wt" where
  "Repair sy m x =
     andThen (require (identified x) IdentityRequired) (\<lambda>_.
     andThen (require (managed m x) NotManaged) (\<lambda>_. EnsureBranch sy m x))"

section \<open>Remove and prune (250--279)\<close>

definition Prune :: "'w system \<Rightarrow> Manager \<Rightarrow> string \<Rightarrow> ('w, unit) wt" where
  "Prune sy m source =
     andThen (repoRoot sy m source) (\<lambda>root.
     andThen (gitOutput sy m root [''worktree'', ''prune'']) (\<lambda>_. return_ok ()))"

definition RemoveWorktree :: "'w system \<Rightarrow> Manager \<Rightarrow> WorktreeSession \<Rightarrow> bool \<Rightarrow> ('w, unit) wt" where
  "RemoveWorktree sy m x force =
     andThen (require (TrimSpace (ws_Source x) \<noteq> [] \<and> managed m x) NotManaged) (\<lambda>_.
     andThen
       (onError
          (andThen (gitOutput sy m (ws_Source x)
             ([''worktree'', ''remove''] @ (if force then [''--force''] else []) @ [ws_Path x])) (\<lambda>_. return_ok ()))
          (\<lambda>e. andThen (statPath sy (ws_Path x)) (\<lambda>st.
             if st \<noteq> Missing then fail e else Prune sy m (ws_Source x)))) (\<lambda>_.
     andThen (referenceExists sy m (ws_Source x) (''refs/heads/'' @ ws_Branch x)) (\<lambda>exists.
     if exists then andThen (gitOutput sy m (ws_Source x) [''branch'', ''-D'', ws_Branch x]) (\<lambda>_. return_ok ())
     else return_ok ())))"

section \<open>Names are plain path elements\<close>

lemma safe_name_rune_safe: "safe_name_char (safe_name_rune r)"
  by (auto simp: safe_name_rune_def safe_name_char_def split: list.splits if_splits)

lemma set_TrimByte: "set (TrimByte c s) \<subseteq> set s"
  unfolding TrimByte_def by (metis dual_order.trans set_dropWhileD set_rev subsetI)

lemma safe_name_solid: "safe_name_char c \<Longrightarrow> solid c \<and> c \<noteq> slash"
  by (auto simp: safe_name_char_def byte_in_def solid_def space1_def less_eq_char_def less_char_def)

lemma safePart_chars: "c \<in> set (safePart v) \<Longrightarrow> safe_name_char c"
  using safe_name_rune_safe set_TrimByte by (fastforce simp: safePart_def Let_def split: if_splits)

lemma safePart_plain: "safePart v \<noteq> [] \<Longrightarrow> plain (safePart v)"
  using safePart_chars [of _ v] safe_name_solid
  by (fastforce simp: plain_def safePart_def Let_def split: if_splits)

lemma JoinPath_names:
  assumes "plain a" and "plain b"
  shows "JoinPath [a, b] = JoinBytes [slash] [a, b]"
proof -
  have "SplitByte slash (JoinBytes [slash] [a, b]) = [a, b]"
    by (rule SplitByte_JoinBytes) (use assms in \<open>auto simp: plain_def\<close>)
  moreover have "a \<noteq> []" "hd a \<noteq> slash" using assms(1) by (cases a; auto simp: plain_def)+
  ultimately show ?thesis
    using assms clean_parts_plain [of "[a, b]" False "[]"] by (auto simp: JoinPath_def Clean_def plain_def)
qed

definition repo_name :: "string \<Rightarrow> bool" where
  "repo_name r \<longleftrightarrow> (\<exists>ps. ps \<noteq> [] \<and> (\<forall>p \<in> set ps. plain p) \<and> r = JoinBytes [slash] ps)"

lemma repo_name_safePart: "safePart v \<noteq> [] \<Longrightarrow> repo_name (safePart v)"
  unfolding repo_name_def by (rule exI [of _ "[safePart v]"]) (simp add: safePart_plain)

lemma repo_name_remote: "remoteKey raw \<noteq> [] \<Longrightarrow> repo_name (remoteKey raw)"
  unfolding repo_name_def remoteKey_def
  by (auto simp: Let_def JoinPath_names safePart_plain split: if_splits intro!: exI [of _ "[_, _]"])

lemma JoinPath_repo:
  assumes "\<forall>p \<in> set rs. plain p" and "\<forall>p \<in> set ps. plain p" and "ps \<noteq> []" and "plain n"
  shows "JoinPath [abs_of rs, JoinBytes [slash] ps, n] = abs_of (rs @ ps @ [n])"
proof -
  have ne: "filter (\<lambda>p. p \<noteq> []) (abs_of rs # ps @ [n]) = abs_of rs # ps @ [n]"
    using assms by (auto simp: abs_of_def plain_def filter_id_conv)
  have "JoinBytes [slash] ps \<noteq> []"
    using assms(2,3) by (intro JoinBytes_nonempty) (auto simp: plain_def)
  then have "JoinPath [abs_of rs, JoinBytes [slash] ps, n] = JoinPath (abs_of rs # ps @ [n])"
    using assms(3,4) JoinBytes_append [of ps "[n]" "[slash]"]
    unfolding JoinPath_def ne by (cases ps) (auto simp: abs_of_def plain_def)
  then show ?thesis using JoinPath_plain [of rs "ps @ [n]"] assms by auto
qed

section \<open>Which calls an operation makes\<close>

text \<open>
  \<open>runs P Q op\<close>: from any state, every call \<open>op\<close> makes satisfies \<open>P\<close>, and when it succeeds
  its result satisfies \<open>Q\<close>.
\<close>

definition runs :: "(os_call \<Rightarrow> bool) \<Rightarrow> ('a \<Rightarrow> bool) \<Rightarrow> ('w, 'a) wt \<Rightarrow> bool" where
  "runs P Q f \<longleftrightarrow>
     (\<forall>s. (\<exists>new. snd (snd (f s)) = snd s @ new \<and> list_all P new) \<and> (\<forall>v. fst (f s) = Inr v \<longrightarrow> Q v))"

named_theorems runs_rules \<open>calls of composed operations\<close>

lemma runsI:
  assumes "\<And>w log. \<exists>new. snd (snd (f (w, log))) = log @ new \<and> list_all P new"
    and "\<And>w log v. fst (f (w, log)) = Inr v \<Longrightarrow> Q v"
  shows "runs P Q f"
  unfolding runs_def using assms by (metis prod.collapse)

lemma runs_return [runs_rules]: "Q v \<Longrightarrow> runs P Q (return_ok v)"
  by (rule runsI) (auto simp: return_ok_def)

lemma runs_fail [runs_rules]: "runs P Q (fail e)"
  by (rule runsI) (auto simp: fail_def)

lemma runs_require [runs_rules]: "(b \<Longrightarrow> Q ()) \<Longrightarrow> runs P Q (require b e)"
  unfolding require_def by (auto intro: runs_return runs_fail)

lemma runsD:
  assumes "runs P Q f" and "f s = (r, s')"
  obtains new where "snd s' = snd s @ new" and "list_all P new"
  using assms unfolding runs_def by (metis snd_conv)

lemma runs_log: "runs P Q f \<Longrightarrow> list_all P (snd s) \<Longrightarrow> list_all P (snd (snd (f s)))"
  unfolding runs_def by (metis list_all_append)

lemma runs_result: "runs P Q f \<Longrightarrow> f s = (Inr v, s') \<Longrightarrow> Q v"
  unfolding runs_def by (metis fst_conv)

lemma runs_andThen:
  assumes "runs P Q f" and "\<And>v. Q v \<Longrightarrow> runs P R (g v)"
  shows "runs P R (andThen f g)"
  unfolding runs_def
proof (intro allI)
  fix s
  obtain r s' where f: "f s = (r, s')" by (cases "f s") auto
  obtain new where new: "snd s' = snd s @ new" "list_all P new" by (rule runsD [OF assms(1) f])
  show "(\<exists>new. snd (snd (andThen f g s)) = snd s @ new \<and> list_all P new) \<and> (\<forall>v. fst (andThen f g s) = Inr v \<longrightarrow> R v)"
  proof (cases r)
    case (Inl e)
    then show ?thesis using f new by (simp add: andThen_def)
  next
    case (Inr v)
    then have "Q v" using runs_result [OF assms(1)] f by blast
    then obtain more where "snd (snd (g v s')) = snd s' @ more" "list_all P more" "\<forall>x. fst (g v s') = Inr x \<longrightarrow> R x"
      using assms(2) unfolding runs_def by meson
    then show ?thesis using f Inr new by (auto simp: andThen_def intro!: exI [of _ "new @ more"])
  qed
qed

lemma runs_onError:
  assumes "runs P Q f" and "\<And>e. runs P Q (h e)"
  shows "runs P Q (onError f h)"
  unfolding runs_def
proof (intro allI)
  fix s
  obtain r s' where f: "f s = (r, s')" by (cases "f s") auto
  obtain new where new: "snd s' = snd s @ new" "list_all P new" by (rule runsD [OF assms(1) f])
  show "(\<exists>new. snd (snd (onError f h s)) = snd s @ new \<and> list_all P new) \<and> (\<forall>v. fst (onError f h s) = Inr v \<longrightarrow> Q v)"
  proof (cases r)
    case (Inr v)
    then have "Q v" using runs_result [OF assms(1)] f by blast
    then show ?thesis using f Inr new by (auto simp: onError_def)
  next
    case (Inl e)
    obtain more where "snd (snd (h e s')) = snd s' @ more" "list_all P more" "\<forall>x. fst (h e s') = Inr x \<longrightarrow> Q x"
      using assms(2) unfolding runs_def by meson
    then show ?thesis using f Inl new by (auto simp: onError_def intro!: exI [of _ "new @ more"])
  qed
qed

lemma runs_attempt [runs_rules]: "runs P Q f \<Longrightarrow> runs P (\<lambda>_. True) (attempt f)"
  by (auto simp: runs_def attempt_def)

lemma runs_weaken: "runs P Q f \<Longrightarrow> (\<And>v. Q v \<Longrightarrow> R v) \<Longrightarrow> runs P R f"
  by (auto simp: runs_def)

text \<open>Any result, for the steps whose result does not matter.\<close>

abbreviation anything :: "'a \<Rightarrow> bool" where "anything \<equiv> \<lambda>_. True"

lemma runs_primitives [runs_rules]:
  "P (GitCall dir args) \<Longrightarrow> runs P anything (gitOutput sy m dir args)"
  "P (GitCall source [''show-ref'', ''--verify'', ''--quiet'', reference]) \<Longrightarrow> runs P anything (referenceExists sy m source reference)"
  "runs P anything (statPath sy p)"
  "P (MkdirCall p) \<Longrightarrow> runs P anything (mkdirAll sy p e)"
  "P (RemoveAllCall p) \<Longrightarrow> runs P anything (removeAll sy p)"
  "runs P anything (resolve sy p)"
  by (rule runsI; simp add: gitOutput_def referenceExists_def statPath_def mkdirAll_def removeAll_def resolve_def
      Let_def split: prod.splits)+

text \<open>
  A call in bounds: a worktree is added or removed below the root only, a branch is created,
  checked out or deleted below the prefix only, a directory is made or deleted below the root
  only, and every other git command only reads (or prunes registrations).
\<close>

definition below :: "Manager \<Rightarrow> string \<Rightarrow> bool" where
  "below m p \<longleftrightarrow> within (wm_root m) p \<and> p \<noteq> wm_root m"

definition reading :: "string list \<Rightarrow> bool" where
  "reading args \<longleftrightarrow> hd args \<in> {''rev-parse'', ''remote'', ''show-ref''} \<or> args = [''worktree'', ''prune'']"

definition owned_git :: "Manager \<Rightarrow> string list \<Rightarrow> bool" where
  "owned_git m args \<longleftrightarrow>
     reading args
     \<or> take 2 args = [''worktree'', ''remove''] \<and> within (wm_root m) (last args)
     \<or> (\<exists>b t. args = [''worktree'', ''add'', ''--quiet'', ''-b'', b, t, ''HEAD''] \<and> ownsBranch m b \<and> below m t)
     \<or> take 2 args = [''branch'', ''-D''] \<and> ownsBranch m (last args)
     \<or> take 2 args = [''checkout'', ''--quiet''] \<and> ownsBranch m (last args)"

fun owned_call :: "Manager \<Rightarrow> os_call \<Rightarrow> bool" where
  "owned_call m (GitCall dir args) = owned_git m args"
| "owned_call m (MkdirCall p) = within (wm_root m) p"
| "owned_call m (RemoveAllCall p) = below m p"
| "owned_call m (ChmodCall p) = False"

lemma owned_gits [runs_rules]:
  "owned_git m [''rev-parse'', x]" "owned_git m [''rev-parse'', x, y]" "owned_git m [''remote'', x, y]"
  "owned_git m [''show-ref'', x, y, z]" "owned_git m [''worktree'', ''prune'']"
  "within (wm_root m) p \<Longrightarrow> owned_git m [''worktree'', ''remove'', p]"
  "within (wm_root m) p \<Longrightarrow> owned_git m [''worktree'', ''remove'', f, p]"
  "ownsBranch m b \<Longrightarrow> owned_git m [''branch'', ''-D'', b]"
  "ownsBranch m b \<Longrightarrow> owned_git m [''checkout'', ''--quiet'', b]"
  "ownsBranch m b \<Longrightarrow> owned_git m [''checkout'', ''--quiet'', x, b]"
  "ownsBranch m b \<Longrightarrow> below m t \<Longrightarrow> owned_git m [''worktree'', ''add'', ''--quiet'', ''-b'', b, t, ''HEAD'']"
  by (simp_all add: owned_git_def reading_def)

text \<open>The rule for one step of a composition, with any intermediate result.\<close>

lemma then_any:
  assumes "runs P anything f" and "\<And>v. runs P R (g v)"
  shows "runs P R (andThen f g)"
  using runs_andThen [OF assms(1)] assms(2) by blast

lemma runs_owned_git [runs_rules]: "owned_git m args \<Longrightarrow> runs (owned_call m) anything (gitOutput sy m dir args)"
  by (rule runs_primitives) simp

lemma runs_owned_ref [runs_rules]: "runs (owned_call m) anything (referenceExists sy m source r)"
  by (rule runs_primitives) (simp add: owned_gits)

lemma runs_repoRoot [runs_rules]: "runs (owned_call m) anything (repoRoot sy m path)"
  unfolding repoRoot_def by (intro then_any runs_rules TrueI)

lemma runs_Inspect [runs_rules]: "runs (owned_call m) anything (Inspect sy m path)"
  unfolding Inspect_def by (intro then_any runs_rules TrueI)

lemma runs_repoKey [runs_rules]: "runs (owned_call m) repo_name (repoKey sy m source)"
  unfolding repoKey_def
proof (rule runs_andThen)
  show "runs (owned_call m) (\<lambda>k. k = [] \<or> repo_name k)
     (onError (andThen (gitOutput sy m source [''remote'', ''get-url'', ''origin'']) (\<lambda>r. return_ok (remoteKey r)))
        (\<lambda>_. return_ok []))"
    using repo_name_remote by (intro runs_onError then_any runs_rules) auto
qed (auto intro!: runs_return runs_fail simp: repo_name_safePart)

lemma runs_repository_part [runs_rules]: "runs (owned_call m) repo_name (repository_part sy m q source)"
  unfolding repository_part_def by (auto intro!: runs_return runs_fail runs_repoKey simp: repo_name_safePart)

lemma runs_Prune [runs_rules]: "runs (owned_call m) anything (Prune sy m source)"
  unfolding Prune_def by (intro then_any runs_rules TrueI)

lemma runs_rollback:
  assumes "below m target" and "ownsBranch m branch"
  shows "runs (owned_call m) anything (rollback sy m source target branch existed)"
  using assms unfolding rollback_def
  by (intro then_any runs_rules) (auto intro!: runs_rules then_any simp: below_def)

lemma runs_ensureBranch:
  assumes "ownsBranch m (TrimSpace branch)"
  shows "runs (owned_call m) anything (ensureBranch sy m path branch)"
  using assms unfolding ensureBranch_def Let_def
  by (intro then_any runs_rules) (auto intro!: runs_rules then_any)

lemma ownsBranch_trim: "ownsBranch m (TrimSpace b) = ownsBranch m b"
  by (simp add: ownsBranch_def)

lemma runs_EnsureBranch [runs_rules]: "runs (owned_call m) anything (EnsureBranch sy m x)"
proof (cases "managed m x")
  case True
  then show ?thesis
    unfolding EnsureBranch_def
    by (intro then_any runs_rules runs_ensureBranch) (auto simp: managed_def ownsBranch_trim)
next
  case False
  then show ?thesis
    by (simp add: EnsureBranch_def runs_def require_def andThen_def fail_def)
qed

lemma runs_Repair: "runs (owned_call m) anything (Repair sy m x)"
  unfolding Repair_def by (intro then_any runs_rules TrueI)

lemma runs_Reopen: "runs (owned_call m) anything (Reopen sy m x)"
  unfolding Reopen_def by (intro then_any runs_rules TrueI)

lemma runs_Remove: "runs (owned_call m) anything (RemoveWorktree sy m x force)"
proof (cases "managed m x")
  case True
  then show ?thesis
    unfolding RemoveWorktree_def
    by (intro then_any runs_onError runs_rules) (auto intro!: runs_rules then_any simp: managed_def)
next
  case False
  then show ?thesis
    by (simp add: RemoveWorktree_def runs_def require_def andThen_def fail_def)
qed

text \<open>What the root and the prefix of a manager must look like.\<close>

definition manager_ok :: "Manager \<Rightarrow> bool" where
  "manager_ok m \<longleftrightarrow>
     (\<exists>rs. wm_root m = abs_of rs \<and> (\<forall>p \<in> set rs. plain p)) \<and> wm_branchPrefix m \<noteq> [] \<and> solid (hd (wm_branchPrefix m))"

text \<open>The target of a creation: three or more parts below the root, and a branch below the prefix.\<close>

lemma target_below:
  assumes m: "manager_ok m" and repo: "repo_name repo" and ident: "safePart i \<noteq> []"
  shows "below m (JoinPath [wm_root m, repo, safePart i])"
    and "within (wm_root m) (DirPath (JoinPath [wm_root m, repo, safePart i]))"
proof -
  obtain rs where rs: "wm_root m = abs_of rs" "\<forall>p \<in> set rs. plain p" using m by (auto simp: manager_ok_def)
  obtain ps where ps: "ps \<noteq> []" "\<forall>p \<in> set ps. plain p" "repo = JoinBytes [slash] ps" using repo by (auto simp: repo_name_def)
  have n: "plain (safePart i)" using safePart_plain [OF ident] .
  have t: "JoinPath [wm_root m, repo, safePart i] = abs_of (rs @ ps @ [safePart i])"
    using JoinPath_repo [OF rs(2) ps(2,1) n] rs ps by simp
  have all: "\<forall>p \<in> set (rs @ ps @ [safePart i]). plain p" using rs ps n by auto
  have "rs @ ps @ [safePart i] \<noteq> rs" by simp
  then have "abs_of (rs @ ps @ [safePart i]) \<noteq> abs_of rs" using abs_of_inject [OF all rs(2)] by blast
  then show "below m (JoinPath [wm_root m, repo, safePart i])"
    using within_abs [OF rs(2) all] unfolding below_def t by (simp add: rs(1))
  show "within (wm_root m) (DirPath (JoinPath [wm_root m, repo, safePart i]))"
    using DirPath_snoc [of "rs @ ps" "safePart i"] all within_abs [of rs "rs @ ps"] unfolding t by (simp add: rs)
qed

lemma branch_owned:
  assumes "manager_ok m" and "safePart i \<noteq> []"
  shows "ownsBranch m (branch_of m (safePart i))"
proof -
  have "solid (last (safePart i))" using safePart_chars [OF last_in_set [OF assms(2)]] safe_name_solid by blast
  then have "TrimSpace (branch_of m (safePart i)) = branch_of m (safePart i)"
    using assms by (intro TrimSpace_solid_ends) (auto simp: branch_of_def manager_ok_def)
  then show ?thesis by (simp add: ownsBranch_def branch_of_def)
qed

lemma runs_add_worktree:
  assumes "below m target" and "ownsBranch m branch"
  shows "runs (owned_call m) anything (add_worktree sy m source target ident branch)"
  using assms unfolding add_worktree_def
  by (intro then_any runs_onError runs_rules runs_rollback) (auto intro!: runs_rules)

lemma runs_Create:
  assumes m: "manager_ok m"
  shows "runs (owned_call m) anything (CreateWorktree sy m q)"
  unfolding CreateWorktree_def Let_def
proof (rule runs_andThen [where Q = "\<lambda>_. safePart (wr_ID q) \<noteq> []"])
  fix v :: unit
  assume i: "safePart (wr_ID q) \<noteq> []"
  note t = target_below [OF m _ i] and b = branch_owned [OF m i]
  show "runs (owned_call m) anything
    (andThen (repoRoot sy m (wr_Source q)) (\<lambda>source. andThen (repository_part sy m q source) (\<lambda>repo.
      andThen (require (within (wm_root m) (JoinPath [wm_root m, repo, safePart (wr_ID q)])) TargetEscapes) (\<lambda>_.
      andThen (statPath sy (JoinPath [wm_root m, repo, safePart (wr_ID q)])) (\<lambda>st.
      andThen (case st of Present \<Rightarrow> fail (TargetExists (JoinPath [wm_root m, repo, safePart (wr_ID q)]))
                 | Missing \<Rightarrow> return_ok () | StatFailed \<Rightarrow> fail TargetNotInspected) (\<lambda>_.
      andThen (mkdirAll sy (DirPath (JoinPath [wm_root m, repo, safePart (wr_ID q)])) ParentNotCreated) (\<lambda>_.
      add_worktree sy m source (JoinPath [wm_root m, repo, safePart (wr_ID q)]) (safePart (wr_ID q))
        (branch_of m (safePart (wr_ID q))))))))))"
    by (intro then_any [OF runs_repoRoot] runs_andThen [OF runs_repository_part] then_any runs_rules
        runs_add_worktree t b) (auto intro!: runs_rules simp: t split: stat_result.splits)
qed (auto intro: runs_rules)

definition calls_of :: "('w, 'a) wt \<Rightarrow> 'w \<Rightarrow> os_call list" where
  "calls_of f w = snd (snd (f (w, [])))"

lemma runs_calls: "runs P Q f \<Longrightarrow> list_all P (calls_of f w)"
  unfolding runs_def calls_of_def by (metis append_Nil snd_conv)


definition demo_manager :: Manager where
  "demo_manager = \<lparr>wm_root = ''/w'', wm_branchPrefix = ''agent'', wm_git = ''git''\<rparr>"

text \<open>A system over a log-free world: git answers every command with a fixed line.\<close>

definition demo_system :: "unit system" where
  "demo_system = \<lparr>sy_git = (\<lambda>g d args w. ((True, ''/src/app''), w)), sy_Stat = (\<lambda>p w. Missing),
     sy_MkdirAll = (\<lambda>p w. (True, w)), sy_Chmod = (\<lambda>p w. (True, w)), sy_RemoveAll = (\<lambda>p w. w),
     sy_EvalSymlinks = (\<lambda>p w. None)\<rparr>"

lemma demo_manager_ok: "manager_ok demo_manager"
proof -
  have "wm_root demo_manager = abs_of [''w'']" "plain ''w''" by (simp_all add: demo_manager_def abs_of_def plain_def)
  moreover have "solid (hd (wm_branchPrefix demo_manager))" unfolding demo_manager_def by code_simp
  ultimately show ?thesis unfolding manager_ok_def by (intro conjI exI [of _ "[''w'']"]) (auto simp: demo_manager_def)
qed

definition demo_request :: WorktreeRequest where
  "demo_request = \<lparr>wr_ID = ''s 1'', wr_Source = ''/src/app'', wr_RepositoryKey = ''app''\<rparr>"


section \<open>What a creation leaves behind\<close>

lemma andThen_Inr: "andThen f g s = (Inr v, s') \<longleftrightarrow> (\<exists>u s1. f s = (Inr u, s1) \<and> g u s1 = (Inr v, s'))"
  by (cases "f s") (auto simp: andThen_def split: sum.splits)

lemma onError_Inr:
  "onError f h s = (Inr v, s') \<longleftrightarrow> f s = (Inr v, s') \<or> (\<exists>e s1. f s = (Inl e, s1) \<and> h e s1 = (Inr v, s'))"
  by (cases "f s") (auto simp: onError_def split: sum.splits)

lemma basic_Inr [simp]:
  "return_ok u s = (Inr v, s') \<longleftrightarrow> v = u \<and> s' = s"
  "fail e s \<noteq> (Inr v, s')"
  "require b e s = (Inr x, s') \<longleftrightarrow> b \<and> s' = s"
  by (auto simp: return_ok_def fail_def require_def)

lemma stat_Inr:
  "(case st of Present \<Rightarrow> fail a | Missing \<Rightarrow> return_ok () | StatFailed \<Rightarrow> fail b) s = (Inr v, s') \<longleftrightarrow>
     st = Missing \<and> s' = s"
  by (cases st) auto

lemma gitOutput_Inr:
  "gitOutput sy m dir args s = (Inr out, s') \<Longrightarrow> fst (fst (sy_git sy (wm_git m) dir args (fst s)))"
  by (auto simp: gitOutput_def split: prod.splits if_splits)

text \<open>
  A created worktree is isolated. When \<open>Create\<close> succeeds, the session has the safe form of the
  requested identifier and the branch under the prefix; its target lies strictly below the root, did
  not exist before, and git reported that it added a worktree there on that new branch.
\<close>

theorem create_isolated:
  assumes m: "manager_ok m" and run: "CreateWorktree sy m q (w, []) = (Inr info, s')"
  shows "ws_ID info = safePart (wr_ID q) \<and> ws_Branch info = branch_of m (safePart (wr_ID q))
     \<and> ownsBranch m (ws_Branch info)
     \<and> (\<exists>target w1 w2. below m target \<and> sy_Stat sy target w1 = Missing
          \<and> fst (fst (sy_git sy (wm_git m) (ws_Source info)
              [''worktree'', ''add'', ''--quiet'', ''-b'', ws_Branch info, target, ''HEAD''] w2)))"
proof -
  from run obtain source repo s1 s2 s3 st s4 s5 where i: "safePart (wr_ID q) \<noteq> []"
      and repo: "repository_part sy m q source s1 = (Inr repo, s2)"
      and st: "statPath sy (JoinPath [wm_root m, repo, safePart (wr_ID q)]) s2 = (Inr Missing, s3)"
      and add: "add_worktree sy m source (JoinPath [wm_root m, repo, safePart (wr_ID q)]) (safePart (wr_ID q))
        (branch_of m (safePart (wr_ID q))) s4 = (Inr info, s5)"
    unfolding CreateWorktree_def Let_def andThen_Inr stat_Inr basic_Inr by blast
  let ?t = "JoinPath [wm_root m, repo, safePart (wr_ID q)]"
  have "repo_name repo" using runs_result [OF runs_repository_part repo] .
  then have t: "below m ?t" using target_below [OF m _ i] by blast
  obtain e s6 s7 where git: "gitOutput sy m source
      [''worktree'', ''add'', ''--quiet'', ''-b'', branch_of m (safePart (wr_ID q)), ?t, ''HEAD''] s6 = (Inr e, s7)"
      and info: "ws_ID info = safePart (wr_ID q)" "ws_Source info = source" "ws_Branch info = branch_of m (safePart (wr_ID q))"
    using add by (auto simp: add_worktree_def andThen_Inr onError_Inr)
  have "sy_Stat sy ?t (fst s2) = Missing" using st by (auto simp: statPath_def)
  with info t branch_owned [OF m i] gitOutput_Inr [OF git] show ?thesis by auto
qed

lemma demo_created:
  "fst (CreateWorktree demo_system demo_manager demo_request ((), [])) =
     Inr \<lparr>ws_ID = ''s-1'', ws_Source = ''/src/app'', ws_Path = ''/src/app'', ws_Branch = ''agent/s-1'', ws_BaseSHA = ''/src/app''\<rparr>"
  by code_simp

theorem create_isolated_witness:
  "\<exists>target w1 w2. below demo_manager target \<and> sy_Stat demo_system target w1 = Missing
     \<and> fst (fst (sy_git demo_system (wm_git demo_manager) ''/src/app''
         [''worktree'', ''add'', ''--quiet'', ''-b'', ''agent/s-1'', target, ''HEAD''] w2))"
proof -
  obtain s' where "CreateWorktree demo_system demo_manager demo_request ((), []) =
     (Inr \<lparr>ws_ID = ''s-1'', ws_Source = ''/src/app'', ws_Path = ''/src/app'', ws_Branch = ''agent/s-1'', ws_BaseSHA = ''/src/app''\<rparr>, s')"
    using demo_created by (metis prod.collapse)
  from create_isolated [OF demo_manager_ok this, THEN conjunct2, THEN conjunct2, THEN conjunct2]
  show ?thesis by (simp only: WorktreeSession.simps)
qed

text \<open>Calls that delete no branch.\<close>

fun spares_branches :: "os_call \<Rightarrow> bool" where
  "spares_branches (GitCall dir args) = (take 2 args \<noteq> [''branch'', ''-D''])"
| "spares_branches c = True"

lemma spares_rules:
  "take 2 args \<noteq> [''branch'', ''-D''] \<Longrightarrow> runs spares_branches anything (gitOutput sy m dir args)"
  "runs spares_branches anything (referenceExists sy m source r)"
  "runs spares_branches anything (removeAll sy p)"
  "runs spares_branches anything (resolve sy p)"
  by (rule runs_primitives; simp)+

lemma spares_Inspect: "runs spares_branches anything (Inspect sy m path)"
  unfolding Inspect_def repoRoot_def
  by (intro then_any spares_rules runs_return runs_require TrueI) simp_all

lemma spares_rollback: "runs spares_branches anything (rollback sy m source target branch True)"
  unfolding rollback_def
  by (intro then_any runs_attempt spares_rules) (auto intro: spares_rules runs_return)

lemma rollback_removes:
  "GitCall source [''worktree'', ''remove'', ''--force'', target] \<in> set (snd (snd (rollback sy m source target branch existed s)))"
proof -
  obtain s' where e: "attempt (gitOutput sy m source [''worktree'', ''remove'', ''--force'', target]) s = (Inr (), s')"
      "GitCall source [''worktree'', ''remove'', ''--force'', target] \<in> set (snd s')"
    by (cases "gitOutput sy m source [''worktree'', ''remove'', ''--force'', target] s")
      (auto simp: attempt_def gitOutput_def split: prod.splits)
  let ?rest = "andThen (if within (wm_root m) target then removeAll sy target else return_ok ()) (\<lambda>_.
      if existed then return_ok ()
      else andThen (referenceExists sy m source (''refs/heads/'' @ branch)) (\<lambda>exists.
        if exists then attempt (gitOutput sy m source [''branch'', ''-D'', branch]) else return_ok ()))"
  have "runs anything anything ?rest" by (auto intro!: then_any runs_attempt runs_primitives runs_return)
  then obtain new where "snd (snd (?rest s')) = snd s' @ new" unfolding runs_def by metis
  then show ?thesis using e by (simp add: rollback_def andThen_def [of "attempt _"])
qed

lemma add_worktree_existed:
  assumes "fst (fst (sy_git sy (wm_git m) source [''show-ref'', ''--verify'', ''--quiet'', ''refs/heads/'' @ branch] w))"
  shows "\<exists>w1. add_worktree sy m source target ident branch (w, log) =
     onError
       (andThen (gitOutput sy m source [''worktree'', ''add'', ''--quiet'', ''-b'', branch, target, ''HEAD'']) (\<lambda>_.
        andThen (Inspect sy m target) (\<lambda>info.
        return_ok (info\<lparr>ws_ID := ident, ws_Source := source, ws_Branch := branch\<rparr>))))
       (\<lambda>e. andThen (rollback sy m source target branch True) (\<lambda>_. fail e))
       (w1, log @ [GitCall source [''show-ref'', ''--verify'', ''--quiet'', ''refs/heads/'' @ branch]])"
  using assms by (auto simp: add_worktree_def andThen_def referenceExists_def Let_def split: prod.splits)

text \<open>
  A failed creation leaves earlier work alone. When the branch of a new worktree already exists,
  adding the worktree never deletes a branch, whatever git answers; and when it fails, the rollback
  has asked git to remove the partial worktree.
\<close>

theorem rollback_spares_branch:
  assumes "fst (fst (sy_git sy (wm_git m) source [''show-ref'', ''--verify'', ''--quiet'', ''refs/heads/'' @ branch] w))"
  shows "list_all spares_branches (calls_of (add_worktree sy m source target ident branch) w)
     \<and> (case fst (add_worktree sy m source target ident branch (w, [])) of
          Inr info \<Rightarrow> True
        | Inl e \<Rightarrow> GitCall source [''worktree'', ''remove'', ''--force'', target]
             \<in> set (calls_of (add_worktree sy m source target ident branch) w))"
proof -
  let ?ref = "GitCall source [''show-ref'', ''--verify'', ''--quiet'', ''refs/heads/'' @ branch]"
  let ?rm = "GitCall source [''worktree'', ''remove'', ''--force'', target]"
  let ?op = "andThen (gitOutput sy m source [''worktree'', ''add'', ''--quiet'', ''-b'', branch, target, ''HEAD'']) (\<lambda>_.
        andThen (Inspect sy m target) (\<lambda>info.
        return_ok (info\<lparr>ws_ID := ident, ws_Source := source, ws_Branch := branch\<rparr>)))"
  let ?h = "\<lambda>e. andThen (rollback sy m source target branch True) (\<lambda>_. fail e)"
  obtain w1 where run: "add_worktree sy m source target ident branch (w, []) = onError ?op ?h (w1, [?ref])"
    using add_worktree_existed [OF assms, of target ident "[]"] by auto
  have ok: "runs spares_branches anything (onError ?op ?h)"
    by (intro runs_onError then_any spares_rules spares_Inspect spares_rollback runs_return runs_fail) simp_all
  have calls: "calls_of (add_worktree sy m source target ident branch) w = snd (snd (onError ?op ?h (w1, [?ref])))"
    by (simp add: calls_of_def run)
  have spared: "list_all spares_branches (snd (snd (onError ?op ?h (w1, [?ref]))))"
    by (rule runs_log [OF ok]) simp
  show ?thesis
  proof (cases "fst (onError ?op ?h (w1, [?ref]))")
    case (Inr info)
    then show ?thesis using spared by (simp add: calls run)
  next
    case (Inl e)
    have "\<exists>s2. snd (onError ?op ?h (w1, [?ref])) = snd (rollback sy m source target branch True s2)"
    proof -
      obtain r s2 where p: "?op (w1, [?ref]) = (r, s2)" by (metis prod.collapse)
      with Inl have "\<exists>e'. r = Inl e'" by (cases r) (auto simp: onError_def)
      then have "snd (onError ?op ?h (w1, [?ref])) = snd (rollback sy m source target branch True s2)"
        using p by (cases "rollback sy m source target branch True s2")
          (auto simp: onError_def andThen_def [of "rollback _ _ _ _ _ _"] fail_def split: sum.splits)
      then show ?thesis by blast
    qed
    then obtain s2 where "snd (onError ?op ?h (w1, [?ref])) = snd (rollback sy m source target branch True s2)"
      by blast
    then show ?thesis using Inl spared rollback_removes [of source target sy m branch True s2] by (simp add: calls run)
  qed
qed

theorem rollback_spares_branch_witness:
  "list_all spares_branches (calls_of (add_worktree demo_system demo_manager ''/src/app'' ''/w/app/s-1'' ''s-1'' ''agent/s-1'') ())"
  by (rule rollback_spares_branch [THEN conjunct1]) (simp add: demo_system_def)

end
