(* ===== verification/Transport_Message.thy ===== *)
theory Transport_Message
  imports Journal_File
begin

text \<open>
  The messages of the process transport, from \<open>src/transport/process.go\<close>: JSON-RPC messages
  and their wire form, one line each, request identifiers as text, the answers to the agent's
  requests, and the bounded buffer that keeps the end of the agent's standard error.
\<close>

section \<open>Messages (53--93)\<close>

text \<open>A raw JSON field is absent (\<open>None\<close>) or a value.\<close>

record RPCError =
  er_Code :: int
  er_Message :: string
  er_Data :: "json option"

record Message =
  mg_JSONRPC :: string
  mg_ID :: "json option"
  mg_Method :: string
  mg_Params :: "json option"
  mg_Result :: "json option"
  mg_Error :: "RPCError option"

definition empty_message :: Message where
  "empty_message = \<lparr>mg_JSONRPC = [], mg_ID = None, mg_Method = [], mg_Params = None, mg_Result = None, mg_Error = None\<rparr>"

definition CodeMethodNotFound :: int where "CodeMethodNotFound = -32601"
definition CodeInternalError :: int where "CodeInternalError = -32603"
definition CodeRequestCancelled :: int where "CodeRequestCancelled = -32800"
definition MethodCancelRequest :: string where "MethodCancelRequest = ''$/cancel_request''"

definition opt_json :: "string \<Rightarrow> json option \<Rightarrow> (string \<times> json) list" where
  "opt_json k v = (case v of None \<Rightarrow> [] | Some j \<Rightarrow> [(k, j)])"

definition enc_error :: "RPCError \<Rightarrow> json" where
  "enc_error e =
     JObj ([(''code'', JNum (er_Code e)), (''message'', JStr (er_Message e))] @ opt_json ''data'' (er_Data e))"

definition enc_message :: "Message \<Rightarrow> json" where
  "enc_message m =
     JObj (opt_str ''jsonrpc'' (mg_JSONRPC m) @ opt_json ''id'' (mg_ID m) @ opt_str ''method'' (mg_Method m)
       @ opt_json ''params'' (mg_Params m) @ opt_json ''result'' (mg_Result m)
       @ opt_json ''error'' (map_option enc_error (mg_Error m)))"

definition dec_error :: "json \<Rightarrow> RPCError option" where
  "dec_error j =
     (case j of
        JObj fs \<Rightarrow>
          (case (get_int fs ''code'', get_str fs ''message'') of
             (Some c, Some m) \<Rightarrow> Some \<lparr>er_Code = c, er_Message = m, er_Data = sget fs ''data''\<rparr>
           | _ \<Rightarrow> None)
      | _ \<Rightarrow> None)"

text \<open>The pointer field \<open>error\<close>: absent and \<open>null\<close> are nil.\<close>

definition get_error :: "(string \<times> json) list \<Rightarrow> RPCError option option" where
  "get_error fs =
     (case sget fs ''error'' of
        None \<Rightarrow> Some None | Some JNull \<Rightarrow> Some None
      | Some j \<Rightarrow> map_option Some (dec_error j))"

definition dec_message :: "json \<Rightarrow> Message option" where
  "dec_message j =
     (case j of
        JNull \<Rightarrow> Some empty_message
      | JObj fs \<Rightarrow>
          (case (get_str fs ''jsonrpc'', get_str fs ''method'', get_error fs) of
             (Some v, Some me, Some e) \<Rightarrow>
               Some \<lparr>mg_JSONRPC = v, mg_ID = sget fs ''id'', mg_Method = me, mg_Params = sget fs ''params'',
                     mg_Result = sget fs ''result'', mg_Error = e\<rparr>
           | _ \<Rightarrow> None)
      | _ \<Rightarrow> None)"

lemma sget_opt_json [codec_simps]: "sget (opt_json j v) k = (if k = j then v else None)"
  by (simp add: sget_def opt_json_def split: option.splits)

lemma dec_enc_error [simp]: "dec_error (enc_error e) = Some e"
  by (simp add: dec_error_def enc_error_def get_defs codec_simps split: option.splits)

lemma get_error_enc: "sget fs ''error'' = map_option enc_error e \<Longrightarrow> get_error fs = Some e"
  using dec_enc_error [of "the e"] by (cases e) (auto simp: get_error_def enc_error_def split: json.splits)

lemma message_fields:
  "enc_message m = JObj fs \<Longrightarrow> get_str fs ''jsonrpc'' = Some (mg_JSONRPC m) \<and> get_str fs ''method'' = Some (mg_Method m)
     \<and> sget fs ''id'' = mg_ID m \<and> sget fs ''params'' = mg_Params m \<and> sget fs ''result'' = mg_Result m
     \<and> sget fs ''error'' = map_option enc_error (mg_Error m)"
  by (auto simp: enc_message_def get_str_def codec_simps split: option.splits if_splits)

lemma dec_enc_message [simp]: "dec_message (enc_message m) = Some m"
proof -
  obtain fs where fs: "enc_message m = JObj fs" by (simp add: enc_message_def)
  show ?thesis
    using message_fields [OF fs] get_error_enc [of fs "mg_Error m"] by (simp add: dec_message_def fs)
qed

section \<open>Lines on the wire (249--268, 383--396)\<close>

definition wire_line :: "Message \<Rightarrow> bytes" where
  "wire_line m = marshal (enc_message m) @ [newline]"

text \<open>\<open>bytes.TrimSpace\<close> and the reader's test that something is left.\<close>

definition read_payload :: "bytes \<Rightarrow> Message option" where
  "read_payload line =
     (if TrimSpace line = [] then None
      else case unmarshal (TrimSpace line) of None \<Rightarrow> None | Some j \<Rightarrow> dec_message j)"

text \<open>The lines \<open>ReadBytes\<close> returns until the stream ends: a last line may lack its newline.\<close>

definition stream_lines :: "bytes \<Rightarrow> bytes list" where
  "stream_lines s =
     complete_lines s @ (let rest = drop (length (keep_lines s)) s in if rest = [] then [] else [rest])"

definition stream_messages :: "bytes \<Rightarrow> Message list" where
  "stream_messages s = List.map_filter read_payload (stream_lines s)"

section \<open>Identifiers and answers (308--321, 352--376)\<close>

definition IDString :: "json option \<Rightarrow> string" where
  "IDString raw =
     (case raw of
        None \<Rightarrow> []
      | Some JNull \<Rightarrow> []
      | Some (JStr s) \<Rightarrow> TrimSpace s
      | Some (JNum i) \<Rightarrow> show_int i
      | Some v \<Rightarrow> TrimSpace (marshal v))"

datatype handler_error = ContextCanceled string | DeadlineExceeded string | HandlerRPC RPCError | HandlerFailed string

definition rpc_error_of :: "handler_error \<Rightarrow> RPCError" where
  "rpc_error_of e =
     (case e of
        ContextCanceled m \<Rightarrow> \<lparr>er_Code = CodeRequestCancelled, er_Message = m, er_Data = None\<rparr>
      | DeadlineExceeded m \<Rightarrow> \<lparr>er_Code = CodeRequestCancelled, er_Message = m, er_Data = None\<rparr>
      | HandlerRPC r \<Rightarrow> r
      | HandlerFailed m \<Rightarrow> \<lparr>er_Code = CodeInternalError, er_Message = m, er_Data = None\<rparr>)"

definition writeResponse :: "json option \<Rightarrow> handler_error + json \<Rightarrow> Message" where
  "writeResponse ident answer =
     (let resp = empty_message\<lparr>mg_JSONRPC := ''2.0'', mg_ID := ident\<rparr> in
      case answer of
        Inl e \<Rightarrow> resp\<lparr>mg_Error := Some (rpc_error_of e)\<rparr>
      | Inr result \<Rightarrow> resp\<lparr>mg_Result := Some result\<rparr>)"

text \<open>
  The verb \<open>%q\<close>: Go's quoting of ASCII text; other text is taken to be printable, which passes
  through.
\<close>

definition quote_byte :: "char \<Rightarrow> string" where
  "quote_byte c =
     (if c = quote_char \<or> c = backslash then [backslash, c]
      else case map_of [(7 :: nat, CHR ''a''), (8, CHR ''b''), (9, CHR ''t''), (10, CHR ''n''), (11, CHR ''v''),
                        (12, CHR ''f''), (13, CHR ''r'')] (of_char c) of
        Some e \<Rightarrow> [backslash, e]
      | None \<Rightarrow>
          if byte_in 0 31 c \<or> byte_in 127 127 c
          then [backslash, CHR ''x'', hex_char (of_char c div 16), hex_char (of_char c mod 16)] else [c])"

definition Quote :: "string \<Rightarrow> string" where
  "Quote s = [quote_char] @ concat (map quote_byte s) @ [quote_char]"

definition unsupported_request :: "string \<Rightarrow> handler_error" where
  "unsupported_request method = HandlerRPC
     \<lparr>er_Code = CodeMethodNotFound, er_Message = ''unsupported server request '' @ Quote method, er_Data = None\<rparr>"

section \<open>The bounded buffer (95--118)\<close>

record boundedBuffer =
  bb_buf :: bytes
  bb_max :: int

definition Write_buffer :: "bytes \<Rightarrow> boundedBuffer \<Rightarrow> boundedBuffer" where
  "Write_buffer p b =
     (let limit = (if bb_max b \<le> 0 then 8 * 1024 else bb_max b); buf = bb_buf b @ p in
      \<lparr>bb_buf = (if int (length buf) > limit then drop (length buf - nat limit) buf else buf), bb_max = limit\<rparr>)"

fun write_all :: "bytes list \<Rightarrow> boundedBuffer \<Rightarrow> boundedBuffer" where
  "write_all [] b = b"
| "write_all (p # ps) b = write_all ps (Write_buffer p b)"

lemma write_all_tail:
  assumes "0 < k" and "bb_max b = int k" and "bb_buf b = drop (length s - k) s"
  shows "bb_buf (write_all ps b) = drop (length (s @ concat ps) - k) (s @ concat ps)"
  using assms(2,3)
proof (induction ps arbitrary: b s)
  case (Cons p ps)
  have "bb_max (Write_buffer p b) = int k" using Cons.prems(1) assms(1) by (simp add: Write_buffer_def Let_def)
  moreover have "bb_buf (Write_buffer p b) = drop (length (s @ p) - k) (s @ p)"
    using Cons.prems assms(1) by (cases "length s \<le> k") (auto simp: Write_buffer_def Let_def add.commute)
  ultimately show ?case using Cons.IH [of "Write_buffer p b" "s @ p"] by simp
qed simp

text \<open>
  The stderr buffer holds the end of the output. After any writes to a new buffer of a
  positive size, it holds exactly the last bytes of all that was written, at most that many.
\<close>

theorem buffer_keeps_tail:
  assumes "0 < k"
  shows "bb_buf (write_all ps \<lparr>bb_buf = [], bb_max = int k\<rparr>) = drop (length (concat ps) - k) (concat ps)
       \<and> length (bb_buf (write_all ps \<lparr>bb_buf = [], bb_max = int k\<rparr>)) \<le> k"
  using write_all_tail [OF assms, of "\<lparr>bb_buf = [], bb_max = int k\<rparr>" "[]" ps] by simp

theorem buffer_keeps_tail_witness:
  "bb_buf (write_all [''ab'', ''cd'', ''e''] \<lparr>bb_buf = [], bb_max = 3\<rparr>) = ''cde''"
  using buffer_keeps_tail [of 3 "[''ab'', ''cd'', ''e'']"] by simp

section \<open>Framing\<close>

lemma wire_line_complete: "complete_lines (wire_line m @ s) = wire_line m # complete_lines s"
  unfolding wire_line_def using complete_lines_Cons [of "marshal (enc_message m)" s] by simp

lemma keep_lines_wire: "keep_lines (concat (map wire_line ms)) = concat (map wire_line ms)"
proof (cases ms rule: rev_exhaust)
  case (snoc ms' m)
  then show ?thesis by (simp add: wire_line_def keep_lines_def)
qed (simp add: keep_lines_def)

lemma TrimSpace_line: "TrimSpace (wire_line m) = marshal (enc_message m)"
proof -
  obtain body where body: "marshal (enc_message m) = CHR ''{'' # body @ ''}''"
    by (auto simp: enc_message_def)
  have "solid (CHR ''{'')" "solid (CHR ''}'')" by code_simp+
  then have "TrimSpace (marshal (enc_message m)) = marshal (enc_message m)"
    by (intro TrimSpace_solid_ends) (simp_all add: body)
  moreover have "trim_right (s @ [newline]) = trim_right s" for s
    by (simp add: trim_right_def drop_spaces.simps [of _ "newline # rev s"] space1_def)
  moreover have "trim_left (marshal (enc_message m) @ [newline]) = marshal (enc_message m) @ [newline]"
    by (rule trim_left_id) (simp add: body space1_def space2_def space3_def split: list.splits)
  moreover have "trim_left (marshal (enc_message m)) = marshal (enc_message m)"
    by (rule trim_left_id) (simp add: body space1_def space2_def space3_def split: list.splits)
  ultimately show ?thesis by (simp add: TrimSpace_def wire_line_def)
qed

lemma read_wire_line: "read_payload (wire_line m) = Some m"
  by (simp add: read_payload_def TrimSpace_line)

text \<open>
  Messages survive the wire. Whatever sequence of messages one side writes, the other side
  reads exactly that sequence back.
\<close>

theorem wire_round_trip:
  "stream_messages (concat (map wire_line ms)) = ms"
proof -
  have "complete_lines (concat (map wire_line ms)) = map wire_line ms"
    by (induction ms) (simp_all add: wire_line_complete, simp add: complete_lines_def)
  then have "stream_lines (concat (map wire_line ms)) = map wire_line ms"
    by (simp add: stream_lines_def keep_lines_wire)
  moreover have "List.map_filter read_payload (map wire_line ms) = ms"
    by (induction ms) (simp_all add: List.map_filter_def read_wire_line)
  ultimately show ?thesis by (simp add: stream_messages_def)
qed

end
