(* ===== verification/Transport_Process.thy ===== *)
theory Transport_Process
  imports Transport_Message
begin

text \<open>
  The process transport of \<open>src/transport/process.go\<close> as a state machine: calls to the agent
  and their channels, the reader of the agent's output, requests from the agent and their
  cancellation, and the two ways the connection ends. A step is a stretch of one goroutine between
  two points where it locks, waits or selects; any step that is enabled may come next, and a select
  with several ready cases may take any. What the pipe, the observer and the handlers answer is
  given with the step.
\<close>

section \<open>State (31--51)\<close>

datatype call_error = RPCFailed RPCError | ProcessExited | TransportFailed string | ContextDone string

type_synonym processResponse = "call_error + json option"

datatype call_phase = Registered | Writing | WriteFailed call_error | Waiting | Returned processResponse

datatype request_phase = Spawned | Handling bool | Answered

datatype closing = Entered "string option" | Marked "string option"

record call_state =
  ca_ID :: string
  ca_Request :: Message
  ca_phase :: call_phase

record request_state =
  iq_Message :: Message
  iq_cancelled :: bool
  iq_phase :: request_phase

text \<open>
  The fields of \<open>Process\<close>; calls and inbound requests are numbered in the order they begin,
  \<open>pending\<close> and \<open>inbound\<close> map identifiers to those numbers. \<open>pr_closing\<close> holds the
  calls of \<open>closePending\<close> that run, before or after they closed \<open>done\<close>. After them, what was
  sent on the calls' channels, what was read, written and given to the notification callback.
\<close>

record Process =
  pr_pending :: "nat gomap"
  pr_inbound :: "nat gomap"
  pr_nextID :: nat
  pr_done :: bool
  pr_intentional :: bool
  pr_exited :: bool
  pr_closed :: bool
  pr_closing :: "closing list"
  pr_exitCode :: int
  pr_stderr :: boundedBuffer
  pr_notify :: bool
  pr_request :: bool
  pr_serverRequest :: bool
  pr_reading :: bool
  pr_calls :: "call_state list"
  pr_requests :: "request_state list"
  pr_sent :: "(nat \<times> processResponse) list"
  pr_received :: "Message list"
  pr_written :: "Message list"
  pr_notified :: "Message list"

definition Start_process :: "bool \<Rightarrow> bool \<Rightarrow> bool \<Rightarrow> Process" where
  "Start_process notify request serverRequest =
     \<lparr>pr_pending = [], pr_inbound = [], pr_nextID = 0, pr_done = False, pr_intentional = False,
      pr_exited = False, pr_closed = False, pr_closing = [], pr_exitCode = -1, pr_stderr = \<lparr>bb_buf = [], bb_max = 8 * 1024\<rparr>,
      pr_notify = notify, pr_request = request, pr_serverRequest = serverRequest, pr_reading = True,
      pr_calls = [], pr_requests = [], pr_sent = [], pr_received = [], pr_written = [], pr_notified = []\<rparr>"

section \<open>Shared operations (249--268, 475--500)\<close>

definition removePending :: "string \<Rightarrow> Process \<Rightarrow> nat option \<times> Process" where
  "removePending ident p = (map_of (pr_pending p) ident, p\<lparr>pr_pending := map_del ident (pr_pending p)\<rparr>)"

definition set_phase :: "nat \<Rightarrow> call_phase \<Rightarrow> Process \<Rightarrow> Process" where
  "set_phase k ph p = p\<lparr>pr_calls := (pr_calls p)[k := (pr_calls p ! k)\<lparr>ca_phase := ph\<rparr>]\<rparr>"

definition cancel_request :: "nat \<Rightarrow> Process \<Rightarrow> Process" where
  "cancel_request k p = p\<lparr>pr_requests := (pr_requests p)[k := (pr_requests p ! k)\<lparr>iq_cancelled := True\<rparr>]\<rparr>"

definition remove_at :: "nat \<Rightarrow> 'a list \<Rightarrow> 'a list" where
  "remove_at i xs = take i xs @ drop (Suc i) xs"

text \<open>\<open>closePending\<close> is entered, closes \<open>done\<close>, and then empties the tables under the lock.\<close>

definition closePending :: "string option \<Rightarrow> Process \<Rightarrow> Process" where
  "closePending err p = p\<lparr>pr_closing := pr_closing p @ [Entered err]\<rparr>"

definition closeDone :: "nat \<Rightarrow> string option \<Rightarrow> Process \<Rightarrow> Process" where
  "closeDone i err p = p\<lparr>pr_done := True, pr_closing := (pr_closing p)[i := Marked err]\<rparr>"

definition drainPending :: "nat \<Rightarrow> string option \<Rightarrow> Process \<Rightarrow> Process" where
  "drainPending i err p =
     (let e = (case err of None \<Rightarrow> ProcessExited | Some m \<Rightarrow> TransportFailed m);
          q = fold (\<lambda>(_, k). cancel_request k) (pr_inbound p) p in
      q\<lparr>pr_inbound := [], pr_pending := [], pr_closing := remove_at i (pr_closing p),
        pr_sent := pr_sent p @ map (\<lambda>(_, k). (k, Inl e)) (pr_pending p)\<rparr>)"

text \<open>
  \<open>problem\<close> is the error of the observer or of the pipe, if any. The test of \<open>done\<close> and the
  write are one step: an end of the connection between them is taken to come after the write.
\<close>

definition writeMessage :: "Message \<Rightarrow> string option \<Rightarrow> Process \<Rightarrow> call_error option \<times> Process" where
  "writeMessage m problem p =
     (if pr_done p then (Some ProcessExited, p)
      else case problem of
        Some e \<Rightarrow> (Some (TransportFailed e), p)
      | None \<Rightarrow> (None, p\<lparr>pr_written := pr_written p @ [m]\<rparr>))"

section \<open>Calls (182--247)\<close>

definition call_id :: "nat \<Rightarrow> string" where
  "call_id n = show_nat n"

definition uint64_next :: "nat \<Rightarrow> nat" where
  "uint64_next n = (n + 1) mod 18446744073709551616"

text \<open>Parameters that cannot be marshalled end the call with the error given in their place.\<close>

definition beginCall :: "string \<Rightarrow> string + json \<Rightarrow> Process \<Rightarrow> Process" where
  "beginCall meth params p =
     (let n = uint64_next (pr_nextID p); ident = call_id n in
      case params of
        Inl e \<Rightarrow> p\<lparr>pr_nextID := n, pr_calls := pr_calls p @
          [\<lparr>ca_ID = ident, ca_Request = empty_message, ca_phase = Returned (Inl (TransportFailed e))\<rparr>]\<rparr>
      | Inr ps \<Rightarrow>
      p\<lparr>pr_nextID := n, pr_pending := map_put ident (length (pr_calls p)) (pr_pending p),
        pr_calls := pr_calls p @
          [\<lparr>ca_ID = ident, ca_Request = empty_message\<lparr>mg_JSONRPC := ''2.0'', mg_ID := Some (JStr ident),
             mg_Method := meth, mg_Params := Some ps\<rparr>, ca_phase = Registered\<rparr>]\<rparr>)"

definition startCall :: "nat \<Rightarrow> Process \<Rightarrow> Process" where
  "startCall k p =
     (if pr_done p then set_phase k (Returned (Inl ProcessExited)) (snd (removePending (ca_ID (pr_calls p ! k)) p))
      else set_phase k Writing p)"

definition writeCall :: "nat \<Rightarrow> string option \<Rightarrow> Process \<Rightarrow> Process" where
  "writeCall k problem p =
     (let c = pr_calls p ! k in
      case writeMessage (ca_Request c) problem p of
        (None, p') \<Rightarrow> set_phase k Waiting p'
      | (Some e, p') \<Rightarrow> set_phase k (WriteFailed e) (snd (removePending (ca_ID c) p')))"

definition failCall :: "nat \<Rightarrow> call_error \<Rightarrow> Process \<Rightarrow> Process" where
  "failCall k e p = set_phase k (Returned (Inl (if pr_done p then ProcessExited else e))) p"

text \<open>The cases of the final select: the context ended, the process exited, the response came.\<close>

definition cancelCall :: "nat \<Rightarrow> string \<Rightarrow> string option \<Rightarrow> Process \<Rightarrow> Process" where
  "cancelCall k reason problem p =
     (let ident = ca_ID (pr_calls p ! k); notification = empty_message
          \<lparr>mg_JSONRPC := ''2.0'', mg_Method := MethodCancelRequest,
           mg_Params := Some (JObj [(''requestId'', JStr ident)])\<rparr> in
      case removePending ident p of
        (None, p') \<Rightarrow> set_phase k (Returned (Inl (ContextDone reason))) p'
      | (Some _, p') \<Rightarrow> set_phase k (Returned (Inl (ContextDone reason))) (snd (writeMessage notification problem p')))"

definition exitCall :: "nat \<Rightarrow> Process \<Rightarrow> Process" where
  "exitCall k p = set_phase k (Returned (Inl ProcessExited)) p"

definition receiveCall :: "nat \<Rightarrow> processResponse \<Rightarrow> Process \<Rightarrow> Process" where
  "receiveCall k r p = set_phase k (Returned r) p"

definition NotifyContext :: "string \<Rightarrow> string + json \<Rightarrow> string option \<Rightarrow> string option \<Rightarrow> Process \<Rightarrow> call_error option \<times> Process" where
  "NotifyContext meth params ctx problem p =
     (case (params, ctx) of
        (Inl e, _) \<Rightarrow> (Some (TransportFailed e), p)
      | (Inr _, Some reason) \<Rightarrow> (Some (ContextDone reason), p)
      | (Inr ps, None) \<Rightarrow>
          writeMessage (empty_message\<lparr>mg_JSONRPC := ''2.0'', mg_Method := meth, mg_Params := Some ps\<rparr>) problem p)"

section \<open>The reader and the agent's requests (378--473)\<close>

definition handleRequest :: "Message \<Rightarrow> Process \<Rightarrow> Process" where
  "handleRequest m p =
     p\<lparr>pr_inbound := map_put (IDString (mg_ID m)) (length (pr_requests p)) (pr_inbound p),
       pr_requests := pr_requests p @ [\<lparr>iq_Message = m, iq_cancelled = False, iq_phase = Spawned\<rparr>]\<rparr>"

text \<open>The identifier in the parameters of a cancellation, when they are readable.\<close>

definition cancelled_id :: "json option \<Rightarrow> string option" where
  "cancelled_id params =
     (case params of
        Some (JObj fs) \<Rightarrow> Some (IDString (sget fs ''requestId'')) | Some JNull \<Rightarrow> Some [] | _ \<Rightarrow> None)"

definition handleCancel :: "json option \<Rightarrow> Process \<Rightarrow> Process" where
  "handleCancel params p =
     (case Option.bind (cancelled_id params) (map_of (pr_inbound p)) of
        None \<Rightarrow> p | Some k \<Rightarrow> cancel_request k p)"

definition response_of :: "Message \<Rightarrow> processResponse" where
  "response_of m = (case mg_Error m of Some e \<Rightarrow> Inl (RPCFailed e) | None \<Rightarrow> Inr (mg_Result m))"

definition deliverResponse :: "Message \<Rightarrow> Process \<Rightarrow> Process" where
  "deliverResponse m p =
     (case removePending (IDString (mg_ID m)) p of
        (None, p') \<Rightarrow> p'
      | (Some k, p') \<Rightarrow> p'\<lparr>pr_sent := pr_sent p' @ [(k, response_of m)]\<rparr>)"

definition handleMessage :: "Message \<Rightarrow> Process \<Rightarrow> Process" where
  "handleMessage m p0 =
     (let p = p0\<lparr>pr_received := pr_received p0 @ [m]\<rparr> in
      if mg_Method m \<noteq> [] \<and> mg_ID m \<noteq> None then handleRequest m p
      else if mg_Method m = MethodCancelRequest then handleCancel (mg_Params m) p
      else if mg_Method m \<noteq> [] \<and> pr_notify p then p\<lparr>pr_notified := pr_notified p @ [m]\<rparr>
      else if mg_ID m \<noteq> None then deliverResponse m p
      else if pr_notify p then p\<lparr>pr_notified := pr_notified p @ [m]\<rparr>
      else p)"

text \<open>One turn of the read loop: a line that is no message is skipped, an observer's error ends the loop.\<close>

definition readLine :: "bytes \<Rightarrow> string option \<Rightarrow> Process \<Rightarrow> Process" where
  "readLine line problem p =
     (if TrimSpace line = [] then p
      else case problem of
        Some e \<Rightarrow> closePending (Some e) (p\<lparr>pr_reading := False\<rparr>)
      | None \<Rightarrow> (case read_payload line of None \<Rightarrow> p | Some m \<Rightarrow> handleMessage m p))"

definition endReading :: "string option \<Rightarrow> Process \<Rightarrow> Process" where
  "endReading err p = closePending err (p\<lparr>pr_reading := False\<rparr>)"

text \<open>
  The goroutine of a request: it reads the handlers, and answers with what they give, a value that
  may not marshal, or with an error if there are none.
\<close>

definition startRequest :: "nat \<Rightarrow> Process \<Rightarrow> Process" where
  "startRequest k p = p\<lparr>pr_requests := (pr_requests p)[k :=
     (pr_requests p ! k)\<lparr>iq_phase := Handling (pr_request p \<or> pr_serverRequest p)\<rparr>]\<rparr>"

definition handler_answer :: "bool \<Rightarrow> Message \<Rightarrow> handler_error + json option \<Rightarrow> handler_error + json option" where
  "handler_answer handled m answer = (if handled then answer else Inl (unsupported_request (mg_Method m)))"

definition answerRequest :: "nat \<Rightarrow> bool \<Rightarrow> handler_error + json option \<Rightarrow> string option \<Rightarrow> Process \<Rightarrow> Process" where
  "answerRequest k handled answer problem p =
     (let r = pr_requests p ! k; m = iq_Message r;
          p1 = p\<lparr>pr_requests := (pr_requests p)[k := r\<lparr>iq_phase := Answered, iq_cancelled := True\<rparr>],
                 pr_inbound := map_del (IDString (mg_ID m)) (pr_inbound p)\<rparr> in
      case handler_answer handled m answer of
        Inl e \<Rightarrow> snd (writeMessage (writeResponse (mg_ID m) (Inl e)) problem p1)
      | Inr None \<Rightarrow> p1
      | Inr (Some v) \<Rightarrow> snd (writeMessage (writeResponse (mg_ID m) (Inr v)) problem p1))"

definition SetOnRequest :: "bool \<Rightarrow> Process \<Rightarrow> Process" where
  "SetOnRequest handler p = p\<lparr>pr_request := handler\<rparr>"

definition SetOnServerRequest :: "bool \<Rightarrow> Process \<Rightarrow> Process" where
  "SetOnServerRequest handler p = p\<lparr>pr_serverRequest := handler\<rparr>"

section \<open>The end (168--178, 270--294)\<close>

text \<open>The agent's process ended: with an exit code, or with an error that has none.\<close>

definition waitProcess :: "int option \<Rightarrow> string option \<Rightarrow> Process \<Rightarrow> Process" where
  "waitProcess code err p =
     closePending err (p\<lparr>pr_exitCode := (case code of Some c \<Rightarrow> c | None \<Rightarrow> pr_exitCode p), pr_exited := True\<rparr>)"

definition Close_begin :: "Process \<Rightarrow> Process" where
  "Close_begin p = p\<lparr>pr_intentional := True\<rparr>"

definition Close_end :: "Process \<Rightarrow> Process" where
  "Close_end p = closePending None (p\<lparr>pr_closed := True\<rparr>)"

definition writeStderr :: "bytes \<Rightarrow> Process \<Rightarrow> Process" where
  "writeStderr s p = p\<lparr>pr_stderr := Write_buffer s (pr_stderr p)\<rparr>"

section \<open>Steps\<close>

definition phase_of :: "Process \<Rightarrow> nat \<Rightarrow> call_phase" where
  "phase_of p k = ca_phase (pr_calls p ! k)"

text \<open>The steps of one call, and all steps.\<close>

inductive call_step :: "nat \<Rightarrow> Process \<Rightarrow> Process \<Rightarrow> bool" where
  start_call: "k < length (pr_calls p) \<Longrightarrow> phase_of p k = Registered \<Longrightarrow> call_step k p (startCall k p)"
| write_call: "k < length (pr_calls p) \<Longrightarrow> phase_of p k = Writing \<Longrightarrow> call_step k p (writeCall k problem p)"
| fail_call: "k < length (pr_calls p) \<Longrightarrow> phase_of p k = WriteFailed e \<Longrightarrow> call_step k p (failCall k e p)"
| cancel_call: "k < length (pr_calls p) \<Longrightarrow> phase_of p k = Waiting \<Longrightarrow> call_step k p (cancelCall k reason problem p)"
| exit_call: "k < length (pr_calls p) \<Longrightarrow> phase_of p k = Waiting \<Longrightarrow> pr_done p \<Longrightarrow> call_step k p (exitCall k p)"
| receive_call: "k < length (pr_calls p) \<Longrightarrow> phase_of p k = Waiting \<Longrightarrow> (k, r) \<in> set (pr_sent p) \<Longrightarrow>
    call_step k p (receiveCall k r p)"

inductive transport_step :: "Process \<Rightarrow> Process \<Rightarrow> bool" where
  begin_call: "transport_step p (beginCall meth params p)"
| run_call: "call_step k p p' \<Longrightarrow> transport_step p p'"
| notify_step: "transport_step p (snd (NotifyContext meth params ctx problem p))"
| read_step: "pr_reading p \<Longrightarrow> transport_step p (readLine line problem p)"
| end_step: "pr_reading p \<Longrightarrow> transport_step p (endReading err p)"
| request_step: "k < length (pr_requests p) \<Longrightarrow> iq_phase (pr_requests p ! k) = Spawned \<Longrightarrow>
    transport_step p (startRequest k p)"
| answer_step: "k < length (pr_requests p) \<Longrightarrow> iq_phase (pr_requests p ! k) = Handling handled \<Longrightarrow>
    transport_step p (answerRequest k handled answer problem p)"
| set_request: "transport_step p (SetOnRequest b p)"
| set_server_request: "transport_step p (SetOnServerRequest b p)"
| wait_step: "\<not> pr_exited p \<Longrightarrow> transport_step p (waitProcess code err p)"
| close_step: "transport_step p (Close_begin p)"
| closed_step: "pr_intentional p \<Longrightarrow> pr_exited p \<Longrightarrow> \<not> pr_closed p \<Longrightarrow> transport_step p (Close_end p)"
| mark_step: "i < length (pr_closing p) \<Longrightarrow> pr_closing p ! i = Entered err \<Longrightarrow> transport_step p (closeDone i err p)"
| drain_step: "i < length (pr_closing p) \<Longrightarrow> pr_closing p ! i = Marked err \<Longrightarrow> transport_step p (drainPending i err p)"
| stderr_step: "transport_step p (writeStderr s p)"

definition transport_reachable :: "Process \<Rightarrow> bool" where
  "transport_reachable p \<longleftrightarrow> (\<exists>n r s. transport_step\<^sup>*\<^sup>* (Start_process n r s) p)"

section \<open>Calls and their answers\<close>

definition from_agent :: "processResponse \<Rightarrow> bool" where
  "from_agent r = (case r of Inr _ \<Rightarrow> True | Inl (RPCFailed _) \<Rightarrow> True | Inl _ \<Rightarrow> False)"

text \<open>Some message that was read answers the request of call \<open>k\<close> with \<open>r\<close>.\<close>

definition answered :: "Message list \<Rightarrow> nat \<Rightarrow> processResponse \<Rightarrow> bool" where
  "answered ms k r \<longleftrightarrow> (\<exists>m\<in>set ms. mg_Method m = [] \<and> IDString (mg_ID m) = call_id (k + 1) \<and> response_of m = r)"

definition tables_ok :: "nat gomap \<Rightarrow> call_state list \<Rightarrow> bool" where
  "tables_ok pend calls \<longleftrightarrow> (\<forall>k<length calls. ca_ID (calls ! k) = call_id (k + 1))
     \<and> map_wf pend \<and> (\<forall>(i, k)\<in>set pend. i = call_id (k + 1) \<and> k < length calls)"

definition channels_ok :: "nat gomap \<Rightarrow> nat \<Rightarrow> (nat \<times> processResponse) list \<Rightarrow> Message list \<Rightarrow> bool" where
  "channels_ok pend n sent recv \<longleftrightarrow> distinct (map fst sent) \<and> snd ` set pend \<inter> fst ` set sent = {}
     \<and> (\<forall>(k, r)\<in>set sent. k < n \<and> (from_agent r \<longrightarrow> answered recv k r))"

definition phase_ok :: "nat gomap \<Rightarrow> (nat \<times> processResponse) list \<Rightarrow> nat \<Rightarrow> call_phase \<Rightarrow> bool" where
  "phase_ok pend sent k ph \<longleftrightarrow> (case ph of
     Returned r \<Rightarrow> from_agent r \<longrightarrow> (k, r) \<in> set sent
   | WriteFailed e \<Rightarrow> \<not> from_agent (Inl e)
   | _ \<Rightarrow> k \<in> snd ` set pend \<union> fst ` set sent)"

definition correlated :: "Process \<Rightarrow> bool" where
  "correlated p \<longleftrightarrow> pr_nextID p = length (pr_calls p) \<and> tables_ok (pr_pending p) (pr_calls p)
     \<and> channels_ok (pr_pending p) (length (pr_calls p)) (pr_sent p) (pr_received p)
     \<and> (\<forall>k<length (pr_calls p). phase_ok (pr_pending p) (pr_sent p) k (phase_of p k))"

lemma pending_entry:
  assumes "tables_ok pend calls" and "k < length calls"
  shows "map_of pend (ca_ID (calls ! k)) = (if k \<in> snd ` set pend then Some k else None)"
proof -
  have "map_of pend (call_id (k + 1)) = Some k" if "(call_id (k + 1), k) \<in> set pend"
    using assms(1) that map_wf_distinct by (intro map_of_is_SomeI) (auto simp: tables_ok_def)
  moreover have "k' = k" if "map_of pend (call_id (k + 1)) = Some k'" for k'
    using assms(1) map_of_SomeD [OF that] by (auto simp: tables_ok_def call_id_def)
  ultimately show ?thesis
    using assms by (cases "map_of pend (call_id (k + 1))")
      (force simp: tables_ok_def map_of_eq_None_iff dest: map_of_SomeD)+
qed

lemma snd_set_del:
  assumes "tables_ok pend calls"
  shows "snd ` set (map_del (call_id (k + 1)) pend) = snd ` set pend - {k}"
  using assms by (force simp: tables_ok_def map_del_def call_id_def)

lemma tables_del: "tables_ok pend calls \<Longrightarrow> tables_ok (map_del i pend) calls"
  by (auto simp: tables_ok_def map_wf_del) (auto simp: map_del_def)

lemma set_put_mono: "k \<notin> fst ` set m \<Longrightarrow> set (map_put k v m) = insert (k, v) (set m)"
  by (induction m) (auto split: if_splits)

lemma tables_phase:
  assumes "tables_ok pend calls"
  shows "tables_ok pend (calls[k := (calls ! k)\<lparr>ca_phase := ph\<rparr>])"
proof -
  have "ca_ID (calls[k := (calls ! k)\<lparr>ca_phase := ph\<rparr>] ! j) = ca_ID (calls ! j)" for j
    by (cases "k < length calls") (simp_all add: nth_list_update list_update_beyond not_less)
  with assms show ?thesis by (simp add: tables_ok_def)
qed

lemma phase_ok_mono:
  "phase_ok pend sent k ph \<Longrightarrow> set sent \<subseteq> set sent' \<Longrightarrow> snd ` set pend \<subseteq> snd ` set pend' \<union> fst ` set sent' \<Longrightarrow>
     phase_ok pend' sent' k ph"
  unfolding phase_ok_def by (cases ph) auto

lemma answered_mono: "answered ms k r \<Longrightarrow> set ms \<subseteq> set ms' \<Longrightarrow> answered ms' k r"
  by (auto simp: answered_def)

lemma correlated_phase:
  assumes "correlated p" and "k < length (pr_calls p)" and "phase_ok (pr_pending p) (pr_sent p) k ph"
  shows "correlated (set_phase k ph p)"
proof -
  have "tables_ok (pr_pending p) ((pr_calls p)[k := (pr_calls p ! k)\<lparr>ca_phase := ph\<rparr>])"
    using assms(1) by (simp add: correlated_def tables_phase)
  then show ?thesis
    using assms by (simp add: correlated_def set_phase_def phase_of_def nth_list_update)
qed

lemma correlated_remove:
  assumes c: "correlated p" and k: "k < length (pr_calls p)"
    and ph: "phase_ok [] [] k ph"
  shows "correlated (set_phase k ph (snd (removePending (ca_ID (pr_calls p ! k)) p)))"
proof -
  let ?pend = "map_del (ca_ID (pr_calls p ! k)) (pr_pending p)"
  let ?calls = "(pr_calls p)[k := (pr_calls p ! k)\<lparr>ca_phase := ph\<rparr>]"
  have t: "tables_ok (pr_pending p) (pr_calls p)" and i: "ca_ID (pr_calls p ! k) = call_id (k + 1)"
    using c k by (auto simp: correlated_def tables_ok_def)
  have s: "snd ` set ?pend = snd ` set (pr_pending p) - {k}"
    using snd_set_del [OF t, of k] by (simp add: i)
  have "tables_ok ?pend ?calls" using t by (intro tables_phase tables_del)
  moreover have "channels_ok ?pend (length (pr_calls p)) (pr_sent p) (pr_received p)"
    using c s by (auto simp: correlated_def channels_ok_def)
  moreover have "phase_ok ?pend (pr_sent p) j (ca_phase (?calls ! j))" if "j < length (pr_calls p)" for j
  proof (cases "j = k")
    case True
    then show ?thesis using that phase_ok_mono [OF ph, of "pr_sent p" ?pend] by simp
  next
    case False
    then have "phase_ok (pr_pending p) (pr_sent p) j (ca_phase (?calls ! j))"
      using c that by (simp add: correlated_def phase_of_def)
    with False s show ?thesis by (simp add: phase_ok_def split: call_phase.splits)
  qed
  ultimately show ?thesis
    using c by (simp add: correlated_def removePending_def set_phase_def phase_of_def)
qed

lemma correlated_received: "correlated p \<Longrightarrow> correlated (p\<lparr>pr_received := pr_received p @ [m]\<rparr>)"
  using answered_mono [of "pr_received p" _ _ "pr_received p @ [m]"]
  by (fastforce simp: correlated_def channels_ok_def phase_of_def)

lemma correlated_deliver:
  assumes c: "correlated p" and m: "m \<in> set (pr_received p)" "mg_Method m = []"
  shows "correlated (deliverResponse m p)"
proof (cases "map_of (pr_pending p) (IDString (mg_ID m))")
  case None
  then have "map_del (IDString (mg_ID m)) (pr_pending p) = pr_pending p"
    by (force simp: map_del_def map_of_eq_None_iff filter_id_conv)
  with None c show ?thesis by (simp add: deliverResponse_def removePending_def)
next
  case (Some k)
  let ?pend = "map_del (IDString (mg_ID m)) (pr_pending p)" and ?sent = "pr_sent p @ [(k, response_of m)]"
  have t: "tables_ok (pr_pending p) (pr_calls p)"
    and ch: "channels_ok (pr_pending p) (length (pr_calls p)) (pr_sent p) (pr_received p)"
    using c by (simp_all add: correlated_def)
  from Some t have i: "IDString (mg_ID m) = call_id (k + 1)" and k: "k < length (pr_calls p)"
    and kp: "k \<in> snd ` set (pr_pending p)"
    by (force simp: tables_ok_def dest: map_of_SomeD)+
  have s: "snd ` set ?pend = snd ` set (pr_pending p) - {k}"
    using snd_set_del [OF t, of k] by (simp add: i)
  have "answered (pr_received p) k (response_of m)" using m i by (auto simp: answered_def)
  then have "channels_ok ?pend (length (pr_calls p)) ?sent (pr_received p)"
    using ch s k kp by (auto simp: channels_ok_def)
  moreover have "phase_ok ?pend ?sent j ph" if "phase_ok (pr_pending p) (pr_sent p) j ph" for j ph
    using phase_ok_mono [OF that, of ?sent ?pend] s by auto
  ultimately show ?thesis
    using c Some tables_del [OF t] by (simp add: correlated_def deliverResponse_def removePending_def phase_of_def)
qed

lemma fold_cancel:
  "\<exists>rs. fold (\<lambda>(_, k). cancel_request k) xs p = p\<lparr>pr_requests := rs\<rparr>"
proof (induction xs arbitrary: p)
  case Nil
  show ?case by (rule exI [of _ "pr_requests p"]) simp
next
  case (Cons x xs)
  obtain rs0 where c: "cancel_request (snd x) p = p\<lparr>pr_requests := rs0\<rparr>" by (auto simp: cancel_request_def)
  obtain rs where "fold (\<lambda>(_, k). cancel_request k) xs (cancel_request (snd x) p)
      = (cancel_request (snd x) p)\<lparr>pr_requests := rs\<rparr>" using Cons by blast
  then have "fold (\<lambda>(_, k). cancel_request k) (x # xs) p = p\<lparr>pr_requests := rs\<rparr>"
    by (simp add: case_prod_beta c)
  then show ?case ..
qed

lemma drainPending_fields:
  obtains rs where "drainPending i err p =
     p\<lparr>pr_requests := rs, pr_inbound := [], pr_pending := [], pr_closing := remove_at i (pr_closing p),
       pr_sent := pr_sent p @ map (\<lambda>(_, k). (k, Inl (case err of None \<Rightarrow> ProcessExited | Some m \<Rightarrow> TransportFailed m)))
         (pr_pending p)\<rparr>"
proof -
  obtain rs where "fold (\<lambda>(_, k). cancel_request k) (pr_inbound p) p = p\<lparr>pr_requests := rs\<rparr>"
    using fold_cancel by blast
  then show ?thesis by (intro that [of rs]) (simp add: drainPending_def Let_def)
qed

lemma distinct_calls_pending: "tables_ok pend calls \<Longrightarrow> distinct (map snd pend)"
proof -
  assume t: "tables_ok pend calls"
  then have "map fst pend = map (\<lambda>k. call_id (k + 1)) (map snd pend)" by (auto simp: tables_ok_def)
  moreover have "distinct (map fst pend)" using t map_wf_distinct by (auto simp: tables_ok_def)
  ultimately show ?thesis by (metis distinct_map)
qed

lemma correlated_drain:
  assumes c: "correlated p"
  shows "correlated (drainPending i err p)"
proof -
  let ?e = "case err of None \<Rightarrow> ProcessExited | Some m \<Rightarrow> TransportFailed m"
  let ?new = "map (\<lambda>(_, k). (k, Inl ?e)) (pr_pending p) :: (nat \<times> processResponse) list"
  have t: "tables_ok (pr_pending p) (pr_calls p)"
    and ch: "channels_ok (pr_pending p) (length (pr_calls p)) (pr_sent p) (pr_received p)"
    using c by (simp_all add: correlated_def)
  have f: "map fst ?new = map snd (pr_pending p)" by auto
  have s: "fst ` set ?new = snd ` set (pr_pending p)" by force
  have "\<not> from_agent (Inl ?e)" by (simp add: from_agent_def split: option.splits)
  then have "\<forall>(k, r)\<in>set ?new. k < length (pr_calls p) \<and> (from_agent r \<longrightarrow> answered (pr_received p) k r)"
    using t by (auto simp: tables_ok_def)
  moreover have "distinct (map fst (pr_sent p @ ?new))"
    using ch distinct_calls_pending [OF t] s by (simp only: channels_ok_def map_append distinct_append f) auto
  ultimately have "channels_ok [] (length (pr_calls p)) (pr_sent p @ ?new) (pr_received p)"
    using ch by (auto simp: channels_ok_def)
  moreover have "phase_ok [] (pr_sent p @ ?new) k ph" if "phase_ok (pr_pending p) (pr_sent p) k ph" for k ph
    using phase_ok_mono [OF that, of "pr_sent p @ ?new" "[]"] s by auto
  moreover have "tables_ok [] (pr_calls p)" using t by (simp add: tables_ok_def map_wf_def)
  ultimately have new: "tables_ok [] (pr_calls p) \<and> channels_ok [] (length (pr_calls p)) (pr_sent p @ ?new) (pr_received p)
      \<and> (\<forall>k<length (pr_calls p). phase_ok [] (pr_sent p @ ?new) k (ca_phase (pr_calls p ! k)))"
    using c by (simp add: correlated_def phase_of_def)
  obtain rs where d: "drainPending i err p = p\<lparr>pr_requests := rs, pr_inbound := [], pr_pending := [],
      pr_closing := remove_at i (pr_closing p), pr_sent := pr_sent p @ ?new\<rparr>"
    by (rule drainPending_fields)
  show ?thesis using c new unfolding d correlated_def phase_of_def by simp
qed

lemma correlated_begin:
  assumes c: "correlated p" and n: "length (pr_calls p) + 1 < 2 ^ 64"
  shows "correlated (beginCall meth params p)"
proof -
  let ?k = "length (pr_calls p)"
  have n': "uint64_next (pr_nextID p) = ?k + 1" using c n by (simp add: correlated_def uint64_next_def)
  have t: "tables_ok (pr_pending p) (pr_calls p)"
    and ch: "channels_ok (pr_pending p) ?k (pr_sent p) (pr_received p)"
    and ph: "\<And>k. k < ?k \<Longrightarrow> phase_ok (pr_pending p) (pr_sent p) k (ca_phase (pr_calls p ! k))"
    using c by (simp_all add: correlated_def phase_of_def)
  have new: "call_id (?k + 1) \<notin> fst ` set (pr_pending p)"
    using t by (auto simp: tables_ok_def call_id_def)
  have ap: "tables_ok pend (pr_calls p @ [c])" if "tables_ok pend (pr_calls p)" "ca_ID c = call_id (?k + 1)" for c pend
    using that by (fastforce simp: tables_ok_def nth_append less_Suc_eq)
  show ?thesis
  proof (cases params)
    case (Inl e)
    have "channels_ok (pr_pending p) (Suc ?k) (pr_sent p) (pr_received p)"
      using ch by (auto simp: channels_ok_def)
    then show ?thesis
      using ap [OF t] ph by (auto simp: Inl correlated_def beginCall_def Let_def n' phase_of_def nth_append less_Suc_eq
          phase_ok_def from_agent_def)
  next
    case (Inr ps)
    let ?pend = "map_put (call_id (?k + 1)) ?k (pr_pending p)"
    have s: "set ?pend = insert (call_id (?k + 1), ?k) (set (pr_pending p))" by (rule set_put_mono [OF new])
    have "tables_ok ?pend (pr_calls p @ [c])" if "ca_ID c = call_id (?k + 1)" for c
      using ap [OF t that] s map_wf_put by (auto simp: tables_ok_def)
    moreover have "channels_ok ?pend (Suc ?k) (pr_sent p) (pr_received p)"
    proof -
      have "?k \<notin> fst ` set (pr_sent p)" using ch by (auto simp: channels_ok_def)
      moreover have "snd ` set ?pend = insert ?k (snd ` set (pr_pending p))" unfolding s by simp
      ultimately show ?thesis using ch by (auto simp: channels_ok_def)
    qed
    moreover have "phase_ok ?pend (pr_sent p) k (ca_phase (pr_calls p ! k))" if "k < ?k" for k
      using phase_ok_mono [OF ph [OF that], of "pr_sent p" ?pend] s by auto
    moreover have "phase_ok ?pend (pr_sent p) ?k Registered" unfolding phase_ok_def s by simp
    ultimately show ?thesis
      by (auto simp: Inr correlated_def beginCall_def Let_def n' phase_of_def nth_append less_Suc_eq)
  qed
qed

lemma writeMessage_fields:
  "fst (writeMessage m problem p) = Some e \<Longrightarrow> \<not> from_agent (Inl e)"
  "correlated (snd (writeMessage m problem p)) = correlated p"
  "pr_calls (snd (writeMessage m problem p)) = pr_calls p"
  "pr_pending (snd (writeMessage m problem p)) = pr_pending p"
  "pr_sent (snd (writeMessage m problem p)) = pr_sent p"
  "pr_done (snd (writeMessage m problem p)) = pr_done p"
  by (auto simp: writeMessage_def from_agent_def correlated_def phase_of_def split: if_splits option.splits)

lemma correlated_others:
  "correlated (p\<lparr>pr_inbound := a\<rparr>) = correlated p" "correlated (p\<lparr>pr_requests := b\<rparr>) = correlated p"
  "correlated (p\<lparr>pr_reading := c\<rparr>) = correlated p" "correlated (p\<lparr>pr_closing := d\<rparr>) = correlated p"
  "correlated (p\<lparr>pr_notified := f\<rparr>) = correlated p" "correlated (p\<lparr>pr_done := g\<rparr>) = correlated p"
  "correlated (p\<lparr>pr_exited := g\<rparr>) = correlated p" "correlated (p\<lparr>pr_exitCode := i\<rparr>) = correlated p"
  "correlated (p\<lparr>pr_intentional := g\<rparr>) = correlated p" "correlated (p\<lparr>pr_closed := g\<rparr>) = correlated p"
  "correlated (p\<lparr>pr_request := g\<rparr>) = correlated p" "correlated (p\<lparr>pr_serverRequest := g\<rparr>) = correlated p"
  "correlated (p\<lparr>pr_stderr := h\<rparr>) = correlated p"
  by (simp_all add: correlated_def phase_of_def)

lemma correlated_call:
  assumes "call_step k p p'" and c: "correlated p"
  shows "correlated p'"
  using assms
proof cases
  case start_call
  moreover have "k \<in> snd ` set (pr_pending p) \<union> fst ` set (pr_sent p)"
    using start_call c by (auto simp: correlated_def phase_ok_def split: call_phase.splits)
  ultimately show ?thesis
    using correlated_remove [OF c] correlated_phase [OF c] by (simp add: startCall_def phase_ok_def from_agent_def)
next
  case (write_call problem)
  let ?w = "writeMessage (ca_Request (pr_calls p ! k)) problem p"
  have k: "k \<in> snd ` set (pr_pending p) \<union> fst ` set (pr_sent p)"
    using write_call c by (auto simp: correlated_def phase_ok_def split: call_phase.splits)
  note w = writeMessage_fields [of "ca_Request (pr_calls p ! k)" problem p]
  show ?thesis
  proof (cases "fst ?w")
    case None
    then show ?thesis using write_call k c correlated_phase [of "snd ?w" k Waiting] w(2-5)
      by (simp add: writeCall_def split_beta phase_ok_def)
  next
    case (Some e)
    then show ?thesis using write_call c correlated_remove [of "snd ?w" k "WriteFailed e"] w(1) [of e] w(2-5)
      by (simp add: writeCall_def Let_def split_beta phase_ok_def)
  qed
next
  case (fail_call e)
  then have "phase_ok (pr_pending p) (pr_sent p) k (WriteFailed e)" using c by (auto simp: correlated_def)
  then show ?thesis using fail_call correlated_phase [OF c]
    by (simp add: failCall_def phase_ok_def) (simp add: from_agent_def)
next
  case (cancel_call reason problem)
  have r: "correlated (set_phase k (Returned (Inl (ContextDone reason))) (snd (removePending (ca_ID (pr_calls p ! k)) p)))"
    using cancel_call by (intro correlated_remove [OF c]) (simp_all add: phase_ok_def from_agent_def)
  have w: "correlated (set_phase k ph (snd (writeMessage m problem q))) = correlated (set_phase k ph q)" for m q ph
    by (auto simp: writeMessage_def set_phase_def correlated_def phase_of_def split: if_splits option.splits)
  show ?thesis using cancel_call r by (simp add: cancelCall_def Let_def split_beta w split: option.splits prod.splits)
next
  case exit_call
  then show ?thesis using correlated_phase [OF c] by (simp add: exitCall_def phase_ok_def from_agent_def)
next
  case (receive_call r)
  then show ?thesis using correlated_phase [OF c] by (simp add: receiveCall_def phase_ok_def)
qed

lemma correlated_message: "correlated p \<Longrightarrow> correlated (handleMessage m p)"
  using correlated_received [of p m] correlated_deliver [OF correlated_received [of p m], of m]
  by (simp add: handleMessage_def Let_def handleRequest_def handleCancel_def cancel_request_def correlated_others
      split: option.splits)

lemma call_keeps_length: "call_step k p p' \<Longrightarrow> length (pr_calls p') = length (pr_calls p)"
  by (induction rule: call_step.induct)
    (auto simp: startCall_def writeCall_def failCall_def cancelCall_def exitCall_def receiveCall_def set_phase_def
      removePending_def writeMessage_def Let_def split: option.splits if_splits)

lemma drain_calls [simp]: "pr_calls (drainPending i err p) = pr_calls p"
  by (rule drainPending_fields [of i err p]) simp

lemma message_calls [simp]: "pr_calls (handleMessage m p) = pr_calls p"
  by (simp add: handleMessage_def Let_def handleRequest_def handleCancel_def cancel_request_def deliverResponse_def
      removePending_def split: option.splits)

lemmas other_ops = NotifyContext_def readLine_def endReading_def startRequest_def answerRequest_def SetOnRequest_def
  SetOnServerRequest_def waitProcess_def Close_begin_def Close_end_def closeDone_def closePending_def writeStderr_def

lemma calls_grow: "transport_step p p' \<Longrightarrow> length (pr_calls p) \<le> length (pr_calls p')"
proof (induction rule: transport_step.induct)
  case (begin_call p meth params)
  show ?case by (simp add: beginCall_def Let_def split: sum.splits)
next
  case (run_call k p p')
  then show ?case using call_keeps_length by simp
qed (auto simp: other_ops writeMessage_fields Let_def split: option.splits sum.splits if_splits)

lemma correlated_step:
  assumes "transport_step p p'" and c: "correlated p" and n: "length (pr_calls p') < 2 ^ 64"
  shows "correlated p'"
  using assms
proof cases
  case (begin_call meth params)
  then have "length (pr_calls p) + 1 < 2 ^ 64" using n by (simp add: beginCall_def Let_def split: sum.splits)
  then show ?thesis using begin_call correlated_begin [OF c] by simp
next
  case (run_call k)
  then show ?thesis using c correlated_call by blast
next
  case (drain_step i err)
  then show ?thesis using c correlated_drain by simp
qed (auto simp: other_ops c writeMessage_fields correlated_others correlated_message Let_def
  split: option.splits sum.splits if_splits)

lemma correlated_reachable:
  assumes "transport_reachable p" and "length (pr_calls p) < 2 ^ 64"
  shows "correlated p"
proof -
  obtain a b c where "transport_step\<^sup>*\<^sup>* (Start_process a b c) p" using assms(1) by (auto simp: transport_reachable_def)
  then show ?thesis using assms(2)
  proof (induction rule: rtranclp_induct)
    case base
    show ?case by (simp add: correlated_def Start_process_def tables_ok_def channels_ok_def map_wf_def)
  next
    case (step q r)
    then show ?case using correlated_step calls_grow [OF step.hyps(2)] by (meson le_less_trans)
  qed
qed

text \<open>
  C5: every call gets its own answer, once. In any state the transport reaches with fewer than
  \<open>2 ^ 64\<close> calls, at most one response was sent on the channel of a call, so that no sender ever
  blocks; a result or an error of the agent that a call returned is that of a message which carries
  the call's own identifier and names no method; and a waiting call is in the table of pending calls or
  has its response in its channel.
\<close>

theorem answered_once:
  assumes "transport_reachable p" and "length (pr_calls p) < 2 ^ 64"
  shows "distinct (map fst (pr_sent p)) \<and> (\<forall>k<length (pr_calls p). case phase_of p k of
     Returned r \<Rightarrow> from_agent r \<longrightarrow> answered (pr_received p) k r
   | Waiting \<Rightarrow> k \<in> snd ` set (pr_pending p) \<union> fst ` set (pr_sent p)
   | _ \<Rightarrow> True)"
proof -
  have c: "correlated p" using assms by (rule correlated_reachable)
  then have ch: "distinct (map fst (pr_sent p))"
    and a: "\<And>k r. (k, r) \<in> set (pr_sent p) \<Longrightarrow> from_agent r \<Longrightarrow> answered (pr_received p) k r"
    by (auto simp: correlated_def channels_ok_def)
  have "case phase_of p k of Returned r \<Rightarrow> from_agent r \<longrightarrow> answered (pr_received p) k r
     | Waiting \<Rightarrow> k \<in> snd ` set (pr_pending p) \<union> fst ` set (pr_sent p) | _ \<Rightarrow> True" if "k < length (pr_calls p)" for k
    using c that a by (cases "phase_of p k") (auto simp: correlated_def phase_ok_def)
  with ch show ?thesis by blast
qed

section \<open>Calls end\<close>

definition phase_rank :: "call_phase \<Rightarrow> nat" where
  "phase_rank ph = (case ph of Registered \<Rightarrow> 3 | Writing \<Rightarrow> 2 | Returned _ \<Rightarrow> 0 | _ \<Rightarrow> 1)"

lemma call_step_rank:
  "call_step k p p' \<Longrightarrow> phase_rank (phase_of p' k) < phase_rank (phase_of p k)
     \<and> pr_done p' = pr_done p \<and> length (pr_calls p') = length (pr_calls p)"
  by (induction rule: call_step.induct)
    (auto simp: startCall_def writeCall_def failCall_def cancelCall_def exitCall_def receiveCall_def set_phase_def
      removePending_def writeMessage_def Let_def phase_of_def phase_rank_def split: option.splits if_splits)

lemma call_step_enabled:
  assumes "pr_done p" and "k < length (pr_calls p)" and "\<nexists>q. call_step k p q"
  obtains r where "phase_of p k = Returned r"
  using assms call_step.intros by (cases "phase_of p k") blast+

lemma call_run_bound:
  "(call_step k ^^ n) p p' \<Longrightarrow> phase_rank (phase_of p' k) + n \<le> phase_rank (phase_of p k)
     \<and> pr_done p' = pr_done p \<and> length (pr_calls p') = length (pr_calls p)"
proof (induction n arbitrary: p')
  case (Suc n)
  then obtain q where "(call_step k ^^ n) p q" "call_step k q p'" by (auto simp: OO_def)
  then show ?case using Suc.IH [of q] call_step_rank [of k q p'] by auto
qed simp

lemma call_run_ends:
  assumes "pr_done p" and "k < length (pr_calls p)"
  shows "\<exists>p' r. (call_step k)\<^sup>*\<^sup>* p p' \<and> phase_of p' k = Returned r"
  using assms
proof (induction "phase_rank (phase_of p k)" arbitrary: p rule: less_induct)
  case less
  show ?case
  proof (cases "\<exists>q. call_step k p q")
    case True
    then obtain q where q: "call_step k p q" by blast
    then show ?thesis
      using less.hyps [of q] less.prems call_step_rank [OF q] by (metis converse_rtranclp_into_rtranclp)
  next
    case False
    then show ?thesis using call_step_enabled [OF less.prems] by blast
  qed
qed


section \<open>An answer and the end at once\<close>

lemma readLine_wire: "readLine (wire_line m) None p = handleMessage m p"
proof -
  have "TrimSpace (wire_line m) \<noteq> []" by (simp add: TrimSpace_line enc_message_def)
  then show ?thesis by (simp add: readLine_def read_wire_line)
qed

definition one_call :: Process where
  "one_call = writeCall 0 None (startCall 0 (beginCall ''initialize'' (Inr JNull) (Start_process True False False)))"

definition the_answer :: Message where
  "the_answer = empty_message\<lparr>mg_ID := Some (JStr ''1''), mg_Result := Some (JBool True)\<rparr>"

definition answered_and_gone :: Process where
  "answered_and_gone = closeDone 0 None (waitProcess (Some 0) None (readLine (wire_line the_answer) None one_call))"

lemma show_nat_1: "show_nat (Suc 0) = ''1''" by code_simp

lemmas race_simps = one_call_def beginCall_def startCall_def writeCall_def set_phase_def writeMessage_def call_id_def
  uint64_next_def Start_process_def phase_of_def show_nat_1

lemma one_call_state: "one_call = \<lparr>pr_pending = [(''1'', 0)], pr_inbound = [], pr_nextID = 1, pr_done = False,
    pr_intentional = False, pr_exited = False, pr_closed = False, pr_closing = [], pr_exitCode = -1,
    pr_stderr = \<lparr>bb_buf = [], bb_max = 8 * 1024\<rparr>, pr_notify = True, pr_request = False, pr_serverRequest = False,
    pr_reading = True, pr_calls = [\<lparr>ca_ID = ''1'', ca_Request = empty_message\<lparr>mg_JSONRPC := ''2.0'',
      mg_ID := Some (JStr ''1''), mg_Method := ''initialize'', mg_Params := Some JNull\<rparr>, ca_phase = Waiting\<rparr>],
    pr_requests = [], pr_sent = [], pr_received = [], pr_written = [empty_message\<lparr>mg_JSONRPC := ''2.0'',
      mg_ID := Some (JStr ''1''), mg_Method := ''initialize'', mg_Params := Some JNull\<rparr>], pr_notified = []\<rparr>"
  by (simp add: race_simps Let_def)

lemma one_call_reachable: "transport_step\<^sup>*\<^sup>* (Start_process True False False) one_call"
proof -
  let ?s = "Start_process True False False" and ?b = "beginCall ''initialize'' (Inr JNull)"
  have "transport_step ?s (?b ?s)" by (rule begin_call)
  moreover have "transport_step (?b ?s) (startCall 0 (?b ?s))"
    by (intro run_call [of 0] start_call) (simp_all add: race_simps Let_def)
  moreover have "transport_step (startCall 0 (?b ?s)) one_call"
    unfolding one_call_def by (intro run_call [of 0] write_call) (simp_all add: race_simps Let_def)
  ultimately show ?thesis by (meson r_into_rtranclp rtranclp_trans)
qed

theorem answered_once_witness:
  "transport_reachable one_call \<and> phase_of one_call 0 = Waiting
     \<and> (0 \<in> snd ` set (pr_pending one_call) \<or> 0 \<in> fst ` set (pr_sent one_call))"
proof -
  have r: "transport_reachable one_call" using one_call_reachable by (auto simp: transport_reachable_def)
  have n: "length (pr_calls one_call) = 1" and w: "phase_of one_call 0 = Waiting"
    by (simp_all add: one_call_state phase_of_def)
  have "\<forall>k<length (pr_calls one_call). case phase_of one_call k of
     Returned r \<Rightarrow> from_agent r \<longrightarrow> answered (pr_received one_call) k r
   | Waiting \<Rightarrow> k \<in> snd ` set (pr_pending one_call) \<union> fst ` set (pr_sent one_call) | _ \<Rightarrow> True"
    using answered_once [OF r] n by simp
  with r n w show ?thesis by auto
qed


lemma answered_state:
  "answered_and_gone = one_call\<lparr>pr_pending := [], pr_received := [the_answer], pr_sent := [(0, Inr (Some (JBool True)))],
     pr_exitCode := 0, pr_exited := True, pr_closing := [Marked None], pr_done := True\<rparr>"
proof -
  have "IDString (mg_ID the_answer) = ''1''" by code_simp
  then show ?thesis
    by (simp add: answered_and_gone_def readLine_wire handleMessage_def MethodCancelRequest_def deliverResponse_def removePending_def
        one_call_state the_answer_def empty_message_def response_of_def waitProcess_def closePending_def closeDone_def
        map_del_def Let_def)
qed

lemma answered_reachable: "transport_reachable answered_and_gone"
proof -
  let ?r = "readLine (wire_line the_answer) None one_call"
  have "pr_reading one_call" by (simp add: one_call_state)
  then have "transport_step one_call ?r" by (rule read_step)
  moreover have e: "\<not> pr_exited ?r" "pr_closing ?r = []"
    by (simp_all add: readLine_wire handleMessage_def MethodCancelRequest_def deliverResponse_def removePending_def one_call_state
        the_answer_def empty_message_def Let_def split: option.splits)
  then have "transport_step ?r (waitProcess (Some 0) None ?r)" by (intro wait_step)
  moreover have "transport_step (waitProcess (Some 0) None ?r) answered_and_gone"
    unfolding answered_and_gone_def by (rule mark_step) (simp_all add: waitProcess_def closePending_def e)
  ultimately show ?thesis
    using one_call_reachable unfolding transport_reachable_def
    by (meson r_into_rtranclp rtranclp_trans)
qed

text \<open>
  A response that arrived can be lost. There is a reachable state in which the agent answered
  the call, the answer is in the call's channel, and the agent exited with code 0; there the call
  may still return that the agent's process exited, since its select takes either of two ready
  cases.
\<close>

theorem response_may_be_lost:
  "\<exists>p p'. transport_reachable p \<and> (0, Inr (Some (JBool True))) \<in> set (pr_sent p) \<and> pr_exitCode p = 0
     \<and> transport_step p p' \<and> phase_of p' 0 = Returned (Inl ProcessExited)"
proof -
  have "transport_step answered_and_gone (exitCall 0 answered_and_gone)"
    by (intro run_call [of 0] exit_call) (simp_all add: answered_state one_call_state phase_of_def)
  moreover have "phase_of (exitCall 0 answered_and_gone) 0 = Returned (Inl ProcessExited)"
    by (simp add: answered_state one_call_state phase_of_def exitCall_def set_phase_def)
  ultimately show ?thesis using answered_reachable
    by (intro exI [of _ answered_and_gone] exI [of _ "exitCall 0 answered_and_gone"])
      (simp add: answered_state one_call_state)
qed

end
