(* ===== verification/Engine_Manifest.thy ===== *)
theory Engine_Manifest
  imports Runtime_Types Worktree_Manager
begin

text \<open>
  What the engine of \<open>src/engine.go\<close> keeps in its home directory: the settings of
  \<open>config.json\<close> and one manifest per session. Identifiers and file names, the JSON of both
  files, their defaults and checks, with the round trips of writing and reading.
\<close>

section \<open>Settings (28--50, 1177--1225)\<close>

record Settings =
  se_Version :: int
  se_BranchPrefix :: string
  se_CatalogCache :: bool

definition DefaultSettings :: Settings where
  "DefaultSettings = \<lparr>se_Version = 1, se_BranchPrefix = ''durable-acp'', se_CatalogCache = True\<rparr>"

datatype engine_error =
  HomeRequired | HomeNotAbsolute | JournalConflict | JournalNotAbsolute
| NotPrepared string | ConfigUnreadable | ConfigUndecodable | VersionUnsupported int | FileNotWritten string
| LogFailed string | EngineJournal store_error
| BackendMissing | SessionIDFailed | InvalidSessionID string | SessionExists string | ManifestNotInspected
| UnsupportedMode string | ManifestUnreadable | ManifestUndecodable | ManifestMismatch string string
| ManifestNotEncoded | ManifestNotRemoved | ManifestsNotListed | EngineClosed string
| WorkspaceRequired | WorkspaceNotAbsolute | WorkspaceNotInspected | WorkspaceNoDirectory string
| NameNotQualified | EngineRuntime runtime_error | EngineWorktree worktree_error | EngineJoined "engine_error list"

definition normalizeSettings :: "Settings \<Rightarrow> engine_error + Settings" where
  "normalizeSettings s =
     (let version = (if se_Version s = 0 then 1 else se_Version s);
          branch = TrimByte slash (TrimSpace (se_BranchPrefix s)) in
      if version \<noteq> 1 then Inl (VersionUnsupported version)
      else Inr (s\<lparr>se_Version := version,
             se_BranchPrefix := (if branch = [] then se_BranchPrefix DefaultSettings else branch)\<rparr>))"

definition configFileName :: string where "configFileName = ''config.json''"

definition config_path :: "string \<Rightarrow> string" where
  "config_path home = JoinPath [home, configFileName]"

text \<open>\<open>json.MarshalIndent(settings, "", "  ")\<close> and the newline.\<close>

definition settings_text :: "Settings \<Rightarrow> bytes" where
  "settings_text s =
     [CHR ''{'', newline] @ ''  '' @ write_string ''version'' @ '': '' @ show_int (se_Version s) @ [CHR '','', newline]
     @ ''  '' @ write_string ''worktrees'' @ '': {'' @ [newline]
     @ ''    '' @ write_string ''branch_prefix'' @ '': '' @ write_string (se_BranchPrefix s) @ [newline]
     @ ''  }'' @ [CHR '','', newline]
     @ ''  '' @ write_string ''catalog_cache'' @ '': '' @ marshal (JBool (se_CatalogCache s)) @ [newline]
     @ [CHR ''}'', newline]"

text \<open>\<open>json.Unmarshal\<close> over a value: a missing key or \<open>null\<close> leaves the field as it is.\<close>

definition over_int :: "(string \<times> json) list \<Rightarrow> string \<Rightarrow> int \<Rightarrow> int option" where
  "over_int fs k old = (case sget fs k of None \<Rightarrow> Some old | Some JNull \<Rightarrow> Some old | Some (JNum i) \<Rightarrow> Some i | _ \<Rightarrow> None)"

definition over_bool :: "(string \<times> json) list \<Rightarrow> string \<Rightarrow> bool \<Rightarrow> bool option" where
  "over_bool fs k old = (case sget fs k of None \<Rightarrow> Some old | Some JNull \<Rightarrow> Some old | Some (JBool b) \<Rightarrow> Some b | _ \<Rightarrow> None)"

definition over_str :: "(string \<times> json) list \<Rightarrow> string \<Rightarrow> string \<Rightarrow> string option" where
  "over_str fs k old = (case sget fs k of None \<Rightarrow> Some old | Some JNull \<Rightarrow> Some old | Some (JStr s) \<Rightarrow> Some s | _ \<Rightarrow> None)"

definition over_prefix :: "(string \<times> json) list \<Rightarrow> string \<Rightarrow> string option" where
  "over_prefix fs old =
     (case sget fs ''worktrees'' of
        None \<Rightarrow> Some old | Some JNull \<Rightarrow> Some old | Some (JObj gs) \<Rightarrow> over_str gs ''branch_prefix'' old | _ \<Rightarrow> None)"

definition dec_settings :: "json \<Rightarrow> Settings \<Rightarrow> Settings option" where
  "dec_settings j s =
     (case j of
        JNull \<Rightarrow> Some s
      | JObj fs \<Rightarrow>
          (case (over_int fs ''version'' (se_Version s), over_prefix fs (se_BranchPrefix s),
                 over_bool fs ''catalog_cache'' (se_CatalogCache s)) of
             (Some v, Some p, Some c) \<Rightarrow> Some \<lparr>se_Version = v, se_BranchPrefix = p, se_CatalogCache = c\<rparr>
           | _ \<Rightarrow> None)
      | _ \<Rightarrow> None)"

datatype read_result = ReadFails | NoFile | Contents bytes

definition loadSettings :: "read_result \<Rightarrow> engine_error + Settings" where
  "loadSettings r =
     (case r of
        NoFile \<Rightarrow> Inr DefaultSettings
      | ReadFails \<Rightarrow> Inl ConfigUnreadable
      | Contents raw \<Rightarrow>
          (case Option.bind (unmarshal raw) (\<lambda>j. dec_settings j DefaultSettings) of
             None \<Rightarrow> Inl ConfigUndecodable
           | Some s \<Rightarrow> normalizeSettings s))"

definition catalogDir :: "string \<Rightarrow> Settings \<Rightarrow> string" where
  "catalogDir home s = (if se_CatalogCache s then JoinPath [home, ''cache''] else [])"

section \<open>Identifiers and file names (1030--1032, 1298--1328)\<close>

definition safe_file_char :: "char \<Rightarrow> bool" where
  "safe_file_char c \<longleftrightarrow> byte_in 97 122 c \<or> byte_in 65 90 c \<or> byte_in 48 57 c \<or> c = CHR ''-'' \<or> c = CHR ''_''"

definition safe_file_rune :: "string \<Rightarrow> char" where
  "safe_file_rune r = (case r of [c] \<Rightarrow> if safe_file_char c then c else CHR ''-'' | _ \<Rightarrow> CHR ''-'')"

definition safeFileName :: "string \<Rightarrow> string" where
  "safeFileName value =
     (let out = map safe_file_rune (runes (TrimSpace value)) in if out = [] then ''session'' else out)"

definition validSessionID :: "string \<Rightarrow> bool" where
  "validSessionID value =
     (let v = TrimSpace value in v \<noteq> [] \<and> length v \<le> 128 \<and> safeFileName v = v)"

definition sessionPath :: "string \<Rightarrow> string \<Rightarrow> string" where
  "sessionPath home ident = JoinPath [home, ''sessions'', safeFileName ident @ ''.json'']"

text \<open>\<open>rand.Read\<close> fails or gives sixteen bytes.\<close>

definition hex_byte :: "char \<Rightarrow> string" where
  "hex_byte c = [hex_char (of_char c div 16), hex_char (of_char c mod 16)]"

definition sessionID :: "bytes option \<Rightarrow> engine_error + string" where
  "sessionID raw = (case raw of None \<Rightarrow> Inl SessionIDFailed | Some bs \<Rightarrow> Inr (concat (map hex_byte bs)))"

section \<open>Manifests (182--194, 1062--1103)\<close>

text \<open>The extension payload is raw JSON text, \<open>[]\<close> when absent.\<close>

record EngineSession =
  en_ID :: string
  en_Backend :: Backend
  en_WorkspaceMode :: string
  en_Worktree :: WorktreeSession
  en_BackendSession :: BackendSession
  en_Configuration :: SessionConfiguration
  en_Ext :: bytes
  en_CreatedAt :: time
  en_UpdatedAt :: time
  en_ClosedAt :: "time option"

definition WorkspaceManaged :: string where "WorkspaceManaged = ''managed''"
definition WorkspaceExisting :: string where "WorkspaceExisting = ''existing''"

definition enc_worktree :: "WorktreeSession \<Rightarrow> json" where
  "enc_worktree x =
     JObj [(''id'', JStr (ws_ID x)), (''source'', JStr (ws_Source x)), (''path'', JStr (ws_Path x)),
           (''branch'', JStr (ws_Branch x)), (''base_sha'', JStr (ws_BaseSHA x))]"

definition no_worktree :: WorktreeSession where
  "no_worktree = \<lparr>ws_ID = [], ws_Source = [], ws_Path = [], ws_Branch = [], ws_BaseSHA = []\<rparr>"

definition dec_worktree :: "json \<Rightarrow> WorktreeSession option" where
  "dec_worktree j =
     (case j of
        JNull \<Rightarrow> Some no_worktree
      | JObj fs \<Rightarrow>
          (case (get_str fs ''id'', get_str fs ''source'', get_str fs ''path'', get_str fs ''branch'',
                 get_str fs ''base_sha'') of
             (Some i, Some s, Some p, Some b, Some h) \<Rightarrow>
               Some \<lparr>ws_ID = i, ws_Source = s, ws_Path = p, ws_Branch = b, ws_BaseSHA = h\<rparr>
           | _ \<Rightarrow> None)
      | _ \<Rightarrow> None)"

definition time_json :: "time \<Rightarrow> json" where
  "time_json t = JStr (show_nat t)"

definition opt_time :: "string \<Rightarrow> time option \<Rightarrow> (string \<times> json) list" where
  "opt_time k t = (case t of None \<Rightarrow> [] | Some v \<Rightarrow> [(k, time_json v)])"

text \<open>\<open>omitzero\<close>\<close>

definition opt_backend_session :: "string \<Rightarrow> BackendSession \<Rightarrow> (string \<times> json) list" where
  "opt_backend_session k b = (if b = no_backend_session then [] else [(k, enc_backend_session b)])"

definition opt_value :: "string \<Rightarrow> json option \<Rightarrow> (string \<times> json) list" where
  "opt_value k v = (case v of None \<Rightarrow> [] | Some d \<Rightarrow> [(k, d)])"

definition entry_fields :: "EngineSession \<Rightarrow> json option \<Rightarrow> (string \<times> json) list" where
  "entry_fields e ext =
     [(''id'', JStr (en_ID e)), (''backend'', JStr (en_Backend e)), (''workspace_mode'', JStr (en_WorkspaceMode e)),
      (''worktree'', enc_worktree (en_Worktree e))]
     @ opt_backend_session ''backend_session'' (en_BackendSession e)
     @ [(''configuration'', enc_configuration (en_Configuration e))]
     @ opt_value ''ext'' ext
     @ [(''created_at'', time_json (en_CreatedAt e)), (''updated_at'', time_json (en_UpdatedAt e))]
     @ opt_time ''closed_at'' (en_ClosedAt e)"

text \<open>\<open>json.Marshal(entry)\<close> fails exactly when the payload is no JSON text.\<close>

definition marshal_entry :: "EngineSession \<Rightarrow> bytes option" where
  "marshal_entry e =
     (if en_Ext e = [] then Some (marshal (JObj (entry_fields e None)))
      else map_option (\<lambda>d. marshal (JObj (entry_fields e (Some d)))) (unmarshal (en_Ext e)))"

definition get_value :: "(json \<Rightarrow> 'a option) \<Rightarrow> 'a \<Rightarrow> (string \<times> json) list \<Rightarrow> string \<Rightarrow> 'a option" where
  "get_value dec zero fs k = (case sget fs k of None \<Rightarrow> Some zero | Some j \<Rightarrow> dec j)"

definition get_time_pointer :: "(string \<times> json) list \<Rightarrow> string \<Rightarrow> time option option" where
  "get_time_pointer fs k =
     (case sget fs k of None \<Rightarrow> Some None | Some JNull \<Rightarrow> Some None | Some _ \<Rightarrow> map_option Some (get_time fs k))"

definition zero_entry :: EngineSession where
  "zero_entry = \<lparr>en_ID = [], en_Backend = [], en_WorkspaceMode = [], en_Worktree = no_worktree,
     en_BackendSession = no_backend_session, en_Configuration = no_configuration, en_Ext = [],
     en_CreatedAt = 0, en_UpdatedAt = 0, en_ClosedAt = None\<rparr>"

definition dec_entry :: "json \<Rightarrow> EngineSession option" where
  "dec_entry j =
     (case j of
        JNull \<Rightarrow> Some zero_entry
      | JObj fs \<Rightarrow>
          (case (get_str fs ''id'', get_str fs ''backend'', get_str fs ''workspace_mode'',
                 get_value dec_worktree no_worktree fs ''worktree'',
                 get_value dec_backend_session no_backend_session fs ''backend_session'',
                 get_value dec_configuration no_configuration fs ''configuration'') of
             (Some i, Some b, Some m, Some w, Some bs, Some c) \<Rightarrow>
               (case (get_time fs ''created_at'', get_time fs ''updated_at'', get_time_pointer fs ''closed_at'') of
                  (Some ca, Some ua, Some cl) \<Rightarrow>
                    Some \<lparr>en_ID = i, en_Backend = b, en_WorkspaceMode = m, en_Worktree = w, en_BackendSession = bs,
                          en_Configuration = c, en_Ext = get_raw fs ''ext'', en_CreatedAt = ca, en_UpdatedAt = ua,
                          en_ClosedAt = cl\<rparr>
                | _ \<Rightarrow> None)
           | _ \<Rightarrow> None)
      | _ \<Rightarrow> None)"

text \<open>\<open>loadSession\<close> on what \<open>ReadFile\<close> gave for the path of the identifier.\<close>

definition loadSession :: "string \<Rightarrow> read_result \<Rightarrow> engine_error + EngineSession" where
  "loadSession ident r =
     (if \<not> validSessionID ident then Inl (InvalidSessionID ident)
      else case r of
        Contents raw \<Rightarrow>
          (case Option.bind (unmarshal raw) dec_entry of
             None \<Rightarrow> Inl ManifestUndecodable
           | Some e \<Rightarrow>
               if en_ID e \<noteq> ident \<or> \<not> validSessionID (en_ID e) then Inl (ManifestMismatch (en_ID e) ident)
               else Inr (e\<lparr>en_UpdatedAt := (if en_UpdatedAt e = 0 then en_CreatedAt e else en_UpdatedAt e),
                           en_Configuration := normalizeConfiguration (en_Configuration e)\<rparr>))
      | _ \<Rightarrow> Inl ManifestUnreadable)"

text \<open>What \<open>saveSessionLocked\<close> writes: the entry with a new time, or an encoding error.\<close>

definition manifest_text :: "time \<Rightarrow> EngineSession \<Rightarrow> bytes option" where
  "manifest_text now e = marshal_entry (e\<lparr>en_UpdatedAt := now\<rparr>)"

section \<open>Identifiers are file names\<close>

lemma safe_file_rune_safe: "safe_file_char (safe_file_rune r)"
  by (auto simp: safe_file_rune_def safe_file_char_def split: list.splits)

lemma safeFileName_chars: "c \<in> set (safeFileName v) \<Longrightarrow> safe_file_char c"
proof -
  assume c: "c \<in> set (safeFileName v)"
  have s: "list_all safe_file_char ''session''" by code_simp
  let ?out = "map safe_file_rune (runes (TrimSpace v))"
  have e: "safeFileName v = (if ?out = [] then ''session'' else ?out)" by (simp only: safeFileName_def Let_def)
  show "safe_file_char c"
  proof (cases "?out = []")
    case True
    then have "c \<in> set ''session''" using c unfolding e by (simp only: if_True refl)
    then show ?thesis using s unfolding list_all_iff by (rule bspec [rotated])
  next
    case False
    then have "c \<in> set ?out" using c unfolding e by (simp only: if_False)
    then show ?thesis using safe_file_rune_safe by auto
  qed
qed

lemma safe_file_solid: "safe_file_char c \<Longrightarrow> solid c \<and> c \<noteq> slash \<and> c \<noteq> CHR ''.''"
  by (auto simp: safe_file_char_def byte_in_def solid_def space1_def less_eq_char_def less_char_def)

lemma safeFileName_nonempty: "safeFileName v \<noteq> []"
  by (simp add: safeFileName_def Let_def)

text \<open>A valid identifier without outer spaces is its own file name.\<close>

lemma valid_own_name:
  assumes "validSessionID v" and "TrimSpace v = v"
  shows "safeFileName v = v"
  using assms by (simp add: validSessionID_def Let_def)

lemma manifest_file_plain: "plain (safeFileName v @ ''.json'')"
proof -
  obtain c t where ct: "safeFileName v = c # t" using safeFileName_nonempty [of v] by (cases "safeFileName v") auto
  have "c \<noteq> CHR ''.''" using safeFileName_chars [of c v] safe_file_solid ct by auto
  moreover have "slash \<notin> set (safeFileName v)" using safeFileName_chars safe_file_solid by blast
  ultimately show ?thesis using ct by (auto simp: plain_def)
qed

lemma sessionPath_abs:
  assumes "\<forall>p \<in> set hs. plain p"
  shows "sessionPath (abs_of hs) v = abs_of (hs @ [''sessions'', safeFileName v @ ''.json''])"
proof -
  have "\<forall>p \<in> set [''sessions'', safeFileName v @ ''.json'']. plain p"
    using manifest_file_plain by (auto simp: plain_def)
  then show ?thesis using JoinPath_plain [OF assms] by (simp add: sessionPath_def)
qed

section \<open>Reading back the settings\<close>

definition settings_json :: "Settings \<Rightarrow> json" where
  "settings_json s =
     JObj [(''version'', JNum (se_Version s)), (''worktrees'', JObj [(''branch_prefix'', JStr (se_BranchPrefix s))]),
           (''catalog_cache'', JBool (se_CatalogCache s))]"

text \<open>One field of an object, its value after a space and before what follows.\<close>

lemma read_spaced_field:
  assumes "read_value n (CHR '' '' # t) = Some (v, u)" and "skip_ws u = c # r"
  shows "read_fields (Suc n) (write_string k @ CHR '':'' # CHR '' '' # t) =
     (if c = CHR '','' then map_option (apfst ((#) (k, v))) (read_fields n r)
      else if c = CHR ''}'' then Some ([(k, v)], r) else None)"
  using assms by (simp add: write_string_def read_str_escaped)

lemma read_spaces:
  "json_space c \<Longrightarrow> read_fields n (c # s) = read_fields n s"
  "json_space c \<Longrightarrow> read_value n (c # s) = read_value n s"
  "json_space c \<Longrightarrow> skip_ws (c # s) = skip_ws s"
  by (cases n; simp add: skip_ws_def)+

lemma json_spaces: "json_space CHR '' ''" "json_space newline"
  by (simp_all add: json_space_def)

lemma read_worktrees:
  "read_value (Suc (Suc (Suc n))) (CHR '' '' # CHR ''{'' # newline # CHR '' '' # CHR '' '' # CHR '' '' # CHR '' '' #
     write_string ''branch_prefix'' @ CHR '':'' # CHR '' '' # write_string b @ newline # CHR '' '' # CHR '' '' # CHR ''}'' # r)
   = Some (JObj [(''branch_prefix'', JStr b)], r)"
proof -
  have v: "read_value (Suc n) (CHR '' '' # write_string b @ t) = Some (JStr b, t)" for t
    by (simp add: read_spaces json_spaces write_string_def read_str_escaped)
  obtain u where u: "write_string ''branch_prefix'' = quote_char # u" by (simp add: write_string_def)
  show ?thesis
    using read_spaced_field [OF v, of "newline # CHR '' '' # CHR '' '' # CHR ''}'' # r" "CHR ''}''" r "''branch_prefix''"]
    by (simp add: read_spaces json_spaces u skip_ws_id json_space_def del: read_fields.simps)
qed

lemma unmarshal_settings: "unmarshal (settings_text s) = Some (settings_json s)"
proof -
  let ?cat = "marshal (JBool (se_CatalogCache s))"
  let ?f3 = "write_string ''catalog_cache'' @ CHR '':'' # CHR '' '' # ?cat @ [newline, CHR ''}'', newline]"
  let ?f2 = "write_string ''worktrees'' @ CHR '':'' # CHR '' '' # CHR ''{'' # newline # CHR '' '' # CHR '' '' # CHR '' '' #
     CHR '' '' # write_string ''branch_prefix'' @ CHR '':'' # CHR '' '' # write_string (se_BranchPrefix s) @ newline #
     CHR '' '' # CHR '' '' # CHR ''}'' # CHR '','' # newline # CHR '' '' # CHR '' '' # ?f3"
  let ?f1 = "write_string ''version'' @ CHR '':'' # CHR '' '' # show_int (se_Version s) @ CHR '','' # newline #
     CHR '' '' # CHR '' '' # ?f2"
  have whole: "settings_text s = CHR ''{'' # newline # CHR '' '' # CHR '' '' # ?f1" by (simp add: settings_text_def)
  define m where "m = length (settings_text s)"
  define n where "n = m - 5"
  have n: "m = Suc (Suc (Suc (Suc (Suc n))))" by (simp add: n_def m_def settings_text_def)
  have c: "read_value (Suc k) (CHR '' '' # ?cat @ t) = Some (JBool (se_CatalogCache s), t)" for k t
    by (cases "se_CatalogCache s") (simp_all add: read_spaces json_spaces skip_ws_id json_space_def read_lit_def)
  have f3: "read_fields (Suc (Suc k)) ?f3 = Some ([(''catalog_cache'', JBool (se_CatalogCache s))], [newline])" for k
    using read_spaced_field [OF c, where c = "CHR ''}''" and r = "[newline]" and k = "''catalog_cache''"]
    by (simp add: read_spaces json_spaces del: read_fields.simps)
  have f2: "read_fields (Suc (Suc (Suc (Suc k)))) ?f2 = Some
      ([(''worktrees'', JObj [(''branch_prefix'', JStr (se_BranchPrefix s))]), (''catalog_cache'', JBool (se_CatalogCache s))], [newline])" for k
    using read_spaced_field [OF read_worktrees, where c = "CHR '',''" and r = "newline # CHR '' '' # CHR '' '' # ?f3"
        and k = "''worktrees''"] f3
    by (simp add: read_spaces json_spaces del: read_fields.simps)
  have v: "read_value (Suc k) (CHR '' '' # show_int (se_Version s) @ CHR '','' # t) = Some (JNum (se_Version s), CHR '','' # t)" for k t
    using reads_back_num [of "se_Version s"] by (simp add: reads_back_def read_spaces(2) json_spaces del: read_value.simps)
  have f1: "read_fields (Suc (Suc (Suc (Suc (Suc n))))) ?f1 = Some
      ([(''version'', JNum (se_Version s)), (''worktrees'', JObj [(''branch_prefix'', JStr (se_BranchPrefix s))]),
        (''catalog_cache'', JBool (se_CatalogCache s))], [newline])"
    using read_spaced_field [OF v, where c = "CHR '',''" and r = "newline # CHR '' '' # CHR '' '' # ?f2" and k = "''version''"] f2
    by (simp add: read_spaces json_spaces del: read_fields.simps)
  obtain u where u: "?f1 = quote_char # u" by (simp add: write_string_def)
  have "read_value (Suc m) (settings_text s) = Some (settings_json s, [newline])"
    using f1 unfolding n whole u
    by (simp add: read_spaces json_spaces skip_ws_id json_space_def settings_json_def del: read_fields.simps)
  then show ?thesis by (simp add: unmarshal_def m_def read_spaces json_spaces) (simp add: skip_ws_def)
qed

lemma load_settings_text: "loadSettings (Contents (settings_text s)) = normalizeSettings s"
  by (cases s) (simp add: loadSettings_def unmarshal_settings settings_json_def dec_settings_def over_int_def over_bool_def
      over_str_def over_prefix_def codec_simps)

lemma dropWhile_both:
  fixes P v
  defines "y \<equiv> rev (dropWhile P (rev (dropWhile P v)))"
  shows "dropWhile P y = y"
proof (cases y)
  case (Cons a t)
  have "dropWhile P v = y @ rev (takeWhile P (rev (dropWhile P v)))"
    unfolding y_def by (metis rev_append rev_rev_ident takeWhile_dropWhile_id)
  then obtain d where "dropWhile P v = a # d" using Cons by auto
  then have "\<not> P a" by (simp add: dropWhile_eq_Cons_conv)
  then show ?thesis using Cons by simp
qed simp

lemma TrimByte_idem: "TrimByte c (TrimByte c v) = TrimByte c v"
proof -
  have "dropWhile ((=) c) (dropWhile ((=) c) (rev (dropWhile ((=) c) v))) = dropWhile ((=) c) (rev (dropWhile ((=) c) v))"
    by (rule dropWhile_idem)
  then show ?thesis unfolding TrimByte_def by (simp add: dropWhile_both)
qed

text \<open>
  Settings survive being saved. Settings that were normalised and whose branch prefix has no
  outer spaces are read back from \<open>config.json\<close> exactly as they were written, and normalising
  them again changes nothing.
\<close>

theorem settings_round_trip:
  assumes "normalizeSettings s = Inr t" and "TrimSpace (se_BranchPrefix t) = se_BranchPrefix t"
  shows "loadSettings (Contents (settings_text t)) = Inr t \<and> normalizeSettings t = Inr t"
proof -
  have v: "se_Version t = 1" and b: "se_BranchPrefix t \<noteq> []" "TrimByte slash (se_BranchPrefix t) = se_BranchPrefix t"
    using assms(1) by (auto simp: normalizeSettings_def Let_def TrimByte_idem split: if_splits)
      (simp_all add: DefaultSettings_def TrimByte_def)
  then have "normalizeSettings t = Inr t" using assms(2) by (simp add: normalizeSettings_def)
  then show ?thesis by (simp add: load_settings_text)
qed

theorem settings_round_trip_witness:
  "loadSettings (Contents (settings_text \<lparr>se_Version = 1, se_BranchPrefix = ''team/agents'', se_CatalogCache = False\<rparr>))
     = Inr \<lparr>se_Version = 1, se_BranchPrefix = ''team/agents'', se_CatalogCache = False\<rparr>"
proof -
  let ?s = "\<lparr>se_Version = 0, se_BranchPrefix = '' /team/agents/ '', se_CatalogCache = False\<rparr>"
  have "TrimSpace ''team/agents'' = ''team/agents''"
    and "normalizeSettings ?s = Inr \<lparr>se_Version = 1, se_BranchPrefix = ''team/agents'', se_CatalogCache = False\<rparr>"
    by code_simp+
  then show ?thesis using settings_round_trip [of ?s] by simp
qed

text \<open>Trimming in this order leaves spaces that the next start trims again.\<close>

lemma normalize_settings_twice:
  "\<exists>s t u. normalizeSettings s = Inr t \<and> normalizeSettings t = Inr u \<and> u \<noteq> t"
proof -
  let ?s = "\<lparr>se_Version = 1, se_BranchPrefix = ''/ agents'', se_CatalogCache = True\<rparr>"
  have "normalizeSettings ?s = Inr (?s\<lparr>se_BranchPrefix := '' agents''\<rparr>)"
    and "normalizeSettings (?s\<lparr>se_BranchPrefix := '' agents''\<rparr>) = Inr (?s\<lparr>se_BranchPrefix := ''agents''\<rparr>)"
    by code_simp+
  then show ?thesis
    by (intro exI [of _ ?s] exI [of _ "?s\<lparr>se_BranchPrefix := '' agents''\<rparr>"] exI [of _ "?s\<lparr>se_BranchPrefix := ''agents''\<rparr>"]) simp
qed

section \<open>Reading back a manifest\<close>

lemma dec_enc_worktree [simp]: "dec_worktree (enc_worktree x) = Some x"
  by (simp add: dec_worktree_def enc_worktree_def get_defs codec_simps)

lemma sget_opt_entry [codec_simps]:
  "sget (opt_time j t) k = (if k = j then map_option time_json t else None)"
  "sget (opt_backend_session j b) k = (if k = j \<and> b \<noteq> no_backend_session then Some (enc_backend_session b) else None)"
  "sget (opt_value j v) k = (if k = j then v else None)"
  by (auto simp: sget_def opt_time_def opt_backend_session_def opt_value_def split: option.splits)

lemma get_entry_fields:
  "get_str (entry_fields e x) ''id'' = Some (en_ID e)"
  "get_str (entry_fields e x) ''backend'' = Some (en_Backend e)"
  "get_str (entry_fields e x) ''workspace_mode'' = Some (en_WorkspaceMode e)"
  "get_value dec_worktree no_worktree (entry_fields e x) ''worktree'' = Some (en_Worktree e)"
  "get_value dec_backend_session no_backend_session (entry_fields e x) ''backend_session'' = Some (en_BackendSession e)"
  "get_value dec_configuration no_configuration (entry_fields e x) ''configuration'' = Some (en_Configuration e)"
  "get_time (entry_fields e x) ''created_at'' = Some (en_CreatedAt e)"
  "get_time (entry_fields e x) ''updated_at'' = Some (en_UpdatedAt e)"
  "get_time_pointer (entry_fields e x) ''closed_at'' = Some (en_ClosedAt e)"
  "get_raw (entry_fields e x) ''ext'' = (case x of None \<Rightarrow> [] | Some d \<Rightarrow> marshal d)"
  by (simp_all add: entry_fields_def get_str_def get_value_def get_time_def get_time_pointer_def get_raw_def
      codec_simps time_json_def read_nat_show_nat_all split: option.splits)

lemma marshal_entry_Some:
  assumes "marshal_entry e = Some raw" and "en_Ext e = [] \<or> compact_json (en_Ext e)"
  obtains x where "raw = marshal (JObj (entry_fields e x))" and "en_Ext e = (case x of None \<Rightarrow> [] | Some d \<Rightarrow> marshal d)"
proof (cases "en_Ext e = []")
  case True
  with assms(1) that [of None] show ?thesis by (simp add: marshal_entry_def)
next
  case False
  then obtain d where d: "en_Ext e = marshal d" using assms(2) by (auto elim: compact_jsonE)
  with assms(1) that [of "Some d"] False show ?thesis by (simp add: marshal_entry_def)
qed

lemma decode_marshal_entry:
  assumes "marshal_entry e = Some raw" and "en_Ext e = [] \<or> compact_json (en_Ext e)"
  shows "Option.bind (unmarshal raw) dec_entry = Some e"
proof -
  obtain x where raw: "raw = marshal (JObj (entry_fields e x))" and ext: "en_Ext e = (case x of None \<Rightarrow> [] | Some d \<Rightarrow> marshal d)"
    using marshal_entry_Some [OF assms] by blast
  have "dec_entry (JObj (entry_fields e x)) = Some e"
    by (simp add: dec_entry_def get_entry_fields ext [symmetric])
  then show ?thesis by (simp add: raw del: marshal.simps)
qed

text \<open>
  C27: a manifest is read back as it was saved. For a session with a valid identifier, a normalised
  configuration and an extension payload in compact form, loading what \<open>saveSession\<close> wrote at a
  time after the zero time gives the session with that time.
\<close>

theorem manifest_round_trip:
  assumes "manifest_text now e = Some raw" and "validSessionID (en_ID e)" and "0 < now"
    and "en_Ext e = [] \<or> compact_json (en_Ext e)" and "normalizeConfiguration (en_Configuration e) = en_Configuration e"
  shows "loadSession (en_ID e) (Contents raw) = Inr (e\<lparr>en_UpdatedAt := now\<rparr>)"
proof -
  have "Option.bind (unmarshal raw) dec_entry = Some (e\<lparr>en_UpdatedAt := now\<rparr>)"
    using assms(1,4) by (intro decode_marshal_entry) (simp_all add: manifest_text_def)
  with assms show ?thesis by (simp add: loadSession_def)
qed

definition demo_entry :: EngineSession where
  "demo_entry = zero_entry\<lparr>en_ID := ''s1'', en_Backend := ''codex'', en_WorkspaceMode := WorkspaceExisting,
     en_Ext := ''[1]'', en_CreatedAt := 5\<rparr>"

theorem manifest_round_trip_witness:
  "\<exists>raw. manifest_text 7 demo_entry = Some raw
     \<and> loadSession ''s1'' (Contents raw) = Inr (demo_entry\<lparr>en_UpdatedAt := 7\<rparr>)"
proof -
  have "en_Ext demo_entry = marshal (JArr [JNum 1])" by code_simp
  then have c: "compact_json (en_Ext demo_entry)" and "unmarshal (en_Ext demo_entry) = Some (JArr [JNum 1])"
    by (simp_all del: marshal.simps)
  then have m: "manifest_text 7 demo_entry \<noteq> None" by (simp add: manifest_text_def marshal_entry_def)
  have v: "validSessionID (en_ID demo_entry)" by code_simp
  have n: "normalizeConfiguration (en_Configuration demo_entry) = en_Configuration demo_entry" by code_simp
  have i: "en_ID demo_entry = ''s1''" by (simp add: demo_entry_def)
  obtain raw where raw: "manifest_text 7 demo_entry = Some raw" using m by auto
  have "loadSession (en_ID demo_entry) (Contents raw) = Inr (demo_entry\<lparr>en_UpdatedAt := 7\<rparr>)"
    by (rule manifest_round_trip [OF raw v]) (simp_all add: c n)
  with raw i show ?thesis by auto
qed

end
