(* ===== verification/Engine_Programs.thy ===== *)
theory Engine_Programs
  imports Engine_Manifest Runtime_Methods
begin

text \<open>
  The methods of the engine, from \<open>src/engine.go\<close>, as programs: trees of operations on the
  manifests, the runtime, the worktree manager, the journal and the system, each followed by what
  the method does with the answer. A program says nothing of what the answers are, so that other
  goroutines may act between two operations; \<open>Engine_Machine\<close> runs programs against the models of
  the other components. The tests for a nil engine are left out.
\<close>

section \<open>Operations and answers\<close>

text \<open>The closures given to \<open>updateSession\<close>.\<close>

datatype manifest_update =
  UBackendConfiguration BackendSession SessionConfiguration "bytes option"
| UWorktree WorktreeSession
| UConfiguration SessionConfiguration
| UBackend BackendSession
| UClosed time
| USubmitted BackendSession

datatype worktree_op =
  WCreate WorktreeRequest | WInspect string | WReopen WorktreeSession | WRepair WorktreeSession
| WRemove WorktreeSession bool | WPrune string | WNew WorktreeConfig

datatype journal_op =
  JRead string nat nat | JReadAfter string nat | JTail string int | JLast string | JAppend Record | JClose
| JNew string

datatype engine_op =
  ORuntime call | OState string | OQueue string
| OStatManifest string | OLoad string | OSave EngineSession | OUpdate string manifest_update | OUnlink string | OList
| OWorktree worktree_op | OJournal journal_op
| OStatDir string | OResolve string | ONow | ORandom | ONotify Event
| OSecureDir string | OReadFile string | OWriteFile string bytes | OOpenLog string | OCloseLogs

datatype dir_result = DirFails | NotDirectory | Directory

datatype engine_answer =
  ARuntime api_result
| AnState "runtime_error + RuntimeState"
| AnQueue "runtime_error + QueueEntry list"
| AnStat stat_result
| AnEntry "engine_error + EngineSession"
| AnDone "engine_error option"
| AnNames "(string \<times> bool) list option"
| AnWorktree "worktree_error + WorktreeSession"
| AnManager "worktree_error + Manager"
| AnUnit "worktree_error option"
| AnRecords "store_error + Record list"
| AnSequence "store_error + nat"
| AnRecord "store_error + Record"
| AnJournal "store_error option"
| AnDir dir_result
| AnPath "string option"
| AnTime time
| AnBytes "bytes option"
| AnRead read_result
| AnOk bool

record LifecycleSnapshot =
  ls_Status :: Status
  ls_CreatedAt :: time
  ls_UpdatedAt :: time
  ls_ClosedAt :: "time option"

record Snapshot =
  sn_SessionID :: string
  sn_Lifecycle :: LifecycleSnapshot
  sn_Mode :: string
  sn_Workspace :: WorktreeSession
  sn_Backend :: Backend
  sn_BackendSession :: BackendSession
  sn_Active :: bool
  sn_ActiveTurnID :: string
  sn_Depth :: nat
  sn_Entries :: "QueueEntry list"
  sn_DispatchBlocked :: bool
  sn_PendingInteraction :: "InteractionRequest option"
  sn_Configuration :: SessionConfiguration
  sn_LastJournalSequence :: nat
  sn_Ext :: bytes

text \<open>What \<open>Open\<close> returns: home, settings, worktree manager, catalog directory, and whether the journal is owned.\<close>

record Engine =
  eg_home :: string
  eg_settings :: Settings
  eg_worktrees :: Manager
  eg_catalogDir :: string
  eg_journalOwned :: bool

datatype engine_result =
  ResSession "engine_error + EngineSession"
| ResUnit "engine_error option"
| ResBackend "engine_error + BackendSession"
| ResRuntime api_result
| ResSnapshot "engine_error + Snapshot"
| ResEntries "runtime_error + QueueEntry list"
| ResRecords "store_error + Record list"
| ResRecord "engine_error + Record"
| ResSessions "engine_error + EngineSession list"
| ResInteraction "engine_error + InteractionRequest option"
| ResOpen "engine_error + Engine"
| ResNothing

datatype prog = Done engine_result | Do engine_op "engine_answer \<Rightarrow> prog"

text \<open>The answers an operation can have.\<close>

fun fits :: "engine_op \<Rightarrow> engine_answer \<Rightarrow> bool" where
  "fits (ORuntime c) a = (case a of ARuntime _ \<Rightarrow> True | _ \<Rightarrow> False)"
| "fits (OState i) a = (case a of AnState _ \<Rightarrow> True | _ \<Rightarrow> False)"
| "fits (OQueue i) a = (case a of AnQueue _ \<Rightarrow> True | _ \<Rightarrow> False)"
| "fits (OStatManifest i) a = (case a of AnStat _ \<Rightarrow> True | _ \<Rightarrow> False)"
| "fits (OLoad i) a = (case a of AnEntry _ \<Rightarrow> True | _ \<Rightarrow> False)"
| "fits (OSave e) a = (case a of AnDone _ \<Rightarrow> True | _ \<Rightarrow> False)"
| "fits (OUpdate i u) a = (case a of AnDone _ \<Rightarrow> True | _ \<Rightarrow> False)"
| "fits (OUnlink i) a = (case a of AnStat _ \<Rightarrow> True | _ \<Rightarrow> False)"
| "fits OList a = (case a of AnNames _ \<Rightarrow> True | _ \<Rightarrow> False)"
| "fits (OWorktree w) a =
     (case w of
        WNew _ \<Rightarrow> (case a of AnManager _ \<Rightarrow> True | _ \<Rightarrow> False)
      | WRemove _ _ \<Rightarrow> (case a of AnUnit _ \<Rightarrow> True | _ \<Rightarrow> False)
      | WPrune _ \<Rightarrow> (case a of AnUnit _ \<Rightarrow> True | _ \<Rightarrow> False)
      | _ \<Rightarrow> (case a of AnWorktree _ \<Rightarrow> True | _ \<Rightarrow> False))"
| "fits (OJournal j) a =
     (case j of
        JLast _ \<Rightarrow> (case a of AnSequence _ \<Rightarrow> True | _ \<Rightarrow> False)
      | JAppend _ \<Rightarrow> (case a of AnRecord _ \<Rightarrow> True | _ \<Rightarrow> False)
      | JClose \<Rightarrow> (case a of AnJournal _ \<Rightarrow> True | _ \<Rightarrow> False)
      | JNew _ \<Rightarrow> (case a of AnJournal _ \<Rightarrow> True | _ \<Rightarrow> False)
      | _ \<Rightarrow> (case a of AnRecords _ \<Rightarrow> True | _ \<Rightarrow> False))"
| "fits (OStatDir p) a = (case a of AnDir _ \<Rightarrow> True | _ \<Rightarrow> False)"
| "fits (OResolve p) a = (case a of AnPath _ \<Rightarrow> True | _ \<Rightarrow> False)"
| "fits ONow a = (case a of AnTime _ \<Rightarrow> True | _ \<Rightarrow> False)"
| "fits ORandom a = (case a of AnBytes _ \<Rightarrow> True | _ \<Rightarrow> False)"
| "fits (ONotify e) a = (case a of AnOk _ \<Rightarrow> True | _ \<Rightarrow> False)"
| "fits (OSecureDir p) a = (case a of AnOk _ \<Rightarrow> True | _ \<Rightarrow> False)"
| "fits (OReadFile p) a = (case a of AnRead _ \<Rightarrow> True | _ \<Rightarrow> False)"
| "fits (OWriteFile p s) a = (case a of AnOk _ \<Rightarrow> True | _ \<Rightarrow> False)"
| "fits (OOpenLog p) a = (case a of AnOk _ \<Rightarrow> True | _ \<Rightarrow> False)"
| "fits OCloseLogs a = (case a of AnDone _ \<Rightarrow> True | _ \<Rightarrow> False)"

text \<open>One operation and what follows, for each kind of answer.\<close>

definition RuntimeCall :: "call \<Rightarrow> (api_result \<Rightarrow> prog) \<Rightarrow> prog" where
  "RuntimeCall c k = Do (ORuntime c) (\<lambda>a. case a of ARuntime r \<Rightarrow> k r | _ \<Rightarrow> Done ResNothing)"

definition State_of :: "string \<Rightarrow> (runtime_error + RuntimeState \<Rightarrow> prog) \<Rightarrow> prog" where
  "State_of i k = Do (OState i) (\<lambda>a. case a of AnState r \<Rightarrow> k r | _ \<Rightarrow> Done ResNothing)"

definition StatManifest :: "string \<Rightarrow> (stat_result \<Rightarrow> prog) \<Rightarrow> prog" where
  "StatManifest i k = Do (OStatManifest i) (\<lambda>a. case a of AnStat r \<Rightarrow> k r | _ \<Rightarrow> Done ResNothing)"

definition Load :: "string \<Rightarrow> (engine_error + EngineSession \<Rightarrow> prog) \<Rightarrow> prog" where
  "Load i k = Do (OLoad i) (\<lambda>a. case a of AnEntry r \<Rightarrow> k r | _ \<Rightarrow> Done ResNothing)"

definition Save :: "EngineSession \<Rightarrow> (engine_error option \<Rightarrow> prog) \<Rightarrow> prog" where
  "Save e k = Do (OSave e) (\<lambda>a. case a of AnDone r \<Rightarrow> k r | _ \<Rightarrow> Done ResNothing)"

definition Update :: "string \<Rightarrow> manifest_update \<Rightarrow> (engine_error option \<Rightarrow> prog) \<Rightarrow> prog" where
  "Update i u k = Do (OUpdate i u) (\<lambda>a. case a of AnDone r \<Rightarrow> k r | _ \<Rightarrow> Done ResNothing)"

definition Unlink :: "string \<Rightarrow> (stat_result \<Rightarrow> prog) \<Rightarrow> prog" where
  "Unlink i k = Do (OUnlink i) (\<lambda>a. case a of AnStat r \<Rightarrow> k r | _ \<Rightarrow> Done ResNothing)"

definition Worktree :: "worktree_op \<Rightarrow> (worktree_error + WorktreeSession \<Rightarrow> prog) \<Rightarrow> prog" where
  "Worktree w k = Do (OWorktree w) (\<lambda>a. case a of AnWorktree r \<Rightarrow> k r | _ \<Rightarrow> Done ResNothing)"

definition WorktreeUnit :: "worktree_op \<Rightarrow> (worktree_error option \<Rightarrow> prog) \<Rightarrow> prog" where
  "WorktreeUnit w k = Do (OWorktree w) (\<lambda>a. case a of AnUnit r \<Rightarrow> k r | _ \<Rightarrow> Done ResNothing)"

definition Records :: "journal_op \<Rightarrow> (store_error + Record list \<Rightarrow> prog) \<Rightarrow> prog" where
  "Records j k = Do (OJournal j) (\<lambda>a. case a of AnRecords r \<Rightarrow> k r | _ \<Rightarrow> Done ResNothing)"

definition Now :: "(time \<Rightarrow> prog) \<Rightarrow> prog" where
  "Now k = Do ONow (\<lambda>a. case a of AnTime t \<Rightarrow> k t | _ \<Rightarrow> Done ResNothing)"

definition AskOk :: "engine_op \<Rightarrow> (bool \<Rightarrow> prog) \<Rightarrow> prog" where
  "AskOk op k = Do op (\<lambda>a. case a of AnOk b \<Rightarrow> k b | _ \<Rightarrow> Done ResNothing)"

lemmas operations = RuntimeCall_def State_of_def StatManifest_def Load_def Save_def Update_def Unlink_def
  Worktree_def WorktreeUnit_def Records_def Now_def AskOk_def

section \<open>Configurations and updates (1148--1171)\<close>

record StartRequest =
  sq_ID :: string
  sq_Backend :: Backend
  sq_WorkspaceMode :: string
  sq_Source :: string
  sq_Worktree :: string
  sq_Prompt :: string
  sq_Attachments :: "Attachment list"
  sq_Model :: string
  sq_Reasoning :: string
  sq_PermissionMode :: string
  sq_ResumeBackendSessionID :: string
  sq_Ext :: bytes

definition engine_configuration :: "StartRequest \<Rightarrow> SessionConfiguration" where
  "engine_configuration q = normalizeConfiguration
     \<lparr>cfg_Model = sq_Model q, cfg_Reasoning = sq_Reasoning q, cfg_PermissionMode = sq_PermissionMode q\<rparr>"

definition merge_into :: "SessionConfiguration \<Rightarrow> SessionConfiguration \<Rightarrow> SessionConfiguration" where
  "merge_into target update =
     (let u = normalizeConfiguration update;
          t1 = (if cfg_Model u \<noteq> [] then target\<lparr>cfg_Model := cfg_Model u\<rparr> else target);
          t2 = (if cfg_Reasoning u \<noteq> [] then t1\<lparr>cfg_Reasoning := cfg_Reasoning u\<rparr> else t1);
          t3 = (if cfg_PermissionMode u \<noteq> [] then t2\<lparr>cfg_PermissionMode := cfg_PermissionMode u\<rparr> else t2) in
      normalizeConfiguration t3)"

text \<open>What the closures do; the one of \<open>recordTurnSubmission\<close> reads the state of the runtime.\<close>

fun apply_update :: "runtime_error + RuntimeState \<Rightarrow> manifest_update \<Rightarrow> EngineSession \<Rightarrow> EngineSession" where
  "apply_update st (UBackendConfiguration b c ext) e =
     e\<lparr>en_BackendSession := b, en_Configuration := c,
       en_Ext := (case ext of None \<Rightarrow> en_Ext e | Some x \<Rightarrow> x)\<rparr>"
| "apply_update st (UWorktree w) e = e\<lparr>en_Worktree := w\<rparr>"
| "apply_update st (UConfiguration c) e = e\<lparr>en_Configuration := c\<rparr>"
| "apply_update st (UBackend b) e = e\<lparr>en_BackendSession := b\<rparr>"
| "apply_update st (UClosed t) e = e\<lparr>en_ClosedAt := Some t\<rparr>"
| "apply_update st (USubmitted b) e =
     (case st of
        Inr s \<Rightarrow> e\<lparr>en_BackendSession := b, en_Configuration := sta_Configuration s\<rparr>
      | Inl _ \<Rightarrow> e\<lparr>en_BackendSession := b\<rparr>)"

section \<open>Shared steps (1021--1060, 1114--1146)\<close>

definition runtime_failure :: "api_result \<Rightarrow> engine_error option" where
  "runtime_failure r =
     (case r of
        RState (Inl e) \<Rightarrow> Some (EngineRuntime e)
      | RBackend (Inl e) \<Rightarrow> Some (EngineRuntime e)
      | RUnit (Some e) \<Rightarrow> Some (EngineRuntime e)
      | _ \<Rightarrow> None)"

definition backend_of :: "api_result \<Rightarrow> BackendSession" where
  "backend_of r = (case r of RBackend (Inr b) \<Rightarrow> b | _ \<Rightarrow> no_backend_session)"

definition failed_session :: "engine_error \<Rightarrow> prog" where
  "failed_session e = Done (ResSession (Inl e))"

definition rollbackStart :: "EngineSession \<Rightarrow> prog \<Rightarrow> prog" where
  "rollbackStart entry k =
     RuntimeCall (AClose (en_ID entry)) (\<lambda>_. RuntimeCall (AForget (en_ID entry)) (\<lambda>_. Unlink (en_ID entry) (\<lambda>_.
     if en_WorkspaceMode entry = WorkspaceManaged then WorktreeUnit (WRemove (en_Worktree entry) True) (\<lambda>_. k) else k)))"

definition inspectExistingWorkspace :: "string \<Rightarrow> string \<Rightarrow> (engine_error + WorktreeSession \<Rightarrow> prog) \<Rightarrow> prog" where
  "inspectExistingWorkspace ident path0 k =
     (let path1 = TrimSpace path0; path2 = Clean path1 in
      if path1 = [] then k (Inl WorkspaceRequired)
      else if \<not> IsAbs path1 then k (Inl WorkspaceNotAbsolute)
      else Do (OStatDir path2) (\<lambda>a. case a of
        AnDir DirFails \<Rightarrow> k (Inl WorkspaceNotInspected)
      | AnDir NotDirectory \<Rightarrow> k (Inl (WorkspaceNoDirectory path2))
      | AnDir Directory \<Rightarrow> Do (OResolve path2) (\<lambda>b. case b of
          AnPath r \<Rightarrow>
            let path = (case r of Some q \<Rightarrow> q | None \<Rightarrow> path2) in
            Worktree (WInspect path) (\<lambda>w.
              let workspace = (case w of Inr x \<Rightarrow> x | Inl _ \<Rightarrow> no_worktree\<lparr>ws_Path := path\<rparr>) in
              k (Inr (workspace\<lparr>ws_ID := ident, ws_Source := path\<rparr>)))
        | _ \<Rightarrow> Done ResNothing)
      | _ \<Rightarrow> Done ResNothing))"

definition prepareReplay :: "string \<Rightarrow> (engine_error option \<Rightarrow> prog) \<Rightarrow> prog" where
  "prepareReplay ident k =
     Records (JRead ident 0 0) (\<lambda>r. case r of
       Inr records \<Rightarrow> RuntimeCall (ASetReplayHistory ident records) (\<lambda>x. k (runtime_failure x))
     | Inl e \<Rightarrow>
         if e = NotExist then RuntimeCall (ASetReplayHistory ident []) (\<lambda>x. k (runtime_failure x))
         else k (Some (EngineJournal e)))"

definition persistRuntimeConfiguration :: "string \<Rightarrow> prog \<Rightarrow> prog" where
  "persistRuntimeConfiguration ident k =
     (if TrimSpace ident = [] then k
      else State_of ident (\<lambda>s. case s of
        Inl _ \<Rightarrow> k
      | Inr st \<Rightarrow> Update ident (UConfiguration (sta_Configuration st)) (\<lambda>_. k)))"

section \<open>Start and Resume (441--605)\<close>

definition start_request :: "StartRequest \<Rightarrow> string \<Rightarrow> SessionConfiguration \<Rightarrow> string \<Rightarrow> StartSessionRequest" where
  "start_request q ident c resume =
     \<lparr>ss_Backend = [], ss_SessionID = ident, ss_Worktree = [], ss_Prompt = sq_Prompt q, ss_Ext = sq_Ext q,
      ss_Attachments = sq_Attachments q, ss_Model = cfg_Model c, ss_Reasoning = cfg_Reasoning c,
      ss_PermissionMode = cfg_PermissionMode c, ss_ResumeBackendSessionID = resume\<rparr>"

definition finish_start :: "string \<Rightarrow> BackendSession \<Rightarrow> SessionConfiguration \<Rightarrow> bytes option \<Rightarrow> prog" where
  "finish_start ident b fallback ext =
     State_of ident (\<lambda>s.
     let c = (case s of Inr st \<Rightarrow> sta_Configuration st | Inl _ \<Rightarrow> fallback) in
     Update ident (UBackendConfiguration b c ext) (\<lambda>u.
     case u of Some e \<Rightarrow> failed_session e | None \<Rightarrow> Load ident (\<lambda>l. Done (ResSession l))))"

definition resumeStart :: "StartRequest \<Rightarrow> prog" where
  "resumeStart q =
     Load (sq_ID q) (\<lambda>l. case l of Inl e \<Rightarrow> failed_session e | Inr entry \<Rightarrow>
       if en_ClosedAt entry \<noteq> None then failed_session (EngineClosed (en_ID entry))
       else let
         c = merge_into (en_Configuration entry) (engine_configuration q);
         resume = (if TrimSpace (sq_ResumeBackendSessionID q) = [] then bs_ID (en_BackendSession entry)
                   else TrimSpace (sq_ResumeBackendSessionID q));
         ext = (if sq_Ext q = [] then None else Some (sq_Ext q));
         started = prepareReplay (en_ID entry) (\<lambda>p. case p of Some e \<Rightarrow> failed_session e | None \<Rightarrow>
           RuntimeCall (AStart (start_request q (en_ID entry) c resume)) (\<lambda>r.
           case runtime_failure r of Some e \<Rightarrow> failed_session e
           | None \<Rightarrow> finish_start (en_ID entry) (backend_of r) c ext));
         restored = State_of (en_ID entry) (\<lambda>s. case s of Inr _ \<Rightarrow> started | Inl _ \<Rightarrow>
           RuntimeCall (ARestore \<lparr>rq_ID = en_ID entry, rq_Backend = en_Backend entry,
               rq_Worktree = ws_Path (en_Worktree entry), rq_BackendSession = en_BackendSession entry,
               rq_Configuration = en_Configuration entry\<rparr>) (\<lambda>r.
           case runtime_failure r of Some e \<Rightarrow> failed_session e | None \<Rightarrow> started))
       in if en_WorkspaceMode entry = WorkspaceManaged
          then Worktree (WReopen (en_Worktree entry)) (\<lambda>w. case w of
            Inl e \<Rightarrow> failed_session (EngineWorktree e) | Inr _ \<Rightarrow> restored)
          else restored)"

definition empty_start :: "string \<Rightarrow> StartRequest" where
  "empty_start ident = \<lparr>sq_ID = ident, sq_Backend = [], sq_WorkspaceMode = [], sq_Source = [], sq_Worktree = [],
     sq_Prompt = [], sq_Attachments = [], sq_Model = [], sq_Reasoning = [], sq_PermissionMode = [],
     sq_ResumeBackendSessionID = [], sq_Ext = []\<rparr>"

definition Engine_Resume :: "string \<Rightarrow> prog" where
  "Engine_Resume ident = resumeStart (empty_start ident)"

text \<open>Start, from the manifest's absence on: the workspace, the runtime's session, the manifest, the backend.\<close>

definition start_backend :: "StartRequest \<Rightarrow> EngineSession \<Rightarrow> prog" where
  "start_backend q entry =
     RuntimeCall (AStart (start_request q (en_ID entry)
         \<lparr>cfg_Model = sq_Model q, cfg_Reasoning = sq_Reasoning q, cfg_PermissionMode = sq_PermissionMode q\<rparr>
         (sq_ResumeBackendSessionID q))) (\<lambda>r.
     case runtime_failure r of
       Some e \<Rightarrow> rollbackStart entry (failed_session e)
     | None \<Rightarrow> finish_start (en_ID entry) (backend_of r) (en_Configuration entry) None)"

definition start_created :: "StartRequest \<Rightarrow> EngineSession \<Rightarrow> prog" where
  "start_created q entry =
     RuntimeCall (ACreate \<lparr>cr_ID = en_ID entry, cr_Backend = sq_Backend q, cr_Worktree = ws_Path (en_Worktree entry)\<rparr>) (\<lambda>r.
     case runtime_failure r of Some e \<Rightarrow> rollbackStart entry (failed_session e)
     | None \<Rightarrow> Save entry (\<lambda>s. case s of Some e \<Rightarrow> rollbackStart entry (failed_session e)
       | None \<Rightarrow>
         if TrimSpace (sq_ResumeBackendSessionID q) \<noteq> [] then prepareReplay (en_ID entry) (\<lambda>p. case p of
           Some e \<Rightarrow> rollbackStart entry (failed_session e) | None \<Rightarrow> start_backend q entry)
         else start_backend q entry))"

definition start_fresh :: "StartRequest \<Rightarrow> string \<Rightarrow> prog" where
  "start_fresh q ident =
     (let mode = (if sq_WorkspaceMode q = [] then WorkspaceManaged else sq_WorkspaceMode q) in
      Now (\<lambda>now.
      let entry = zero_entry\<lparr>en_ID := ident, en_Backend := sq_Backend q, en_WorkspaceMode := mode,
            en_Configuration := engine_configuration q, en_Ext := sq_Ext q, en_CreatedAt := now, en_UpdatedAt := now\<rparr> in
      if mode = WorkspaceManaged
      then Worktree (WCreate \<lparr>wr_ID = ident, wr_Source = sq_Source q, wr_RepositoryKey = []\<rparr>) (\<lambda>w. case w of
        Inl e \<Rightarrow> failed_session (EngineWorktree e) | Inr x \<Rightarrow> start_created q (entry\<lparr>en_Worktree := x\<rparr>))
      else if mode = WorkspaceExisting
      then inspectExistingWorkspace ident (sq_Worktree q) (\<lambda>w. case w of
        Inl e \<Rightarrow> failed_session e | Inr x \<Rightarrow> start_created q (entry\<lparr>en_Worktree := x\<rparr>))
      else failed_session (UnsupportedMode mode)))"

definition start_identified :: "StartRequest \<Rightarrow> string \<Rightarrow> prog" where
  "start_identified q ident =
     (if \<not> validSessionID ident then failed_session (InvalidSessionID ident)
      else StatManifest ident (\<lambda>st. case st of
        Present \<Rightarrow> if TrimSpace (sq_ResumeBackendSessionID q) = [] then failed_session (SessionExists ident)
                   else resumeStart q
      | StatFailed \<Rightarrow> failed_session ManifestNotInspected
      | Missing \<Rightarrow> start_fresh q ident))"

definition Engine_Start :: "StartRequest \<Rightarrow> prog" where
  "Engine_Start q =
     (let ident = TrimSpace (sq_ID q) in
      if TrimSpace (sq_Backend q) = [] then failed_session BackendMissing
      else if ident \<noteq> [] then start_identified q ident
      else Do ORandom (\<lambda>a. case a of
        AnBytes raw \<Rightarrow> (case sessionID raw of Inl e \<Rightarrow> failed_session e | Inr i \<Rightarrow> start_identified q i)
      | _ \<Rightarrow> Done ResNothing))"

section \<open>Repair, close and remove (607--648, 774--792, 835--891)\<close>

definition Engine_Repair :: "string \<Rightarrow> prog" where
  "Engine_Repair sid =
     Load sid (\<lambda>l. case l of Inl e \<Rightarrow> failed_session e | Inr entry \<Rightarrow>
       let store = (\<lambda>w. Update (en_ID entry) (UWorktree w) (\<lambda>u.
             case u of Some e \<Rightarrow> failed_session e | None \<Rightarrow> Load (en_ID entry) (\<lambda>m. Done (ResSession m)))) in
       if en_WorkspaceMode entry = WorkspaceManaged
       then Worktree (WRepair (en_Worktree entry)) (\<lambda>w. case w of
         Inl e \<Rightarrow> failed_session (EngineWorktree e) | Inr x \<Rightarrow> store x)
       else inspectExistingWorkspace (en_ID entry) (ws_Path (en_Worktree entry)) (\<lambda>w. case w of
         Inl e \<Rightarrow> failed_session e | Inr x \<Rightarrow> store (x\<lparr>ws_Source := ws_Source (en_Worktree entry)\<rparr>)))"

definition Engine_Prune :: "string \<Rightarrow> prog" where
  "Engine_Prune source = WorktreeUnit (WPrune source) (\<lambda>r. Done (ResUnit (map_option EngineWorktree r)))"

definition close_session :: "string \<Rightarrow> (engine_error option \<Rightarrow> prog) \<Rightarrow> prog" where
  "close_session sid k =
     Load sid (\<lambda>l. case l of Inl e \<Rightarrow> k (Some e) | Inr entry \<Rightarrow>
       RuntimeCall (AClose (en_ID entry)) (\<lambda>r. case runtime_failure r of Some e \<Rightarrow> k (Some e) | None \<Rightarrow>
         Now (\<lambda>now. Update (en_ID entry) (UClosed now) k)))"

definition CloseSession :: "string \<Rightarrow> prog" where
  "CloseSession sid = close_session sid (\<lambda>r. Done (ResUnit r))"

definition failed_unit :: "engine_error \<Rightarrow> prog" where
  "failed_unit e = Done (ResUnit (Some e))"

definition remove_closed :: "EngineSession \<Rightarrow> bool \<Rightarrow> prog" where
  "remove_closed entry force =
     (let unlink = Unlink (en_ID entry) (\<lambda>st.
            if st = StatFailed then failed_unit ManifestNotRemoved
            else RuntimeCall (AForget (en_ID entry)) (\<lambda>r. Done (ResUnit (runtime_failure r)))) in
      if en_WorkspaceMode entry = WorkspaceManaged
      then WorktreeUnit (WRemove (en_Worktree entry) force) (\<lambda>w. case w of
        Some e \<Rightarrow> failed_unit (EngineWorktree e) | None \<Rightarrow> unlink)
      else unlink)"

definition remove_open :: "EngineSession \<Rightarrow> bool \<Rightarrow> prog" where
  "remove_open entry force =
     close_session (en_ID entry) (\<lambda>c. case c of Some e \<Rightarrow> failed_unit e | None \<Rightarrow>
       Load (en_ID entry) (\<lambda>l. case l of Inl e \<Rightarrow> failed_unit e | Inr entry' \<Rightarrow> remove_closed entry' force))"

definition Engine_Remove :: "string \<Rightarrow> bool \<Rightarrow> prog" where
  "Engine_Remove sid force =
     Load sid (\<lambda>l. case l of Inl e \<Rightarrow> failed_unit e | Inr entry \<Rightarrow>
       if en_ClosedAt entry \<noteq> None then remove_closed entry force
       else State_of (en_ID entry) (\<lambda>s. case s of Inr _ \<Rightarrow> remove_open entry force | Inl _ \<Rightarrow>
         RuntimeCall (ARestore \<lparr>rq_ID = en_ID entry, rq_Backend = en_Backend entry,
             rq_Worktree = ws_Path (en_Worktree entry), rq_BackendSession = en_BackendSession entry,
             rq_Configuration = en_Configuration entry\<rparr>) (\<lambda>r.
         case runtime_failure r of Some e \<Rightarrow> failed_unit e | None \<Rightarrow> remove_open entry force)))"

definition Restart :: "string \<Rightarrow> prog" where
  "Restart sid =
     Load sid (\<lambda>l. case l of Inl e \<Rightarrow> Done (ResBackend (Inl e)) | Inr entry \<Rightarrow>
       RuntimeCall (ARestart sid) (\<lambda>r. case runtime_failure r of Some e \<Rightarrow> Done (ResBackend (Inl e)) | None \<Rightarrow>
         Update (en_ID entry) (UBackend (backend_of r)) (\<lambda>u. case u of
           Some e \<Rightarrow> Done (ResBackend (Inl e)) | None \<Rightarrow> Done (ResBackend (Inr (backend_of r))))))"

section \<open>Configuration and snapshots (673--737, 943--958)\<close>

definition Engine_SetConfiguration :: "string \<Rightarrow> SessionConfiguration \<Rightarrow> prog" where
  "Engine_SetConfiguration sid c0 =
     (let c = normalizeConfiguration c0 in
      RuntimeCall (ASetConfiguration sid c) (\<lambda>r. case runtime_failure r of Some e \<Rightarrow> failed_unit e | None \<Rightarrow>
        Update sid (UConfiguration c) (\<lambda>u. Done (ResUnit u))))"

definition snapshot_of :: "EngineSession \<Rightarrow> RuntimeState option \<Rightarrow> nat \<Rightarrow> Snapshot" where
  "snapshot_of entry st sequence =
     (let base = (case st of
        Some s \<Rightarrow> (s_Status (sta_Session s),
           if en_UpdatedAt entry < s_UpdatedAt (sta_Session s) then s_UpdatedAt (sta_Session s) else en_UpdatedAt entry,
           if s_BackendSession (sta_Session s) \<noteq> no_backend_session then s_BackendSession (sta_Session s)
           else en_BackendSession entry, sta_Configuration s)
      | None \<Rightarrow> (StatusActive, en_UpdatedAt entry, en_BackendSession entry, en_Configuration entry));
          (status, updated, b, c) = base in
      \<lparr>sn_SessionID = en_ID entry,
       sn_Lifecycle = \<lparr>ls_Status = (if en_ClosedAt entry \<noteq> None then StatusClosed else status),
         ls_CreatedAt = en_CreatedAt entry, ls_UpdatedAt = updated, ls_ClosedAt = en_ClosedAt entry\<rparr>,
       sn_Mode = en_WorkspaceMode entry, sn_Workspace = en_Worktree entry, sn_Backend = en_Backend entry,
       sn_BackendSession = b,
       sn_Active = (case st of Some s \<Rightarrow> sta_TurnActive s | None \<Rightarrow> False),
       sn_ActiveTurnID = (case st of Some s \<Rightarrow> sta_ActiveTurnID s | None \<Rightarrow> []),
       sn_Depth = (case st of Some s \<Rightarrow> sta_QueueDepth s | None \<Rightarrow> 0),
       sn_Entries = (case st of Some s \<Rightarrow> sta_QueueEntries s | None \<Rightarrow> []),
       sn_DispatchBlocked = (case st of Some s \<Rightarrow> sta_DispatchBlocked s | None \<Rightarrow> False),
       sn_PendingInteraction = (case st of Some s \<Rightarrow> sta_PendingInteraction s | None \<Rightarrow> None),
       sn_Configuration = c, sn_LastJournalSequence = sequence, sn_Ext = en_Ext entry\<rparr>)"

definition snapshot :: "string \<Rightarrow> (engine_error + Snapshot \<Rightarrow> prog) \<Rightarrow> prog" where
  "snapshot sid k =
     Load (TrimSpace sid) (\<lambda>l. case l of Inl e \<Rightarrow> k (Inl e) | Inr entry \<Rightarrow>
       State_of (en_ID entry) (\<lambda>s.
       let read = (\<lambda>st. Do (OJournal (JLast (en_ID entry))) (\<lambda>a. case a of
             AnSequence (Inr n) \<Rightarrow> k (Inr (snapshot_of entry st n))
           | AnSequence (Inl e) \<Rightarrow> if e = NotExist then k (Inr (snapshot_of entry st 0)) else k (Inl (EngineJournal e))
           | _ \<Rightarrow> Done ResNothing)) in
       case s of
         Inr st \<Rightarrow> read (Some st)
       | Inl e \<Rightarrow> (case e of SessionNotFoundError _ \<Rightarrow> read None | _ \<Rightarrow> k (Inl (EngineRuntime e)))))"

definition Engine_Snapshot :: "string \<Rightarrow> prog" where
  "Engine_Snapshot sid = snapshot sid (\<lambda>r. Done (ResSnapshot r))"

text \<open>The pending request, copied by writing and reading its JSON.\<close>

definition clone_interaction :: "InteractionRequest \<Rightarrow> InteractionRequest option" where
  "clone_interaction q = Option.bind (unmarshal (marshal (enc_interaction q))) dec_interaction"

definition PendingInteraction :: "string \<Rightarrow> prog" where
  "PendingInteraction sid =
     snapshot sid (\<lambda>r. Done (ResInteraction (case r of
       Inl e \<Rightarrow> Inl e
     | Inr s \<Rightarrow>
         (case sn_PendingInteraction s of
            None \<Rightarrow> Inr None
          | Some q \<Rightarrow> (case clone_interaction q of None \<Rightarrow> Inl ManifestNotEncoded | Some c \<Rightarrow> Inr (Some c))))))"

section \<open>Listings, history and extension events (893--941, 960--974)\<close>

fun load_all :: "string list \<Rightarrow> EngineSession list \<Rightarrow> (EngineSession list \<Rightarrow> prog) \<Rightarrow> prog" where
  "load_all [] out k = k (rev out)"
| "load_all (i # is) out k =
     Load i (\<lambda>l. case l of Inl _ \<Rightarrow> load_all is out k | Inr e \<Rightarrow> load_all is (e # out) k)"

definition manifest_ids :: "(string \<times> bool) list \<Rightarrow> string list" where
  "manifest_ids entries =
     map (\<lambda>(n, _). TrimSuffix n ''.json'') (filter (\<lambda>(n, dir). \<not> dir \<and> suffix ''.json'' n) entries)"

definition Engine_Sessions :: prog where
  "Engine_Sessions =
     Do OList (\<lambda>a. case a of
       AnNames None \<Rightarrow> Done (ResSessions (Inl ManifestsNotListed))
     | AnNames (Some entries) \<Rightarrow>
         load_all (manifest_ids entries) [] (\<lambda>out. Done (ResSessions (Inr (sort_key en_CreatedAt out))))
     | _ \<Rightarrow> Done ResNothing)"

definition History :: "string \<Rightarrow> nat \<Rightarrow> nat \<Rightarrow> prog" where
  "History sid after through = Records (JRead sid after through) (\<lambda>r. Done (ResRecords r))"

definition HistoryAfter :: "string \<Rightarrow> nat \<Rightarrow> prog" where
  "HistoryAfter sid sequence = Records (JReadAfter sid sequence) (\<lambda>r. Done (ResRecords r))"

definition HistoryTail :: "string \<Rightarrow> int \<Rightarrow> prog" where
  "HistoryTail sid limit = Records (JTail sid limit) (\<lambda>r. Done (ResRecords r))"

definition Engine_Append :: "string \<Rightarrow> string \<Rightarrow> json \<Rightarrow> Presentation option \<Rightarrow> prog" where
  "Engine_Append sid name data pres =
     (if TrimSpace sid = [] \<or> CHR ''.'' \<notin> set (TrimSpace name) then Done (ResRecord (Inl NameNotQualified))
      else Do (OJournal (JAppend (zero_record\<lparr>r_SessionID := sid, r_Event := name, r_Data := marshal data,
                r_Presentation := pres\<rparr>))) (\<lambda>a. case a of
        AnRecord r \<Rightarrow> Done (ResRecord (map_sum EngineJournal id r)) | _ \<Rightarrow> Done ResNothing))"

section \<open>Calls that are passed on (650--671, 739--772, 794--833)\<close>

definition forward :: "call \<Rightarrow> prog" where
  "forward c = RuntimeCall c (\<lambda>r. Done (ResRuntime r))"

definition Engine_Send :: "SendTurnRequest \<Rightarrow> bool \<Rightarrow> prog" where
  "Engine_Send q nxt = forward (ASend q nxt)"

definition Engine_QueueEntries :: "string \<Rightarrow> prog" where
  "Engine_QueueEntries sid = Do (OQueue sid) (\<lambda>a. case a of AnQueue r \<Rightarrow> Done (ResEntries r) | _ \<Rightarrow> Done ResNothing)"

definition Engine_RemoveQueuedTurn :: "string \<Rightarrow> string \<Rightarrow> prog" where
  "Engine_RemoveQueuedTurn sid i = forward (ARemoveQueuedTurn sid i)"

definition Engine_ReplaceQueuedTurn :: "string \<Rightarrow> string \<Rightarrow> SendTurnRequest \<Rightarrow> prog" where
  "Engine_ReplaceQueuedTurn sid i q = forward (AReplaceQueuedTurn sid i q)"

definition Engine_BlockDispatch :: "string \<Rightarrow> bool \<Rightarrow> prog" where
  "Engine_BlockDispatch sid block = forward (if block then ABlockDispatch sid else AUnblockDispatch sid)"

definition Engine_Interrupt :: "string \<Rightarrow> bool \<Rightarrow> prog" where
  "Engine_Interrupt sid active = forward (if active then AInterruptActive sid else AInterrupt sid)"

definition Engine_ReconcileTurn :: "string \<Rightarrow> Event \<Rightarrow> prog" where
  "Engine_ReconcileTurn sid e = forward (AReconcileTurn sid e)"

definition Engine_RespondInteraction :: "string \<Rightarrow> InteractionResponse \<Rightarrow> prog" where
  "Engine_RespondInteraction sid r = forward (ARespondInteraction sid r)"

definition Engine_ForkPrompt :: "ForkPromptRequest \<Rightarrow> prog" where
  "Engine_ForkPrompt q = forward (AForkPrompt q)"

section \<open>Callbacks and the end (984--1019, 1105--1112)\<close>

definition configuration_event :: "EventType \<Rightarrow> bool" where
  "configuration_event ty \<longleftrightarrow> ty = EventModels \<or> ty = EventReasoningLevels \<or> ty = EventPermissionModes"

definition publish :: "Event \<Rightarrow> prog" where
  "publish e =
     (let notify = AskOk (ONotify e) (\<lambda>_. Done ResNothing) in
      if configuration_event (ev_Type e) then persistRuntimeConfiguration (ev_SessionID e) notify else notify)"

definition recordTurnSubmission :: "TurnSubmission \<Rightarrow> prog" where
  "recordTurnSubmission s = Update (dt_SessionID (sb_Dispatch s)) (USubmitted (sb_Session s)) (\<lambda>_. Done ResNothing)"

definition joined :: "engine_error option list \<Rightarrow> engine_error option" where
  "joined es = (case List.map_filter id es of [] \<Rightarrow> None | errs \<Rightarrow> Some (EngineJoined errs))"

definition Engine_Close :: "bool \<Rightarrow> prog" where
  "Engine_Close owned =
     RuntimeCall AShutdown (\<lambda>r.
     let logs = (\<lambda>j. Do OCloseLogs (\<lambda>b. case b of
           AnDone l \<Rightarrow> Done (ResUnit (joined [runtime_failure r, j, l])) | _ \<Rightarrow> Done ResNothing)) in
     if owned then Do (OJournal JClose) (\<lambda>a. case a of
       AnJournal e \<Rightarrow> logs (map_option EngineJournal e) | _ \<Rightarrow> Done ResNothing)
     else logs None)"

section \<open>Open (54--123, 243--361, 1227--1282)\<close>

text \<open>
  The options that the start itself reads: a caller's store, a journal directory, the branch
  prefix, and the catalog directory of a runtime configuration. Options that are only passed on
  (adapters, listeners, journal options) are not part of the program.
\<close>

record openOptions =
  oo_Store :: bool
  oo_Directory :: string
  oo_branchPrefix :: string
  oo_CatalogCacheDir :: string

definition WithBranchPrefix :: "string \<Rightarrow> openOptions \<Rightarrow> openOptions" where
  "WithBranchPrefix p o' = o'\<lparr>oo_branchPrefix := TrimSpace p\<rparr>"

definition failed_open :: "engine_error \<Rightarrow> prog" where
  "failed_open e = Done (ResOpen (Inl e))"

definition home_children :: "openOptions \<Rightarrow> string list" where
  "home_children o' =
     [''sessions'', ''logs/providers'', ''logs/sessions'', ''worktrees'', ''cache'']
     @ (if \<not> oo_Store o' \<and> TrimSpace (oo_Directory o') = [] then [''journals''] else [])"

fun secure_children :: "string \<Rightarrow> string list \<Rightarrow> prog \<Rightarrow> prog" where
  "secure_children home [] k = k"
| "secure_children home (c # cs) k =
     AskOk (OSecureDir (JoinPath [home, c])) (\<lambda>ok. if ok then secure_children home cs k else failed_open (NotPrepared c))"

definition provider_names :: "string list" where
  "provider_names = [''claude'', ''codex'', ''cursor'', ''antigravity'']"

definition log_path :: "string \<Rightarrow> string \<Rightarrow> string" where
  "log_path home b = JoinPath [home, ''logs'', ''providers'', b @ ''.log'']"

fun open_logs :: "string \<Rightarrow> string list \<Rightarrow> (engine_error option \<Rightarrow> prog) \<Rightarrow> prog" where
  "open_logs home [] k = k None"
| "open_logs home (b # bs) k =
     AskOk (OOpenLog (log_path home b)) (\<lambda>ok. if ok then open_logs home bs k
       else Do OCloseLogs (\<lambda>_. k (Some (LogFailed (log_path home b)))))"

definition close_journal :: "bool \<Rightarrow> prog \<Rightarrow> prog" where
  "close_journal owned k = (if owned then Do (OJournal JClose) (\<lambda>_. k) else k)"

definition open_rest :: "string \<Rightarrow> openOptions \<Rightarrow> Settings \<Rightarrow> prog" where
  "open_rest home o' s =
     (let owned = (\<not> oo_Store o');
          manager = Do (OWorktree (WNew \<lparr>wc_Root = JoinPath [home, ''worktrees''], wc_BranchPrefix = se_BranchPrefix s,
              wc_GitCommand = []\<rparr>)) (\<lambda>a. case a of
            AnManager (Inl e) \<Rightarrow> close_journal owned (failed_open (EngineWorktree e))
          | AnManager (Inr m) \<Rightarrow> open_logs home provider_names (\<lambda>l. case l of
              Some e \<Rightarrow> close_journal owned (failed_open e)
            | None \<Rightarrow> Done (ResOpen (Inr \<lparr>eg_home = home, eg_settings = s, eg_worktrees = m,
                eg_catalogDir = (if TrimSpace (oo_CatalogCacheDir o') = [] then catalogDir home s else oo_CatalogCacheDir o'),
                eg_journalOwned = owned\<rparr>)))
          | _ \<Rightarrow> Done ResNothing);
          directory = (if TrimSpace (oo_Directory o') = [] then JoinPath [home, ''journals''] else TrimSpace (oo_Directory o')) in
      if \<not> owned then manager
      else Do (OJournal (JNew (Clean directory))) (\<lambda>a. case a of
        AnJournal None \<Rightarrow> manager | AnJournal (Some e) \<Rightarrow> failed_open (EngineJournal e) | _ \<Rightarrow> Done ResNothing))"

definition open_settings :: "string \<Rightarrow> openOptions \<Rightarrow> prog" where
  "open_settings home o' =
     Do (OReadFile (config_path home)) (\<lambda>a. case a of
       AnRead r \<Rightarrow> (case loadSettings r of Inl e \<Rightarrow> failed_open e | Inr s0 \<Rightarrow>
         let s1 = (if oo_branchPrefix o' \<noteq> [] then s0\<lparr>se_BranchPrefix := oo_branchPrefix o'\<rparr> else s0) in
         case normalizeSettings s1 of Inl e \<Rightarrow> failed_open e | Inr s \<Rightarrow>
           AskOk (OWriteFile (config_path home) (settings_text s)) (\<lambda>ok.
             if ok then open_rest home o' s else failed_open (FileNotWritten (config_path home))))
     | _ \<Rightarrow> Done ResNothing)"

definition Open_engine :: "string \<Rightarrow> openOptions \<Rightarrow> prog" where
  "Open_engine home0 o' =
     (let home1 = TrimSpace home0; home = Clean home1; directory = TrimSpace (oo_Directory o') in
      if home1 = [] then failed_open HomeRequired
      else if \<not> IsAbs home1 then failed_open HomeNotAbsolute
      else if oo_Store o' \<and> directory \<noteq> [] then failed_open JournalConflict
      else if directory \<noteq> [] \<and> \<not> IsAbs directory then failed_open JournalNotAbsolute
      else AskOk (OSecureDir home) (\<lambda>ok. if \<not> ok then failed_open (NotPrepared home)
        else secure_children home (home_children o') (open_settings home o')))"

end
