(* ===== verification/Engine_Machine.thy ===== *)
theory Engine_Machine
  imports Engine_Programs Runtime_Machine
begin

text \<open>
  The engine at work: its programs run as goroutines against the models of the other components,
  the runtime machine, the worktree manager, the journal store and the files of the manifests. Any
  goroutine may take the next step, a call to the runtime waits while the runtime works, and the
  system may fail any read or write.
\<close>

section \<open>The calls of a host (441--1004)\<close>

datatype engine_call =
  CStart StartRequest | CResume string | CRepair string | CPrune string
| CSend SendTurnRequest bool | CSetConfiguration string SessionConfiguration
| CSnapshot string | CQueueEntries string | CRemoveQueuedTurn string string
| CReplaceQueuedTurn string string SendTurnRequest | CBlockDispatch string bool | CRestart string
| CInterrupt string bool | CReconcileTurn string Event | CRespondInteraction string InteractionResponse
| CForkPrompt ForkPromptRequest | CCloseSession string | CRemove string bool | CSessions
| CHistory string nat nat | CHistoryAfter string nat | CHistoryTail string int | CPendingInteraction string
| CAppend string string json "Presentation option" | CClose bool

fun program_of :: "engine_call \<Rightarrow> prog" where
  "program_of (CStart q) = Engine_Start q"
| "program_of (CResume sid) = Engine_Resume sid"
| "program_of (CRepair sid) = Engine_Repair sid"
| "program_of (CPrune source) = Engine_Prune source"
| "program_of (CSend q nxt) = Engine_Send q nxt"
| "program_of (CSetConfiguration sid c) = Engine_SetConfiguration sid c"
| "program_of (CSnapshot sid) = Engine_Snapshot sid"
| "program_of (CQueueEntries sid) = Engine_QueueEntries sid"
| "program_of (CRemoveQueuedTurn sid i) = Engine_RemoveQueuedTurn sid i"
| "program_of (CReplaceQueuedTurn sid i q) = Engine_ReplaceQueuedTurn sid i q"
| "program_of (CBlockDispatch sid b) = Engine_BlockDispatch sid b"
| "program_of (CRestart sid) = Restart sid"
| "program_of (CInterrupt sid b) = Engine_Interrupt sid b"
| "program_of (CReconcileTurn sid e) = Engine_ReconcileTurn sid e"
| "program_of (CRespondInteraction sid r) = Engine_RespondInteraction sid r"
| "program_of (CForkPrompt q) = Engine_ForkPrompt q"
| "program_of (CCloseSession sid) = CloseSession sid"
| "program_of (CRemove sid force) = Engine_Remove sid force"
| "program_of CSessions = Engine_Sessions"
| "program_of (CHistory sid a t) = History sid a t"
| "program_of (CHistoryAfter sid n) = HistoryAfter sid n"
| "program_of (CHistoryTail sid n) = HistoryTail sid n"
| "program_of (CPendingInteraction sid) = PendingInteraction sid"
| "program_of (CAppend sid name d p) = Engine_Append sid name d p"
| "program_of (CClose owned) = Engine_Close owned"

section \<open>One operation\<close>

text \<open>Besides the goroutines: the runtime, the worktree manager's world, the manifest files, what listeners got.\<close>

record 'w engine_world =
  ew_mc :: machine
  ew_wt :: "'w wt_state"
  ew_files :: "bytes gomap"
  ew_notified :: "Event list"

definition manifest_file :: "Engine \<Rightarrow> bytes gomap \<Rightarrow> string \<Rightarrow> read_result" where
  "manifest_file eg files ident =
     (case map_of files (sessionPath (eg_home eg) ident) of None \<Rightarrow> NoFile | Some raw \<Rightarrow> Contents raw)"

definition saveSession :: "Engine \<Rightarrow> time \<Rightarrow> bool \<Rightarrow> EngineSession \<Rightarrow> bytes gomap \<Rightarrow> engine_error option \<times> bytes gomap" where
  "saveSession eg now ok e files =
     (case manifest_text now e of
        None \<Rightarrow> (Some ManifestNotEncoded, files)
      | Some raw \<Rightarrow>
          if ok then (None, map_put (sessionPath (eg_home eg) (en_ID e)) raw files)
          else (Some (FileNotWritten (sessionPath (eg_home eg) (en_ID e))), files))"

definition updateSession ::
  "Engine \<Rightarrow> runtime_error + RuntimeState \<Rightarrow> time \<Rightarrow> bool \<Rightarrow> bool \<Rightarrow> string \<Rightarrow> manifest_update \<Rightarrow> bytes gomap
     \<Rightarrow> engine_error option \<times> bytes gomap" where
  "updateSession eg st now readable writable ident u files =
     (case loadSession ident (if readable then manifest_file eg files ident else ReadFails) of
        Inl e \<Rightarrow> (Some e, files)
      | Inr entry \<Rightarrow> saveSession eg now writable (apply_update st u entry) files)"

definition unlink_manifest :: "Engine \<Rightarrow> bool \<Rightarrow> string \<Rightarrow> bytes gomap \<Rightarrow> stat_result \<times> bytes gomap" where
  "unlink_manifest eg ok ident files =
     (if \<not> ok then (StatFailed, files)
      else if map_of files (sessionPath (eg_home eg) ident) = None then (Missing, files)
      else (Present, map_del (sessionPath (eg_home eg) ident) files))"

definition list_manifests :: "Engine \<Rightarrow> bytes gomap \<Rightarrow> (string \<times> bool) list" where
  "list_manifests eg files =
     map (\<lambda>(p, _). (BasePath p, False)) (filter (\<lambda>(p, _). DirPath p = JoinPath [eg_home eg, ''sessions'']) files)"

definition unit_answer :: "(worktree_error + unit) \<times> 'w wt_state \<Rightarrow> engine_answer \<times> 'w wt_state" where
  "unit_answer r = (AnUnit (case fst r of Inl e \<Rightarrow> Some e | Inr _ \<Rightarrow> None), snd r)"

fun run_worktree :: "'w system \<Rightarrow> Manager \<Rightarrow> worktree_op \<Rightarrow> 'w wt_state \<Rightarrow> engine_answer \<times> 'w wt_state" where
  "run_worktree sy m (WCreate q) w = apfst AnWorktree (CreateWorktree sy m q w)"
| "run_worktree sy m (WInspect p) w = apfst AnWorktree (Inspect sy m p w)"
| "run_worktree sy m (WReopen x) w = apfst AnWorktree (Reopen sy m x w)"
| "run_worktree sy m (WRepair x) w = apfst AnWorktree (Repair sy m x w)"
| "run_worktree sy m (WRemove x force) w = unit_answer (RemoveWorktree sy m x force w)"
| "run_worktree sy m (WPrune s) w = unit_answer (Prune sy m s w)"
| "run_worktree sy m (WNew cf) w = apfst AnManager (NewManager sy cf w)"

text \<open>The journal operations on the store that the runtime shares.\<close>

fun run_journal :: "io \<Rightarrow> time \<Rightarrow> string \<Rightarrow> journal_op \<Rightarrow> Store \<Rightarrow> engine_answer \<times> Store" where
  "run_journal x now i (JRead sid after through) st = (AnRecords (Read (io_sync x) sid after through st), st)"
| "run_journal x now i (JReadAfter sid n) st = (AnRecords (ReadAfter (io_sync x) sid n st), st)"
| "run_journal x now i (JTail sid n) st = (AnRecords (Tail (io_sync x) sid n st), st)"
| "run_journal x now i (JLast sid) st = (AnSequence (LastSequence (io_sync x) sid st), st)"
| "run_journal x now i (JAppend r) st = (case Append x now i r st of (res, st', _) \<Rightarrow> (AnRecord res, st'))"
| "run_journal x now i JClose st = (AnJournal None, Close_store st)"
| "run_journal x now i (JNew d) st = (AnJournal None, st)"

inductive op_step :: "'w system \<Rightarrow> Engine \<Rightarrow> engine_op \<Rightarrow> 'w engine_world \<Rightarrow> engine_answer \<Rightarrow> 'w engine_world \<Rightarrow> bool"
  for sy eg where
  state_op: "op_step sy eg (OState i) w (AnState (state (mc_rt (ew_mc w)) i)) w"
| queue_op: "op_step sy eg (OQueue i) w (AnQueue (queueEntries (mc_rt (ew_mc w)) i)) w"
| stat_op: "st = (if map_of (ew_files w) (sessionPath (eg_home eg) i) = None then Missing else Present) \<or> st = StatFailed \<Longrightarrow>
    op_step sy eg (OStatManifest i) w (AnStat st) w"
| load_op: "op_step sy eg (OLoad i) w
    (AnEntry (loadSession i (if readable then manifest_file eg (ew_files w) i else ReadFails))) w"
| save_op: "saveSession eg now writable e (ew_files w) = (r, files) \<Longrightarrow>
    op_step sy eg (OSave e) w (AnDone r) (w\<lparr>ew_files := files\<rparr>)"
| update_op: "updateSession eg (state (mc_rt (ew_mc w)) i) now readable writable i u (ew_files w) = (r, files) \<Longrightarrow>
    op_step sy eg (OUpdate i u) w (AnDone r) (w\<lparr>ew_files := files\<rparr>)"
| unlink_op: "unlink_manifest eg ok i (ew_files w) = (r, files) \<Longrightarrow>
    op_step sy eg (OUnlink i) w (AnStat r) (w\<lparr>ew_files := files\<rparr>)"
| list_op: "r = Some (list_manifests eg (ew_files w)) \<or> r = None \<Longrightarrow> op_step sy eg OList w (AnNames r) w"
| worktree_op: "run_worktree sy (eg_worktrees eg) t (ew_wt w) = (a, wt) \<Longrightarrow> \<forall>cf. t \<noteq> WNew cf \<Longrightarrow>
    op_step sy eg (OWorktree t) w a (w\<lparr>ew_wt := wt\<rparr>)"
| journal_op: "rt_journal (mc_rt (ew_mc w)) = Some st \<Longrightarrow> run_journal x now i j st = (a, st') \<Longrightarrow>
    op_step sy eg (OJournal j) w a
      (w\<lparr>ew_mc := (ew_mc w)\<lparr>mc_rt := (mc_rt (ew_mc w))\<lparr>rt_journal := Some st'\<rparr>\<rparr>\<rparr>)"
| dir_op: "op_step sy eg (OStatDir p) w (AnDir d) w"
| resolve_op: "op_step sy eg (OResolve p) w (AnPath q) w"
| now_op: "op_step sy eg ONow w (AnTime t) w"
| random_op: "op_step sy eg ORandom w (AnBytes b) w"
| notify_op: "op_step sy eg (ONotify e) w (AnOk ok) (w\<lparr>ew_notified := ew_notified w @ [e]\<rparr>)"
| logs_op: "op_step sy eg OCloseLogs w (AnDone r) w"

section \<open>The machine\<close>

datatype ethread = Run prog | Await nat "engine_answer \<Rightarrow> prog"

record 'w engine_machine =
  em_world :: "'w engine_world"
  em_threads :: "ethread list"

text \<open>The runtime's goroutine that runs a call is about to return to the engine.\<close>

definition returning :: "machine \<Rightarrow> nat \<Rightarrow> bool" where
  "returning mc n \<longleftrightarrow> n < length (mc_threads mc) \<and> (\<exists>r acts. mc_threads mc ! n = Return r # acts)"

inductive engine_step ::
  "env \<Rightarrow> 'w system \<Rightarrow> Engine \<Rightarrow> 'w engine_machine \<Rightarrow> 'w engine_machine \<Rightarrow> bool" for en sy eg where
  host: "engine_step en sy eg s (s\<lparr>em_threads := em_threads s @ [Run (program_of c)]\<rparr>)"
| published: "e \<in> set (rt_emitted (mc_rt (ew_mc (em_world s)))) \<Longrightarrow>
    engine_step en sy eg s (s\<lparr>em_threads := em_threads s @ [Run (publish e)]\<rparr>)"
| submitted: "b \<in> set (rt_submitted (mc_rt (ew_mc (em_world s)))) \<Longrightarrow>
    engine_step en sy eg s (s\<lparr>em_threads := em_threads s @ [Run (recordTurnSubmission b)]\<rparr>)"
| runtime: "step en (ew_mc (em_world s)) mc \<Longrightarrow>
    \<forall>n k. Await n k \<in> set (em_threads s) \<and> returning (ew_mc (em_world s)) n \<longrightarrow>
      mc_threads mc ! n = mc_threads (ew_mc (em_world s)) ! n \<Longrightarrow>
    engine_step en sy eg s (s\<lparr>em_world := (em_world s)\<lparr>ew_mc := mc\<rparr>\<rparr>)"
| call_runtime: "i < length (em_threads s) \<Longrightarrow> em_threads s ! i = Run (Do (ORuntime c) k) \<Longrightarrow>
    mc = ew_mc (em_world s) \<Longrightarrow>
    engine_step en sy eg s
      \<lparr>em_world = (em_world s)\<lparr>ew_mc := mc\<lparr>mc_threads := mc_threads mc @ [[Call c]]\<rparr>\<rparr>,
       em_threads = (em_threads s)[i := Await (length (mc_threads mc)) k]\<rparr>"
| runtime_returns: "i < length (em_threads s) \<Longrightarrow> em_threads s ! i = Await n k \<Longrightarrow> mc = ew_mc (em_world s) \<Longrightarrow>
    n < length (mc_threads mc) \<Longrightarrow> mc_threads mc ! n = Return r # acts \<Longrightarrow>
    exec en (Return r) (mc_rt mc) = (rt', new, spawned) \<Longrightarrow>
    engine_step en sy eg s
      \<lparr>em_world = (em_world s)\<lparr>ew_mc := \<lparr>mc_rt = rt', mc_threads = (mc_threads mc)[n := new @ acts] @ spawned\<rparr>\<rparr>,
       em_threads = (em_threads s)[i := Run (k (ARuntime r))]\<rparr>"
| operation: "i < length (em_threads s) \<Longrightarrow> em_threads s ! i = Run (Do op k) \<Longrightarrow>
    op_step sy eg op (em_world s) a w' \<Longrightarrow>
    engine_step en sy eg s \<lparr>em_world = w', em_threads = (em_threads s)[i := Run (k a)]\<rparr>"

text \<open>An engine starts with a new runtime on its journal, no goroutines, and the manifests it finds.\<close>

definition engine_start :: "Config \<Rightarrow> adapter option list \<Rightarrow> 'w \<Rightarrow> bytes gomap \<Rightarrow> 'w engine_machine" where
  "engine_start c as w files =
     \<lparr>em_world = \<lparr>ew_mc = \<lparr>mc_rt = New_runtime c as, mc_threads = []\<rparr>, ew_wt = (w, []), ew_files = files,
        ew_notified = []\<rparr>, em_threads = []\<rparr>"

definition engine_reachable ::
  "env \<Rightarrow> 'w system \<Rightarrow> Engine \<Rightarrow> Config \<Rightarrow> adapter option list \<Rightarrow> 'w \<Rightarrow> bytes gomap \<Rightarrow> 'w engine_machine \<Rightarrow> bool" where
  "engine_reachable en sy eg c as w files s \<longleftrightarrow> (engine_step en sy eg)\<^sup>*\<^sup>* (engine_start c as w files) s"

end
