(* ===== verification/Engine_Properties.thy ===== *)
theory Engine_Properties
  imports Engine_Machine Runtime_Properties
begin

text \<open>
  What the engine guarantees: its composition with the runtime and the worktree manager,
  whose worktrees are touched, what a failed start leaves, and what a start that loses a race does.
\<close>

section \<open>The parts at work together\<close>

lemma runs_new_calls:
  "runs P Q f \<Longrightarrow> \<exists>new. snd (snd (f s)) = snd s @ new \<and> list_all P new"
  unfolding runs_def by blast

lemma run_worktree_owned:
  assumes "manager_ok m" and "\<forall>cf. t \<noteq> WNew cf"
  shows "\<exists>new. snd (snd (run_worktree sy m t s)) = snd s @ new \<and> list_all (owned_call m) new"
proof (cases t)
  case (WCreate q)
  then show ?thesis using runs_new_calls [OF runs_Create [OF assms(1)]] by simp
next
  case (WInspect p)
  then show ?thesis using runs_new_calls [OF runs_Inspect] by simp
next
  case (WReopen x)
  then show ?thesis using runs_new_calls [OF runs_Reopen] by simp
next
  case (WRepair x)
  then show ?thesis using runs_new_calls [OF runs_Repair] by simp
next
  case (WRemove x force)
  then show ?thesis using runs_new_calls [OF runs_Remove] by (simp add: unit_answer_def)
next
  case (WPrune x)
  then show ?thesis using runs_new_calls [OF runs_Prune] by (simp add: unit_answer_def)
qed (use assms(2) in simp)

lemma op_step_parts:
  assumes "op_step sy eg op w a w'" and m: "manager_ok (eg_worktrees eg)"
  shows "(ew_mc w' = ew_mc w \<or> step en (ew_mc w) (ew_mc w'))
    \<and> (\<exists>new. snd (ew_wt w') = snd (ew_wt w) @ new \<and> list_all (owned_call (eg_worktrees eg)) new)"
  using assms(1)
proof cases
  case (worktree_op t wt)
  then show ?thesis using run_worktree_owned [OF m, of t sy "ew_wt w"] by simp
next
  case (journal_op st x now i j st')
  then show ?thesis using shared_store [of "ew_mc w" st en st'] by auto
qed auto

lemma step_adds_call: "step en mc (mc\<lparr>mc_threads := mc_threads mc @ [[Call c]]\<rparr>)"
  by (rule host_call)

lemma engine_step_parts:
  assumes "engine_step en sy eg s s'" and m: "manager_ok (eg_worktrees eg)"
  shows "(ew_mc (em_world s') = ew_mc (em_world s) \<or> step en (ew_mc (em_world s)) (ew_mc (em_world s')))
    \<and> (\<exists>new. snd (ew_wt (em_world s')) = snd (ew_wt (em_world s)) @ new \<and> list_all (owned_call (eg_worktrees eg)) new)"
  using assms(1)
proof cases
  case (call_runtime i c k mc)
  then show ?thesis using step_adds_call [of en mc c] by simp
next
  case (runtime_returns i n k mc r acts rt' new spawned)
  then show ?thesis using run [of n mc "Return r" acts en rt' new spawned] by simp
next
  case (operation i op k a w')
  then show ?thesis using op_step_parts [OF _ m] by simp
qed auto


definition demo_engine :: Engine where
  "demo_engine = \<lparr>eg_home = ''/h'', eg_settings = DefaultSettings, eg_worktrees = demo_manager,
     eg_catalogDir = ''/h/catalog'', eg_journalOwned = True\<rparr>"

text \<open>An engine whose host has called \<open>Prune\<close>, after the two git commands of that method.\<close>

definition pruned_engine :: "unit engine_machine" where
  "pruned_engine =
     \<lparr>em_world = (em_world (engine_start demo_config [Some demo_adapter] () []))
          \<lparr>ew_wt := snd (Prune demo_system demo_manager ''/src/app'' ((), []))\<rparr>,
      em_threads = [Run (Done (ResUnit None))]\<rparr>"

lemma demo_prune: "run_worktree demo_system demo_manager (WPrune ''/src/app'') ((), []) =
   (AnUnit None, snd (Prune demo_system demo_manager ''/src/app'' ((), [])))"
proof -
  have "fst (Prune demo_system demo_manager ''/src/app'' ((), [])) = Inr ()" by code_simp
  then show ?thesis by (simp add: unit_answer_def)
qed

lemma pruned_reachable:
  "engine_reachable demo_env demo_system demo_engine demo_config [Some demo_adapter] () [] pruned_engine"
proof -
  let ?s0 = "engine_start demo_config [Some demo_adapter] () []"
  let ?s1 = "?s0\<lparr>em_threads := [Run (Engine_Prune ''/src/app'')]\<rparr>"
  let ?wt = "snd (Prune demo_system demo_manager ''/src/app'' ((), []))"
  have host: "engine_step demo_env demo_system demo_engine ?s0 ?s1"
    using engine_step.host [of demo_env demo_system demo_engine ?s0 "CPrune ''/src/app''"]
    by (simp add: engine_start_def)
  have "op_step demo_system demo_engine (OWorktree (WPrune ''/src/app'')) (em_world ?s1) (AnUnit None)
     ((em_world ?s1)\<lparr>ew_wt := ?wt\<rparr>)"
    by (rule op_step.worktree_op) (simp_all add: engine_start_def demo_engine_def demo_prune del: run_worktree.simps)
  from operation [of 0 ?s1 "OWorktree (WPrune ''/src/app'')" _ demo_system demo_engine _ _ demo_env, OF _ _ this]
  have "engine_step demo_env demo_system demo_engine ?s1 pruned_engine"
    by (simp add: Engine_Prune_def WorktreeUnit_def pruned_engine_def)
  then show ?thesis unfolding engine_reachable_def
    by (rule rtranclp.rtrancl_into_rtrancl [of _ _ ?s1, OF r_into_rtranclp [of "engine_step _ _ _", OF host]])
qed


section \<open>What every run of a program does\<close>

text \<open>
  \<open>along P f p s\<close>: in every run of the program, each operation satisfies \<open>P\<close> in the state \<open>f\<close>
  computes from the operations and answers before it.
\<close>

primrec along :: "('s \<Rightarrow> engine_op \<Rightarrow> bool) \<Rightarrow> ('s \<Rightarrow> engine_op \<Rightarrow> engine_answer \<Rightarrow> 's) \<Rightarrow> prog \<Rightarrow> 's \<Rightarrow> bool" where
  "along P f (Done r) s = True"
| "along P f (Do op k) s = (P s op \<and> (\<forall>a. fits op a \<longrightarrow> along P f (k a) (f s op a)))"

lemma along_ops:
  "along P f (RuntimeCall c k) s = (P s (ORuntime c) \<and> (\<forall>r. along P f (k r) (f s (ORuntime c) (ARuntime r))))"
  "along P f (State_of i k') s = (P s (OState i) \<and> (\<forall>r. along P f (k' r) (f s (OState i) (AnState r))))"
  "along P f (StatManifest i k2) s = (P s (OStatManifest i) \<and> (\<forall>r. along P f (k2 r) (f s (OStatManifest i) (AnStat r))))"
  "along P f (Load i k3) s = (P s (OLoad i) \<and> (\<forall>r. along P f (k3 r) (f s (OLoad i) (AnEntry r))))"
  "along P f (Save e k4) s = (P s (OSave e) \<and> (\<forall>r. along P f (k4 r) (f s (OSave e) (AnDone r))))"
  "along P f (Update i u k5) s = (P s (OUpdate i u) \<and> (\<forall>r. along P f (k5 r) (f s (OUpdate i u) (AnDone r))))"
  "along P f (Unlink i k6) s = (P s (OUnlink i) \<and> (\<forall>r. along P f (k6 r) (f s (OUnlink i) (AnStat r))))"
  "along P f (Now k7) s = (P s ONow \<and> (\<forall>t. along P f (k7 t) (f s ONow (AnTime t))))"
  by (auto simp: operations split: engine_answer.splits)

lemma along_worktree:
  "(\<And>cf. w \<noteq> WNew cf) \<Longrightarrow> (\<And>x b. w \<noteq> WRemove x b) \<Longrightarrow> (\<And>x. w \<noteq> WPrune x) \<Longrightarrow>
     along P f (Worktree w k) s = (P s (OWorktree w) \<and> (\<forall>r. along P f (k r) (f s (OWorktree w) (AnWorktree r))))"
  "along P f (WorktreeUnit (WRemove x b) k') s =
     (P s (OWorktree (WRemove x b)) \<and> (\<forall>r. along P f (k' r) (f s (OWorktree (WRemove x b)) (AnUnit r))))"
  "along P f (WorktreeUnit (WPrune i) k') s =
     (P s (OWorktree (WPrune i)) \<and> (\<forall>r. along P f (k' r) (f s (OWorktree (WPrune i)) (AnUnit r))))"
  by (cases w; auto simp: operations split: engine_answer.splits)+

lemma along_records:
  "along P f (Records (JRead i a t) k) s = (P s (OJournal (JRead i a t)) \<and> (\<forall>r. along P f (k r) (f s (OJournal (JRead i a t)) (AnRecords r))))"
  "along P f (Records (JReadAfter i n) k) s = (P s (OJournal (JReadAfter i n)) \<and> (\<forall>r. along P f (k r) (f s (OJournal (JReadAfter i n)) (AnRecords r))))"
  "along P f (Records (JTail i m) k) s = (P s (OJournal (JTail i m)) \<and> (\<forall>r. along P f (k r) (f s (OJournal (JTail i m)) (AnRecords r))))"
  by (auto simp: operations split: engine_answer.splits)

lemma along_ok:
  "along P f (AskOk (ONotify e) k) s = (P s (ONotify e) \<and> (\<forall>b. along P f (k b) (f s (ONotify e) (AnOk b))))"
  by (auto simp: operations split: engine_answer.splits)

lemmas along_simps = along_ops along_worktree along_records along_ok

section \<open>Only managed worktrees are touched\<close>

text \<open>
  The worktrees a method may repair, reopen or remove: those of manifests it loaded that say they
  are managed, and the one it created.
\<close>

fun touched :: "engine_op \<Rightarrow> WorktreeSession option" where
  "touched (OWorktree (WRemove x force)) = Some x"
| "touched (OWorktree (WRepair x)) = Some x"
| "touched (OWorktree (WReopen x)) = Some x"
| "touched _ = None"

fun gained :: "engine_op \<Rightarrow> engine_answer \<Rightarrow> WorktreeSession set" where
  "gained (OLoad i) (AnEntry (Inr e)) = (if en_WorkspaceMode e = WorkspaceManaged then {en_Worktree e} else {})"
| "gained (OWorktree (WCreate q)) (AnWorktree (Inr x)) = {x}"
| "gained _ _ = {}"

text \<open>A method may create a worktree when \<open>b\<close> says so.\<close>

definition owned_op :: "bool \<Rightarrow> WorktreeSession set \<Rightarrow> engine_op \<Rightarrow> bool" where
  "owned_op b S op \<longleftrightarrow>
     (case op of
        OWorktree (WCreate q) \<Rightarrow> b
      | _ \<Rightarrow> (case touched op of None \<Rightarrow> True | Some x \<Rightarrow> x \<in> S))"

definition gain :: "WorktreeSession set \<Rightarrow> engine_op \<Rightarrow> engine_answer \<Rightarrow> WorktreeSession set" where
  "gain S op a = gained op a \<union> S"

lemma owned_gain_simps [simp]:
  "owned_op b S (OWorktree (WRemove x force)) = (x \<in> S)" "owned_op b S (OWorktree (WRepair x)) = (x \<in> S)"
  "owned_op b S (OWorktree (WReopen x)) = (x \<in> S)" "owned_op b S (OWorktree (WCreate q)) = b"
  "\<forall>w. op \<noteq> OWorktree w \<Longrightarrow> owned_op b S op" "owned_op b S (OWorktree (WPrune i))" "owned_op b S (OWorktree (WInspect i))"
  "owned_op b S (OWorktree (WNew cf))"
  "gain S (OLoad i) (AnEntry (Inr e)) = (if en_WorkspaceMode e = WorkspaceManaged then insert (en_Worktree e) S else S)"
  "gain S (OWorktree (WCreate q)) (AnWorktree (Inr x)) = insert x S" "gained op a = {} \<Longrightarrow> gain S op a = S"
  by (auto simp: owned_op_def gain_def split: engine_op.splits option.splits)

abbreviation careful :: "bool \<Rightarrow> prog \<Rightarrow> WorktreeSession set \<Rightarrow> bool" where
  "careful b p S \<equiv> along (owned_op b) gain p S"

lemma along_rollback:
  "careful b k S \<Longrightarrow> (en_WorkspaceMode e = WorkspaceManaged \<Longrightarrow> en_Worktree e \<in> S) \<Longrightarrow> careful b (rollbackStart e k) S"
  by (simp add: rollbackStart_def along_simps)

lemma careful_failed: "careful b (failed_session e) S" "careful b (failed_unit e) S"
  by (simp_all add: failed_session_def failed_unit_def)

lemma careful_replay: "(\<And>r. careful b (k r) S) \<Longrightarrow> careful b (prepareReplay i k) S"
  by (simp add: prepareReplay_def along_simps split: sum.splits)

lemma careful_finish: "careful b (finish_start i bs c x) S"
  by (simp add: finish_start_def along_simps careful_failed Let_def split: option.splits sum.splits)

lemma careful_inspect:
  "(\<And>w. careful b (k w) S) \<Longrightarrow> careful b (inspectExistingWorkspace i p k) S"
  by (simp add: inspectExistingWorkspace_def along_simps Let_def split: engine_answer.splits dir_result.splits)

lemma careful_backend:
  "(en_WorkspaceMode e = WorkspaceManaged \<Longrightarrow> en_Worktree e \<in> S) \<Longrightarrow> careful b (start_backend q e) S"
  by (simp add: start_backend_def along_simps careful_finish along_rollback careful_failed split: option.splits)

lemma careful_created:
  assumes "en_WorkspaceMode e = WorkspaceManaged \<Longrightarrow> en_Worktree e \<in> S"
  shows "careful b (start_created q e) S"
  using assms by (simp add: start_created_def along_simps careful_backend careful_replay along_rollback careful_failed
      split: option.splits)

lemma careful_fresh:
  "(sq_WorkspaceMode q = [] \<or> sq_WorkspaceMode q = WorkspaceManaged \<Longrightarrow> b) \<Longrightarrow> careful b (start_fresh q i) {}"
  unfolding start_fresh_def
  by (auto simp: along_simps Let_def careful_created careful_failed zero_entry_def WorkspaceExisting_def
      WorkspaceManaged_def intro!: careful_inspect careful_created split: sum.splits)

lemma careful_resume: "careful b (resumeStart q) {}"
  by (simp add: resumeStart_def along_simps Let_def careful_replay careful_finish careful_failed
      split: sum.splits option.splits)

lemma careful_start:
  "(sq_WorkspaceMode q = [] \<or> sq_WorkspaceMode q = WorkspaceManaged \<Longrightarrow> b) \<Longrightarrow> careful b (Engine_Start q) {}"
  by (simp add: Engine_Start_def start_identified_def along_simps Let_def careful_fresh careful_resume careful_failed
      split: stat_result.splits engine_answer.splits sum.splits)

lemma owned_op_mono: "owned_op b S op \<Longrightarrow> S \<subseteq> T \<Longrightarrow> owned_op b T op"
  by (auto simp: owned_op_def split: option.splits engine_op.splits worktree_op.splits)

lemma gain_mono: "S \<subseteq> T \<Longrightarrow> gain S op a \<subseteq> gain T op a"
  by (auto simp: gain_def)

lemma careful_mono: "careful b p S \<Longrightarrow> S \<subseteq> T \<Longrightarrow> careful b p T"
proof (induction p arbitrary: S T)
  case (Do op k)
  then have "owned_op b T op" using owned_op_mono [of b S op T] by simp
  moreover have "careful b (k a) (gain T op a)" if "fits op a" for a
  proof (rule Do.IH [OF rangeI])
    show "careful b (k a) (gain S op a)" using Do.prems(1) that by simp
    show "gain S op a \<subseteq> gain T op a" using Do.prems(2) by (rule gain_mono)
  qed
  ultimately show ?case by simp
qed simp

lemma careful_close: "(\<And>r. careful b (k r) S) \<Longrightarrow> careful b (close_session i k) S"
  unfolding close_session_def
  by (auto simp: along_simps split: sum.splits option.splits intro: careful_mono [OF _ subset_insertI])

lemma careful_remove_closed:
  "(en_WorkspaceMode e = WorkspaceManaged \<Longrightarrow> en_Worktree e \<in> S) \<Longrightarrow> careful b (remove_closed e force) S"
  by (simp add: remove_closed_def along_simps Let_def careful_failed split: option.splits)

lemma careful_remove_open: "careful b (remove_open e force) S"
  unfolding remove_open_def
  by (intro careful_close) (simp add: along_simps careful_failed careful_remove_closed split: option.splits sum.splits)

lemma careful_remove: "careful b (Engine_Remove i force) {}"
  by (simp add: Engine_Remove_def along_simps careful_failed careful_remove_open careful_remove_closed
      split: option.splits sum.splits)

lemma careful_repair: "careful b (Engine_Repair i) {}"
  unfolding Engine_Repair_def
  by (auto simp: along_simps Let_def careful_failed intro!: careful_inspect split: option.splits sum.splits)

lemma careful_snapshot: "(\<And>r. careful b (k r) {}) \<Longrightarrow> (\<And>r S. careful b (k r) S) \<Longrightarrow> careful b (snapshot i k) {}"
  by (auto simp: snapshot_def along_simps Let_def split: sum.splits runtime_error.splits engine_answer.splits)

lemma careful_load_all: "(\<And>out S. careful b (k out) S) \<Longrightarrow> careful b (load_all is out k) S"
  by (induction "is" arbitrary: out S) (auto simp: along_simps split: sum.splits)

lemma careful_publish: "careful b (publish e) {}" "careful b (recordTurnSubmission t) {}"
  by (simp_all add: publish_def persistRuntimeConfiguration_def recordTurnSubmission_def along_simps Let_def
      split: sum.splits)

definition creates :: "engine_call \<Rightarrow> bool" where
  "creates c = (case c of CStart q \<Rightarrow> sq_WorkspaceMode q = [] \<or> sq_WorkspaceMode q = WorkspaceManaged | _ \<Rightarrow> False)"

lemma careful_program: "careful (creates c) (program_of c) {}"
proof (cases c)
  case (CStart q)
  then show ?thesis by (auto simp: creates_def intro: careful_start)
next
  case CSessions
  then show ?thesis by (auto simp: Engine_Sessions_def intro!: careful_load_all split: engine_answer.splits option.splits)
next
  case (CSnapshot i)
  then show ?thesis by (simp add: Engine_Snapshot_def careful_snapshot)
next
  case (CPendingInteraction i)
  then show ?thesis by (simp add: PendingInteraction_def careful_snapshot)
next
  case (CRestart i)
  then show ?thesis by (simp add: Restart_def along_simps split: sum.splits option.splits)
next
  case (CCloseSession i)
  then show ?thesis by (simp add: CloseSession_def careful_close)
next
  case (CClose owned)
  then show ?thesis by (simp add: Engine_Close_def along_simps Let_def split: engine_answer.splits)
next
  case (CSetConfiguration i x)
  then show ?thesis by (simp add: Engine_SetConfiguration_def along_simps Let_def careful_failed split: option.splits)
next
  case (CAppend i n d x)
  then show ?thesis by (simp add: Engine_Append_def split: engine_answer.splits)
qed (simp_all add: Engine_Resume_def careful_resume careful_repair careful_remove Engine_Prune_def
    Engine_Send_def Engine_QueueEntries_def Engine_RemoveQueuedTurn_def Engine_ReplaceQueuedTurn_def
    Engine_BlockDispatch_def Engine_Interrupt_def Engine_ReconcileTurn_def Engine_RespondInteraction_def
    Engine_ForkPrompt_def forward_def History_def HistoryAfter_def HistoryTail_def along_simps split: engine_answer.splits)

text \<open>
  C21: the engine touches only managed worktrees. In every run of every method, whatever the
  answers, a worktree is created only by a start in managed mode, and each worktree that is
  reopened, repaired or removed is that of a manifest the method loaded which says it is managed,
  or the one the method itself created: an existing workspace is only inspected.
\<close>

theorem only_managed_touched:
  "along (owned_op (creates c)) gain (program_of c) {} \<and> along (owned_op False) gain (publish e) {}
     \<and> along (owned_op False) gain (recordTurnSubmission t) {}"
  by (simp add: careful_program careful_publish)

section \<open>A failed start\<close>

text \<open>The runs of a program: the operations with their answers, and the result.\<close>

inductive traces :: "prog \<Rightarrow> (engine_op \<times> engine_answer) list \<Rightarrow> engine_result \<Rightarrow> bool" where
  finished: "traces (Done r) [] r"
| operated: "fits op a \<Longrightarrow> traces (k a) log r \<Longrightarrow> traces (Do op k) ((op, a) # log) r"

inductive_simps traces_Done: "traces (Done r) log r'"
inductive_simps traces_Do: "traces (Do op k) log r"

lemma traces_answer:
  assumes "\<And>a. fits op a \<longleftrightarrow> (\<exists>x. a = C x)"
  shows "traces (Do op k) log r \<longleftrightarrow> (\<exists>x l. log = (op, C x) # l \<and> traces (k (C x)) l r)"
  using assms by (auto simp: traces_Do)

lemma traces_call:
  "traces (RuntimeCall c k) log r \<longleftrightarrow> (\<exists>x l. log = (ORuntime c, ARuntime x) # l \<and> traces (k x) l r)"
  unfolding RuntimeCall_def by (subst traces_answer [where C = ARuntime]; simp split: engine_answer.splits)

lemma traces_state:
  "traces (State_of i k) log r \<longleftrightarrow> (\<exists>x l. log = (OState i, AnState x) # l \<and> traces (k x) l r)"
  unfolding State_of_def by (subst traces_answer [where C = AnState]; simp split: engine_answer.splits)

lemma traces_stat:
  "traces (StatManifest i k) log r \<longleftrightarrow> (\<exists>x l. log = (OStatManifest i, AnStat x) # l \<and> traces (k x) l r)"
  unfolding StatManifest_def by (subst traces_answer [where C = AnStat]; simp split: engine_answer.splits)

lemma traces_load:
  "traces (Load i k) log r \<longleftrightarrow> (\<exists>x l. log = (OLoad i, AnEntry x) # l \<and> traces (k x) l r)"
  unfolding Load_def by (subst traces_answer [where C = AnEntry]; simp split: engine_answer.splits)

lemma traces_save:
  "traces (Save e k) log r \<longleftrightarrow> (\<exists>x l. log = (OSave e, AnDone x) # l \<and> traces (k x) l r)"
  unfolding Save_def by (subst traces_answer [where C = AnDone]; simp split: engine_answer.splits)

lemma traces_update:
  "traces (Update i u k) log r \<longleftrightarrow> (\<exists>x l. log = (OUpdate i u, AnDone x) # l \<and> traces (k x) l r)"
  unfolding Update_def by (subst traces_answer [where C = AnDone]; simp split: engine_answer.splits)

lemma traces_unlink:
  "traces (Unlink i k) log r \<longleftrightarrow> (\<exists>x l. log = (OUnlink i, AnStat x) # l \<and> traces (k x) l r)"
  unfolding Unlink_def by (subst traces_answer [where C = AnStat]; simp split: engine_answer.splits)

lemma traces_now:
  "traces (Now k) log r \<longleftrightarrow> (\<exists>x l. log = (ONow, AnTime x) # l \<and> traces (k x) l r)"
  unfolding Now_def by (subst traces_answer [where C = AnTime]; simp split: engine_answer.splits)

lemma traces_records:
  "traces (Records (JRead i m n) k) log r \<longleftrightarrow> (\<exists>x l. log = (OJournal (JRead i m n), AnRecords x) # l \<and> traces (k x) l r)"
  unfolding Records_def by (subst traces_answer [where C = AnRecords]; simp split: engine_answer.splits)

lemma traces_create:
  "traces (Worktree (WCreate q) k) log r \<longleftrightarrow> (\<exists>x l. log = (OWorktree (WCreate q), AnWorktree x) # l \<and> traces (k x) l r)"
  unfolding Worktree_def by (subst traces_answer [where C = AnWorktree]; simp split: engine_answer.splits)

lemma traces_inspect:
  "traces (Worktree (WInspect p) k) log r \<longleftrightarrow> (\<exists>x l. log = (OWorktree (WInspect p), AnWorktree x) # l \<and> traces (k x) l r)"
  unfolding Worktree_def by (subst traces_answer [where C = AnWorktree]; simp split: engine_answer.splits)

lemma traces_remove:
  "traces (WorktreeUnit (WRemove w b) k) log r \<longleftrightarrow> (\<exists>x l. log = (OWorktree (WRemove w b), AnUnit x) # l \<and> traces (k x) l r)"
  unfolding WorktreeUnit_def by (subst traces_answer [where C = AnUnit]; simp split: engine_answer.splits)

lemma traces_failed: "traces (failed_session f) log r \<longleftrightarrow> log = [] \<and> r = ResSession (Inl f)"
  by (auto simp: failed_session_def traces_Done)

lemmas traces_ops = traces_call traces_state traces_stat traces_load traces_save traces_update traces_unlink traces_now
  traces_records traces_create traces_inspect traces_remove traces_failed

text \<open>The operations that undo what a start of this session made, in the order of \<open>rollbackStart\<close>.\<close>

definition undo :: "EngineSession \<Rightarrow> engine_op list" where
  "undo x =
     [ORuntime (AClose (en_ID x)), ORuntime (AForget (en_ID x)), OUnlink (en_ID x)]
     @ (if en_WorkspaceMode x = WorkspaceManaged then [OWorktree (WRemove (en_Worktree x) True)] else [])"

text \<open>The backend was started; an operation made a manifest or a worktree; all that was made belongs to a session.\<close>

definition backend_started :: "(engine_op \<times> engine_answer) list \<Rightarrow> bool" where
  "backend_started log \<longleftrightarrow> (\<exists>c r. (ORuntime (AStart c), ARuntime r) \<in> set log \<and> runtime_failure r = None)"

fun made_by :: "engine_op \<times> engine_answer \<Rightarrow> (EngineSession \<Rightarrow> bool) option" where
  "made_by (OSave y, a) = Some ((=) y)"
| "made_by (OWorktree (WCreate q), AnWorktree (Inr w)) =
     Some (\<lambda>x. en_Worktree x = w \<and> en_WorkspaceMode x = WorkspaceManaged)"
| "made_by _ = None"

definition made_for :: "EngineSession \<Rightarrow> (engine_op \<times> engine_answer) list \<Rightarrow> bool" where
  "made_for x log \<longleftrightarrow> list_all (\<lambda>e. case made_by e of None \<Rightarrow> True | Some f \<Rightarrow> f x) log"

definition nothing_made :: "(engine_op \<times> engine_answer) list \<Rightarrow> bool" where
  "nothing_made log \<longleftrightarrow> list_all (\<lambda>e. made_by e = None) log"

definition undone :: "(engine_op \<times> engine_answer) list \<Rightarrow> bool" where
  "undone log \<longleftrightarrow> (\<exists>x before. map fst log = before @ undo x \<and> made_for x log)"

lemma rollback_traces:
  "traces (rollbackStart x (failed_session e)) log r \<Longrightarrow> map fst log = undo x \<and> made_for x log"
  by (auto simp: rollbackStart_def traces_ops undo_def made_for_def split: if_splits)

lemma backend_traces:
  assumes "traces (start_backend q x) log (ResSession (Inl e))"
  shows "backend_started log \<or> (\<exists>c. map fst log = ORuntime c # undo x \<and> made_for x log)"
proof -
  obtain c r l where log: "log = (ORuntime (AStart c), ARuntime r) # l" and
    rest: "traces (case runtime_failure r of Some e \<Rightarrow> rollbackStart x (failed_session e)
       | None \<Rightarrow> finish_start (en_ID x) (backend_of r) (en_Configuration x) None) l (ResSession (Inl e))"
    using assms by (auto simp: start_backend_def traces_ops)
  show ?thesis
  proof (cases "runtime_failure r")
    case None
    then show ?thesis by (auto simp: backend_started_def log)
  next
    case (Some f)
    then show ?thesis using rest rollback_traces by (fastforce simp: log made_for_def)
  qed
qed

lemma backend_started_Cons: "backend_started l \<Longrightarrow> backend_started (e # l)"
  by (auto simp: backend_started_def)

lemma replay_traces:
  assumes "traces (prepareReplay i k) log r"
  obtains l1 l2 p where "log = l1 @ l2" and "nothing_made l1" and "traces (k p) l2 r"
proof -
  obtain x l where l: "log = (OJournal (JRead i 0 0), AnRecords x) # l" and
    rest: "traces (case x of Inr records \<Rightarrow> RuntimeCall (ASetReplayHistory i records) (\<lambda>x. k (runtime_failure x))
      | Inl e \<Rightarrow> if e = NotExist then RuntimeCall (ASetReplayHistory i []) (\<lambda>x. k (runtime_failure x))
         else k (Some (EngineJournal e))) l r"
    using assms by (auto simp: prepareReplay_def traces_ops)
  have "\<exists>l1 l2 p. l = l1 @ l2 \<and> nothing_made l1 \<and> traces (k p) l2 r"
  proof (cases "\<exists>e. x = Inl e \<and> e \<noteq> NotExist")
    case True
    then show ?thesis using rest by (intro exI [of _ "[]"] exI [of _ l]) (auto simp: nothing_made_def)
  next
    case False
    then obtain rs y l2 where "l = (ORuntime (ASetReplayHistory i rs), ARuntime y) # l2" "traces (k (runtime_failure y)) l2 r"
      using rest by (auto simp: traces_ops split: sum.splits)
    then show ?thesis
      by (intro exI [of _ "[(ORuntime (ASetReplayHistory i rs), ARuntime y)]"] exI [of _ l2]) (auto simp: nothing_made_def)
  qed
  then obtain l1 l2 p where "l = l1 @ l2" "nothing_made l1" "traces (k p) l2 r" by blast
  then show ?thesis by (intro that [of "(OJournal (JRead i 0 0), AnRecords x) # l1" l2 p]) (auto simp: l nothing_made_def)
qed

lemma along_traces:
  "traces p log r \<Longrightarrow> along (\<lambda>_ op. Q op) f p s \<Longrightarrow> list_all (\<lambda>e. Q (fst e)) log"
  by (induction arbitrary: s rule: traces.induct) auto

definition makes_nothing :: "engine_op \<Rightarrow> bool" where
  "makes_nothing op \<longleftrightarrow> (case op of OSave _ \<Rightarrow> False | OWorktree (WCreate _) \<Rightarrow> False | _ \<Rightarrow> True)"

lemma makes_nothing_made: "makes_nothing (fst e) \<Longrightarrow> made_by e = None"
  by (cases e rule: made_by.cases) (auto simp: makes_nothing_def)

definition no_create :: "engine_op \<Rightarrow> bool" where
  "no_create op \<longleftrightarrow> (case op of ORuntime c \<Rightarrow> (case c of ACreate _ \<Rightarrow> False | _ \<Rightarrow> True) | _ \<Rightarrow> True)"

text \<open>Operations that make nothing and do not create a session of the runtime.\<close>

definition quiet :: "(engine_op \<times> engine_answer) list \<Rightarrow> bool" where
  "quiet log \<longleftrightarrow> nothing_made log \<and> list_all (\<lambda>e. no_create (fst e)) log"

lemma quiet_simps [simp]:
  "quiet []" "quiet (l1 @ l2) \<longleftrightarrow> quiet l1 \<and> quiet l2"
  "quiet (e # l) \<longleftrightarrow> made_by e = None \<and> no_create (fst e) \<and> quiet l"
  by (auto simp: quiet_def nothing_made_def)

lemma no_create_simps [simp]:
  "\<forall>c. op \<noteq> ORuntime c \<Longrightarrow> no_create op" "\<forall>c'. c \<noteq> ACreate c' \<Longrightarrow> no_create (ORuntime c)" "\<not> no_create (ORuntime (ACreate q))"
  by (auto simp: no_create_def split: engine_op.splits call.splits)

lemma resume_quiet_ops: "along (\<lambda>_ op. makes_nothing op \<and> no_create op) (\<lambda>s _ _. s) (resumeStart q) ()"
  by (simp add: resumeStart_def prepareReplay_def finish_start_def failed_session_def along_simps Let_def
      makes_nothing_def split: sum.splits option.splits)

lemma resume_quiet: "traces (resumeStart q) log r \<Longrightarrow> quiet log"
  using along_traces [OF _ resume_quiet_ops] makes_nothing_made
  by (fastforce simp: quiet_def nothing_made_def list_all_iff)

lemma made_for_append: "made_for x (l1 @ l2) \<longleftrightarrow> made_for x l1 \<and> made_for x l2"
  by (simp add: made_for_def list_all_append)

lemma nothing_made_for: "nothing_made log \<Longrightarrow> made_for x log"
  by (simp add: nothing_made_def made_for_def list_all_iff)

text \<open>The log undoes what was made for the session, or the backend started.\<close>

definition undone_for :: "EngineSession \<Rightarrow> (engine_op \<times> engine_answer) list \<Rightarrow> bool" where
  "undone_for x log \<longleftrightarrow> backend_started log \<or> (\<exists>before. map fst log = before @ undo x \<and> made_for x log)"

lemma undone_for_prepend:
  assumes "undone_for x l2" and "made_for x l1"
  shows "undone_for x (l1 @ l2)"
proof (cases "backend_started l2")
  case True
  then show ?thesis by (auto simp: undone_for_def backend_started_def)
next
  case False
  then obtain b where "map fst l2 = b @ undo x" "made_for x l2" using assms(1) by (auto simp: undone_for_def)
  then show ?thesis using assms(2) by (auto simp: undone_for_def made_for_append intro!: exI [of _ "map fst l1 @ b"])
qed

lemma rollback_undoes: "traces (rollbackStart x (failed_session e)) log r \<Longrightarrow> undone_for x log"
  using rollback_traces unfolding undone_for_def by fastforce

lemma backend_undoes: "traces (start_backend q x) log (ResSession (Inl e)) \<Longrightarrow> undone_for x log"
  using backend_traces unfolding undone_for_def by (metis append_Cons append_Nil)

lemma created_undoes:
  assumes "traces (start_created q x) log (ResSession (Inl e))"
  shows "undone_for x log"
proof -
  obtain c r l where log: "log = (ORuntime (ACreate c), ARuntime r) # l" and
    rest: "traces (case runtime_failure r of Some e \<Rightarrow> rollbackStart x (failed_session e)
     | None \<Rightarrow> Save x (\<lambda>s. case s of Some e \<Rightarrow> rollbackStart x (failed_session e)
       | None \<Rightarrow>
         if TrimSpace (sq_ResumeBackendSessionID q) \<noteq> [] then prepareReplay (en_ID x) (\<lambda>p. case p of
           Some e \<Rightarrow> rollbackStart x (failed_session e) | None \<Rightarrow> start_backend q x)
         else start_backend q x)) l (ResSession (Inl e))"
    using assms by (auto simp: start_created_def traces_ops)
  have "undone_for x l"
  proof (cases "runtime_failure r")
    case (Some f)
    then show ?thesis using rest rollback_undoes by simp
  next
    case None
    then obtain s l2 where l: "l = [(OSave x, AnDone s)] @ l2" and
      rest2: "traces (case s of Some e \<Rightarrow> rollbackStart x (failed_session e)
       | None \<Rightarrow>
         if TrimSpace (sq_ResumeBackendSessionID q) \<noteq> [] then prepareReplay (en_ID x) (\<lambda>p. case p of
           Some e \<Rightarrow> rollbackStart x (failed_session e) | None \<Rightarrow> start_backend q x)
         else start_backend q x) l2 (ResSession (Inl e))"
      using rest by (auto simp: traces_ops)
    have "undone_for x l2"
    proof (cases s)
      case (Some f)
      then show ?thesis using rest2 rollback_undoes by simp
    next
      case None
      show ?thesis
      proof (cases "TrimSpace (sq_ResumeBackendSessionID q) = []")
        case True
        then show ?thesis using rest2 None backend_undoes by simp
      next
        case False
        then have "traces (prepareReplay (en_ID x) (\<lambda>p. case p of
           Some e \<Rightarrow> rollbackStart x (failed_session e) | None \<Rightarrow> start_backend q x)) l2 (ResSession (Inl e))"
          using rest2 None by simp
        then obtain l3 l4 p where l2: "l2 = l3 @ l4" "nothing_made l3" and
          "traces (case p of Some e \<Rightarrow> rollbackStart x (failed_session e) | None \<Rightarrow> start_backend q x) l4 (ResSession (Inl e))"
          by (rule replay_traces)
        then have "undone_for x l4" using rollback_undoes backend_undoes by (cases p) auto
        then show ?thesis using l2 undone_for_prepend nothing_made_for by simp
      qed
    qed
    then show ?thesis unfolding l by (rule undone_for_prepend) (simp add: made_for_def)
  qed
  then have "undone_for x ([(ORuntime (ACreate c), ARuntime r)] @ l)"
    by (rule undone_for_prepend) (simp add: made_for_def)
  then show ?thesis by (simp add: log)
qed

lemma nothing_made_Cons: "nothing_made (e # l) \<longleftrightarrow> made_by e = None \<and> nothing_made l"
  by (simp add: nothing_made_def)

lemma inspect_traces:
  assumes "traces (inspectExistingWorkspace i p k) log r"
  obtains l1 l2 w where "log = l1 @ l2" and "quiet l1" and "traces (k w) l2 r"
proof -
  let ?p = "Clean (TrimSpace p)"
  note found = that
  have direct: "thesis" if "traces (k w) log r" for w
    using that by (intro found [of "[]" log w]) (simp_all add:)
  show thesis
  proof (cases "TrimSpace p = [] \<or> \<not> IsAbs (TrimSpace p)")
    case True
    then show thesis using assms direct by (auto simp: inspectExistingWorkspace_def Let_def split: if_splits)
  next
    case False
    have dir: "fits (OStatDir ?p) a \<longleftrightarrow> (\<exists>d. a = AnDir d)" for a by (cases a) simp_all
    have path: "fits (OResolve ?p) a \<longleftrightarrow> (\<exists>q. a = AnPath q)" for a by (cases a) simp_all
    obtain d l where log: "log = (OStatDir ?p, AnDir d) # l" and
      rest: "traces (case d of DirFails \<Rightarrow> k (Inl WorkspaceNotInspected) | NotDirectory \<Rightarrow> k (Inl (WorkspaceNoDirectory ?p))
        | Directory \<Rightarrow> Do (OResolve ?p) (\<lambda>b. case b of
          AnPath r \<Rightarrow>
            let path = (case r of Some q \<Rightarrow> q | None \<Rightarrow> ?p) in
            Worktree (WInspect path) (\<lambda>w.
              let workspace = (case w of Inr x \<Rightarrow> x | Inl _ \<Rightarrow> no_worktree\<lparr>ws_Path := path\<rparr>) in
              k (Inr (workspace\<lparr>ws_ID := i, ws_Source := path\<rparr>)))
        | _ \<Rightarrow> Done ResNothing)) l r"
      using assms False unfolding inspectExistingWorkspace_def Let_def
      by (auto simp: traces_answer [OF dir])
    show thesis
    proof (cases d)
      case Directory
      then obtain q w x l2 v where l: "l = [(OResolve ?p, AnPath q), (OWorktree (WInspect x), AnWorktree w)] @ l2"
        and v: "traces (k v) l2 r"
        using rest by (auto simp: traces_answer [OF path] traces_inspect Let_def)
      show thesis
        by (rule found [OF _ _ v, of "[(OStatDir ?p, AnDir d), (OResolve ?p, AnPath q), (OWorktree (WInspect x), AnWorktree w)]"])
          (simp_all add: log l)
    next
      case DirFails
      then have "traces (k (Inl WorkspaceNotInspected)) l r" using rest by simp
      then show thesis by (rule found [of "[(OStatDir ?p, AnDir d)]", rotated 2]) (simp_all add: log)
    next
      case NotDirectory
      then have "traces (k (Inl (WorkspaceNoDirectory ?p))) l r" using rest by simp
      then show thesis by (rule found [of "[(OStatDir ?p, AnDir d)]", rotated 2]) (simp_all add: log)
    qed
  qed
qed

text \<open>A run of a start is quiet, or it is quiet but for the worktree it creates until \<open>start_created\<close>.\<close>

definition splits_at_create :: "StartRequest \<Rightarrow> (engine_op \<times> engine_answer) list \<Rightarrow> engine_result \<Rightarrow> bool" where
  "splits_at_create q log r \<longleftrightarrow> quiet log
     \<or> (\<exists>l1 l2 x. log = l1 @ l2 \<and> made_for x l1 \<and> list_all (\<lambda>e. no_create (fst e)) l1 \<and> traces (start_created q x) l2 r)"

lemma splits_prepend: "splits_at_create q l r \<Longrightarrow> quiet l0 \<Longrightarrow> splits_at_create q (l0 @ l) r"
  unfolding splits_at_create_def
proof (elim disjE exE conjE)
  fix l1 l2 x
  assume "quiet l0" "l = l1 @ l2" "made_for x l1" "list_all (\<lambda>e. no_create (fst e)) l1" "traces (start_created q x) l2 r"
  then show "quiet (l0 @ l) \<or> (\<exists>l1 l2 x. l0 @ l = l1 @ l2 \<and> made_for x l1
      \<and> list_all (\<lambda>e. no_create (fst e)) l1 \<and> traces (start_created q x) l2 r)"
    by (intro disjI2 exI [of _ "l0 @ l1"] exI [of _ l2] exI [of _ x])
      (auto simp: made_for_append quiet_def nothing_made_for)
qed simp

lemma splits_created: "traces (start_created q x) l r \<Longrightarrow> splits_at_create q l r"
  unfolding splits_at_create_def
  by (intro disjI2 exI [of _ "[]"] exI [of _ l] exI [of _ x]) (simp add: made_for_def)

lemma fresh_traces:
  assumes "traces (start_fresh q i) log r"
  shows "splits_at_create q log r"
proof -
  define mode where "mode = (if sq_WorkspaceMode q = [] then WorkspaceManaged else sq_WorkspaceMode q)"
  obtain t l where log: "log = [(ONow, AnTime t)] @ l" and rest: "traces
     (let entry = zero_entry\<lparr>en_ID := i, en_Backend := sq_Backend q, en_WorkspaceMode := mode,
            en_Configuration := engine_configuration q, en_Ext := sq_Ext q, en_CreatedAt := t, en_UpdatedAt := t\<rparr> in
      if mode = WorkspaceManaged
      then Worktree (WCreate \<lparr>wr_ID = i, wr_Source = sq_Source q, wr_RepositoryKey = []\<rparr>) (\<lambda>w. case w of
        Inl e \<Rightarrow> failed_session (EngineWorktree e) | Inr x \<Rightarrow> start_created q (entry\<lparr>en_Worktree := x\<rparr>))
      else if mode = WorkspaceExisting
      then inspectExistingWorkspace i (sq_Worktree q) (\<lambda>w. case w of
        Inl e \<Rightarrow> failed_session e | Inr x \<Rightarrow> start_created q (entry\<lparr>en_Worktree := x\<rparr>))
      else failed_session (UnsupportedMode mode)) l r"
    using assms unfolding start_fresh_def mode_def [symmetric] Let_def [of mode] by (auto simp: traces_now)
  let ?entry = "zero_entry\<lparr>en_ID := i, en_Backend := sq_Backend q, en_WorkspaceMode := mode,
            en_Configuration := engine_configuration q, en_Ext := sq_Ext q, en_CreatedAt := t, en_UpdatedAt := t\<rparr>"
  have "splits_at_create q l r"
  proof (cases "mode = WorkspaceManaged")
    case True
    then obtain c w l2 where l: "l = [(OWorktree (WCreate c), AnWorktree w)] @ l2" and
      r: "traces (case w of Inl e \<Rightarrow> failed_session (EngineWorktree e)
         | Inr x \<Rightarrow> start_created q (?entry\<lparr>en_Worktree := x\<rparr>)) l2 r"
      using rest by (auto simp: traces_create Let_def)
    show ?thesis
    proof (cases w)
      case (Inl f)
      then show ?thesis using r by (auto simp: l traces_failed splits_at_create_def)
    next
      case (Inr x)
      then have "traces (start_created q (?entry\<lparr>en_Worktree := x\<rparr>)) l2 r" using r by simp
      moreover have "made_for (?entry\<lparr>en_Worktree := x\<rparr>) [(OWorktree (WCreate c), AnWorktree w)]"
        by (simp add: made_for_def Inr True)
      ultimately show ?thesis
        unfolding splits_at_create_def l by (intro disjI2 exI conjI) (rule refl, assumption, simp, assumption)
    qed
  next
    case False
    show ?thesis
    proof (cases "mode = WorkspaceExisting")
      case True
      have "traces (inspectExistingWorkspace i (sq_Worktree q) (\<lambda>w. case w of
        Inl e \<Rightarrow> failed_session e | Inr x \<Rightarrow> start_created q (?entry\<lparr>en_Worktree := x\<rparr>))) l r"
        using rest by (simp only: Let_def if_not_P [OF False] if_P [OF True])
      then obtain l1 l2 w where l: "l = l1 @ l2" "quiet l1" and
        r: "traces (case w of Inl e \<Rightarrow> failed_session e
          | Inr x \<Rightarrow> start_created q (?entry\<lparr>en_Worktree := x\<rparr>)) l2 r"
        by (rule inspect_traces)
      have "splits_at_create q l2 r"
        using r splits_created by (cases w) (auto simp: traces_failed splits_at_create_def)
      then show ?thesis using l splits_prepend by simp
    next
      case no_mode: False
      then show ?thesis using False rest by (auto simp: Let_def traces_failed splits_at_create_def)
    qed
  qed
  then show ?thesis unfolding log by (rule splits_prepend) simp
qed

lemma start_traces:
  assumes "traces (Engine_Start q) log r"
  shows "splits_at_create q log r"
proof -
  have ident: "splits_at_create q l r" if t: "traces (start_identified q i) l r" for i l
  proof (cases "validSessionID i")
    case True
    then obtain st l2 where l: "l = [(OStatManifest i, AnStat st)] @ l2" and
      r: "traces (case st of
        Present \<Rightarrow> if TrimSpace (sq_ResumeBackendSessionID q) = [] then failed_session (SessionExists i) else resumeStart q
      | StatFailed \<Rightarrow> failed_session ManifestNotInspected | Missing \<Rightarrow> start_fresh q i) l2 r"
      using t by (auto simp: start_identified_def traces_stat)
    have "splits_at_create q l2 r"
      using r fresh_traces resume_quiet
      by (cases st) (auto simp: traces_failed splits_at_create_def split: if_splits)
    then show ?thesis unfolding l by (rule splits_prepend) simp
  qed (use t in \<open>simp add: start_identified_def traces_failed splits_at_create_def\<close>)
  have random: "fits ORandom a \<longleftrightarrow> (\<exists>b. a = AnBytes b)" for a by (cases a) simp_all
  consider "TrimSpace (sq_Backend q) = []" | "traces (start_identified q (TrimSpace (sq_ID q))) log r"
    | raw l where "log = [(ORandom, AnBytes raw)] @ l" and "traces (case sessionID raw of Inl e \<Rightarrow> failed_session e
        | Inr i \<Rightarrow> start_identified q i) l r"
    using assms by (auto simp: Engine_Start_def Let_def traces_answer [OF random] split: if_splits)
  then show ?thesis
  proof cases
    case 1
    then show ?thesis using assms by (simp add: Engine_Start_def traces_failed splits_at_create_def)
  next
    case 2
    then show ?thesis by (rule ident)
  next
    case 3
    have "splits_at_create q l r"
      using 3(2) ident by (cases "sessionID raw") (auto simp: traces_failed splits_at_create_def)
    then show ?thesis unfolding 3(1) by (rule splits_prepend) simp
  qed
qed

text \<open>
  C20: a failed start leaves nothing behind. When a start returns an error, then it created no
  worktree and wrote no manifest, or the backend was started before the error, or its last
  operations close and forget the session, delete its manifest and, in managed mode, remove its
  worktree, and every worktree and manifest it made belongs to that session.
\<close>

theorem failed_start_undone:
  assumes "traces (Engine_Start q) log (ResSession (Inl e))"
  shows "nothing_made log \<or> backend_started log
       \<or> (\<exists>x before. map fst log = before @ undo x \<and> made_for x log)"
  using start_traces [OF assms] unfolding splits_at_create_def
proof (elim disjE exE conjE)
  fix l1 l2 x
  assume "log = l1 @ l2" "made_for x l1" "traces (start_created q x) l2 (ResSession (Inl e))"
  then have "undone_for x log" using undone_for_prepend created_undoes by blast
  then show ?thesis by (auto simp: undone_for_def)
qed (simp add: quiet_def)

definition demo_start_request :: StartRequest where
  "demo_start_request = (empty_start ''s1'')\<lparr>sq_Backend := ''codex'', sq_WorkspaceMode := WorkspaceExisting,
     sq_Worktree := ''/w''\<rparr>"

text \<open>The run for given answers, up to the first that does not fit.\<close>

fun run_answers :: "prog \<Rightarrow> engine_answer list \<Rightarrow> ((engine_op \<times> engine_answer) list \<times> engine_result) option" where
  "run_answers (Done r) as = Some ([], r)"
| "run_answers (Do op k) [] = None"
| "run_answers (Do op k) (a # as) =
     (if fits op a then map_option (apfst ((#) (op, a))) (run_answers (k a) as) else None)"

lemma run_answers_traces: "run_answers p as = Some (log, r) \<Longrightarrow> traces p log r"
proof (induction p as arbitrary: log r rule: run_answers.induct)
  case (3 op k a as)
  then obtain l where "run_answers (k a) as = Some (l, r)" "log = (op, a) # l" "fits op a"
    by (auto split: if_splits)
  with 3 show ?case by (auto intro: operated)
qed (auto intro: finished)

definition refused_answers :: "engine_answer list" where
  "refused_answers = [AnStat Missing, AnTime 3, AnDir Directory, AnPath None, AnWorktree (Inl (GitFailed [] [])),
     ARuntime (RState (Inl (SessionExistsError ''s1''))), ARuntime (RUnit None), ARuntime (RUnit None), AnStat Present]"

definition refused_log :: "(engine_op \<times> engine_answer) list" where
  "refused_log = zip
     [OStatManifest ''s1'', ONow, OStatDir ''/w'', OResolve ''/w'', OWorktree (WInspect ''/w''),
      ORuntime (ACreate \<lparr>cr_ID = ''s1'', cr_Backend = ''codex'', cr_Worktree = ''/w''\<rparr>),
      ORuntime (AClose ''s1''), ORuntime (AForget ''s1''), OUnlink ''s1''] refused_answers"

lemma refused_run:
  "traces (Engine_Start demo_start_request) refused_log (ResSession (Inl (EngineRuntime (SessionExistsError ''s1''))))"
proof (rule run_answers_traces [of _ refused_answers])
  have "TrimSpace ''codex'' = ''codex''" "TrimSpace ''s1'' = ''s1''" "TrimSpace ''/w'' = ''/w''" "Clean ''/w'' = ''/w''"
    "validSessionID ''s1''" "IsAbs ''/w''" "TrimSpace [] = []"
    by code_simp+
  then show "run_answers (Engine_Start demo_start_request) refused_answers =
      Some (refused_log, ResSession (Inl (EngineRuntime (SessionExistsError ''s1''))))"
    by (simp add: Engine_Start_def start_identified_def start_fresh_def inspectExistingWorkspace_def start_created_def
        rollbackStart_def operations failed_session_def demo_start_request_def empty_start_def refused_answers_def
        refused_log_def runtime_failure_def zero_entry_def no_worktree_def WorkspaceExisting_def WorkspaceManaged_def Let_def)
qed

theorem failed_start_undone_witness:
  "nothing_made refused_log \<or> backend_started refused_log
     \<or> (\<exists>x before. map fst refused_log = before @ undo x \<and> made_for x refused_log)"
  by (rule failed_start_undone [OF refused_run])

lemma created_conflict:
  assumes "traces (start_created q x) log r"
  obtains c y l where "log = (ORuntime (ACreate c), ARuntime y) # l" and "cr_ID c = en_ID x"
    and "runtime_failure y \<noteq> None \<Longrightarrow> map fst l = undo x" and "list_all (\<lambda>e. no_create (fst e)) l"
proof -
  let ?rest = "\<lambda>y. case runtime_failure y of Some e \<Rightarrow> rollbackStart x (failed_session e)
     | None \<Rightarrow> Save x (\<lambda>s. case s of Some e \<Rightarrow> rollbackStart x (failed_session e)
       | None \<Rightarrow>
         if TrimSpace (sq_ResumeBackendSessionID q) \<noteq> [] then prepareReplay (en_ID x) (\<lambda>p. case p of
           Some e \<Rightarrow> rollbackStart x (failed_session e) | None \<Rightarrow> start_backend q x)
         else start_backend q x)"
  let ?c = "\<lparr>cr_ID = en_ID x, cr_Backend = sq_Backend q, cr_Worktree = ws_Path (en_Worktree x)\<rparr>"
  obtain y l where log: "log = (ORuntime (ACreate ?c), ARuntime y) # l" and rest: "traces (?rest y) l r"
    using assms by (auto simp: start_created_def traces_ops)
  have "along (\<lambda>_ op. no_create op) (\<lambda>s _ _. s) (?rest y) ()"
    by (simp add: start_backend_def prepareReplay_def finish_start_def rollbackStart_def failed_session_def along_simps
        Let_def split: option.splits sum.splits)
  then have "list_all (\<lambda>e. no_create (fst e)) l" using along_traces [OF rest, of no_create "\<lambda>s _ _. s" "()"] by simp
  moreover have "map fst l = undo x" if "runtime_failure y \<noteq> None"
    using rest that rollback_traces by (cases "runtime_failure y") auto
  ultimately show ?thesis by (intro that [of ?c y l]) (simp_all add: log)
qed

text \<open>
  A start that loses a race destroys the winner. When the runtime refuses to create the
  session because it already exists (another start of the same identifier came first), the start
  that is refused goes on to close and forget that session and to delete its manifest.
\<close>

theorem refused_start_destroys:
  assumes "traces (Engine_Start q) log r"
    and "(ORuntime (ACreate c), ARuntime (RState (Inl (SessionExistsError i)))) \<in> set log"
  shows "\<exists>before after. map fst log =
     before @ [ORuntime (ACreate c), ORuntime (AClose (cr_ID c)), ORuntime (AForget (cr_ID c)), OUnlink (cr_ID c)] @ after"
  using start_traces [OF assms(1)] unfolding splits_at_create_def
proof (elim disjE exE conjE)
  assume "quiet log"
  then show ?thesis using assms(2) by (auto simp: quiet_def list_all_iff)
next
  fix l1 l2 x
  assume log: "log = l1 @ l2" and quiet: "list_all (\<lambda>e. no_create (fst e)) l1" and "traces (start_created q x) l2 r"
  then obtain d y l where l2: "l2 = (ORuntime (ACreate d), ARuntime y) # l" "cr_ID d = en_ID x"
    and undo: "runtime_failure y \<noteq> None \<Longrightarrow> map fst l = undo x" and rest: "list_all (\<lambda>e. no_create (fst e)) l"
    using created_conflict by metis
  have "d = c \<and> y = RState (Inl (SessionExistsError i))"
    using assms(2) quiet rest by (auto simp: log l2 list_all_iff)
  then show ?thesis
    using l2 undo
    by (intro exI [of _ "map fst l1"]
          exI [of _ "if en_WorkspaceMode x = WorkspaceManaged then [OWorktree (WRemove (en_Worktree x) True)] else []"])
      (simp add: log undo_def runtime_failure_def)
qed

theorem refused_start_destroys_witness:
  "\<exists>before after. map fst refused_log = before @ [ORuntime (ACreate \<lparr>cr_ID = ''s1'', cr_Backend = ''codex'', cr_Worktree = ''/w''\<rparr>),
     ORuntime (AClose ''s1''), ORuntime (AForget ''s1''), OUnlink ''s1''] @ after"
  using refused_start_destroys [OF refused_run, of "\<lparr>cr_ID = ''s1'', cr_Backend = ''codex'', cr_Worktree = ''/w''\<rparr>" "''s1''"]
  by (simp add: refused_log_def refused_answers_def)

end
