(* ===== verification/Acp_Types.thy ===== *)
theory Acp_Types
  imports Tool_Display Runtime_Catalog
begin

text \<open>
  The values of the Agent Client Protocol that the adapter of \<open>src/adapters/acpx/acpx.go\<close> reads,
  with the protocol's structs of \<open>src/acp/schema_types_gen.go\<close> reduced to the fields it looks at.
  Where the adapter passes a whole struct on as an untyped object (\<open>valueMap\<close>), the value carries
  the object the generated code writes for it.
\<close>

section \<open>Content\<close>

datatype ContentBlock =
  BText string
| BResourceLink (link_name: string) (link_uri: string)
| BImage (image_data: string) (image_mime: string)
| BAudio string string
| BResource any
| BNone

datatype ToolCallContent =
  TContent ContentBlock
| TDiff string
| TTerminal string

section \<open>Session updates\<close>

text \<open>\<open>valueMap\<close> of the struct is the field whose name ends in \<open>Object\<close>.\<close>

record ContentChunk =
  ch_Content :: ContentBlock
  ch_Object :: payload

record ToolCall =
  tc_ToolCallId :: string
  tc_Title :: string
  tc_Status :: string
  tc_Content :: "ToolCallContent list"
  tc_RawOutput :: any
  tc_Object :: payload

text \<open>A missing status is the empty string, as the adapter reads it.\<close>

record ToolCallUpdate =
  tu_ToolCallId :: string
  tu_Title :: "string option"
  tu_Status :: string
  tu_Content :: "ToolCallContent list"
  tu_RawOutput :: any
  tu_Object :: payload

record PlanEntry =
  pe_Content :: string
  pe_Status :: string

record Plan =
  pl_Entries :: "PlanEntry list"
  pl_Object :: payload

record AvailableCommand =
  ac_Name :: string
  ac_Description :: string
  ac_Hint :: "string option"

section \<open>Configuration options and modes\<close>

record SelectOption =
  so_Value :: string
  so_Name :: string

datatype SelectOptions = Ungrouped "SelectOption list" | Grouped "(string \<times> SelectOption list) list" | NoOptions

record SelectConfig =
  sl_Id :: string
  sl_Category :: "string option"
  sl_CurrentValue :: string
  sl_Options :: SelectOptions

datatype SessionConfigOption = OptionSelect SelectConfig | OptionBoolean

record SessionMode =
  mo_Id :: string
  mo_Name :: string

record SessionModeState =
  mt_AvailableModes :: "SessionMode list"
  mt_CurrentModeId :: string

datatype SessionUpdate =
  UserMessageChunk ContentChunk
| AgentMessageChunk ContentChunk
| AgentThoughtChunk ContentChunk
| UToolCall ToolCall
| UToolCallUpdate ToolCallUpdate
| UPlan Plan
| AvailableCommandsUpdate "AvailableCommand list"
| CurrentModeUpdate string
| ConfigOptionUpdate "SessionConfigOption list"
| SessionInfoUpdate
| UsageUpdate payload

record SessionNotification =
  nt_SessionId :: string
  nt_Update :: SessionUpdate

section \<open>Permissions and elicitations\<close>

datatype PermissionOptionKind = AllowOnce | AllowAlways | RejectOnce | RejectAlways | KindOther string

record PermissionOption =
  po_OptionId :: string
  po_Name :: string
  po_Kind :: PermissionOptionKind

fun permission_kind_string :: "PermissionOptionKind \<Rightarrow> string" where
  "permission_kind_string AllowOnce = ''allow_once''"
| "permission_kind_string AllowAlways = ''allow_always''"
| "permission_kind_string RejectOnce = ''reject_once''"
| "permission_kind_string RejectAlways = ''reject_always''"
| "permission_kind_string (KindOther s) = s"

record RequestPermissionRequest =
  rp_SessionId :: string
  rp_ToolCall :: ToolCallUpdate
  rp_Options :: "PermissionOption list"

text \<open>The outcome of a permission request: an option, or cancelled.\<close>

type_synonym PermissionOutcome = "string option"

record ElicitationSchema =
  es_Properties :: payload
  es_Required :: "string list"

datatype Elicitation =
  ElicitForm string ElicitationSchema
| ElicitUrl string
| ElicitOther string
| ElicitNone

datatype ElicitationAnswer = ElicitAccept payload | ElicitDecline | ElicitCancel

end
