(* ===== verification/Acp_Config.thy ===== *)
theory Acp_Config
  imports Acp_Types
begin

text \<open>
  Configuration options of an agent session, from \<open>src/adapters/acpx/acpx.go\<close> and \<open>config.go\<close>: which option selects the model, the reasoning level and the
  permission mode, the current selections, the host's catalog, and the events that report them.
\<close>

section \<open>Options of a selection\<close>

definition selectOptions :: "SelectOptions \<Rightarrow> SelectOption list" where
  "selectOptions opts =
     (case opts of Ungrouped vs \<Rightarrow> vs | Grouped gs \<Rightarrow> concat (map snd gs) | NoOptions \<Rightarrow> [])"

definition category_of :: "SelectConfig \<Rightarrow> string" where
  "category_of s = (case sl_Category s of None \<Rightarrow> [] | Some c \<Rightarrow> c)"

fun findOption :: "SessionConfigOption list \<Rightarrow> string list \<Rightarrow> string" where
  "findOption [] keys = []"
| "findOption (OptionBoolean # opts) keys = findOption opts keys"
| "findOption (OptionSelect s # opts) keys =
     (if \<exists>k \<in> set keys. sl_Id s = k \<or> category_of s = k then sl_Id s else findOption opts keys)"

text \<open>The case analysis that three functions of the source repeat.\<close>

datatype selection = SelModel | SelMode | SelReasoning | SelNone

definition selection_of :: "string \<Rightarrow> string \<Rightarrow> selection" where
  "selection_of category ident =
     (if category = ''model'' \<or> ident = ''model'' then SelModel
      else if category = ''mode'' \<or> ident = ''mode'' \<or> ident = ''permission_mode'' then SelMode
      else if category = ''thought_level'' \<or> ident = ''reasoning'' \<or> ident = ''reasoning_effort'' \<or> ident = ''effort''
      then SelReasoning else SelNone)"

text \<open>Model, reasoning and mode, as the last option of each kind says.\<close>

fun selections_from :: "SessionConfigOption list \<Rightarrow> string \<times> string \<times> string \<Rightarrow> string \<times> string \<times> string" where
  "selections_from [] acc = acc"
| "selections_from (OptionBoolean # opts) acc = selections_from opts acc"
| "selections_from (OptionSelect s # opts) (model, reasoning, mode) =
     (let current = sl_CurrentValue s in
      selections_from opts
        (case selection_of (category_of s) (sl_Id s) of
           SelModel \<Rightarrow> (current, reasoning, mode)
         | SelMode \<Rightarrow> (model, reasoning, current)
         | SelReasoning \<Rightarrow> (model, current, mode)
         | SelNone \<Rightarrow> (model, reasoning, mode)))"

definition currentSelections :: "SessionConfigOption list \<Rightarrow> string \<times> string \<times> string" where
  "currentSelections opts = selections_from opts ([], [], [])"

definition empty_catalog :: BackendCatalog where
  "empty_catalog = \<lparr>cat_Models = [], cat_PermissionModes = [], cat_Reasoning = [], cat_SlashCommands = []\<rparr>"

definition add_mode :: "string \<Rightarrow> string \<Rightarrow> BackendCatalog \<Rightarrow> BackendCatalog" where
  "add_mode ident label cat =
     (if ident \<in> pm_ID ` set (cat_PermissionModes cat) then cat
      else cat\<lparr>cat_PermissionModes := cat_PermissionModes cat
             @ [\<lparr>pm_ID = ident, pm_Label = label, pm_Description = []\<rparr>]\<rparr>)"

definition add_value :: "selection \<Rightarrow> SelectOption \<Rightarrow> BackendCatalog \<Rightarrow> BackendCatalog" where
  "add_value sel v cat =
     (case sel of
        SelModel \<Rightarrow> cat\<lparr>cat_Models := cat_Models cat
          @ [\<lparr>bm_ID = so_Value v, bm_Label = so_Name v, bm_Reasoning = []\<rparr>]\<rparr>
      | SelMode \<Rightarrow> add_mode (so_Value v) (so_Name v) cat
      | SelReasoning \<Rightarrow> cat\<lparr>cat_Reasoning := cat_Reasoning cat
          @ [\<lparr>re_ID = so_Value v, re_Label = so_Name v, re_Description = []\<rparr>]\<rparr>
      | SelNone \<Rightarrow> cat)"

definition add_option :: "SessionConfigOption \<Rightarrow> BackendCatalog \<Rightarrow> BackendCatalog" where
  "add_option opt cat =
     (case opt of
        OptionBoolean \<Rightarrow> cat
      | OptionSelect s \<Rightarrow> fold (add_value (selection_of (category_of s) (sl_Id s))) (selectOptions (sl_Options s)) cat)"

text \<open>The set \<open>modeIDs\<close> of the source is the set of identifiers of the modes added so far.\<close>

definition catalogFromConfig :: "SessionConfigOption list \<Rightarrow> SessionModeState option \<Rightarrow> BackendCatalog" where
  "catalogFromConfig opts modes =
     (let cat = fold add_option opts empty_catalog in
      case modes of
        None \<Rightarrow> cat
      | Some st \<Rightarrow> fold (\<lambda>m. add_mode (mo_Id m) (mo_Name m)) (mt_AvailableModes st) cat)"

section \<open>Reporting them\<close>

text \<open>
  Payload objects are written in key order. \<open>valueMap(options)\<close> is nil: a list of options is a
  JSON array, which does not decode into a map.
\<close>

definition put_text :: "string \<Rightarrow> string \<Rightarrow> payload \<Rightarrow> payload" where
  "put_text k s m = (if s = [] then m else map_put k (JStr s) m)"

definition config_data :: "SessionConfigOption list \<Rightarrow> SessionModeState option \<Rightarrow> payload" where
  "config_data opts modes =
     (let (model, reasoning, mode) = currentSelections opts;
          data = map_put ''config_options'' JNull (map_put ''catalog'' (enc_catalog (catalogFromConfig opts modes)) []);
          data = put_text ''current_mode'' mode (put_text ''current_reasoning'' reasoning (put_text ''current_model'' model data)) in
      case modes of None \<Rightarrow> data | Some st \<Rightarrow> map_put ''current_mode'' (JStr (mt_CurrentModeId st)) data)"

definition mode_now :: "SessionConfigOption list \<Rightarrow> SessionModeState option \<Rightarrow> string" where
  "mode_now opts modes =
     (case modes of None \<Rightarrow> snd (snd (currentSelections opts)) | Some st \<Rightarrow> mt_CurrentModeId st)"

definition config_events :: "SessionConfigOption list \<Rightarrow> SessionModeState option \<Rightarrow> Event list" where
  "config_events opts modes =
     (let cat = catalogFromConfig opts modes; (model, reasoning, mode) = currentSelections opts in
      [(new_event EventConfigCatalog)\<lparr>ev_Data := config_data opts modes\<rparr>]
      @ (if cat_Models cat \<noteq> [] then
           [(new_event EventModels)\<lparr>ev_Data := map_copy []
              [(''models'', JArr (map enc_model (cat_Models cat))), (''current_model'', JStr model)]\<rparr>] else [])
      @ (if cat_PermissionModes cat \<noteq> [] then
           [(new_event EventPermissionModes)\<lparr>ev_Data := map_copy []
              [(''permission_modes'', JArr (map enc_mode (cat_PermissionModes cat))),
               (''current_mode'', JStr (mode_now opts modes))]\<rparr>] else [])
      @ (if cat_Reasoning cat \<noteq> [] then
           [(new_event EventReasoningLevels)\<lparr>ev_Data := map_copy []
              [(''reasoning'', JArr (map enc_reasoning (cat_Reasoning cat))), (''current_reasoning'', JStr reasoning)]\<rparr>]
         else []))"

text \<open>The extra events of \<open>emitAppliedSelection\<close>, after those of \<open>emitConfig\<close>.\<close>

definition applied_events :: "string \<Rightarrow> string \<Rightarrow> SessionConfigOption list \<Rightarrow> Event list" where
  "applied_events kind value opts =
     (let cat = catalogFromConfig opts None; (model, reasoning, mode) = currentSelections opts in
      config_events opts None
      @ (if kind = ''model'' then
           (if model = [] then [(new_event EventModels)\<lparr>ev_Data := [(''current_model'', JStr value)]\<rparr>] else [])
           @ (if cat_Reasoning cat = [] then
                [(new_event EventReasoningLevels)\<lparr>ev_Data := map_copy []
                   [(''reasoning'', JArr []), (''current_reasoning'', JStr [])]\<rparr>] else [])
         else if kind = ''reasoning'' then
           (if reasoning = [] then [(new_event EventReasoningLevels)\<lparr>ev_Data := [(''current_reasoning'', JStr value)]\<rparr>] else [])
         else if kind = ''mode'' then
           (if mode = [] then [(new_event EventPermissionModes)\<lparr>ev_Data := [(''current_mode'', JStr value)]\<rparr>] else [])
         else []))"

definition mode_events :: "string \<Rightarrow> Event list" where
  "mode_events mode =
     [(new_event EventConfigCatalog)\<lparr>ev_Data := [(''current_mode'', JStr mode)]\<rparr>,
      (new_event EventPermissionModes)\<lparr>ev_Data := [(''current_mode'', JStr mode)]\<rparr>]"

section \<open>The parser of configurations\<close>

record ConfigOption =
  co_ID :: string
  co_Label :: string
  co_Description :: string

record SessionConfig =
  sf_Models :: "ConfigOption list"
  sf_Modes :: "ConfigOption list"
  sf_Reasoning :: "ConfigOption list"
  sf_CurrentModel :: string
  sf_CurrentMode :: string
  sf_CurrentReasoning :: string

definition no_config :: SessionConfig where
  "no_config = \<lparr>sf_Models = [], sf_Modes = [], sf_Reasoning = [], sf_CurrentModel = [], sf_CurrentMode = [],
     sf_CurrentReasoning = []\<rparr>"

definition object_fields :: "json \<Rightarrow> (string \<times> json) list option" where
  "object_fields j = (case j of JObj fs \<Rightarrow> Some fs | JNull \<Rightarrow> Some [] | _ \<Rightarrow> None)"

definition dec_choice :: "json \<Rightarrow> ConfigOption option" where
  "dec_choice j =
     Option.bind (object_fields j) (\<lambda>fs.
       case (get_str fs ''value'', get_str fs ''name'', get_str fs ''description'') of
         (Some v, Some n, Some d) \<Rightarrow> Some \<lparr>co_ID = v, co_Label = n, co_Description = d\<rparr> | _ \<Rightarrow> None)"

text \<open>Identifier, category, current value, choices.\<close>

type_synonym parsed_option = "string \<times> string \<times> json option \<times> ConfigOption list"

definition dec_config_option :: "json \<Rightarrow> parsed_option option" where
  "dec_config_option j =
     Option.bind (object_fields j) (\<lambda>fs.
       case (get_str fs ''id'', get_str fs ''category'', Option.bind (get_list fs ''options'') (map_all dec_choice)) of
         (Some i, Some c, Some os) \<Rightarrow> Some (i, c, sget fs ''currentValue'', os) | _ \<Rightarrow> None)"

definition dec_config :: "bytes \<Rightarrow> parsed_option list option" where
  "dec_config raw =
     Option.bind (unmarshal raw) (\<lambda>j. Option.bind (object_fields j) (\<lambda>fs.
       Option.bind (get_list fs ''configOptions'') (map_all dec_config_option)))"

definition parse_option :: "parsed_option \<Rightarrow> SessionConfig \<Rightarrow> SessionConfig" where
  "parse_option p cfg =
     (case p of (ident, category, value, choices) \<Rightarrow>
        let values = filter (\<lambda>v. TrimSpace (co_ID v) \<noteq> []) choices;
            current = TrimSpace (case value of Some (JStr s) \<Rightarrow> s | _ \<Rightarrow> []) in
        if category = ''model'' \<or> ident = ''model'' then cfg\<lparr>sf_Models := values, sf_CurrentModel := current\<rparr>
        else if category = ''mode'' \<or> ident = ''mode'' then cfg\<lparr>sf_Modes := values, sf_CurrentMode := current\<rparr>
        else if category = ''thought_level'' then cfg\<lparr>sf_Reasoning := values, sf_CurrentReasoning := current\<rparr>
        else cfg)"

definition ParseConfig :: "bytes \<Rightarrow> SessionConfig" where
  "ParseConfig raw = (case dec_config raw of None \<Rightarrow> no_config | Some ps \<Rightarrow> fold parse_option ps no_config)"

definition BackendModels :: "ConfigOption list \<Rightarrow> BackendModel list" where
  "BackendModels opts = map (\<lambda>v. \<lparr>bm_ID = co_ID v, bm_Label = co_Label v, bm_Reasoning = []\<rparr>) opts"

definition PermissionModes :: "ConfigOption list \<Rightarrow> BackendPermissionMode list" where
  "PermissionModes opts = map (\<lambda>v. \<lparr>pm_ID = co_ID v, pm_Label = co_Label v, pm_Description = co_Description v\<rparr>) opts"

definition ReasoningLevels :: "ConfigOption list \<Rightarrow> BackendReasoning list" where
  "ReasoningLevels opts = map (\<lambda>v. \<lparr>re_ID = co_ID v, re_Label = co_Label v, re_Description = co_Description v\<rparr>) opts"

section \<open>The catalog of a configuration\<close>

text \<open>The values that options of one selection offer, in order.\<close>

definition values_of :: "selection \<Rightarrow> SessionConfigOption list \<Rightarrow> SelectOption list" where
  "values_of sel opts =
     concat (map (\<lambda>opt. case opt of
        OptionSelect s \<Rightarrow> if selection_of (category_of s) (sl_Id s) = sel then selectOptions (sl_Options s) else []
      | OptionBoolean \<Rightarrow> []) opts)"

lemma values_of_Nil: "values_of sel [] = []"
  by (simp add: values_of_def)

lemma values_of_Cons:
  "values_of sel (opt # opts) =
     (case opt of
        OptionSelect s \<Rightarrow> if selection_of (category_of s) (sl_Id s) = sel then selectOptions (sl_Options s) else []
      | OptionBoolean \<Rightarrow> []) @ values_of sel opts"
  by (simp add: values_of_def)

lemma add_mode_facts:
  "cat_Models (add_mode i l cat) = cat_Models cat" "cat_Reasoning (add_mode i l cat) = cat_Reasoning cat"
  "pm_ID ` set (cat_PermissionModes (add_mode i l cat)) = insert i (pm_ID ` set (cat_PermissionModes cat))"
  "distinct (map pm_ID (cat_PermissionModes cat)) \<Longrightarrow> distinct (map pm_ID (cat_PermissionModes (add_mode i l cat)))"
  by (auto simp: add_mode_def)

lemma fold_add_value:
  "map bm_ID (cat_Models (fold (add_value sel) vs cat))
     = map bm_ID (cat_Models cat) @ (if sel = SelModel then map so_Value vs else [])"
  "map re_ID (cat_Reasoning (fold (add_value sel) vs cat))
     = map re_ID (cat_Reasoning cat) @ (if sel = SelReasoning then map so_Value vs else [])"
  "pm_ID ` set (cat_PermissionModes (fold (add_value sel) vs cat))
     = pm_ID ` set (cat_PermissionModes cat) \<union> (if sel = SelMode then so_Value ` set vs else {})"
  "distinct (map pm_ID (cat_PermissionModes cat)) \<Longrightarrow>
     distinct (map pm_ID (cat_PermissionModes (fold (add_value sel) vs cat)))"
  by (induction vs arbitrary: cat) (auto simp: add_value_def add_mode_facts split: selection.splits)

lemma fold_add_option:
  "map bm_ID (cat_Models (fold add_option opts cat)) = map bm_ID (cat_Models cat) @ map so_Value (values_of SelModel opts)"
  "map re_ID (cat_Reasoning (fold add_option opts cat))
     = map re_ID (cat_Reasoning cat) @ map so_Value (values_of SelReasoning opts)"
  "pm_ID ` set (cat_PermissionModes (fold add_option opts cat))
     = pm_ID ` set (cat_PermissionModes cat) \<union> so_Value ` set (values_of SelMode opts)"
  "distinct (map pm_ID (cat_PermissionModes cat)) \<Longrightarrow>
     distinct (map pm_ID (cat_PermissionModes (fold add_option opts cat)))"
  by (induction opts arbitrary: cat)
    (simp_all add: add_option_def values_of_Nil values_of_Cons fold_add_value image_Un Un_assoc split: SessionConfigOption.splits)

lemma fold_add_mode:
  "cat_Models (fold (\<lambda>m. add_mode (mo_Id m) (mo_Name m)) ms cat) = cat_Models cat"
  "cat_Reasoning (fold (\<lambda>m. add_mode (mo_Id m) (mo_Name m)) ms cat) = cat_Reasoning cat"
  "pm_ID ` set (cat_PermissionModes (fold (\<lambda>m. add_mode (mo_Id m) (mo_Name m)) ms cat))
     = pm_ID ` set (cat_PermissionModes cat) \<union> mo_Id ` set ms"
  "distinct (map pm_ID (cat_PermissionModes cat)) \<Longrightarrow>
     distinct (map pm_ID (cat_PermissionModes (fold (\<lambda>m. add_mode (mo_Id m) (mo_Name m)) ms cat)))"
  by (induction ms arbitrary: cat) (auto simp: add_mode_facts)

text \<open>
  The catalog lists what the agent offers. Models and reasoning levels are the values of the
  options that select them, in the agent's order; permission modes are the values of the mode
  options and the session's modes, each identifier once.
\<close>

theorem catalog_complete:
  "map bm_ID (cat_Models (catalogFromConfig opts modes)) = map so_Value (values_of SelModel opts)
   \<and> map re_ID (cat_Reasoning (catalogFromConfig opts modes)) = map so_Value (values_of SelReasoning opts)
   \<and> pm_ID ` set (cat_PermissionModes (catalogFromConfig opts modes))
       = so_Value ` set (values_of SelMode opts)
         \<union> (case modes of None \<Rightarrow> {} | Some st \<Rightarrow> mo_Id ` set (mt_AvailableModes st))
   \<and> distinct (map pm_ID (cat_PermissionModes (catalogFromConfig opts modes)))"
  by (cases modes)
    (simp_all add: catalogFromConfig_def Let_def fold_add_mode fold_add_option empty_catalog_def)

section \<open>One bad option\<close>

text \<open>
  An unfamiliar option discards the configuration. When one element of \<open>configOptions\<close> has a
  field of another type than expected, for instance choices that are no list, \<open>ParseConfig\<close>
  returns the empty configuration, whatever the other options are.
\<close>

theorem one_bad_option_discards_all:
  assumes "unmarshal raw = Some (JObj fs)" and "get_list fs ''configOptions'' = Some os"
    and "o' \<in> set os" and "dec_config_option o' = None"
  shows "ParseConfig raw = no_config"
proof -
  have "map_all dec_config_option os = None"
    using assms(3,4) by (induction os) (auto split: option.splits)
  then show ?thesis using assms(1,2) by (simp add: ParseConfig_def dec_config_def object_fields_def)
qed

definition mixed_options :: json where
  "mixed_options = JObj [(''configOptions'', JArr
     [JObj [(''id'', JStr ''model''), (''currentValue'', JStr ''m''), (''options'', JArr [JObj [(''value'', JStr ''m'')]])],
      JObj [(''id'', JStr ''theme''), (''options'', JStr ''any'')]])]"

theorem one_bad_option_discards_all_witness:
  "ParseConfig (marshal mixed_options) = no_config
   \<and> ParseConfig (marshal (JObj [(''configOptions'', JArr [JObj [(''id'', JStr ''model''), (''currentValue'', JStr ''m'')]])]))
       = no_config\<lparr>sf_CurrentModel := ''m''\<rparr>"
proof
  have u: "unmarshal (marshal mixed_options) = Some (JObj [(''configOptions'', JArr
     [JObj [(''id'', JStr ''model''), (''currentValue'', JStr ''m''), (''options'', JArr [JObj [(''value'', JStr ''m'')]])],
      JObj [(''id'', JStr ''theme''), (''options'', JStr ''any'')]])])"
    by (simp add: mixed_options_def del: marshal.simps)
  show "ParseConfig (marshal mixed_options) = no_config"
  proof (rule one_bad_option_discards_all [OF u])
    show "JObj [(''id'', JStr ''theme''), (''options'', JStr ''any'')] \<in> set
      [JObj [(''id'', JStr ''model''), (''currentValue'', JStr ''m''), (''options'', JArr [JObj [(''value'', JStr ''m'')]])],
       JObj [(''id'', JStr ''theme''), (''options'', JStr ''any'')]]" by simp
    show "dec_config_option (JObj [(''id'', JStr ''theme''), (''options'', JStr ''any'')]) = None" by code_simp
  qed (simp add: get_list_def sget_def)
  show "ParseConfig (marshal (JObj [(''configOptions'', JArr [JObj [(''id'', JStr ''model''), (''currentValue'', JStr ''m'')]])]))
       = no_config\<lparr>sf_CurrentModel := ''m''\<rparr>"
    by code_simp
qed

end
