(* ===== verification/Acp_Interaction.thy ===== *)
theory Acp_Interaction
  imports Acp_Types
begin

text \<open>
  What an agent asks of the user, from \<open>src/adapters/acpx/acpx.go\<close>: permission
  requests and the option an answer chooses, and elicitations with the fields of their schema.
\<close>

section \<open>Permissions\<close>

definition permissionTitle :: "ToolCallUpdate \<Rightarrow> string" where
  "permissionTitle tool =
     (case tu_Title tool of
        Some t \<Rightarrow> if TrimSpace t \<noteq> [] then t else ''Permission requested''
      | None \<Rightarrow> ''Permission requested'')"

definition permissionOptions :: "PermissionOption list \<Rightarrow> InteractionOption list" where
  "permissionOptions opts =
     map (\<lambda>p. \<lparr>io_ID = po_OptionId p, io_Label = po_Name p, io_Description = permission_kind_string (po_Kind p)\<rparr>) opts"

definition allows :: "PermissionOption \<Rightarrow> bool" where
  "allows p \<longleftrightarrow> po_Kind p = AllowOnce \<or> po_Kind p = AllowAlways"

definition wants_allow :: "InteractionResponse \<Rightarrow> bool" where
  "wants_allow r \<longleftrightarrow> rs_Action r = ''approve'' \<or> rs_Action r = ''allow'' \<or> rs_Action r = ''accept''"

text \<open>The empty string is returned when no option fits.\<close>

definition choosePermissionOption :: "InteractionResponse \<Rightarrow> PermissionOption list \<Rightarrow> string" where
  "choosePermissionOption r opts =
     (let ident = TrimSpace (rs_OptionID r) in
      if ident \<noteq> [] then (if \<exists>p \<in> set opts. ident = po_OptionId p then ident else [])
      else (case filter (\<lambda>p. allows p = wants_allow r) opts of [] \<Rightarrow> [] | p # _ \<Rightarrow> po_OptionId p))"

definition permission_outcome :: "InteractionResponse \<Rightarrow> PermissionOption list \<Rightarrow> PermissionOutcome" where
  "permission_outcome r opts =
     (let ident = choosePermissionOption r opts in if ident = [] then None else Some ident)"

section \<open>Elicitations\<close>

definition elicitationDetails :: "Elicitation \<Rightarrow> InteractionKind \<times> string \<times> string" where
  "elicitationDetails q =
     (case q of
        ElicitForm m s \<Rightarrow> (InteractionForm, ''Input requested'', m)
      | ElicitUrl m \<Rightarrow> (InteractionChoice, ''Continue in browser'', m)
      | ElicitOther m \<Rightarrow> (InteractionForm, ''Input requested'', m)
      | ElicitNone \<Rightarrow> (InteractionForm, ''Input requested'', []))"

text \<open>A value that is no object is read as the empty one, as the code's type assertions do.\<close>

definition as_object :: "any \<Rightarrow> payload" where
  "as_object v = (case v of JObj m \<Rightarrow> m | _ \<Rightarrow> [])"

definition one_of :: "any \<Rightarrow> InteractionOption list" where
  "one_of raw =
     (let item = as_object raw;
          ident = TrimSpace (FirstNonEmpty [stringValue item ''const'', stringValue item ''value'', stringValue item ''id'']) in
      if ident = [] then []
      else [\<lparr>io_ID = ident,
             io_Label = TrimSpace (FirstNonEmpty [stringValue item ''title'', stringValue item ''label'', ident]),
             io_Description = TrimSpace (stringValue item ''description'')\<rparr>])"

definition enum_of :: "any \<Rightarrow> InteractionOption list" where
  "enum_of raw =
     (let ident = TrimSpace (case raw of JStr s \<Rightarrow> s | _ \<Rightarrow> []) in
      if ident = [] then [] else [\<lparr>io_ID = ident, io_Label = ident, io_Description = []\<rparr>])"

definition elicitationOptions :: "payload \<Rightarrow> InteractionOption list" where
  "elicitationOptions property =
     (let opts = concat (map one_of (anyValues (any_at property ''oneOf''))) in
      if opts \<noteq> [] then opts else concat (map enum_of (anyValues (any_at property ''enum''))))"

text \<open>
  The order of the fields: required names that are properties, each once, in the order of the
  schema; then the other properties by name. The keys of a payload are in that order.
\<close>

fun required_order :: "payload \<Rightarrow> string list \<Rightarrow> string list \<Rightarrow> string list" where
  "required_order props [] seen = rev seen"
| "required_order props (n # ns) seen =
     required_order props ns (if map_of props n \<noteq> None \<and> n \<notin> set seen then n # seen else seen)"

definition field_order :: "ElicitationSchema \<Rightarrow> string list" where
  "field_order s =
     (let required = required_order (es_Properties s) (es_Required s) [] in
      required @ filter (\<lambda>n. n \<notin> set required) (map fst (es_Properties s)))"

definition note_suffix :: string where "note_suffix = ''__note''"

definition elicitation_field :: "ElicitationSchema \<Rightarrow> string \<Rightarrow> InteractionField" where
  "elicitation_field s name =
     (let property = as_object (any_at (es_Properties s) name);
          label = TrimSpace (stringValue property ''title'');
          opts = elicitationOptions property;
          ty = ToLower (TrimSpace (stringValue property ''type'')) in
      \<lparr>if_ID = name, if_Label = (if label = [] then name else label),
       if_Description = TrimSpace (stringValue property ''description''),
       if_Required = (name \<in> set (es_Required s) \<and> map_of (es_Properties s) name \<noteq> None),
       if_Options = opts,
       if_AllowFreeText = (map_of (es_Properties s) (name @ note_suffix) \<noteq> None
          \<or> (opts = [] \<and> (ty = [] \<or> ty = ''string'')))\<rparr>)"

definition elicitationFields :: "Elicitation \<Rightarrow> InteractionField list" where
  "elicitationFields q =
     (case q of
        ElicitForm m s \<Rightarrow> map (elicitation_field s) (filter (\<lambda>n. \<not> suffix note_suffix n) (field_order s))
      | _ \<Rightarrow> [])"

definition elicitation_answer :: "InteractionResponse \<Rightarrow> ElicitationAnswer" where
  "elicitation_answer r =
     (let action = ToLower (TrimSpace (rs_Action r)) in
      if action = ''submit'' \<or> action = ''accept'' \<or> action = ''approve'' then ElicitAccept (rs_Values r)
      else if action = ''decline'' \<or> action = ''deny'' then ElicitDecline
      else ElicitCancel)"

section \<open>Extension requests\<close>

text \<open>\<open>strings.Contains\<close>\<close>

definition contains :: "string \<Rightarrow> string \<Rightarrow> bool" where
  "contains s sub \<longleftrightarrow> (\<exists>n \<in> set [0..<Suc (length s)]. prefix sub (drop n s))"

definition extension_kind :: "string \<Rightarrow> InteractionKind" where
  "extension_kind name =
     (let lower = ToLower name in
      if contains lower ''permission'' \<or> contains lower ''approval'' then InteractionPermission
      else if contains lower ''plan'' then InteractionPlan
      else if contains lower ''question'' \<or> contains lower ''ask'' then InteractionChoice
      else InteractionForm)"

text \<open>
  What the agent gets: \<open>_result\<close> alone, the values, or action, option and message. A nil map of
  values and an empty one are the same here.
\<close>

definition extension_answer :: "InteractionResponse \<Rightarrow> any" where
  "extension_answer r =
     (if rs_Values r \<noteq> [] then
        (case rs_Values r of [(k, v)] \<Rightarrow> if k = ''_result'' then v else JObj (rs_Values r) | vs \<Rightarrow> JObj vs)
      else JObj (map_copy [] [(''action'', JStr (rs_Action r)), (''optionId'', JStr (rs_OptionID r)),
             (''message'', JStr (rs_Message r))]))"

definition extension_cancel :: any where
  "extension_cancel = JObj [(''action'', JStr ''cancel'')]"

section \<open>What they promise\<close>

text \<open>
  C31: a permission answer never chooses against the user. The option chosen for an answer is one
  of those offered. An answer that names an option gets that option or cancels; one that names
  none gets an option that allows exactly when its action is \<open>approve\<close>, \<open>allow\<close> or
  \<open>accept\<close>, the first such option offered.
\<close>

theorem permission_choice_sound:
  assumes "permission_outcome r opts = Some i"
  shows "\<exists>p \<in> set opts. po_OptionId p = i
     \<and> (if TrimSpace (rs_OptionID r) \<noteq> [] then i = TrimSpace (rs_OptionID r)
        else allows p = wants_allow r \<and> (\<exists>before after. opts = before @ p # after \<and> (\<forall>q \<in> set before. allows q \<noteq> wants_allow r)))"
proof (cases "TrimSpace (rs_OptionID r) = []")
  case True
  then obtain p rest where f: "filter (\<lambda>p. allows p = wants_allow r) opts = p # rest" and i: "i = po_OptionId p"
    using assms by (auto simp: permission_outcome_def choosePermissionOption_def Let_def split: list.splits if_splits)
  then obtain us vs where "opts = us @ p # vs" "\<forall>u\<in>set us. allows u \<noteq> wants_allow r" "allows p = wants_allow r"
    by (auto simp: filter_eq_Cons_iff)
  then show ?thesis using i True by (intro bexI [of _ p]) auto
next
  case False
  then show ?thesis using assms
    by (auto simp: permission_outcome_def choosePermissionOption_def Let_def split: if_splits)
qed

definition demo_options :: "PermissionOption list" where
  "demo_options = [\<lparr>po_OptionId = ''no'', po_Name = ''Reject'', po_Kind = RejectOnce\<rparr>,
     \<lparr>po_OptionId = ''yes'', po_Name = ''Allow'', po_Kind = AllowOnce\<rparr>]"

definition demo_answer :: "string \<Rightarrow> InteractionResponse" where
  "demo_answer action = \<lparr>rs_RequestID = ''1'', rs_Action = action, rs_OptionID = [], rs_Message = [], rs_Values = []\<rparr>"

theorem permission_choice_sound_witness:
  "permission_outcome (demo_answer ''approve'') demo_options = Some ''yes''
     \<and> (\<exists>p \<in> set demo_options. po_OptionId p = ''yes'' \<and> allows p)"
proof -
  have o: "permission_outcome (demo_answer ''approve'') demo_options = Some ''yes''"
    and t: "TrimSpace (rs_OptionID (demo_answer ''approve'')) = []" and w: "wants_allow (demo_answer ''approve'')"
    by code_simp+
  show ?thesis using permission_choice_sound [OF o] t w o by auto
qed

text \<open>An action in another case is no approval: the answer \<open>Approve\<close> rejects.\<close>

lemma capital_approve_rejects: "permission_outcome (demo_answer ''Approve'') demo_options = Some ''no''"
  by code_simp

lemma required_order_set:
  "set (required_order props ns seen) = set seen \<union> {n \<in> set ns. map_of props n \<noteq> None}"
  by (induction ns arbitrary: seen) auto

lemma required_order_distinct: "distinct seen \<Longrightarrow> distinct (required_order props ns seen)"
  by (induction ns arbitrary: seen) auto

lemma field_order_set: "set (field_order s) = fst ` set (es_Properties s)"
  by (auto simp: field_order_def Let_def required_order_set map_of_eq_None_iff image_iff dest: map_of_SomeD)

text \<open>
  A form asks for each property once. The fields of an elicitation are the properties of its
  schema whose names do not end in \<open>__note\<close>, each exactly once, those that are required first;
  a field is marked required exactly when the schema requires it.
\<close>

theorem elicitation_fields_complete:
  assumes "map_wf (es_Properties s)"
  shows "set (map if_ID (elicitationFields (ElicitForm m s)))
       = {n \<in> fst ` set (es_Properties s). \<not> suffix note_suffix n}
     \<and> distinct (map if_ID (elicitationFields (ElicitForm m s)))
     \<and> (\<forall>f \<in> set (elicitationFields (ElicitForm m s)). if_Required f \<longleftrightarrow> if_ID f \<in> set (es_Required s))
     \<and> (\<exists>k. \<forall>i < length (elicitationFields (ElicitForm m s)).
          if_Required (elicitationFields (ElicitForm m s) ! i) \<longleftrightarrow> i < k)"
proof -
  let ?ok = "\<lambda>n. \<not> suffix note_suffix n"
  let ?req = "required_order (es_Properties s) (es_Required s) []"
  let ?rest = "filter (\<lambda>n. n \<notin> set ?req) (map fst (es_Properties s))"
  let ?R = "map (elicitation_field s) (filter ?ok ?req)" and ?O = "map (elicitation_field s) (filter ?ok ?rest)"
  have fs: "elicitationFields (ElicitForm m s) = ?R @ ?O"
    by (simp add: elicitationFields_def field_order_def Let_def)
  have ident: "if_ID (elicitation_field s n) = n" for n by (simp add: elicitation_field_def Let_def)
  have names: "map if_ID (elicitationFields (ElicitForm m s)) = filter ?ok (field_order s)"
    by (simp add: elicitationFields_def comp_def ident)
  have req: "if_Required (elicitation_field s n) \<longleftrightarrow> n \<in> set ?req" for n
    by (auto simp: elicitation_field_def Let_def required_order_set)
  have dist: "distinct (field_order s)"
    using assms by (auto simp: field_order_def Let_def map_wf_def strict_sorted_iff required_order_distinct)
  have mem: "if_Required f \<longleftrightarrow> if_ID f \<in> set (es_Required s)" if "f \<in> set (elicitationFields (ElicitForm m s))" for f
  proof -
    note field = that
    obtain n where n: "f = elicitation_field s n" "n \<in> set (field_order s)"
      using field by (auto simp: elicitationFields_def)
    then have "map_of (es_Properties s) n \<noteq> None" by (auto simp: field_order_set map_of_eq_None_iff)
    then show ?thesis by (auto simp: n(1) ident req required_order_set)
  qed
  have cut: "if_Required ((?R @ ?O) ! i) \<longleftrightarrow> i < length ?R" if "i < length (?R @ ?O)" for i
  proof (cases "i < length ?R")
    case True
    then have "filter ?ok ?req ! i \<in> set ?req" using nth_mem [of i "filter ?ok ?req"] by auto
    then show ?thesis using True by (simp add: nth_append req)
  next
    case False
    then have j: "i - length ?R < length (filter ?ok ?rest)" using that by simp
    then have "filter ?ok ?rest ! (i - length ?R) \<notin> set ?req" using nth_mem [OF j] by auto
    then show ?thesis using False j by (simp add: nth_append req)
  qed
  show ?thesis
  proof (intro conjI ballI)
    show "set (map if_ID (elicitationFields (ElicitForm m s))) = {n \<in> fst ` set (es_Properties s). ?ok n}"
      unfolding names by (auto simp: field_order_set)
    show "distinct (map if_ID (elicitationFields (ElicitForm m s)))" unfolding names using dist by simp
    show "\<exists>k. \<forall>i < length (elicitationFields (ElicitForm m s)).
        if_Required (elicitationFields (ElicitForm m s) ! i) \<longleftrightarrow> i < k"
      unfolding fs using cut by (intro exI [of _ "length ?R"]) blast
  qed (rule mem)
qed

definition demo_schema :: ElicitationSchema where
  "demo_schema = \<lparr>es_Properties = [(''age'', JObj []), (''name'', JObj []), (''name__note'', JObj [])], es_Required = [''name'', ''zip'']\<rparr>"

theorem elicitation_fields_complete_witness:
  "map if_ID (elicitationFields (ElicitForm [] demo_schema)) = [''name'', ''age'']
     \<and> distinct (map if_ID (elicitationFields (ElicitForm [] demo_schema)))"
proof -
  have "map_wf (es_Properties demo_schema)" by code_simp
  moreover have "map if_ID (elicitationFields (ElicitForm [] demo_schema)) = [''name'', ''age'']" by code_simp
  ultimately show ?thesis using elicitation_fields_complete [of demo_schema "[]"] by blast
qed

end
