(* ===== verification/Acp_Updates.thy ===== *)
theory Acp_Updates
  imports Acp_Config Acp_Interaction
begin

text \<open>
  How the adapter of \<open>src/adapters/acpx/acpx.go\<close> translates between the protocol and the host:
  the content of a prompt, the text of tool output, the table of running tools, the events of a
  session update, the messages of older agents, and what \<open>emitEvent\<close> adds to every event.
\<close>

section \<open>Prompts and content\<close>

definition image_type :: "string \<Rightarrow> bool" where
  "image_type mime \<longleftrightarrow> prefix ''image/'' (ToLower mime)"

definition attachment_block :: "Attachment \<Rightarrow> ContentBlock list" where
  "attachment_block a =
     (if image_type (at_MimeType a) \<and> at_DataBase64 a \<noteq> [] then [BImage (at_DataBase64 a) (at_MimeType a)]
      else let path = TrimSpace (at_Path a); name = TrimSpace (at_Name a) in
        if path = [] then []
        else [BResourceLink (if name = [] then BasePath path else name) (''file://'' @ path)])"

definition promptBlocks :: "SendTurnRequest \<Rightarrow> ContentBlock list" where
  "promptBlocks q =
     (let prompt = TrimSpace (tr_Prompt q) in
      (if prompt \<noteq> [] then [BText prompt] else []) @ concat (map attachment_block (tr_Attachments q)))"

definition contentText :: "ContentBlock \<Rightarrow> string" where
  "contentText b =
     (case b of
        BText t \<Rightarrow> t | BResourceLink n u \<Rightarrow> u | BImage d m \<Rightarrow> ''[image]'' | BAudio d m \<Rightarrow> ''[audio]''
      | BResource r \<Rightarrow> ''[resource]'' | BNone \<Rightarrow> [])"

definition image_of :: "ToolCallContent \<Rightarrow> any list" where
  "image_of c =
     (case c of
        TContent (BImage d m) \<Rightarrow>
          if d = [] then []
          else [JObj (map_copy [] [(''mime_type'', JStr (if m = [] then ''image/png'' else m)), (''data_base64'', JStr d)])]
      | _ \<Rightarrow> [])"

definition toolContentImages :: "ToolCallContent list \<Rightarrow> any list" where
  "toolContentImages content = concat (map image_of content)"

definition normalizedToolData :: "payload \<Rightarrow> ToolCallContent list \<Rightarrow> payload" where
  "normalizedToolData data content =
     (let images = toolContentImages content in
      if images = [] then data else map_put ''images'' (JArr images) data)"

definition content_part :: "ToolCallContent \<Rightarrow> string list" where
  "content_part c =
     (case c of
        TContent b \<Rightarrow> (let t = contentText b in if t \<noteq> [] \<and> t \<noteq> ''[image]'' then [t] else [])
      | TDiff p \<Rightarrow> (if p \<noteq> [] then [p] else [])
      | TTerminal t \<Rightarrow> [])"

definition toolContentText :: "ToolCallContent list \<Rightarrow> any \<Rightarrow> string" where
  "toolContentText content raw =
     (let parts = concat (map content_part content) in
      if parts \<noteq> [] then JoinBytes [newline] parts
      else case raw of JStr s \<Rightarrow> s | JNull \<Rightarrow> [] | v \<Rightarrow> marshal v)"

section \<open>Running tools\<close>

record toolState =
  to_kind :: string
  to_target :: string

record tool_table =
  tt_tools :: "toolState gomap"
  tt_active :: bool

definition no_tools :: tool_table where
  "no_tools = \<lparr>tt_tools = [], tt_active = False\<rparr>"

definition rememberTool :: "string \<Rightarrow> ToolDisplay option \<Rightarrow> tool_table \<Rightarrow> tool_table" where
  "rememberTool ident display t =
     (case display of
        None \<Rightarrow> t
      | Some d \<Rightarrow>
          if ident = [] then t
          else t\<lparr>tt_tools := map_put ident \<lparr>to_kind = td_Kind d, to_target = td_Target d\<rparr> (tt_tools t)\<rparr>)"

definition previous_tool :: "string \<Rightarrow> tool_table \<Rightarrow> toolState" where
  "previous_tool ident t =
     (case map_of (tt_tools t) ident of Some s \<Rightarrow> s | None \<Rightarrow> \<lparr>to_kind = [], to_target = []\<rparr>)"

definition merged_display :: "string \<Rightarrow> ToolDisplay option \<Rightarrow> tool_table \<Rightarrow> ToolDisplay" where
  "merged_display ident display t =
     (let d0 = (case display of Some d \<Rightarrow> d
            | None \<Rightarrow> \<lparr>td_ID = ident, td_Title = [], td_Kind = [], td_Status = [], td_Command = [], td_Target = []\<rparr>);
          p = previous_tool ident t;
          d1 = (if td_Kind d0 = [] then d0\<lparr>td_Kind := to_kind p\<rparr> else d0);
          d2 = (if td_Target d1 = [] then d1\<lparr>td_Target := to_target p\<rparr> else d1) in
      if td_Title d2 = [] then d2\<lparr>td_Title := DefaultToolTitle (td_Kind d2) (td_Command d2)\<rparr> else d2)"

definition mergeTool :: "string \<Rightarrow> ToolDisplay option \<Rightarrow> tool_table \<Rightarrow> ToolDisplay \<times> tool_table" where
  "mergeTool ident display t =
     (let d = merged_display ident display t in
      (d, t\<lparr>tt_tools :=
         (if td_Status d = ''completed'' \<or> td_Status d = ''failed'' then map_del ident (tt_tools t)
          else map_put ident \<lparr>to_kind = td_Kind d, to_target = td_Target d\<rparr> (tt_tools t))\<rparr>))"

section \<open>Session updates\<close>

definition plan_entry :: "PlanEntry \<Rightarrow> any list" where
  "plan_entry e =
     (let content = TrimSpace (pe_Content e); status = TrimSpace (pe_Status e) in
      if content = [] \<or> (status \<noteq> ''pending'' \<and> status \<noteq> ''in_progress'' \<and> status \<noteq> ''completed'') then []
      else [JObj (map_copy [] [(''content'', JStr content), (''status'', JStr status)])])"

definition normalizedPlanEntries :: "PlanEntry list \<Rightarrow> any list" where
  "normalizedPlanEntries es = concat (map plan_entry es)"

definition slash_command :: "AvailableCommand \<Rightarrow> BackendSlashCommand" where
  "slash_command c = \<lparr>sc_Name = ac_Name c, sc_Description = ac_Description c,
     sc_InputHint = (case ac_Hint c of None \<Rightarrow> [] | Some h \<Rightarrow> h)\<rparr>"

definition message_event :: "string \<Rightarrow> ContentChunk \<Rightarrow> Event list" where
  "message_event role c =
     (let t = contentText (ch_Content c) in
      if t = [] then []
      else [(new_event EventMessage)\<lparr>ev_Role := role, ev_Message := t, ev_Data := map_put ''delta'' (JStr t) (ch_Object c)\<rparr>])"

definition changes_files :: "ToolDisplay \<Rightarrow> bool" where
  "changes_files d \<longleftrightarrow> td_Status d = ''completed'' \<and> td_Kind d \<in> {''edit'', ''delete'', ''move''} \<and> td_Target d \<noteq> []"

text \<open>\<open>emitUpdate\<close>: the table of tools after it and the events it emits.\<close>

definition emitUpdate :: "SessionUpdate \<Rightarrow> tool_table \<Rightarrow> Event list \<times> tool_table" where
  "emitUpdate u t =
     (case u of
        UserMessageChunk c \<Rightarrow> (message_event ''user'' c, t)
      | AgentMessageChunk c \<Rightarrow> (message_event ''assistant'' c, t)
      | AgentThoughtChunk c \<Rightarrow>
          (let s = contentText (ch_Content c) in
           (if s = [] then [] else [(new_event EventThinking)\<lparr>ev_Message := s, ev_Data := [(''delta'', JStr s)]\<rparr>], t))
      | UToolCall c \<Rightarrow>
          (let d = ToolDisplayFromACP (tc_Object c) (tc_Status c) in
           ([(new_event EventToolStarted)\<lparr>ev_ToolDisplay := d,
               ev_Data := normalizedToolData (tc_Object c) (tc_Content c)\<rparr>],
            (rememberTool (tc_ToolCallId c) d t)\<lparr>tt_active := True\<rparr>))
      | UToolCallUpdate c \<Rightarrow>
          (let (d, t') = mergeTool (tu_ToolCallId c) (ToolDisplayFromACP (tu_Object c) (tu_Status c)) t in
           ([(new_event EventToolOutput)\<lparr>ev_Message := toolContentText (tu_Content c) (tu_RawOutput c),
               ev_ToolDisplay := Some d, ev_Data := normalizedToolData (tu_Object c) (tu_Content c)\<rparr>]
            @ (if changes_files d then
                 [(new_event EventFileChanged)\<lparr>ev_Data := map_copy []
                    [(''path'', JStr (td_Target d)), (''tool_call_id'', JStr (td_ID d))]\<rparr>] else []), t'))
      | UPlan p \<Rightarrow>
          ([(new_event EventTodoUpdate)\<lparr>ev_Data := map_put ''todos'' (JArr (normalizedPlanEntries (pl_Entries p))) (pl_Object p)\<rparr>], t)
      | AvailableCommandsUpdate cs \<Rightarrow>
          ([(new_event EventAvailableCommands)\<lparr>ev_Data :=
              [(''available_commands'', JArr (map (enc_command \<circ> slash_command) cs))]\<rparr>], t)
      | ConfigOptionUpdate opts \<Rightarrow> (config_events opts None, t)
      | CurrentModeUpdate m \<Rightarrow> (mode_events m, t)
      | SessionInfoUpdate \<Rightarrow> ([], t)
      | UsageUpdate obj \<Rightarrow> ([(new_event EventTraceUpdated)\<lparr>ev_Data := obj\<rparr>], t))"

section \<open>Messages of older agents\<close>

definition knownSessionUpdate :: "string \<Rightarrow> bool" where
  "knownSessionUpdate v \<longleftrightarrow>
     v \<in> {''user_message_chunk'', ''agent_message_chunk'', ''agent_thought_chunk'', ''tool_call'', ''tool_call_update'',
          ''plan'', ''available_commands_update'', ''current_mode_update'', ''config_option_update'',
          ''session_info_update'', ''usage_update''}"

definition legacySessionUpdateEvent :: "payload \<Rightarrow> payload \<Rightarrow> string \<Rightarrow> Event option" where
  "legacySessionUpdateEvent ps update discriminator =
     (let base = (\<lambda>ty m. (new_event ty)\<lparr>ev_Message := m, ev_BackendSessionID := stringValue ps ''sessionId'', ev_Data := ps\<rparr>) in
      if discriminator = ''plan_update'' then
        (let m = stringAtValue update [''plan'', ''content''] in
         Some (base EventPlanUpdate
           (if m = [] then FirstNonEmpty [stringValue update ''content'', stringValue update ''message''] else m)))
      else if discriminator = ''plan_removed'' then Some (base EventPlanUpdate ''Plan removed.'')
      else if discriminator = ''error'' then Some (base EventTurnFailed (stringValue update ''message''))
      else None)"

text \<open>What the observer does with one inbound message, apart from replayed turns.\<close>

datatype observed = ObservedError | ObservedDone | ObservedEvent Event | ObservedNothing

definition observe_update :: "bool \<Rightarrow> string \<Rightarrow> json option \<Rightarrow> observed" where
  "observe_update completeOnDone name ps =
     (if name \<noteq> ''session/update'' then ObservedNothing
      else case ps of
        Some (JObj m) \<Rightarrow>
          (let update = mapValue m ''update''; d = stringValue update ''sessionUpdate'' in
           if d = ''done'' \<and> completeOnDone then ObservedDone
           else case legacySessionUpdateEvent m update d of
             Some e \<Rightarrow> ObservedEvent e
           | None \<Rightarrow>
               if knownSessionUpdate d then ObservedNothing
               else ObservedEvent ((new_event EventTraceUpdated)\<lparr>ev_Data :=
                 map_copy [] [(''provider_method'', JStr name), (''params'', JObj m)]\<rparr>))
      | Some JNull \<Rightarrow>
          ObservedEvent ((new_event EventTraceUpdated)\<lparr>ev_Data :=
            map_copy [] [(''provider_method'', JStr name), (''params'', JNull)]\<rparr>)
      | _ \<Rightarrow> ObservedError)"

section \<open>What every event gets\<close>

definition provider_fields :: "string list" where
  "provider_fields = [''provider_event_id'', ''messageId'', ''message_id'', ''planId'', ''plan_id'', ''itemId'', ''item_id'', ''id'']"

definition eventProviderID :: "payload \<Rightarrow> string" where
  "eventProviderID data =
     first_found id (concat (map (\<lambda>source. map (stringValue source) provider_fields)
       [data, mapValue data ''item'', mapValue data ''update'', mapValue (mapValue data ''update'') ''plan'']))"

definition or_default :: "string \<Rightarrow> string \<Rightarrow> string" where
  "or_default s d = (if s = [] then d else s)"

text \<open>With the backend, the current turn and the agent's session.\<close>

definition complete_event :: "Backend \<Rightarrow> string \<Rightarrow> string \<Rightarrow> Event \<Rightarrow> Event" where
  "complete_event backend turn session e =
     (let provider = eventProviderID (ev_Data e) in
      e\<lparr>ev_Data := (if provider = [] then ev_Data e else map_put ''provider_event_id'' (JStr provider) (ev_Data e)),
        ev_Backend := backend,
        ev_BackendTurnID := or_default (ev_BackendTurnID e) turn,
        ev_BackendSessionID := or_default (ev_BackendSessionID e) session,
        ev_BackendThreadID := or_default (ev_BackendThreadID e) session\<rparr>)"

text \<open>\<open>markReplay\<close> while replaying: the mark, and the start mark on the first event.\<close>

definition mark_replay :: "bool \<Rightarrow> bool \<Rightarrow> Event \<Rightarrow> Event" where
  "mark_replay replaying first e =
     (if \<not> replaying then e
      else let l = map_put EventLocalReplay (JBool True) (ev_Local e) in
        e\<lparr>ev_Local := (if first then map_put EventLocalReplayStart (JBool True) l else l)\<rparr>)"

section \<open>Forked sessions\<close>

record forkInteractionPolicy =
  fo_allowedToolPrefixes :: "string list"
  fo_tools :: "string gomap"

definition fork_prefixes :: "ForkMCPServer list \<Rightarrow> string list" where
  "fork_prefixes servers =
     map (\<lambda>n. ''mcp__'' @ n @ ''__'') (filter (\<lambda>n. n \<noteq> []) (map (\<lambda>s. TrimSpace (fm_Name s)) servers))"

definition fork_tool_name :: "ToolCall \<Rightarrow> string" where
  "fork_tool_name c =
     TrimSpace (FirstNonEmpty
       [stringValue (mapValue (mapValue (tc_Object c) ''_meta'') ''claudeCode'') ''toolName'',
        stringValue (tc_Object c) ''toolName'', tc_Title c])"

definition observeForkUpdate :: "string \<Rightarrow> SessionUpdate \<Rightarrow> forkInteractionPolicy gomap \<Rightarrow> forkInteractionPolicy gomap" where
  "observeForkUpdate sid u forks =
     (case u of
        UToolCall c \<Rightarrow>
          (case map_of forks sid of
             Some p \<Rightarrow> map_put sid (p\<lparr>fo_tools := map_put (tc_ToolCallId c) (fork_tool_name c) (fo_tools p)\<rparr>) forks
           | None \<Rightarrow> forks)
      | _ \<Rightarrow> forks)"

definition approve :: InteractionResponse where
  "approve = \<lparr>rs_RequestID = [], rs_Action = ''approve'', rs_OptionID = [], rs_Message = [], rs_Values = []\<rparr>"

definition forkPermission :: "forkInteractionPolicy gomap \<Rightarrow> RequestPermissionRequest \<Rightarrow> PermissionOutcome" where
  "forkPermission forks q =
     (let policy = map_of forks (rp_SessionId q);
          tool = (case policy of
             None \<Rightarrow> [] | Some p \<Rightarrow> (case map_of (fo_tools p) (tu_ToolCallId (rp_ToolCall q)) of None \<Rightarrow> [] | Some n \<Rightarrow> n));
          prefixes = (case policy of None \<Rightarrow> [] | Some p \<Rightarrow> fo_allowedToolPrefixes p) in
      if \<exists>p \<in> set prefixes. prefix p tool then permission_outcome approve (rp_Options q) else None)"

text \<open>
  C30: the agent of a forked session gets a permission without the user only for a tool of the servers
  the fork was given: the tool call was announced under a name that starts with \<open>mcp__\<close>, the name of
  such a server and two underscores, and the option chosen is one of those offered that allows. Without
  a policy nothing is allowed.
\<close>
theorem fork_permission_sound:
  assumes "forkPermission forks q = Some i"
    and "\<And>p. map_of forks (rp_SessionId q) = Some p \<Longrightarrow> fo_allowedToolPrefixes p = fork_prefixes servers"
  shows "\<exists>p tool s. map_of forks (rp_SessionId q) = Some p \<and> map_of (fo_tools p) (tu_ToolCallId (rp_ToolCall q)) = Some tool
     \<and> s \<in> set servers \<and> TrimSpace (fm_Name s) \<noteq> [] \<and> prefix (''mcp__'' @ TrimSpace (fm_Name s) @ ''__'') tool
     \<and> (\<exists>opt \<in> set (rp_Options q). po_OptionId opt = i \<and> allows opt)"
proof -
  obtain p x where p: "map_of forks (rp_SessionId q) = Some p" and x: "x \<in> set (fo_allowedToolPrefixes p)"
    and pre: "prefix x (case map_of (fo_tools p) (tu_ToolCallId (rp_ToolCall q)) of None \<Rightarrow> [] | Some n \<Rightarrow> n)"
    and out: "permission_outcome approve (rp_Options q) = Some i"
    using assms(1) unfolding forkPermission_def Let_def by (auto split: if_splits option.splits)
  obtain s where s: "s \<in> set servers" "TrimSpace (fm_Name s) \<noteq> []" and e: "x = ''mcp__'' @ TrimSpace (fm_Name s) @ ''__''"
    using x assms(2) [OF p] by (auto simp: fork_prefixes_def)
  then obtain tool where tool: "map_of (fo_tools p) (tu_ToolCallId (rp_ToolCall q)) = Some tool" "prefix x tool"
    using pre by (auto split: option.splits)
  have t: "TrimSpace [] = []" by code_simp
  obtain opt where "opt \<in> set (rp_Options q)" "po_OptionId opt = i" "allows opt"
    using out by (auto simp: permission_outcome_def choosePermissionOption_def approve_def t wants_allow_def Let_def
        filter_eq_Cons_iff split: list.splits if_splits)
  then show ?thesis using p s e tool by blast
qed

definition fork_servers :: "ForkMCPServer list" where
  "fork_servers = [\<lparr>fm_Type = ''stdio'', fm_Name = ''db'', fm_Command = ''db-server'', fm_Args = [], fm_Env = [], fm_URL = [],
     fm_Headers = []\<rparr>]"

definition fork_policies :: "forkInteractionPolicy gomap" where
  "fork_policies = [(''f'', \<lparr>fo_allowedToolPrefixes = fork_prefixes fork_servers, fo_tools = [(''t'', ''mcp__db__query'')]\<rparr>)]"

definition fork_request :: RequestPermissionRequest where
  "fork_request = \<lparr>rp_SessionId = ''f'', rp_ToolCall = \<lparr>tu_ToolCallId = ''t'', tu_Title = None, tu_Status = [], tu_Content = [],
     tu_RawOutput = JNull, tu_Object = []\<rparr>, rp_Options = demo_options\<rparr>"

theorem fork_permission_sound_witness:
  "forkPermission fork_policies fork_request = Some ''yes''
     \<and> (\<exists>p tool. map_of fork_policies ''f'' = Some p \<and> map_of (fo_tools p) ''t'' = Some tool \<and> prefix ''mcp__db__'' tool)"
proof -
  have o: "forkPermission fork_policies fork_request = Some ''yes''" by code_simp
  have f: "rp_SessionId fork_request = ''f''" "tu_ToolCallId (rp_ToolCall fork_request) = ''t''"
    by (simp_all add: fork_request_def)
  have s: "''mcp__'' @ TrimSpace (fm_Name s) @ ''__'' = ''mcp__db__''" if "s \<in> set fork_servers" for s
  proof -
    have "TrimSpace ''db'' = ''db''" by code_simp
    then show ?thesis using that by (simp add: fork_servers_def)
  qed
  have "fo_allowedToolPrefixes p = fork_prefixes fork_servers" if "map_of fork_policies (rp_SessionId fork_request) = Some p" for p
    using that by (simp add: fork_policies_def fork_request_def split: if_splits) auto
  then show ?thesis using fork_permission_sound [OF o] o s unfolding f by metis
qed

end
