(* ===== verification/Acp_Session.thy ===== *)
theory Acp_Session
  imports Acp_Updates
begin

text \<open>
  The state of the adapter of \<open>src/adapters/acpx/acpx.go\<close> and the critical sections on it: the
  table of sessions, and for each session its turn, its tools, its pending interactions, its
  selections, its replay and its forks. An operation is one stretch of code under one lock, or one
  call to the agent; \<open>perform\<close> runs it. What the agent and the system answer is the argument
  \<open>x\<close>. Sessions, contexts, prompts and interactions are numbered in the order they are made.
\<close>

section \<open>Configuration\<close>

record AgentConfig =
  ag_Backend :: Backend
  ag_Command :: string
  ag_ClientName :: string
  ag_ClientVersion :: string
  ag_LoadSessionFirst :: bool
  ag_RestartOnExit :: bool
  ag_LegacyExtensions :: bool
  ag_BestEffortConfiguration :: bool
  ag_SessionModeValues :: "string list"
  ag_CompleteOnDone :: bool
  ag_ModelInPrompt :: bool
  ag_ResumeTurnCount :: "(json \<Rightarrow> nat) option"
  ag_ReplayTurnIdentity :: "(json \<Rightarrow> string) option"

definition New_agent :: "AgentConfig \<Rightarrow> AgentConfig" where
  "New_agent c =
     (let name = TrimSpace (ag_ClientName c) in
      c\<lparr>ag_Backend := TrimSpace (ag_Backend c), ag_Command := TrimSpace (ag_Command c),
        ag_ClientName := (if name = [] then ''durable-acp'' else name),
        ag_ClientVersion := (if ag_ClientVersion c = [] then ''1'' else ag_ClientVersion c)\<rparr>)"

definition containsString :: "string list \<Rightarrow> string \<Rightarrow> bool" where
  "containsString vs v \<longleftrightarrow> (\<exists>c \<in> set vs. TrimSpace c = v)"

section \<open>State\<close>

text \<open>
  \<open>as_turnCancel\<close> is the context of the turn, \<open>as_promptDone\<close> the channel its goroutine closes;
  \<open>as_interactions\<close> maps identifiers to numbers of pending interactions; \<open>as_exited\<close> says that
  the agent's process is gone.
\<close>

record AgentSession =
  as_backendID :: string
  as_worktree :: string
  as_startup :: "SessionNotification list"
  as_model :: string
  as_reasoning :: string
  as_mode :: string
  as_options :: "SessionConfigOption list"
  as_modes :: "SessionModeState option"
  as_promptMu :: bool
  as_turn :: nat
  as_turnID :: string
  as_turnCancel :: "nat option"
  as_promptDone :: "nat option"
  as_tools :: tool_table
  as_interactions :: "nat gomap"
  as_interactionID :: nat
  as_done :: bool
  as_replaying :: bool
  as_replayFirst :: bool
  as_replayTurns :: "string list"
  as_forks :: "forkInteractionPolicy gomap"
  as_exited :: bool

definition new_agent_session :: "string \<Rightarrow> AgentSession" where
  "new_agent_session worktree =
     \<lparr>as_backendID = [], as_worktree = worktree, as_startup = [], as_model = [], as_reasoning = [], as_mode = [],
      as_options = [], as_modes = None, as_promptMu = False, as_turn = 0, as_turnID = [], as_turnCancel = None,
      as_promptDone = None, as_tools = no_tools, as_interactions = [], as_interactionID = 0, as_done = False,
      as_replaying = False, as_replayFirst = False, as_replayTurns = [], as_forks = [], as_exited = False\<rparr>"

record pendingInteraction =
  pi_request :: InteractionRequest
  pi_response :: "InteractionResponse option"

text \<open>
  \<open>aw_emitted\<close> is what the sinks received, with the session it came from; \<open>aw_ended\<close> lists the
  turns ended by an event of the turn's own goroutine, an interrupt or a done completion.
\<close>

record AgentWorld =
  aw_sessions :: "nat gomap"
  aw_objects :: "AgentSession list"
  aw_contexts :: nat
  aw_cancelled :: "nat list"
  aw_prompts :: nat
  aw_finished :: "nat list"
  aw_pending :: "pendingInteraction list"
  aw_emitted :: "(nat \<times> Event) list"
  aw_ended :: "(nat \<times> string) list"

definition new_world :: AgentWorld where
  "new_world = \<lparr>aw_sessions = [], aw_objects = [], aw_contexts = 0, aw_cancelled = [], aw_prompts = 0,
     aw_finished = [], aw_pending = [], aw_emitted = [], aw_ended = []\<rparr>"

section \<open>Operations\<close>

datatype table_op =
  XSession string | XPublish string nat | XReplace string nat nat | XWithdraw string | XOpen string

datatype session_op =
  SStop | SCloseConn | SExited | SWorktree | SBackend | SSetBackend string
| SArrive SessionNotification | SUpdate SessionUpdate | SBeginReplay | SEndReplay | SReplayTurn string | SSeed nat
| SMark string Event | SSink Event

datatype config_op =
  KInit "SessionConfigOption list option" "SessionModeState option"
| KControls "SessionConfigOption list option" "SessionModeState option"
| KSelected string | KSetSelected string string | KOptions | KModes | KCurrentMode string

datatype turn_op =
  PTryLock | PLock | PUnlock | PBegin | PCount | PStore nat | PSet string "nat option" | PDone
| PTurn | PFinish string | PTake | PTakeIf string | PCancelTurn | PEnd string Event | PClearTools | PToolActive

datatype ask_op =
  QAwait string InteractionRequest | QReceive nat | QRemove string | QTake string | QAnswer nat InteractionResponse
| QCancelAll | QAny
| QForkUpdate string SessionUpdate | QForkPermission RequestPermissionRequest
| QSetFork string forkInteractionPolicy | QRemoveFork string

datatype context_op = NCancel nat | NCancelled nat | NCloseDone nat | NWaitDone nat

text \<open>Calls to the agent and the system.\<close>

datatype remote_op =
  RStatWorktree string | RResolve string | RNewSession nat | RLoadSession nat | RResumeSession nat
| RSetOption nat string string | RSetMode nat string | RPrompt nat nat "ContentBlock list" string | RCancel nat
| RForkPrompt nat string string | RCloseBackend nat string | RCallProvider nat string payload
| RProbe | RProbeSession | RProbeOption string string | RProbeCommands | RProbeClose

datatype agent_op =
  OTable table_op | OSession nat session_op | OConfig nat config_op | OTurn nat turn_op | OAsk nat ask_op
| OContext context_op | ORemote remote_op

datatype prompt_result = Stopped string | PromptError bool string

text \<open>
  What an operation returns; each uses the fields it needs. In answers of the agent
  \<open>an_bool\<close> says that the call succeeded and \<open>an_text\<close> is the message of an error. An
  absent list of options is \<open>None\<close>.
\<close>

record answer =
  an_bool :: bool
  an_text :: string
  an_nat :: nat
  an_opt :: "nat option"
  an_options :: "SessionConfigOption list option"
  an_modes :: "SessionModeState option"
  an_event :: Event
  an_events :: "Event list"
  an_startup :: "SessionNotification list"
  an_prompt :: prompt_result
  an_response :: "InteractionResponse option"
  an_outcome :: PermissionOutcome
  an_commands :: "AvailableCommand list"

definition no_answer :: answer where
  "no_answer = \<lparr>an_bool = False, an_text = [], an_nat = 0, an_opt = None, an_options = None, an_modes = None,
     an_event = new_event EventTraceUpdated, an_events = [], an_startup = [], an_prompt = Stopped [],
     an_response = None, an_outcome = None, an_commands = []\<rparr>"

abbreviation yes :: "bool \<Rightarrow> answer" where "yes b \<equiv> no_answer\<lparr>an_bool := b\<rparr>"
abbreviation says :: "string \<Rightarrow> answer" where "says s \<equiv> no_answer\<lparr>an_text := s\<rparr>"
abbreviation names :: "nat option \<Rightarrow> answer" where "names n \<equiv> no_answer\<lparr>an_opt := n\<rparr>"

definition obj :: "nat \<Rightarrow> AgentWorld \<Rightarrow> AgentSession" where
  "obj o' w = aw_objects w ! o'"

definition upd :: "nat \<Rightarrow> (AgentSession \<Rightarrow> AgentSession) \<Rightarrow> AgentWorld \<Rightarrow> AgentWorld" where
  "upd o' f w = w\<lparr>aw_objects := (aw_objects w)[o' := f (obj o' w)]\<rparr>"

definition cancel_context :: "nat option \<Rightarrow> AgentWorld \<Rightarrow> AgentWorld" where
  "cancel_context c w = (case c of None \<Rightarrow> w | Some n \<Rightarrow> w\<lparr>aw_cancelled := n # aw_cancelled w\<rparr>)"

section \<open>Sections on the selections\<close>

definition updateControls ::
  "SessionConfigOption list option \<Rightarrow> SessionModeState option \<Rightarrow> AgentSession \<Rightarrow> AgentSession" where
  "updateControls opts modes s =
     (let s1 = (case opts of None \<Rightarrow> s | Some vs \<Rightarrow> s\<lparr>as_options := vs\<rparr>) in
      case modes of None \<Rightarrow> s1 | Some m \<Rightarrow> s1\<lparr>as_modes := Some m\<rparr>)"

definition listed :: "SessionConfigOption list option \<Rightarrow> SessionConfigOption list" where
  "listed opts = (case opts of None \<Rightarrow> [] | Some vs \<Rightarrow> vs)"

definition initializeSelections ::
  "SessionConfigOption list option \<Rightarrow> SessionModeState option \<Rightarrow> AgentSession \<Rightarrow> AgentSession" where
  "initializeSelections opts modes s =
     (let (model, reasoning, mode) = currentSelections (listed opts) in
      s\<lparr>as_model := model, as_reasoning := reasoning,
        as_mode := (case modes of None \<Rightarrow> mode | Some m \<Rightarrow> mt_CurrentModeId m)\<rparr>)"

definition selected :: "string \<Rightarrow> AgentSession \<Rightarrow> string" where
  "selected kind s =
     (if kind = ''model'' then as_model s else if kind = ''reasoning'' then as_reasoning s
      else if kind = ''mode'' then as_mode s else [])"

definition setSelected :: "string \<Rightarrow> string \<Rightarrow> AgentSession \<Rightarrow> AgentSession" where
  "setSelected kind v s =
     (if kind = ''model'' then s\<lparr>as_model := v\<rparr> else if kind = ''reasoning'' then s\<lparr>as_reasoning := v\<rparr>
      else if kind = ''mode'' then s\<lparr>as_mode := v\<rparr> else s)"

definition set_current_mode :: "string \<Rightarrow> AgentSession \<Rightarrow> AgentSession" where
  "set_current_mode m s = s\<lparr>as_modes := map_option (\<lambda>st. st\<lparr>mt_CurrentModeId := m\<rparr>) (as_modes s)\<rparr>"

section \<open>Sections on interactions\<close>

text \<open>The identifier an interaction gets: the preferred one unless it is blank or taken.\<close>

definition interaction_id :: "string \<Rightarrow> AgentSession \<Rightarrow> string \<times> AgentSession" where
  "interaction_id preferred s =
     (let i = TrimSpace preferred; n = as_interactionID s + 1 in
      if i = [] \<or> map_of (as_interactions s) i \<noteq> None
      then (''interaction-'' @ show_nat n, s\<lparr>as_interactionID := n\<rparr>) else (i, s))"

definition awaitInteraction :: "nat \<Rightarrow> string \<Rightarrow> InteractionRequest \<Rightarrow> AgentWorld \<Rightarrow> answer \<times> AgentWorld" where
  "awaitInteraction o' preferred q w =
     (let (i, s) = interaction_id preferred (obj o' w); n = length (aw_pending w); q' = q\<lparr>ir_ID := i\<rparr> in
      (no_answer\<lparr>an_text := i, an_nat := n, an_event := (new_event EventInteractionRequested)\<lparr>ev_Interaction := Some q'\<rparr>\<rparr>,
       (upd o' (\<lambda>_. s\<lparr>as_interactions := map_put i n (as_interactions s)\<rparr>) w)
         \<lparr>aw_pending := aw_pending w @ [\<lparr>pi_request = q', pi_response = None\<rparr>]\<rparr>))"

text \<open>A send into the channel of an interaction, which has room for one answer.\<close>

definition answer_pending :: "nat \<Rightarrow> InteractionResponse \<Rightarrow> AgentWorld \<Rightarrow> AgentWorld" where
  "answer_pending n r w = w\<lparr>aw_pending := (aw_pending w)[n := (aw_pending w ! n)\<lparr>pi_response := Some r\<rparr>]\<rparr>"

definition cancel_pending :: "nat \<Rightarrow> AgentWorld \<Rightarrow> AgentWorld" where
  "cancel_pending n w =
     (if pi_response (aw_pending w ! n) = None
      then answer_pending n \<lparr>rs_RequestID = ir_ID (pi_request (aw_pending w ! n)), rs_Action = ''cancel'',
             rs_OptionID = [], rs_Message = [], rs_Values = []\<rparr> w
      else w)"

definition cancelInteractions :: "nat \<Rightarrow> AgentWorld \<Rightarrow> AgentWorld" where
  "cancelInteractions o' w =
     fold (\<lambda>(i, n). cancel_pending n) (as_interactions (obj o' w)) (upd o' (\<lambda>s. s\<lparr>as_interactions := []\<rparr>) w)"

section \<open>Sections on the turn\<close>

definition begin_turn :: "nat \<Rightarrow> AgentWorld \<Rightarrow> answer \<times> AgentWorld" where
  "begin_turn o' w =
     (let s = obj o' w; n = as_turn s + 1; t = turn_id (as_backendID s) n; c = aw_contexts w; d = aw_prompts w in
      (no_answer\<lparr>an_text := t, an_nat := c, an_opt := Some d\<rparr>,
       (upd o' (\<lambda>_. s\<lparr>as_turn := n, as_turnID := t, as_turnCancel := Some c, as_promptDone := Some d\<rparr>) w)
         \<lparr>aw_contexts := c + 1, aw_prompts := d + 1\<rparr>))"

definition finishTurn :: "nat \<Rightarrow> string \<Rightarrow> AgentWorld \<Rightarrow> answer \<times> AgentWorld" where
  "finishTurn o' t w =
     (if as_turnID (obj o' w) \<noteq> t then (yes False, w)
      else (yes True, cancel_context (as_turnCancel (obj o' w)) (upd o' (\<lambda>s. s\<lparr>as_turnID := [], as_turnCancel := None\<rparr>) w)))"

definition takeTurn :: "nat \<Rightarrow> AgentWorld \<Rightarrow> answer \<times> AgentWorld" where
  "takeTurn o' w =
     (no_answer\<lparr>an_text := as_turnID (obj o' w), an_opt := as_promptDone (obj o' w)\<rparr>,
      upd o' (\<lambda>s. s\<lparr>as_turnID := [], as_turnCancel := None, as_promptDone := None\<rparr>) w)"

definition takeTurnIf :: "nat \<Rightarrow> string \<Rightarrow> AgentWorld \<Rightarrow> answer \<times> AgentWorld" where
  "takeTurnIf o' t w =
     (if as_turnID (obj o' w) \<noteq> t then (names None, w)
      else (names (as_turnCancel (obj o' w)), upd o' (\<lambda>s. s\<lparr>as_turnID := [], as_turnCancel := None\<rparr>) w))"

section \<open>Sections on the startup and replay\<close>

text \<open>Before the session has an identifier its notifications wait; \<open>an_bool\<close> says that this one does.\<close>

definition arrive :: "nat \<Rightarrow> SessionNotification \<Rightarrow> AgentWorld \<Rightarrow> answer \<times> AgentWorld" where
  "arrive o' n w =
     (if as_backendID (obj o' w) = []
      then (yes True, upd o' (\<lambda>s. s\<lparr>as_startup := as_startup s @ [n]\<rparr>) w)
      else (no_answer\<lparr>an_text := as_backendID (obj o' w)\<rparr>, w))"

definition update_section :: "nat \<Rightarrow> SessionUpdate \<Rightarrow> AgentWorld \<Rightarrow> answer \<times> AgentWorld" where
  "update_section o' u w =
     (let (es, t) = emitUpdate u (as_tools (obj o' w)) in
      (no_answer\<lparr>an_events := es\<rparr>,
       upd o' (\<lambda>s. (case u of
           ConfigOptionUpdate opts \<Rightarrow> updateControls (Some opts) None
         | CurrentModeUpdate m \<Rightarrow> set_current_mode m
         | _ \<Rightarrow> id) (s\<lparr>as_tools := t\<rparr>)) w))"

definition replay_turn :: "nat \<Rightarrow> string \<Rightarrow> AgentWorld \<Rightarrow> answer \<times> AgentWorld" where
  "replay_turn o' key w =
     (let s = obj o' w in
      if \<not> as_replaying s \<or> key \<in> set (as_replayTurns s) then (names None, w)
      else (names (Some (length (as_replayTurns s) + 1)), upd o' (\<lambda>s. s\<lparr>as_replayTurns := key # as_replayTurns s\<rparr>) w))"

definition mark_section :: "Backend \<Rightarrow> nat \<Rightarrow> string \<Rightarrow> Event \<Rightarrow> AgentWorld \<Rightarrow> answer \<times> AgentWorld" where
  "mark_section backend o' turn e w =
     (let s = obj o' w; e1 = complete_event backend turn (as_backendID s) e in
      (no_answer\<lparr>an_event := mark_replay (as_replaying s) (as_replayFirst s) e1\<rparr>,
       if as_replaying s then upd o' (\<lambda>s. s\<lparr>as_replayFirst := False\<rparr>) w else w))"

section \<open>Running an operation\<close>

text \<open>\<open>None\<close>: the goroutine waits.\<close>

fun run_table :: "answer \<Rightarrow> table_op \<Rightarrow> AgentWorld \<Rightarrow> answer \<times> AgentWorld" where
  "run_table x (XSession sid) w = (names (map_of (aw_sessions w) (TrimSpace sid)), w)"
| "run_table x (XPublish sid n) w =
     (if map_of (aw_sessions w) sid \<noteq> None then (yes False, w)
      else (yes True, w\<lparr>aw_sessions := map_put sid n (aw_sessions w)\<rparr>))"
| "run_table x (XReplace sid o' n) w =
     (if map_of (aw_sessions w) sid \<noteq> Some o' then (yes False, w)
      else (yes True, w\<lparr>aw_sessions := map_put sid n (aw_sessions w)\<rparr>))"
| "run_table x (XWithdraw sid) w = (names (map_of (aw_sessions w) sid), w\<lparr>aw_sessions := map_del sid (aw_sessions w)\<rparr>)"
| "run_table x (XOpen worktree) w =
     (if an_bool x
      then (names (Some (length (aw_objects w))), w\<lparr>aw_objects := aw_objects w @ [new_agent_session worktree]\<rparr>)
      else (names None, w))"

fun run_session :: "AgentConfig \<Rightarrow> answer \<Rightarrow> nat \<Rightarrow> session_op \<Rightarrow> AgentWorld \<Rightarrow> answer \<times> AgentWorld" where
  "run_session cf x o' SStop w = (yes (\<not> as_done (obj o' w)), upd o' (\<lambda>s. s\<lparr>as_done := True\<rparr>) w)"
| "run_session cf x o' SCloseConn w = (x, upd o' (\<lambda>s. s\<lparr>as_exited := True\<rparr>) w)"
| "run_session cf x o' SExited w = (yes (as_exited (obj o' w)), w)"
| "run_session cf x o' SWorktree w = (says (as_worktree (obj o' w)), w)"
| "run_session cf x o' SBackend w = (says (as_backendID (obj o' w)), w)"
| "run_session cf x o' (SSetBackend b) w =
     (no_answer\<lparr>an_startup := as_startup (obj o' w)\<rparr>, upd o' (\<lambda>s. s\<lparr>as_backendID := b, as_startup := []\<rparr>) w)"
| "run_session cf x o' (SArrive n) w = arrive o' n w"
| "run_session cf x o' (SUpdate u) w = update_section o' u w"
| "run_session cf x o' SBeginReplay w =
     (no_answer, upd o' (\<lambda>s. s\<lparr>as_replaying := True, as_replayFirst := True, as_replayTurns := []\<rparr>) w)"
| "run_session cf x o' SEndReplay w = (no_answer, upd o' (\<lambda>s. s\<lparr>as_replaying := False, as_replayTurns := []\<rparr>) w)"
| "run_session cf x o' (SReplayTurn key) w = replay_turn o' key w"
| "run_session cf x o' (SSeed n) w = (no_answer, upd o' (\<lambda>s. s\<lparr>as_turn := max (as_turn s) n\<rparr>) w)"
| "run_session cf x o' (SMark turn e) w = mark_section (ag_Backend cf) o' turn e w"
| "run_session cf x o' (SSink e) w = (no_answer, w\<lparr>aw_emitted := aw_emitted w @ [(o', e)]\<rparr>)"

fun run_config :: "nat \<Rightarrow> config_op \<Rightarrow> AgentWorld \<Rightarrow> answer \<times> AgentWorld" where
  "run_config o' (KInit opts modes) w = (no_answer, upd o' (initializeSelections opts modes) w)"
| "run_config o' (KControls opts modes) w = (no_answer, upd o' (updateControls opts modes) w)"
| "run_config o' (KSelected kind) w = (says (selected kind (obj o' w)), w)"
| "run_config o' (KSetSelected kind v) w = (no_answer, upd o' (setSelected kind v) w)"
| "run_config o' KOptions w = (no_answer\<lparr>an_options := Some (as_options (obj o' w))\<rparr>, w)"
| "run_config o' KModes w = (no_answer\<lparr>an_modes := as_modes (obj o' w)\<rparr>, w)"
| "run_config o' (KCurrentMode m) w = (no_answer, upd o' (set_current_mode m) w)"

fun run_turn :: "nat \<Rightarrow> turn_op \<Rightarrow> AgentWorld \<Rightarrow> (answer \<times> AgentWorld) option" where
  "run_turn o' PTryLock w =
     (if as_promptMu (obj o' w) then Some (yes False, w) else Some (yes True, upd o' (\<lambda>s. s\<lparr>as_promptMu := True\<rparr>) w))"
| "run_turn o' PLock w =
     (if as_promptMu (obj o' w) then None else Some (no_answer, upd o' (\<lambda>s. s\<lparr>as_promptMu := True\<rparr>) w))"
| "run_turn o' PUnlock w = Some (no_answer, upd o' (\<lambda>s. s\<lparr>as_promptMu := False\<rparr>) w)"
| "run_turn o' PBegin w = Some (begin_turn o' w)"
| "run_turn o' PCount w = Some (no_answer\<lparr>an_nat := as_turn (obj o' w)\<rparr>, w)"
| "run_turn o' (PStore n) w = Some (no_answer, upd o' (\<lambda>s. s\<lparr>as_turn := n\<rparr>) w)"
| "run_turn o' (PSet t d) w =
     Some (no_answer\<lparr>an_nat := aw_contexts w\<rparr>,
       (upd o' (\<lambda>s. s\<lparr>as_turnID := t, as_turnCancel := Some (aw_contexts w), as_promptDone := d\<rparr>) w)
         \<lparr>aw_contexts := aw_contexts w + 1\<rparr>)"
| "run_turn o' PDone w = Some (names (as_promptDone (obj o' w)), w)"
| "run_turn o' PTurn w = Some (says (as_turnID (obj o' w)), w)"
| "run_turn o' (PFinish t) w = Some (finishTurn o' t w)"
| "run_turn o' PTake w = Some (takeTurn o' w)"
| "run_turn o' (PTakeIf t) w = Some (takeTurnIf o' t w)"
| "run_turn o' PCancelTurn w = Some (no_answer, cancel_context (as_turnCancel (obj o' w)) w)"
| "run_turn o' (PEnd t e) w =
     Some (no_answer, w\<lparr>aw_emitted := aw_emitted w @ [(o', e)], aw_ended := aw_ended w @ [(o', t)]\<rparr>)"
| "run_turn o' PClearTools w = Some (no_answer, upd o' (\<lambda>s. s\<lparr>as_tools := no_tools\<rparr>) w)"
| "run_turn o' PToolActive w = Some (yes (tt_active (as_tools (obj o' w))), w)"

fun run_ask :: "answer \<Rightarrow> nat \<Rightarrow> ask_op \<Rightarrow> AgentWorld \<Rightarrow> (answer \<times> AgentWorld) option" where
  "run_ask x o' (QAwait preferred q) w = Some (awaitInteraction o' preferred q w)"
| "run_ask x o' (QReceive n) w =
     (if an_bool x
      then (case pi_response (aw_pending w ! n) of
              Some r \<Rightarrow> Some (no_answer\<lparr>an_response := Some r\<rparr>, w) | None \<Rightarrow> None)
      else if as_done (obj o' w) then Some (no_answer, w) else None)"
| "run_ask x o' (QRemove i) w =
     Some (no_answer, upd o' (\<lambda>s. s\<lparr>as_interactions := map_del i (as_interactions s)\<rparr>) w)"
| "run_ask x o' (QTake i) w =
     Some (names (map_of (as_interactions (obj o' w)) i), upd o' (\<lambda>s. s\<lparr>as_interactions := map_del i (as_interactions s)\<rparr>) w)"
| "run_ask x o' (QAnswer n r) w =
     (if an_bool x
      then (if pi_response (aw_pending w ! n) = None then Some (yes True, answer_pending n r w) else None)
      else if as_done (obj o' w) then Some (yes False, w) else None)"
| "run_ask x o' QCancelAll w = Some (no_answer, cancelInteractions o' w)"
| "run_ask x o' QAny w = Some (yes (as_interactions (obj o' w) \<noteq> []), w)"
| "run_ask x o' (QForkUpdate sid u) w = Some (no_answer, upd o' (\<lambda>s. s\<lparr>as_forks := observeForkUpdate sid u (as_forks s)\<rparr>) w)"
| "run_ask x o' (QForkPermission q) w = Some (no_answer\<lparr>an_outcome := forkPermission (as_forks (obj o' w)) q\<rparr>, w)"
| "run_ask x o' (QSetFork sid p) w = Some (no_answer, upd o' (\<lambda>s. s\<lparr>as_forks := map_put sid p (as_forks s)\<rparr>) w)"
| "run_ask x o' (QRemoveFork sid) w = Some (no_answer, upd o' (\<lambda>s. s\<lparr>as_forks := map_del sid (as_forks s)\<rparr>) w)"

fun run_context :: "answer \<Rightarrow> context_op \<Rightarrow> AgentWorld \<Rightarrow> (answer \<times> AgentWorld) option" where
  "run_context x (NCancel c) w = Some (no_answer, cancel_context (Some c) w)"
| "run_context x (NCancelled c) w = Some (yes (c \<in> set (aw_cancelled w)), w)"
| "run_context x (NCloseDone d) w = Some (no_answer, w\<lparr>aw_finished := d # aw_finished w\<rparr>)"
| "run_context x (NWaitDone d) w =
     (if an_bool x then (if d \<in> set (aw_finished w) then Some (yes True, w) else None) else Some (yes False, w))"

text \<open>Operations are on sessions that exist.\<close>

definition on :: "nat \<Rightarrow> AgentWorld \<Rightarrow> (answer \<times> AgentWorld) option \<Rightarrow> (answer \<times> AgentWorld) option" where
  "on o' w r = (if o' < length (aw_objects w) then r else None)"

fun perform :: "AgentConfig \<Rightarrow> answer \<Rightarrow> agent_op \<Rightarrow> AgentWorld \<Rightarrow> (answer \<times> AgentWorld) option" where
  "perform cf x (OTable op) w = Some (run_table x op w)"
| "perform cf x (OSession o' op) w = on o' w (Some (run_session cf x o' op w))"
| "perform cf x (OConfig o' op) w = on o' w (Some (run_config o' op w))"
| "perform cf x (OTurn o' op) w = on o' w (run_turn o' op w)"
| "perform cf x (OAsk o' op) w = on o' w (run_ask x o' op w)"
| "perform cf x (OContext op) w = run_context x op w"
| "perform cf x (ORemote r) w = Some (x, w)"

end
