(* ===== verification/Acp_Programs.thy ===== *)
theory Acp_Programs
  imports Acp_Session
begin

text \<open>
  The methods of the adapter of \<open>src/adapters/acpx/acpx.go\<close> and \<open>operations.go\<close> as programs:
  trees of operations, with what the code does next for each answer, and \<open>Fork\<close> for a \<open>go\<close>
  statement. Between two operations any other goroutine may run. The last argument of a shared
  step is what follows it. Handlers for a nil adapter or request are left out, the sink of a
  session is never nil, and errors of the agent are their messages.
\<close>

section \<open>Programs\<close>

datatype adapter_error =
  BackendRequired | SessionRequired | WorktreeRequired | WorktreeNotInspected | NotResolved | NotStarted
| AlreadyStarted string | SessionUnknown string | PromptRequired | BackendSessionRequired | TurnActive string
| ChangedDuringRestart string | RequestRequired | InteractionUnknown string | SessionStopped
| OperationUnsupported Backend string | AgentFailed "string list" | CallerGone

text \<open>The errors of \<open>ForkPrompt\<close>, which the adapters built on this one add.\<close>

datatype fork_error =
  ForkSessionRequired | ForkPromptRequired | ForkCallFailed adapter_error | ForkUnreadable | ForkChildMissing | ForkChildInvalid

datatype agent_result =
  RBackendSession "adapter_error + BackendSession" | RError "adapter_error option"
| RPermission PermissionOutcome | RElicitation ElicitationAnswer | RExtension any
| RText "adapter_error + string" | RCatalog "adapter_error + BackendCatalog" | RForked "fork_error + ForkPromptResponse" | RNone

datatype aprog = Ret agent_result | Do agent_op "answer \<Rightarrow> aprog" | Fork aprog aprog

section \<open>Events\<close>

definition emit_event :: "nat \<Rightarrow> Event \<Rightarrow> aprog \<Rightarrow> aprog" where
  "emit_event o' e k =
     Do (OTurn o' PTurn) (\<lambda>a. Do (OSession o' (SMark (an_text a) e)) (\<lambda>b.
     Do (OSession o' (SSink (an_event b))) (\<lambda>_. k)))"

text \<open>The event that ends a turn.\<close>

definition emit_end :: "nat \<Rightarrow> string \<Rightarrow> Event \<Rightarrow> aprog \<Rightarrow> aprog" where
  "emit_end o' t e k =
     Do (OTurn o' PTurn) (\<lambda>a. Do (OSession o' (SMark (an_text a) (e\<lparr>ev_BackendTurnID := t\<rparr>))) (\<lambda>b.
     Do (OTurn o' (PEnd t (an_event b))) (\<lambda>_. k)))"

fun emit_all :: "nat \<Rightarrow> Event list \<Rightarrow> aprog \<Rightarrow> aprog" where
  "emit_all o' [] k = k"
| "emit_all o' (e # es) k = emit_event o' e (emit_all o' es k)"

definition emitConfig :: "nat \<Rightarrow> SessionConfigOption list option \<Rightarrow> SessionModeState option \<Rightarrow> aprog \<Rightarrow> aprog" where
  "emitConfig o' opts modes k =
     Do (OConfig o' (KControls opts modes)) (\<lambda>_. emit_all o' (config_events (listed opts) modes) k)"

definition emitAppliedSelection :: "nat \<Rightarrow> string \<Rightarrow> string \<Rightarrow> SessionConfigOption list option \<Rightarrow> aprog \<Rightarrow> aprog" where
  "emitAppliedSelection o' kind value opts k =
     Do (OConfig o' (KControls opts None)) (\<lambda>_. emit_all o' (applied_events kind value (listed opts)) k)"

definition emitCurrentMode :: "nat \<Rightarrow> string \<Rightarrow> aprog \<Rightarrow> aprog" where
  "emitCurrentMode o' m k = Do (OConfig o' (KCurrentMode m)) (\<lambda>_. emit_all o' (mode_events m) k)"

section \<open>Selections\<close>

definition set_error :: "string \<Rightarrow> string \<Rightarrow> string" where
  "set_error kind m = ''acpx: set '' @ kind @ '': '' @ m"

text \<open>One turn of the loop over model and reasoning; \<open>errs\<close> are the errors joined so far.\<close>

definition apply_selection ::
  "nat \<Rightarrow> string \<Rightarrow> string list \<Rightarrow> string \<Rightarrow> string list \<Rightarrow> (string list \<Rightarrow> aprog) \<Rightarrow> aprog" where
  "apply_selection o' kind keys value0 errs k =
     (let value = TrimSpace value0 in
      if value = [] then k errs
      else Do (OConfig o' (KSelected kind)) (\<lambda>a. if value = an_text a then k errs
      else Do (OConfig o' KOptions) (\<lambda>b. let option_id = findOption (listed (an_options b)) keys in
        if option_id = [] then Do (OConfig o' (KSetSelected kind value)) (\<lambda>_. k errs)
        else Do (ORemote (RSetOption o' option_id value)) (\<lambda>c.
          if \<not> an_bool c then k (errs @ [set_error kind (an_text c)])
          else Do (OConfig o' (KSetSelected kind value)) (\<lambda>_.
            emitAppliedSelection o' kind value (an_options c) (k errs))))))"

definition configurationResult :: "AgentConfig \<Rightarrow> nat \<Rightarrow> string list \<Rightarrow> (adapter_error option \<Rightarrow> aprog) \<Rightarrow> aprog" where
  "configurationResult cf o' errs k =
     (if errs = [] then k None
      else if \<not> ag_BestEffortConfiguration cf then k (Some (AgentFailed errs))
      else let m = JoinBytes [newline] errs in
        emit_event o' ((new_event EventTraceUpdated)\<lparr>ev_Message := m, ev_Data := [(''configuration_error'', JStr m)]\<rparr>) (k None))"

definition apply_mode :: "AgentConfig \<Rightarrow> nat \<Rightarrow> string \<Rightarrow> string list \<Rightarrow> (adapter_error option \<Rightarrow> aprog) \<Rightarrow> aprog" where
  "apply_mode cf o' mode0 errs k =
     (let mode = TrimSpace mode0 in
      if mode = [] then configurationResult cf o' errs k
      else Do (OConfig o' (KSelected ''mode'')) (\<lambda>a. if mode = an_text a then configurationResult cf o' errs k
      else Do (OConfig o' KModes) (\<lambda>b.
        if (case an_modes b of Some st \<Rightarrow> mt_AvailableModes st \<noteq> [] | None \<Rightarrow> False)
           \<or> containsString (ag_SessionModeValues cf) mode
        then Do (ORemote (RSetMode o' mode)) (\<lambda>c.
          if \<not> an_bool c then configurationResult cf o' (errs @ [set_error ''mode'' (an_text c)]) k
          else Do (OConfig o' (KSetSelected ''mode'' mode)) (\<lambda>_.
            emitCurrentMode o' mode (configurationResult cf o' errs k)))
        else Do (OConfig o' KOptions) (\<lambda>d.
          let option_id = findOption (listed (an_options d)) [''mode'', ''permission_mode''] in
          if option_id = [] then Do (OConfig o' (KSetSelected ''mode'' mode)) (\<lambda>_. configurationResult cf o' errs k)
          else Do (ORemote (RSetOption o' option_id mode)) (\<lambda>c.
            if \<not> an_bool c then configurationResult cf o' (errs @ [set_error ''mode'' (an_text c)]) k
            else Do (OConfig o' (KSetSelected ''mode'' mode)) (\<lambda>_.
              emitAppliedSelection o' ''mode'' mode (an_options c) (configurationResult cf o' errs k)))))))"

definition reasoning_keys :: "string list" where
  "reasoning_keys = [''thought_level'', ''reasoning'', ''reasoning_effort'', ''effort'']"

definition applySelections ::
  "AgentConfig \<Rightarrow> nat \<Rightarrow> string \<Rightarrow> string \<Rightarrow> string \<Rightarrow> (adapter_error option \<Rightarrow> aprog) \<Rightarrow> aprog" where
  "applySelections cf o' model reasoning mode k =
     apply_selection o' ''model'' [''model''] model [] (\<lambda>e1.
     apply_selection o' ''reasoning'' reasoning_keys reasoning e1 (\<lambda>e2.
     apply_mode cf o' mode e2 k))"

section \<open>Updates from the agent\<close>

definition agent_session_update :: "nat \<Rightarrow> SessionNotification \<Rightarrow> aprog \<Rightarrow> aprog" where
  "agent_session_update o' n k =
     Do (OSession o' (SArrive n)) (\<lambda>a.
     if an_bool a then k
     else if nt_SessionId n \<noteq> [] \<and> nt_SessionId n \<noteq> an_text a
     then Do (OAsk o' (QForkUpdate (nt_SessionId n) (nt_Update n))) (\<lambda>_. k)
     else Do (OSession o' (SUpdate (nt_Update n))) (\<lambda>b. emit_all o' (an_events b) k))"

fun replay_startup :: "nat \<Rightarrow> SessionNotification list \<Rightarrow> aprog \<Rightarrow> aprog" where
  "replay_startup o' [] k = k"
| "replay_startup o' (n # ns) k = agent_session_update o' n (replay_startup o' ns k)"

definition setBackendID :: "nat \<Rightarrow> string \<Rightarrow> aprog \<Rightarrow> aprog" where
  "setBackendID o' b k = Do (OSession o' (SSetBackend b)) (\<lambda>a. replay_startup o' (an_startup a) k)"

definition observeReplayTurn :: "AgentConfig \<Rightarrow> nat \<Rightarrow> json \<Rightarrow> aprog \<Rightarrow> aprog" where
  "observeReplayTurn cf o' raw k =
     (case ag_ReplayTurnIdentity cf of
        None \<Rightarrow> k
      | Some identity \<Rightarrow>
          (let key = TrimSpace (identity raw) in
           if key = [] then k
           else Do (OSession o' (SReplayTurn key)) (\<lambda>a. case an_opt a of
             None \<Rightarrow> k | Some n \<Rightarrow> Do (OSession o' (SSeed n)) (\<lambda>_. k))))"

text \<open>The goroutine of \<open>scheduleDoneCompletion\<close>, after its grace period.\<close>

definition done_completion :: "nat \<Rightarrow> string \<Rightarrow> aprog" where
  "done_completion o' t =
     Do (OAsk o' QAny) (\<lambda>a. Do (OTurn o' PToolActive) (\<lambda>b.
     if an_bool a \<or> an_bool b then Ret RNone
     else Do (OTurn o' (PTakeIf t)) (\<lambda>c. case an_opt c of
       None \<Rightarrow> Ret RNone
     | Some ctx \<Rightarrow> Do (OContext (NCancel ctx)) (\<lambda>_.
         Do (OTurn o' PLock) (\<lambda>_. Do (OTurn o' PTurn) (\<lambda>d. Do (OTurn o' PUnlock) (\<lambda>_.
         if an_text d \<noteq> [] then Ret RNone
         else emit_end o' t ((new_event EventTurnComplete)\<lparr>ev_Data := [(''stop_reason'', JStr ''done'')]\<rparr>) (Ret RNone))))))))"

definition scheduleDoneCompletion :: "nat \<Rightarrow> aprog \<Rightarrow> aprog" where
  "scheduleDoneCompletion o' k =
     Do (OTurn o' PTurn) (\<lambda>a. if an_text a = [] then k else Fork (done_completion o' (an_text a)) k)"

text \<open>
  One inbound message, decoded: its method, parameters and result. A result with a \<open>thread\<close>
  object is a session's history.
\<close>

definition observe_result :: "AgentConfig \<Rightarrow> nat \<Rightarrow> json option \<Rightarrow> aprog \<Rightarrow> aprog" where
  "observe_result cf o' result k =
     (case result of
        Some (JObj m) \<Rightarrow>
          if mapValue m ''thread'' = [] then k
          else let history = emit_event o' ((new_event EventTraceUpdated)\<lparr>ev_Data := [(''session_history'', JObj m)]\<rparr>) k in
            (case ag_ResumeTurnCount cf of
               None \<Rightarrow> history | Some count \<Rightarrow> Do (OSession o' (SSeed (count (JObj m)))) (\<lambda>_. history))
      | _ \<Rightarrow> k)"

definition observe :: "AgentConfig \<Rightarrow> nat \<Rightarrow> json \<Rightarrow> string \<Rightarrow> json option \<Rightarrow> json option \<Rightarrow> aprog" where
  "observe cf o' raw name ps result =
     observeReplayTurn cf o' raw (observe_result cf o' result
       (case observe_update (ag_CompleteOnDone cf) name ps of
          ObservedDone \<Rightarrow> scheduleDoneCompletion o' (Ret RNone)
        | ObservedEvent e \<Rightarrow> emit_event o' e (Ret RNone)
        | _ \<Rightarrow> Ret RNone))"

section \<open>Interactions\<close>

text \<open>A request of the agent that waits for the user or for the end of the session.\<close>

definition ask_user :: "nat \<Rightarrow> string \<Rightarrow> InteractionRequest \<Rightarrow> (InteractionResponse option \<Rightarrow> agent_result) \<Rightarrow> aprog" where
  "ask_user o' preferred q f =
     Do (OAsk o' (QAwait preferred q)) (\<lambda>a. emit_event o' (an_event a)
       (Do (OAsk o' (QReceive (an_nat a))) (\<lambda>b.
        Do (OAsk o' (QRemove (an_text a))) (\<lambda>_. Ret (f (an_response b))))))"

definition blank_request :: InteractionRequest where
  "blank_request = \<lparr>ir_ID = [], ir_Kind = InteractionForm, ir_Title = [], ir_Message = [], ir_Options = [],
     ir_Fields = [], ir_Data = []\<rparr>"

definition RequestPermission :: "nat \<Rightarrow> string \<Rightarrow> RequestPermissionRequest \<Rightarrow> aprog" where
  "RequestPermission o' preferred q =
     Do (OSession o' SBackend) (\<lambda>a.
     if rp_SessionId q \<noteq> [] \<and> rp_SessionId q \<noteq> an_text a
     then Do (OAsk o' (QForkPermission q)) (\<lambda>b. Ret (RPermission (an_outcome b)))
     else ask_user o' preferred
       (blank_request\<lparr>ir_Kind := InteractionPermission, ir_Title := permissionTitle (rp_ToolCall q),
          ir_Options := permissionOptions (rp_Options q), ir_Data := [(''tool_call'', JObj (tu_Object (rp_ToolCall q)))]\<rparr>)
       (\<lambda>r. RPermission (case r of None \<Rightarrow> None | Some answer \<Rightarrow> permission_outcome answer (rp_Options q))))"

definition CreateElicitation :: "nat \<Rightarrow> string \<Rightarrow> Elicitation \<Rightarrow> payload \<Rightarrow> aprog" where
  "CreateElicitation o' preferred q object =
     (let (kind, title, message) = elicitationDetails q in
      ask_user o' preferred
        (blank_request\<lparr>ir_Kind := kind, ir_Title := title, ir_Message := message, ir_Fields := elicitationFields q,
           ir_Data := [(''elicitation'', JObj object)]\<rparr>)
        (\<lambda>r. RElicitation (case r of None \<Rightarrow> ElicitCancel | Some answer \<Rightarrow> elicitation_answer answer)))"

definition ElicitationComplete :: "nat \<Rightarrow> payload \<Rightarrow> aprog" where
  "ElicitationComplete o' object =
     emit_event o' ((new_event EventTraceUpdated)\<lparr>ev_Data := [(''elicitation_complete'', JObj object)]\<rparr>) (Ret RNone)"

definition ExtensionRequest :: "nat \<Rightarrow> string \<Rightarrow> string \<Rightarrow> any \<Rightarrow> aprog" where
  "ExtensionRequest o' preferred name ps =
     ask_user o' preferred
       (blank_request\<lparr>ir_Kind := extension_kind name, ir_Title := name,
          ir_Data := map_copy [] [(''method'', JStr name), (''params'', ps)]\<rparr>)
       (\<lambda>r. RExtension (case r of None \<Rightarrow> extension_cancel | Some answer \<Rightarrow> extension_answer answer))"

definition ExtensionNotification :: "nat \<Rightarrow> string \<Rightarrow> any \<Rightarrow> aprog" where
  "ExtensionNotification o' name ps =
     emit_event o' ((new_event EventTraceUpdated)\<lparr>ev_Data :=
       map_copy [] [(''extension_method'', JStr name), (''params'', ps)]\<rparr>) (Ret RNone)"

definition with_session :: "string \<Rightarrow> (adapter_error \<Rightarrow> agent_result) \<Rightarrow> (nat \<Rightarrow> aprog) \<Rightarrow> aprog" where
  "with_session sid fail k =
     Do (OTable (XSession sid)) (\<lambda>a. case an_opt a of None \<Rightarrow> Ret (fail (SessionUnknown sid)) | Some o' \<Rightarrow> k o')"

definition error_result :: "adapter_error \<Rightarrow> agent_result" where
  "error_result e = RError (Some e)"

definition backend_failed :: "adapter_error \<Rightarrow> agent_result" where
  "backend_failed e = RBackendSession (Inl e)"

definition Agent_RespondInteraction :: "string \<Rightarrow> InteractionResponse \<Rightarrow> aprog" where
  "Agent_RespondInteraction sid r =
     with_session sid error_result (\<lambda>o'.
     if TrimSpace (rs_RequestID r) = [] then Ret (error_result RequestRequired)
     else Do (OAsk o' (QTake (rs_RequestID r))) (\<lambda>a. case an_opt a of
       None \<Rightarrow> Ret (error_result (InteractionUnknown (rs_RequestID r)))
     | Some n \<Rightarrow> Do (OAsk o' (QAnswer n r)) (\<lambda>b.
         if \<not> an_bool b then Ret (error_result SessionStopped)
         else emit_event o' ((new_event EventInteractionResolved)\<lparr>ev_InteractionResponse := Some r,
                ev_Data := map_copy [] [(''request_id'', JStr (rs_RequestID r)), (''action'', JStr (rs_Action r))]\<rparr>)
              (Ret (RError None)))))"

end
