(* ===== verification/Acp_Methods.thy ===== *)
theory Acp_Methods
  imports Acp_Programs
begin

text \<open>
  The methods of the adapter that the runtime and the vendor adapters call: opening and replacing
  a session, sending and interrupting a turn, closing, the catalog probe, and the operations of
  \<open>src/adapters/acpx/operations.go\<close>.
\<close>

section \<open>Stopping and opening a session\<close>

text \<open>\<open>doneOnce\<close>: only the first call cancels the turn and the interactions.\<close>

definition stop_session :: "nat \<Rightarrow> aprog \<Rightarrow> aprog" where
  "stop_session o' k =
     Do (OSession o' SStop) (\<lambda>a. if an_bool a
       then Do (OTurn o' PCancelTurn) (\<lambda>_. Do (OAsk o' QCancelAll) (\<lambda>_. k)) else k)"

definition close_connection :: "nat \<Rightarrow> (string list \<Rightarrow> aprog) \<Rightarrow> aprog" where
  "close_connection o' k = Do (OSession o' SCloseConn) (\<lambda>a. k (if an_bool a then [] else [an_text a]))"

text \<open>Load and resume, in the order asked for: options, modes, or the messages of both errors.\<close>

definition resumeSession ::
  "nat \<Rightarrow> bool \<Rightarrow> (string list + SessionConfigOption list option \<times> SessionModeState option \<Rightarrow> aprog) \<Rightarrow> aprog" where
  "resumeSession o' loadFirst k =
     (let first = (if loadFirst then RLoadSession o' else RResumeSession o');
          second = (if loadFirst then RResumeSession o' else RLoadSession o') in
      Do (ORemote first) (\<lambda>a. if an_bool a then k (Inr (an_options a, an_modes a))
      else Do (ORemote second) (\<lambda>b. if an_bool b then k (Inr (an_options b, an_modes b))
      else k (Inl [an_text a, an_text b]))))"

text \<open>Selections that the request names are forgotten first, so that they are sent to the agent.\<close>

definition force_selection :: "bool \<Rightarrow> nat \<Rightarrow> string \<Rightarrow> string \<Rightarrow> aprog \<Rightarrow> aprog" where
  "force_selection force o' kind value k =
     (if force \<and> TrimSpace value \<noteq> [] then Do (OConfig o' (KSetSelected kind [])) (\<lambda>_. k) else k)"

definition opened_session ::
  "AgentConfig \<Rightarrow> nat \<Rightarrow> string \<Rightarrow> StartSessionRequest \<Rightarrow> bool \<Rightarrow> (adapter_error + nat \<times> BackendSession \<Rightarrow> aprog) \<Rightarrow> aprog" where
  "opened_session cf o' b q force k =
     force_selection force o' ''model'' (ss_Model q) (force_selection force o' ''reasoning'' (ss_Reasoning q)
     (force_selection force o' ''mode'' (ss_PermissionMode q)
     (applySelections cf o' (ss_Model q) (ss_Reasoning q) (ss_PermissionMode q) (\<lambda>e. case e of
        Some err \<Rightarrow> stop_session o' (close_connection o' (\<lambda>_. k (Inl err)))
      | None \<Rightarrow> k (Inr (o', \<lparr>bs_ID = b, bs_ThreadID = b, bs_TurnID = []\<rparr>))))))"

definition connected_session ::
  "AgentConfig \<Rightarrow> nat \<Rightarrow> StartSessionRequest \<Rightarrow> bool \<Rightarrow> bool \<Rightarrow> (adapter_error + nat \<times> BackendSession \<Rightarrow> aprog) \<Rightarrow> aprog" where
  "connected_session cf o' q force loadFirst k =
     (let b = TrimSpace (ss_ResumeBackendSessionID q);
          ready = (\<lambda>b opts modes. Do (OConfig o' (KInit opts modes)) (\<lambda>_. emitConfig o' opts modes (opened_session cf o' b q force k))) in
      if b = [] then
        Do (ORemote (RNewSession o')) (\<lambda>a. if \<not> an_bool a
          then close_connection o' (\<lambda>_. k (Inl (AgentFailed [an_text a])))
          else setBackendID o' (an_text a) (ready (an_text a) (an_options a) (an_modes a)))
      else
        setBackendID o' b (Do (OSession o' SBeginReplay) (\<lambda>_. resumeSession o' loadFirst (\<lambda>r.
          Do (OSession o' SEndReplay) (\<lambda>_. case r of
            Inl es \<Rightarrow> close_connection o' (\<lambda>_. k (Inl (AgentFailed es)))
          | Inr (opts, modes) \<Rightarrow> ready b opts modes)))))"

definition openSession ::
  "AgentConfig \<Rightarrow> string \<Rightarrow> StartSessionRequest \<Rightarrow> bool \<Rightarrow> bool \<Rightarrow> (adapter_error + nat \<times> BackendSession \<Rightarrow> aprog) \<Rightarrow> aprog" where
  "openSession cf sid q force loadFirst k =
     (if ag_Backend cf = [] then k (Inl BackendRequired)
      else if TrimSpace sid = [] then k (Inl SessionRequired)
      else if TrimSpace (ss_Worktree q) = [] \<or> \<not> IsAbs (ss_Worktree q) then k (Inl WorktreeRequired)
      else Do (ORemote (RStatWorktree (ss_Worktree q))) (\<lambda>a. if \<not> an_bool a then k (Inl WorktreeNotInspected)
      else Do (ORemote (RResolve (ag_Command cf))) (\<lambda>b. if \<not> an_bool b then k (Inl NotResolved)
      else Do (OTable (XOpen (Clean (ss_Worktree q)))) (\<lambda>c. case an_opt c of
        None \<Rightarrow> k (Inl NotStarted) | Some o' \<Rightarrow> connected_session cf o' q force loadFirst k))))"

section \<open>Replacing a session\<close>

definition recovered_event :: Event where
  "recovered_event = (new_event EventAgentRecovered)\<lparr>ev_Message := ''ACP session restarted'',
     ev_Data := [(''restarted'', JBool True)]\<rparr>"

definition publish_replacement ::
  "string \<Rightarrow> nat \<Rightarrow> nat \<times> BackendSession \<Rightarrow> (adapter_error + nat \<times> BackendSession \<Rightarrow> aprog) \<Rightarrow> aprog" where
  "publish_replacement sid o' r k =
     (case r of (n, b) \<Rightarrow>
        Do (OTurn o' PCount) (\<lambda>a. Do (OTurn n (PStore (an_nat a))) (\<lambda>_.
        Do (OTable (XReplace sid o' n)) (\<lambda>c.
        if an_bool c then emit_event n recovered_event (k (Inr (n, b)))
        else stop_session n (close_connection n (\<lambda>_. k (Inl (ChangedDuringRestart sid))))))))"

definition replacement_request :: "string \<Rightarrow> string \<Rightarrow> string \<Rightarrow> string \<Rightarrow> string \<Rightarrow> StartSessionRequest" where
  "replacement_request worktree b model reasoning mode =
     \<lparr>ss_Backend = [], ss_SessionID = [], ss_Worktree = worktree, ss_Prompt = [], ss_Ext = [], ss_Attachments = [],
      ss_Model = model, ss_Reasoning = reasoning, ss_PermissionMode = mode, ss_ResumeBackendSessionID = b\<rparr>"

definition replaceSession ::
  "AgentConfig \<Rightarrow> string \<Rightarrow> nat \<Rightarrow> (adapter_error + nat \<times> BackendSession \<Rightarrow> aprog) \<Rightarrow> aprog" where
  "replaceSession cf sid o' k =
     stop_session o' (close_connection o' (\<lambda>_.
     Do (OSession o' SWorktree) (\<lambda>wt. Do (OSession o' SBackend) (\<lambda>b.
     Do (OConfig o' (KSelected ''model'')) (\<lambda>m. Do (OConfig o' (KSelected ''reasoning'')) (\<lambda>r.
     Do (OConfig o' (KSelected ''mode'')) (\<lambda>d.
     openSession cf sid (replacement_request (an_text wt) (an_text b) (an_text m) (an_text r) (an_text d)) False False (\<lambda>s.
     case s of Inl e \<Rightarrow> k (Inl e) | Inr nb \<Rightarrow> publish_replacement sid o' nb k))))))))"

definition restart_session :: "AgentConfig \<Rightarrow> string \<Rightarrow> (adapter_error + BackendSession \<Rightarrow> aprog) \<Rightarrow> aprog" where
  "restart_session cf sid k =
     Do (OTable (XSession sid)) (\<lambda>a. case an_opt a of
       None \<Rightarrow> k (Inl (SessionUnknown sid))
     | Some o' \<Rightarrow> Do (OTurn o' PLock) (\<lambda>_. replaceSession cf sid o' (\<lambda>r.
         Do (OTurn o' PUnlock) (\<lambda>_. k (map_sum id snd r)))))"

definition RestartSession :: "AgentConfig \<Rightarrow> string \<Rightarrow> aprog" where
  "RestartSession cf sid = restart_session cf sid (\<lambda>r. Ret (RBackendSession r))"

section \<open>The goroutine of a prompt\<close>

definition interrupted_data :: "payload" where
  "interrupted_data = [(''interrupted'', JBool True)]"

definition terminal_event :: "prompt_result \<Rightarrow> Event" where
  "terminal_event r =
     (case r of
        PromptError canceled m \<Rightarrow> (new_event EventTurnFailed)\<lparr>ev_Message := m,
          ev_Data := (if canceled then interrupted_data else [])\<rparr>
      | Stopped reason \<Rightarrow>
          if reason = ''cancelled''
          then (new_event EventTurnFailed)\<lparr>ev_Message := ''ACP turn interrupted'',
                 ev_Data := map_put ''stop_reason'' (JStr reason) interrupted_data\<rparr>
          else (new_event EventTurnComplete)\<lparr>ev_Data := [(''stop_reason'', JStr reason)]\<rparr>)"

definition finish_prompt :: "nat \<Rightarrow> nat \<Rightarrow> string \<Rightarrow> nat option \<Rightarrow> prompt_result \<Rightarrow> aprog" where
  "finish_prompt o' target t done r =
     (let end = (case done of None \<Rightarrow> Ret RNone | Some d \<Rightarrow> Do (OContext (NCloseDone d)) (\<lambda>_. Ret RNone));
          unlock = (\<lambda>k. if target = o' then Do (OTurn o' PUnlock) (\<lambda>_. k)
            else Do (OTurn target PClearTools) (\<lambda>_. Do (OTurn target PUnlock) (\<lambda>_. Do (OTurn o' PUnlock) (\<lambda>_. k)))) in
      Do (OTurn target (PFinish t)) (\<lambda>a. Do (OTurn o' PClearTools) (\<lambda>_.
      unlock (if an_bool a then emit_end target t (terminal_event r) end else end))))"

text \<open>
  The prompt on the replacement of a session whose process is gone: the same turn goes on there,
  with a context of its own.
\<close>

definition retry_prompt ::
  "nat \<Rightarrow> nat \<Rightarrow> string \<Rightarrow> nat option \<Rightarrow> ContentBlock list \<Rightarrow> string \<Rightarrow> aprog" where
  "retry_prompt o' n t done blocks model =
     Do (OTurn o' PCount) (\<lambda>c. Do (OTurn n (PStore (an_nat c))) (\<lambda>_.
     Do (OTurn o' PDone) (\<lambda>d. Do (OTurn n (PSet t (an_opt d))) (\<lambda>s.
     Do (OTurn n PLock) (\<lambda>_. Do (ORemote (RPrompt n (an_nat s) blocks model)) (\<lambda>p.
     finish_prompt o' n t done (an_prompt p)))))))"

definition error_lines :: "adapter_error \<Rightarrow> string list" where
  "error_lines e = (case e of AgentFailed ms \<Rightarrow> ms | _ \<Rightarrow> [''acpx: restart failed''])"

definition runPrompt ::
  "AgentConfig \<Rightarrow> string \<Rightarrow> nat \<Rightarrow> string \<Rightarrow> nat \<Rightarrow> nat option \<Rightarrow> ContentBlock list \<Rightarrow> string \<Rightarrow> aprog" where
  "runPrompt cf sid o' t ctx done blocks model =
     Do (ORemote (RPrompt o' ctx blocks model)) (\<lambda>a. case an_prompt a of
       Stopped r \<Rightarrow> finish_prompt o' o' t done (Stopped r)
     | PromptError canceled m \<Rightarrow>
         Do (OContext (NCancelled ctx)) (\<lambda>b.
         if an_bool b \<or> \<not> ag_RestartOnExit cf then finish_prompt o' o' t done (PromptError canceled m)
         else Do (OSession o' SExited) (\<lambda>e.
         if \<not> an_bool e then finish_prompt o' o' t done (PromptError canceled m)
         else replaceSession cf sid o' (\<lambda>r. case r of
           Inl err \<Rightarrow> finish_prompt o' o' t done (PromptError canceled (JoinBytes [newline] (m # error_lines err)))
         | Inr (n, _) \<Rightarrow> retry_prompt o' n t done blocks model))))"

section \<open>Turns\<close>

definition begin_prompt :: "AgentConfig \<Rightarrow> string \<Rightarrow> nat \<Rightarrow> SendTurnRequest \<Rightarrow> (adapter_error + BackendSession \<Rightarrow> aprog) \<Rightarrow> aprog" where
  "begin_prompt cf sid o' q k =
     Do (OSession o' SBackend) (\<lambda>b. Do (OTurn o' PBegin) (\<lambda>a.
     emit_event o' ((new_event EventTurnStarted)\<lparr>ev_BackendTurnID := an_text a, ev_Data := [(''turn_id'', JStr (an_text a))]\<rparr>)
       (Fork (runPrompt cf sid o' (an_text a) (an_nat a) (an_opt a) (promptBlocks q)
                (if ag_ModelInPrompt cf then TrimSpace (tr_Model q) else []))
          (k (Inr \<lparr>bs_ID = an_text b, bs_ThreadID = an_text b, bs_TurnID = an_text a\<rparr>)))))"

definition send_on :: "AgentConfig \<Rightarrow> string \<Rightarrow> nat \<Rightarrow> SendTurnRequest \<Rightarrow> (adapter_error + BackendSession \<Rightarrow> aprog) \<Rightarrow> aprog" where
  "send_on cf sid o' q k =
     Do (OTurn o' PTryLock) (\<lambda>a. if \<not> an_bool a then k (Inl (TurnActive sid))
     else applySelections cf o' (tr_Model q) (tr_Reasoning q) (tr_PermissionMode q) (\<lambda>e. case e of
       Some err \<Rightarrow> Do (OTurn o' PUnlock) (\<lambda>_. k (Inl err))
     | None \<Rightarrow> begin_prompt cf sid o' q k))"

definition send_turn :: "AgentConfig \<Rightarrow> string \<Rightarrow> SendTurnRequest \<Rightarrow> (adapter_error + BackendSession \<Rightarrow> aprog) \<Rightarrow> aprog" where
  "send_turn cf sid q k =
     Do (OTable (XSession sid)) (\<lambda>a. case an_opt a of None \<Rightarrow> k (Inl (SessionUnknown sid)) | Some o' \<Rightarrow>
     if promptBlocks q = [] then k (Inl PromptRequired)
     else if \<not> ag_RestartOnExit cf then send_on cf sid o' q k
     else Do (OSession o' SExited) (\<lambda>e. if \<not> an_bool e then send_on cf sid o' q k
     else restart_session cf sid (\<lambda>r. case r of Inl err \<Rightarrow> k (Inl err) | Inr _ \<Rightarrow>
       Do (OTable (XSession sid)) (\<lambda>b. case an_opt b of None \<Rightarrow> k (Inl (SessionUnknown sid))
       | Some n \<Rightarrow> send_on cf sid n q k))))"

definition Agent_SendTurn :: "AgentConfig \<Rightarrow> string \<Rightarrow> SendTurnRequest \<Rightarrow> aprog" where
  "Agent_SendTurn cf sid q = send_turn cf sid q (\<lambda>r. Ret (RBackendSession r))"

definition interrupted_event :: Event where
  "interrupted_event = (new_event EventTurnFailed)\<lparr>ev_Message := ''ACP turn interrupted'', ev_Data := interrupted_data\<rparr>"

definition Agent_Interrupt :: "string \<Rightarrow> aprog" where
  "Agent_Interrupt sid =
     with_session sid error_result (\<lambda>o'.
     Do (OAsk o' QCancelAll) (\<lambda>_. Do (OTurn o' PCancelTurn) (\<lambda>_. Do (ORemote (RCancel o')) (\<lambda>c.
     let failed = (if an_bool c then None else Some (AgentFailed [an_text c])) in
     Do (OTurn o' PTake) (\<lambda>a.
     let wait = (case an_opt a of
       None \<Rightarrow> Ret (RError failed)
     | Some d \<Rightarrow> Do (OContext (NWaitDone d)) (\<lambda>w. Ret (RError (if an_bool w then failed else Some CallerGone)))) in
     if an_text a = [] then wait else emit_end o' (an_text a) interrupted_event wait)))))"

section \<open>Starting and closing\<close>

definition close_agent :: "string \<Rightarrow> (string list \<Rightarrow> aprog) \<Rightarrow> aprog" where
  "close_agent sid k =
     Do (OTable (XWithdraw sid)) (\<lambda>a. case an_opt a of
       None \<Rightarrow> k [] | Some o' \<Rightarrow> stop_session o' (close_connection o' k))"

definition Agent_CloseSession :: "string \<Rightarrow> aprog" where
  "Agent_CloseSession sid = close_agent sid (\<lambda>es. Ret (RError (if es = [] then None else Some (AgentFailed es))))"

definition first_turn :: "StartSessionRequest \<Rightarrow> SendTurnRequest" where
  "first_turn q = \<lparr>tr_SessionID = [], tr_Prompt = ss_Prompt q, tr_Ext = [], tr_Attachments = ss_Attachments q,
     tr_Model = ss_Model q, tr_Reasoning = ss_Reasoning q, tr_PermissionMode = ss_PermissionMode q\<rparr>"

definition Agent_StartSession :: "AgentConfig \<Rightarrow> string \<Rightarrow> StartSessionRequest \<Rightarrow> aprog" where
  "Agent_StartSession cf sid q =
     openSession cf sid q True (ag_LoadSessionFirst cf) (\<lambda>r. case r of
       Inl e \<Rightarrow> Ret (backend_failed e)
     | Inr (o', b) \<Rightarrow> Do (OTable (XPublish sid o')) (\<lambda>a.
         if \<not> an_bool a then stop_session o' (close_connection o' (\<lambda>_. Ret (backend_failed (AlreadyStarted sid))))
         else if TrimSpace (ss_Prompt q) = [] \<and> ss_Attachments q = [] then Ret (RBackendSession (Inr b))
         else send_turn cf sid (first_turn q) (\<lambda>s. case s of
           Inl e \<Rightarrow> close_agent sid (\<lambda>_. Ret (backend_failed e))
         | Inr turn \<Rightarrow> Ret (RBackendSession (Inr turn)))))"

section \<open>The catalog probe\<close>

fun probe_models :: "string \<Rightarrow> BackendModel list \<Rightarrow> BackendModel list \<Rightarrow> (BackendModel list \<Rightarrow> aprog) \<Rightarrow> aprog" where
  "probe_models option_id [] out k = k (rev out)"
| "probe_models option_id (m # ms) out k =
     Do (ORemote (RProbeOption option_id (bm_ID m))) (\<lambda>a.
       probe_models option_id ms
         ((if an_bool a then m\<lparr>bm_Reasoning := cat_Reasoning (catalogFromConfig (listed (an_options a)) None)\<rparr> else m) # out) k)"

definition Agent_Catalog :: "AgentConfig \<Rightarrow> aprog" where
  "Agent_Catalog cf =
     Do (ORemote (RResolve (ag_Command cf))) (\<lambda>r. if \<not> an_bool r then Ret (RCatalog (Inl NotResolved))
     else Do (ORemote RProbe) (\<lambda>p. if \<not> an_bool p then Ret (RCatalog (Inl NotStarted))
     else Do (ORemote RProbeSession) (\<lambda>s. if \<not> an_bool s
       then Do (ORemote RProbeClose) (\<lambda>_. Ret (RCatalog (Inl (AgentFailed [an_text s]))))
     else
       let opts = listed (an_options s); cat = catalogFromConfig opts (an_modes s); option_id = findOption opts [''model''];
           finish = (\<lambda>ms. Do (ORemote RProbeCommands) (\<lambda>c. Do (ORemote RProbeClose) (\<lambda>_.
             Ret (RCatalog (Inr (cat\<lparr>cat_Models := ms, cat_SlashCommands := map slash_command (an_commands c)\<rparr>)))))) in
       if option_id = [] then finish (cat_Models cat) else probe_models option_id (cat_Models cat) [] finish)))"

section \<open>Direct operations\<close>

definition with_default_session :: "string \<Rightarrow> payload \<Rightarrow> payload" where
  "with_default_session b ps =
     (if map_of ps ''sessionId'' = None then map_put ''sessionId'' (JStr b) ps else ps)"

definition text_failed :: "adapter_error \<Rightarrow> agent_result" where
  "text_failed e = RText (Inl e)"

definition CallSession :: "AgentConfig \<Rightarrow> string \<Rightarrow> string \<Rightarrow> payload \<Rightarrow> aprog" where
  "CallSession cf sid name ps =
     with_session sid text_failed (\<lambda>o'.
     if \<not> ag_LegacyExtensions cf \<and> \<not> prefix ''_'' name then Ret (text_failed (OperationUnsupported (ag_Backend cf) name))
     else Do (OSession o' SBackend) (\<lambda>b.
       Do (ORemote (RCallProvider o' name (with_default_session (an_text b) ps))) (\<lambda>a.
       Ret (RText (if an_bool a then Inr (an_text a) else Inl (AgentFailed [an_text a]))))))"

definition SessionDirectory :: "string \<Rightarrow> aprog" where
  "SessionDirectory sid = with_session sid text_failed (\<lambda>o'. Do (OSession o' SWorktree) (\<lambda>a. Ret (RText (Inr (an_text a)))))"

definition BackendSessionID :: "string \<Rightarrow> aprog" where
  "BackendSessionID sid = with_session sid text_failed (\<lambda>o'. Do (OSession o' SBackend) (\<lambda>a. Ret (RText (Inr (an_text a)))))"

definition ActiveTurnID :: "string \<Rightarrow> aprog" where
  "ActiveTurnID sid = with_session sid text_failed (\<lambda>o'. Do (OTurn o' PTurn) (\<lambda>a. Ret (RText (Inr (an_text a)))))"

definition StopSessionProcess :: "string \<Rightarrow> aprog" where
  "StopSessionProcess sid =
     with_session sid error_result (\<lambda>o'. close_connection o' (\<lambda>es. Ret (RError (if es = [] then None else Some (AgentFailed es)))))"

definition prompt_session :: "string \<Rightarrow> string \<Rightarrow> string \<Rightarrow> (adapter_error option \<Rightarrow> aprog) \<Rightarrow> aprog" where
  "prompt_session sid b prompt k =
     Do (OTable (XSession sid)) (\<lambda>a. case an_opt a of
       None \<Rightarrow> k (Some (SessionUnknown sid))
     | Some o' \<Rightarrow>
         if TrimSpace b = [] then k (Some BackendSessionRequired)
         else if TrimSpace prompt = [] then k (Some PromptRequired)
         else Do (ORemote (RForkPrompt o' (TrimSpace b) (TrimSpace prompt))) (\<lambda>c.
           k (if an_bool c then None else Some (AgentFailed [an_text c]))))"

definition PromptSession :: "string \<Rightarrow> string \<Rightarrow> string \<Rightarrow> aprog" where
  "PromptSession sid b prompt = prompt_session sid b prompt (\<lambda>e. Ret (RError e))"

definition PromptForkSession :: "string \<Rightarrow> string \<Rightarrow> string \<Rightarrow> ForkMCPServer list \<Rightarrow> aprog" where
  "PromptForkSession sid b0 prompt servers =
     with_session sid error_result (\<lambda>o'.
     let b = TrimSpace b0 in
     Do (OAsk o' (QSetFork b \<lparr>fo_allowedToolPrefixes = fork_prefixes servers, fo_tools = []\<rparr>)) (\<lambda>_.
     prompt_session sid b prompt (\<lambda>e. Do (OAsk o' (QRemoveFork b)) (\<lambda>_. Ret (RError e)))))"

definition CloseBackendSession :: "string \<Rightarrow> string \<Rightarrow> aprog" where
  "CloseBackendSession sid b =
     with_session sid error_result (\<lambda>o'. Do (ORemote (RCloseBackend o' (TrimSpace b))) (\<lambda>a.
       Ret (RError (if an_bool a then None else Some (AgentFailed [an_text a])))))"

end
