(* ===== verification/Map_Values.thy ===== *)
theory Map_Values
  imports Prelude "HOL-Library.Multiset"
begin

text \<open>The values of a map as a multiset: storing adds at most one, deleting takes the value that was found.\<close>

lemma count_put:
  "count (mset (map snd (map_put k v m))) n \<le> count (mset (map snd m)) n + (if n = v then 1 else 0)"
  by (induction k v m rule: map_put.induct) auto

lemma count_del: "count (mset (map snd (map_del i m))) n + (if map_of m i = Some n then 1 else 0) \<le> count (mset (map snd m)) n"
proof (induction m)
  case (Cons p m)
  then show ?case by (cases p) (auto simp: map_del_def split: if_splits)
qed (simp add: map_del_def)

end
