(* ===== verification/Acp_Machine.thy ===== *)
theory Acp_Machine
  imports Acp_Methods Map_Values
begin

text \<open>
  The adapter at work: the programs of its methods and of the agent's messages run as goroutines
  over the shared state, any of them may take the next step, and an agent's process may exit at
  any time. The locale \<open>discipline\<close> is the argument that the invariants of the adapter share: a
  goroutine holds resources (a lock, a turn to end, an interaction to answer), its program uses
  only what it holds, and each operation keeps the balance of what is held and what the state shows.
\<close>

section \<open>Goroutines\<close>

text \<open>Calls of the runtime and the vendor adapters, and messages of the agent of session \<open>o'\<close>.\<close>

datatype adapter_call =
  HStart string StartSessionRequest | HSend string SendTurnRequest | HInterrupt string | HRestart string
| HClose string | HRespond string InteractionResponse | HCatalog
| HCallSession string string payload | HDirectory string | HBackend string | HActiveTurn string
| HStopProcess string | HPrompt string string string | HPromptFork string string string "ForkMCPServer list"
| HCloseBackend string string
| GUpdate nat SessionNotification | GObserve nat json string "json option" "json option"
| GPermission nat string RequestPermissionRequest | GElicit nat string Elicitation payload
| GElicitComplete nat payload | GExtension nat string string any | GExtensionNote nat string any

fun adapter_program :: "AgentConfig \<Rightarrow> adapter_call \<Rightarrow> aprog" where
  "adapter_program cf (HStart sid q) = Agent_StartSession cf sid q"
| "adapter_program cf (HSend sid q) = Agent_SendTurn cf sid q"
| "adapter_program cf (HInterrupt sid) = Agent_Interrupt sid"
| "adapter_program cf (HRestart sid) = RestartSession cf sid"
| "adapter_program cf (HClose sid) = Agent_CloseSession sid"
| "adapter_program cf (HRespond sid r) = Agent_RespondInteraction sid r"
| "adapter_program cf HCatalog = Agent_Catalog cf"
| "adapter_program cf (HCallSession sid name ps) = CallSession cf sid name ps"
| "adapter_program cf (HDirectory sid) = SessionDirectory sid"
| "adapter_program cf (HBackend sid) = BackendSessionID sid"
| "adapter_program cf (HActiveTurn sid) = ActiveTurnID sid"
| "adapter_program cf (HStopProcess sid) = StopSessionProcess sid"
| "adapter_program cf (HPrompt sid b p) = PromptSession sid b p"
| "adapter_program cf (HPromptFork sid b p servers) = PromptForkSession sid b p servers"
| "adapter_program cf (HCloseBackend sid b) = CloseBackendSession sid b"
| "adapter_program cf (GUpdate o' n) = agent_session_update o' n (Ret RNone)"
| "adapter_program cf (GObserve o' raw name ps result) = observe cf o' raw name ps result"
| "adapter_program cf (GPermission o' i q) = RequestPermission o' i q"
| "adapter_program cf (GElicit o' i q object) = CreateElicitation o' i q object"
| "adapter_program cf (GElicitComplete o' object) = ElicitationComplete o' object"
| "adapter_program cf (GExtension o' i name ps) = ExtensionRequest o' i name ps"
| "adapter_program cf (GExtensionNote o' name ps) = ExtensionNotification o' name ps"

record agent_machine =
  am_world :: AgentWorld
  am_threads :: "aprog list"

inductive agent_step :: "AgentConfig \<Rightarrow> agent_machine \<Rightarrow> agent_machine \<Rightarrow> bool" for cf where
  call: "agent_step cf s (s\<lparr>am_threads := am_threads s @ [adapter_program cf c]\<rparr>)"
| run: "i < length (am_threads s) \<Longrightarrow> am_threads s ! i = Do op k \<Longrightarrow>
    perform cf x op (am_world s) = Some (a, w) \<Longrightarrow>
    agent_step cf s \<lparr>am_world = w, am_threads = (am_threads s)[i := k a]\<rparr>"
| fork: "i < length (am_threads s) \<Longrightarrow> am_threads s ! i = Fork p q \<Longrightarrow>
    agent_step cf s (s\<lparr>am_threads := (am_threads s)[i := q] @ [p]\<rparr>)"
| exits: "n < length (aw_objects (am_world s)) \<Longrightarrow>
    agent_step cf s (s\<lparr>am_world := upd n (\<lambda>m. m\<lparr>as_exited := True\<rparr>) (am_world s)\<rparr>)"

definition agent_start :: agent_machine where
  "agent_start = \<lparr>am_world = new_world, am_threads = []\<rparr>"

definition agent_reachable :: "AgentConfig \<Rightarrow> agent_machine \<Rightarrow> bool" where
  "agent_reachable cf s \<longleftrightarrow> (agent_step cf)\<^sup>*\<^sup>* agent_start s"

section \<open>Schedules\<close>

text \<open>A run with the scheduler's choices and the answers of the agent and the system written out.\<close>

datatype agent_move = Calls adapter_call | Runs nat answer | Exits nat

fun agent_next :: "AgentConfig \<Rightarrow> agent_move \<Rightarrow> agent_machine \<Rightarrow> agent_machine option" where
  "agent_next cf (Calls c) s = Some (s\<lparr>am_threads := am_threads s @ [adapter_program cf c]\<rparr>)"
| "agent_next cf (Runs i x) s =
     (if i < length (am_threads s) then
        (case am_threads s ! i of
           Ret r \<Rightarrow> None
         | Fork p q \<Rightarrow> Some (s\<lparr>am_threads := (am_threads s)[i := q] @ [p]\<rparr>)
         | Do op k \<Rightarrow> (case perform cf x op (am_world s) of
             None \<Rightarrow> None | Some (a, w) \<Rightarrow> Some \<lparr>am_world = w, am_threads = (am_threads s)[i := k a]\<rparr>))
      else None)"
| "agent_next cf (Exits n) s =
     (if n < length (aw_objects (am_world s))
      then Some (s\<lparr>am_world := upd n (\<lambda>m. m\<lparr>as_exited := True\<rparr>) (am_world s)\<rparr>) else None)"

fun agent_run :: "AgentConfig \<Rightarrow> agent_move list \<Rightarrow> agent_machine \<Rightarrow> agent_machine option" where
  "agent_run cf [] s = Some s"
| "agent_run cf (m # ms) s = (case agent_next cf m s of None \<Rightarrow> None | Some s' \<Rightarrow> agent_run cf ms s')"

lemma agent_next_step: "agent_next cf m s = Some s' \<Longrightarrow> agent_step cf s s'"
  by (cases m) (auto split: if_splits aprog.splits option.splits intro: agent_step.intros)

lemma agent_run_reachable: "agent_run cf ms s = Some s' \<Longrightarrow> agent_reachable cf s \<Longrightarrow> agent_reachable cf s'"
proof (induction ms arbitrary: s)
  case (Cons m ms)
  then obtain t where "agent_next cf m s = Some t" "agent_run cf ms t = Some s'" by (auto split: option.splits)
  then show ?case using Cons agent_next_step unfolding agent_reachable_def by (meson rtranclp.rtrancl_into_rtrancl)
qed simp

definition ends_in :: "AgentConfig \<Rightarrow> agent_move list \<Rightarrow> (agent_machine \<Rightarrow> bool) \<Rightarrow> bool" where
  "ends_in cf ms P = (case agent_run cf ms agent_start of Some s \<Rightarrow> P s | None \<Rightarrow> False)"

lemma run_witness: "ends_in cf ms P \<Longrightarrow> \<exists>s. agent_reachable cf s \<and> P s"
  using agent_run_reachable [of cf ms agent_start] unfolding ends_in_def
  by (auto simp: agent_reachable_def [of cf agent_start] split: option.splits)

text \<open>A plain agent, a session with a first prompt, and answers in which every call succeeds.\<close>

definition plain_agent :: AgentConfig where
  "plain_agent = \<lparr>ag_Backend = ''b'', ag_Command = ''agent'', ag_ClientName = ''durable-acp'', ag_ClientVersion = ''1'',
     ag_LoadSessionFirst = False, ag_RestartOnExit = False, ag_LegacyExtensions = False,
     ag_BestEffortConfiguration = False, ag_SessionModeValues = [], ag_CompleteOnDone = False,
     ag_ModelInPrompt = False, ag_ResumeTurnCount = None, ag_ReplayTurnIdentity = None\<rparr>"

definition first_request :: StartSessionRequest where
  "first_request = \<lparr>ss_Backend = [], ss_SessionID = ''s'', ss_Worktree = ''/w'', ss_Prompt = ''hi'', ss_Ext = [],
     ss_Attachments = [], ss_Model = [], ss_Reasoning = [], ss_PermissionMode = [], ss_ResumeBackendSessionID = []\<rparr>"

definition success :: answer where
  "success = no_answer\<lparr>an_bool := True, an_text := ''x''\<rparr>"

definition first_run :: "agent_move list" where
  "first_run = Calls (HStart ''s'' first_request) # replicate 19 (Runs 0 success)"

section \<open>Programs that keep to what they hold\<close>

definition holding :: "(agent_op \<Rightarrow> 'r multiset) \<Rightarrow> (agent_op \<Rightarrow> answer \<Rightarrow> 'r multiset) \<Rightarrow> agent_op \<Rightarrow> answer
     \<Rightarrow> 'r multiset \<Rightarrow> 'r multiset" where
  "holding lost got op a R = R - lost op + got op a"

text \<open>A new turn has a name; of the other answers nothing is used.\<close>

fun possible :: "agent_op \<Rightarrow> answer \<Rightarrow> bool" where
  "possible (OTurn o' op) a = (case op of PBegin \<Rightarrow> an_text a \<noteq> [] | _ \<Rightarrow> True)"
| "possible _ a = True"

lemma performed_possible: "perform cf x op w = Some (a, w') \<Longrightarrow> possible op a"
  by (cases op) (auto simp: on_def begin_turn_def turn_id_def Let_def split: turn_op.splits if_splits)

text \<open>
  \<open>obeys\<close>: on every path the program may do its next operation with what it then holds, and
  when it returns it may keep what it holds. Holdings that no state can show are not \<open>sane\<close> and
  are not followed.
\<close>

primrec obeys ::
  "('r multiset \<Rightarrow> bool) \<Rightarrow> ('r multiset \<Rightarrow> bool) \<Rightarrow> ('r multiset \<Rightarrow> agent_op \<Rightarrow> bool)
    \<Rightarrow> (agent_op \<Rightarrow> answer \<Rightarrow> 'r multiset \<Rightarrow> 'r multiset) \<Rightarrow> aprog \<Rightarrow> 'r multiset \<Rightarrow> bool" where
  "obeys fin sane may nxt (Ret r) R = fin R"
| "obeys fin sane may nxt (Do op k) R =
     (may R op \<and> (\<forall>a. possible op a \<and> sane (nxt op a R) \<longrightarrow> obeys fin sane may nxt (k a) (nxt op a R)))"
| "obeys fin sane may nxt (Fork p q) R =
     (\<exists>A B. R = A + B \<and> obeys fin sane may nxt p A \<and> obeys fin sane may nxt q B)"

lemma sum_list_update:
  fixes Rs :: "'r multiset list"
  assumes "i < length Rs"
  shows "\<Sum>\<^sub># (mset (Rs[i := R])) = \<Sum>\<^sub># (mset Rs) - Rs ! i + R"
proof -
  have "\<Sum>\<^sub># (mset Rs) = \<Sum>\<^sub># (mset (take i Rs)) + Rs ! i + \<Sum>\<^sub># (mset (drop (Suc i) Rs))"
    by (metis (no_types, lifting) append_take_drop_id assms Cons_nth_drop_Suc mset_append mset.simps(2) sum_mset.add_mset
        sum_mset.union add.assoc)
  moreover have "\<Sum>\<^sub># (mset (Rs[i := R])) = \<Sum>\<^sub># (mset (take i Rs)) + R + \<Sum>\<^sub># (mset (drop (Suc i) Rs))"
    using assms by (simp add: upd_conv_take_nth_drop add.assoc)
  ultimately show ?thesis by simp
qed

lemma sum_list_nth:
  fixes Rs :: "'r multiset list"
  assumes "i < length Rs"
  shows "\<Sum>\<^sub># (mset Rs) = (\<Sum>\<^sub># (mset Rs) - Rs ! i) + Rs ! i"
  by (metis assms in_multiset_in_set mset_subset_eq_add_left nth_mem subset_mset.diff_add sum_mset.remove)

text \<open>
  The operations that use up nothing in any discipline; the others publish a session, or touch the
  turn, the lock, an answer or the end of a prompt.
\<close>

fun free :: "agent_op \<Rightarrow> bool" where
  "free (OTable op) = (case op of XPublish _ _ \<Rightarrow> False | XReplace _ _ _ \<Rightarrow> False | _ \<Rightarrow> True)"
| "free (OSession o' op) = True"
| "free (OConfig o' op) = True"
| "free (OTurn o' op) =
     (case op of PTryLock \<Rightarrow> False | PLock \<Rightarrow> False | PUnlock \<Rightarrow> False | PBegin \<Rightarrow> False | PStore _ \<Rightarrow> False
      | PSet _ _ \<Rightarrow> False | PEnd _ _ \<Rightarrow> False | PFinish _ \<Rightarrow> False | PTakeIf _ \<Rightarrow> False | _ \<Rightarrow> True)"
| "free (OAsk o' op) = (case op of QAnswer _ _ \<Rightarrow> False | _ \<Rightarrow> True)"
| "free (OContext op) = (case op of NCloseDone _ \<Rightarrow> False | _ \<Rightarrow> True)"
| "free (ORemote r) = (case r of RPrompt _ _ _ _ \<Rightarrow> False | _ \<Rightarrow> True)"

text \<open>
  What the shared steps need of a discipline: free operations may always be done, cost nothing, and
  give nothing that would have to be given back.
\<close>

locale obedience =
  fixes fin :: "'r multiset \<Rightarrow> bool"
    and sane :: "'r multiset \<Rightarrow> bool"
    and may :: "'r multiset \<Rightarrow> agent_op \<Rightarrow> bool"
    and lost :: "agent_op \<Rightarrow> 'r multiset"
    and got :: "agent_op \<Rightarrow> answer \<Rightarrow> 'r multiset"
  assumes fin_none: "fin {#}"
    and sane_part: "sane (R + S) \<Longrightarrow> sane R"
    and free_may: "free op \<Longrightarrow> may R op"
    and free_lost: "free op \<Longrightarrow> lost op = {#}"
    and free_got: "free op \<Longrightarrow> got op a = {#} \<or> (\<forall>R S. fin R \<longrightarrow> fin (R + S))"
    and may_more: "may R op \<Longrightarrow> may (R + S) op"
    and may_lost: "may R op \<Longrightarrow> lost op \<subseteq># R"
begin

declare obeys.simps(2) [simp del]

abbreviation ok :: "aprog \<Rightarrow> 'r multiset \<Rightarrow> bool" where
  "ok \<equiv> obeys fin sane may (holding lost got)"

lemma ok_do: "ok (Do op k) R \<longleftrightarrow>
    may R op \<and> (\<forall>a. possible op a \<and> sane (R - lost op + got op a) \<longrightarrow> ok (k a) (R - lost op + got op a))"
  by (simp add: obeys.simps(2) holding_def)

lemma ok_more:
  assumes "\<And>R S. fin R \<Longrightarrow> fin (R + S)"
  shows "ok p R \<Longrightarrow> ok p (R + S)"
proof (induction p arbitrary: R S)
  case (Ret r)
  then show ?case using assms by simp
next
  case (Do op k)
  then have m: "may R op" and k: "\<And>a. possible op a \<Longrightarrow> sane (R - lost op + got op a) \<Longrightarrow> ok (k a) (R - lost op + got op a)"
    by (auto simp: ok_do)
  have "ok (k a) (R + S - lost op + got op a)" if "possible op a" "sane (R + S - lost op + got op a)" for a
  proof -
    have e: "R + S - lost op + got op a = (R - lost op + got op a) + S"
      using may_lost [OF m] by (metis add.assoc add.commute subset_mset.add_diff_assoc2)
    then have "sane (R - lost op + got op a)" using that(2) sane_part by metis
    then show ?thesis using Do.IH [OF rangeI, OF k [OF that(1)]] e by metis
  qed
  then show ?case using may_more [OF m] by (simp add: ok_do)
next
  case (Fork p q)
  then obtain A B where "R = A + B" "ok p A" "ok q B" by auto
  then have "R + S = A + (B + S)" "ok p A" "ok q (B + S)" using Fork.IH(2) by (simp_all add: add.assoc)
  then show ?case unfolding obeys.simps by blast
qed

lemma free_more: "free op \<Longrightarrow> ok p R \<Longrightarrow> ok p (R + got op a)"
  using free_got [of op a] ok_more by fastforce

lemma free_Do: "free op \<Longrightarrow> (\<And>a. ok (k a) R) \<Longrightarrow> ok (Do op k) R"
  by (simp add: ok_do free_may free_lost free_more)

text \<open>The shared steps, from the inside out.\<close>

lemma ok_emit: "ok k R \<Longrightarrow> ok (emit_event o' e k) R"
  by (simp add: emit_event_def free_Do)

lemma ok_emit_all: "ok k R \<Longrightarrow> ok (emit_all o' es k) R"
  by (induction es) (simp_all add: ok_emit)

lemma ok_config: "ok k R \<Longrightarrow> ok (emitConfig o' opts modes k) R"
  "ok k R \<Longrightarrow> ok (emitAppliedSelection o' kind v opts k) R" "ok k R \<Longrightarrow> ok (emitCurrentMode o' m k) R"
  by (simp_all add: emitConfig_def emitAppliedSelection_def emitCurrentMode_def free_Do ok_emit_all)

lemma ok_selection: "(\<And>es. ok (k es) R) \<Longrightarrow> ok (apply_selection o' kind keys v errs k) R"
  by (simp add: apply_selection_def Let_def free_Do ok_config)

lemma ok_result: "(\<And>e. ok (k e) R) \<Longrightarrow> ok (configurationResult cf o' errs k) R"
  by (simp add: configurationResult_def Let_def ok_emit)

lemma ok_mode: "(\<And>e. ok (k e) R) \<Longrightarrow> ok (apply_mode cf o' m errs k) R"
  by (simp add: apply_mode_def Let_def free_Do ok_config ok_result)

lemma ok_selections: "(\<And>e. ok (k e) R) \<Longrightarrow> ok (applySelections cf o' m r d k) R"
  by (simp add: applySelections_def ok_selection ok_mode)

lemma ok_update: "ok k R \<Longrightarrow> ok (agent_session_update o' n k) R"
  by (simp add: agent_session_update_def free_Do ok_emit_all)

lemma ok_backend: "ok k R \<Longrightarrow> ok (setBackendID o' b k) R"
proof -
  assume k: "ok k R"
  have "ok (replay_startup o' ns k) R" for ns by (induction ns) (simp_all add: k ok_update)
  then show ?thesis by (simp add: setBackendID_def free_Do)
qed

lemma ok_ask: "ok (ask_user o' i q f) {#}"
  by (simp add: ask_user_def free_Do ok_emit fin_none)

lemma ok_stop: "ok k R \<Longrightarrow> ok (stop_session o' k) R"
  by (simp add: stop_session_def free_Do)

lemma ok_close: "(\<And>es. ok (k es) R) \<Longrightarrow> ok (close_connection o' k) R"
  by (simp add: close_connection_def free_Do)

lemma ok_resume: "(\<And>r. ok (k r) R) \<Longrightarrow> ok (resumeSession o' first k) R"
  by (simp add: resumeSession_def Let_def free_Do)

lemma ok_force: "ok k R \<Longrightarrow> ok (force_selection force o' kind v k) R"
  by (simp add: force_selection_def free_Do)

lemma ok_opened:
  "(\<And>e. ok (k (Inl e)) R) \<Longrightarrow> (\<And>b. ok (k (Inr (o', b))) R) \<Longrightarrow> ok (opened_session cf o' b q force k) R"
  by (simp add: opened_session_def ok_force ok_selections ok_stop ok_close split: option.splits)

lemma ok_connected:
  assumes "\<And>e. ok (k (Inl e)) R" and "\<And>b. ok (k (Inr (o', b))) R"
  shows "ok (connected_session cf o' q force first k) R"
  unfolding connected_session_def Let_def
  by (auto simp: assms ok_close ok_opened intro!: free_Do ok_backend ok_resume ok_config split: sum.splits)

lemma ok_open:
  assumes "\<And>e. ok (k (Inl e)) R"
    and "\<And>a n b. an_opt a = Some n \<Longrightarrow> ok (k (Inr (n, b))) (R + got (OTable (XOpen (Clean (ss_Worktree q)))) a)"
  shows "ok (openSession cf sid q force first k) R"
proof -
  let ?op = "OTable (XOpen (Clean (ss_Worktree q)))"
  have "ok (case an_opt c of None \<Rightarrow> k (Inl NotStarted) | Some o' \<Rightarrow> connected_session cf o' q force first k)
      (R - lost ?op + got ?op c)" for c
    using assms(2) free_more [of ?op] by (auto simp: assms(1) free_lost intro!: ok_connected split: option.splits)
  then have "ok (Do ?op (\<lambda>c. case an_opt c of None \<Rightarrow> k (Inl NotStarted)
      | Some o' \<Rightarrow> connected_session cf o' q force first k)) R"
    by (simp add: ok_do free_may)
  then show ?thesis by (simp add: openSession_def assms(1) free_Do)
qed

lemma ok_with: "(\<And>o'. ok (k o') {#}) \<Longrightarrow> ok (with_session sid f k) {#}"
  by (simp add: with_session_def free_Do fin_none split: option.splits)

lemma ok_close_agent: "(\<And>es. ok (k es) R) \<Longrightarrow> ok (close_agent sid k) R"
  by (simp add: close_agent_def free_Do ok_stop ok_close split: option.splits)

lemma ok_prompt_session: "(\<And>e. ok (k e) R) \<Longrightarrow> ok (prompt_session sid b p k) R"
  by (simp add: prompt_session_def free_Do split: option.splits)

lemma ok_probe: "(\<And>ms. ok (k ms) R) \<Longrightarrow> ok (probe_models i ms out k) R"
  by (induction ms arbitrary: out) (simp_all add: free_Do)

text \<open>The methods whose operations are all free.\<close>

lemma ok_catalog: "ok (Agent_Catalog cf) {#}"
  by (simp add: Agent_Catalog_def Let_def free_Do ok_probe fin_none)

lemma ok_direct:
  "ok (CallSession cf sid name ps) {#}" "ok (SessionDirectory sid) {#}" "ok (BackendSessionID sid) {#}" "ok (ActiveTurnID sid) {#}"
  "ok (StopSessionProcess sid) {#}" "ok (PromptSession sid b p) {#}" "ok (PromptForkSession sid b p servers) {#}"
  "ok (CloseBackendSession sid b) {#}" "ok (Agent_CloseSession sid) {#}"
  by (simp_all add: CallSession_def SessionDirectory_def BackendSessionID_def ActiveTurnID_def StopSessionProcess_def
      PromptSession_def PromptForkSession_def CloseBackendSession_def Agent_CloseSession_def Let_def ok_with ok_close
      ok_close_agent ok_prompt_session free_Do fin_none)

lemma ok_requests:
  "ok (RequestPermission o' i q) {#}" "ok (CreateElicitation o' i e obj') {#}" "ok (ElicitationComplete o' obj') {#}"
  "ok (ExtensionRequest o' i name ps) {#}" "ok (ExtensionNotification o' name ps) {#}" "ok (agent_session_update o' n (Ret r)) {#}"
  by (simp_all add: RequestPermission_def CreateElicitation_def ElicitationComplete_def ExtensionRequest_def
      ExtensionNotification_def free_Do ok_ask ok_emit ok_update fin_none split: prod.splits)

lemma ok_observe:
  assumes "\<And>t. t \<noteq> [] \<Longrightarrow> ok (done_completion o' t) {#}"
  shows "ok (observe cf o' raw name ps result) {#}"
proof -
  have "ok (Fork (done_completion o' t) (Ret RNone)) {#}" if "t \<noteq> []" for t
    using assms [OF that] unfolding obeys.simps by (intro exI [of _ "{#}"]) (simp add: fin_none)
  then have d: "ok (scheduleDoneCompletion o' (Ret RNone)) {#}"
    by (auto simp: scheduleDoneCompletion_def fin_none intro!: free_Do)
  then have "ok (case observe_update (ag_CompleteOnDone cf) name ps of
      ObservedDone \<Rightarrow> scheduleDoneCompletion o' (Ret RNone) | ObservedEvent e \<Rightarrow> emit_event o' e (Ret RNone) | _ \<Rightarrow> Ret RNone) {#}"
    by (simp add: ok_emit fin_none split: observed.splits)
  then show ?thesis unfolding observe_def observeReplayTurn_def observe_result_def Let_def
    by (auto intro!: free_Do ok_emit split: option.splits json.splits)
qed

end

locale discipline = obedience fin sane may lost got
  for fin :: "'r multiset \<Rightarrow> bool" and sane :: "'r multiset \<Rightarrow> bool" and may :: "'r multiset \<Rightarrow> agent_op \<Rightarrow> bool" and lost :: "agent_op \<Rightarrow> 'r multiset"
    and got :: "agent_op \<Rightarrow> answer \<Rightarrow> 'r multiset" +
  fixes cf :: AgentConfig
    and inv :: "AgentWorld \<Rightarrow> 'r multiset \<Rightarrow> bool"
  assumes start: "inv new_world {#}"
    and sound: "inv w (H + R) \<Longrightarrow> sane R"
    and keeps: "inv w H \<Longrightarrow> may H op \<Longrightarrow> perform cf x op w = Some (a, w') \<Longrightarrow> inv w' (H - lost op + got op a)"
    and exiting: "inv w H \<Longrightarrow> n < length (aw_objects w) \<Longrightarrow> inv (upd n (\<lambda>m. m\<lparr>as_exited := True\<rparr>) w) H"
    and programs: "ok (adapter_program cf c) {#}"
begin

text \<open>Each goroutine's holding, in the order of the goroutines.\<close>

definition balanced :: "agent_machine \<Rightarrow> 'r multiset list \<Rightarrow> bool" where
  "balanced s Rs \<longleftrightarrow> length Rs = length (am_threads s)
     \<and> (\<forall>i < length Rs. ok (am_threads s ! i) (Rs ! i)) \<and> inv (am_world s) (\<Sum>\<^sub># (mset Rs))"

lemma keeps_part:
  assumes "inv w (H + R)" and "may R op" and "perform cf x op w = Some (a, w')"
  shows "inv w' (H + (R - lost op + got op a))"
proof -
  have "H + (R - lost op + got op a) = H + R - lost op + got op a"
    using may_lost [OF assms(2)] by (metis add.assoc subset_mset.diff_add_assoc)
  moreover have "may (H + R) op" using may_more [OF assms(2)] by (simp add: add.commute)
  ultimately show ?thesis using keeps assms by metis
qed

lemma balanced_step:
  assumes "agent_step cf s s'" and "balanced s Rs"
  shows "\<exists>Rs'. balanced s' Rs'"
  using assms(1)
proof cases
  case (call c)
  then have "balanced s' (Rs @ [{#}])"
    using assms(2) programs [of c] by (auto simp: balanced_def nth_append less_Suc_eq)
  then show ?thesis by blast
next
  case (run i op k x a w)
  have i: "i < length Rs" and o: "ok (Do op k) (Rs ! i)"
    using assms(2) run unfolding balanced_def by metis+
  let ?R = "Rs ! i - lost op + got op a"
  have "inv w ((\<Sum>\<^sub># (mset Rs) - Rs ! i) + ?R)"
    using keeps_part [of "am_world s" "\<Sum>\<^sub># (mset Rs) - Rs ! i" "Rs ! i" op x a w] assms(2) run o sum_list_nth [OF i]
    by (simp add: balanced_def ok_do)
  moreover have "sane ?R" using sound [OF calculation] .
  ultimately have "balanced s' (Rs[i := ?R])"
    using assms(2) run i o by (auto simp: balanced_def sum_list_update nth_list_update ok_do performed_possible)
  then show ?thesis by blast
next
  case (fork i p q)
  have i: "i < length Rs" and o: "ok (Fork p q) (Rs ! i)"
    using assms(2) fork unfolding balanced_def by metis+
  then obtain A B where R: "Rs ! i = A + B" and p: "ok p A" and q: "ok q B"
    by auto
  have "\<Sum>\<^sub># (mset (Rs[i := B] @ [A])) = \<Sum>\<^sub># (mset Rs)"
    using sum_list_nth [OF i] i R by (simp add: sum_list_update) (metis add.assoc add.commute)
  then have "balanced s' (Rs[i := B] @ [A])"
    using assms(2) fork i p q by (auto simp: balanced_def nth_append nth_list_update less_Suc_eq)
  then show ?thesis by blast
next
  case (exits n)
  then have "balanced s' Rs" using assms(2) exiting by (auto simp: balanced_def)
  then show ?thesis by blast
qed

lemma reachable_balanced: "agent_reachable cf s \<Longrightarrow> \<exists>Rs. balanced s Rs"
  unfolding agent_reachable_def
proof (induction rule: rtranclp_induct)
  case base
  have "balanced agent_start []" by (simp add: balanced_def agent_start_def start)
  then show ?case by blast
next
  case (step s s')
  then show ?case using balanced_step by blast
qed

lemma reachable_inv: "agent_reachable cf s \<Longrightarrow> \<exists>H. inv (am_world s) H"
  using reachable_balanced unfolding balanced_def by blast

lemma next_may:
  assumes "agent_reachable cf s" and "i < length (am_threads s)" and "am_threads s ! i = Do op k"
  shows "\<exists>H R. may R op \<and> inv (am_world s) (H + R)"
proof -
  obtain Rs where b: "balanced s Rs" using reachable_balanced [OF assms(1)] by blast
  then have i: "i < length Rs" and "ok (Do op k) (Rs ! i)"
    using assms(2,3) unfolding balanced_def by metis+
  then show ?thesis using b sum_list_nth [OF i] unfolding balanced_def ok_do by metis
qed

text \<open>What the world shows to be held, some goroutine holds, and its program knows.\<close>

lemma held_by:
  assumes "agent_reachable cf s" and "\<And>H. inv (am_world s) H \<Longrightarrow> r \<in># H"
  shows "\<exists>i < length (am_threads s). \<exists>R. r \<in># R \<and> ok (am_threads s ! i) R"
proof -
  obtain Rs where b: "balanced s Rs" using reachable_balanced [OF assms(1)] by blast
  then have "r \<in># \<Sum>\<^sub># (mset Rs)" using assms(2) unfolding balanced_def by blast
  then obtain R where "R \<in> set Rs" and r: "r \<in># R" by (auto simp: in_Union_mset_iff)
  then obtain i where "i < length Rs" "Rs ! i = R" by (metis in_set_conv_nth)
  then show ?thesis using b r unfolding balanced_def by metis
qed

text \<open>What two goroutines hold, they hold together.\<close>

lemma both_may:
  assumes "agent_reachable cf s" and "i < j" and "j < length (am_threads s)"
    and "am_threads s ! i = Do op k" and "am_threads s ! j = Do op' k'"
  shows "\<exists>H R R'. may R op \<and> may R' op' \<and> inv (am_world s) (H + R + R')"
proof -
  obtain Rs where b: "balanced s Rs" using reachable_balanced [OF assms(1)] by blast
  then have j: "j < length Rs" and oks: "ok (Do op k) (Rs ! i)" "ok (Do op' k') (Rs ! j)"
    using assms(2-5) unfolding balanced_def by (metis less_trans)+
  let ?Ts = "take j Rs"
  have i: "i < length ?Ts" using assms(2) j by simp
  have "\<Sum>\<^sub># (mset Rs) = \<Sum>\<^sub># (mset ?Ts) + Rs ! j + \<Sum>\<^sub># (mset (drop (Suc j) Rs))"
    by (metis (no_types, lifting) append_take_drop_id j Cons_nth_drop_Suc mset_append mset.simps(2) sum_mset.add_mset
        sum_mset.union add.assoc)
  also have "\<dots> = (\<Sum>\<^sub># (mset ?Ts) - Rs ! i + \<Sum>\<^sub># (mset (drop (Suc j) Rs))) + Rs ! i + Rs ! j"
    using sum_list_nth [OF i] assms(2) by (simp add: ac_simps)
  finally show ?thesis using b oks unfolding balanced_def ok_do by metis
qed

end

end
