(* ===== verification/Acp_Frames.thy ===== *)
theory Acp_Frames
  imports Acp_Machine
begin

text \<open>
  What the operations of the adapter leave as it is: the lock and the turn of every session, the
  table of sessions, the turns that ended, and the pending interactions.
\<close>

section \<open>What a step leaves as it is\<close>

lemma upd_map:
  "f (g (obj o' w)) = f (obj o' w) \<Longrightarrow> map f (aw_objects (upd o' g w)) = map f (aw_objects w)"
  by (simp add: upd_def obj_def map_update) (metis list_update_id map_update)

lemma cancel_context_objects: "aw_objects (cancel_context c w) = aw_objects w"
  by (simp add: cancel_context_def split: option.splits)

lemma cancel_pending_objects: "aw_objects (cancel_pending n w) = aw_objects w"
  by (simp add: cancel_pending_def answer_pending_def)

lemma cancel_fold_objects: "aw_objects (fold (\<lambda>(i, n). cancel_pending n) xs w) = aw_objects w"
  by (induction xs arbitrary: w) (auto simp: cancel_pending_objects)

lemma cancel_objects: "aw_objects (cancelInteractions o' w) = aw_objects (upd o' (\<lambda>s. s\<lparr>as_interactions := []\<rparr>) w)"
  by (simp add: cancelInteractions_def cancel_fold_objects)

lemma on_some: "on o' w r = Some y \<longleftrightarrow> o' < length (aw_objects w) \<and> r = Some y"
  by (simp add: on_def)

lemmas objects_kept = upd_map cancel_context_objects cancel_objects

section \<open>Locks and turns\<close>

definition core :: "AgentSession \<Rightarrow> bool \<times> string \<times> nat" where
  "core s = (as_promptMu s, as_turnID s, as_turn s)"

definition cores :: "AgentWorld \<Rightarrow> (bool \<times> string \<times> nat) list" where
  "cores w = map core (aw_objects w)"

lemma cores_length [simp]: "length (cores w) = length (aw_objects w)"
  by (simp add: cores_def)

lemma cores_nth: "o' < length (aw_objects w) \<Longrightarrow> cores w ! o' = core (obj o' w)"
  by (simp add: cores_def obj_def)

lemma cores_upd: "cores (upd o' f w) = (cores w)[o' := core (f (obj o' w))]"
  by (simp add: cores_def upd_def map_update)

lemma core_same [simp]:
  "core (s\<lparr>as_done := b\<rparr>) = core s" "core (s\<lparr>as_exited := b\<rparr>) = core s" "core (s\<lparr>as_backendID := u\<rparr>) = core s"
  "core (s\<lparr>as_startup := ns\<rparr>) = core s" "core (s\<lparr>as_replaying := b\<rparr>) = core s" "core (s\<lparr>as_replayFirst := b\<rparr>) = core s"
  "core (s\<lparr>as_replayTurns := us\<rparr>) = core s" "core (s\<lparr>as_tools := t\<rparr>) = core s"
  "core (s\<lparr>as_interactions := m\<rparr>) = core s" "core (s\<lparr>as_forks := fm\<rparr>) = core s"
  "core (updateControls opts modes s) = core s" "core (initializeSelections opts modes s) = core s"
  "core (setSelected kind v s) = core s" "core (set_current_mode u s) = core s"
  by (simp_all add: core_def updateControls_def initializeSelections_def setSelected_def set_current_mode_def Let_def
      split: option.splits prod.splits)

lemma core_interaction_id: "interaction_id p s = (i, s') \<Longrightarrow> core s' = core s"
  by (auto simp: interaction_id_def core_def Let_def split: if_splits)

text \<open>The operations that open a session, or write a lock or a turn.\<close>

fun touches :: "agent_op \<Rightarrow> bool" where
  "touches (OTable op) = (case op of XOpen _ \<Rightarrow> True | _ \<Rightarrow> False)"
| "touches (OSession o' op) = (case op of SSeed _ \<Rightarrow> True | _ \<Rightarrow> False)"
| "touches (OTurn o' op) =
     (case op of PTryLock \<Rightarrow> True | PLock \<Rightarrow> True | PUnlock \<Rightarrow> True | PBegin \<Rightarrow> True | PStore _ \<Rightarrow> True | PSet _ _ \<Rightarrow> True
      | PFinish _ \<Rightarrow> True | PTake \<Rightarrow> True | PTakeIf _ \<Rightarrow> True | _ \<Rightarrow> False)"
| "touches _ = False"

lemma session_cores: "run_session cf x o' op w = (a, w') \<Longrightarrow> \<not> touches (OSession o' op) \<Longrightarrow> cores w' = cores w"
  by (cases op)
    (auto simp: cores_def objects_kept arrive_def update_section_def replay_turn_def mark_section_def Let_def
      split: prod.splits if_splits SessionUpdate.splits intro!: upd_map)

lemma config_cores: "run_config o' op w = (a, w') \<Longrightarrow> cores w' = cores w"
  by (cases op) (auto simp: cores_def objects_kept)

lemma turn_cores: "run_turn o' op w = Some (a, w') \<Longrightarrow> \<not> touches (OTurn o' op) \<Longrightarrow> cores w' = cores w"
  by (cases op) (auto simp: cores_def objects_kept)

lemma ask_cores: "run_ask x o' op w = Some (a, w') \<Longrightarrow> cores w' = cores w"
  by (cases op)
    (auto simp: cores_def objects_kept awaitInteraction_def answer_pending_def Let_def core_interaction_id
      split: prod.splits if_splits option.splits intro!: upd_map)

lemma context_cores: "run_context x op w = Some (a, w') \<Longrightarrow> cores w' = cores w"
  by (cases op) (auto simp: cores_def cancel_context_objects split: if_splits)

lemma untouched:
  assumes "perform cf x op w = Some (a, w')" and "\<not> touches op"
  shows "cores w' = cores w"
proof (cases op)
  case (OTable t)
  then show ?thesis using assms by (cases t) (auto simp: cores_def split: if_splits)
qed (use assms in \<open>auto simp: on_some intro: session_cores config_cores turn_cores ask_cores context_cores\<close>)

section \<open>The table and the turns that ended\<close>

lemma cancel_context_same [simp]:
  "aw_sessions (cancel_context c w) = aw_sessions w" "aw_ended (cancel_context c w) = aw_ended w"
  "aw_pending (cancel_context c w) = aw_pending w"
  by (simp_all add: cancel_context_def split: option.splits)

lemma upd_same [simp]:
  "aw_sessions (upd o' f w) = aw_sessions w" "aw_ended (upd o' f w) = aw_ended w" "aw_pending (upd o' f w) = aw_pending w"
  by (simp_all add: upd_def)

lemma cancel_pending_same [simp]:
  "aw_sessions (cancel_pending n w) = aw_sessions w" "aw_ended (cancel_pending n w) = aw_ended w"
  by (simp_all add: cancel_pending_def answer_pending_def)

lemma cancel_fold_same:
  "aw_sessions (fold (\<lambda>(i, n). cancel_pending n) xs w) = aw_sessions w \<and> aw_ended (fold (\<lambda>(i, n). cancel_pending n) xs w) = aw_ended w"
  by (induction xs arbitrary: w) auto

text \<open>What the lists of sessions and of ended turns are made of.\<close>

definition tables :: "AgentWorld \<Rightarrow> nat gomap \<times> (nat \<times> string) list" where
  "tables w = (aw_sessions w, aw_ended w)"

fun table_writes :: "agent_op \<Rightarrow> bool" where
  "table_writes (OTable op) = (case op of XSession _ \<Rightarrow> False | XOpen _ \<Rightarrow> False | _ \<Rightarrow> True)"
| "table_writes (OTurn o' op) = (case op of PEnd _ _ \<Rightarrow> True | _ \<Rightarrow> False)"
| "table_writes _ = False"

lemma session_tables: "run_session cf x o' op w = (a, w') \<Longrightarrow> tables w' = tables w"
  by (cases op)
    (auto simp: tables_def arrive_def update_section_def replay_turn_def mark_section_def Let_def split: prod.splits if_splits)

lemma config_tables: "run_config o' op w = (a, w') \<Longrightarrow> tables w' = tables w"
  by (cases op) (auto simp: tables_def)

lemma turn_tables: "run_turn o' op w = Some (a, w') \<Longrightarrow> \<not> table_writes (OTurn o' op) \<Longrightarrow> tables w' = tables w"
  by (cases op)
    (auto simp: tables_def begin_turn_def finishTurn_def takeTurn_def takeTurnIf_def Let_def split: if_splits)

lemma ask_tables: "run_ask x o' op w = Some (a, w') \<Longrightarrow> tables w' = tables w"
  by (cases op)
    (auto simp: tables_def awaitInteraction_def answer_pending_def cancelInteractions_def cancel_fold_same Let_def
      split: prod.splits if_splits option.splits)

lemma context_tables: "run_context x op w = Some (a, w') \<Longrightarrow> tables w' = tables w"
  by (cases op) (auto simp: tables_def split: if_splits)

lemma tables_kept:
  assumes "perform cf x op w = Some (a, w')" and "\<not> table_writes op"
  shows "tables w' = tables w"
proof (cases op)
  case (OTable t)
  then show ?thesis using assms by (cases t) (auto simp: tables_def split: if_splits)
qed (use assms in \<open>auto simp: on_some intro: session_tables config_tables turn_tables ask_tables context_tables\<close>)

end
