(* ===== verification/Acp_Locks.thy ===== *)
theory Acp_Locks
  imports Acp_Frames
begin

text \<open>
  The prompt lock of a session (\<open>promptMu\<close> of \<open>src/adapters/acpx/acpx.go\<close>): a goroutine that
  prompts the agent holds it, and so does every goroutine that unlocks it, however the lock passes
  from the sender of a turn to the turn's goroutine and whatever restarts happen between.
\<close>

section \<open>The lock discipline\<close>

definition mutexes :: "AgentWorld \<Rightarrow> bool list" where
  "mutexes w = map as_promptMu (aw_objects w)"

fun lock_may :: "nat multiset \<Rightarrow> agent_op \<Rightarrow> bool" where
  "lock_may R (OTurn o' op) = (case op of PUnlock \<Rightarrow> o' \<in># R | _ \<Rightarrow> True)"
| "lock_may R (ORemote r) = (case r of RPrompt o' _ _ _ \<Rightarrow> o' \<in># R | _ \<Rightarrow> True)"
| "lock_may R _ = True"

fun lock_lost :: "agent_op \<Rightarrow> nat multiset" where
  "lock_lost (OTurn o' op) = (case op of PUnlock \<Rightarrow> {#o'#} | _ \<Rightarrow> {#})"
| "lock_lost _ = {#}"

fun lock_got :: "agent_op \<Rightarrow> answer \<Rightarrow> nat multiset" where
  "lock_got (OTurn o' op) a =
     (case op of PTryLock \<Rightarrow> if an_bool a then {#o'#} else {#} | PLock \<Rightarrow> {#o'#} | _ \<Rightarrow> {#})"
| "lock_got _ a = {#}"

text \<open>The locks held are the locks that are taken, each once.\<close>

definition lock_inv :: "AgentWorld \<Rightarrow> nat multiset \<Rightarrow> bool" where
  "lock_inv w H \<longleftrightarrow> (\<forall>o'. count H o' = (if o' < length (mutexes w) \<and> mutexes w ! o' then 1 else 0))"

text \<open>A goroutine that returns holds no lock, and nobody holds a lock twice.\<close>

definition none_held :: "'r multiset \<Rightarrow> bool" where
  "none_held R \<longleftrightarrow> R = {#}"

definition each_once :: "nat multiset \<Rightarrow> bool" where
  "each_once R \<longleftrightarrow> (\<forall>o'. count R o' \<le> 1)"

interpretation lo: obedience none_held each_once lock_may lock_lost lock_got
proof unfold_locales
  fix op R S a
  show "none_held {#}" by (simp add: none_held_def)
  show "each_once R" if "each_once (R + S)" using that add_leD1 unfolding each_once_def by fastforce
  show "lock_may R op" if "free op" using that by (cases op) (auto split: turn_op.splits remote_op.splits)
  show "lock_lost op = {#}" if "free op" using that by (cases op) (auto split: turn_op.splits)
  show "lock_got op a = {#} \<or> (\<forall>R S. none_held R \<longrightarrow> none_held (R + S))" if "free op"
    using that by (cases op) (auto split: turn_op.splits)
  show "lock_may (R + S) op" if "lock_may R op" using that by (cases op) (auto split: turn_op.splits remote_op.splits)
  show "lock_lost op \<subseteq># R" if "lock_may R op" using that by (cases op) (auto split: turn_op.splits)
qed

section \<open>Every program keeps to it\<close>

lemmas lock_steps = lo.ok_do lo.free_Do lo.ok_emit lo.ok_stop lo.ok_close lo.ok_config lo.ok_with

lemma held_none [simp]: "none_held {#}"
  by (simp add: none_held_def)

lemma lock_replacement: "(\<And>r. lo.ok (k r) R) \<Longrightarrow> lo.ok (publish_replacement sid o' nb k) R"
  by (auto simp: publish_replacement_def lock_steps split: prod.splits)

lemma lock_replace: "(\<And>r. lo.ok (k r) R) \<Longrightarrow> lo.ok (replaceSession cf sid o' k) R"
  unfolding replaceSession_def
  by (auto intro!: lo.ok_stop lo.ok_close lo.free_Do lo.ok_open lock_replacement split: sum.splits)

lemma lock_restart: "(\<And>r. lo.ok (k r) R) \<Longrightarrow> lo.ok (restart_session cf sid k) R"
  unfolding restart_session_def
  by (auto simp: lo.ok_do intro!: lock_replace split: option.splits)

lemma lock_finish: "lo.ok (finish_prompt o' target t done r) (if target = o' then {#o'#} else {#o', target#})"
  unfolding finish_prompt_def emit_end_def Let_def
  by (auto simp: lo.ok_do none_held_def add_mset_commute split: option.splits)

lemma lock_retry: "lo.ok (retry_prompt o' n t done blocks model) {#o'#}"
proof -
  have "lo.ok (finish_prompt o' n t done r) {#n, o'#}" if "each_once {#n, o'#}" for r
  proof -
    have "n \<noteq> o'" using that each_once_def [of "{#n, o'#}"] by (auto dest: spec [of _ o'])
    then show ?thesis using lock_finish [of o' n t "done" r] by (simp add: add_mset_commute)
  qed
  then show ?thesis unfolding retry_prompt_def by (simp add: lo.ok_do)
qed

lemma lock_run: "lo.ok (runPrompt cf sid o' t ctx done blocks model) {#o'#}"
proof -
  have "lo.ok (finish_prompt o' o' t done r) {#o'#}" for r using lock_finish [of o' o' t "done" r] by simp
  then show ?thesis unfolding runPrompt_def
    by (auto simp: lo.ok_do intro!: lock_replace lock_retry split: prompt_result.splits sum.splits)
qed

lemma lock_send_on: "(\<And>r. lo.ok (k r) R) \<Longrightarrow> lo.ok (send_on cf sid o' q k) R"
proof -
  assume k: "\<And>r. lo.ok (k r) R"
  have f: "lo.ok (Fork (runPrompt cf sid o' t c d bs m) (k r)) ({#o'#} + R)" for t c d bs m r
    using lock_run [of cf sid o' t c d bs m] k unfolding obeys.simps by blast
  then have "lo.ok (begin_prompt cf sid o' q k) ({#o'#} + R)"
    unfolding begin_prompt_def by (simp add: lo.ok_do lo.ok_emit del: obeys.simps(3))
  then show ?thesis unfolding send_on_def
    by (auto simp: lo.ok_do k intro!: lo.ok_selections split: option.splits)
qed

lemma lock_send: "(\<And>r. lo.ok (k r) R) \<Longrightarrow> lo.ok (send_turn cf sid q k) R"
  unfolding send_turn_def
  by (auto intro!: lo.free_Do lock_send_on lock_restart split: option.splits sum.splits)

lemma lock_programs: "lo.ok (adapter_program cf c) {#}"
proof -
  have s: "lo.ok (Agent_StartSession cf sid q) {#}" for sid q
    unfolding Agent_StartSession_def
    by (auto simp: lo.ok_do [of "OTable _"] lo.ok_stop lo.ok_close
        intro!: lo.ok_open lock_send lo.ok_close_agent split: sum.splits)
  have t: "lo.ok (Agent_SendTurn cf sid q) {#}" "lo.ok (RestartSession cf sid) {#}" for sid q
    by (simp_all add: Agent_SendTurn_def RestartSession_def lock_send lock_restart)
  have i: "lo.ok (Agent_Interrupt sid) {#}" for sid
    unfolding Agent_Interrupt_def emit_end_def Let_def
    by (auto simp: lo.ok_do intro!: lo.ok_with split: option.splits)
  have r: "lo.ok (Agent_RespondInteraction sid r) {#}" for sid r
    unfolding Agent_RespondInteraction_def
    by (auto simp: lo.ok_do intro!: lo.ok_with lo.ok_emit split: option.splits)
  have d: "lo.ok (done_completion o' t) {#}" for o' t
    unfolding done_completion_def emit_end_def by (auto simp: lo.ok_do split: option.splits)
  show ?thesis
    by (cases c) (simp_all add: s t i r lo.ok_observe d lo.ok_catalog lo.ok_direct lo.ok_requests)
qed

section \<open>Every operation keeps the balance\<close>

text \<open>The operations on the lock, and opening a session, are the ones that change what is taken.\<close>

fun lock_neutral :: "agent_op \<Rightarrow> bool" where
  "lock_neutral (OTable op) = (case op of XOpen _ \<Rightarrow> False | _ \<Rightarrow> True)"
| "lock_neutral (OTurn o' op) = (case op of PTryLock \<Rightarrow> False | PLock \<Rightarrow> False | PUnlock \<Rightarrow> False | _ \<Rightarrow> True)"
| "lock_neutral _ = True"

lemma mutexes_cores: "mutexes w = map fst (cores w)"
  by (simp add: mutexes_def cores_def core_def)

lemma turn_mutexes: "run_turn o' op w = Some (a, w') \<Longrightarrow> lock_neutral (OTurn o' op) \<Longrightarrow> mutexes w' = mutexes w"
  by (cases op)
    (auto simp: mutexes_def objects_kept begin_turn_def finishTurn_def takeTurn_def takeTurnIf_def Let_def
      split: prod.splits if_splits option.splits intro!: upd_map)

lemma neutral_mutexes:
  assumes "perform cf x op w = Some (a, w')" and "lock_neutral op"
  shows "mutexes w' = mutexes w"
proof (cases "touches op")
  case False
  then show ?thesis using untouched [OF assms(1)] by (simp add: mutexes_cores)
next
  case True
  then consider (turn) o' t where "op = OTurn o' t" | (seed) o' n where "op = OSession o' (SSeed n)"
    using assms(2) by (cases op) (auto split: table_op.splits session_op.splits)
  then show ?thesis
  proof cases
    case turn
    then show ?thesis using assms turn_mutexes [of o' t w a w'] by (simp add: on_some)
  next
    case seed
    then show ?thesis using assms by (auto simp: on_some mutexes_def objects_kept)
  qed
qed

lemma neutral_lock: "lock_neutral op \<Longrightarrow> lock_lost op = {#}" "lock_neutral op \<Longrightarrow> lock_got op a = {#}"
  by (cases op; auto split: turn_op.splits)+

lemma lock_set: "mutexes (upd o' (\<lambda>s. s\<lparr>as_promptMu := b\<rparr>) w) = (mutexes w)[o' := b]"
  by (simp add: mutexes_def upd_def map_update)

lemma lock_turn_keeps:
  assumes v: "lock_inv w R" and o: "o' < length (aw_objects w)"
    and r: "run_turn o' op w = Some (a, w')" and m: "lock_may R (OTurn o' op)" and n: "\<not> lock_neutral (OTurn o' op)"
  shows "lock_inv w' (R - lock_lost (OTurn o' op) + lock_got (OTurn o' op) a)"
proof -
  have l: "o' < length (mutexes w)" using o by (simp add: mutexes_def)
  have t: "as_promptMu (obj o' w) = mutexes w ! o'" using o by (simp add: mutexes_def obj_def)
  have c: "count R p = (if p < length (mutexes w) \<and> mutexes w ! p then 1 else 0)" for p
    using v unfolding lock_inv_def by metis
  have h: "count R o' > 0" if "op = PUnlock" using m that by simp
  show ?thesis unfolding lock_inv_def
  proof
    fix p
    show "count (R - lock_lost (OTurn o' op) + lock_got (OTurn o' op) a) p
        = (if p < length (mutexes w') \<and> mutexes w' ! p then 1 else 0)"
      using n r l t c [of p] c [of o'] h
      by (cases op) (auto simp: lock_set nth_list_update split: if_splits)
  qed
qed

lemma lock_keeps:
  assumes "lock_inv w R" and "lock_may R op" and "perform cf x op w = Some (a, w')"
  shows "lock_inv w' (R - lock_lost op + lock_got op a)"
proof (cases "lock_neutral op")
  case True
  then show ?thesis using assms neutral_mutexes [OF assms(3) True] by (simp add: neutral_lock lock_inv_def)
next
  case False
  then consider (open') wt where "op = OTable (XOpen wt)" | (turn) o' t where "op = OTurn o' t"
    by (cases op) (auto split: table_op.splits)
  then show ?thesis
  proof cases
    case open'
    then show ?thesis using assms
      by (auto simp: lock_inv_def mutexes_def new_agent_session_def nth_append less_Suc_eq split: if_splits)
  next
    case turn
    then show ?thesis using assms False lock_turn_keeps [of w R o' t a w'] by (auto simp: on_some)
  qed
qed

interpretation lk: discipline none_held each_once lock_may lock_lost lock_got cf lock_inv for cf
proof unfold_locales
  show "lock_inv new_world {#}" by (simp add: lock_inv_def new_world_def mutexes_def)
next
  fix w H n
  assume "lock_inv w H"
  then show "lock_inv (upd n (\<lambda>m. m\<lparr>as_exited := True\<rparr>) w) H" by (simp add: lock_inv_def mutexes_def objects_kept)
next
  show "each_once R" if "lock_inv w (H + R)" for w H R
    unfolding each_once_def
  proof
    fix o'
    have "count (H + R) o' \<le> 1" using that unfolding lock_inv_def by simp
    then show "count R o' \<le> 1" by simp
  qed
qed (rule lock_keeps lock_programs; assumption?)+

section \<open>One prompt at a time\<close>

definition prompting :: "nat \<Rightarrow> aprog \<Rightarrow> bool" where
  "prompting o' p = (case p of Do (ORemote (RPrompt n _ _ _)) _ \<Rightarrow> n = o' | _ \<Rightarrow> False)"

lemma prompting_op: "prompting o' p \<Longrightarrow> \<exists>c bs m k. p = Do (ORemote (RPrompt o' c bs m)) k"
  by (auto simp: prompting_def split: aprog.splits agent_op.splits remote_op.splits)

lemma prompting_locked:
  assumes "agent_reachable cf s" and "i < length (am_threads s)" and "prompting o' (am_threads s ! i)"
  shows "o' < length (aw_objects (am_world s))" "as_promptMu (obj o' (am_world s))"
proof -
  obtain c bs m k where "am_threads s ! i = Do (ORemote (RPrompt o' c bs m)) k" using assms(3) prompting_op by blast
  then obtain H R where m: "lock_may R (ORemote (RPrompt o' c bs m))" and v: "lock_inv (am_world s) (H + R)"
    using lk.next_may [OF assms(1,2)] by blast
  have "count (H + R) o' > 0" using m by simp
  then have "o' < length (mutexes (am_world s)) \<and> mutexes (am_world s) ! o'"
    using v unfolding lock_inv_def by (metis less_numeral_extra(3))
  then show "o' < length (aw_objects (am_world s))" "as_promptMu (obj o' (am_world s))"
    by (auto simp: mutexes_def obj_def)
qed


lemma first_run_prompts:
  "ends_in plain_agent first_run (\<lambda>s. length (am_threads s) = 2 \<and> prompting 0 (am_threads s ! 1))"
  by code_simp


section \<open>The lock is given back\<close>

definition returned :: "aprog \<Rightarrow> bool" where
  "returned p = (case p of Ret _ \<Rightarrow> True | _ \<Rightarrow> False)"

lemma returned_none: "returned p \<Longrightarrow> lo.ok p R \<Longrightarrow> R = {#}"
  by (auto simp: returned_def none_held_def split: aprog.splits)

text \<open>
  C16: on every path, the errors of a restart included, a goroutine gives the prompt lock back: when the
  goroutines have returned no session is locked, so no session refuses turns for ever.
\<close>
theorem prompt_lock_released:
  assumes "agent_reachable cf s" and "list_all returned (am_threads s)" and "o' < length (aw_objects (am_world s))"
  shows "\<not> as_promptMu (obj o' (am_world s))"
proof
  assume l: "as_promptMu (obj o' (am_world s))"
  have "o' \<in># H" if "lock_inv (am_world s) H" for H
  proof -
    have "count H o' = 1" using that l assms(3) by (simp add: lock_inv_def mutexes_def obj_def)
    then show ?thesis by (metis count_inI zero_neq_one)
  qed
  then obtain i R where "i < length (am_threads s)" "o' \<in># R" "lo.ok (am_threads s ! i) R"
    using lk.held_by [OF assms(1)] by blast
  then show False using assms(2) returned_none [of "am_threads s ! i" R] by (auto simp: list_all_length)
qed

lemma whole_run_returns:
  "ends_in plain_agent (first_run @ replicate 8 (Runs 1 success))
    (\<lambda>s. list_all returned (am_threads s) \<and> length (aw_objects (am_world s)) = 1 \<and> aw_prompts (am_world s) = 1)"
  by code_simp

theorem prompt_lock_released_witness:
  "\<exists>s. agent_reachable plain_agent s \<and> aw_prompts (am_world s) = 1 \<and> \<not> as_promptMu (obj 0 (am_world s))"
proof -
  obtain s where s: "agent_reachable plain_agent s" "list_all returned (am_threads s)"
      "length (aw_objects (am_world s)) = 1" "aw_prompts (am_world s) = 1"
    using run_witness [OF whole_run_returns] by blast
  then show ?thesis using prompt_lock_released [of plain_agent s 0] by auto
qed

end
