(* ===== verification/Acp_Turns.thy ===== *)
theory Acp_Turns
  imports Acp_Locks
begin

text \<open>
  The end of a turn: whoever clears the turn of a session (the turn's goroutine, an interrupt, a
  done completion) emits the event that ends it, and nobody else does. Without restarts on exit
  no turn is ended twice; with them one is, and the schedule is written out.
\<close>

section \<open>The right to end a turn\<close>

text \<open>
  \<open>Tok o' t\<close>: the turn \<open>t\<close> of session \<open>o'\<close> was taken and its event is due. \<open>Own o'\<close>: the
  session was opened and nobody else has seen it. \<open>Use o'\<close>: it was found in the table.
\<close>

datatype turn_right = Tok nat string | Own nat | Use nat

fun turn_may :: "turn_right multiset \<Rightarrow> agent_op \<Rightarrow> bool" where
  "turn_may R (OTable op) =
     (case op of XPublish sid n \<Rightarrow> Own n \<in># R | XReplace sid o' n \<Rightarrow> Own n \<in># R | _ \<Rightarrow> True)"
| "turn_may R (OTurn o' op) =
     (case op of PBegin \<Rightarrow> Use o' \<in># R | PStore m \<Rightarrow> Own o' \<in># R | PSet t d \<Rightarrow> False
      | PFinish t \<Rightarrow> t \<noteq> [] | PTakeIf t \<Rightarrow> t \<noteq> [] | PEnd t e \<Rightarrow> Tok o' t \<in># R | _ \<Rightarrow> True)"
| "turn_may R _ = True"

fun turn_lost :: "agent_op \<Rightarrow> turn_right multiset" where
  "turn_lost (OTable op) = (case op of XPublish sid n \<Rightarrow> {#Own n#} | XReplace sid o' n \<Rightarrow> {#Own n#} | _ \<Rightarrow> {#})"
| "turn_lost (OTurn o' op) = (case op of PEnd t e \<Rightarrow> {#Tok o' t#} | _ \<Rightarrow> {#})"
| "turn_lost _ = {#}"

fun turn_got :: "agent_op \<Rightarrow> answer \<Rightarrow> turn_right multiset" where
  "turn_got (OTable op) a =
     (case op of XOpen wt \<Rightarrow> (case an_opt a of None \<Rightarrow> {#} | Some n \<Rightarrow> {#Own n#})
      | XSession sid \<Rightarrow> (case an_opt a of None \<Rightarrow> {#} | Some n \<Rightarrow> {#Use n#}) | _ \<Rightarrow> {#})"
| "turn_got (OTurn o' op) a =
     (case op of PFinish t \<Rightarrow> if an_bool a then {#Tok o' t#} else {#}
      | PTake \<Rightarrow> if an_text a = [] then {#} else {#Tok o' (an_text a)#}
      | PTakeIf t \<Rightarrow> if an_opt a = None then {#} else {#Tok o' t#} | _ \<Rightarrow> {#})"
| "turn_got _ a = {#}"

interpretation tu: obedience "\<lambda>_. True" "\<lambda>_. True" turn_may turn_lost turn_got
proof unfold_locales
  fix op R S
  show "turn_may R op" if "free op" using that by (cases op) (auto split: turn_op.splits table_op.splits)
  show "turn_lost op = {#}" if "free op" using that by (cases op) (auto split: turn_op.splits table_op.splits)
  show "turn_may (R + S) op" if "turn_may R op" using that by (cases op) (auto split: turn_op.splits table_op.splits)
  show "turn_lost op \<subseteq># R" if "turn_may R op" using that by (cases op) (auto split: turn_op.splits table_op.splits)
qed simp_all

section \<open>Every program keeps to it, when a session is not restarted on exit\<close>

lemma turn_add: "tu.ok p R \<Longrightarrow> tu.ok p (add_mset x R)"
  using tu.ok_more [of p R "{#x#}"] by simp

lemma turn_replacement:
  "(\<And>r. tu.ok (k r) R) \<Longrightarrow> tu.ok (publish_replacement sid o' (n, b) k) (add_mset (Own n) R)"
  unfolding publish_replacement_def
  by (auto simp: tu.ok_do intro!: tu.ok_emit tu.ok_stop tu.ok_close)

lemma turn_replace: "(\<And>r. tu.ok (k r) R) \<Longrightarrow> tu.ok (replaceSession cf sid o' k) R"
  unfolding replaceSession_def
  by (auto intro!: tu.ok_stop tu.ok_close tu.free_Do tu.ok_open turn_replacement split: sum.splits)

lemma turn_restart: "(\<And>r. tu.ok (k r) R) \<Longrightarrow> tu.ok (restart_session cf sid k) R"
  unfolding restart_session_def
  by (auto simp: tu.ok_do turn_add intro!: turn_replace split: option.splits)

lemma turn_end: "Tok o' t \<in># R \<Longrightarrow> tu.ok k (R - {#Tok o' t#}) \<Longrightarrow> tu.ok (emit_end o' t e k) R"
  unfolding emit_end_def by (simp add: tu.ok_do)

lemma turn_finish: "t \<noteq> [] \<Longrightarrow> tu.ok (finish_prompt o' n t done r) R"
  unfolding finish_prompt_def Let_def
  by (auto simp: tu.ok_do turn_end split: option.splits)

lemma turn_run: "\<not> ag_RestartOnExit cf \<Longrightarrow> t \<noteq> [] \<Longrightarrow> tu.ok (runPrompt cf sid o' t ctx done blocks model) R"
  unfolding runPrompt_def
  by (auto simp: tu.ok_do intro!: turn_finish split: prompt_result.splits)

lemma turn_send_on:
  assumes "\<not> ag_RestartOnExit cf" and k: "\<And>r. tu.ok (k r) R" and "Use o' \<in># R"
  shows "tu.ok (send_on cf sid o' q k) R"
proof -
  have f: "tu.ok (Fork (runPrompt cf sid o' t c d bs m) (k r)) R" if "t \<noteq> []" for t c d bs m r
    using turn_run [OF assms(1) that, of sid o' c d bs m "{#}"] k by (metis obeys.simps(3) add.left_neutral)
  then have "tu.ok (begin_prompt cf sid o' q k) R"
    unfolding begin_prompt_def using assms(3) by (simp add: tu.ok_do tu.ok_emit del: obeys.simps(3))
  then show ?thesis unfolding send_on_def
    by (auto simp: tu.ok_do k intro!: tu.ok_selections split: option.splits)
qed

lemma turn_send: "\<not> ag_RestartOnExit cf \<Longrightarrow> (\<And>r. tu.ok (k r) R) \<Longrightarrow> tu.ok (send_turn cf sid q k) R"
  unfolding send_turn_def
  by (auto simp: tu.ok_do turn_add intro!: turn_send_on split: option.splits)

lemma turn_programs:
  assumes "\<not> ag_RestartOnExit cf"
  shows "tu.ok (adapter_program cf c) {#}"
proof -
  have s: "tu.ok (Agent_StartSession cf sid q) {#}" for sid q
    unfolding Agent_StartSession_def
    by (auto simp: tu.ok_do tu.ok_stop tu.ok_close
        intro!: tu.ok_open turn_send assms tu.ok_close_agent split: sum.splits)
  have t: "tu.ok (Agent_SendTurn cf sid q) {#}" "tu.ok (RestartSession cf sid) {#}" for sid q
    by (simp_all add: Agent_SendTurn_def RestartSession_def turn_send assms turn_restart)
  have i: "tu.ok (Agent_Interrupt sid) {#}" for sid
    unfolding Agent_Interrupt_def with_session_def Let_def
    by (auto simp: tu.ok_do intro!: turn_end split: option.splits)
  have r: "tu.ok (Agent_RespondInteraction sid r) {#}" for sid r
    unfolding Agent_RespondInteraction_def with_session_def
    by (auto simp: tu.ok_do intro!: tu.ok_emit split: option.splits)
  have d: "t \<noteq> [] \<Longrightarrow> tu.ok (done_completion o' t) {#}" for o' t
    unfolding done_completion_def by (auto simp: tu.ok_do intro!: turn_end split: option.splits)
  show ?thesis
    by (cases c) (simp_all add: s t i r tu.ok_observe d tu.ok_catalog tu.ok_direct tu.ok_requests)
qed

section \<open>Where a turn is\<close>

text \<open>
  In the session, in the hands of whoever took it, or among the turns that ended. \<open>cs\<close> are the
  locks and turns of the sessions, \<open>es\<close> the turns that ended.
\<close>

definition marks :: "(bool \<times> string \<times> nat) list \<Rightarrow> (nat \<times> string) list \<Rightarrow> turn_right multiset \<Rightarrow> nat \<Rightarrow> string \<Rightarrow> nat" where
  "marks cs es H o' t =
     (if o' < length cs \<and> fst (snd (cs ! o')) = t \<and> t \<noteq> [] then 1 else 0) + count H (Tok o' t) + count (mset es) (o', t)"

definition once :: "(bool \<times> string \<times> nat) list \<Rightarrow> (nat \<times> string) list \<Rightarrow> turn_right multiset \<Rightarrow> bool" where
  "once cs es H \<longleftrightarrow> (\<forall>o' t. marks cs es H o' t \<le> 1)"

text \<open>Every turn has a number the session has counted.\<close>

definition numbered :: "(bool \<times> string \<times> nat) list \<Rightarrow> (nat \<times> string) list \<Rightarrow> turn_right multiset \<Rightarrow> bool" where
  "numbered cs es H \<longleftrightarrow> (\<forall>o' t. 0 < marks cs es H o' t \<longrightarrow>
     o' < length cs \<and> (\<exists>b n. t = turn_id b n \<and> n \<le> snd (snd (cs ! o'))))"

definition owned ::
  "(bool \<times> string \<times> nat) list \<Rightarrow> nat gomap \<Rightarrow> (nat \<times> string) list \<Rightarrow> turn_right multiset \<Rightarrow> bool" where
  "owned cs ss es H \<longleftrightarrow> (\<forall>o'. 0 < count H (Own o') \<longrightarrow>
     count H (Own o') = 1 \<and> o' < length cs \<and> count H (Use o') = 0 \<and> (\<forall>t. marks cs es H o' t = 0)
     \<and> (\<forall>sid. map_of ss sid \<noteq> Some o'))"

definition used :: "(bool \<times> string \<times> nat) list \<Rightarrow> nat gomap \<Rightarrow> turn_right multiset \<Rightarrow> bool" where
  "used cs ss H \<longleftrightarrow> (\<forall>o'. 0 < count H (Use o') \<longrightarrow> o' < length cs) \<and> (\<forall>sid o'. map_of ss sid = Some o' \<longrightarrow> o' < length cs)"

definition tinv ::
  "(bool \<times> string \<times> nat) list \<Rightarrow> nat gomap \<Rightarrow> (nat \<times> string) list \<Rightarrow> turn_right multiset \<Rightarrow> bool" where
  "tinv cs ss es H \<longleftrightarrow> once cs es H \<and> numbered cs es H \<and> owned cs ss es H \<and> used cs ss H"

definition turn_inv :: "AgentWorld \<Rightarrow> turn_right multiset \<Rightarrow> bool" where
  "turn_inv w H \<longleftrightarrow> tinv (cores w) (aw_sessions w) (aw_ended w) H"

lemma tinv_once: "tinv cs ss es H \<Longrightarrow> marks cs es H o' t \<le> 1"
  by (simp add: tinv_def once_def)

lemma tinv_number:
  "tinv cs ss es H \<Longrightarrow> 0 < marks cs es H o' t \<Longrightarrow> o' < length cs \<and> (\<exists>b n. t = turn_id b n \<and> n \<le> snd (snd (cs ! o')))"
  by (simp add: tinv_def numbered_def)

lemma tinv_owned:
  "tinv cs ss es H \<Longrightarrow> 0 < count H (Own o') \<Longrightarrow>
     count H (Own o') = 1 \<and> o' < length cs \<and> count H (Use o') = 0 \<and> (\<forall>t. marks cs es H o' t = 0)
     \<and> (\<forall>sid. map_of ss sid \<noteq> Some o')"
  by (simp add: tinv_def owned_def)

section \<open>What the steps do to it\<close>

text \<open>A step that leaves no turn in more places, and no count lower.\<close>

lemma tinv_less:
  assumes v: "tinv cs ss es H" and "length cs' = length cs" and m: "\<And>o' t. marks cs' es' H' o' t \<le> marks cs es H o' t"
    and "\<And>o'. o' < length cs \<Longrightarrow> snd (snd (cs ! o')) \<le> snd (snd (cs' ! o'))"
    and "\<And>o'. count H' (Own o') = count H (Own o')" and "\<And>o'. count H' (Use o') = count H (Use o')"
  shows "tinv cs' ss es' H'"
  unfolding tinv_def
proof (intro conjI)
  show "once cs' es' H'" unfolding once_def using m tinv_once [OF v] le_trans by blast
  show "numbered cs' es' H'" unfolding numbered_def
  proof (intro allI impI)
    fix o' t
    assume "0 < marks cs' es' H' o' t"
    then have "0 < marks cs es H o' t" using m [of o' t] by simp
    then obtain b n where "o' < length cs" "t = turn_id b n" "n \<le> snd (snd (cs ! o'))"
      using tinv_number [OF v] by blast
    then show "o' < length cs' \<and> (\<exists>b n. t = turn_id b n \<and> n \<le> snd (snd (cs' ! o')))"
      using assms(2) le_trans [OF _ assms(4)] by auto
  qed
  show "owned cs' ss es' H'" unfolding owned_def
  proof (intro allI impI)
    fix o'
    assume "0 < count H' (Own o')"
    then have z: "0 < count H (Own o')" using assms(5) by simp
    have "marks cs' es' H' o' t = 0" for t using m [of o' t] tinv_owned [OF v z] by simp
    then show "count H' (Own o') = 1 \<and> o' < length cs' \<and> count H' (Use o') = 0 \<and> (\<forall>t. marks cs' es' H' o' t = 0)
        \<and> (\<forall>sid. map_of ss sid \<noteq> Some o')"
      using tinv_owned [OF v z] assms(2,5,6) by simp
  qed
  show "used cs' ss H'" using v assms(2,6) unfolding tinv_def used_def by metis
qed

text \<open>A session that nobody else has seen: its count may be set to anything.\<close>

lemma tinv_store:
  assumes v: "tinv cs ss es H" and "0 < count H (Own o')"
  shows "tinv (cs[o' := (l, fst (snd (cs ! o')), m)]) ss es H"
proof -
  have s: "marks (cs[o' := (l, fst (snd (cs ! o')), m)]) es H = marks cs es H"
    by (intro ext) (cases "o' < length cs"; auto simp: marks_def nth_list_update)
  have z: "marks cs es H o' t = 0" for t using tinv_owned [OF v assms(2)] by blast
  have "numbered (cs[o' := (l, fst (snd (cs ! o')), m)]) es H" unfolding numbered_def s
  proof (intro allI impI)
    fix p t
    assume "0 < marks cs es H p t"
    then have "p \<noteq> o'" and "p < length cs \<and> (\<exists>b n. t = turn_id b n \<and> n \<le> snd (snd (cs ! p)))"
      using z tinv_number [OF v] by (metis less_irrefl)+
    then show "p < length (cs[o' := (l, fst (snd (cs ! o')), m)])
        \<and> (\<exists>b n. t = turn_id b n \<and> n \<le> snd (snd (cs[o' := (l, fst (snd (cs ! o')), m)] ! p)))"
      by simp
  qed
  then show ?thesis using v unfolding tinv_def once_def owned_def used_def s by simp
qed

text \<open>A new turn.\<close>

lemma tinv_begin:
  assumes v: "tinv cs ss es H" and "0 < count H (Use o')"
  shows "tinv (cs[o' := (l, turn_id b (Suc (snd (snd (cs ! o')))), Suc (snd (snd (cs ! o'))))]) ss es H"
    (is "tinv ?cs ss es H")
proof -
  let ?n = "Suc (snd (snd (cs ! o')))"
  have o: "o' < length cs" using v assms(2) unfolding tinv_def used_def by blast
  have new: "marks cs es H o' (turn_id b ?n) = 0"
  proof (rule ccontr)
    assume "marks cs es H o' (turn_id b ?n) \<noteq> 0"
    then obtain b' n where "turn_id b ?n = turn_id b' n" "n \<le> snd (snd (cs ! o'))" using tinv_number [OF v] by blast
    then show False using turn_id_inj by fastforce
  qed
  have m: "marks ?cs es H p t \<le> (if p = o' \<and> t = turn_id b ?n then 1 else marks cs es H p t)" for p t
    using new o by (auto simp: marks_def nth_list_update)
  have "numbered ?cs es H" unfolding numbered_def
  proof (intro allI impI)
    fix p t
    assume z: "0 < marks ?cs es H p t"
    show "p < length ?cs \<and> (\<exists>b n. t = turn_id b n \<and> n \<le> snd (snd (?cs ! p)))"
    proof (cases "p = o' \<and> t = turn_id b ?n")
      case True
      then show ?thesis using o by (auto intro!: exI [of _ b] exI [of _ ?n])
    next
      case False
      then have "0 < marks cs es H p t" using z m [of p t] by auto
      then obtain b' n where "p < length cs" "t = turn_id b' n" "n \<le> snd (snd (cs ! p))"
        using tinv_number [OF v] by blast
      then show ?thesis by (cases "p = o'") (auto simp: nth_list_update intro!: exI [of _ b'] exI [of _ n])
    qed
  qed
  moreover have "once ?cs es H"
    unfolding once_def
  proof (intro allI)
    fix p t
    show "marks ?cs es H p t \<le> 1" using m [of p t] tinv_once [OF v, of p t] by (auto split: if_splits)
  qed
  moreover have "owned ?cs ss es H" unfolding owned_def
  proof (intro allI impI)
    fix p
    assume q: "0 < count H (Own p)"
    then have "p \<noteq> o'" using tinv_owned [OF v q] assms(2) by (cases "p = o'") (simp_all del: count_greater_zero_iff)
    then have "marks ?cs es H p t = 0" for t using m [of p t] tinv_owned [OF v q] by simp
    then show "count H (Own p) = 1 \<and> p < length ?cs \<and> count H (Use p) = 0 \<and> (\<forall>t. marks ?cs es H p t = 0)
        \<and> (\<forall>sid. map_of ss sid \<noteq> Some p)"
      using tinv_owned [OF v q] by simp
  qed
  moreover have "used ?cs ss H" using v unfolding tinv_def used_def by simp
  ultimately show ?thesis unfolding tinv_def by simp
qed

text \<open>A new session.\<close>

lemma tinv_open:
  assumes v: "tinv cs ss es H"
  shows "tinv (cs @ [(False, [], 0)]) ss es (add_mset (Own (length cs)) H)"
    (is "tinv ?cs ss es ?H")
proof -
  have m: "marks ?cs es ?H p t = marks cs es H p t" for p t
    by (auto simp: marks_def nth_append less_Suc_eq)
  have z: "marks cs es H (length cs) t = 0" for t
    using v unfolding tinv_def numbered_def by (metis gr_zeroI less_irrefl)
  have n: "count H (Own (length cs)) = 0" "count H (Use (length cs)) = 0" "map_of ss sid \<noteq> Some (length cs)" for sid
    using v unfolding tinv_def owned_def used_def by (metis gr_zeroI less_irrefl)+
  have "once ?cs es ?H" "numbered ?cs es ?H" "used ?cs ss ?H"
    using v unfolding tinv_def once_def numbered_def used_def m
    by (auto simp: nth_append less_Suc_eq)
  moreover have "owned ?cs ss es ?H" unfolding owned_def m
  proof (intro allI impI)
    fix p
    assume q: "0 < count ?H (Own p)"
    show "count ?H (Own p) = 1 \<and> p < length ?cs \<and> count ?H (Use p) = 0 \<and> (\<forall>t. marks cs es H p t = 0)
        \<and> (\<forall>sid. map_of ss sid \<noteq> Some p)"
    proof (cases "p = length cs")
      case True
      then show ?thesis using z n by simp
    next
      case False
      then have "0 < count H (Own p)" using q by (simp split: if_splits)
      then have "count H (Own p) = 1 \<and> p < length cs \<and> count H (Use p) = 0 \<and> (\<forall>t. marks cs es H p t = 0)
          \<and> (\<forall>sid. map_of ss sid \<noteq> Some p)"
        using v unfolding tinv_def owned_def by blast
      then show ?thesis using False by simp
    qed
  qed
  ultimately show ?thesis unfolding tinv_def by simp
qed

text \<open>A session found in the table, and one put there.\<close>

lemma tinv_use:
  assumes v: "tinv cs ss es H" and s: "map_of ss sid = Some n"
  shows "tinv cs ss es (add_mset (Use n) H)"
proof -
  have m: "marks cs es (add_mset (Use n) H) = marks cs es H" by (intro ext) (simp add: marks_def)
  have "count H (Own n) = 0" using v s unfolding tinv_def owned_def by blast
  then show ?thesis using v s unfolding tinv_def once_def numbered_def owned_def used_def m by auto
qed

lemma tinv_publish:
  assumes v: "tinv cs ss es H" and n: "0 < count H (Own n)"
    and s: "\<And>sid p. map_of ss' sid = Some p \<Longrightarrow> p = n \<or> map_of ss sid = Some p"
  shows "tinv cs ss' es (H - {#Own n#})"
proof -
  have m: "marks cs es (H - {#Own n#}) = marks cs es H" by (intro ext) (simp add: marks_def)
  have w: "count H (Own n) = 1" "n < length cs" using v n unfolding tinv_def owned_def by blast+
  have "owned cs ss' es (H - {#Own n#})" unfolding owned_def m
  proof (intro allI impI)
    fix p
    assume "0 < count (H - {#Own n#}) (Own p)"
    then have q: "p \<noteq> n" and z: "0 < count H (Own p)" using w by (auto split: if_splits)
    have "map_of ss' sid \<noteq> Some p" for sid using s [of sid p] q tinv_owned [OF v z] by blast
    then show "count (H - {#Own n#}) (Own p) = 1 \<and> p < length cs \<and> count (H - {#Own n#}) (Use p) = 0
        \<and> (\<forall>t. marks cs es H p t = 0) \<and> (\<forall>sid. map_of ss' sid \<noteq> Some p)"
      using q tinv_owned [OF v z] by simp
  qed
  moreover have "used cs ss' (H - {#Own n#})" using v s w(2) unfolding tinv_def used_def by fastforce
  ultimately show ?thesis using v unfolding tinv_def once_def numbered_def m by simp
qed

lemma tinv_fewer:
  "tinv cs ss es H \<Longrightarrow> (\<And>sid p. map_of ss' sid = Some p \<Longrightarrow> map_of ss sid = Some p) \<Longrightarrow> tinv cs ss' es H"
  unfolding tinv_def owned_def used_def by metis

section \<open>Every operation keeps the balance\<close>

lemma turn_table_keeps:
  assumes v: "turn_inv w H" and m: "turn_may H (OTable op)" and r: "run_table x op w = (a, w')"
  shows "turn_inv w' (H - turn_lost (OTable op) + turn_got (OTable op) a)"
proof (cases op)
  case (XSession sid)
  then show ?thesis using v r tinv_use unfolding turn_inv_def by (auto split: option.splits)
next
  case (XPublish sid n)
  have "tinv (cores w) ss (aw_ended w) (H - {#Own n#})"
    if "ss = aw_sessions w \<or> ss = map_put sid n (aw_sessions w)" for ss
  proof (rule tinv_publish [of _ "aw_sessions w"])
    show "tinv (cores w) (aw_sessions w) (aw_ended w) H" using v by (simp add: turn_inv_def)
    show "0 < count H (Own n)" using m XPublish by simp
  qed (use that in \<open>auto split: if_splits\<close>)
  then show ?thesis using XPublish r unfolding turn_inv_def cores_def by (auto split: if_splits)
next
  case (XReplace sid o' n)
  have "tinv (cores w) ss (aw_ended w) (H - {#Own n#})"
    if "ss = aw_sessions w \<or> ss = map_put sid n (aw_sessions w)" for ss
  proof (rule tinv_publish [of _ "aw_sessions w"])
    show "tinv (cores w) (aw_sessions w) (aw_ended w) H" using v by (simp add: turn_inv_def)
    show "0 < count H (Own n)" using m XReplace by simp
  qed (use that in \<open>auto split: if_splits\<close>)
  then show ?thesis using XReplace r unfolding turn_inv_def cores_def by (auto split: if_splits)
next
  case (XWithdraw sid)
  have "tinv (cores w) (map_del sid (aw_sessions w)) (aw_ended w) H"
    using v unfolding turn_inv_def by (rule tinv_fewer) (auto split: if_splits)
  then show ?thesis using XWithdraw r unfolding turn_inv_def cores_def by auto
next
  case (XOpen wt)
  have "cores (w\<lparr>aw_objects := aw_objects w @ [new_agent_session wt]\<rparr>) = cores w @ [(False, [], 0)]"
    by (simp add: cores_def core_def new_agent_session_def)
  then show ?thesis using XOpen r v tinv_open [of "cores w"] unfolding turn_inv_def by (auto split: if_splits)
qed

text \<open>Locks and counts that grow.\<close>

lemma tinv_same_turn:
  assumes "tinv cs ss es H" and "n \<ge> snd (snd (cs ! o'))"
  shows "tinv (cs[o' := (l, fst (snd (cs ! o')), n)]) ss es H"
  using assms(1)
  by (rule tinv_less) (cases "o' < length cs"; auto simp: marks_def nth_list_update assms(2))+

text \<open>The turn leaves the session, for the hands of whoever took it or for nowhere.\<close>

lemma tinv_clear:
  assumes "tinv cs ss es H" and "o' < length cs"
    and "T = {#} \<or> (fst (snd (cs ! o')) \<noteq> [] \<and> T = {#Tok o' (fst (snd (cs ! o')))#})"
  shows "tinv (cs[o' := (l, [], snd (snd (cs ! o')))]) ss es (H + T)"
  using assms(1)
  by (rule tinv_less) (use assms(2,3) in \<open>auto simp: marks_def nth_list_update\<close>)

text \<open>The event of a turn: from the hands of whoever took it to the turns that ended.\<close>

lemma tinv_end:
  assumes "tinv cs ss es H" and "Tok o' t \<in># H"
  shows "tinv cs ss (es @ [(o', t)]) (H - {#Tok o' t#})"
proof -
  have "count H (Tok o' t) > 0" using assms(2) by simp
  then show ?thesis using assms(1) by (intro tinv_less [OF assms(1)]) (auto simp: marks_def)
qed

lemma turn_turn_keeps:
  assumes v: "turn_inv w H" and m: "turn_may H (OTurn o' op)" and o: "o' < length (aw_objects w)"
    and r: "run_turn o' op w = Some (a, w')"
  shows "turn_inv w' (H - turn_lost (OTurn o' op) + turn_got (OTurn o' op) a)"
proof -
  let ?cs = "cores w" and ?ss = "aw_sessions w" and ?es = "aw_ended w"
  have i: "tinv ?cs ?ss ?es H" using v by (simp add: turn_inv_def)
  have l: "o' < length ?cs" using o by simp
  have c: "?cs ! o' = (as_promptMu (obj o' w), as_turnID (obj o' w), as_turn (obj o' w))"
    using cores_nth [OF o] by (simp add: core_def)
  note same = tinv_same_turn [OF i, of o'] and clear = tinv_clear [OF i l]
  show ?thesis
  proof (cases op)
    case PTryLock
    then show ?thesis using r i same [of "as_turn (obj o' w)" True] c
      by (auto simp: turn_inv_def cores_upd core_def split: if_splits)
  next
    case PLock
    then show ?thesis using r i same [of "as_turn (obj o' w)" True] c
      by (auto simp: turn_inv_def cores_upd core_def split: if_splits)
  next
    case PUnlock
    then show ?thesis using r i same [of "as_turn (obj o' w)" False] c
      by (auto simp: turn_inv_def cores_upd core_def)
  next
    case PBegin
    have "cores w' = ?cs[o' := (as_promptMu (obj o' w),
        turn_id (as_backendID (obj o' w)) (Suc (as_turn (obj o' w))), Suc (as_turn (obj o' w)))]"
      "aw_sessions w' = ?ss" "aw_ended w' = ?es"
      using PBegin r cores_upd [of o' "\<lambda>_. (obj o' w)\<lparr>as_turn := as_turn (obj o' w) + 1\<rparr>" w]
      by (auto simp: begin_turn_def Let_def cores_def upd_def map_update core_def)
    then show ?thesis using PBegin m i tinv_begin [OF i, of o' "as_promptMu (obj o' w)" "as_backendID (obj o' w)"] c
      by (simp add: turn_inv_def)
  next
    case (PStore n)
    then show ?thesis using r m tinv_store [OF i, of o' "as_promptMu (obj o' w)" n] c
      by (auto simp: turn_inv_def cores_upd core_def)
  next
    case (PFinish t)
    have k: "cores (cancel_context cc w1) = cores w1" for cc w1 by (simp add: cores_def cancel_context_objects)
    show ?thesis using PFinish r m i clear [of "{#Tok o' t#}" "as_promptMu (obj o' w)"] c
      by (auto simp: turn_inv_def finishTurn_def k cores_upd core_def split: if_splits)
  next
    case PTake
    then show ?thesis using r i clear [of "{#}" "as_promptMu (obj o' w)"]
        clear [of "{#Tok o' (as_turnID (obj o' w))#}" "as_promptMu (obj o' w)"] c
      by (auto simp: turn_inv_def takeTurn_def cores_upd core_def)
  next
    case (PTakeIf t)
    then show ?thesis using r m i clear [of "{#}" "as_promptMu (obj o' w)"]
        clear [of "{#Tok o' t#}" "as_promptMu (obj o' w)"] c
      by (auto simp: turn_inv_def takeTurnIf_def cores_upd core_def split: if_splits)
  next
    case (PEnd t e)
    then show ?thesis using r m tinv_end [OF i, of o' t] by (auto simp: turn_inv_def cores_def)
  qed (use r m i in \<open>auto simp: turn_inv_def turn_cores cores_def cancel_context_objects objects_kept\<close>)
qed

lemma turn_keeps:
  assumes v: "turn_inv w H" and m: "turn_may H op" and p: "perform cf x op w = Some (a, w')"
  shows "turn_inv w' (H - turn_lost op + turn_got op a)"
proof -
  consider (table) t where "op = OTable t" | (turn) o' t where "op = OTurn o' t"
    | (seed) o' n where "op = OSession o' (SSeed n)"
    | (other) "\<not> touches op" "\<not> table_writes op" "turn_lost op = {#}" "turn_got op a = {#}"
  proof (cases op)
    case (OSession o' u)
    then show ?thesis using seed other by (cases u) simp_all
  qed (use table turn other in simp_all)
  then show ?thesis
  proof cases
    case table
    then show ?thesis using assms turn_table_keeps by simp
  next
    case turn
    then show ?thesis using assms turn_turn_keeps [of w H o' t a w'] by (simp add: on_some)
  next
    case seed
    then have o: "o' < length (aw_objects w)" and w: "w' = upd o' (\<lambda>s. s\<lparr>as_turn := max (as_turn s) n\<rparr>) w"
      using p by (auto simp: on_some)
    have i: "tinv (cores w) (aw_sessions w) (aw_ended w) H" using v by (simp add: turn_inv_def)
    show ?thesis
      using seed w tinv_same_turn [OF i, of o' "max (as_turn (obj o' w)) n" "as_promptMu (obj o' w)"] cores_nth [OF o]
      by (simp add: turn_inv_def cores_upd core_def)
  next
    case other
    then have "tables w' = tables w" "cores w' = cores w" using p tables_kept untouched by blast+
    then show ?thesis using other v by (simp add: turn_inv_def tables_def)
  qed
qed

interpretation tn: discipline "\<lambda>_. True" "\<lambda>_. True" turn_may turn_lost turn_got "cf\<lparr>ag_RestartOnExit := False\<rparr>" turn_inv for cf
proof unfold_locales
  show "turn_inv new_world {#}"
    by (simp add: turn_inv_def tinv_def once_def numbered_def owned_def used_def marks_def new_world_def cores_def)
next
  fix w H n
  assume "turn_inv w H"
  moreover have "cores (upd n (\<lambda>m. m\<lparr>as_exited := True\<rparr>) w) = cores w" by (simp add: cores_def upd_map)
  ultimately show "turn_inv (upd n (\<lambda>m. m\<lparr>as_exited := True\<rparr>) w) H" by (simp add: turn_inv_def)
next
  show "tu.ok (adapter_program (cf\<lparr>ag_RestartOnExit := False\<rparr>) c) {#}" for c by (rule turn_programs) simp
qed (rule turn_keeps TrueI; assumption?)+

section \<open>A turn ends once\<close>


lemma full_turn:
  "ends_in plain_agent (first_run @ replicate 7 (Runs 1 success)) (\<lambda>s. aw_ended (am_world s) = [(0, ''x:1'')])"
  by code_simp


section \<open>With restarts on exit it may end twice\<close>

definition restarting_agent :: AgentConfig where
  "restarting_agent = plain_agent\<lparr>ag_RestartOnExit := True\<rparr>"

text \<open>
  The agent's process exits while it works on the turn; the turn's goroutine has seen that its
  context is not cancelled and starts the replacement when the user interrupts: the interrupt
  finds the old session, ends the turn there and waits; the goroutine goes on with the turn.
\<close>

definition interrupted_restart :: "agent_move list" where
  "interrupted_restart = first_run @ [Runs 0 success, Calls (HInterrupt ''s''), Runs 2 success, Exits 0,
     Runs 1 (success\<lparr>an_prompt := PromptError False ''gone''\<rparr>)]
     @ replicate 4 (Runs 1 success) @ replicate 7 (Runs 2 success) @ replicate 39 (Runs 1 success)"

lemma interrupted_restart_ends:
  "ends_in restarting_agent interrupted_restart (\<lambda>s. aw_ended (am_world s) = [(0, ''x:1''), (1, ''x:1'')])"
  by code_simp

text \<open>
  With restarts on exit, a turn interrupted while its session is replaced is ended twice under one
  identifier: by the interrupt on the old session, and, after the prompt was sent to the agent again, on the
  replacement.
\<close>
theorem restart_ends_turn_twice:
  "\<exists>s. agent_reachable restarting_agent s \<and> aw_ended (am_world s) = [(0, ''x:1''), (1, ''x:1'')]"
  using run_witness [OF interrupted_restart_ends] by blast

end
