(* ===== verification/Acp_Answers.thy ===== *)
theory Acp_Answers
  imports Acp_Turns
begin

text \<open>
  Pending interactions: each waits on a channel with room for one answer. Whoever takes an
  interaction out of its session's table may answer it, and finds the channel empty.
\<close>

section \<open>The right to answer\<close>

text \<open>A holding is the numbers of the interactions that were taken to be answered.\<close>

fun answer_may :: "nat multiset \<Rightarrow> agent_op \<Rightarrow> bool" where
  "answer_may R (OAsk o' op) = (case op of QAnswer n r \<Rightarrow> n \<in># R | _ \<Rightarrow> True)"
| "answer_may R _ = True"

fun answer_lost :: "agent_op \<Rightarrow> nat multiset" where
  "answer_lost (OAsk o' op) = (case op of QAnswer n r \<Rightarrow> {#n#} | _ \<Rightarrow> {#})"
| "answer_lost _ = {#}"

fun answer_got :: "agent_op \<Rightarrow> answer \<Rightarrow> nat multiset" where
  "answer_got (OAsk o' op) a = (case op of QTake i \<Rightarrow> (case an_opt a of None \<Rightarrow> {#} | Some n \<Rightarrow> {#n#}) | _ \<Rightarrow> {#})"
| "answer_got _ a = {#}"

interpretation an: obedience "\<lambda>_. True" "\<lambda>_. True" answer_may answer_lost answer_got
proof unfold_locales
  fix op R S
  show "answer_may R op" if "free op" using that by (cases op) (auto split: ask_op.splits)
  show "answer_lost op = {#}" if "free op" using that by (cases op) (auto split: ask_op.splits)
  show "answer_may (R + S) op" if "answer_may R op" using that by (cases op) (auto split: ask_op.splits)
  show "answer_lost op \<subseteq># R" if "answer_may R op" using that by (cases op) (auto split: ask_op.splits)
qed simp_all

section \<open>Every program keeps to it\<close>

lemma answer_replace: "(\<And>r. an.ok (k r) R) \<Longrightarrow> an.ok (replaceSession cf sid o' k) R"
  unfolding replaceSession_def publish_replacement_def
  by (auto simp: an.ok_do [of "OTable _"] an.ok_do [of "OTurn _ _"]
      intro!: an.ok_stop an.ok_close an.free_Do an.ok_open an.ok_emit split: sum.splits prod.splits)

lemma answer_restart: "(\<And>r. an.ok (k r) R) \<Longrightarrow> an.ok (restart_session cf sid k) R"
  unfolding restart_session_def by (auto simp: an.ok_do intro!: answer_replace split: option.splits)

lemma answer_end: "an.ok k R \<Longrightarrow> an.ok (emit_end o' t e k) R"
  unfolding emit_end_def by (simp add: an.ok_do)

lemma answer_finish: "an.ok (finish_prompt o' n t done r) R"
  unfolding finish_prompt_def Let_def by (auto simp: an.ok_do intro!: answer_end split: option.splits)

lemma answer_run: "an.ok (runPrompt cf sid o' t ctx done blocks model) R"
  unfolding runPrompt_def retry_prompt_def
  by (auto simp: an.ok_do intro!: answer_finish answer_replace split: prompt_result.splits sum.splits)

lemma answer_send_on:
  assumes k: "\<And>r. an.ok (k r) R"
  shows "an.ok (send_on cf sid o' q k) R"
proof -
  have f: "an.ok (Fork (runPrompt cf sid o' t c d bs m) (k r)) R" for t c d bs m r
    using answer_run [of cf sid o' t c d bs m "{#}"] k by (metis obeys.simps(3) add.left_neutral)
  then have "an.ok (begin_prompt cf sid o' q k) R"
    unfolding begin_prompt_def by (simp add: an.ok_do an.ok_emit del: obeys.simps(3))
  then show ?thesis unfolding send_on_def
    by (auto simp: an.ok_do k intro!: an.ok_selections split: option.splits)
qed

lemma answer_send: "(\<And>r. an.ok (k r) R) \<Longrightarrow> an.ok (send_turn cf sid q k) R"
  unfolding send_turn_def
  by (auto simp: an.ok_do intro!: answer_send_on answer_restart split: option.splits sum.splits)

lemma answer_programs: "an.ok (adapter_program cf c) {#}"
proof -
  have s: "an.ok (Agent_StartSession cf sid q) {#}" for sid q
    unfolding Agent_StartSession_def
    by (auto simp: an.ok_do an.ok_stop an.ok_close intro!: an.ok_open answer_send an.ok_close_agent split: sum.splits)
  have t: "an.ok (Agent_SendTurn cf sid q) {#}" "an.ok (RestartSession cf sid) {#}" for sid q
    by (simp_all add: Agent_SendTurn_def RestartSession_def answer_send answer_restart)
  have i: "an.ok (Agent_Interrupt sid) {#}" for sid
    unfolding Agent_Interrupt_def Let_def by (auto simp: an.ok_do intro!: an.ok_with answer_end split: option.splits)
  have r: "an.ok (Agent_RespondInteraction sid r) {#}" for sid r
    unfolding Agent_RespondInteraction_def
    by (auto simp: an.ok_do intro!: an.ok_with an.ok_emit split: option.splits)
  have d: "an.ok (done_completion o' t) {#}" for o' t
    unfolding done_completion_def by (auto simp: an.ok_do intro!: answer_end split: option.splits)
  show ?thesis
    by (cases c) (simp_all add: s t i r an.ok_observe d an.ok_catalog an.ok_direct an.ok_requests)
qed

section \<open>Where an interaction is\<close>

definition waiting :: "AgentSession \<Rightarrow> nat multiset" where
  "waiting s = mset (map snd (as_interactions s))"

definition entries :: "AgentWorld \<Rightarrow> nat multiset" where
  "entries w = \<Sum>\<^sub># (mset (map waiting (aw_objects w)))"

definition answered :: "AgentWorld \<Rightarrow> nat \<Rightarrow> bool" where
  "answered w n \<longleftrightarrow> n < length (aw_pending w) \<and> pi_response (aw_pending w ! n) \<noteq> None"

text \<open>In one table, in the hands of one goroutine, or answered; and only if it was made.\<close>

definition answer_inv :: "AgentWorld \<Rightarrow> nat multiset \<Rightarrow> bool" where
  "answer_inv w H \<longleftrightarrow> (\<forall>n. count (entries w) n + count H n + (if answered w n then 1 else 0)
     \<le> (if n < length (aw_pending w) then 1 else 0))"

lemma entries_upd:
  "o' < length (aw_objects w) \<Longrightarrow> entries (upd o' f w) = entries w - waiting (obj o' w) + waiting (f (obj o' w))"
  unfolding entries_def upd_def obj_def
  using sum_list_update [of o' "map waiting (aw_objects w)" "waiting (f (aw_objects w ! o'))"]
  by (simp add: map_update)

lemma entries_part:
  "o' < length (aw_objects w) \<Longrightarrow> entries w = (entries w - waiting (obj o' w)) + waiting (obj o' w)"
  unfolding entries_def obj_def using sum_list_nth [of o' "map waiting (aw_objects w)"] by simp

text \<open>What the cancellation of all interactions of a session does.\<close>

lemma answer_pending_length [simp]: "length (aw_pending (answer_pending n r w)) = length (aw_pending w)"
  by (simp add: answer_pending_def)

lemma answered_answer: "answered (answer_pending n r w) k \<longleftrightarrow> answered w k \<or> (k = n \<and> n < length (aw_pending w))"
  by (cases "k = n") (auto simp: answered_def answer_pending_def)

lemma answered_cancel: "answered (cancel_pending n w) k \<longleftrightarrow> answered w k \<or> (k = n \<and> n < length (aw_pending w))"
proof (cases "pi_response (aw_pending w ! n) = None")
  case True
  then show ?thesis by (simp add: cancel_pending_def answered_answer)
next
  case False
  then show ?thesis by (auto simp: cancel_pending_def answered_def)
qed

lemma cancel_pending_length [simp]: "length (aw_pending (cancel_pending n w)) = length (aw_pending w)"
  by (simp add: cancel_pending_def)

lemma answered_fold:
  "(answered (fold (\<lambda>(i, n). cancel_pending n) xs w) k \<longleftrightarrow> answered w k \<or> (k \<in> snd ` set xs \<and> k < length (aw_pending w)))
   \<and> length (aw_pending (fold (\<lambda>(i, n). cancel_pending n) xs w)) = length (aw_pending w)"
proof (induction xs arbitrary: w)
  case (Cons p xs)
  obtain i n where p: "p = (i, n)" by (cases p)
  show ?case using Cons [of "cancel_pending n w"] unfolding p by (auto simp: answered_cancel)
qed simp

section \<open>Every operation keeps the balance\<close>

text \<open>The sessions' tables of interactions, and the interactions themselves.\<close>

definition asks :: "AgentWorld \<Rightarrow> nat gomap list \<times> pendingInteraction list" where
  "asks w = (map as_interactions (aw_objects w), aw_pending w)"

lemma answer_inv_asks: "asks w' = asks w \<Longrightarrow> answer_inv w' H = answer_inv w H"
proof -
  assume a: "asks w' = asks w"
  have "map waiting (aw_objects v) = map (\<lambda>m. mset (map snd m)) (fst (asks v))" for v
    by (simp add: asks_def waiting_def [abs_def] comp_def)
  then have "entries w' = entries w" using a by (simp only: entries_def)
  then show ?thesis using a by (simp add: answer_inv_def answered_def asks_def)
qed

lemma interactions_same [simp]:
  "as_interactions (updateControls opts modes s) = as_interactions s"
  "as_interactions (initializeSelections opts modes s) = as_interactions s"
  "as_interactions (setSelected kind v s) = as_interactions s" "as_interactions (set_current_mode u s) = as_interactions s"
  by (simp_all add: updateControls_def initializeSelections_def setSelected_def set_current_mode_def Let_def
      split: option.splits prod.splits)

fun ask_writes :: "agent_op \<Rightarrow> bool" where
  "ask_writes (OTable op) = (case op of XOpen _ \<Rightarrow> True | _ \<Rightarrow> False)"
| "ask_writes (OAsk o' op) =
     (case op of QAwait _ _ \<Rightarrow> True | QRemove _ \<Rightarrow> True | QTake _ \<Rightarrow> True | QAnswer _ _ \<Rightarrow> True | QCancelAll \<Rightarrow> True | _ \<Rightarrow> False)"
| "ask_writes _ = False"

lemma session_asks: "run_session cf x o' op w = (a, w') \<Longrightarrow> asks w' = asks w"
  by (cases op)
    (auto simp: asks_def objects_kept arrive_def update_section_def replay_turn_def mark_section_def Let_def
      split: prod.splits if_splits SessionUpdate.splits intro!: upd_map)

lemma config_asks: "run_config o' op w = (a, w') \<Longrightarrow> asks w' = asks w"
  by (cases op) (auto simp: asks_def objects_kept)

lemma turn_asks: "run_turn o' op w = Some (a, w') \<Longrightarrow> asks w' = asks w"
  by (cases op)
    (auto simp: asks_def objects_kept begin_turn_def finishTurn_def takeTurn_def takeTurnIf_def Let_def
      split: if_splits intro!: upd_map)

lemma ask_asks: "run_ask x o' op w = Some (a, w') \<Longrightarrow> \<not> ask_writes (OAsk o' op) \<Longrightarrow> asks w' = asks w"
  by (cases op) (auto simp: asks_def objects_kept split: if_splits option.splits)

lemma context_asks: "run_context x op w = Some (a, w') \<Longrightarrow> asks w' = asks w"
  by (cases op) (auto simp: asks_def cancel_context_objects split: if_splits)

lemma asks_kept:
  assumes "perform cf x op w = Some (a, w')" and "\<not> ask_writes op"
  shows "asks w' = asks w"
proof (cases op)
  case (OTable t)
  then show ?thesis using assms by (cases t) (auto simp: asks_def split: if_splits)
qed (use assms in \<open>auto simp: on_some intro: session_asks config_asks turn_asks ask_asks context_asks\<close>)

lemma answer_less:
  assumes "answer_inv w H" and "length (aw_pending w') = length (aw_pending w)"
    and "\<And>n. count (entries w') n + count H' n + (if answered w' n then 1 else 0)
      \<le> count (entries w) n + count H n + (if answered w n then 1 else (0::nat))"
  shows "answer_inv w' H'"
  using assms(1,2) le_trans [OF assms(3)] unfolding answer_inv_def by simp

lemma answer_await:
  assumes v: "answer_inv w H" and o: "o' < length (aw_objects w)" and r: "awaitInteraction o' i q w = (a, w')"
  shows "answer_inv w' H"
proof -
  obtain j s where j: "interaction_id i (obj o' w) = (j, s)" by (cases "interaction_id i (obj o' w)")
  have s: "as_interactions s = as_interactions (obj o' w)"
    using j by (auto simp: interaction_id_def Let_def split: if_splits)
  let ?N = "length (aw_pending w)"
  let ?u = "upd o' (\<lambda>_. s\<lparr>as_interactions := map_put j ?N (as_interactions s)\<rparr>) w"
  have w: "w' = ?u\<lparr>aw_pending := aw_pending w @ [\<lparr>pi_request = q\<lparr>ir_ID := j\<rparr>, pi_response = None\<rparr>]\<rparr>"
    using r j by (simp add: awaitInteraction_def Let_def)
  have "entries w' = entries w - waiting (obj o' w) + mset (map snd (map_put j ?N (as_interactions (obj o' w))))"
    using entries_upd [OF o] w s by (simp add: entries_def waiting_def)
  then have e: "count (entries w') n \<le> count (entries w) n + (if n = ?N then 1 else 0)" for n
    using count_put [of j ?N "as_interactions (obj o' w)" n] arg_cong [OF entries_part [OF o], of "\<lambda>M. count M n"]
    by (simp add: waiting_def)
  have b: "answered w' n \<longleftrightarrow> answered w n" for n unfolding w by (auto simp: answered_def nth_append less_Suc_eq)
  have l: "length (aw_pending w') = Suc ?N" unfolding w by simp
  show ?thesis unfolding answer_inv_def
  proof
    fix n
    have "count (entries w) n + count H n + (if answered w n then 1 else 0) \<le> (if n < ?N then 1 else 0)"
      using v unfolding answer_inv_def by blast
    then show "count (entries w') n + count H n + (if answered w' n then 1 else 0) \<le> (if n < length (aw_pending w') then 1 else 0)"
      using e [of n] unfolding b l by (auto split: if_splits)
  qed
qed

lemma answer_remove:
  assumes v: "answer_inv w H" and o: "o' < length (aw_objects w)"
    and H: "\<And>n. count H' n \<le> count H n + (if map_of (as_interactions (obj o' w)) i = Some n then 1 else 0)"
  shows "answer_inv (upd o' (\<lambda>s. s\<lparr>as_interactions := map_del i (as_interactions s)\<rparr>) w) H'"
proof (rule answer_less [OF v])
  fix n
  let ?w = "upd o' (\<lambda>s. s\<lparr>as_interactions := map_del i (as_interactions s)\<rparr>) w"
  have "entries ?w = entries w - waiting (obj o' w) + mset (map snd (map_del i (as_interactions (obj o' w))))"
    using entries_upd [OF o] by (simp add: waiting_def)
  then have "count (entries ?w) n + (if map_of (as_interactions (obj o' w)) i = Some n then 1 else 0) \<le> count (entries w) n"
    using count_del [of i "as_interactions (obj o' w)" n] arg_cong [OF entries_part [OF o], of "\<lambda>M. count M n"]
    by (simp add: waiting_def)
  moreover have "answered ?w n = answered w n" by (simp add: answered_def)
  ultimately show "count (entries ?w) n + count H' n + (if answered ?w n then 1 else 0)
      \<le> count (entries w) n + count H n + (if answered w n then 1 else 0)"
    using H [of n] by simp
qed simp

lemma answer_cancel:
  assumes v: "answer_inv w H" and o: "o' < length (aw_objects w)"
  shows "answer_inv (cancelInteractions o' w) H"
proof (rule answer_less [OF v])
  let ?u = "upd o' (\<lambda>s. s\<lparr>as_interactions := []\<rparr>) w" and ?xs = "as_interactions (obj o' w)"
  show "length (aw_pending (cancelInteractions o' w)) = length (aw_pending w)"
    using answered_fold [of ?xs ?u] by (simp add: cancelInteractions_def)
  fix n
  have "entries (cancelInteractions o' w) = entries ?u" by (simp add: entries_def cancel_objects)
  then have e: "count (entries (cancelInteractions o' w)) n + count (waiting (obj o' w)) n = count (entries w) n"
    using entries_upd [OF o, of "\<lambda>s. s\<lparr>as_interactions := []\<rparr>"] arg_cong [OF entries_part [OF o], of "\<lambda>M. count M n"]
    by (simp add: waiting_def)
  have "answered (cancelInteractions o' w) n \<longleftrightarrow> answered w n \<or> (n \<in> snd ` set ?xs \<and> n < length (aw_pending w))"
  proof -
    have "answered ?u n = answered w n" by (simp add: answered_def)
    then show ?thesis using answered_fold [of ?xs ?u n] by (simp add: cancelInteractions_def)
  qed
  moreover have "n \<in> snd ` set ?xs \<Longrightarrow> 0 < count (waiting (obj o' w)) n"
    by (simp add: waiting_def count_greater_zero_iff)
  ultimately show "count (entries (cancelInteractions o' w)) n + count H n + (if answered (cancelInteractions o' w) n then 1 else 0)
      \<le> count (entries w) n + count H n + (if answered w n then 1 else 0)"
    using e by (cases "n \<in> snd ` set ?xs"; cases "answered w n"; cases "n < length (aw_pending w)")
      (simp_all del: count_greater_zero_iff)
qed

lemma answer_given:
  assumes v: "answer_inv w H" and n: "n \<in># H"
  shows "answer_inv (answer_pending n r w) (H - {#n#})"
proof (rule answer_less [OF v])
  fix k
  have "0 < count H n" using n by simp
  then show "count (entries (answer_pending n r w)) k + count (H - {#n#}) k + (if answered (answer_pending n r w) k then 1 else 0)
      \<le> count (entries w) k + count H k + (if answered w k then 1 else 0)"
    unfolding answered_answer by (auto simp: entries_def answer_pending_def)
qed simp

lemma answer_ask_keeps:
  assumes v: "answer_inv w H" and m: "answer_may H (OAsk o' op)" and o: "o' < length (aw_objects w)"
    and r: "run_ask x o' op w = Some (a, w')"
  shows "answer_inv w' (H - answer_lost (OAsk o' op) + answer_got (OAsk o' op) a)"
proof (cases op)
  case (QAwait i q)
  then show ?thesis using answer_await [OF v o] r by simp
next
  case (QRemove i)
  then show ?thesis using answer_remove [OF v o, of H i] r by auto
next
  case (QTake i)
  then show ?thesis using answer_remove [OF v o, of "H + answer_got (OAsk o' op) a" i] r by (auto split: option.splits)
next
  case QCancelAll
  then show ?thesis using answer_cancel [OF v o] r by simp
next
  case (QAnswer n q)
  have "answer_inv w (H - {#n#})"
    by (rule answer_less [OF v]) (auto intro!: add_mono)
  then show ?thesis using QAnswer answer_given [OF v, of n q] r m by (auto split: if_splits)
qed (use r v in \<open>auto simp: answer_inv_asks [OF ask_asks [of x o' op w a w']]\<close>)

lemma answer_keeps:
  assumes v: "answer_inv w H" and m: "answer_may H op" and p: "perform cf x op w = Some (a, w')"
  shows "answer_inv w' (H - answer_lost op + answer_got op a)"
proof -
  consider (ask) o' t where "op = OAsk o' t" | (opens) wt where "op = OTable (XOpen wt)"
    | (other) "\<not> ask_writes op" "answer_lost op = {#}" "answer_got op a = {#}"
  proof (cases op)
    case (OTable t)
    then show ?thesis using opens other by (cases t) simp_all
  qed (use ask other in simp_all)
  then show ?thesis
  proof cases
    case ask
    then show ?thesis using assms answer_ask_keeps [of w H o' t x a w'] by (simp add: on_some)
  next
    case opens
    have "entries (w\<lparr>aw_objects := aw_objects w @ [new_agent_session wt]\<rparr>) = entries w"
      by (simp add: entries_def waiting_def new_agent_session_def)
    then have e: "entries w' = entries w" and l: "aw_pending w' = aw_pending w" using opens p by (auto split: if_splits)
    then have "answer_inv w' H" using v by (simp add: answer_inv_def answered_def)
    then show ?thesis using opens by simp
  next
    case other
    then show ?thesis using answer_inv_asks [OF asks_kept [OF p]] v by simp
  qed
qed

interpretation aw: discipline "\<lambda>_. True" "\<lambda>_. True" answer_may answer_lost answer_got cf answer_inv for cf
proof unfold_locales
  show "answer_inv new_world {#}" by (simp add: answer_inv_def entries_def answered_def new_world_def)
next
  fix w H n
  assume "answer_inv w H"
  moreover have "asks (upd n (\<lambda>m. m\<lparr>as_exited := True\<rparr>) w) = asks w" by (simp add: asks_def upd_map)
  ultimately show "answer_inv (upd n (\<lambda>m. m\<lparr>as_exited := True\<rparr>) w) H" using answer_inv_asks by blast
qed (rule answer_keeps answer_programs TrueI; assumption?)+

section \<open>An answer never blocks\<close>

text \<open>
  C15: in every interleaving of calls, agent requests, cancellations and exits, a goroutine about to
  answer an interaction finds its channel empty: the send succeeds at once, so the call of the user never
  hangs and an interaction is answered at most once.
\<close>
theorem answer_never_blocks:
  assumes "agent_reachable cf s" and "i < length (am_threads s)" and "am_threads s ! i = Do (OAsk o' (QAnswer n r)) k"
  shows "n < length (aw_pending (am_world s)) \<and> pi_response (aw_pending (am_world s) ! n) = None
     \<and> run_ask (yes True) o' (QAnswer n r) (am_world s) = Some (yes True, answer_pending n r (am_world s))"
proof -
  obtain H R where "answer_may R (OAsk o' (QAnswer n r))" and v: "answer_inv (am_world s) (H + R)"
    using aw.next_may [OF assms] by blast
  then have "0 < count (H + R) n" by simp
  moreover have "count (entries (am_world s)) n + count (H + R) n + (if answered (am_world s) n then 1 else 0)
      \<le> (if n < length (aw_pending (am_world s)) then 1 else 0)"
    using v unfolding answer_inv_def by blast
  ultimately have "n < length (aw_pending (am_world s))" "\<not> answered (am_world s) n"
    by (auto simp del: count_union count_greater_zero_iff split: if_splits)
  then show ?thesis by (auto simp: answered_def)
qed

text \<open>The agent asks for input and the user answers.\<close>

definition some_answer :: InteractionResponse where
  "some_answer = \<lparr>rs_RequestID = ''q'', rs_Action = ''approve'', rs_OptionID = [], rs_Message = [], rs_Values = []\<rparr>"

definition asking_run :: "agent_move list" where
  "asking_run = first_run @ [Calls (GElicit 0 ''q'' ElicitNone [])] @ replicate 4 (Runs 2 success)
     @ [Calls (HRespond ''s'' some_answer), Runs 3 success, Runs 3 success]"

definition answering :: "nat \<Rightarrow> aprog \<Rightarrow> bool" where
  "answering n p = (case p of Do (OAsk o' (QAnswer m r)) k \<Rightarrow> m = n | _ \<Rightarrow> False)"

lemma asking_run_answers: "ends_in plain_agent asking_run (\<lambda>s. length (am_threads s) = 4 \<and> answering 0 (am_threads s ! 3))"
  by code_simp

theorem answer_never_blocks_witness:
  "\<exists>s. agent_reachable plain_agent s \<and> answering 0 (am_threads s ! 3)
     \<and> 0 < length (aw_pending (am_world s)) \<and> pi_response (aw_pending (am_world s) ! 0) = None"
proof -
  obtain s where s: "agent_reachable plain_agent s" "length (am_threads s) = 4" "answering 0 (am_threads s ! 3)"
    using run_witness [OF asking_run_answers] by blast
  then obtain o' r k where "am_threads s ! 3 = Do (OAsk o' (QAnswer 0 r)) k"
    by (auto simp: answering_def split: aprog.splits agent_op.splits ask_op.splits)
  then show ?thesis using answer_never_blocks [of plain_agent s 3 o' 0 r k] s by auto
qed

end
