(* ===== verification/Acp_Channels.thy ===== *)
theory Acp_Channels
  imports Acp_Locks
begin

text \<open>
  The channel that a prompt's goroutine closes when it is done (\<open>promptDone\<close> of
  \<open>src/adapters/acpx/acpx.go\<close>): closed once, which Go requires, and closed on every path, which
  an interrupt waits for.
\<close>

section \<open>The duty to close\<close>

fun close_may :: "nat multiset \<Rightarrow> agent_op \<Rightarrow> bool" where
  "close_may R (OContext op) = (case op of NCloseDone d \<Rightarrow> d \<in># R | _ \<Rightarrow> True)"
| "close_may R _ = True"

fun close_lost :: "agent_op \<Rightarrow> nat multiset" where
  "close_lost (OContext op) = (case op of NCloseDone d \<Rightarrow> {#d#} | _ \<Rightarrow> {#})"
| "close_lost _ = {#}"

fun close_got :: "agent_op \<Rightarrow> answer \<Rightarrow> nat multiset" where
  "close_got (OTurn o' op) a = (case op of PBegin \<Rightarrow> (case an_opt a of None \<Rightarrow> {#} | Some d \<Rightarrow> {#d#}) | _ \<Rightarrow> {#})"
| "close_got _ a = {#}"

interpretation cl: obedience none_held "\<lambda>_. True" close_may close_lost close_got
proof unfold_locales
  fix op R S a
  show "none_held {#}" by simp
  show "close_may R op" if "free op" using that by (cases op) (auto split: context_op.splits)
  show "close_lost op = {#}" if "free op" using that by (cases op) (auto split: context_op.splits)
  show "close_got op a = {#} \<or> (\<forall>R S. none_held R \<longrightarrow> none_held (R + S))" if "free op"
    using that by (cases op) (auto split: turn_op.splits)
  show "close_may (R + S) op" if "close_may R op" using that by (cases op) (auto split: context_op.splits)
  show "close_lost op \<subseteq># R" if "close_may R op" using that by (cases op) (auto split: context_op.splits)
qed simp

section \<open>Every program keeps to it\<close>

lemma close_replace: "(\<And>r. cl.ok (k r) R) \<Longrightarrow> cl.ok (replaceSession cf sid o' k) R"
  unfolding replaceSession_def publish_replacement_def
  by (auto simp: cl.ok_do [of "OTable _"] cl.ok_do [of "OTurn _ _"]
      intro!: cl.ok_stop cl.ok_close cl.free_Do cl.ok_open cl.ok_emit split: sum.splits prod.splits)

lemma close_restart: "(\<And>r. cl.ok (k r) R) \<Longrightarrow> cl.ok (restart_session cf sid k) R"
  unfolding restart_session_def by (auto simp: cl.ok_do intro!: close_replace split: option.splits)

lemma close_end: "cl.ok k R \<Longrightarrow> cl.ok (emit_end o' t e k) R"
  unfolding emit_end_def by (simp add: cl.ok_do)

text \<open>What the goroutine of a prompt holds for its channel.\<close>

definition due :: "nat option \<Rightarrow> nat multiset" where
  "due dn = (case dn of None \<Rightarrow> {#} | Some d \<Rightarrow> {#d#})"

lemma close_finish: "cl.ok (finish_prompt o' n t dn r) (due dn)"
  unfolding finish_prompt_def Let_def
  by (auto simp: cl.ok_do due_def intro!: close_end split: option.splits)

lemma close_run: "cl.ok (runPrompt cf sid o' t ctx dn blocks model) (due dn)"
  unfolding runPrompt_def retry_prompt_def
  by (auto simp: cl.ok_do intro!: close_finish close_replace split: prompt_result.splits sum.splits)

lemma close_send_on:
  assumes k: "\<And>r. cl.ok (k r) R"
  shows "cl.ok (send_on cf sid o' q k) R"
proof -
  have f: "cl.ok (Fork (runPrompt cf sid o' t c dn bs m) (k r)) (due dn + R)" for t c dn bs m r
    using close_run [of cf sid o' t c dn bs m] k unfolding obeys.simps by blast
  have g: "close_got (OTurn o' PBegin) a = due (an_opt a)" for a by (simp add: due_def)
  have "cl.ok (Fork (runPrompt cf sid o' t c dn bs m) (k r)) (R + due dn)" for t c dn bs m r
    using f by (metis add.commute)
  then have "cl.ok (begin_prompt cf sid o' q k) R"
    unfolding begin_prompt_def cl.ok_do g by (simp add: cl.ok_emit del: obeys.simps(3))
  then show ?thesis unfolding send_on_def
    by (auto simp: cl.ok_do k intro!: cl.ok_selections split: option.splits)
qed

lemma close_send: "(\<And>r. cl.ok (k r) R) \<Longrightarrow> cl.ok (send_turn cf sid q k) R"
  unfolding send_turn_def
  by (auto simp: cl.ok_do intro!: close_send_on close_restart split: option.splits sum.splits)

lemma close_programs: "cl.ok (adapter_program cf c) {#}"
proof -
  have s: "cl.ok (Agent_StartSession cf sid q) {#}" for sid q
    unfolding Agent_StartSession_def
    by (auto simp: cl.ok_do intro!: cl.ok_open close_send cl.ok_close_agent cl.ok_stop cl.ok_close split: sum.splits)
  have t: "cl.ok (Agent_SendTurn cf sid q) {#}" "cl.ok (RestartSession cf sid) {#}" for sid q
    by (auto simp: Agent_SendTurn_def RestartSession_def intro!: close_send close_restart)
  have i: "cl.ok (Agent_Interrupt sid) {#}" for sid
    unfolding Agent_Interrupt_def Let_def by (auto simp: cl.ok_do intro!: cl.ok_with close_end split: option.splits)
  have r: "cl.ok (Agent_RespondInteraction sid r) {#}" for sid r
    unfolding Agent_RespondInteraction_def
    by (auto simp: cl.ok_do intro!: cl.ok_with cl.ok_emit split: option.splits)
  have d: "cl.ok (done_completion o' t) {#}" for o' t
    unfolding done_completion_def by (auto simp: cl.ok_do intro!: close_end split: option.splits)
  show ?thesis
    by (cases c) (simp_all add: s t i r cl.ok_observe d cl.ok_catalog cl.ok_direct cl.ok_requests)
qed

section \<open>Every operation keeps the balance\<close>

definition channels :: "AgentWorld \<Rightarrow> nat \<times> nat list" where
  "channels w = (aw_prompts w, aw_finished w)"

text \<open>A channel that was made is to be closed by one goroutine, or was closed once.\<close>

definition close_inv :: "AgentWorld \<Rightarrow> nat multiset \<Rightarrow> bool" where
  "close_inv w H \<longleftrightarrow> (\<forall>d. count H d + count (mset (aw_finished w)) d = (if d < aw_prompts w then 1 else 0))"

lemma upd_channels [simp]: "channels (upd o' f w) = channels w"
  by (simp add: channels_def upd_def)

lemma cancel_context_channels [simp]: "channels (cancel_context c w) = channels w"
  by (simp add: channels_def cancel_context_def split: option.splits)

lemma cancel_pending_channels [simp]: "channels (cancel_pending n w) = channels w" "channels (answer_pending n r w) = channels w"
  by (simp_all add: channels_def cancel_pending_def answer_pending_def)

lemma cancel_fold_channels [simp]: "channels (fold (\<lambda>(i, n). cancel_pending n) xs w) = channels w"
  by (induction xs arbitrary: w) auto

lemma channels_same [simp]:
  "channels (w\<lparr>aw_pending := ps\<rparr>) = channels w" "channels (w\<lparr>aw_emitted := es\<rparr>) = channels w"
  "channels (w\<lparr>aw_emitted := es, aw_ended := ts\<rparr>) = channels w"
  "channels (w\<lparr>aw_contexts := c\<rparr>) = channels w" "channels (w\<lparr>aw_sessions := ss\<rparr>) = channels w"
  "channels (w\<lparr>aw_objects := ob\<rparr>) = channels w"
  by (simp_all add: channels_def)

fun channel_writes :: "agent_op \<Rightarrow> bool" where
  "channel_writes (OTurn o' op) = (case op of PBegin \<Rightarrow> True | _ \<Rightarrow> False)"
| "channel_writes (OContext op) = (case op of NCloseDone _ \<Rightarrow> True | _ \<Rightarrow> False)"
| "channel_writes _ = False"

lemma session_channels: "run_session cf x o' op w = (a, w') \<Longrightarrow> channels w' = channels w"
  by (cases op)
    (auto simp: arrive_def update_section_def replay_turn_def mark_section_def Let_def split: prod.splits if_splits)

lemma config_channels: "run_config o' op w = (a, w') \<Longrightarrow> channels w' = channels w"
  by (cases op) auto

lemma turn_channels: "run_turn o' op w = Some (a, w') \<Longrightarrow> \<not> channel_writes (OTurn o' op) \<Longrightarrow> channels w' = channels w"
  by (cases op) (auto simp: finishTurn_def takeTurn_def takeTurnIf_def Let_def split: if_splits)

lemma ask_channels: "run_ask x o' op w = Some (a, w') \<Longrightarrow> channels w' = channels w"
  by (cases op)
    (auto simp: awaitInteraction_def cancelInteractions_def Let_def split: prod.splits if_splits option.splits)

lemma context_channels:
  "run_context x op w = Some (a, w') \<Longrightarrow> \<not> channel_writes (OContext op) \<Longrightarrow> channels w' = channels w"
  by (cases op) (auto split: if_splits)

lemma channels_kept:
  assumes "perform cf x op w = Some (a, w')" and "\<not> channel_writes op"
  shows "channels w' = channels w"
proof (cases op)
  case (OTable t)
  then show ?thesis using assms by (cases t) (auto split: if_splits)
qed (use assms in \<open>auto simp: on_some intro: session_channels config_channels turn_channels ask_channels context_channels\<close>)

lemma close_keeps:
  assumes v: "close_inv w H" and m: "close_may H op" and p: "perform cf x op w = Some (a, w')"
  shows "close_inv w' (H - close_lost op + close_got op a)"
proof -
  have c: "count H d + count (mset (aw_finished w)) d = (if d < aw_prompts w then 1 else 0)" for d
    using v unfolding close_inv_def by blast
  consider (begins) o' where "op = OTurn o' PBegin" | (closes) d where "op = OContext (NCloseDone d)"
    | (other) "\<not> channel_writes op" "close_lost op = {#}" "close_got op a = {#}"
  proof (cases op)
    case (OTurn o' t)
    then show ?thesis using begins other by (cases t) simp_all
  next
    case (OContext t)
    then show ?thesis using closes other by (cases t) simp_all
  qed (use other in simp_all)
  then show ?thesis
  proof cases
    case begins
    then have "an_opt a = Some (aw_prompts w)" "aw_prompts w' = Suc (aw_prompts w)" "aw_finished w' = aw_finished w"
      using p by (auto simp: on_some begin_turn_def Let_def upd_def)
    then show ?thesis using begins c by (auto simp: close_inv_def less_Suc_eq)
  next
    case closes
    then have "d \<in># H" "aw_prompts w' = aw_prompts w" "aw_finished w' = d # aw_finished w" using m p by auto
    then have "count (H - {#d#}) e + count (mset (aw_finished w')) e = count H e + count (mset (aw_finished w)) e" for e
      by (cases "e = d") (simp_all add: count_eq_zero_iff)
    then show ?thesis using closes c \<open>aw_prompts w' = aw_prompts w\<close> unfolding close_inv_def by simp
  next
    case other
    then show ?thesis using channels_kept [OF p] v by (simp add: close_inv_def channels_def)
  qed
qed

interpretation ch: discipline none_held "\<lambda>_. True" close_may close_lost close_got cf close_inv for cf
proof unfold_locales
  show "close_inv new_world {#}" by (simp add: close_inv_def new_world_def)
next
  fix w H n
  assume "close_inv w H"
  then show "close_inv (upd n (\<lambda>m. m\<lparr>as_exited := True\<rparr>) w) H" by (simp add: close_inv_def upd_def)
qed (rule close_keeps close_programs TrueI; assumption?)+

section \<open>Closed once, and closed\<close>

definition closing :: "nat \<Rightarrow> aprog \<Rightarrow> bool" where
  "closing d p = (case p of Do (OContext (NCloseDone n)) _ \<Rightarrow> n = d | _ \<Rightarrow> False)"

lemma close_returned: "returned p \<Longrightarrow> cl.ok p R \<Longrightarrow> R = {#}"
  by (auto simp: returned_def none_held_def split: aprog.splits)

text \<open>
  C17: the channel that tells that a prompt is done is never closed twice (which would stop the process),
  and when the goroutines have returned it was closed, so an interrupt that waits for it goes on.
\<close>
theorem done_closed_once:
  assumes "agent_reachable cf s" and "d < aw_prompts (am_world s)"
  shows "(list_ex (closing d) (am_threads s) \<longrightarrow> d \<notin> set (aw_finished (am_world s)))
     \<and> (list_all returned (am_threads s) \<longrightarrow> d \<in> set (aw_finished (am_world s)))"
proof (intro conjI impI)
  assume "list_ex (closing d) (am_threads s)"
  then obtain i where i: "i < length (am_threads s)" and "closing d (am_threads s ! i)" by (auto simp: list_ex_length)
  then obtain k where "am_threads s ! i = Do (OContext (NCloseDone d)) k"
    by (auto simp: closing_def split: aprog.splits agent_op.splits context_op.splits)
  then obtain H R where m: "close_may R (OContext (NCloseDone d))" and v: "close_inv (am_world s) (H + R)"
    using ch.next_may [OF assms(1) i] by blast
  have "0 < count R d" using m by simp
  moreover have "count H d + count R d + count (mset (aw_finished (am_world s))) d = 1"
    using v assms(2) unfolding close_inv_def by simp
  ultimately have "count (mset (aw_finished (am_world s))) d = 0" by linarith
  then show "d \<notin> set (aw_finished (am_world s))" by (simp add: count_mset_0_iff)
next
  assume r: "list_all returned (am_threads s)"
  show "d \<in> set (aw_finished (am_world s))"
  proof (rule ccontr)
    assume n: "d \<notin> set (aw_finished (am_world s))"
    have "d \<in># H" if "close_inv (am_world s) H" for H
    proof -
      have "count (mset (aw_finished (am_world s))) d = 0" using n by (simp add: count_mset_0_iff)
      then have "count H d = 1" using that assms(2) unfolding close_inv_def by (metis add.right_neutral)
      then show ?thesis by (metis count_inI zero_neq_one)
    qed
    then obtain i R where "i < length (am_threads s)" "d \<in># R" "cl.ok (am_threads s ! i) R"
      using ch.held_by [OF assms(1)] by blast
    then show False using r close_returned [of "am_threads s ! i" R] by (auto simp: list_all_length)
  qed
qed

theorem done_closed_once_witness:
  "\<exists>s. agent_reachable plain_agent s \<and> 0 < aw_prompts (am_world s) \<and> 0 \<in> set (aw_finished (am_world s))"
proof -
  obtain s where s: "agent_reachable plain_agent s" "list_all returned (am_threads s)" "aw_prompts (am_world s) = 1"
    using run_witness [OF whole_run_returns] by blast
  then show ?thesis using done_closed_once [of plain_agent s 0] by auto
qed

end
