(* ===== verification/Agent_Command.thy ===== *)
theory Agent_Command
  imports Paths
begin

text \<open>
  How the adapters find the executable of an agent (\<open>src/adapters/acpx/command.go\<close>): the
  entries of \<open>PATH\<close> that may be searched, the path of the login shell, the search,
  and the environment of the child. The environment, the home directory, the file system's test for
  an executable and what a shell prints are the record \<open>agent_env\<close>. Paths are those of Unix.
\<close>

section \<open>Entries of a path\<close>

text \<open>
  \<open>ae_HOME\<close> is the variable \<open>HOME\<close>, which is the user's home unless it is empty. A shell that
  fails or runs out of time prints \<open>None\<close>.
\<close>

record agent_env =
  ae_PATH :: string
  ae_HOME :: string
  ae_SHELL :: string
  ae_cwd :: "string option"
  ae_executable :: "string \<Rightarrow> bool"
  ae_shell_output :: "string \<Rightarrow> string \<Rightarrow> bytes option"

definition UserHomeDir :: "agent_env \<Rightarrow> string option" where
  "UserHomeDir en = (if ae_HOME en = [] then None else Some (ae_HOME en))"

definition SplitList :: "string \<Rightarrow> string list" where
  "SplitList s = (if s = [] then [] else SplitByte CHR '':'' s)"

fun unique_from :: "string list \<Rightarrow> string list \<Rightarrow> string list" where
  "unique_from seen [] = []"
| "unique_from seen (p # ps) =
     (let q = TrimSpace p in
      if q = [] \<or> q \<in> set seen then unique_from seen ps else q # unique_from (q # seen) ps)"

definition uniquePaths :: "string list \<Rightarrow> string list" where
  "uniquePaths ps = unique_from [] ps"

definition user_folders :: "string list" where
  "user_folders = [''Desktop'', ''Documents'', ''Downloads'']"

text \<open>A directory that is one of the user's folders or below it.\<close>

definition in_user_folder :: "string \<Rightarrow> string \<Rightarrow> bool" where
  "in_user_folder home d \<longleftrightarrow>
     (\<exists>n \<in> set user_folders. d = JoinPath [home, n] \<or> prefix (JoinPath [home, n] @ [slash]) d)"

definition expand_home :: "agent_env \<Rightarrow> string \<Rightarrow> string" where
  "expand_home en d =
     (if prefix ''~/'' d then (case UserHomeDir en of None \<Rightarrow> d | Some home \<Rightarrow> JoinPath [home, drop 2 d]) else d)"

definition agentPathEntryAllowed :: "agent_env \<Rightarrow> string \<Rightarrow> bool" where
  "agentPathEntryAllowed en directory =
     (let d0 = TrimSpace directory; d = expand_home en d0 in
      if d0 = [] then False
      else if \<not> IsAbs d then True
      else case UserHomeDir en of None \<Rightarrow> True | Some home \<Rightarrow> \<not> in_user_folder home (Clean d))"

definition filterPathEnv :: "agent_env \<Rightarrow> string \<Rightarrow> string" where
  "filterPathEnv en pathEnv =
     JoinBytes '':'' (uniquePaths (filter (agentPathEntryAllowed en) (SplitList pathEnv)))"

section \<open>The path of the login shell\<close>

definition shellPathMarker :: string where
  "shellPathMarker = ''__DURABLE_ACP_PATH__''"

definition shellCandidates :: "agent_env \<Rightarrow> string list" where
  "shellCandidates en =
     (let shell = TrimSpace (ae_SHELL en) in
      uniquePaths ((if shell \<noteq> [] \<and> ae_executable en shell then [shell] else []) @ [''/bin/zsh'', ''/bin/bash'', ''/bin/sh'']))"

text \<open>The first line with the marker decides.\<close>

definition readShellPath :: "agent_env \<Rightarrow> string \<Rightarrow> string \<Rightarrow> string option" where
  "readShellPath en shell flag =
     (case ae_shell_output en shell flag of
        None \<Rightarrow> None
      | Some out \<Rightarrow>
          (case filter (prefix shellPathMarker) (map TrimSpace (SplitByte CHR 0x0A out)) of
             [] \<Rightarrow> None
           | line # _ \<Rightarrow>
               let p = drop (length shellPathMarker) line in if p = [] then None else Some p))"

fun first_some :: "'a option list \<Rightarrow> 'a option" where
  "first_some [] = None"
| "first_some (Some v # vs) = Some v"
| "first_some (None # vs) = first_some vs"

definition load_shell_path :: "agent_env \<Rightarrow> string option" where
  "load_shell_path en =
     first_some (concat (map (\<lambda>shell. [readShellPath en shell ''-lc'', readShellPath en shell ''-ic'']) (shellCandidates en)))"

section \<open>The search\<close>

definition fallbackDirectories :: "agent_env \<Rightarrow> string list" where
  "fallbackDirectories en =
     [''/opt/homebrew/bin'', ''/usr/local/bin'', ''/home/linuxbrew/.linuxbrew/bin'', ''/usr/bin'', ''/bin'', ''/usr/sbin'', ''/sbin'']
     @ (case UserHomeDir en of
          None \<Rightarrow> []
        | Some home \<Rightarrow> map (\<lambda>ps. JoinPath (home # ps))
            [[''.local'', ''bin''], [''bin''], [''.npm-global'', ''bin''], [''.bun'', ''bin''], [''.cargo'', ''bin''],
             [''.deno'', ''bin''], [''.claude'', ''local'']])"

definition fallbackPathEnv :: "agent_env \<Rightarrow> string" where
  "fallbackPathEnv en = JoinBytes '':'' (uniquePaths (fallbackDirectories en))"

definition runtimePathEnv :: "agent_env \<Rightarrow> string option \<Rightarrow> string \<Rightarrow> string" where
  "runtimePathEnv en shellPath currentPath =
     JoinBytes '':'' (uniquePaths
       ((case shellPath of None \<Rightarrow> [] | Some p \<Rightarrow> SplitList (filterPathEnv en p)) @ SplitList currentPath @ fallbackDirectories en))"

definition Abs_path :: "agent_env \<Rightarrow> string \<Rightarrow> string option" where
  "Abs_path en p = (if IsAbs p then Some (Clean p) else map_option (\<lambda>cwd. JoinPath [cwd, p]) (ae_cwd en))"

definition findCommand :: "agent_env \<Rightarrow> string \<Rightarrow> string \<Rightarrow> string option" where
  "findCommand en command pathEnv =
     (if IsAbs command then (if ae_executable en command then Some (Clean command) else None)
      else if slash \<in> set command then
        (case Abs_path en command of
           Some p \<Rightarrow> if ae_executable en p then Some (Clean p) else None | None \<Rightarrow> None)
      else
        (case filter (ae_executable en) (map (\<lambda>d. JoinPath [d, command]) (filter (\<lambda>d. d \<noteq> []) (SplitList pathEnv))) of
           [] \<Rightarrow> None | p # _ \<Rightarrow> Some p))"

record Command =
  cd_Path :: string
  cd_PathEnv :: string

datatype command_error = CommandRequired | NoWorkingDirectory | CommandNotFound string

text \<open>A command with a slash names a file, whose directory must be allowed too.\<close>

definition named_directory :: "agent_env \<Rightarrow> string \<Rightarrow> command_error option" where
  "named_directory en command =
     (if IsAbs command \<or> slash \<in> set command then
        (case (if IsAbs command then Some command else Abs_path en command) of
           None \<Rightarrow> Some NoWorkingDirectory
         | Some p \<Rightarrow> if agentPathEntryAllowed en (DirPath p) then None else Some (CommandNotFound command))
      else None)"

definition Resolve :: "agent_env \<Rightarrow> string option \<Rightarrow> string \<Rightarrow> command_error + Command" where
  "Resolve en shellPath command0 =
     (let command = TrimSpace command0 in
      if command = [] then Inl CommandRequired
      else case named_directory en command of
        Some e \<Rightarrow> Inl e
      | None \<Rightarrow>
          (let currentPath = filterPathEnv en (ae_PATH en); runtimePath = runtimePathEnv en shellPath currentPath in
           case findCommand en command currentPath of
             Some p \<Rightarrow> Inr \<lparr>cd_Path = p, cd_PathEnv = (if runtimePath = [] then currentPath else runtimePath)\<rparr>
           | None \<Rightarrow>
               (case findCommand en command runtimePath of
                  Some p \<Rightarrow> Inr \<lparr>cd_Path = p, cd_PathEnv = runtimePath\<rparr>
                | None \<Rightarrow> Inl (CommandNotFound command))))"

section \<open>The environment of the child\<close>

definition variable_of :: "string \<Rightarrow> string option" where
  "variable_of item = (if CHR ''='' \<in> set item then Some (takeWhile (\<lambda>c. c \<noteq> CHR ''='') item) else None)"

definition AgentEnvironment :: "agent_env \<Rightarrow> string list \<Rightarrow> string \<Rightarrow> string list \<Rightarrow> string list" where
  "AgentEnvironment en environ pathEnv remove =
     (let safe = filterPathEnv en pathEnv; safePath = (if safe = [] then fallbackPathEnv en else safe) in
      filter (\<lambda>item. case variable_of item of None \<Rightarrow> True | Some k \<Rightarrow> k \<notin> set remove \<and> k \<noteq> ''PATH'') environ
      @ [''PATH='' @ safePath])"

text \<open>The executable beside the host's own, with the names that \<open>Glob\<close> found.\<close>

definition SiblingExecutable :: "agent_env \<Rightarrow> string option \<Rightarrow> (string \<Rightarrow> string list option) \<Rightarrow> string \<Rightarrow> string" where
  "SiblingExecutable en executable glob prefix0 =
     (let p = TrimSpace prefix0 in
      if p = [] then []
      else case executable of
        None \<Rightarrow> []
      | Some e \<Rightarrow>
          (let directory = DirPath e;
               named = filter (ae_executable en) [JoinPath [directory, p], JoinPath [directory, p @ ''.exe'']] in
           case named of
             c # _ \<Rightarrow> c
           | [] \<Rightarrow>
               (case glob (JoinPath [directory, p @ ''-*'']) of
                  None \<Rightarrow> []
                | Some matches \<Rightarrow> (case filter (ae_executable en) matches of [] \<Rightarrow> [] | c # _ \<Rightarrow> c))))"

section \<open>Paths and the parts of a path\<close>

lemma clean_parts_append:
  "\<forall>p \<in> set kept. plain p \<Longrightarrow> \<forall>p \<in> set xs. slash \<notin> set p \<Longrightarrow>
     clean_parts True kept (xs @ ys) = clean_parts True (rev (clean_parts True kept xs)) ys"
proof (induction xs arbitrary: kept)
  case (Cons x xs)
  have k: "kept = k # ks \<Longrightarrow> k \<noteq> ''..''" for k ks using Cons.prems(1) by (auto simp: plain_def)
  consider "x = [] \<or> x = ''.''" | "x = ''..''" | "plain x" using Cons.prems(2) by (auto simp: plain_def)
  then show ?case
  proof cases
    case 2
    then show ?thesis
    proof (cases kept)
      case (Cons a as)
      then show ?thesis using Cons.IH [of as] Cons.prems k 2 by simp
    qed (use Cons.IH [of "[]"] Cons.prems in simp)
  next
    case 3
    then show ?thesis using Cons.IH [of "x # kept"] Cons.prems by (auto simp: plain_def)
  qed (use Cons.IH Cons.prems in auto)
qed simp

definition parts_of :: "string \<Rightarrow> string list" where
  "parts_of p = clean_parts True [] (SplitByte slash p)"

lemma parts_of_plain: "\<forall>q \<in> set (parts_of p). plain q"
  unfolding parts_of_def using SplitByte_parts by (intro clean_parts_rooted) auto

lemma Clean_parts_of: "IsAbs p \<Longrightarrow> Clean p = abs_of (parts_of p)"
  by (simp add: Clean_def IsAbs_def abs_of_def parts_of_def Let_def)

lemma parts_of_join:
  assumes "slash \<notin> set c"
  shows "parts_of (d @ slash # c) =
    (if c = [] \<or> c = ''.'' then parts_of d else if c = ''..'' then butlast (parts_of d) else parts_of d @ [c])"
proof -
  have "parts_of (d @ slash # c) = clean_parts True (rev (parts_of d)) [c]"
    using SplitByte_parts
    by (simp add: parts_of_def SplitByte_slashes SplitByte_plain [OF assms] clean_parts_append)
  moreover have "rev (parts_of d) = k # ks \<Longrightarrow> k \<noteq> ''..''" for k ks
    using parts_of_plain [of d] by (metis list.set_intros(1) plain_def insertCI set_rev)
  ultimately show ?thesis
    by (cases "rev (parts_of d)") (auto simp: butlast_conv_take rev_swap)
qed

lemma butlast_parts_join: "slash \<notin> set c \<Longrightarrow> prefix (butlast (parts_of (d @ slash # c))) (parts_of d)"
  by (simp add: parts_of_join prefixeq_butlast prefix_order.trans [OF prefixeq_butlast prefixeq_butlast])

lemma abs_of_prefix:
  assumes "prefix qs ps" and "qs \<noteq> []"
  shows "abs_of ps = abs_of qs \<or> prefix (abs_of qs @ [slash]) (abs_of ps)"
proof -
  obtain zs where "ps = qs @ zs" using assms(1) by (auto simp: prefix_def)
  then show ?thesis
    using JoinBytes_append [OF assms(2), of zs "[slash]"] by (cases "zs = []") (auto simp: abs_of_def)
qed

section \<open>Nothing is found in the user's folders\<close>

lemma clean_parts_relative:
  "\<forall>p \<in> set kept. p \<noteq> [] \<and> slash \<notin> set p \<Longrightarrow> \<forall>p \<in> set ps. slash \<notin> set p \<Longrightarrow>
     \<forall>p \<in> set (clean_parts False kept ps). p \<noteq> [] \<and> hd p \<noteq> slash"
proof (induction ps arbitrary: kept)
  case Nil
  then show ?case by (simp, metis list.set_sel(1))
next
  case (Cons p ps)
  have IH: "\<forall>q \<in> set (clean_parts False k ps). q \<noteq> [] \<and> hd q \<noteq> slash"
    if "\<forall>q \<in> set k. q \<noteq> [] \<and> slash \<notin> set q" for k
    using Cons.IH [OF that] Cons.prems(2) by simp
  have "\<exists>k. clean_parts False kept (p # ps) = clean_parts False k ps \<and> set k \<subseteq> insert p (set kept)
    \<and> (p \<in> set k \<longrightarrow> p \<noteq> [] \<or> p \<in> set kept)"
  proof -
    consider "p = [] \<or> p = ''.''" | "p = ''..''" "kept = []" | a as where "p = ''..''" "kept = a # as" "a = ''..''"
      | a as where "p = ''..''" "kept = a # as" "a \<noteq> ''..''" | "p \<notin> {[], ''.'', ''..''}"
      by (cases kept) auto
    then show ?thesis
    proof cases
      case 1
      then show ?thesis by (intro exI [of _ kept]) auto
    next
      case 2
      then show ?thesis by (intro exI [of _ "[p]"]) auto
    next
      case 3
      then show ?thesis by (intro exI [of _ "p # kept"]) auto
    next
      case (4 a as)
      then show ?thesis by (intro exI [of _ as]) auto
    next
      case 5
      then show ?thesis by (intro exI [of _ "p # kept"]) auto
    qed
  qed
  then obtain k where k: "clean_parts False kept (p # ps) = clean_parts False k ps"
    "set k \<subseteq> insert p (set kept)" "p \<in> set k \<longrightarrow> p \<noteq> [] \<or> p \<in> set kept" by blast
  have "\<forall>q \<in> set k. q \<noteq> [] \<and> slash \<notin> set q" using k(2,3) Cons.prems by auto
  then show ?case unfolding k(1) by (rule IH)
qed

lemma Clean_relative:
  assumes "q \<noteq> []" and "\<not> IsAbs q"
  shows "\<not> IsAbs (Clean q)"
proof -
  have "\<forall>p \<in> set (clean_parts False [] (SplitByte slash q)). p \<noteq> [] \<and> hd p \<noteq> slash"
    by (rule clean_parts_relative) (use SplitByte_parts in auto)
  then show ?thesis
    using assms JoinBytes_not_abs [of _ "[slash]"] by (auto simp: Clean_def IsAbs_def Let_def)
qed

lemma DirPath_abs_of:
  assumes "\<forall>p \<in> set ps. plain p"
  shows "DirPath (abs_of ps) = abs_of (butlast ps)"
  using assms DirPath_snoc [of "butlast ps" "last ps"]
  by (cases "ps = []") (simp_all add: DirPath_def abs_of_def Clean_def)

lemma folder_is_not_root:
  assumes "n \<in> set user_folders"
  shows "JoinPath [home, n] \<noteq> [] \<and> JoinPath [home, n] \<noteq> [slash] \<and>
    (IsAbs home \<longrightarrow> JoinPath [home, n] = abs_of (parts_of home @ [n])) \<and>
    (home \<noteq> [] \<longrightarrow> \<not> IsAbs home \<longrightarrow> \<not> IsAbs (JoinPath [home, n]))"
proof -
  have n: "plain n" using assms by (auto simp: user_folders_def plain_def)
  have ne: "n \<noteq> []" and sn: "slash \<notin> set n" and nd: "n \<noteq> ''.''" "n \<noteq> ''..''" using n by (auto simp: plain_def)
  consider "home = []" | "IsAbs home" | "home \<noteq> []" "\<not> IsAbs home" by (auto simp: IsAbs_def)
  then show ?thesis
  proof cases
    case 1
    then have "JoinPath [home, n] = n"
      using assms by (auto simp: JoinPath_def Clean_def user_folders_def)
    then show ?thesis using 1 ne sn by (auto simp: IsAbs_def)
  next
    case 2
    then have j: "JoinPath [home, n] = Clean (home @ slash # n)" using ne by (auto simp: JoinPath_def IsAbs_def)
    have "IsAbs (home @ slash # n)" using 2 by (auto simp: IsAbs_def)
    then have "JoinPath [home, n] = abs_of (parts_of home @ [n])"
      using j Clean_parts_of parts_of_join [OF sn, of home] ne nd by simp
    moreover have "JoinBytes [slash] (parts_of home @ [n]) \<noteq> []"
      using parts_of_plain [of home] n by (intro JoinBytes_nonempty) (auto simp: plain_def)
    ultimately show ?thesis using 2 by (auto simp: abs_of_def)
  next
    case 3
    then have j: "JoinPath [home, n] = Clean (home @ slash # n)" using ne by (auto simp: JoinPath_def)
    have na: "\<not> IsAbs (home @ slash # n)" using 3 by (auto simp: IsAbs_def)
    have "\<not> IsAbs (JoinPath [home, n])" using Clean_relative [OF _ na] j by simp
    moreover have "JoinPath [home, n] \<noteq> []" by (auto simp: j Clean_def Let_def)
    ultimately show ?thesis using 3 by (auto simp: IsAbs_def)
  qed
qed

lemma user_folder_down:
  assumes "in_user_folder home (abs_of qs)" and "prefix qs ps"
  shows "in_user_folder home (abs_of ps)"
proof (cases "qs = []")
  case True
  then have "abs_of qs = [slash]" by (simp add: abs_of_def)
  have "\<not> in_user_folder home (abs_of qs)"
  proof
    assume "in_user_folder home (abs_of qs)"
    then obtain n where n: "n \<in> set user_folders"
      "[slash] = JoinPath [home, n] \<or> prefix (JoinPath [home, n] @ [slash]) [slash]"
      using True by (auto simp: in_user_folder_def abs_of_def)
    then have "JoinPath [home, n] = [] \<or> JoinPath [home, n] = [slash]" by (auto simp: prefix_Cons)
    then show False using folder_is_not_root [OF n(1)] by blast
  qed
  then show ?thesis using assms(1) by blast
next
  case False
  obtain n where n: "n \<in> set user_folders"
    "abs_of qs = JoinPath [home, n] \<or> prefix (JoinPath [home, n] @ [slash]) (abs_of qs)"
    using assms(1) by (auto simp: in_user_folder_def)
  have "abs_of ps = JoinPath [home, n] \<or> prefix (JoinPath [home, n] @ [slash]) (abs_of ps)"
    using n(2) abs_of_prefix [OF assms(2) False] by (auto simp: prefix_def)
  then show ?thesis using n(1) by (auto simp: in_user_folder_def)
qed

text \<open>What is found below an allowed directory is not in one of the folders.\<close>

lemma found_outside:
  assumes "\<not> in_user_folder home (Clean d)" and "IsAbs d" and "slash \<notin> set c"
  shows "\<not> in_user_folder home (DirPath (Clean (d @ slash # c)))"
proof -
  have abs: "IsAbs (d @ slash # c)" using assms(2) by (auto simp: IsAbs_def)
  let ?ps = "parts_of (d @ slash # c)"
  have "DirPath (abs_of ?ps) = abs_of (butlast ?ps)"
    by (rule DirPath_abs_of [OF parts_of_plain])
  moreover have "prefix (butlast ?ps) (parts_of d)"
    by (rule butlast_parts_join [OF assms(3)])
  ultimately show ?thesis
    using user_folder_down assms(1) Clean_parts_of [OF abs] Clean_parts_of [OF assms(2)] by metis
qed

text \<open>An entry that may be searched: relative, or outside the folders.\<close>

definition safe_entry :: "string \<Rightarrow> string \<Rightarrow> bool" where
  "safe_entry home d \<longleftrightarrow> (IsAbs d \<longrightarrow> \<not> in_user_folder home (Clean d))"

lemma SplitByte_JoinBytes_subset:
  "ps \<noteq> [] \<Longrightarrow> set (SplitByte c (JoinBytes [c] ps)) = (\<Union>p \<in> set ps. set (SplitByte c p))"
  by (induction "[c]" ps rule: JoinBytes.induct) (simp_all add: SplitByte_slashes)

lemma SplitList_join: "d \<in> set (SplitList (JoinBytes '':'' ps)) \<Longrightarrow> \<exists>p \<in> set ps. d \<in> set (SplitByte CHR '':'' p)"
  by (cases "ps = []") (auto simp: SplitList_def SplitByte_JoinBytes_subset split: if_splits)

lemma set_unique_from: "set (unique_from seen ps) \<subseteq> TrimSpace ` set ps - {[]}"
  by (induction seen ps rule: unique_from.induct) (auto simp: Let_def)

lemma SplitList_unique:
  "d \<in> set (SplitList (JoinBytes '':'' (uniquePaths ps))) \<Longrightarrow> \<exists>p \<in> set ps. d \<in> set (SplitByte CHR '':'' (TrimSpace p))"
  unfolding uniquePaths_def using SplitList_join set_unique_from by fastforce

lemma SplitList_no_colon: "d \<in> set (SplitList s) \<Longrightarrow> CHR '':'' \<notin> set d"
  by (auto simp: SplitList_def SplitByte_parts split: if_splits)

lemma allowed_entry_safe:
  assumes "UserHomeDir en = Some home" and "agentPathEntryAllowed en e"
  shows "safe_entry home (TrimSpace e)"
proof -
  have "expand_home en q = q" if "IsAbs q" for q
    using that by (auto simp: expand_home_def IsAbs_def prefix_def)
  then show ?thesis
    using assms by (auto simp: safe_entry_def agentPathEntryAllowed_def Let_def split: if_splits)
qed

lemma filtered_entries_safe:
  assumes "UserHomeDir en = Some home" and "d \<in> set (SplitList (filterPathEnv en p))"
  shows "safe_entry home d"
proof -
  obtain e where e: "e \<in> set (SplitList p)" "agentPathEntryAllowed en e" "d \<in> set (SplitByte CHR '':'' (TrimSpace e))"
    using SplitList_unique assms(2) unfolding filterPathEnv_def by fastforce
  have "CHR '':'' \<notin> set (TrimSpace e)" using SplitList_no_colon [OF e(1)] set_TrimSpace by blast
  then have "d = TrimSpace e" using e(3) by (simp add: SplitByte_plain)
  then show ?thesis using allowed_entry_safe [OF assms(1) e(2)] by simp
qed

text \<open>A directory below one of the folders has the parts of that folder before its own.\<close>

lemma user_folder_parts:
  assumes "in_user_folder home (abs_of ps)" and "\<forall>p \<in> set ps. plain p" and "home \<noteq> []"
  shows "IsAbs home \<and> (\<exists>n \<in> set user_folders. prefix (parts_of home @ [n]) ps)"
proof -
  obtain n where n: "n \<in> set user_folders"
    and e: "abs_of ps = JoinPath [home, n] \<or> prefix (JoinPath [home, n] @ [slash]) (abs_of ps)"
    using assms(1) by (auto simp: in_user_folder_def)
  have "IsAbs h" if "abs_of ps = h \<or> prefix (h @ [slash]) (abs_of ps)" "h \<noteq> []" for h
    using that by (cases h) (auto simp: IsAbs_def abs_of_def)
  then have "IsAbs (JoinPath [home, n])" using e folder_is_not_root [OF n, of home] by blast
  then have a: "IsAbs home" using folder_is_not_root [OF n, of home] assms(3) by blast
  let ?hs = "parts_of home @ [n]"
  have h: "JoinPath [home, n] = abs_of ?hs" using folder_is_not_root [OF n, of home] a by blast
  have "plain n" using n by (auto simp: user_folders_def plain_def)
  then have hs: "\<forall>q \<in> set ?hs. plain q" using parts_of_plain [of home] by simp
  have "prefix ?hs ps"
  proof (cases "abs_of ps = abs_of ?hs")
    case True
    then show ?thesis using abs_of_inject [OF assms(2) hs] by simp
  next
    case False
    then obtain z where "abs_of ps = abs_of ?hs @ slash # z" using e h by (auto simp: prefix_def)
    then have "SplitByte slash (abs_of ps) = SplitByte slash (abs_of ?hs) @ SplitByte slash z"
      by (simp add: SplitByte_slashes)
    moreover have "SplitByte slash (abs_of qs) = [] # qs" if "\<forall>q \<in> set qs. plain q" "qs \<noteq> []" for qs
      using that SplitByte_JoinBytes [of qs slash] by (auto simp: abs_of_def plain_def)
    moreover have "ps \<noteq> []"
      using \<open>abs_of ps = abs_of ?hs @ slash # z\<close> by (auto simp: abs_of_def)
    ultimately have "ps = ?hs @ SplitByte slash z" using assms(2) hs by simp
    then show ?thesis by (auto simp: prefix_def)
  qed
  then show ?thesis using a n by blast
qed

lemma clean_parts_from: "set (clean_parts True kept ps) \<subseteq> set kept \<union> set ps"
proof (induction ps arbitrary: kept)
  case (Cons p ps)
  show ?case
    using Cons [of kept] Cons [of "tl kept"] Cons [of "p # kept"] Cons [of "[]"]
    by (cases kept) (auto split: if_splits)
qed simp

lemma SplitByte_chars: "p \<in> set (SplitByte c s) \<Longrightarrow> set p \<subseteq> set s"
proof (induction s arbitrary: p)
  case (Cons a s)
  then show ?case by (cases "SplitByte c s") (fastforce split: if_splits)+
qed simp

lemma parts_of_chars: "p \<in> set (parts_of d) \<Longrightarrow> set p \<subseteq> set d"
  unfolding parts_of_def using clean_parts_from SplitByte_chars by fastforce

lemma parts_of_abs_of: "\<forall>p \<in> set ps. plain p \<Longrightarrow> parts_of (abs_of ps) = ps"
  using abs_of_inject [of ps "parts_of (abs_of ps)"] parts_of_plain Clean_parts_of [of "abs_of ps"] Clean_abs_of
  by (simp add: IsAbs_def abs_of_def)

lemma abs_of_chars: "c \<in> set (abs_of ps) \<Longrightarrow> c \<noteq> slash \<Longrightarrow> \<exists>p \<in> set ps. c \<in> set p"
proof -
  have "c \<in> set (JoinBytes [slash] ps) \<Longrightarrow> c \<noteq> slash \<Longrightarrow> \<exists>p \<in> set ps. c \<in> set p"
    by (induction "[slash]" ps rule: JoinBytes.induct) auto
  then show "c \<in> set (abs_of ps) \<Longrightarrow> c \<noteq> slash \<Longrightarrow> \<exists>p \<in> set ps. c \<in> set p"
    by (auto simp: abs_of_def)
qed

text \<open>A directory below the home, in no such folder, and each piece of it when its name has colons.\<close>

lemma below_home_safe:
  assumes xs: "\<forall>x \<in> set xs. plain x \<and> CHR '':'' \<notin> set x" "xs \<noteq> []" "hd xs \<notin> set user_folders" "home \<noteq> []"
    and d: "d \<in> set (SplitByte CHR '':'' (abs_of (parts_of home @ xs)))"
  shows "safe_entry home d"
proof -
  let ?f = "abs_of (parts_of home @ xs)"
  have False if a: "IsAbs d" and u: "in_user_folder home (Clean d)"
  proof -
    obtain n where n: "n \<in> set user_folders" "prefix (parts_of home @ [n]) (parts_of d)"
      using user_folder_parts [OF _ parts_of_plain xs(4)] u Clean_parts_of [OF a] by metis
    have nc: "CHR '':'' \<notin> set d" using SplitByte_parts [OF d] .
    have "CHR '':'' \<notin> set q" if "q \<in> set (parts_of home)" for q
      using that n(2) parts_of_chars [of q d] nc by (auto simp: prefix_def)
    then have "CHR '':'' \<notin> set ?f" using abs_of_chars [of "CHR '':''" "parts_of home @ xs"] xs(1) by auto
    then have "d = ?f" using d by (simp add: SplitByte_plain)
    then have "parts_of d = parts_of home @ xs" using parts_of_abs_of [of "parts_of home @ xs"] parts_of_plain [of home] xs(1) by auto
    then have "n = hd xs" using n(2) xs(2) by (cases xs) (auto simp: prefix_def)
    then show False using n(1) xs(3) by simp
  qed
  then show ?thesis by (auto simp: safe_entry_def)
qed

lemma JoinPath_below:
  assumes "IsAbs home" and "\<forall>x \<in> set xs. plain x" and "xs \<noteq> []"
  shows "JoinPath (home # xs) = abs_of (parts_of home @ xs)"
proof -
  have ne: "filter (\<lambda>p. p \<noteq> []) (home # xs) = home # xs"
    using assms by (auto simp: plain_def IsAbs_def filter_id_conv)
  have join: "JoinBytes [slash] (home # xs) = home @ slash # JoinBytes [slash] xs" using assms(3) by (cases xs) auto
  have "SplitByte slash (JoinBytes [slash] xs) = xs"
    using assms(2,3) by (intro SplitByte_JoinBytes) (auto simp: plain_def)
  then have "parts_of (home @ slash # JoinBytes [slash] xs) = clean_parts True (rev (parts_of home)) xs"
    using SplitByte_parts by (simp add: parts_of_def SplitByte_slashes clean_parts_append)
  also have "\<dots> = parts_of home @ xs" using clean_parts_plain [OF assms(2)] by simp
  finally show ?thesis
    unfolding JoinPath_def ne list.case join
    using Clean_parts_of [of "home @ slash # JoinBytes [slash] xs"] assms(1) by (simp add: IsAbs_def)
qed

lemma no_folder_without_home: "home \<noteq> [] \<Longrightarrow> \<not> IsAbs home \<Longrightarrow> safe_entry home d"
  unfolding safe_entry_def using user_folder_parts parts_of_plain Clean_parts_of by metis

lemma home_directory_safe:
  assumes "home \<noteq> []" and "\<forall>x \<in> set xs. plain x \<and> CHR '':'' \<notin> set x" and "xs \<noteq> []"
    and "hd xs \<notin> set user_folders" and "solid (last (last xs))"
    and "d \<in> set (SplitByte CHR '':'' (TrimSpace (JoinPath (home # xs))))"
  shows "safe_entry home d"
proof (cases "IsAbs home")
  case True
  then have j: "JoinPath (home # xs) = abs_of (parts_of home @ xs)" using JoinPath_below assms(2,3) by blast
  obtain ys y where y: "xs = ys @ [y]" using assms(3) by (cases xs rule: rev_cases) auto
  have "abs_of (zs @ [y]) = (slash # (if zs = [] then [] else JoinBytes [slash] zs @ [slash])) @ y" for zs
    using JoinBytes_append [of zs "[y]" "[slash]"] by (auto simp: abs_of_def)
  then have "last (abs_of (parts_of home @ xs)) = last y"
    using assms(2) y by (auto simp: plain_def simp flip: append_assoc)
  moreover have "solid slash" by (simp add: solid_def space1_def)
  ultimately have "TrimSpace (abs_of (parts_of home @ xs)) = abs_of (parts_of home @ xs)"
    using assms(5) y by (intro TrimSpace_solid_ends) (simp_all add: abs_of_def)
  then show ?thesis using below_home_safe assms j by simp
qed (use no_folder_without_home assms(1) in blast)

lemma system_directory_safe:
  assumes "\<forall>p \<in> set ps. plain p \<and> p \<notin> set user_folders" and "home \<noteq> []"
  shows "safe_entry home (abs_of ps)"
proof -
  have "\<not> prefix (hs @ [n]) ps" if "n \<in> set user_folders" for hs n
    using that assms(1) by (auto simp: prefix_def)
  then show ?thesis using user_folder_parts [of home ps] assms Clean_abs_of [of ps] by (auto simp: safe_entry_def)
qed

text \<open>The parts of the installation directories.\<close>

definition system_parts :: "string list list" where
  "system_parts =
     [[''opt'', ''homebrew'', ''bin''], [''usr'', ''local'', ''bin''], [''home'', ''linuxbrew'', ''.linuxbrew'', ''bin''],
      [''usr'', ''bin''], [''bin''], [''usr'', ''sbin''], [''sbin'']]"

definition home_parts :: "string list list" where
  "home_parts =
     [[''.local'', ''bin''], [''bin''], [''.npm-global'', ''bin''], [''.bun'', ''bin''], [''.cargo'', ''bin''],
      [''.deno'', ''bin''], [''.claude'', ''local'']]"

lemma system_parts_plain:
  "\<forall>ps \<in> set system_parts. (\<forall>p \<in> set ps. plain p \<and> p \<notin> set user_folders) \<and> TrimSpace (abs_of ps) = abs_of ps
    \<and> CHR '':'' \<notin> set (abs_of ps)"
  by code_simp

lemma home_parts_plain:
  "\<forall>xs \<in> set home_parts. (\<forall>x \<in> set xs. plain x \<and> CHR '':'' \<notin> set x) \<and> xs \<noteq> [] \<and> hd xs \<notin> set user_folders
    \<and> solid (last (last xs))"
  by code_simp

lemma fallback_entries_safe:
  assumes "UserHomeDir en = Some home" and "f \<in> set (fallbackDirectories en)"
    and "d \<in> set (SplitByte CHR '':'' (TrimSpace f))"
  shows "safe_entry home d"
proof -
  have home: "home \<noteq> []" using assms(1) by (auto simp: UserHomeDir_def split: if_splits)
  have "fallbackDirectories en = map abs_of system_parts @ map (\<lambda>ps. JoinPath (home # ps)) home_parts"
    using assms(1) by (simp add: fallbackDirectories_def abs_of_def system_parts_def home_parts_def)
  then consider ps where "ps \<in> set system_parts" "f = abs_of ps" | ps where "ps \<in> set home_parts" "f = JoinPath (home # ps)"
    using assms(2) by auto
  then show ?thesis
  proof cases
    case (1 ps)
    then have "TrimSpace f = f" "CHR '':'' \<notin> set f" using system_parts_plain by blast+
    then have "d = f" using assms(3) by (simp add: SplitByte_plain)
    then show ?thesis using 1 system_parts_plain system_directory_safe [OF _ home] by blast
  next
    case (2 ps)
    then show ?thesis using home_parts_plain home_directory_safe [OF home] assms(3) by blast
  qed
qed

lemma runtime_entries_safe:
  assumes "UserHomeDir en = Some home" and "d \<in> set (SplitList (runtimePathEnv en shellPath (filterPathEnv en p)))"
  shows "safe_entry home d"
proof -
  obtain e where e: "d \<in> set (SplitByte CHR '':'' (TrimSpace e))"
    "e \<in> set (case shellPath of None \<Rightarrow> [] | Some p \<Rightarrow> SplitList (filterPathEnv en p)) \<or>
     e \<in> set (SplitList (filterPathEnv en p)) \<or> e \<in> set (fallbackDirectories en)"
    using SplitList_unique [OF assms(2) [unfolded runtimePathEnv_def]] by auto
  then consider q where "e \<in> set (SplitList (filterPathEnv en q))" | "e \<in> set (fallbackDirectories en)"
    by (auto split: option.splits)
  then show ?thesis
  proof cases
    case (1 q)
    then obtain e0 where e0: "e0 \<in> set (SplitList q)" "agentPathEntryAllowed en e0" "e \<in> set (SplitByte CHR '':'' (TrimSpace e0))"
      using SplitList_unique unfolding filterPathEnv_def by fastforce
    have "CHR '':'' \<notin> set (TrimSpace e0)" using SplitList_no_colon [OF e0(1)] set_TrimSpace by blast
    then have "e = TrimSpace e0" "CHR '':'' \<notin> set e" using e0(3) by (simp_all add: SplitByte_plain)
    then have "d = TrimSpace e0" using e(1) by (simp add: SplitByte_plain)
    then show ?thesis using allowed_entry_safe [OF assms(1) e0(2)] by simp
  next
    case 2
    then show ?thesis using fallback_entries_safe [OF assms(1) _ e(1)] by blast
  qed
qed

text \<open>A name without a slash is found below an entry of the path.\<close>

lemma found_by_name:
  assumes "findCommand en c p = Some path" and "slash \<notin> set c" and "c \<noteq> []" and "IsAbs path"
    and "\<And>d. d \<in> set (SplitList p) \<Longrightarrow> safe_entry home d"
  shows "\<not> in_user_folder home (DirPath path)"
proof -
  have na: "\<not> IsAbs c" using assms(2) by (cases c) (auto simp: IsAbs_def)
  let ?found = "filter (ae_executable en) (map (\<lambda>d. JoinPath [d, c]) (filter (\<lambda>d. d \<noteq> []) (SplitList p)))"
  obtain rest where "?found = path # rest"
    using assms(1,2) na by (auto simp: findCommand_def split: list.splits)
  then have "path \<in> set ?found" by simp
  then obtain d where d: "d \<in> set (SplitList p)" "d \<noteq> []" "path = JoinPath [d, c]" by auto
  then have path: "path = Clean (d @ slash # c)" using assms(3) by (simp add: JoinPath_def)
  then have abs: "IsAbs d" using assms(4) d(2) Clean_relative [of "d @ slash # c"] by (auto simp: IsAbs_def)
  then have "\<not> in_user_folder home (Clean d)" using assms(5) d(1) by (simp add: safe_entry_def)
  then show ?thesis unfolding path by (rule found_outside [OF _ abs assms(2)])
qed

text \<open>An absolute name is taken when its directory is allowed.\<close>

lemma found_as_named:
  assumes "named_directory en c = None" and "IsAbs c" and "TrimSpace (DirPath c) = DirPath c" and "UserHomeDir en = Some home"
  shows "\<not> in_user_folder home (DirPath (Clean c))"
proof -
  have "safe_entry home (DirPath c)"
    using allowed_entry_safe [OF assms(4), of "DirPath c"] assms(1-3) by (auto simp: named_directory_def split: if_splits)
  let ?d = "rev (dropWhile (\<lambda>ch. ch \<noteq> slash) (rev c))" and ?b = "rev (takeWhile (\<lambda>ch. ch \<noteq> slash) (rev c))"
  have c: "c = ?d @ ?b" by (metis rev_append rev_rev_ident takeWhile_dropWhile_id)
  have "slash \<in> set (rev c)" using assms(2) by (cases c) (auto simp: IsAbs_def)
  then have "dropWhile (\<lambda>ch. ch \<noteq> slash) (rev c) \<noteq> []" by (simp add: dropWhile_eq_Nil_conv)
  then obtain d where d: "?d = d @ [slash]"
    using hd_dropWhile [of "\<lambda>ch. ch \<noteq> slash" "rev c"] by (metis list.collapse rev.simps(2))
  have b: "slash \<notin> set ?b" by (auto dest: set_takeWhileD)
  have c': "c = d @ slash # ?b" using c d by simp
  have dir: "DirPath c = Clean (d @ slash # [])" by (simp add: DirPath_def d)
  have a: "IsAbs (d @ slash # [])" using assms(2) arg_cong [OF c', of hd] by (cases d) (auto simp: IsAbs_def)
  have dd: "DirPath c = abs_of (parts_of d)" using dir Clean_parts_of [OF a] parts_of_join [of "[]" d] by simp
  then have out: "\<not> in_user_folder home (abs_of (parts_of d))"
    using \<open>safe_entry home (DirPath c)\<close> parts_of_plain Clean_abs_of by (simp add: safe_entry_def IsAbs_def abs_of_def)
  have "DirPath (Clean c) = abs_of (butlast (parts_of c))"
    using Clean_parts_of [OF assms(2)] DirPath_abs_of [OF parts_of_plain] by simp
  moreover have "prefix (butlast (parts_of c)) (parts_of d)"
    using butlast_parts_join [OF b, of d] arg_cong [OF c', of parts_of] by metis
  ultimately show ?thesis using user_folder_down out by metis
qed

section \<open>Properties\<close>

text \<open>
  C29: an executable that \<open>Resolve\<close> returns with an absolute path lies in none of the user's
  Desktop, Documents and Downloads folders nor below them, whether it was named without a directory
  and found through \<open>PATH\<close>, the login shell's path or the fallback directories, or named by an
  absolute path whose directory does not start or end with white space.
\<close>

theorem resolved_outside_user_folders:
  assumes "Resolve en shellPath command = Inr found" and "UserHomeDir en = Some home" and "IsAbs (cd_Path found)"
    and "slash \<notin> set (TrimSpace command) \<or>
      IsAbs (TrimSpace command) \<and> TrimSpace (DirPath (TrimSpace command)) = DirPath (TrimSpace command)"
  shows "\<not> in_user_folder home (DirPath (cd_Path found))"
proof -
  let ?c = "TrimSpace command" and ?current = "filterPathEnv en (ae_PATH en)"
  have c: "?c \<noteq> []" and n: "named_directory en ?c = None"
    using assms(1) by (auto simp: Resolve_def Let_def split: if_splits option.splits)
  obtain p where p: "findCommand en ?c p = Some (cd_Path found)" "p = ?current \<or> p = runtimePathEnv en shellPath ?current"
    using assms(1) c n by (auto simp: Resolve_def Let_def split: option.splits)
  show ?thesis
  proof (cases "IsAbs ?c")
    case True
    then have "cd_Path found = Clean ?c" using p(1) by (auto simp: findCommand_def split: if_splits)
    moreover have "slash \<in> set ?c" using True by (cases ?c) (auto simp: IsAbs_def)
    ultimately show ?thesis using found_as_named [OF n True] assms(2,4) by simp
  next
    case False
    then have "slash \<notin> set ?c" using assms(4) by blast
    moreover have "safe_entry home d" if "d \<in> set (SplitList p)" for d
      using that p(2) filtered_entries_safe [OF assms(2)] runtime_entries_safe [OF assms(2)] by blast
    ultimately show ?thesis using found_by_name [OF p(1) _ c assms(3)] by blast
  qed
qed

definition a_user :: agent_env where
  "a_user = \<lparr>ae_PATH = ''/home/u/Downloads/bin:/opt/a'', ae_HOME = ''/home/u'', ae_SHELL = ''/bin/sh'',
     ae_cwd = Some ''/home/u'', ae_executable = (\<lambda>p. p \<in> {''/home/u/Downloads/bin/x'', ''/opt/a/x'', ''Downloads/x''}),
     ae_shell_output = (\<lambda>_ _. None)\<rparr>"

lemma resolved_outside_user_folders_witness:
  "\<not> in_user_folder ''/home/u'' (DirPath (cd_Path (projr (Resolve a_user None ''x''))))
   \<and> isl (Resolve a_user None ''/home/u/Downloads/bin/x'')"
proof -
  have r: "Resolve a_user None ''x'' = Inr (projr (Resolve a_user None ''x'')) \<and>
    IsAbs (cd_Path (projr (Resolve a_user None ''x''))) \<and> UserHomeDir a_user = Some ''/home/u'' \<and>
    slash \<notin> set (TrimSpace ''x'') \<and> isl (Resolve a_user None ''/home/u/Downloads/bin/x'')"
    by code_simp
  then show ?thesis using resolved_outside_user_folders [of a_user None "''x''" _ "''/home/u''"] by blast
qed

text \<open>A relative entry of \<open>PATH\<close> is searched from the working directory, also in a folder of the user.\<close>

lemma relative_entry_searched:
  "map_sum id cd_Path (Resolve (a_user\<lparr>ae_PATH := ''Downloads''\<rparr>) None ''x'') = Inr ''Downloads/x''"
  by code_simp

end
