(* ===== verification/Agent_Shell.thy ===== *)
theory Agent_Shell
  imports Agent_Command
begin

text \<open>
  The path of the login shell is read once and kept (\<open>shellPathEnv\<close> in
  \<open>src/adapters/acpx/command.go\<close>): callers that ask at the same time find the kept path, wait for
  the caller that reads it, or read it themselves. The callers run as a step machine over the cache,
  any of them may be cancelled at any time. Every schedule ends, with an answer for each caller.
\<close>

section \<open>The cache\<close>

text \<open>
  The channel that waiting callers hold is the number of the load it belongs to; it is closed when
  that load is over.
\<close>

record shell_cache =
  sh_key :: string
  sh_path :: "string option"
  sh_loading :: bool
  sh_wait :: nat

datatype cache_step = Found "string option" | WaitForLoad nat | LoadNow

definition cache_key :: "agent_env \<Rightarrow> string" where
  "cache_key en = JoinBytes [CHR 0x00] [ae_SHELL en, ae_HOME en, ae_PATH en]"

definition begin_load :: "string \<Rightarrow> shell_cache \<Rightarrow> cache_step \<times> shell_cache" where
  "begin_load key c =
     (if sh_key c = key then (Found (sh_path c), c)
      else if sh_loading c then (WaitForLoad (sh_wait c), c)
      else (LoadNow, c\<lparr>sh_loading := True, sh_wait := sh_wait c + 1\<rparr>))"

definition finish_load :: "string \<Rightarrow> string option \<Rightarrow> bool \<Rightarrow> shell_cache \<Rightarrow> shell_cache" where
  "finish_load key path cancelled c =
     (if cancelled then c else c\<lparr>sh_key := key, sh_path := path\<rparr>)\<lparr>sh_loading := False\<rparr>"

definition load_over :: "nat \<Rightarrow> shell_cache \<Rightarrow> bool" where
  "load_over w c \<longleftrightarrow> w < sh_wait c \<or> \<not> sh_loading c"

section \<open>The callers\<close>

datatype caller_phase = Asking | AwaitsLoad nat | Loads | Answered "string option"

record caller =
  ca_key :: string
  ca_done :: bool
  ca_phase :: caller_phase

record shell_state =
  ss_cache :: shell_cache
  ss_callers :: "caller list"

datatype shell_action = Check nat | Wake nat | GiveUp nat | Finish nat agent_env | CancelCaller nat

definition set_phase :: "nat \<Rightarrow> caller_phase \<Rightarrow> shell_state \<Rightarrow> shell_state" where
  "set_phase i p s = s\<lparr>ss_callers := (ss_callers s)[i := (ss_callers s ! i)\<lparr>ca_phase := p\<rparr>]\<rparr>"

text \<open>
  One step of one caller, when it can take it. A caller asks under the lock; waits until the load is
  over or its context is done; reads the path with whatever the shells print to it, and stores it
  unless its context is done.
\<close>

fun shellPathEnv :: "shell_action \<Rightarrow> shell_state \<Rightarrow> shell_state option" where
  "shellPathEnv (Check i) s =
     (if i < length (ss_callers s) \<and> ca_phase (ss_callers s ! i) = Asking then
        (case begin_load (ca_key (ss_callers s ! i)) (ss_cache s) of
           (Found p, c) \<Rightarrow> Some (set_phase i (Answered p) (s\<lparr>ss_cache := c\<rparr>))
         | (WaitForLoad w, c) \<Rightarrow> Some (set_phase i (AwaitsLoad w) (s\<lparr>ss_cache := c\<rparr>))
         | (LoadNow, c) \<Rightarrow> Some (set_phase i Loads (s\<lparr>ss_cache := c\<rparr>)))
      else None)"
| "shellPathEnv (Wake i) s =
     (if i < length (ss_callers s) then
        (case ca_phase (ss_callers s ! i) of
           AwaitsLoad w \<Rightarrow> if load_over w (ss_cache s) then Some (set_phase i Asking s) else None
         | _ \<Rightarrow> None)
      else None)"
| "shellPathEnv (GiveUp i) s =
     (if i < length (ss_callers s) then
        (case ca_phase (ss_callers s ! i) of
           AwaitsLoad w \<Rightarrow> if ca_done (ss_callers s ! i) then Some (set_phase i (Answered None) s) else None
         | _ \<Rightarrow> None)
      else None)"
| "shellPathEnv (Finish i en) s =
     (if i < length (ss_callers s) \<and> ca_phase (ss_callers s ! i) = Loads then
        (let ca = ss_callers s ! i; path = load_shell_path en in
         Some (set_phase i (Answered path) (s\<lparr>ss_cache := finish_load (ca_key ca) path (ca_done ca) (ss_cache s)\<rparr>)))
      else None)"
| "shellPathEnv (CancelCaller i) s =
     (if i < length (ss_callers s) \<and> \<not> ca_done (ss_callers s ! i) then
        Some (s\<lparr>ss_callers := (ss_callers s)[i := (ss_callers s ! i)\<lparr>ca_done := True\<rparr>]\<rparr>)
      else None)"

fun shell_run :: "shell_action list \<Rightarrow> shell_state \<Rightarrow> shell_state option" where
  "shell_run [] s = Some s"
| "shell_run (a # as) s = (case shellPathEnv a s of None \<Rightarrow> None | Some s' \<Rightarrow> shell_run as s')"

definition no_cache :: shell_cache where
  "no_cache = \<lparr>sh_key = [], sh_path = None, sh_loading = False, sh_wait = 0\<rparr>"

definition new_callers :: "string list \<Rightarrow> shell_state" where
  "new_callers keys =
     \<lparr>ss_cache = no_cache, ss_callers = map (\<lambda>k. \<lparr>ca_key = k, ca_done = False, ca_phase = Asking\<rparr>) keys\<rparr>"

definition has_answer :: "caller \<Rightarrow> bool" where
  "has_answer ca \<longleftrightarrow> (case ca_phase ca of Answered _ \<Rightarrow> True | _ \<Rightarrow> False)"

section \<open>Invariants\<close>

definition loaders :: "shell_state \<Rightarrow> nat set" where
  "loaders s = {i. i < length (ss_callers s) \<and> ca_phase (ss_callers s ! i) = Loads}"

text \<open>There is a loader exactly when the cache says so, and then only one.\<close>

definition one_loader :: "shell_state \<Rightarrow> bool" where
  "one_loader s \<longleftrightarrow> (if sh_loading (ss_cache s) then \<exists>i. loaders s = {i} else loaders s = {})"

lemma loaders_set_phase:
  "i < length (ss_callers s) \<Longrightarrow>
     loaders (set_phase i p s) = (if p = Loads then insert i (loaders s) else loaders s - {i})"
  by (auto simp: loaders_def set_phase_def nth_list_update split: if_splits)

lemma loaders_cache [simp]: "loaders (s\<lparr>ss_cache := c\<rparr>) = loaders s"
  by (simp add: loaders_def)

lemma set_phase_cache [simp]: "ss_cache (set_phase i p s) = ss_cache s"
  by (simp add: set_phase_def)

lemma shell_step [consumes 1, case_names found waits loads wakes gives_up finished cancelled]:
  assumes "shellPathEnv a s = Some s'"
  obtains
    i where "i < length (ss_callers s)" "ca_phase (ss_callers s ! i) = Asking"
      "sh_key (ss_cache s) = ca_key (ss_callers s ! i)" "a = Check i" "s' = set_phase i (Answered (sh_path (ss_cache s))) s"
  | i where "i < length (ss_callers s)" "ca_phase (ss_callers s ! i) = Asking" "sh_loading (ss_cache s)"
      "a = Check i" "s' = set_phase i (AwaitsLoad (sh_wait (ss_cache s))) s"
  | i where "i < length (ss_callers s)" "ca_phase (ss_callers s ! i) = Asking" "\<not> sh_loading (ss_cache s)"
      "sh_key (ss_cache s) \<noteq> ca_key (ss_callers s ! i)" "a = Check i"
      "s' = set_phase i Loads (s\<lparr>ss_cache := (ss_cache s)\<lparr>sh_loading := True, sh_wait := sh_wait (ss_cache s) + 1\<rparr>\<rparr>)"
  | i w where "i < length (ss_callers s)" "ca_phase (ss_callers s ! i) = AwaitsLoad w" "load_over w (ss_cache s)"
      "a = Wake i" "s' = set_phase i Asking s"
  | i w where "i < length (ss_callers s)" "ca_phase (ss_callers s ! i) = AwaitsLoad w" "ca_done (ss_callers s ! i)"
      "a = GiveUp i" "s' = set_phase i (Answered None) s"
  | i en path where "i < length (ss_callers s)" "ca_phase (ss_callers s ! i) = Loads" "a = Finish i en"
      "s' = set_phase i (Answered path) (s\<lparr>ss_cache :=
         finish_load (ca_key (ss_callers s ! i)) path (ca_done (ss_callers s ! i)) (ss_cache s)\<rparr>)"
  | i where "i < length (ss_callers s)" "\<not> ca_done (ss_callers s ! i)" "a = CancelCaller i"
      "s' = s\<lparr>ss_callers := (ss_callers s)[i := (ss_callers s ! i)\<lparr>ca_done := True\<rparr>]\<rparr>"
proof (cases a)
  case (Check i)
  then show ?thesis using assms that(1-3) [of i] by (simp add: begin_load_def split: if_splits)
next
  case (Wake i)
  then show ?thesis using assms that(4) [of i] by (simp split: if_splits caller_phase.splits)
next
  case (GiveUp i)
  then show ?thesis using assms that(5) [of i] by (simp split: if_splits caller_phase.splits)
next
  case (Finish i en)
  then show ?thesis using assms that(6) [of i en "load_shell_path en"] by (simp add: Let_def split: if_splits)
next
  case (CancelCaller i)
  then show ?thesis using assms that(7) [of i] by (simp split: if_splits)
qed

lemma kept_loaders:
  "i < length (ss_callers s) \<Longrightarrow> ca_phase (ss_callers s ! i) \<noteq> Loads \<Longrightarrow> p \<noteq> Loads \<Longrightarrow>
     loaders (set_phase i p s) = loaders s"
  by (auto simp: loaders_set_phase) (auto simp: loaders_def)

lemma one_loader_step:
  assumes "shellPathEnv a s = Some s'" and inv: "one_loader s"
  shows "one_loader s'"
  using assms(1)
proof (cases rule: shell_step)
  case (loads i)
  then have "loaders s = {}" using inv by (simp add: one_loader_def)
  then show ?thesis using loads by (simp add: one_loader_def loaders_set_phase)
next
  case (finished i en path)
  then have "i \<in> loaders s" by (simp add: loaders_def)
  then have "loaders s = {i}" using inv by (auto simp: one_loader_def split: if_splits)
  then show ?thesis using finished by (simp add: one_loader_def loaders_set_phase finish_load_def)
next
  case (cancelled i)
  then have "loaders s' = loaders s" by (auto simp: loaders_def nth_list_update)
  then show ?thesis using cancelled inv by (simp add: one_loader_def)
qed (use inv kept_loaders in \<open>simp_all add: one_loader_def\<close>)

text \<open>Callers wait on channels that have been made.\<close>

definition channels_made :: "shell_state \<Rightarrow> bool" where
  "channels_made s \<longleftrightarrow> (\<forall>ca \<in> set (ss_callers s). \<forall>w. ca_phase ca = AwaitsLoad w \<longrightarrow> w \<le> sh_wait (ss_cache s))"

lemma set_phase_callers:
  "ca \<in> set (ss_callers (set_phase i p s)) \<Longrightarrow> ca \<in> set (ss_callers s) \<or> ca_phase ca = p"
  by (auto simp: set_phase_def dest: set_update_subset_insert [THEN subsetD])

lemma channels_made_step:
  assumes "shellPathEnv a s = Some s'" and inv: "channels_made s"
  shows "channels_made s'"
  using assms(1)
proof (cases rule: shell_step)
  case (cancelled i)
  have "w \<le> sh_wait (ss_cache s)" if "ca_phase (ss_callers s ! i) = AwaitsLoad w" for w
    using inv nth_mem [OF cancelled(1)] that unfolding channels_made_def by blast
  then show ?thesis
    using inv cancelled by (auto simp: channels_made_def dest!: set_update_subset_insert [THEN subsetD])
qed (use inv set_phase_callers in \<open>fastforce simp: channels_made_def finish_load_def\<close>)+

section \<open>Every schedule ends\<close>

definition weight :: "shell_cache \<Rightarrow> caller \<Rightarrow> nat" where
  "weight c ca =
     (case ca_phase ca of
        Asking \<Rightarrow> 2 | AwaitsLoad w \<Rightarrow> if load_over w c then 3 else 1 | Loads \<Rightarrow> 0 | Answered _ \<Rightarrow> 0)"

text \<open>
  What one caller may still do: an answer pays for all the waits it ends, and a caller is cancelled
  once.
\<close>

definition effort :: "nat \<Rightarrow> shell_cache \<Rightarrow> caller \<Rightarrow> nat" where
  "effort n c ca = (if has_answer ca then 0 else 2 * n + 1) + weight c ca + (if ca_done ca then 0 else 1)"

definition total_effort :: "shell_state \<Rightarrow> nat" where
  "total_effort s = (let n = length (ss_callers s) in \<Sum>j < n. effort n (ss_cache s) (ss_callers s ! j))"

lemma sum_one_less:
  fixes f g :: "nat \<Rightarrow> nat"
  assumes "i < n" and "g i + k * (n - 1) < f i" and "\<And>j. j < n \<Longrightarrow> j \<noteq> i \<Longrightarrow> g j \<le> f j + k"
  shows "(\<Sum>j < n. g j) < (\<Sum>j < n. f j)"
proof -
  have "(\<Sum>j \<in> {..<n} - {i}. g j) \<le> (\<Sum>j \<in> {..<n} - {i}. f j + k)"
    using assms(3) by (intro sum_mono) auto
  also have "\<dots> = (\<Sum>j \<in> {..<n} - {i}. f j) + k * (n - 1)"
    using assms(1) by (simp add: sum.distrib)
  finally show ?thesis
    using assms(1,2) sum.remove [of "{..<n}" i f] sum.remove [of "{..<n}" i g] by simp
qed

lemma effort_decreases:
  assumes "shellPathEnv a s = Some s'" and "channels_made s"
  shows "total_effort s' < total_effort s"
proof -
  let ?n = "length (ss_callers s)" and ?c = "ss_cache s" and ?c' = "ss_cache s'"
  let ?f = "\<lambda>j. effort ?n ?c (ss_callers s ! j)" and ?g = "\<lambda>j. effort ?n ?c' (ss_callers s' ! j)"
  let ?ex = "\<exists>i k. i < ?n \<and> length (ss_callers s') = ?n \<and> ?g i + k * (?n - 1) < ?f i
    \<and> (\<forall>j < ?n. j \<noteq> i \<longrightarrow> ?g j \<le> ?f j + k)"
  have one: ?ex if "i < ?n" "ss_callers s' = (ss_callers s)[i := ca]" "effort ?n ?c' ca < ?f i"
    "\<forall>j < ?n. j \<noteq> i \<longrightarrow> effort ?n ?c' (ss_callers s ! j) = ?f j" for i ca
    by (rule exI [of _ i], rule exI [of _ 0]) (use that in simp)
  have ?ex
    using assms(1)
  proof (cases rule: shell_step)
    case (finished i en path)
    then have "?g i + 2 * (?n - 1) < ?f i"
      by (simp add: effort_def weight_def has_answer_def set_phase_def)
    moreover have "?g j \<le> ?f j + 2" if "j < ?n" "j \<noteq> i" for j
      using finished that by (simp add: effort_def weight_def set_phase_def split: caller_phase.split)
    ultimately show ?thesis using finished(1,4) by (intro exI [of _ i] exI [of _ 2]) (simp add: set_phase_def)
  next
    case (loads i)
    have "weight ?c' ca = weight ?c ca" if "ca \<in> set (ss_callers s)" for ca
      using that loads(3,6) assms(2) by (fastforce simp: weight_def load_over_def channels_made_def split: caller_phase.splits)
    then show ?thesis using loads
      by (intro one [of i "(ss_callers s ! i)\<lparr>ca_phase := Loads\<rparr>"])
        (simp_all add: effort_def set_phase_def has_answer_def weight_def)
  next
    case (waits i)
    then show ?thesis
      by (intro one [of i "(ss_callers s ! i)\<lparr>ca_phase := AwaitsLoad (sh_wait ?c)\<rparr>"])
        (simp_all add: effort_def weight_def load_over_def set_phase_def has_answer_def)
  next
    case (found i)
    then show ?thesis
      by (intro one [of i "(ss_callers s ! i)\<lparr>ca_phase := Answered (sh_path ?c)\<rparr>"])
        (simp_all add: effort_def weight_def set_phase_def has_answer_def)
  next
    case (wakes i w)
    then show ?thesis
      by (intro one [of i "(ss_callers s ! i)\<lparr>ca_phase := Asking\<rparr>"])
        (simp_all add: effort_def weight_def set_phase_def has_answer_def)
  next
    case (gives_up i w)
    then show ?thesis
      by (intro one [of i "(ss_callers s ! i)\<lparr>ca_phase := Answered None\<rparr>"])
        (simp_all add: effort_def weight_def set_phase_def has_answer_def)
  next
    case (cancelled i)
    then show ?thesis
      by (intro one [of i "(ss_callers s ! i)\<lparr>ca_done := True\<rparr>"])
        (simp_all add: effort_def weight_def has_answer_def split: caller_phase.split)
  qed
  then show ?thesis using sum_one_less [of _ ?n ?g _ ?f] by (auto simp: total_effort_def Let_def)
qed

lemma shell_run_invariants:
  assumes "shell_run as s = Some s'" and "one_loader s" and "channels_made s"
  shows "one_loader s' \<and> channels_made s' \<and> length as + total_effort s' \<le> total_effort s"
  using assms
proof (induction as arbitrary: s)
  case (Cons a as)
  then obtain t where t: "shellPathEnv a s = Some t" "shell_run as t = Some s'" by (auto split: option.splits)
  then show ?case
    using Cons.IH [OF t(2)] one_loader_step [OF t(1)] channels_made_step [OF t(1)] effort_decreases [OF t(1)] Cons.prems
    by fastforce
qed simp

lemma new_callers_invariants: "one_loader (new_callers keys) \<and> channels_made (new_callers keys)"
  by (auto simp: one_loader_def loaders_def new_callers_def no_cache_def channels_made_def)

lemma new_callers_effort: "total_effort (new_callers keys) = 2 * length keys * (length keys + 2)"
  by (simp add: total_effort_def Let_def new_callers_def effort_def weight_def has_answer_def algebra_simps)

text \<open>While a caller has no answer, one of the callers can go on.\<close>

lemma caller_can_go_on:
  assumes "one_loader s" and "ca \<in> set (ss_callers s)" and "\<not> has_answer ca"
  shows "\<exists>a. (\<forall>j. a \<noteq> CancelCaller j) \<and> shellPathEnv a s \<noteq> None"
proof -
  obtain i where i: "i < length (ss_callers s)" "ss_callers s ! i = ca" using assms(2) by (auto simp: in_set_conv_nth)
  have finish: "shellPathEnv (Finish j en) s \<noteq> None" if "j \<in> loaders s" for j en
    using that by (simp add: loaders_def Let_def)
  show ?thesis
  proof (cases "ca_phase ca")
    case Asking
    then show ?thesis using i by (intro exI [of _ "Check i"]) (simp add: begin_load_def)
  next
    case (AwaitsLoad w)
    show ?thesis
    proof (cases "sh_loading (ss_cache s)")
      case True
      then obtain j where "j \<in> loaders s" using assms(1) by (auto simp: one_loader_def)
      then show ?thesis using finish by (metis shell_action.distinct(19))
    next
      case False
      then show ?thesis using i AwaitsLoad by (intro exI [of _ "Wake i"]) (simp add: load_over_def)
    qed
  next
    case Loads
    then have "i \<in> loaders s" using i by (simp add: loaders_def)
    then show ?thesis using finish by (metis shell_action.distinct(19))
  next
    case (Answered p)
    then show ?thesis using assms(3) by (simp add: has_answer_def)
  qed
qed

section \<open>One reading for all\<close>

text \<open>All callers have the same key and none is cancelled.\<close>

definition read_once :: "string \<Rightarrow> shell_state \<Rightarrow> bool" where
  "read_once k s \<longleftrightarrow>
     one_loader s \<and> (\<forall>ca \<in> set (ss_callers s). ca_key ca = k \<and> \<not> ca_done ca) \<and>
     (sh_key (ss_cache s) = k \<longrightarrow> \<not> sh_loading (ss_cache s)) \<and>
     (\<forall>ca \<in> set (ss_callers s). \<forall>p. ca_phase ca = Answered p \<longrightarrow>
        sh_key (ss_cache s) = k \<and> p = sh_path (ss_cache s))"

definition is_finish :: "shell_action \<Rightarrow> bool" where
  "is_finish a \<longleftrightarrow> (case a of Finish _ _ \<Rightarrow> True | _ \<Rightarrow> False)"

definition is_cancel :: "shell_action \<Rightarrow> bool" where
  "is_cancel a \<longleftrightarrow> (case a of CancelCaller _ \<Rightarrow> True | _ \<Rightarrow> False)"

lemma set_phase_keeps:
  assumes "i < length (ss_callers s)" and "ca \<in> set (ss_callers (set_phase i p s))"
  shows "\<exists>cb \<in> set (ss_callers s). ca_key ca = ca_key cb \<and> ca_done ca = ca_done cb"
proof -
  have "ca \<in> insert ((ss_callers s ! i)\<lparr>ca_phase := p\<rparr>) (set (ss_callers s))"
    using assms(2) set_update_subset_insert unfolding set_phase_def by fastforce
  then show ?thesis using nth_mem [OF assms(1)] by auto
qed

lemma read_once_phase:
  assumes "read_once k s" and i: "i < length (ss_callers s)"
    and "one_loader (set_phase i p (s\<lparr>ss_cache := c\<rparr>))"
    and "sh_key c = k \<longrightarrow> \<not> sh_loading c" and "\<forall>q. p = Answered q \<longrightarrow> sh_key c = k \<and> q = sh_path c"
    and "sh_key (ss_cache s) = k \<longrightarrow> sh_key c = k \<and> sh_path c = sh_path (ss_cache s)"
  shows "read_once k (set_phase i p (s\<lparr>ss_cache := c\<rparr>))"
proof -
  let ?t = "s\<lparr>ss_cache := c\<rparr>"
  have keep: "\<exists>cb \<in> set (ss_callers s). ca_key ca = ca_key cb \<and> ca_done ca = ca_done cb"
    if "ca \<in> set (ss_callers (set_phase i p ?t))" for ca
    using set_phase_keeps [of i ?t ca p] that i by simp
  have old: "sh_key c = k \<and> q = sh_path c" if "ca \<in> set (ss_callers s)" "ca_phase ca = Answered q" for ca q
    using that assms(1,6) unfolding read_once_def by auto
  have "sh_key c = k \<and> q = sh_path c" if "ca \<in> set (ss_callers (set_phase i p ?t))" "ca_phase ca = Answered q" for ca q
    using set_phase_callers [OF that(1)] old that(2) assms(5) by auto
  moreover have "ca_key ca = k \<and> \<not> ca_done ca" if "ca \<in> set (ss_callers (set_phase i p ?t))" for ca
    using keep [OF that] assms(1) unfolding read_once_def by auto
  ultimately show ?thesis using assms(3,4) by (simp add: read_once_def)
qed

lemma read_once_step:
  assumes "shellPathEnv a s = Some s'" and inv: "read_once k s" and "\<not> is_cancel a"
  shows "read_once k s' \<and>
    (if sh_key (ss_cache s) = k then sh_key (ss_cache s') = k \<and> \<not> is_finish a
     else is_finish a \<longleftrightarrow> sh_key (ss_cache s') = k)"
proof -
  have one: "one_loader s'" using one_loader_step assms(1) inv by (simp add: read_once_def)
  have own: "ca_key (ss_callers s ! i) = k" "\<not> ca_done (ss_callers s ! i)" if "i < length (ss_callers s)" for i
    using inv nth_mem [OF that] unfolding read_once_def by blast+
  have quiet: "sh_key (ss_cache s) = k \<longrightarrow> \<not> sh_loading (ss_cache s)" using inv by (simp add: read_once_def)
  have same: "read_once k (set_phase i p s)"
    if "i < length (ss_callers s)" "s' = set_phase i p s"
      "\<forall>q. p = Answered q \<longrightarrow> sh_key (ss_cache s) = k \<and> q = sh_path (ss_cache s)" for i p
    using read_once_phase [OF inv that(1), of p "ss_cache s"] one that quiet by simp
  show ?thesis
    using assms(1)
  proof (cases rule: shell_step)
    case (finished i en path)
    then have "i \<in> loaders s" by (simp add: loaders_def)
    then have "sh_key (ss_cache s) \<noteq> k" using quiet inv by (auto simp: read_once_def one_loader_def split: if_splits)
    then show ?thesis
      using finished one own [OF finished(1)] read_once_phase [OF inv finished(1)]
      by (simp add: finish_load_def is_finish_def)
  next
    case (loads i)
    then show ?thesis using one own [OF loads(1)] read_once_phase [OF inv loads(1)] by (simp add: is_finish_def)
  next
    case (found i)
    then show ?thesis using same own [OF found(1)] by (simp add: is_finish_def)
  next
    case (waits i)
    then show ?thesis using same quiet by (simp add: is_finish_def)
  next
    case (wakes i w)
    then show ?thesis using same quiet by (simp add: is_finish_def)
  next
    case (gives_up i w)
    then show ?thesis using own [OF gives_up(1)] by blast
  next
    case (cancelled i)
    then show ?thesis using assms(3) by (simp add: is_cancel_def)
  qed
qed

lemma read_once_run:
  assumes "shell_run as s = Some s'" and "read_once k s" and "\<forall>a \<in> set as. \<not> is_cancel a"
  shows "read_once k s' \<and> length (filter is_finish as) + (if sh_key (ss_cache s) = k then 1 else 0)
    = (if sh_key (ss_cache s') = k then 1 else 0)"
  using assms
proof (induction as arbitrary: s)
  case (Cons a as)
  then obtain t where t: "shellPathEnv a s = Some t" "shell_run as t = Some s'" by (auto split: option.splits)
  have step: "read_once k t \<and> (if sh_key (ss_cache s) = k then sh_key (ss_cache t) = k \<and> \<not> is_finish a
     else is_finish a \<longleftrightarrow> sh_key (ss_cache t) = k)"
    using read_once_step [OF t(1) Cons.prems(2)] Cons.prems(3) by simp
  then have "read_once k s' \<and> length (filter is_finish as) + (if sh_key (ss_cache t) = k then 1 else 0)
    = (if sh_key (ss_cache s') = k then 1 else 0)"
    using Cons.IH [OF t(2)] Cons.prems(3) by simp
  then show ?case using step by (simp split: if_splits)
qed simp

section \<open>Properties\<close>

text \<open>
  C7: however the callers of \<open>shellPathEnv\<close> are scheduled and cancelled, there are at most
  \<open>2n(n+2)\<close> steps for n callers, and as long as one of them has no answer, some caller can go on
  by itself: the loop of each caller ends, and none is left waiting.
\<close>

theorem shell_path_callers_return:
  assumes "shell_run as (new_callers keys) = Some s"
  shows "length as \<le> 2 * length keys * (length keys + 2)
    \<and> (list_all has_answer (ss_callers s) \<or> (\<exists>a. (\<forall>j. a \<noteq> CancelCaller j) \<and> shellPathEnv a s \<noteq> None))"
proof -
  have inv: "one_loader s" "length as + total_effort s \<le> total_effort (new_callers keys)"
    using shell_run_invariants [OF assms] new_callers_invariants by blast+
  then have "length as \<le> 2 * length keys * (length keys + 2)" using new_callers_effort [of keys] by linarith
  moreover have "\<exists>a. (\<forall>j. a \<noteq> CancelCaller j) \<and> shellPathEnv a s \<noteq> None"
    if "\<not> list_all has_answer (ss_callers s)"
    using that caller_can_go_on [OF inv(1)] unfolding list_all_iff by blast
  ultimately show ?thesis by blast
qed

definition two_callers :: "shell_action list" where
  "two_callers = [Check 0, Check 1, Finish 0 (a_user\<lparr>ae_shell_output := \<lambda>_ _. Some (shellPathMarker @ ''/opt/b'')\<rparr>), Wake 1, Check 1]"

lemma shell_path_callers_return_witness:
  "(\<exists>s. shell_run two_callers (new_callers [''k'', ''k'']) = Some s) \<and> length two_callers \<le> 16"
proof -
  have "\<not> Option.is_none (shell_run two_callers (new_callers [''k'', ''k'']))" by code_simp
  then obtain s where s: "shell_run two_callers (new_callers [''k'', ''k'']) = Some s" by (cases "shell_run two_callers (new_callers [''k'', ''k''])") auto
  then show ?thesis using shell_path_callers_return [OF s] by simp
qed

text \<open>
  Callers with the same variables, none of them cancelled, read the login shell's path at most
  once between them and all get the answer of that one reading.
\<close>

theorem shell_path_read_once:
  assumes "shell_run as (new_callers (replicate n k)) = Some s" and "k \<noteq> []" and "\<forall>a \<in> set as. \<not> is_cancel a"
  shows "length (filter is_finish as) \<le> 1
    \<and> (\<forall>ca \<in> set (ss_callers s). \<forall>p. ca_phase ca = Answered p \<longrightarrow> p = sh_path (ss_cache s))"
proof -
  have "read_once k (new_callers (replicate n k))"
    using new_callers_invariants [of "replicate n k"] assms(2)
    by (simp add: read_once_def) (simp add: new_callers_def no_cache_def)
  from read_once_run [OF assms(1) this assms(3)] show ?thesis
    unfolding read_once_def by (auto split: if_splits)
qed

lemma shell_path_read_once_witness:
  "map_option (\<lambda>s. map ca_phase (ss_callers s)) (shell_run two_callers (new_callers [''k'', ''k'']))
     = Some [Answered (Some ''/opt/b''), Answered (Some ''/opt/b'')]
   \<and> length (filter is_finish two_callers) \<le> 1"
proof -
  have r: "map_option (\<lambda>s. map ca_phase (ss_callers s)) (shell_run two_callers (new_callers [''k'', ''k'']))
     = Some [Answered (Some ''/opt/b''), Answered (Some ''/opt/b'')] \<and> \<not> list_ex is_cancel two_callers"
    by code_simp
  then obtain s where s: "shell_run two_callers (new_callers (replicate 2 ''k'')) = Some s"
    by (auto simp: numeral_2_eq_2)
  have "\<forall>a \<in> set two_callers. \<not> is_cancel a" using r by (auto simp: list_ex_iff)
  then show ?thesis using shell_path_read_once [OF s] r by blast
qed

end
