(* ===== verification/Protocol_Types.thy ===== *)
theory Protocol_Types
  imports Host_Types
begin

text \<open>
  Go types with JSON tags, and what \<open>encoding/json\<close> and the methods that the protocol's generator
  writes (\<open>UnmarshalJSON\<close>, \<open>MarshalJSON\<close> and \<open>Validate\<close> in
  \<open>src/acp/schema_types_gen.go\<close>) do with them. A type is a value of \<open>gotype\<close>; the types
  themselves are in the theory \<open>Protocol_Schema\<close>. Keys of an object match a field exactly; Go also
  takes other capitalisations of it. Numbers are integers.
\<close>

section \<open>Types and values\<close>

text \<open>
  A field has its JSON name, \<open>omitempty\<close>, its type, the value a generated \<open>UnmarshalJSON\<close>
  gives it when it is missing or null, and the one a generated \<open>MarshalJSON\<close> gives it when it is
  nil. A union is a struct with one pointer for each variant. Its shape is how \<open>UnmarshalJSON\<close>
  chooses: a variant for null, the discriminator with the variant of each value, the keys that an
  object must have for a variant, and those that all objects of an array must have.
\<close>

datatype writer =
  WriteNull
| WriteRaw
| WriteWith "(string \<times> string) list"
| WriteOnly string string "string list" "string list"

datatype goshape =
  Shape (sh_null: "nat option") (sh_disc: "(string \<times> (string \<times> nat) list) option")
    (sh_keys: "(string list \<times> nat) list") (sh_arrays: "(string list \<times> nat) list")

datatype gotype =
  GString
| GBool
| GInt
| GFloat
| GAny
| GObject
| GList gotype
| GPtr gotype
| GStruct "gofield list"
| GUnion goshape "govariant list"
and gofield = GField string bool gotype "json option" "json option"
and govariant = GVariant gotype writer

abbreviation required :: "string \<Rightarrow> gotype \<Rightarrow> gofield" where
  "required k t \<equiv> GField k False t None None"

abbreviation optional :: "string \<Rightarrow> gotype \<Rightarrow> gofield" where
  "optional k t \<equiv> GField k True t None None"

text \<open>Nil maps, slices and pointers are \<open>None\<close>; a nil interface is \<open>VAny JNull\<close>.\<close>

datatype goval =
  VString string
| VBool bool
| VInt int
| VAny any
| VObject "payload option"
| VList "goval list option"
| VPtr "goval option"
| VStruct "goval list"
| VUnion nat goval
| VUnset

fun zero_value :: "gotype \<Rightarrow> goval" and zero_field :: "gofield \<Rightarrow> goval" where
  "zero_value GString = VString []"
| "zero_value GBool = VBool False"
| "zero_value GInt = VInt 0"
| "zero_value GFloat = VInt 0"
| "zero_value GAny = VAny JNull"
| "zero_value GObject = VObject None"
| "zero_value (GList t) = VList None"
| "zero_value (GPtr t) = VPtr None"
| "zero_value (GStruct fs) = VStruct (map zero_field fs)"
| "zero_value (GUnion sh vs) = VUnset"
| "zero_field (GField k om t rd wd) = zero_value t"

section \<open>Reading\<close>

definition int64 :: "int \<Rightarrow> bool" where
  "int64 i \<longleftrightarrow> - (2 ^ 63) \<le> i \<and> i < 2 ^ 63"

text \<open>An object as a map of raw values; null leaves the map nil.\<close>

definition object_of :: "json \<Rightarrow> (string \<times> json) list option" where
  "object_of j = (case j of JObj kvs \<Rightarrow> Some kvs | JNull \<Rightarrow> Some [] | _ \<Rightarrow> None)"

definition has_keys :: "string list \<Rightarrow> (string \<times> json) list \<Rightarrow> bool" where
  "has_keys ks kvs \<longleftrightarrow> list_all (\<lambda>k. sget kvs k \<noteq> None) ks"

fun first_match :: "('a \<Rightarrow> bool) \<Rightarrow> ('a \<times> nat) list \<Rightarrow> nat option" where
  "first_match p [] = None"
| "first_match p ((a, i) # as) = (if p a then Some i else first_match p as)"

definition by_discriminator :: "goshape \<Rightarrow> (string \<times> json) list \<Rightarrow> nat option" where
  "by_discriminator sh kvs =
     (case sh_disc sh of
        None \<Rightarrow> None
      | Some (d, cases) \<Rightarrow> map_of cases (case sget kvs d of Some (JStr s) \<Rightarrow> s | _ \<Rightarrow> []))"

definition by_keys :: "goshape \<Rightarrow> json \<Rightarrow> nat option" where
  "by_keys sh j =
     (case object_of j of
        None \<Rightarrow> None
      | Some kvs \<Rightarrow>
          (case by_discriminator sh kvs of
             Some i \<Rightarrow> Some i
           | None \<Rightarrow> first_match (\<lambda>ks. has_keys ks kvs) (sh_keys sh)))"

definition by_elements :: "goshape \<Rightarrow> json \<Rightarrow> nat option" where
  "by_elements sh j =
     (case (case j of JArr js \<Rightarrow> map_all object_of js | JNull \<Rightarrow> Some [] | _ \<Rightarrow> None) of
        None \<Rightarrow> None
      | Some arr \<Rightarrow> first_match (\<lambda>ks. list_all (has_keys ks) arr) (sh_arrays sh))"

text \<open>The variant that must decode; none when the variants are tried in their order.\<close>

definition chosen :: "goshape \<Rightarrow> json \<Rightarrow> nat option" where
  "chosen sh j = (case by_keys sh j of Some i \<Rightarrow> Some i | None \<Rightarrow> by_elements sh j)"

fun first_decoded :: "nat \<Rightarrow> goval option list \<Rightarrow> goval option" where
  "first_decoded i [] = None"
| "first_decoded i (Some v # ds) = Some (VUnion i v)"
| "first_decoded i (None # ds) = first_decoded (Suc i) ds"

definition decode_union :: "goshape \<Rightarrow> goval list \<Rightarrow> json \<Rightarrow> goval option list \<Rightarrow> goval option" where
  "decode_union sh zeros j ds =
     (case (if j = JNull then sh_null sh else None) of
        Some i \<Rightarrow> Some (VUnion i (zeros ! i))
      | None \<Rightarrow>
          (case chosen sh j of
             Some i \<Rightarrow> map_option (VUnion i) (ds ! i)
           | None \<Rightarrow> first_decoded 0 ds))"

fun variant_zero :: "govariant \<Rightarrow> goval" where
  "variant_zero (GVariant t w) = zero_value t"

text \<open>What a field is read from: its default stands in when it is missing or null.\<close>

definition field_value :: "json option \<Rightarrow> json option \<Rightarrow> json option" where
  "field_value rd found = (if found = None \<or> found = Some JNull \<and> rd \<noteq> None then rd else found)"

lemma map_all_cong [fundef_cong]:
  "xs = ys \<Longrightarrow> (\<And>x. x \<in> set ys \<Longrightarrow> f x = g x) \<Longrightarrow> map_all f xs = map_all g ys"
proof -
  have "(\<And>x. x \<in> set ys \<Longrightarrow> f x = g x) \<Longrightarrow> map_all f ys = map_all g ys" by (induction ys) (auto split: option.split)
  then show "xs = ys \<Longrightarrow> (\<And>x. x \<in> set ys \<Longrightarrow> f x = g x) \<Longrightarrow> map_all f xs = map_all g ys" by blast
qed

fun decode :: "gotype \<Rightarrow> json \<Rightarrow> goval option"
  and decode_field :: "gofield \<Rightarrow> (string \<times> json) list \<Rightarrow> goval option"
  and decode_variant :: "govariant \<Rightarrow> json \<Rightarrow> goval option" where
  "decode GString j = (case j of JStr s \<Rightarrow> Some (VString s) | JNull \<Rightarrow> Some (VString []) | _ \<Rightarrow> None)"
| "decode GBool j = (case j of JBool b \<Rightarrow> Some (VBool b) | JNull \<Rightarrow> Some (VBool False) | _ \<Rightarrow> None)"
| "decode GInt j = (case j of JNum i \<Rightarrow> if int64 i then Some (VInt i) else None | JNull \<Rightarrow> Some (VInt 0) | _ \<Rightarrow> None)"
| "decode GFloat j = (case j of JNum i \<Rightarrow> Some (VInt i) | JNull \<Rightarrow> Some (VInt 0) | _ \<Rightarrow> None)"
| "decode GAny j = Some (VAny (canon j))"
| "decode GObject j =
     (case canon j of JObj m \<Rightarrow> Some (VObject (Some m)) | JNull \<Rightarrow> Some (VObject None) | _ \<Rightarrow> None)"
| "decode (GList t) j =
     (case j of
        JArr js \<Rightarrow> map_option (\<lambda>vs. VList (Some vs)) (map_all (decode t) js)
      | JNull \<Rightarrow> Some (VList None)
      | _ \<Rightarrow> None)"
| "decode (GPtr t) j = (if j = JNull then Some (VPtr None) else map_option (\<lambda>v. VPtr (Some v)) (decode t j))"
| "decode (GStruct fs) j =
     (case object_of j of
        None \<Rightarrow> None
      | Some kvs \<Rightarrow> map_option VStruct (map_all (\<lambda>f. decode_field f kvs) fs))"
| "decode (GUnion sh vs) j = decode_union sh (map variant_zero vs) j (map (\<lambda>v. decode_variant v j) vs)"
| "decode_field (GField k om t rd wd) kvs =
     (case field_value rd (sget kvs k) of None \<Rightarrow> Some (zero_value t) | Some j \<Rightarrow> decode t j)"
| "decode_variant (GVariant t w) j = decode t j"

definition Unmarshal :: "gotype \<Rightarrow> string \<Rightarrow> goval option" where
  "Unmarshal t raw = (case unmarshal raw of None \<Rightarrow> None | Some j \<Rightarrow> decode t j)"

section \<open>Writing\<close>

definition is_empty :: "goval \<Rightarrow> bool" where
  "is_empty v \<longleftrightarrow>
     v \<in> {VString [], VBool False, VInt 0, VAny JNull, VObject None, VObject (Some []), VList None, VList (Some []), VPtr None}"

definition is_nil :: "goval \<Rightarrow> bool" where
  "is_nil v \<longleftrightarrow> v \<in> {VAny JNull, VObject None, VList None, VPtr None}"

text \<open>A variant's payload is read back as a map, in which the discriminator is set.\<close>

definition payload_map :: "json \<Rightarrow> payload option" where
  "payload_map j = (case canon j of JObj m \<Rightarrow> Some m | _ \<Rightarrow> None)"

definition keep_keys :: "string list \<Rightarrow> string list \<Rightarrow> payload \<Rightarrow> payload" where
  "keep_keys always present m =
     map_copy (map_copy [] (map (\<lambda>k. (k, any_at m k)) always))
       (List.map_filter (\<lambda>k. map_option (Pair k) (map_of m k)) present)"

definition write_variant :: "writer \<Rightarrow> json option \<Rightarrow> json option" where
  "write_variant w written =
     (case w of
        WriteNull \<Rightarrow> Some JNull
      | WriteRaw \<Rightarrow> written
      | WriteWith sets \<Rightarrow>
          (case Option.bind written payload_map of
             None \<Rightarrow> None
           | Some m \<Rightarrow> Some (JObj (map_copy m (map (\<lambda>(k, s). (k, JStr s)) sets))))
      | WriteOnly d s always present \<Rightarrow>
          (case Option.bind written payload_map of
             None \<Rightarrow> None
           | Some m \<Rightarrow> Some (JObj (map_put d (JStr s) (keep_keys always present m)))))"

fun encode :: "gotype \<Rightarrow> goval \<Rightarrow> json option"
  and encode_fields :: "gofield list \<Rightarrow> goval list \<Rightarrow> (string \<times> json) list option"
  and encode_field :: "gofield \<Rightarrow> goval \<Rightarrow> (string \<times> json) list option"
  and encode_variant :: "govariant \<Rightarrow> goval \<Rightarrow> json option" where
  "encode GString v = (case v of VString s \<Rightarrow> Some (JStr s) | _ \<Rightarrow> None)"
| "encode GBool v = (case v of VBool b \<Rightarrow> Some (JBool b) | _ \<Rightarrow> None)"
| "encode GInt v = (case v of VInt i \<Rightarrow> Some (JNum i) | _ \<Rightarrow> None)"
| "encode GFloat v = (case v of VInt i \<Rightarrow> Some (JNum i) | _ \<Rightarrow> None)"
| "encode GAny v = (case v of VAny j \<Rightarrow> Some j | _ \<Rightarrow> None)"
| "encode GObject v = (case v of VObject o1 \<Rightarrow> Some (case o1 of None \<Rightarrow> JNull | Some m \<Rightarrow> JObj m) | _ \<Rightarrow> None)"
| "encode (GList t) v =
     (case v of
        VList None \<Rightarrow> Some JNull
      | VList (Some vs) \<Rightarrow> map_option JArr (map_all (encode t) vs)
      | _ \<Rightarrow> None)"
| "encode (GPtr t) v = (case v of VPtr None \<Rightarrow> Some JNull | VPtr (Some w) \<Rightarrow> encode t w | _ \<Rightarrow> None)"
| "encode (GStruct fs) v = (case v of VStruct vs \<Rightarrow> map_option JObj (encode_fields fs vs) | _ \<Rightarrow> None)"
| "encode (GUnion sh vars) v =
     (case v of
        VUnion i w \<Rightarrow> if i < length vars then map (\<lambda>x. encode_variant x w) vars ! i else None
      | _ \<Rightarrow> None)"
| "encode_fields [] vs = (if vs = [] then Some [] else None)"
| "encode_fields (f # fs) vs =
     (case vs of
        [] \<Rightarrow> None
      | v # ws \<Rightarrow>
          (case (encode_field f v, encode_fields fs ws) of (Some a, Some b) \<Rightarrow> Some (a @ b) | _ \<Rightarrow> None))"
| "encode_field (GField k om t rd wd) v =
     (if om \<and> is_empty v then Some []
      else map_option (\<lambda>j. [(k, j)]) (case wd of Some d \<Rightarrow> if is_nil v then Some d else encode t v | None \<Rightarrow> encode t v))"
| "encode_variant (GVariant t w) v = write_variant w (encode t v)"

definition Marshal :: "gotype \<Rightarrow> goval \<Rightarrow> string option" where
  "Marshal t v = map_option marshal (encode t v)"

section \<open>Validation\<close>

text \<open>
  What a generated \<open>Validate\<close> requires: a string field that is not empty, a slice that is not
  nil, that one variant is set, or that the variant's own field is not empty.
\<close>

datatype check = NonEmpty string | NonNil string | OneVariant | VariantNonEmpty string

fun field_at :: "gofield list \<Rightarrow> goval list \<Rightarrow> string \<Rightarrow> goval option" where
  "field_at (GField k om t rd wd # fs) (v # vs) n = (if k = n then Some v else field_at fs vs n)"
| "field_at _ _ n = None"

definition member_of :: "gotype \<Rightarrow> goval \<Rightarrow> string \<Rightarrow> goval option" where
  "member_of t v n = (case (t, v) of (GStruct fs, VStruct vs) \<Rightarrow> field_at fs vs n | _ \<Rightarrow> None)"

fun passes :: "gotype \<Rightarrow> goval \<Rightarrow> check \<Rightarrow> bool" where
  "passes t v (NonEmpty n) \<longleftrightarrow> member_of t v n \<noteq> Some (VString [])"
| "passes t v (NonNil n) \<longleftrightarrow> member_of t v n \<noteq> Some (VList None)"
| "passes t v OneVariant \<longleftrightarrow> v \<noteq> VUnset"
| "passes t v (VariantNonEmpty n) \<longleftrightarrow>
     (case (t, v) of
        (GUnion sh vars, VUnion i w) \<Rightarrow>
          (case vars ! i of GVariant u wr \<Rightarrow> member_of u w n \<noteq> Some (VString []))
      | _ \<Rightarrow> False)"

definition Validate :: "gotype \<Rightarrow> check list \<Rightarrow> goval \<Rightarrow> bool" where
  "Validate t cs v = list_all (passes t v) cs"

end
