(* ===== verification/Protocol_Schema.thy ===== *)
theory Protocol_Schema
  imports Protocol_Types
begin

text \<open>
  The types of the protocol as \<open>src/acp/schema_types_gen.go\<close> declares them, in the order of their
  use: fields with their JSON names and \<open>omitempty\<close>, and for a union the shape of its
  \<open>UnmarshalJSON\<close>, the writers of its \<open>MarshalJSON\<close> and its variants. Types that only name a
  string, a number or a slice are written out.
\<close>

section \<open>Types\<close>

definition LogoutCapabilities_type :: gotype where
  "LogoutCapabilities_type =
     GStruct [optional ''_meta'' GObject]"

definition AgentAuthCapabilities_type :: gotype where
  "AgentAuthCapabilities_type =
     GStruct [optional ''_meta'' GObject, optional ''logout'' (GPtr LogoutCapabilities_type)]"

definition McpCapabilities_type :: gotype where
  "McpCapabilities_type =
     GStruct [optional ''_meta'' GObject, GField ''http'' True GBool (Some (JBool False)) None,
      GField ''sse'' True GBool (Some (JBool False)) None]"

definition PromptCapabilities_type :: gotype where
  "PromptCapabilities_type =
     GStruct [optional ''_meta'' GObject, GField ''audio'' True GBool (Some (JBool False)) None,
      GField ''embeddedContext'' True GBool (Some (JBool False)) None,
      GField ''image'' True GBool (Some (JBool False)) None]"

definition SessionAdditionalDirectoriesCapabilities_type :: gotype where
  "SessionAdditionalDirectoriesCapabilities_type =
     GStruct [optional ''_meta'' GObject]"

definition SessionCloseCapabilities_type :: gotype where
  "SessionCloseCapabilities_type =
     GStruct [optional ''_meta'' GObject]"

definition SessionDeleteCapabilities_type :: gotype where
  "SessionDeleteCapabilities_type =
     GStruct [optional ''_meta'' GObject]"

definition SessionListCapabilities_type :: gotype where
  "SessionListCapabilities_type =
     GStruct [optional ''_meta'' GObject]"

definition SessionResumeCapabilities_type :: gotype where
  "SessionResumeCapabilities_type =
     GStruct [optional ''_meta'' GObject]"

definition SessionCapabilities_type :: gotype where
  "SessionCapabilities_type =
     GStruct [optional ''_meta'' GObject,
      optional ''additionalDirectories'' (GPtr SessionAdditionalDirectoriesCapabilities_type),
      optional ''close'' (GPtr SessionCloseCapabilities_type),
      optional ''delete'' (GPtr SessionDeleteCapabilities_type),
      optional ''list'' (GPtr SessionListCapabilities_type),
      optional ''resume'' (GPtr SessionResumeCapabilities_type)]"

definition AgentCapabilities_type :: gotype where
  "AgentCapabilities_type =
     GStruct [optional ''_meta'' GObject, GField ''auth'' True AgentAuthCapabilities_type (Some (JObj [])) None,
      GField ''loadSession'' True GBool (Some (JBool False)) None,
      GField ''mcpCapabilities'' True McpCapabilities_type (Some (JObj [(''http'', JBool False), (''sse'', JBool False)])) None,
      GField ''promptCapabilities'' True PromptCapabilities_type (Some (JObj [(''audio'', JBool False), (''embeddedContext'', JBool False), (''image'', JBool False)])) None,
      GField ''sessionCapabilities'' True SessionCapabilities_type (Some (JObj [])) None]"

definition AgentNotification_type :: gotype where
  "AgentNotification_type =
     GStruct [required ''method'' GString, optional ''params'' GAny]"

definition RequestIdNull_type :: gotype where
  "RequestIdNull_type =
     GStruct []"

definition RequestId_shape :: goshape where
  "RequestId_shape =
     Shape (Some 0) None
     []
     []"

definition RequestId_writers :: "writer list" where
  "RequestId_writers =
     [WriteNull, WriteRaw, WriteRaw]"

definition RequestId_type :: gotype where
  "RequestId_type =
     GUnion RequestId_shape (map2 GVariant
       [RequestIdNull_type, GInt, GString]
       RequestId_writers)"

definition AgentRequest_type :: gotype where
  "AgentRequest_type =
     GStruct [required ''id'' RequestId_type, required ''method'' GString, optional ''params'' GAny]"

definition AgentResult_type :: gotype where
  "AgentResult_type =
     GStruct [required ''id'' RequestId_type, required ''result'' GAny]"

definition ErrorCode_shape :: goshape where
  "ErrorCode_shape =
     Shape None None
     []
     []"

definition ErrorCode_writers :: "writer list" where
  "ErrorCode_writers =
     [WriteRaw, WriteRaw, WriteRaw, WriteRaw, WriteRaw, WriteRaw, WriteRaw, WriteRaw, WriteRaw]"

definition ErrorCode_type :: gotype where
  "ErrorCode_type =
     GUnion ErrorCode_shape (map2 GVariant
       [GInt, GInt, GInt, GInt, GInt, GInt, GInt, GInt, GInt]
       ErrorCode_writers)"

definition Error_type :: gotype where
  "Error_type =
     GStruct [required ''code'' ErrorCode_type, optional ''data'' GAny, required ''message'' GString]"

definition AgentError_type :: gotype where
  "AgentError_type =
     GStruct [required ''error'' Error_type, required ''id'' RequestId_type]"

definition AgentResponse_shape :: goshape where
  "AgentResponse_shape =
     Shape None None
     [([''id'', ''result''], 0), ([''id'', ''error''], 1)]
     []"

definition AgentResponse_writers :: "writer list" where
  "AgentResponse_writers =
     [WriteWith [], WriteWith []]"

definition AgentResponse_type :: gotype where
  "AgentResponse_type =
     GUnion AgentResponse_shape (map2 GVariant
       [AgentResult_type, AgentError_type]
       AgentResponse_writers)"

definition Annotations_type :: gotype where
  "Annotations_type =
     GStruct [optional ''_meta'' GObject, optional ''audience'' (GList GString),
      optional ''lastModified'' (GPtr GString), optional ''priority'' (GPtr GFloat)]"

definition AudioContent_type :: gotype where
  "AudioContent_type =
     GStruct [optional ''_meta'' GObject, optional ''annotations'' (GPtr Annotations_type),
      required ''data'' GString, required ''mimeType'' GString]"

definition AuthMethodAgent_type :: gotype where
  "AuthMethodAgent_type =
     GStruct [optional ''_meta'' GObject, optional ''description'' (GPtr GString), required ''id'' GString,
      required ''name'' GString]"

definition AuthMethod_shape :: goshape where
  "AuthMethod_shape =
     Shape None None
     [([''id'', ''name''], 0)]
     []"

definition AuthMethod_writers :: "writer list" where
  "AuthMethod_writers =
     [WriteWith []]"

definition AuthMethod_type :: gotype where
  "AuthMethod_type =
     GUnion AuthMethod_shape (map2 GVariant
       [AuthMethodAgent_type]
       AuthMethod_writers)"

definition AuthenticateRequest_type :: gotype where
  "AuthenticateRequest_type =
     GStruct [optional ''_meta'' GObject, required ''methodId'' GString]"

definition AuthenticateResponse_type :: gotype where
  "AuthenticateResponse_type =
     GStruct [optional ''_meta'' GObject]"

definition UnstructuredCommandInput_type :: gotype where
  "UnstructuredCommandInput_type =
     GStruct [optional ''_meta'' GObject, required ''hint'' GString]"

definition AvailableCommandInput_shape :: goshape where
  "AvailableCommandInput_shape =
     Shape None None
     [([''hint''], 0)]
     []"

definition AvailableCommandInput_writers :: "writer list" where
  "AvailableCommandInput_writers =
     [WriteWith []]"

definition AvailableCommandInput_type :: gotype where
  "AvailableCommandInput_type =
     GUnion AvailableCommandInput_shape (map2 GVariant
       [UnstructuredCommandInput_type]
       AvailableCommandInput_writers)"

definition AvailableCommand_type :: gotype where
  "AvailableCommand_type =
     GStruct [optional ''_meta'' GObject, required ''description'' GString,
      optional ''input'' (GPtr AvailableCommandInput_type), required ''name'' GString]"

definition AvailableCommandsUpdate_type :: gotype where
  "AvailableCommandsUpdate_type =
     GStruct [optional ''_meta'' GObject, required ''availableCommands'' (GList AvailableCommand_type)]"

definition BlobResourceContents_type :: gotype where
  "BlobResourceContents_type =
     GStruct [optional ''_meta'' GObject, required ''blob'' GString, optional ''mimeType'' (GPtr GString),
      required ''uri'' GString]"

definition BooleanConfigOptionCapabilities_type :: gotype where
  "BooleanConfigOptionCapabilities_type =
     GStruct [optional ''_meta'' GObject]"

definition BooleanPropertySchema_type :: gotype where
  "BooleanPropertySchema_type =
     GStruct [optional ''_meta'' GObject, optional ''default'' (GPtr GBool),
      optional ''description'' (GPtr GString), optional ''title'' (GPtr GString)]"

definition CancelNotification_type :: gotype where
  "CancelNotification_type =
     GStruct [optional ''_meta'' GObject, required ''sessionId'' GString]"

definition CancelRequestNotification_type :: gotype where
  "CancelRequestNotification_type =
     GStruct [optional ''_meta'' GObject, required ''requestId'' RequestId_type]"

definition SessionConfigOptionsCapabilities_type :: gotype where
  "SessionConfigOptionsCapabilities_type =
     GStruct [optional ''_meta'' GObject, optional ''boolean'' (GPtr BooleanConfigOptionCapabilities_type)]"

definition ClientSessionCapabilities_type :: gotype where
  "ClientSessionCapabilities_type =
     GStruct [optional ''_meta'' GObject, optional ''configOptions'' (GPtr SessionConfigOptionsCapabilities_type)]"

definition ElicitationFormCapabilities_type :: gotype where
  "ElicitationFormCapabilities_type =
     GStruct [optional ''_meta'' GObject]"

definition ElicitationUrlCapabilities_type :: gotype where
  "ElicitationUrlCapabilities_type =
     GStruct [optional ''_meta'' GObject]"

definition ElicitationCapabilities_type :: gotype where
  "ElicitationCapabilities_type =
     GStruct [optional ''_meta'' GObject, optional ''form'' (GPtr ElicitationFormCapabilities_type),
      optional ''url'' (GPtr ElicitationUrlCapabilities_type)]"

definition FileSystemCapabilities_type :: gotype where
  "FileSystemCapabilities_type =
     GStruct [optional ''_meta'' GObject, GField ''readTextFile'' True GBool (Some (JBool False)) None,
      GField ''writeTextFile'' True GBool (Some (JBool False)) None]"

definition ClientCapabilities_type :: gotype where
  "ClientCapabilities_type =
     GStruct [optional ''_meta'' GObject, optional ''elicitation'' (GPtr ElicitationCapabilities_type),
      GField ''fs'' True FileSystemCapabilities_type (Some (JObj [(''readTextFile'', JBool False), (''writeTextFile'', JBool False)])) None,
      optional ''session'' (GPtr ClientSessionCapabilities_type),
      GField ''terminal'' True GBool (Some (JBool False)) None]"

definition ClientNotification_type :: gotype where
  "ClientNotification_type =
     GStruct [required ''method'' GString, optional ''params'' GAny]"

definition ClientRequest_type :: gotype where
  "ClientRequest_type =
     GStruct [required ''id'' RequestId_type, required ''method'' GString, optional ''params'' GAny]"

definition ClientResult_type :: gotype where
  "ClientResult_type =
     GStruct [required ''id'' RequestId_type, required ''result'' GAny]"

definition ClientError_type :: gotype where
  "ClientError_type =
     GStruct [required ''error'' Error_type, required ''id'' RequestId_type]"

definition ClientResponse_shape :: goshape where
  "ClientResponse_shape =
     Shape None None
     [([''id'', ''result''], 0), ([''id'', ''error''], 1)]
     []"

definition ClientResponse_writers :: "writer list" where
  "ClientResponse_writers =
     [WriteWith [], WriteWith []]"

definition ClientResponse_type :: gotype where
  "ClientResponse_type =
     GUnion ClientResponse_shape (map2 GVariant
       [ClientResult_type, ClientError_type]
       ClientResponse_writers)"

definition CloseSessionRequest_type :: gotype where
  "CloseSessionRequest_type =
     GStruct [optional ''_meta'' GObject, required ''sessionId'' GString]"

definition CloseSessionResponse_type :: gotype where
  "CloseSessionResponse_type =
     GStruct [optional ''_meta'' GObject]"

definition CompleteElicitationNotification_type :: gotype where
  "CompleteElicitationNotification_type =
     GStruct [optional ''_meta'' GObject, required ''elicitationId'' GString]"

definition SessionConfigSelectOption_type :: gotype where
  "SessionConfigSelectOption_type =
     GStruct [optional ''_meta'' GObject, optional ''description'' (GPtr GString), required ''name'' GString,
      required ''value'' GString]"

definition SessionConfigSelectGroup_type :: gotype where
  "SessionConfigSelectGroup_type =
     GStruct [optional ''_meta'' GObject, required ''group'' GString, required ''name'' GString,
      required ''options'' (GList SessionConfigSelectOption_type)]"

definition SessionConfigSelectOptions_shape :: goshape where
  "SessionConfigSelectOptions_shape =
     Shape None None
     []
     [([''name'', ''value''], 0), ([''group'', ''name'', ''options''], 1)]"

definition SessionConfigSelectOptions_writers :: "writer list" where
  "SessionConfigSelectOptions_writers =
     [WriteRaw, WriteRaw]"

definition SessionConfigSelectOptions_type :: gotype where
  "SessionConfigSelectOptions_type =
     GUnion SessionConfigSelectOptions_shape (map2 GVariant
       [GList SessionConfigSelectOption_type, GList SessionConfigSelectGroup_type]
       SessionConfigSelectOptions_writers)"

definition SessionConfigOptionSelect_type :: gotype where
  "SessionConfigOptionSelect_type =
     GStruct [optional ''_meta'' GObject, optional ''category'' (GPtr GString),
      required ''currentValue'' GString, optional ''description'' (GPtr GString),
      required ''id'' GString, required ''name'' GString,
      required ''options'' SessionConfigSelectOptions_type, required ''type'' GString]"

definition SessionConfigOptionBoolean_type :: gotype where
  "SessionConfigOptionBoolean_type =
     GStruct [optional ''_meta'' GObject, optional ''category'' (GPtr GString), required ''currentValue'' GBool,
      optional ''description'' (GPtr GString), required ''id'' GString, required ''name'' GString,
      required ''type'' GString]"

definition SessionConfigOption_shape :: goshape where
  "SessionConfigOption_shape =
     Shape None (Some (''type'', [(''select'', 0), (''boolean'', 1)]))
     [([''type'', ''currentValue'', ''options''], 0), ([''type'', ''currentValue''], 1)]
     []"

definition SessionConfigOption_writers :: "writer list" where
  "SessionConfigOption_writers =
     [WriteWith [(''type'', ''select'')], WriteWith [(''type'', ''boolean'')]]"

definition SessionConfigOption_type :: gotype where
  "SessionConfigOption_type =
     GUnion SessionConfigOption_shape (map2 GVariant
       [SessionConfigOptionSelect_type, SessionConfigOptionBoolean_type]
       SessionConfigOption_writers)"

definition ConfigOptionUpdate_type :: gotype where
  "ConfigOptionUpdate_type =
     GStruct [optional ''_meta'' GObject, required ''configOptions'' (GList SessionConfigOption_type)]"

definition ContentBlockText_type :: gotype where
  "ContentBlockText_type =
     GStruct [optional ''_meta'' GObject, optional ''annotations'' (GPtr Annotations_type),
      required ''text'' GString, required ''type'' GString]"

definition ContentBlockImage_type :: gotype where
  "ContentBlockImage_type =
     GStruct [optional ''_meta'' GObject, optional ''annotations'' (GPtr Annotations_type),
      required ''data'' GString, required ''mimeType'' GString, required ''type'' GString,
      optional ''uri'' (GPtr GString)]"

definition ContentBlockAudio_type :: gotype where
  "ContentBlockAudio_type =
     GStruct [optional ''_meta'' GObject, optional ''annotations'' (GPtr Annotations_type),
      required ''data'' GString, required ''mimeType'' GString, required ''type'' GString]"

definition ContentBlockResourceLink_type :: gotype where
  "ContentBlockResourceLink_type =
     GStruct [optional ''_meta'' GObject, optional ''annotations'' (GPtr Annotations_type),
      optional ''description'' (GPtr GString), optional ''mimeType'' (GPtr GString),
      required ''name'' GString, optional ''size'' (GPtr GInt), optional ''title'' (GPtr GString),
      required ''type'' GString, required ''uri'' GString]"

definition TextResourceContents_type :: gotype where
  "TextResourceContents_type =
     GStruct [optional ''_meta'' GObject, optional ''mimeType'' (GPtr GString), required ''text'' GString,
      required ''uri'' GString]"

definition EmbeddedResourceResource_shape :: goshape where
  "EmbeddedResourceResource_shape =
     Shape None None
     [([''text'', ''uri''], 0), ([''blob'', ''uri''], 1)]
     []"

definition EmbeddedResourceResource_writers :: "writer list" where
  "EmbeddedResourceResource_writers =
     [WriteWith [], WriteWith []]"

definition EmbeddedResourceResource_type :: gotype where
  "EmbeddedResourceResource_type =
     GUnion EmbeddedResourceResource_shape (map2 GVariant
       [TextResourceContents_type, BlobResourceContents_type]
       EmbeddedResourceResource_writers)"

definition ContentBlockResource_type :: gotype where
  "ContentBlockResource_type =
     GStruct [optional ''_meta'' GObject, optional ''annotations'' (GPtr Annotations_type),
      required ''resource'' EmbeddedResourceResource_type, required ''type'' GString]"

definition ContentBlock_discriminator :: "(string \<times> (string \<times> nat) list) option" where
  "ContentBlock_discriminator =
     Some (''type'', [(''text'', 0), (''image'', 1), (''audio'', 2), (''resource_link'', 3), (''resource'', 4)])"

definition ContentBlock_keys :: "(string list \<times> nat) list" where
  "ContentBlock_keys =
     [([''type'', ''text''], 0), ([''type'', ''data'', ''mimeType''], 1),
      ([''type'', ''data'', ''mimeType''], 2), ([''type'', ''name'', ''uri''], 3),
      ([''type'', ''resource''], 4)]"

definition ContentBlock_shape :: goshape where
  "ContentBlock_shape =
     Shape None ContentBlock_discriminator
     ContentBlock_keys
     []"

definition ContentBlock_writers :: "writer list" where
  "ContentBlock_writers =
     [WriteOnly ''type'' ''text'' [''text''] [],
      WriteOnly ''type'' ''image'' [''data'', ''mimeType''] [''uri''],
      WriteOnly ''type'' ''audio'' [''data'', ''mimeType''] [],
      WriteOnly ''type'' ''resource_link'' [''name'', ''uri''] [''description'', ''mimeType'', ''size'', ''title''],
      WriteOnly ''type'' ''resource'' [''resource''] []]"

definition ContentBlock_type :: gotype where
  "ContentBlock_type =
     GUnion ContentBlock_shape (map2 GVariant
       [ContentBlockText_type, ContentBlockImage_type, ContentBlockAudio_type,
        ContentBlockResourceLink_type, ContentBlockResource_type]
       ContentBlock_writers)"

definition Content_type :: gotype where
  "Content_type =
     GStruct [optional ''_meta'' GObject, required ''content'' ContentBlock_type]"

definition ContentChunk_type :: gotype where
  "ContentChunk_type =
     GStruct [optional ''_meta'' GObject, required ''content'' ContentBlock_type,
      optional ''messageId'' (GPtr GString)]"

definition Cost_type :: gotype where
  "Cost_type =
     GStruct [optional ''_meta'' GObject, required ''amount'' GFloat, required ''currency'' GString]"

definition ElicitationSchema_type :: gotype where
  "ElicitationSchema_type =
     GStruct [optional ''_meta'' GObject, optional ''description'' (GPtr GString),
      GField ''properties'' False GObject (Some (JObj [])) (Some (JObj [])),
      optional ''required'' (GList GString), optional ''title'' (GPtr GString),
      GField ''type'' True GString (Some (JStr ''object'')) None]"

definition CreateElicitationForm_type :: gotype where
  "CreateElicitationForm_type =
     GStruct [optional ''_meta'' GObject, required ''message'' GString, required ''mode'' GString,
      required ''requestedSchema'' ElicitationSchema_type]"

definition CreateElicitationUrl_type :: gotype where
  "CreateElicitationUrl_type =
     GStruct [optional ''_meta'' GObject, required ''elicitationId'' GString, required ''message'' GString,
      required ''mode'' GString, required ''url'' GString]"

definition CreateElicitationOther_type :: gotype where
  "CreateElicitationOther_type =
     GStruct [optional ''_meta'' GObject, required ''message'' GString, required ''mode'' GString]"

definition CreateElicitationRequest_shape :: goshape where
  "CreateElicitationRequest_shape =
     Shape None (Some (''mode'', [(''form'', 0), (''url'', 1)]))
     [([''mode'', ''requestedSchema''], 0), ([''mode'', ''elicitationId'', ''url''], 1), ([''mode''], 2)]
     []"

definition CreateElicitationRequest_writers :: "writer list" where
  "CreateElicitationRequest_writers =
     [WriteWith [(''mode'', ''form'')], WriteWith [(''mode'', ''url'')], WriteWith []]"

definition CreateElicitationRequest_type :: gotype where
  "CreateElicitationRequest_type =
     GUnion CreateElicitationRequest_shape (map2 GVariant
       [CreateElicitationForm_type, CreateElicitationUrl_type, CreateElicitationOther_type]
       CreateElicitationRequest_writers)"

definition CreateElicitationAccept_type :: gotype where
  "CreateElicitationAccept_type =
     GStruct [optional ''_meta'' GObject, required ''action'' GString, optional ''content'' GObject]"

definition CreateElicitationDecline_type :: gotype where
  "CreateElicitationDecline_type =
     GStruct [optional ''_meta'' GObject, required ''action'' GString]"

definition CreateElicitationCancel_type :: gotype where
  "CreateElicitationCancel_type =
     GStruct [optional ''_meta'' GObject, required ''action'' GString]"

definition CreateElicitationResponseOther_type :: gotype where
  "CreateElicitationResponseOther_type =
     GStruct [optional ''_meta'' GObject, required ''action'' GString]"

definition CreateElicitationResponse_shape :: goshape where
  "CreateElicitationResponse_shape =
     Shape None (Some (''action'', [(''accept'', 0), (''decline'', 1), (''cancel'', 2)]))
     [([''action''], 0), ([''action''], 1), ([''action''], 2), ([''action''], 3)]
     []"

definition CreateElicitationResponse_writers :: "writer list" where
  "CreateElicitationResponse_writers =
     [WriteWith [(''action'', ''accept'')], WriteWith [(''action'', ''decline'')],
      WriteWith [(''action'', ''cancel'')], WriteWith []]"

definition CreateElicitationResponse_type :: gotype where
  "CreateElicitationResponse_type =
     GUnion CreateElicitationResponse_shape (map2 GVariant
       [CreateElicitationAccept_type, CreateElicitationDecline_type, CreateElicitationCancel_type,
        CreateElicitationResponseOther_type]
       CreateElicitationResponse_writers)"

definition EnvVariable_type :: gotype where
  "EnvVariable_type =
     GStruct [optional ''_meta'' GObject, required ''name'' GString, required ''value'' GString]"

definition CreateTerminalRequest_type :: gotype where
  "CreateTerminalRequest_type =
     GStruct [optional ''_meta'' GObject, optional ''args'' (GList GString), required ''command'' GString,
      optional ''cwd'' (GPtr GString), optional ''env'' (GList EnvVariable_type),
      optional ''outputByteLimit'' (GPtr GInt), required ''sessionId'' GString]"

definition CreateTerminalResponse_type :: gotype where
  "CreateTerminalResponse_type =
     GStruct [optional ''_meta'' GObject, required ''terminalId'' GString]"

definition CurrentModeUpdate_type :: gotype where
  "CurrentModeUpdate_type =
     GStruct [optional ''_meta'' GObject, required ''currentModeId'' GString]"

definition DeleteSessionRequest_type :: gotype where
  "DeleteSessionRequest_type =
     GStruct [optional ''_meta'' GObject, required ''sessionId'' GString]"

definition DeleteSessionResponse_type :: gotype where
  "DeleteSessionResponse_type =
     GStruct [optional ''_meta'' GObject]"

definition Diff_type :: gotype where
  "Diff_type =
     GStruct [optional ''_meta'' GObject, required ''newText'' GString, optional ''oldText'' (GPtr GString),
      required ''path'' GString]"

definition ElicitationAcceptAction_type :: gotype where
  "ElicitationAcceptAction_type =
     GStruct [optional ''content'' GObject]"

definition ElicitationContentValue_shape :: goshape where
  "ElicitationContentValue_shape =
     Shape None None
     []
     []"

definition ElicitationContentValue_writers :: "writer list" where
  "ElicitationContentValue_writers =
     [WriteRaw, WriteRaw, WriteRaw, WriteRaw, WriteRaw]"

definition ElicitationContentValue_type :: gotype where
  "ElicitationContentValue_type =
     GUnion ElicitationContentValue_shape (map2 GVariant
       [GString, GInt, GFloat, GBool, GList GString]
       ElicitationContentValue_writers)"

definition ElicitationRequestScope_type :: gotype where
  "ElicitationRequestScope_type =
     GStruct [required ''requestId'' RequestId_type]"

definition ElicitationSessionScope_type :: gotype where
  "ElicitationSessionScope_type =
     GStruct [required ''sessionId'' GString, optional ''toolCallId'' (GPtr GString)]"

definition ElicitationFormMode_shape :: goshape where
  "ElicitationFormMode_shape =
     Shape None None
     [([''sessionId''], 0), ([''requestId''], 1)]
     []"

definition ElicitationFormMode_writers :: "writer list" where
  "ElicitationFormMode_writers =
     [WriteWith [], WriteWith []]"

definition ElicitationFormMode_type :: gotype where
  "ElicitationFormMode_type =
     GUnion ElicitationFormMode_shape (map2 GVariant
       [ElicitationSessionScope_type, ElicitationRequestScope_type]
       ElicitationFormMode_writers)"

definition EnumOption_type :: gotype where
  "EnumOption_type =
     GStruct [optional ''_meta'' GObject, required ''const'' GString, optional ''description'' (GPtr GString),
      required ''title'' GString]"

definition ElicitationPropertySchemaString_type :: gotype where
  "ElicitationPropertySchemaString_type =
     GStruct [optional ''_meta'' GObject, optional ''default'' (GPtr GString),
      optional ''description'' (GPtr GString), optional ''enum'' (GList GString),
      optional ''format'' (GPtr GString), optional ''maxLength'' (GPtr GInt),
      optional ''minLength'' (GPtr GInt), optional ''oneOf'' (GList EnumOption_type),
      optional ''pattern'' (GPtr GString), optional ''title'' (GPtr GString), required ''type'' GString]"

definition ElicitationPropertySchemaNumber_type :: gotype where
  "ElicitationPropertySchemaNumber_type =
     GStruct [optional ''_meta'' GObject, optional ''default'' (GPtr GFloat),
      optional ''description'' (GPtr GString), optional ''maximum'' (GPtr GFloat),
      optional ''minimum'' (GPtr GFloat), optional ''title'' (GPtr GString), required ''type'' GString]"

definition ElicitationPropertySchemaInteger_type :: gotype where
  "ElicitationPropertySchemaInteger_type =
     GStruct [optional ''_meta'' GObject, optional ''default'' (GPtr GInt),
      optional ''description'' (GPtr GString), optional ''maximum'' (GPtr GInt),
      optional ''minimum'' (GPtr GInt), optional ''title'' (GPtr GString), required ''type'' GString]"

definition ElicitationPropertySchemaBoolean_type :: gotype where
  "ElicitationPropertySchemaBoolean_type =
     GStruct [optional ''_meta'' GObject, optional ''default'' (GPtr GBool),
      optional ''description'' (GPtr GString), optional ''title'' (GPtr GString),
      required ''type'' GString]"

definition MultiSelectItemsString_type :: gotype where
  "MultiSelectItemsString_type =
     GStruct [optional ''_meta'' GObject, required ''enum'' (GList GString), required ''type'' GString]"

definition MultiSelectItemsOther_type :: gotype where
  "MultiSelectItemsOther_type =
     GStruct [required ''type'' GString]"

definition TitledMultiSelectItems_type :: gotype where
  "TitledMultiSelectItems_type =
     GStruct [optional ''_meta'' GObject, required ''anyOf'' (GList EnumOption_type)]"

definition MultiSelectItems_shape :: goshape where
  "MultiSelectItems_shape =
     Shape None (Some (''type'', [(''string'', 0)]))
     [([''type'', ''enum''], 0), ([''type''], 1), ([''anyOf''], 2)]
     []"

definition MultiSelectItems_writers :: "writer list" where
  "MultiSelectItems_writers =
     [WriteWith [(''type'', ''string'')], WriteWith [], WriteWith []]"

definition MultiSelectItems_type :: gotype where
  "MultiSelectItems_type =
     GUnion MultiSelectItems_shape (map2 GVariant
       [MultiSelectItemsString_type, MultiSelectItemsOther_type, TitledMultiSelectItems_type]
       MultiSelectItems_writers)"

definition ElicitationPropertySchemaArray_type :: gotype where
  "ElicitationPropertySchemaArray_type =
     GStruct [optional ''_meta'' GObject, optional ''default'' (GList GString),
      optional ''description'' (GPtr GString), required ''items'' MultiSelectItems_type,
      optional ''maxItems'' (GPtr GInt), optional ''minItems'' (GPtr GInt),
      optional ''title'' (GPtr GString), required ''type'' GString]"

definition ElicitationPropertySchemaOther_type :: gotype where
  "ElicitationPropertySchemaOther_type =
     GStruct [required ''type'' GString]"

definition ElicitationPropertySchema_discriminator :: "(string \<times> (string \<times> nat) list) option" where
  "ElicitationPropertySchema_discriminator =
     Some (''type'', [(''string'', 0), (''number'', 1), (''integer'', 2), (''boolean'', 3), (''array'', 4)])"

definition ElicitationPropertySchema_keys :: "(string list \<times> nat) list" where
  "ElicitationPropertySchema_keys =
     [([''type''], 0), ([''type''], 1), ([''type''], 2), ([''type''], 3), ([''type'', ''items''], 4),
      ([''type''], 5)]"

definition ElicitationPropertySchema_shape :: goshape where
  "ElicitationPropertySchema_shape =
     Shape None ElicitationPropertySchema_discriminator
     ElicitationPropertySchema_keys
     []"

definition ElicitationPropertySchema_writers :: "writer list" where
  "ElicitationPropertySchema_writers =
     [WriteWith [(''type'', ''string'')], WriteWith [(''type'', ''number'')],
      WriteWith [(''type'', ''integer'')], WriteWith [(''type'', ''boolean'')],
      WriteWith [(''type'', ''array'')], WriteWith []]"

definition ElicitationPropertySchema_type :: gotype where
  "ElicitationPropertySchema_type =
     GUnion ElicitationPropertySchema_shape (map2 GVariant
       [ElicitationPropertySchemaString_type, ElicitationPropertySchemaNumber_type,
        ElicitationPropertySchemaInteger_type, ElicitationPropertySchemaBoolean_type,
        ElicitationPropertySchemaArray_type, ElicitationPropertySchemaOther_type]
       ElicitationPropertySchema_writers)"

definition ElicitationUrlMode_shape :: goshape where
  "ElicitationUrlMode_shape =
     Shape None None
     [([''sessionId''], 0), ([''requestId''], 1)]
     []"

definition ElicitationUrlMode_writers :: "writer list" where
  "ElicitationUrlMode_writers =
     [WriteWith [], WriteWith []]"

definition ElicitationUrlMode_type :: gotype where
  "ElicitationUrlMode_type =
     GUnion ElicitationUrlMode_shape (map2 GVariant
       [ElicitationSessionScope_type, ElicitationRequestScope_type]
       ElicitationUrlMode_writers)"

definition EmbeddedResource_type :: gotype where
  "EmbeddedResource_type =
     GStruct [optional ''_meta'' GObject, optional ''annotations'' (GPtr Annotations_type),
      required ''resource'' EmbeddedResourceResource_type]"

definition HttpHeader_type :: gotype where
  "HttpHeader_type =
     GStruct [optional ''_meta'' GObject, required ''name'' GString, required ''value'' GString]"

definition ImageContent_type :: gotype where
  "ImageContent_type =
     GStruct [optional ''_meta'' GObject, optional ''annotations'' (GPtr Annotations_type),
      required ''data'' GString, required ''mimeType'' GString, optional ''uri'' (GPtr GString)]"

definition Implementation_type :: gotype where
  "Implementation_type =
     GStruct [optional ''_meta'' GObject, required ''name'' GString, optional ''title'' (GPtr GString),
      required ''version'' GString]"

definition InitializeRequest_type :: gotype where
  "InitializeRequest_type =
     GStruct [optional ''_meta'' GObject,
      GField ''clientCapabilities'' True ClientCapabilities_type (Some (JObj [(''fs'', JObj [(''readTextFile'', JBool False), (''writeTextFile'', JBool False)]), (''terminal'', JBool False)])) None,
      optional ''clientInfo'' (GPtr Implementation_type), required ''protocolVersion'' GInt]"

definition InitializeResponse_type :: gotype where
  "InitializeResponse_type =
     GStruct [optional ''_meta'' GObject,
      GField ''agentCapabilities'' True AgentCapabilities_type (Some (JObj [(''auth'', JObj []), (''loadSession'', JBool False), (''mcpCapabilities'', JObj [(''http'', JBool False), (''sse'', JBool False)]), (''promptCapabilities'', JObj [(''audio'', JBool False), (''embeddedContext'', JBool False), (''image'', JBool False)]), (''sessionCapabilities'', JObj [])])) None,
      optional ''agentInfo'' (GPtr Implementation_type),
      GField ''authMethods'' False (GList AuthMethod_type) (Some (JArr [])) (Some (JArr [])),
      required ''protocolVersion'' GInt]"

definition IntegerPropertySchema_type :: gotype where
  "IntegerPropertySchema_type =
     GStruct [optional ''_meta'' GObject, optional ''default'' (GPtr GInt),
      optional ''description'' (GPtr GString), optional ''maximum'' (GPtr GInt),
      optional ''minimum'' (GPtr GInt), optional ''title'' (GPtr GString)]"

definition KillTerminalRequest_type :: gotype where
  "KillTerminalRequest_type =
     GStruct [optional ''_meta'' GObject, required ''sessionId'' GString, required ''terminalId'' GString]"

definition KillTerminalResponse_type :: gotype where
  "KillTerminalResponse_type =
     GStruct [optional ''_meta'' GObject]"

definition ListSessionsRequest_type :: gotype where
  "ListSessionsRequest_type =
     GStruct [optional ''_meta'' GObject, optional ''cursor'' (GPtr GString), optional ''cwd'' (GPtr GString)]"

definition SessionInfo_type :: gotype where
  "SessionInfo_type =
     GStruct [optional ''_meta'' GObject, optional ''additionalDirectories'' (GList GString),
      required ''cwd'' GString, required ''sessionId'' GString, optional ''title'' (GPtr GString),
      optional ''updatedAt'' (GPtr GString)]"

definition ListSessionsResponse_type :: gotype where
  "ListSessionsResponse_type =
     GStruct [optional ''_meta'' GObject, optional ''nextCursor'' (GPtr GString),
      required ''sessions'' (GList SessionInfo_type)]"

definition McpServerHttpInline_type :: gotype where
  "McpServerHttpInline_type =
     GStruct [optional ''_meta'' GObject, required ''headers'' (GList HttpHeader_type),
      required ''name'' GString, required ''type'' GString, required ''url'' GString]"

definition McpServerSseInline_type :: gotype where
  "McpServerSseInline_type =
     GStruct [optional ''_meta'' GObject, required ''headers'' (GList HttpHeader_type),
      required ''name'' GString, required ''type'' GString, required ''url'' GString]"

definition McpServerStdio_type :: gotype where
  "McpServerStdio_type =
     GStruct [optional ''_meta'' GObject, required ''args'' (GList GString), required ''command'' GString,
      required ''env'' (GList EnvVariable_type), required ''name'' GString]"

definition McpServer_shape :: goshape where
  "McpServer_shape =
     Shape None (Some (''type'', [(''http'', 0), (''sse'', 1)]))
     [([''type'', ''name'', ''url'', ''headers''], 0), ([''type'', ''name'', ''url'', ''headers''], 1),
      ([''name'', ''command'', ''args'', ''env''], 2)]
     []"

definition McpServer_writers :: "writer list" where
  "McpServer_writers =
     [WriteWith [(''type'', ''http'')], WriteWith [(''type'', ''sse'')], WriteWith []]"

definition McpServer_type :: gotype where
  "McpServer_type =
     GUnion McpServer_shape (map2 GVariant
       [McpServerHttpInline_type, McpServerSseInline_type, McpServerStdio_type]
       McpServer_writers)"

definition LoadSessionRequest_type :: gotype where
  "LoadSessionRequest_type =
     GStruct [optional ''_meta'' GObject, optional ''additionalDirectories'' (GList GString),
      required ''cwd'' GString, required ''mcpServers'' (GList McpServer_type),
      required ''sessionId'' GString]"

definition SessionMode_type :: gotype where
  "SessionMode_type =
     GStruct [optional ''_meta'' GObject, optional ''description'' (GPtr GString), required ''id'' GString,
      required ''name'' GString]"

definition SessionModeState_type :: gotype where
  "SessionModeState_type =
     GStruct [optional ''_meta'' GObject, required ''availableModes'' (GList SessionMode_type),
      required ''currentModeId'' GString]"

definition LoadSessionResponse_type :: gotype where
  "LoadSessionResponse_type =
     GStruct [optional ''_meta'' GObject, optional ''configOptions'' (GList SessionConfigOption_type),
      optional ''modes'' (GPtr SessionModeState_type)]"

definition LogoutRequest_type :: gotype where
  "LogoutRequest_type =
     GStruct [optional ''_meta'' GObject]"

definition LogoutResponse_type :: gotype where
  "LogoutResponse_type =
     GStruct [optional ''_meta'' GObject]"

definition McpServerHttp_type :: gotype where
  "McpServerHttp_type =
     GStruct [optional ''_meta'' GObject, required ''headers'' (GList HttpHeader_type),
      required ''name'' GString, required ''url'' GString]"

definition McpServerSse_type :: gotype where
  "McpServerSse_type =
     GStruct [optional ''_meta'' GObject, required ''headers'' (GList HttpHeader_type),
      required ''name'' GString, required ''url'' GString]"

definition MultiSelectPropertySchema_type :: gotype where
  "MultiSelectPropertySchema_type =
     GStruct [optional ''_meta'' GObject, optional ''default'' (GList GString),
      optional ''description'' (GPtr GString), required ''items'' MultiSelectItems_type,
      optional ''maxItems'' (GPtr GInt), optional ''minItems'' (GPtr GInt),
      optional ''title'' (GPtr GString)]"

definition NewSessionRequest_type :: gotype where
  "NewSessionRequest_type =
     GStruct [optional ''_meta'' GObject, optional ''additionalDirectories'' (GList GString),
      required ''cwd'' GString, required ''mcpServers'' (GList McpServer_type)]"

definition NewSessionResponse_type :: gotype where
  "NewSessionResponse_type =
     GStruct [optional ''_meta'' GObject, optional ''configOptions'' (GList SessionConfigOption_type),
      optional ''modes'' (GPtr SessionModeState_type), required ''sessionId'' GString]"

definition NumberPropertySchema_type :: gotype where
  "NumberPropertySchema_type =
     GStruct [optional ''_meta'' GObject, optional ''default'' (GPtr GFloat),
      optional ''description'' (GPtr GString), optional ''maximum'' (GPtr GFloat),
      optional ''minimum'' (GPtr GFloat), optional ''title'' (GPtr GString)]"

definition PermissionOption_type :: gotype where
  "PermissionOption_type =
     GStruct [optional ''_meta'' GObject, required ''kind'' GString, required ''name'' GString,
      required ''optionId'' GString]"

definition PlanEntry_type :: gotype where
  "PlanEntry_type =
     GStruct [optional ''_meta'' GObject, required ''content'' GString, required ''priority'' GString,
      required ''status'' GString]"

definition Plan_type :: gotype where
  "Plan_type =
     GStruct [optional ''_meta'' GObject, required ''entries'' (GList PlanEntry_type)]"

definition PromptRequest_type :: gotype where
  "PromptRequest_type =
     GStruct [optional ''_meta'' GObject, required ''prompt'' (GList ContentBlock_type),
      required ''sessionId'' GString]"

definition PromptResponse_type :: gotype where
  "PromptResponse_type =
     GStruct [optional ''_meta'' GObject, required ''stopReason'' GString]"

definition ReadTextFileRequest_type :: gotype where
  "ReadTextFileRequest_type =
     GStruct [optional ''_meta'' GObject, optional ''limit'' (GPtr GInt), optional ''line'' (GPtr GInt),
      required ''path'' GString, required ''sessionId'' GString]"

definition ReadTextFileResponse_type :: gotype where
  "ReadTextFileResponse_type =
     GStruct [optional ''_meta'' GObject, required ''content'' GString]"

definition ReleaseTerminalRequest_type :: gotype where
  "ReleaseTerminalRequest_type =
     GStruct [optional ''_meta'' GObject, required ''sessionId'' GString, required ''terminalId'' GString]"

definition ReleaseTerminalResponse_type :: gotype where
  "ReleaseTerminalResponse_type =
     GStruct [optional ''_meta'' GObject]"

definition RequestPermissionOutcomeCancelled_type :: gotype where
  "RequestPermissionOutcomeCancelled_type =
     GStruct [required ''outcome'' GString]"

definition RequestPermissionOutcomeSelected_type :: gotype where
  "RequestPermissionOutcomeSelected_type =
     GStruct [optional ''_meta'' GObject, required ''optionId'' GString, required ''outcome'' GString]"

definition RequestPermissionOutcome_shape :: goshape where
  "RequestPermissionOutcome_shape =
     Shape None (Some (''outcome'', [(''cancelled'', 0), (''selected'', 1)]))
     [([''outcome''], 0), ([''outcome'', ''optionId''], 1)]
     []"

definition RequestPermissionOutcome_writers :: "writer list" where
  "RequestPermissionOutcome_writers =
     [WriteWith [(''outcome'', ''cancelled'')], WriteWith [(''outcome'', ''selected'')]]"

definition RequestPermissionOutcome_type :: gotype where
  "RequestPermissionOutcome_type =
     GUnion RequestPermissionOutcome_shape (map2 GVariant
       [RequestPermissionOutcomeCancelled_type, RequestPermissionOutcomeSelected_type]
       RequestPermissionOutcome_writers)"

definition ToolCallContentContent_type :: gotype where
  "ToolCallContentContent_type =
     GStruct [optional ''_meta'' GObject, required ''content'' ContentBlock_type, required ''type'' GString]"

definition ToolCallContentDiff_type :: gotype where
  "ToolCallContentDiff_type =
     GStruct [optional ''_meta'' GObject, required ''newText'' GString, optional ''oldText'' (GPtr GString),
      required ''path'' GString, required ''type'' GString]"

definition ToolCallContentTerminal_type :: gotype where
  "ToolCallContentTerminal_type =
     GStruct [optional ''_meta'' GObject, required ''terminalId'' GString, required ''type'' GString]"

definition ToolCallContent_shape :: goshape where
  "ToolCallContent_shape =
     Shape None (Some (''type'', [(''content'', 0), (''diff'', 1), (''terminal'', 2)]))
     [([''type'', ''content''], 0), ([''type'', ''path'', ''newText''], 1),
      ([''type'', ''terminalId''], 2)]
     []"

definition ToolCallContent_writers :: "writer list" where
  "ToolCallContent_writers =
     [WriteWith [(''type'', ''content'')], WriteWith [(''type'', ''diff'')],
      WriteWith [(''type'', ''terminal'')]]"

definition ToolCallContent_type :: gotype where
  "ToolCallContent_type =
     GUnion ToolCallContent_shape (map2 GVariant
       [ToolCallContentContent_type, ToolCallContentDiff_type, ToolCallContentTerminal_type]
       ToolCallContent_writers)"

definition ToolCallLocation_type :: gotype where
  "ToolCallLocation_type =
     GStruct [optional ''_meta'' GObject, optional ''line'' (GPtr GInt), required ''path'' GString]"

definition ToolCallUpdate_type :: gotype where
  "ToolCallUpdate_type =
     GStruct [optional ''_meta'' GObject, optional ''content'' (GList ToolCallContent_type),
      optional ''kind'' (GPtr GString), optional ''locations'' (GList ToolCallLocation_type),
      optional ''rawInput'' GAny, optional ''rawOutput'' GAny, optional ''status'' (GPtr GString),
      optional ''title'' (GPtr GString), required ''toolCallId'' GString]"

definition RequestPermissionRequest_type :: gotype where
  "RequestPermissionRequest_type =
     GStruct [optional ''_meta'' GObject, required ''options'' (GList PermissionOption_type),
      required ''sessionId'' GString, required ''toolCall'' ToolCallUpdate_type]"

definition RequestPermissionResponse_type :: gotype where
  "RequestPermissionResponse_type =
     GStruct [optional ''_meta'' GObject, required ''outcome'' RequestPermissionOutcome_type]"

definition ResourceLink_type :: gotype where
  "ResourceLink_type =
     GStruct [optional ''_meta'' GObject, optional ''annotations'' (GPtr Annotations_type),
      optional ''description'' (GPtr GString), optional ''mimeType'' (GPtr GString),
      required ''name'' GString, optional ''size'' (GPtr GInt), optional ''title'' (GPtr GString),
      required ''uri'' GString]"

definition ResumeSessionRequest_type :: gotype where
  "ResumeSessionRequest_type =
     GStruct [optional ''_meta'' GObject, optional ''additionalDirectories'' (GList GString),
      required ''cwd'' GString, optional ''mcpServers'' (GList McpServer_type),
      required ''sessionId'' GString]"

definition ResumeSessionResponse_type :: gotype where
  "ResumeSessionResponse_type =
     GStruct [optional ''_meta'' GObject, optional ''configOptions'' (GList SessionConfigOption_type),
      optional ''modes'' (GPtr SessionModeState_type)]"

definition SelectedPermissionOutcome_type :: gotype where
  "SelectedPermissionOutcome_type =
     GStruct [optional ''_meta'' GObject, required ''optionId'' GString]"

definition SessionConfigBoolean_type :: gotype where
  "SessionConfigBoolean_type =
     GStruct [required ''currentValue'' GBool]"

definition SessionConfigSelect_type :: gotype where
  "SessionConfigSelect_type =
     GStruct [required ''currentValue'' GString, required ''options'' SessionConfigSelectOptions_type]"

definition SessionInfoUpdate_type :: gotype where
  "SessionInfoUpdate_type =
     GStruct [optional ''_meta'' GObject, optional ''title'' (GPtr GString),
      optional ''updatedAt'' (GPtr GString)]"

definition SessionUpdateUserMessageChunk_type :: gotype where
  "SessionUpdateUserMessageChunk_type =
     GStruct [optional ''_meta'' GObject, required ''content'' ContentBlock_type,
      optional ''messageId'' (GPtr GString), required ''sessionUpdate'' GString]"

definition SessionUpdateAgentMessageChunk_type :: gotype where
  "SessionUpdateAgentMessageChunk_type =
     GStruct [optional ''_meta'' GObject, required ''content'' ContentBlock_type,
      optional ''messageId'' (GPtr GString), required ''sessionUpdate'' GString]"

definition SessionUpdateAgentThoughtChunk_type :: gotype where
  "SessionUpdateAgentThoughtChunk_type =
     GStruct [optional ''_meta'' GObject, required ''content'' ContentBlock_type,
      optional ''messageId'' (GPtr GString), required ''sessionUpdate'' GString]"

definition SessionUpdateToolCall_type :: gotype where
  "SessionUpdateToolCall_type =
     GStruct [optional ''_meta'' GObject, optional ''content'' (GList ToolCallContent_type),
      optional ''kind'' GString, optional ''locations'' (GList ToolCallLocation_type),
      optional ''rawInput'' GAny, optional ''rawOutput'' GAny, required ''sessionUpdate'' GString,
      optional ''status'' GString, required ''title'' GString, required ''toolCallId'' GString]"

definition SessionToolCallUpdate_type :: gotype where
  "SessionToolCallUpdate_type =
     GStruct [optional ''_meta'' GObject, optional ''content'' (GList ToolCallContent_type),
      optional ''kind'' (GPtr GString), optional ''locations'' (GList ToolCallLocation_type),
      optional ''rawInput'' GAny, optional ''rawOutput'' GAny, required ''sessionUpdate'' GString,
      optional ''status'' (GPtr GString), optional ''title'' (GPtr GString),
      required ''toolCallId'' GString]"

definition SessionUpdatePlan_type :: gotype where
  "SessionUpdatePlan_type =
     GStruct [optional ''_meta'' GObject, required ''entries'' (GList PlanEntry_type),
      required ''sessionUpdate'' GString]"

definition SessionAvailableCommandsUpdate_type :: gotype where
  "SessionAvailableCommandsUpdate_type =
     GStruct [optional ''_meta'' GObject, required ''availableCommands'' (GList AvailableCommand_type),
      required ''sessionUpdate'' GString]"

definition SessionCurrentModeUpdate_type :: gotype where
  "SessionCurrentModeUpdate_type =
     GStruct [optional ''_meta'' GObject, required ''currentModeId'' GString, required ''sessionUpdate'' GString]"

definition SessionConfigOptionUpdate_type :: gotype where
  "SessionConfigOptionUpdate_type =
     GStruct [optional ''_meta'' GObject, required ''configOptions'' (GList SessionConfigOption_type),
      required ''sessionUpdate'' GString]"

definition SessionSessionInfoUpdate_type :: gotype where
  "SessionSessionInfoUpdate_type =
     GStruct [optional ''_meta'' GObject, required ''sessionUpdate'' GString, optional ''title'' (GPtr GString),
      optional ''updatedAt'' (GPtr GString)]"

definition SessionUsageUpdate_type :: gotype where
  "SessionUsageUpdate_type =
     GStruct [optional ''_meta'' GObject, optional ''cost'' (GPtr Cost_type), required ''sessionUpdate'' GString,
      required ''size'' GInt, required ''used'' GInt]"

definition SessionUpdate_discriminator :: "(string \<times> (string \<times> nat) list) option" where
  "SessionUpdate_discriminator =
     Some (''sessionUpdate'', [(''user_message_chunk'', 0), (''agent_message_chunk'', 1), (''agent_thought_chunk'', 2),
      (''tool_call'', 3), (''tool_call_update'', 4), (''plan'', 5), (''available_commands_update'', 6),
      (''current_mode_update'', 7), (''config_option_update'', 8), (''session_info_update'', 9),
      (''usage_update'', 10)])"

definition SessionUpdate_keys :: "(string list \<times> nat) list" where
  "SessionUpdate_keys =
     [([''sessionUpdate'', ''content''], 0), ([''sessionUpdate'', ''content''], 1),
      ([''sessionUpdate'', ''content''], 2), ([''sessionUpdate'', ''toolCallId'', ''title''], 3),
      ([''sessionUpdate'', ''toolCallId''], 4), ([''sessionUpdate'', ''entries''], 5),
      ([''sessionUpdate'', ''availableCommands''], 6), ([''sessionUpdate'', ''currentModeId''], 7),
      ([''sessionUpdate'', ''configOptions''], 8), ([''sessionUpdate''], 9),
      ([''sessionUpdate'', ''used'', ''size''], 10)]"

definition SessionUpdate_shape :: goshape where
  "SessionUpdate_shape =
     Shape None SessionUpdate_discriminator
     SessionUpdate_keys
     []"

definition SessionUpdate_writers :: "writer list" where
  "SessionUpdate_writers =
     [WriteWith [(''sessionUpdate'', ''user_message_chunk'')],
      WriteWith [(''sessionUpdate'', ''agent_message_chunk'')],
      WriteWith [(''sessionUpdate'', ''agent_thought_chunk'')],
      WriteWith [(''sessionUpdate'', ''tool_call'')],
      WriteWith [(''sessionUpdate'', ''tool_call_update'')], WriteWith [(''sessionUpdate'', ''plan'')],
      WriteWith [(''sessionUpdate'', ''available_commands_update'')],
      WriteWith [(''sessionUpdate'', ''current_mode_update'')],
      WriteWith [(''sessionUpdate'', ''config_option_update'')],
      WriteWith [(''sessionUpdate'', ''session_info_update'')],
      WriteWith [(''sessionUpdate'', ''usage_update'')]]"

definition SessionUpdate_type :: gotype where
  "SessionUpdate_type =
     GUnion SessionUpdate_shape (map2 GVariant
       [SessionUpdateUserMessageChunk_type, SessionUpdateAgentMessageChunk_type,
        SessionUpdateAgentThoughtChunk_type, SessionUpdateToolCall_type, SessionToolCallUpdate_type,
        SessionUpdatePlan_type, SessionAvailableCommandsUpdate_type, SessionCurrentModeUpdate_type,
        SessionConfigOptionUpdate_type, SessionSessionInfoUpdate_type, SessionUsageUpdate_type]
       SessionUpdate_writers)"

definition SessionNotification_type :: gotype where
  "SessionNotification_type =
     GStruct [optional ''_meta'' GObject, required ''sessionId'' GString, required ''update'' SessionUpdate_type]"

definition SetSessionConfigOptionBoolean_type :: gotype where
  "SetSessionConfigOptionBoolean_type =
     GStruct [optional ''_meta'' GObject, required ''configId'' GString, required ''sessionId'' GString,
      required ''type'' GString, required ''value'' GBool]"

definition SetSessionConfigOptionValueId_type :: gotype where
  "SetSessionConfigOptionValueId_type =
     GStruct [optional ''_meta'' GObject, required ''configId'' GString, required ''sessionId'' GString,
      required ''value'' GString]"

definition SetSessionConfigOptionRequest_shape :: goshape where
  "SetSessionConfigOptionRequest_shape =
     Shape None (Some (''type'', [(''boolean'', 0)]))
     [([''type'', ''value''], 0), ([''value''], 1)]
     []"

definition SetSessionConfigOptionRequest_writers :: "writer list" where
  "SetSessionConfigOptionRequest_writers =
     [WriteWith [(''type'', ''boolean'')], WriteWith []]"

definition SetSessionConfigOptionRequest_type :: gotype where
  "SetSessionConfigOptionRequest_type =
     GUnion SetSessionConfigOptionRequest_shape (map2 GVariant
       [SetSessionConfigOptionBoolean_type, SetSessionConfigOptionValueId_type]
       SetSessionConfigOptionRequest_writers)"

definition SetSessionConfigOptionResponse_type :: gotype where
  "SetSessionConfigOptionResponse_type =
     GStruct [optional ''_meta'' GObject, required ''configOptions'' (GList SessionConfigOption_type)]"

definition SetSessionModeRequest_type :: gotype where
  "SetSessionModeRequest_type =
     GStruct [optional ''_meta'' GObject, required ''modeId'' GString, required ''sessionId'' GString]"

definition SetSessionModeResponse_type :: gotype where
  "SetSessionModeResponse_type =
     GStruct [optional ''_meta'' GObject]"

definition StringMultiSelectItems_type :: gotype where
  "StringMultiSelectItems_type =
     GStruct [optional ''_meta'' GObject, required ''enum'' (GList GString)]"

definition StringPropertySchema_type :: gotype where
  "StringPropertySchema_type =
     GStruct [optional ''_meta'' GObject, optional ''default'' (GPtr GString),
      optional ''description'' (GPtr GString), optional ''enum'' (GList GString),
      optional ''format'' (GPtr GString), optional ''maxLength'' (GPtr GInt),
      optional ''minLength'' (GPtr GInt), optional ''oneOf'' (GList EnumOption_type),
      optional ''pattern'' (GPtr GString), optional ''title'' (GPtr GString)]"

definition Terminal_type :: gotype where
  "Terminal_type =
     GStruct [optional ''_meta'' GObject, required ''terminalId'' GString]"

definition TerminalExitStatus_type :: gotype where
  "TerminalExitStatus_type =
     GStruct [optional ''_meta'' GObject, optional ''exitCode'' (GPtr GInt), optional ''signal'' (GPtr GString)]"

definition TerminalOutputRequest_type :: gotype where
  "TerminalOutputRequest_type =
     GStruct [optional ''_meta'' GObject, required ''sessionId'' GString, required ''terminalId'' GString]"

definition TerminalOutputResponse_type :: gotype where
  "TerminalOutputResponse_type =
     GStruct [optional ''_meta'' GObject, optional ''exitStatus'' (GPtr TerminalExitStatus_type),
      required ''output'' GString, required ''truncated'' GBool]"

definition TextContent_type :: gotype where
  "TextContent_type =
     GStruct [optional ''_meta'' GObject, optional ''annotations'' (GPtr Annotations_type),
      required ''text'' GString]"

definition ToolCall_type :: gotype where
  "ToolCall_type =
     GStruct [optional ''_meta'' GObject, optional ''content'' (GList ToolCallContent_type),
      optional ''kind'' GString, optional ''locations'' (GList ToolCallLocation_type),
      optional ''rawInput'' GAny, optional ''rawOutput'' GAny, optional ''status'' GString,
      required ''title'' GString, required ''toolCallId'' GString]"

definition UsageUpdate_type :: gotype where
  "UsageUpdate_type =
     GStruct [optional ''_meta'' GObject, optional ''cost'' (GPtr Cost_type), required ''size'' GInt,
      required ''used'' GInt]"

definition WaitForTerminalExitRequest_type :: gotype where
  "WaitForTerminalExitRequest_type =
     GStruct [optional ''_meta'' GObject, required ''sessionId'' GString, required ''terminalId'' GString]"

definition WaitForTerminalExitResponse_type :: gotype where
  "WaitForTerminalExitResponse_type =
     GStruct [optional ''_meta'' GObject, optional ''exitCode'' (GPtr GInt), optional ''signal'' (GPtr GString)]"

definition WriteTextFileRequest_type :: gotype where
  "WriteTextFileRequest_type =
     GStruct [optional ''_meta'' GObject, required ''content'' GString, required ''path'' GString,
      required ''sessionId'' GString]"

definition WriteTextFileResponse_type :: gotype where
  "WriteTextFileResponse_type =
     GStruct [optional ''_meta'' GObject]"

section \<open>Checks\<close>

definition AgentNotification_Validate :: "check list" where
  "AgentNotification_Validate = [NonEmpty ''method'']"

definition AgentRequest_Validate :: "check list" where
  "AgentRequest_Validate = [NonEmpty ''method'']"

definition ClientNotification_Validate :: "check list" where
  "ClientNotification_Validate = [NonEmpty ''method'']"

definition ClientRequest_Validate :: "check list" where
  "ClientRequest_Validate = [NonEmpty ''method'']"

definition ContentBlock_Validate :: "check list" where
  "ContentBlock_Validate = [OneVariant]"

definition CreateElicitationRequest_Validate :: "check list" where
  "CreateElicitationRequest_Validate = [OneVariant, VariantNonEmpty ''message'']"

definition CreateTerminalRequest_Validate :: "check list" where
  "CreateTerminalRequest_Validate = [NonEmpty ''command'']"

definition ListSessionsResponse_Validate :: "check list" where
  "ListSessionsResponse_Validate = [NonNil ''sessions'']"

definition LoadSessionRequest_Validate :: "check list" where
  "LoadSessionRequest_Validate = [NonEmpty ''cwd'', NonNil ''mcpServers'']"

definition NewSessionRequest_Validate :: "check list" where
  "NewSessionRequest_Validate = [NonEmpty ''cwd'', NonNil ''mcpServers'']"

definition PromptRequest_Validate :: "check list" where
  "PromptRequest_Validate = [NonNil ''prompt'']"

definition ReadTextFileRequest_Validate :: "check list" where
  "ReadTextFileRequest_Validate = [NonEmpty ''path'']"

definition ReadTextFileResponse_Validate :: "check list" where
  "ReadTextFileResponse_Validate = [NonEmpty ''content'']"

definition RequestPermissionOutcome_Validate :: "check list" where
  "RequestPermissionOutcome_Validate = [OneVariant]"

definition RequestPermissionRequest_Validate :: "check list" where
  "RequestPermissionRequest_Validate = [NonNil ''options'']"

definition ResumeSessionRequest_Validate :: "check list" where
  "ResumeSessionRequest_Validate = [NonEmpty ''cwd'']"

definition SessionConfigOption_Validate :: "check list" where
  "SessionConfigOption_Validate = [OneVariant]"

definition SessionUpdate_Validate :: "check list" where
  "SessionUpdate_Validate = [OneVariant]"

definition SetSessionConfigOptionResponse_Validate :: "check list" where
  "SetSessionConfigOptionResponse_Validate = [NonNil ''configOptions'']"

definition TerminalOutputResponse_Validate :: "check list" where
  "TerminalOutputResponse_Validate = [NonEmpty ''output'']"

definition ToolCallContent_Validate :: "check list" where
  "ToolCallContent_Validate = [OneVariant]"

definition ToolCallUpdate_Validate :: "check list" where
  "ToolCallUpdate_Validate = [NonEmpty ''toolCallId'']"

definition WriteTextFileRequest_Validate :: "check list" where
  "WriteTextFileRequest_Validate = [NonEmpty ''content'', NonEmpty ''path'']"

section \<open>All of them\<close>

definition protocol_types :: "gotype list" where
  "protocol_types =
     [LogoutCapabilities_type, AgentAuthCapabilities_type, McpCapabilities_type, PromptCapabilities_type,
      SessionAdditionalDirectoriesCapabilities_type, SessionCloseCapabilities_type,
      SessionDeleteCapabilities_type, SessionListCapabilities_type, SessionResumeCapabilities_type,
      SessionCapabilities_type, AgentCapabilities_type, AgentNotification_type, RequestIdNull_type,
      RequestId_type, AgentRequest_type, AgentResult_type, ErrorCode_type, Error_type, AgentError_type,
      AgentResponse_type, Annotations_type, AudioContent_type, AuthMethodAgent_type, AuthMethod_type,
      AuthenticateRequest_type, AuthenticateResponse_type, UnstructuredCommandInput_type,
      AvailableCommandInput_type, AvailableCommand_type, AvailableCommandsUpdate_type,
      BlobResourceContents_type, BooleanConfigOptionCapabilities_type, BooleanPropertySchema_type,
      CancelNotification_type, CancelRequestNotification_type, SessionConfigOptionsCapabilities_type,
      ClientSessionCapabilities_type, ElicitationFormCapabilities_type, ElicitationUrlCapabilities_type,
      ElicitationCapabilities_type, FileSystemCapabilities_type, ClientCapabilities_type,
      ClientNotification_type, ClientRequest_type, ClientResult_type, ClientError_type,
      ClientResponse_type, CloseSessionRequest_type, CloseSessionResponse_type,
      CompleteElicitationNotification_type, SessionConfigSelectOption_type,
      SessionConfigSelectGroup_type, SessionConfigSelectOptions_type, SessionConfigOptionSelect_type,
      SessionConfigOptionBoolean_type, SessionConfigOption_type, ConfigOptionUpdate_type,
      ContentBlockText_type, ContentBlockImage_type, ContentBlockAudio_type,
      ContentBlockResourceLink_type, TextResourceContents_type, EmbeddedResourceResource_type,
      ContentBlockResource_type, ContentBlock_type, Content_type, ContentChunk_type, Cost_type,
      ElicitationSchema_type, CreateElicitationForm_type, CreateElicitationUrl_type,
      CreateElicitationOther_type, CreateElicitationRequest_type, CreateElicitationAccept_type,
      CreateElicitationDecline_type, CreateElicitationCancel_type, CreateElicitationResponseOther_type,
      CreateElicitationResponse_type, EnvVariable_type, CreateTerminalRequest_type,
      CreateTerminalResponse_type, CurrentModeUpdate_type, DeleteSessionRequest_type,
      DeleteSessionResponse_type, Diff_type, ElicitationAcceptAction_type, ElicitationContentValue_type,
      ElicitationRequestScope_type, ElicitationSessionScope_type, ElicitationFormMode_type,
      EnumOption_type, ElicitationPropertySchemaString_type, ElicitationPropertySchemaNumber_type,
      ElicitationPropertySchemaInteger_type, ElicitationPropertySchemaBoolean_type,
      MultiSelectItemsString_type, MultiSelectItemsOther_type, TitledMultiSelectItems_type,
      MultiSelectItems_type, ElicitationPropertySchemaArray_type, ElicitationPropertySchemaOther_type,
      ElicitationPropertySchema_type, ElicitationUrlMode_type, EmbeddedResource_type, HttpHeader_type,
      ImageContent_type, Implementation_type, InitializeRequest_type, InitializeResponse_type,
      IntegerPropertySchema_type, KillTerminalRequest_type, KillTerminalResponse_type,
      ListSessionsRequest_type, SessionInfo_type, ListSessionsResponse_type, McpServerHttpInline_type,
      McpServerSseInline_type, McpServerStdio_type, McpServer_type, LoadSessionRequest_type,
      SessionMode_type, SessionModeState_type, LoadSessionResponse_type, LogoutRequest_type,
      LogoutResponse_type, McpServerHttp_type, McpServerSse_type, MultiSelectPropertySchema_type,
      NewSessionRequest_type, NewSessionResponse_type, NumberPropertySchema_type, PermissionOption_type,
      PlanEntry_type, Plan_type, PromptRequest_type, PromptResponse_type, ReadTextFileRequest_type,
      ReadTextFileResponse_type, ReleaseTerminalRequest_type, ReleaseTerminalResponse_type,
      RequestPermissionOutcomeCancelled_type, RequestPermissionOutcomeSelected_type,
      RequestPermissionOutcome_type, ToolCallContentContent_type, ToolCallContentDiff_type,
      ToolCallContentTerminal_type, ToolCallContent_type, ToolCallLocation_type, ToolCallUpdate_type,
      RequestPermissionRequest_type, RequestPermissionResponse_type, ResourceLink_type,
      ResumeSessionRequest_type, ResumeSessionResponse_type, SelectedPermissionOutcome_type,
      SessionConfigBoolean_type, SessionConfigSelect_type, SessionInfoUpdate_type,
      SessionUpdateUserMessageChunk_type, SessionUpdateAgentMessageChunk_type,
      SessionUpdateAgentThoughtChunk_type, SessionUpdateToolCall_type, SessionToolCallUpdate_type,
      SessionUpdatePlan_type, SessionAvailableCommandsUpdate_type, SessionCurrentModeUpdate_type,
      SessionConfigOptionUpdate_type, SessionSessionInfoUpdate_type, SessionUsageUpdate_type,
      SessionUpdate_type, SessionNotification_type, SetSessionConfigOptionBoolean_type,
      SetSessionConfigOptionValueId_type, SetSessionConfigOptionRequest_type,
      SetSessionConfigOptionResponse_type, SetSessionModeRequest_type, SetSessionModeResponse_type,
      StringMultiSelectItems_type, StringPropertySchema_type, Terminal_type, TerminalExitStatus_type,
      TerminalOutputRequest_type, TerminalOutputResponse_type, TextContent_type, ToolCall_type,
      UsageUpdate_type, WaitForTerminalExitRequest_type, WaitForTerminalExitResponse_type,
      WriteTextFileRequest_type, WriteTextFileResponse_type]"

lemmas protocol_type_defs =
  LogoutCapabilities_type_def AgentAuthCapabilities_type_def McpCapabilities_type_def
  PromptCapabilities_type_def SessionAdditionalDirectoriesCapabilities_type_def
  SessionCloseCapabilities_type_def SessionDeleteCapabilities_type_def SessionListCapabilities_type_def
  SessionResumeCapabilities_type_def SessionCapabilities_type_def AgentCapabilities_type_def
  AgentNotification_type_def RequestIdNull_type_def RequestId_shape_def RequestId_writers_def
  RequestId_type_def AgentRequest_type_def AgentResult_type_def ErrorCode_shape_def ErrorCode_writers_def
  ErrorCode_type_def Error_type_def AgentError_type_def AgentResponse_shape_def AgentResponse_writers_def
  AgentResponse_type_def Annotations_type_def AudioContent_type_def AuthMethodAgent_type_def
  AuthMethod_shape_def AuthMethod_writers_def AuthMethod_type_def AuthenticateRequest_type_def
  AuthenticateResponse_type_def UnstructuredCommandInput_type_def AvailableCommandInput_shape_def
  AvailableCommandInput_writers_def AvailableCommandInput_type_def AvailableCommand_type_def
  AvailableCommandsUpdate_type_def BlobResourceContents_type_def BooleanConfigOptionCapabilities_type_def
  BooleanPropertySchema_type_def CancelNotification_type_def CancelRequestNotification_type_def
  SessionConfigOptionsCapabilities_type_def ClientSessionCapabilities_type_def
  ElicitationFormCapabilities_type_def ElicitationUrlCapabilities_type_def ElicitationCapabilities_type_def
  FileSystemCapabilities_type_def ClientCapabilities_type_def ClientNotification_type_def
  ClientRequest_type_def ClientResult_type_def ClientError_type_def ClientResponse_shape_def
  ClientResponse_writers_def ClientResponse_type_def CloseSessionRequest_type_def
  CloseSessionResponse_type_def CompleteElicitationNotification_type_def SessionConfigSelectOption_type_def
  SessionConfigSelectGroup_type_def SessionConfigSelectOptions_shape_def
  SessionConfigSelectOptions_writers_def SessionConfigSelectOptions_type_def
  SessionConfigOptionSelect_type_def SessionConfigOptionBoolean_type_def SessionConfigOption_shape_def
  SessionConfigOption_writers_def SessionConfigOption_type_def ConfigOptionUpdate_type_def
  ContentBlockText_type_def ContentBlockImage_type_def ContentBlockAudio_type_def
  ContentBlockResourceLink_type_def TextResourceContents_type_def EmbeddedResourceResource_shape_def
  EmbeddedResourceResource_writers_def EmbeddedResourceResource_type_def ContentBlockResource_type_def
  ContentBlock_discriminator_def ContentBlock_keys_def ContentBlock_shape_def ContentBlock_writers_def
  ContentBlock_type_def Content_type_def ContentChunk_type_def Cost_type_def ElicitationSchema_type_def
  CreateElicitationForm_type_def CreateElicitationUrl_type_def CreateElicitationOther_type_def
  CreateElicitationRequest_shape_def CreateElicitationRequest_writers_def CreateElicitationRequest_type_def
  CreateElicitationAccept_type_def CreateElicitationDecline_type_def CreateElicitationCancel_type_def
  CreateElicitationResponseOther_type_def CreateElicitationResponse_shape_def
  CreateElicitationResponse_writers_def CreateElicitationResponse_type_def EnvVariable_type_def
  CreateTerminalRequest_type_def CreateTerminalResponse_type_def CurrentModeUpdate_type_def
  DeleteSessionRequest_type_def DeleteSessionResponse_type_def Diff_type_def ElicitationAcceptAction_type_def
  ElicitationContentValue_shape_def ElicitationContentValue_writers_def ElicitationContentValue_type_def
  ElicitationRequestScope_type_def ElicitationSessionScope_type_def ElicitationFormMode_shape_def
  ElicitationFormMode_writers_def ElicitationFormMode_type_def EnumOption_type_def
  ElicitationPropertySchemaString_type_def ElicitationPropertySchemaNumber_type_def
  ElicitationPropertySchemaInteger_type_def ElicitationPropertySchemaBoolean_type_def
  MultiSelectItemsString_type_def MultiSelectItemsOther_type_def TitledMultiSelectItems_type_def
  MultiSelectItems_shape_def MultiSelectItems_writers_def MultiSelectItems_type_def
  ElicitationPropertySchemaArray_type_def ElicitationPropertySchemaOther_type_def
  ElicitationPropertySchema_discriminator_def ElicitationPropertySchema_keys_def
  ElicitationPropertySchema_shape_def ElicitationPropertySchema_writers_def ElicitationPropertySchema_type_def
  ElicitationUrlMode_shape_def ElicitationUrlMode_writers_def ElicitationUrlMode_type_def
  EmbeddedResource_type_def HttpHeader_type_def ImageContent_type_def Implementation_type_def
  InitializeRequest_type_def InitializeResponse_type_def IntegerPropertySchema_type_def
  KillTerminalRequest_type_def KillTerminalResponse_type_def ListSessionsRequest_type_def SessionInfo_type_def
  ListSessionsResponse_type_def McpServerHttpInline_type_def McpServerSseInline_type_def
  McpServerStdio_type_def McpServer_shape_def McpServer_writers_def McpServer_type_def
  LoadSessionRequest_type_def SessionMode_type_def SessionModeState_type_def LoadSessionResponse_type_def
  LogoutRequest_type_def LogoutResponse_type_def McpServerHttp_type_def McpServerSse_type_def
  MultiSelectPropertySchema_type_def NewSessionRequest_type_def NewSessionResponse_type_def
  NumberPropertySchema_type_def PermissionOption_type_def PlanEntry_type_def Plan_type_def
  PromptRequest_type_def PromptResponse_type_def ReadTextFileRequest_type_def ReadTextFileResponse_type_def
  ReleaseTerminalRequest_type_def ReleaseTerminalResponse_type_def RequestPermissionOutcomeCancelled_type_def
  RequestPermissionOutcomeSelected_type_def RequestPermissionOutcome_shape_def
  RequestPermissionOutcome_writers_def RequestPermissionOutcome_type_def ToolCallContentContent_type_def
  ToolCallContentDiff_type_def ToolCallContentTerminal_type_def ToolCallContent_shape_def
  ToolCallContent_writers_def ToolCallContent_type_def ToolCallLocation_type_def ToolCallUpdate_type_def
  RequestPermissionRequest_type_def RequestPermissionResponse_type_def ResourceLink_type_def
  ResumeSessionRequest_type_def ResumeSessionResponse_type_def SelectedPermissionOutcome_type_def
  SessionConfigBoolean_type_def SessionConfigSelect_type_def SessionInfoUpdate_type_def
  SessionUpdateUserMessageChunk_type_def SessionUpdateAgentMessageChunk_type_def
  SessionUpdateAgentThoughtChunk_type_def SessionUpdateToolCall_type_def SessionToolCallUpdate_type_def
  SessionUpdatePlan_type_def SessionAvailableCommandsUpdate_type_def SessionCurrentModeUpdate_type_def
  SessionConfigOptionUpdate_type_def SessionSessionInfoUpdate_type_def SessionUsageUpdate_type_def
  SessionUpdate_discriminator_def SessionUpdate_keys_def SessionUpdate_shape_def SessionUpdate_writers_def
  SessionUpdate_type_def SessionNotification_type_def SetSessionConfigOptionBoolean_type_def
  SetSessionConfigOptionValueId_type_def SetSessionConfigOptionRequest_shape_def
  SetSessionConfigOptionRequest_writers_def SetSessionConfigOptionRequest_type_def
  SetSessionConfigOptionResponse_type_def SetSessionModeRequest_type_def SetSessionModeResponse_type_def
  StringMultiSelectItems_type_def StringPropertySchema_type_def Terminal_type_def TerminalExitStatus_type_def
  TerminalOutputRequest_type_def TerminalOutputResponse_type_def TextContent_type_def ToolCall_type_def
  UsageUpdate_type_def WaitForTerminalExitRequest_type_def WaitForTerminalExitResponse_type_def
  WriteTextFileRequest_type_def WriteTextFileResponse_type_def

end
