(* ===== verification/Protocol_Round_Trip.thy ===== *)
theory Protocol_Round_Trip
  imports Protocol_Types
begin

text \<open>
  Reading does not depend on the order of the keys of an object, and gives back what was written:
  the round trip of every type whose fields have different names and whose variants are objects.
\<close>

section \<open>Values in the form reading gives them\<close>

lemma sget_map_snd: "sget (map (\<lambda>f. (fst f, g (snd f))) fs) k = map_option g (sget fs k)"
  by (induction fs) (auto simp: sget_def map_add_def split: option.splits)

lemma map_of_canon: "canon (JObj fs) = JObj m \<Longrightarrow> map_of m k = map_option canon (sget fs k)"
  by (auto simp: map_of_copy sget_map_snd [unfolded sget_def] sget_def)

lemma canon_object: "\<exists>m. canon (JObj fs) = JObj m \<and> map_wf m"
  using map_wf_copy [of "[]"] by (simp add: map_wf_def)

lemma map_copy_values: "snd ` set (map_copy dst src) \<subseteq> snd ` set dst \<union> snd ` set src"
  for dst src :: "(string \<times> 'b) list"
proof -
  have "set (map_put k v m) \<subseteq> insert (k, v) (set m)" for k :: string and v :: 'b and m
    by (induction m) (auto split: if_splits)
  then have put: "snd ` set (map_put k v m) \<subseteq> insert v (snd ` set m)" for k :: string and v :: 'b and m
    by force
  show ?thesis
    unfolding map_copy_def
  proof (induction src arbitrary: dst)
    case (Cons p src)
    obtain k v where p: "p = (k, v)" by (cases p)
    have "snd ` set (fold (\<lambda>(k, v). map_put k v) src (map_put k v dst)) \<subseteq> snd ` set (map_put k v dst) \<union> snd ` set src"
      by (rule Cons)
    then show ?case using put [of k v dst] unfolding p by auto
  qed simp
qed

lemma map_of_distinct_rev: "distinct (map fst m) \<Longrightarrow> map_of (rev m) = map_of m"
  using map_of_eqI [of "rev m" m] by (metis distinct_rev map_of_eq_Some_iff option.exhaust rev_map set_rev ext)

lemma map_copy_id:
  assumes "map_wf m"
  shows "map_copy [] m = m"
proof (rule map_wf_ext)
  show "map_wf (map_copy [] m)" using map_wf_copy [of "[]"] by (simp add: map_wf_def)
  show "map_of (map_copy [] m) = map_of m"
    using map_wf_distinct [OF assms] by (simp add: map_of_copy map_of_distinct_rev)
qed (rule assms)

lemma canon_idem [simp]: "canon (canon j) = canon j"
proof (induction j rule: canon.induct)
  case (2 fs)
  let ?m = "map_copy [] (map (\<lambda>f. (fst f, canon (snd f))) fs)"
  have "snd p \<in> canon ` snd ` set fs" if "p \<in> set ?m" for p
    using map_copy_values [of "[]" "map (\<lambda>f. (fst f, canon (snd f))) fs"] that by (auto simp: image_image)
  then have "canon (snd p) = snd p" if "p \<in> set ?m" for p
    using 2 that by fastforce
  then have "map (\<lambda>f. (fst f, canon (snd f))) ?m = ?m" by (intro map_idI) auto
  moreover have "map_wf ?m" using map_wf_copy [of "[]"] by (simp add: map_wf_def)
  ultimately show ?case by (simp add: map_copy_id)
qed auto

lemma canonical_canon: "canon (JObj fs) = JObj m \<Longrightarrow> canonical m"
  unfolding canonical_def using canon_idem [of "JObj fs"] by simp

lemma canonical_sget: "canonical m \<Longrightarrow> sget m k = map_of m k"
proof -
  assume "canonical m"
  then have "map_wf m" using canon_object [of m] by (auto simp: canonical_def)
  then show ?thesis using map_wf_distinct [of m] by (simp add: sget_def map_of_distinct_rev)
qed

section \<open>Reading in any order of keys\<close>

definition same_keys :: "(string \<times> json) list \<Rightarrow> (string \<times> json) list \<Rightarrow> bool" where
  "same_keys kvs kvs' \<longleftrightarrow> (\<forall>k. sget kvs' k = map_option canon (sget kvs k))"

lemma canon_cases:
  "canon j = JNull \<longleftrightarrow> j = JNull" "canon j = JStr s \<longleftrightarrow> j = JStr s" "canon j = JNum i \<longleftrightarrow> j = JNum i"
  "canon j = JBool b \<longleftrightarrow> j = JBool b"
  by (cases j; simp)+

lemma object_of_canon:
  "(case object_of j of None \<Rightarrow> object_of (canon j) = None
    | Some kvs \<Rightarrow> \<exists>kvs'. object_of (canon j) = Some kvs' \<and> same_keys kvs kvs')"
proof (cases j)
  case (JObj kvs)
  obtain m where m: "canon (JObj kvs) = JObj m" using canon_object by blast
  then have "same_keys kvs m"
    using map_of_canon [OF m] canonical_sget [OF canonical_canon [OF m]] by (simp add: same_keys_def)
  then show ?thesis using m by (simp add: JObj object_of_def)
qed (simp_all add: object_of_def same_keys_def sget_def)

lemma has_keys_same: "same_keys kvs kvs' \<Longrightarrow> has_keys ks kvs' = has_keys ks kvs"
  by (simp add: has_keys_def same_keys_def)

lemma by_discriminator_same: "same_keys kvs kvs' \<Longrightarrow> by_discriminator sh kvs' = by_discriminator sh kvs"
proof -
  assume s: "same_keys kvs kvs'"
  have "(case map_option canon x of Some (JStr s) \<Rightarrow> s | _ \<Rightarrow> []) = (case x of Some (JStr s) \<Rightarrow> s | _ \<Rightarrow> [])" for x
  proof (cases x)
    case (Some j)
    then show ?thesis by (cases j) simp_all
  qed simp
  then show ?thesis using s by (simp add: by_discriminator_def same_keys_def split: option.split)
qed

lemma by_keys_canon: "by_keys sh (canon j) = by_keys sh j"
  using object_of_canon [of j] has_keys_same by_discriminator_same
  by (auto simp: by_keys_def split: option.splits)

lemma list_all_objects:
  "(case map_all object_of js of None \<Rightarrow> map_all object_of (map canon js) = None
    | Some arr \<Rightarrow> \<exists>arr'. map_all object_of (map canon js) = Some arr' \<and> list_all2 same_keys arr arr')"
proof (induction js)
  case (Cons j js)
  then show ?case using object_of_canon [of j] by (auto split: option.splits)
qed simp

lemma by_elements_canon: "by_elements sh (canon j) = by_elements sh j"
proof (cases j)
  case (JArr js)
  have all: "list_all (has_keys ks) arr' = list_all (has_keys ks) arr" if "list_all2 same_keys arr arr'" for ks arr arr'
    using that has_keys_same by (induction rule: list_all2_induct) auto
  then show ?thesis using list_all_objects [of js] by (auto simp: JArr by_elements_def split: option.splits)
qed (simp_all add: by_elements_def)

lemma chosen_canon: "chosen sh (canon j) = chosen sh j"
  by (simp add: chosen_def by_keys_canon by_elements_canon split: option.split)

lemma decode_union_canon: "decode_union sh zs (canon j) ds = decode_union sh zs j ds"
  by (simp only: decode_union_def chosen_canon canon_cases)

lemma map_all_cong_set: "(\<And>x. x \<in> set xs \<Longrightarrow> f x = g x) \<Longrightarrow> map_all f xs = map_all g xs"
  by (rule map_all_cong) auto

lemma decode_canon:
  "decode t (canon j) = decode t j"
  "same_keys kvs kvs' \<Longrightarrow> decode_field f kvs' = decode_field f kvs"
  "decode_variant va (canon j) = decode_variant va j"
proof (induction t and f and va arbitrary: j and kvs kvs' and j)
  case (GList t)
  have "map_all (decode t) (map canon js) = map_all (decode t) js" for js
    by (induction js) (simp_all add: GList split: option.split)
  then show ?case by (cases j) simp_all
next
  case (GStruct fs)
  have "map_all (\<lambda>f. decode_field f kvs') fs = map_all (\<lambda>f. decode_field f kvs) fs" if "same_keys kvs kvs'" for kvs kvs'
    by (rule map_all_cong_set) (rule GStruct [OF _ that])
  then show ?case
    using object_of_canon [of j] by (auto split: option.splits)
next
  case (GUnion sh vs)
  then have "map (\<lambda>v. decode_variant v (canon j)) vs = map (\<lambda>v. decode_variant v j) vs" by simp
  then show ?case by (simp only: decode.simps decode_union_canon)
next
  case (GField k om t rd wd)
  then have "sget kvs' k = map_option canon (sget kvs k)" by (simp add: same_keys_def)
  then show ?case using GField(1) by (cases "sget kvs k") (auto simp: field_value_def canon_cases)
qed (auto simp: canon_cases split: json.split)

section \<open>Types and values that survive\<close>

text \<open>Fields have different names, and a variant that is written with a discriminator is a struct.\<close>

definition is_struct :: "gotype \<Rightarrow> bool" where
  "is_struct t \<longleftrightarrow> (case t of GStruct _ \<Rightarrow> True | _ \<Rightarrow> False)"

fun field_name :: "gofield \<Rightarrow> string" where
  "field_name (GField k om t rd wd) = k"

fun good_type :: "gotype \<Rightarrow> bool" and good_field :: "gofield \<Rightarrow> bool" and good_variant :: "govariant \<Rightarrow> bool" where
  "good_type (GList t) = good_type t"
| "good_type (GPtr t) = good_type t"
| "good_type (GStruct fs) = (distinct (map field_name fs) \<and> list_all good_field fs)"
| "good_type (GUnion sh vs) = list_all good_variant vs"
| "good_type t = True"
| "good_field (GField k om t rd wd) = good_type t"
| "good_variant (GVariant t w) =
     (good_type t \<and> (case w of WriteWith sets \<Rightarrow> is_struct t \<and> distinct (map fst sets) | WriteOnly _ _ _ _ \<Rightarrow> is_struct t | _ \<Rightarrow> True))"

definition absent_value :: "json option \<Rightarrow> gotype \<Rightarrow> goval option" where
  "absent_value rd t = (case rd of None \<Rightarrow> Some (zero_value t) | Some d \<Rightarrow> decode t d)"

text \<open>The writer gives the discriminator that chooses the variant.\<close>

definition discriminated :: "goshape \<Rightarrow> writer \<Rightarrow> nat \<Rightarrow> bool" where
  "discriminated sh w i \<longleftrightarrow>
     (case sh_disc sh of
        None \<Rightarrow> False
      | Some (d, cases) \<Rightarrow>
          (case w of
             WriteWith sets \<Rightarrow> (case map_of sets d of None \<Rightarrow> False | Some s \<Rightarrow> map_of cases s = Some i)
           | WriteOnly e s always present \<Rightarrow> e = d \<and> map_of cases s = Some i
           | _ \<Rightarrow> False))"

definition selected :: "goshape \<Rightarrow> goval option list \<Rightarrow> json \<Rightarrow> nat \<Rightarrow> bool" where
  "selected sh ds j i \<longleftrightarrow>
     (if j = JNull \<and> sh_null sh \<noteq> None then False
      else case chosen sh j of Some i' \<Rightarrow> i' = i | None \<Rightarrow> list_all Option.is_none (take i ds))"

text \<open>What the payload must hold for its writer to lose nothing.\<close>

definition kept_by :: "writer \<Rightarrow> json option \<Rightarrow> bool" where
  "kept_by w written \<longleftrightarrow>
     (case w of
        WriteWith sets \<Rightarrow>
          (case written of Some (JObj kvs) \<Rightarrow> list_all (\<lambda>(k, s). sget kvs k = Some (JStr s)) sets | _ \<Rightarrow> False)
      | WriteOnly d s always present \<Rightarrow>
          (case written of
             Some (JObj kvs) \<Rightarrow>
               sget kvs d = Some (JStr s) \<and> list_all (\<lambda>k. sget kvs k \<noteq> None) always \<and>
               list_all (\<lambda>(k, _). k = d \<or> k \<in> set always \<or> k \<in> set present) kvs
           | _ \<Rightarrow> False)
      | _ \<Rightarrow> True)"

fun fits :: "gotype \<Rightarrow> goval \<Rightarrow> bool"
  and fits_fields :: "gofield list \<Rightarrow> goval list \<Rightarrow> bool"
  and fits_field :: "gofield \<Rightarrow> goval \<Rightarrow> bool"
  and fits_variant :: "govariant \<Rightarrow> goval \<Rightarrow> bool" where
  "fits GString v = (case v of VString s \<Rightarrow> True | _ \<Rightarrow> False)"
| "fits GBool v = (case v of VBool b \<Rightarrow> True | _ \<Rightarrow> False)"
| "fits GInt v = (case v of VInt i \<Rightarrow> int64 i | _ \<Rightarrow> False)"
| "fits GFloat v = (case v of VInt i \<Rightarrow> True | _ \<Rightarrow> False)"
| "fits GAny v = (case v of VAny j \<Rightarrow> canon j = j | _ \<Rightarrow> False)"
| "fits GObject v = (case v of VObject None \<Rightarrow> True | VObject (Some m) \<Rightarrow> canonical m | _ \<Rightarrow> False)"
| "fits (GList t) v = (case v of VList None \<Rightarrow> True | VList (Some vs) \<Rightarrow> list_all (fits t) vs | _ \<Rightarrow> False)"
| "fits (GPtr t) v =
     (case v of VPtr None \<Rightarrow> True | VPtr (Some w) \<Rightarrow> fits t w \<and> encode t w \<noteq> Some JNull | _ \<Rightarrow> False)"
| "fits (GStruct fs) v = (case v of VStruct vs \<Rightarrow> fits_fields fs vs | _ \<Rightarrow> False)"
| "fits (GUnion sh vars) v =
     (case v of
        VUnion i w \<Rightarrow>
          i < length vars \<and> map (\<lambda>x. fits_variant x w) vars ! i \<and>
          (case vars ! i of GVariant t wr \<Rightarrow>
             discriminated sh wr i
             \<or> (wr = WriteNull \<and> sh_null sh = Some i \<and> w = zero_value t)
             \<or> (wr \<noteq> WriteNull \<and>
                (case encode_variant (vars ! i) w of
                   None \<Rightarrow> False | Some j \<Rightarrow> selected sh (map (\<lambda>x. decode_variant x j) vars) j i)))
      | _ \<Rightarrow> False)"
| "fits_fields [] vs = (vs = [])"
| "fits_fields (f # fs) vs = (case vs of [] \<Rightarrow> False | v # ws \<Rightarrow> fits_field f v \<and> fits_fields fs ws)"
| "fits_field (GField k om t rd wd) v =
     (fits t v \<and> (om \<and> is_empty v \<longrightarrow> absent_value rd t = Some v)
      \<and> (rd \<noteq> None \<and> encode t v = Some JNull \<longrightarrow> absent_value rd t = Some v) \<and> (wd \<noteq> None \<longrightarrow> \<not> is_nil v))"
| "fits_variant (GVariant t w) v = (fits t v \<and> kept_by w (encode t v))"

section \<open>The round trip\<close>

lemma decode_same_keys:
  "is_struct t \<Longrightarrow> same_keys kvs kvs' \<Longrightarrow> decode t (JObj kvs') = decode t (JObj kvs)"
proof -
  assume "is_struct t" and s: "same_keys kvs kvs'"
  then obtain fs where "t = GStruct fs" by (cases t) (auto simp: is_struct_def)
  moreover have "map_all (\<lambda>f. decode_field f kvs') fs = map_all (\<lambda>f. decode_field f kvs) fs"
    by (rule map_all_cong_set) (rule decode_canon(2) [OF s])
  ultimately show ?thesis by (simp add: object_of_def)
qed

lemma decode_field_local: "sget kvs (field_name f) = sget kvs' (field_name f) \<Longrightarrow> decode_field f kvs = decode_field f kvs'"
  by (cases f) simp

lemma sget_none: "k \<notin> fst ` set kvs \<Longrightarrow> sget kvs k = None"
  by (simp add: sget_def map_of_eq_None_iff)

lemma fields_round_trip:
  assumes "\<And>f v. f \<in> set fs \<Longrightarrow> fits_field f v \<Longrightarrow>
      \<exists>kvs. encode_field f v = Some kvs \<and> decode_field f kvs = Some v \<and> fst ` set kvs \<subseteq> {field_name f}"
    and "distinct (map field_name fs)" and "fits_fields fs vs"
  shows "\<exists>kvs. encode_fields fs vs = Some kvs \<and> map_all (\<lambda>f. decode_field f kvs) fs = Some vs
    \<and> fst ` set kvs \<subseteq> field_name ` set fs"
  using assms
proof (induction fs arbitrary: vs)
  case (Cons f fs)
  obtain v ws where vs: "vs = v # ws" "fits_field f v" "fits_fields fs ws"
    using Cons.prems(3) by (auto split: list.splits)
  obtain a where a: "encode_field f v = Some a" "decode_field f a = Some v" "fst ` set a \<subseteq> {field_name f}"
    using Cons.prems(1) [of f v] vs(2) by auto
  have "\<exists>kvs. encode_fields fs ws = Some kvs \<and> map_all (\<lambda>f. decode_field f kvs) fs = Some ws
    \<and> fst ` set kvs \<subseteq> field_name ` set fs"
  proof (rule Cons.IH [OF _ _ vs(3)])
    fix g v assume "g \<in> set fs" "fits_field g v"
    then show "\<exists>kvs. encode_field g v = Some kvs \<and> decode_field g kvs = Some v \<and> fst ` set kvs \<subseteq> {field_name g}"
      using Cons.prems(1) [of g v] by simp
  qed (use Cons.prems(2) in simp)
  then obtain b where b: "encode_fields fs ws = Some b" "map_all (\<lambda>f. decode_field f b) fs = Some ws"
    "fst ` set b \<subseteq> field_name ` set fs" by blast
  have new: "field_name f \<notin> field_name ` set fs" using Cons.prems(2) by auto
  have "sget (a @ b) (field_name f) = sget a (field_name f)"
    using sget_none [of "field_name f" b] subsetD [OF b(3)] new by (metis option.simps(4) sget_append)
  then have first: "decode_field f (a @ b) = Some v" using a(2) decode_field_local by metis
  have "decode_field g (a @ b) = decode_field g b" if "g \<in> set fs" for g
  proof (rule decode_field_local)
    have "field_name g \<noteq> field_name f" using new that by (metis imageI)
    then have "sget a (field_name g) = None" using a(3) by (intro sget_none) auto
    then show "sget (a @ b) (field_name g) = sget b (field_name g)" by (simp add: sget_append split: option.split)
  qed
  then have rest: "map_all (\<lambda>f. decode_field f (a @ b)) fs = Some ws"
    using b(2) map_all_cong_set [of fs "\<lambda>f. decode_field f (a @ b)" "\<lambda>f. decode_field f b"] by simp
  have "encode_fields (f # fs) vs = Some (a @ b)" using a(1) b(1) vs(1) by simp
  moreover have "map_all (\<lambda>f. decode_field f (a @ b)) (f # fs) = Some vs" using first rest vs(1) by simp
  ultimately show ?case using a(3) b(3) by auto
qed simp

lemma struct_is_object: "is_struct t \<Longrightarrow> encode t v = Some j \<Longrightarrow> \<exists>kvs. j = JObj kvs"
  by (cases t) (auto simp: is_struct_def split: goval.splits)

lemma payload_map_object: "payload_map (JObj kvs) = Some m \<Longrightarrow> same_keys kvs m \<and> canonical m"
proof -
  assume "payload_map (JObj kvs) = Some m"
  then have m: "canon (JObj kvs) = JObj m" by (simp add: payload_map_def)
  then show ?thesis
    using map_of_canon [OF m] canonical_canon [OF m] canonical_sget [OF canonical_canon [OF m]] by (simp add: same_keys_def)
qed

lemma payload_map_some: "\<exists>m. payload_map (JObj kvs) = Some m"
  by (simp add: payload_map_def)

lemma map_of_distinct_put: "map_wf m \<Longrightarrow> sget m k = map_of m k"
  using map_wf_distinct [of m] by (simp add: sget_def map_of_distinct_rev)

lemma map_of_entries:
  "\<forall>(k, v) \<in> set xs. g k = Some v \<Longrightarrow> map_of xs k = (if k \<in> fst ` set xs then g k else None)"
  by (induction xs) auto

text \<open>Writing a variant keeps what its fields are read from, and sets the discriminator.\<close>

lemma write_variant_keeps:
  assumes "written = Some (JObj kvs)" and "kept_by w written" and "w = WriteWith sets \<and> distinct (map fst sets) \<or> w = WriteOnly d s always present"
  shows "\<exists>m. write_variant w written = Some (JObj m) \<and> same_keys kvs m"
proof -
  obtain m where m: "payload_map (JObj kvs) = Some m" using payload_map_some by blast
  have same: "same_keys kvs m" "canonical m" using payload_map_object [OF m] by blast+
  have wf: "map_wf m" using canon_object [of m] same(2) by (auto simp: canonical_def)
  have look: "map_of m k = map_option canon (sget kvs k)" for k
    using same map_of_distinct_put [OF wf] by (simp add: same_keys_def)
  from assms(3) show ?thesis
  proof
    assume w: "w = WriteWith sets \<and> distinct (map fst sets)"
    let ?new = "map (\<lambda>(k, s). (k, JStr s)) sets"
    have kept: "\<forall>(k, s) \<in> set sets. sget kvs k = Some (JStr s)" using assms(1,2) w by (auto simp: kept_by_def list_all_iff)
    have "map_of (map_copy m ?new) k = map_of m k" for k
    proof (cases "map_of (rev ?new) k")
      case (Some j)
      then have "(k, j) \<in> set ?new" by (metis map_of_SomeD set_rev)
      then show ?thesis using kept look by (auto simp: map_of_copy Some map_add_def)
    qed (simp add: map_of_copy map_add_def)
    then have "map_copy m ?new = m" by (intro map_wf_ext map_wf_copy wf) auto
    then show ?thesis using assms(1) w m same(1) by (simp add: write_variant_def)
  next
    assume w: "w = WriteOnly d s always present"
    let ?m = "map_put d (JStr s) (keep_keys always present m)"
    have kept: "sget kvs d = Some (JStr s)" "\<forall>k \<in> set always. sget kvs k \<noteq> None"
      "\<forall>(k, j) \<in> set kvs. k = d \<or> k \<in> set always \<or> k \<in> set present"
      using assms(1,2) w by (auto simp: kept_by_def list_all_iff)
    have wfk: "map_wf (keep_keys always present m)"
      unfolding keep_keys_def by (intro map_wf_copy) (simp add: map_wf_def)
    let ?base = "map (\<lambda>k. (k, any_at m k)) always" and ?opt = "List.map_filter (\<lambda>k. map_option (Pair k) (map_of m k)) present"
    have opt: "map_of (rev ?opt) k = (if k \<in> set present then map_of m k else None)" for k
    proof -
      have "set ?opt = {(k, v). k \<in> set present \<and> map_of m k = Some v}"
        by (force simp: List.map_filter_def)
      then have set: "set (rev ?opt) = {(k, v). k \<in> set present \<and> map_of m k = Some v}" by simp
      then have "map_of (rev ?opt) k = (if k \<in> fst ` set (rev ?opt) then map_of m k else None)"
        by (intro map_of_entries) auto
      moreover have "k \<in> fst ` set (rev ?opt) \<longleftrightarrow> k \<in> set present \<and> map_of m k \<noteq> None"
        unfolding set by force
      ultimately show ?thesis by auto
    qed
    have base: "map_of (rev ?base) k = (if k \<in> set always then Some (any_at m k) else None)" for k
    proof -
      have "map_of (rev ?base) k = (if k \<in> fst ` set (rev ?base) then Some (any_at m k) else None)"
        by (rule map_of_entries) auto
      moreover have "k \<in> fst ` set (rev ?base) \<longleftrightarrow> k \<in> set always" by force
      ultimately show ?thesis by simp
    qed
    have keep: "map_of (keep_keys always present m) k = (if k \<in> set always \<union> set present then map_of m k else None)"
      if "k \<in> set always \<Longrightarrow> map_of m k \<noteq> None" for k
      using that unfolding keep_keys_def map_of_copy map_add_def opt base
      by (auto simp: any_at_def split: option.splits if_splits)
    have out: "map_of m k = None" if "k \<noteq> d" "k \<notin> set always \<union> set present" for k
    proof -
      have "k \<notin> fst ` set kvs" using that kept(3) by fastforce
      then show ?thesis using look sget_none by simp
    qed
    have "map_of ?m k = map_of m k" for k
      using keep [of k] out [of k] look kept(1,2) by (cases "k = d") auto
    then have "?m = m" by (intro map_wf_ext map_wf_put wfk wf) auto
    then show ?thesis using assms(1) w m same(1) by (simp add: write_variant_def)
  qed
qed

text \<open>What is written with its discriminator is read as its variant.\<close>

lemma discriminated_chosen:
  assumes "discriminated sh w i" and "kept_by w (Some (JObj kvs))" and "same_keys kvs m"
  shows "chosen sh (JObj m) = Some i"
proof -
  obtain d cases s where d: "sh_disc sh = Some (d, cases)" "map_of cases s = Some i"
    and w: "(\<exists>sets. w = WriteWith sets \<and> map_of sets d = Some s) \<or> (\<exists>always present. w = WriteOnly d s always present)"
    using assms(1) by (fastforce simp: discriminated_def split: option.splits prod.splits writer.splits)
  have "sget kvs d = Some (JStr s)"
    using w assms(2) by (auto simp: kept_by_def list_all_iff dest!: map_of_SomeD)
  then have "sget m d = Some (JStr s)" using assms(3) by (simp add: same_keys_def)
  then show ?thesis using d by (simp add: chosen_def by_keys_def by_discriminator_def object_of_def)
qed

lemma first_decoded_at:
  "i < length ds \<Longrightarrow> list_all Option.is_none (take i ds) \<Longrightarrow> ds ! i = Some v \<Longrightarrow> first_decoded k ds = Some (VUnion (k + i) v)"
proof (induction ds arbitrary: i k)
  case (Cons d ds)
  then show ?case by (cases i; cases d) (auto simp: Option.is_none_def)
qed simp

lemma selected_decodes:
  assumes "selected sh ds j i" and "i < length ds" and "ds ! i = Some v"
  shows "decode_union sh zs j ds = Some (VUnion i v)"
  using assms first_decoded_at [of i ds v 0]
  by (auto simp: selected_def decode_union_def split: if_splits option.splits)

lemma round_trip:
  "good_type t \<Longrightarrow> fits t v \<Longrightarrow> \<exists>j. encode t v = Some j \<and> decode t j = Some v"
  "good_field f \<Longrightarrow> fits_field f v \<Longrightarrow>
     \<exists>kvs. encode_field f v = Some kvs \<and> decode_field f kvs = Some v \<and> fst ` set kvs \<subseteq> {field_name f}"
  "good_variant va \<Longrightarrow> fits_variant va v \<Longrightarrow> \<exists>j. encode_variant va v = Some j
     \<and> (case va of GVariant t w \<Rightarrow> w \<noteq> WriteNull \<longrightarrow>
          decode_variant va j = Some v \<and> (\<forall>sh i. discriminated sh w i \<longrightarrow> j \<noteq> JNull \<and> chosen sh j = Some i))"
proof (induction t and f and va arbitrary: v and v and v)
  case (GList t)
  show ?case
  proof (cases v)
    case (VList o1)
    have "list_all (fits t) vs \<Longrightarrow> \<exists>js. map_all (encode t) vs = Some js \<and> map_all (decode t) js = Some vs" for vs
    proof (induction vs)
      case (Cons w ws)
      then show ?case using GList.IH [of w] GList.prems(1) by force
    qed simp
    then show ?thesis using GList.prems(2) VList by (cases o1) fastforce+
  qed (use GList.prems in simp_all)
next
  case (GPtr t)
  then show ?case by (fastforce split: goval.splits option.splits)
next
  case (GStruct fs)
  obtain vs where vs: "v = VStruct vs" "fits_fields fs vs" using GStruct.prems(2) by (auto split: goval.splits)
  have "\<exists>kvs. encode_fields fs vs = Some kvs \<and> map_all (\<lambda>f. decode_field f kvs) fs = Some vs
    \<and> fst ` set kvs \<subseteq> field_name ` set fs"
    using GStruct.prems(1) vs(2) GStruct.IH by (intro fields_round_trip) (auto simp: list_all_iff)
  then show ?case using vs(1) by (auto simp: object_of_def)
next
  case (GField k om t rd wd)
  show ?case
  proof (cases "om \<and> is_empty v")
    case True
    then show ?thesis using GField.prems(2)
      by (cases rd) (simp_all add: field_value_def absent_value_def sget_def)
  next
    case False
    have "good_type t" "fits t v" using GField.prems by simp_all
    then obtain j where j: "encode t v = Some j" "decode t j = Some v" using GField.IH by blast
    have "encode_field (GField k om t rd wd) v = Some [(k, j)]"
      using False j(1) GField.prems(2) by (auto split: option.split)
    moreover have "decode_field (GField k om t rd wd) [(k, j)] = Some v"
      using j GField.prems(2) by (auto simp: field_value_def absent_value_def sget_def split: option.splits)
    ultimately show ?thesis by simp
  qed
next
  case (GVariant t w)
  then obtain j where j: "encode t v = Some j" "decode t j = Some v" by auto
  show ?case
  proof (cases "\<exists>sets d s al pr. w = WriteWith sets \<or> w = WriteOnly d s al pr")
    case True
    then have st: "is_struct t" using GVariant.prems(1) by auto
    obtain kvs where kvs: "j = JObj kvs" using struct_is_object [OF st j(1)] by blast
    have kept: "kept_by w (Some (JObj kvs))" using GVariant.prems(2) j(1) kvs by simp
    obtain m where m: "write_variant w (Some (JObj kvs)) = Some (JObj m)" "same_keys kvs m"
      using write_variant_keeps [OF refl kept] True GVariant.prems(1) by auto
    have "decode t (JObj m) = Some v" using decode_same_keys [OF st m(2)] j(2) kvs by simp
    then show ?thesis using m j(1) kvs discriminated_chosen [OF _ kept m(2)] by auto
  next
    case False
    then show ?thesis using j by (cases w) (auto simp: write_variant_def discriminated_def split: option.splits)
  qed
next
  case (GUnion sh vars)
  obtain i u where v: "v = VUnion i u" "i < length vars" "fits_variant (vars ! i) u"
    using GUnion.prems(2) by (auto split: goval.splits)
  obtain t w where va: "vars ! i = GVariant t w" by (cases "vars ! i")
  have "good_variant (vars ! i)" using GUnion.prems(1) v(2) by (simp add: list_all_length)
  then obtain j where j: "encode_variant (vars ! i) u = Some j"
    "w \<noteq> WriteNull \<Longrightarrow> decode_variant (vars ! i) j = Some u"
    "w \<noteq> WriteNull \<Longrightarrow> discriminated sh w i \<Longrightarrow> j \<noteq> JNull \<and> chosen sh j = Some i"
    using GUnion.IH [OF nth_mem [OF v(2)]] v(3) va by fastforce
  have enc: "encode (GUnion sh vars) v = Some j" using v(1,2) j(1) by simp
  have "decode (GUnion sh vars) j = Some v"
  proof -
    let ?ds = "map (\<lambda>x. decode_variant x j) vars"
    consider "discriminated sh w i" | "w = WriteNull" "sh_null sh = Some i" "u = zero_value t"
      | "w \<noteq> WriteNull" "selected sh ?ds j i"
      using GUnion.prems(2) v(1,2) va j(1) by auto
    then show ?thesis
    proof cases
      case 1
      then have "w \<noteq> WriteNull" by (auto simp: discriminated_def split: option.splits)
      then show ?thesis using 1 j v(1,2) by (simp add: decode_union_def)
    next
      case 2
      then have "j = JNull" using j(1) va by (simp add: write_variant_def)
      then show ?thesis using 2 v(1,2) va by (simp add: decode_union_def)
    next
      case 3
      then show ?thesis using selected_decodes [OF 3(2)] j(2) v(1,2) by simp
    qed
  qed
  then show ?case using enc by blast
qed (auto split: goval.splits option.splits simp: canonical_def)

end
