(* ===== verification/Protocol_Properties.thy ===== *)
theory Protocol_Properties
  imports Protocol_Schema Protocol_Round_Trip
begin

text \<open>
  The protocol's types survive writing and reading, and what its unions do with kinds they do not
  know.
\<close>

section \<open>Every type is fit for the round trip\<close>

named_theorems good_types \<open>types whose fields have different names\<close>

lemma variant_structs [good_types]:
  "is_struct AgentResult_type" "is_struct AgentError_type" "is_struct AuthMethodAgent_type"
  "is_struct UnstructuredCommandInput_type" "is_struct ClientResult_type" "is_struct ClientError_type"
  "is_struct SessionConfigOptionSelect_type" "is_struct SessionConfigOptionBoolean_type"
  "is_struct TextResourceContents_type" "is_struct BlobResourceContents_type"
  "is_struct ContentBlockText_type" "is_struct ContentBlockImage_type" "is_struct ContentBlockAudio_type"
  "is_struct ContentBlockResourceLink_type" "is_struct ContentBlockResource_type"
  "is_struct CreateElicitationForm_type" "is_struct CreateElicitationUrl_type"
  "is_struct CreateElicitationOther_type" "is_struct CreateElicitationAccept_type"
  "is_struct CreateElicitationDecline_type" "is_struct CreateElicitationCancel_type"
  "is_struct CreateElicitationResponseOther_type" "is_struct ElicitationSessionScope_type"
  "is_struct ElicitationRequestScope_type" "is_struct MultiSelectItemsString_type"
  "is_struct MultiSelectItemsOther_type" "is_struct TitledMultiSelectItems_type"
  "is_struct ElicitationPropertySchemaString_type" "is_struct ElicitationPropertySchemaNumber_type"
  "is_struct ElicitationPropertySchemaInteger_type" "is_struct ElicitationPropertySchemaBoolean_type"
  "is_struct ElicitationPropertySchemaArray_type" "is_struct ElicitationPropertySchemaOther_type"
  "is_struct McpServerHttpInline_type" "is_struct McpServerSseInline_type" "is_struct McpServerStdio_type"
  "is_struct RequestPermissionOutcomeCancelled_type" "is_struct RequestPermissionOutcomeSelected_type"
  "is_struct ToolCallContentContent_type" "is_struct ToolCallContentDiff_type"
  "is_struct ToolCallContentTerminal_type" "is_struct SessionUpdateUserMessageChunk_type"
  "is_struct SessionUpdateAgentMessageChunk_type" "is_struct SessionUpdateAgentThoughtChunk_type"
  "is_struct SessionUpdateToolCall_type" "is_struct SessionToolCallUpdate_type"
  "is_struct SessionUpdatePlan_type" "is_struct SessionAvailableCommandsUpdate_type"
  "is_struct SessionCurrentModeUpdate_type" "is_struct SessionConfigOptionUpdate_type"
  "is_struct SessionSessionInfoUpdate_type" "is_struct SessionUsageUpdate_type"
  "is_struct SetSessionConfigOptionBoolean_type" "is_struct SetSessionConfigOptionValueId_type"
  by (simp_all add: is_struct_def protocol_type_defs)

lemma good_level0 [good_types]:
  "good_type LogoutCapabilities_type" "good_type McpCapabilities_type" "good_type PromptCapabilities_type"
  "good_type SessionAdditionalDirectoriesCapabilities_type" "good_type SessionCloseCapabilities_type"
  "good_type SessionDeleteCapabilities_type" "good_type SessionListCapabilities_type"
  "good_type SessionResumeCapabilities_type" "good_type AgentNotification_type"
  "good_type RequestIdNull_type" "good_type ErrorCode_type" "good_type Annotations_type"
  "good_type AuthMethodAgent_type" "good_type AuthenticateRequest_type"
  "good_type AuthenticateResponse_type" "good_type UnstructuredCommandInput_type"
  "good_type BlobResourceContents_type" "good_type BooleanConfigOptionCapabilities_type"
  "good_type BooleanPropertySchema_type" "good_type CancelNotification_type"
  "good_type ElicitationFormCapabilities_type" "good_type ElicitationUrlCapabilities_type"
  "good_type FileSystemCapabilities_type" "good_type ClientNotification_type"
  "good_type CloseSessionRequest_type" "good_type CloseSessionResponse_type"
  "good_type CompleteElicitationNotification_type" "good_type SessionConfigSelectOption_type"
  "good_type SessionConfigOptionBoolean_type" "good_type TextResourceContents_type" "good_type Cost_type"
  "good_type ElicitationSchema_type" "good_type CreateElicitationUrl_type"
  "good_type CreateElicitationOther_type" "good_type CreateElicitationAccept_type"
  "good_type CreateElicitationDecline_type" "good_type CreateElicitationCancel_type"
  "good_type CreateElicitationResponseOther_type" "good_type EnvVariable_type"
  "good_type CreateTerminalResponse_type" "good_type CurrentModeUpdate_type"
  "good_type DeleteSessionRequest_type" "good_type DeleteSessionResponse_type" "good_type Diff_type"
  "good_type ElicitationAcceptAction_type" "good_type ElicitationContentValue_type"
  "good_type ElicitationSessionScope_type" "good_type EnumOption_type"
  "good_type ElicitationPropertySchemaNumber_type" "good_type ElicitationPropertySchemaInteger_type"
  "good_type ElicitationPropertySchemaBoolean_type" "good_type MultiSelectItemsString_type"
  "good_type MultiSelectItemsOther_type" "good_type ElicitationPropertySchemaOther_type"
  "good_type HttpHeader_type" "good_type Implementation_type" "good_type IntegerPropertySchema_type"
  "good_type KillTerminalRequest_type" "good_type KillTerminalResponse_type"
  "good_type ListSessionsRequest_type" "good_type SessionInfo_type" "good_type SessionMode_type"
  "good_type LogoutRequest_type" "good_type LogoutResponse_type" "good_type NumberPropertySchema_type"
  "good_type PermissionOption_type" "good_type PlanEntry_type" "good_type PromptResponse_type"
  "good_type ReadTextFileRequest_type" "good_type ReadTextFileResponse_type"
  "good_type ReleaseTerminalRequest_type" "good_type ReleaseTerminalResponse_type"
  "good_type RequestPermissionOutcomeCancelled_type" "good_type RequestPermissionOutcomeSelected_type"
  "good_type ToolCallContentDiff_type" "good_type ToolCallContentTerminal_type"
  "good_type ToolCallLocation_type" "good_type SelectedPermissionOutcome_type"
  "good_type SessionConfigBoolean_type" "good_type SessionInfoUpdate_type"
  "good_type SessionCurrentModeUpdate_type" "good_type SessionSessionInfoUpdate_type"
  "good_type SetSessionConfigOptionBoolean_type" "good_type SetSessionConfigOptionValueId_type"
  "good_type SetSessionModeRequest_type" "good_type SetSessionModeResponse_type"
  "good_type StringMultiSelectItems_type" "good_type Terminal_type" "good_type TerminalExitStatus_type"
  "good_type TerminalOutputRequest_type" "good_type WaitForTerminalExitRequest_type"
  "good_type WaitForTerminalExitResponse_type" "good_type WriteTextFileRequest_type"
  "good_type WriteTextFileResponse_type"
  by (simp_all add: good_types LogoutCapabilities_type_def McpCapabilities_type_def PromptCapabilities_type_def
    SessionAdditionalDirectoriesCapabilities_type_def SessionCloseCapabilities_type_def
    SessionDeleteCapabilities_type_def SessionListCapabilities_type_def SessionResumeCapabilities_type_def
    AgentNotification_type_def RequestIdNull_type_def ErrorCode_writers_def ErrorCode_type_def
    Annotations_type_def AuthMethodAgent_type_def AuthenticateRequest_type_def AuthenticateResponse_type_def
    UnstructuredCommandInput_type_def BlobResourceContents_type_def BooleanConfigOptionCapabilities_type_def
    BooleanPropertySchema_type_def CancelNotification_type_def ElicitationFormCapabilities_type_def
    ElicitationUrlCapabilities_type_def FileSystemCapabilities_type_def ClientNotification_type_def
    CloseSessionRequest_type_def CloseSessionResponse_type_def CompleteElicitationNotification_type_def
    SessionConfigSelectOption_type_def SessionConfigOptionBoolean_type_def TextResourceContents_type_def
    Cost_type_def ElicitationSchema_type_def CreateElicitationUrl_type_def CreateElicitationOther_type_def
    CreateElicitationAccept_type_def CreateElicitationDecline_type_def CreateElicitationCancel_type_def
    CreateElicitationResponseOther_type_def EnvVariable_type_def CreateTerminalResponse_type_def
    CurrentModeUpdate_type_def DeleteSessionRequest_type_def DeleteSessionResponse_type_def Diff_type_def
    ElicitationAcceptAction_type_def ElicitationContentValue_writers_def ElicitationContentValue_type_def
    ElicitationSessionScope_type_def EnumOption_type_def ElicitationPropertySchemaNumber_type_def
    ElicitationPropertySchemaInteger_type_def ElicitationPropertySchemaBoolean_type_def
    MultiSelectItemsString_type_def MultiSelectItemsOther_type_def ElicitationPropertySchemaOther_type_def
    HttpHeader_type_def Implementation_type_def IntegerPropertySchema_type_def KillTerminalRequest_type_def
    KillTerminalResponse_type_def ListSessionsRequest_type_def SessionInfo_type_def SessionMode_type_def
    LogoutRequest_type_def LogoutResponse_type_def NumberPropertySchema_type_def PermissionOption_type_def
    PlanEntry_type_def PromptResponse_type_def ReadTextFileRequest_type_def ReadTextFileResponse_type_def
    ReleaseTerminalRequest_type_def ReleaseTerminalResponse_type_def
    RequestPermissionOutcomeCancelled_type_def RequestPermissionOutcomeSelected_type_def
    ToolCallContentDiff_type_def ToolCallContentTerminal_type_def ToolCallLocation_type_def
    SelectedPermissionOutcome_type_def SessionConfigBoolean_type_def SessionInfoUpdate_type_def
    SessionCurrentModeUpdate_type_def SessionSessionInfoUpdate_type_def
    SetSessionConfigOptionBoolean_type_def SetSessionConfigOptionValueId_type_def
    SetSessionModeRequest_type_def SetSessionModeResponse_type_def StringMultiSelectItems_type_def
    Terminal_type_def TerminalExitStatus_type_def TerminalOutputRequest_type_def
    WaitForTerminalExitRequest_type_def WaitForTerminalExitResponse_type_def WriteTextFileRequest_type_def
    WriteTextFileResponse_type_def)

lemma good_level1 [good_types]:
  "good_type AgentAuthCapabilities_type" "good_type SessionCapabilities_type" "good_type RequestId_type"
  "good_type Error_type" "good_type AudioContent_type" "good_type AuthMethod_type"
  "good_type AvailableCommandInput_type" "good_type SessionConfigOptionsCapabilities_type"
  "good_type ElicitationCapabilities_type" "good_type SessionConfigSelectGroup_type"
  "good_type ContentBlockText_type" "good_type ContentBlockImage_type" "good_type ContentBlockAudio_type"
  "good_type ContentBlockResourceLink_type" "good_type EmbeddedResourceResource_type"
  "good_type CreateElicitationForm_type" "good_type CreateElicitationResponse_type"
  "good_type CreateTerminalRequest_type" "good_type ElicitationPropertySchemaString_type"
  "good_type TitledMultiSelectItems_type" "good_type ImageContent_type"
  "good_type ListSessionsResponse_type" "good_type McpServerHttpInline_type"
  "good_type McpServerSseInline_type" "good_type McpServerStdio_type" "good_type SessionModeState_type"
  "good_type McpServerHttp_type" "good_type McpServerSse_type" "good_type Plan_type"
  "good_type RequestPermissionOutcome_type" "good_type ResourceLink_type" "good_type SessionUpdatePlan_type"
  "good_type SessionUsageUpdate_type" "good_type SetSessionConfigOptionRequest_type"
  "good_type StringPropertySchema_type" "good_type TerminalOutputResponse_type" "good_type TextContent_type"
  "good_type UsageUpdate_type"
  by (simp_all add: good_types AgentAuthCapabilities_type_def SessionCapabilities_type_def RequestId_writers_def RequestId_type_def
    Error_type_def AudioContent_type_def AuthMethod_writers_def AuthMethod_type_def
    AvailableCommandInput_writers_def AvailableCommandInput_type_def
    SessionConfigOptionsCapabilities_type_def ElicitationCapabilities_type_def
    SessionConfigSelectGroup_type_def ContentBlockText_type_def ContentBlockImage_type_def
    ContentBlockAudio_type_def ContentBlockResourceLink_type_def EmbeddedResourceResource_writers_def
    EmbeddedResourceResource_type_def CreateElicitationForm_type_def CreateElicitationResponse_writers_def
    CreateElicitationResponse_type_def CreateTerminalRequest_type_def
    ElicitationPropertySchemaString_type_def TitledMultiSelectItems_type_def ImageContent_type_def
    ListSessionsResponse_type_def McpServerHttpInline_type_def McpServerSseInline_type_def
    McpServerStdio_type_def SessionModeState_type_def McpServerHttp_type_def McpServerSse_type_def
    Plan_type_def RequestPermissionOutcome_writers_def RequestPermissionOutcome_type_def
    ResourceLink_type_def SessionUpdatePlan_type_def SessionUsageUpdate_type_def
    SetSessionConfigOptionRequest_writers_def SetSessionConfigOptionRequest_type_def
    StringPropertySchema_type_def TerminalOutputResponse_type_def TextContent_type_def UsageUpdate_type_def)

lemma good_level2 [good_types]:
  "good_type AgentCapabilities_type" "good_type AgentRequest_type" "good_type AgentResult_type"
  "good_type AgentError_type" "good_type AvailableCommand_type" "good_type CancelRequestNotification_type"
  "good_type ClientSessionCapabilities_type" "good_type ClientRequest_type" "good_type ClientResult_type"
  "good_type ClientError_type" "good_type SessionConfigSelectOptions_type"
  "good_type ContentBlockResource_type" "good_type CreateElicitationRequest_type"
  "good_type ElicitationRequestScope_type" "good_type MultiSelectItems_type"
  "good_type EmbeddedResource_type" "good_type McpServer_type" "good_type RequestPermissionResponse_type"
  by (simp_all add: good_types AgentCapabilities_type_def AgentRequest_type_def AgentResult_type_def AgentError_type_def
    AvailableCommand_type_def CancelRequestNotification_type_def ClientSessionCapabilities_type_def
    ClientRequest_type_def ClientResult_type_def ClientError_type_def SessionConfigSelectOptions_writers_def
    SessionConfigSelectOptions_type_def ContentBlockResource_type_def CreateElicitationRequest_writers_def
    CreateElicitationRequest_type_def ElicitationRequestScope_type_def MultiSelectItems_writers_def
    MultiSelectItems_type_def EmbeddedResource_type_def McpServer_writers_def McpServer_type_def
    RequestPermissionResponse_type_def)

lemma good_level3 [good_types]:
  "good_type AgentResponse_type" "good_type AvailableCommandsUpdate_type"
  "good_type ClientCapabilities_type" "good_type ClientResponse_type"
  "good_type SessionConfigOptionSelect_type" "good_type ContentBlock_type"
  "good_type ElicitationFormMode_type" "good_type ElicitationPropertySchemaArray_type"
  "good_type ElicitationUrlMode_type" "good_type InitializeResponse_type"
  "good_type LoadSessionRequest_type" "good_type MultiSelectPropertySchema_type"
  "good_type NewSessionRequest_type" "good_type ResumeSessionRequest_type"
  "good_type SessionConfigSelect_type" "good_type SessionAvailableCommandsUpdate_type"
  by (simp_all add: good_types AgentResponse_writers_def AgentResponse_type_def AvailableCommandsUpdate_type_def
    ClientCapabilities_type_def ClientResponse_writers_def ClientResponse_type_def
    SessionConfigOptionSelect_type_def ContentBlock_writers_def ContentBlock_type_def
    ElicitationFormMode_writers_def ElicitationFormMode_type_def ElicitationPropertySchemaArray_type_def
    ElicitationUrlMode_writers_def ElicitationUrlMode_type_def InitializeResponse_type_def
    LoadSessionRequest_type_def MultiSelectPropertySchema_type_def NewSessionRequest_type_def
    ResumeSessionRequest_type_def SessionConfigSelect_type_def SessionAvailableCommandsUpdate_type_def)

lemma good_level4 [good_types]:
  "good_type SessionConfigOption_type" "good_type Content_type" "good_type ContentChunk_type"
  "good_type ElicitationPropertySchema_type" "good_type InitializeRequest_type"
  "good_type PromptRequest_type" "good_type ToolCallContentContent_type"
  "good_type SessionUpdateUserMessageChunk_type" "good_type SessionUpdateAgentMessageChunk_type"
  "good_type SessionUpdateAgentThoughtChunk_type"
  by (simp_all add: good_types SessionConfigOption_writers_def SessionConfigOption_type_def Content_type_def ContentChunk_type_def
    ElicitationPropertySchema_writers_def ElicitationPropertySchema_type_def InitializeRequest_type_def
    PromptRequest_type_def ToolCallContentContent_type_def SessionUpdateUserMessageChunk_type_def
    SessionUpdateAgentMessageChunk_type_def SessionUpdateAgentThoughtChunk_type_def)

lemma good_level5 [good_types]:
  "good_type ConfigOptionUpdate_type" "good_type LoadSessionResponse_type"
  "good_type NewSessionResponse_type" "good_type ToolCallContent_type"
  "good_type ResumeSessionResponse_type" "good_type SessionConfigOptionUpdate_type"
  "good_type SetSessionConfigOptionResponse_type"
  by (simp_all add: good_types ConfigOptionUpdate_type_def LoadSessionResponse_type_def NewSessionResponse_type_def
    ToolCallContent_writers_def ToolCallContent_type_def ResumeSessionResponse_type_def
    SessionConfigOptionUpdate_type_def SetSessionConfigOptionResponse_type_def)

lemma good_level6 [good_types]:
  "good_type ToolCallUpdate_type" "good_type SessionUpdateToolCall_type"
  "good_type SessionToolCallUpdate_type" "good_type ToolCall_type"
  by (simp_all add: good_types ToolCallUpdate_type_def SessionUpdateToolCall_type_def SessionToolCallUpdate_type_def ToolCall_type_def)

lemma good_level7 [good_types]:
  "good_type RequestPermissionRequest_type" "good_type SessionUpdate_type"
  by (simp_all add: good_types RequestPermissionRequest_type_def SessionUpdate_writers_def SessionUpdate_type_def)

lemma good_level8 [good_types]:
  "good_type SessionNotification_type"
  by (simp_all add: good_types SessionNotification_type_def)

lemma protocol_types_good: "t \<in> set protocol_types \<Longrightarrow> good_type t"
proof -
  have "list_all good_type protocol_types" by (simp add: protocol_types_def good_types)
  then show "t \<in> set protocol_types \<Longrightarrow> good_type t" by (simp add: list_all_iff)
qed

section \<open>Choosing a variant\<close>

lemma decode_discriminated:
  assumes "sh_disc sh = Some (d, cases)" and "sget kvs d = Some (JStr s)" and "map_of cases s = Some i" and "i < length vars"
  shows "decode (GUnion sh vars) (JObj kvs) = map_option (VUnion i) (decode_variant (vars ! i) (JObj kvs))"
  using assms by (simp add: decode_union_def chosen_def by_keys_def by_discriminator_def object_of_def)

lemma decode_by_keys:
  assumes "sh_disc sh = Some (d, cases)" and "sget kvs d = Some (JStr s)" and "map_of cases s = None"
    and "first_match (\<lambda>ks. has_keys ks kvs) (sh_keys sh) = Some i" and "i < length vars"
  shows "decode (GUnion sh vars) (JObj kvs) = map_option (VUnion i) (decode_variant (vars ! i) (JObj kvs))"
  using assms by (simp add: decode_union_def chosen_def by_keys_def by_discriminator_def object_of_def)

section \<open>Properties\<close>


definition a_notification :: goval where
  "a_notification =
     VStruct [VObject None, VString ''s'',
       VUnion 3 (VStruct [VObject None, VList None, VString ''read'', VList None, VAny (JObj [(''path'', JStr ''f'')]), VAny JNull,
         VString ''tool_call'', VString [], VString ''Read f'', VString ''t1''])]"


text \<open>
  C37: a session update of a kind that the protocol does not have is not refused: with a
  \<open>content\<close> key it is read as a user's message, with none of the keys of the known kinds as session
  information.
\<close>

theorem unknown_update_misread:
  assumes "SessionUpdate_discriminator = Some (d, kinds)" and "sget kvs d = Some (JStr s)" and "map_of kinds s = None"
  shows "(sget kvs ''content'' \<noteq> None \<longrightarrow>
      decode SessionUpdate_type (JObj kvs) = map_option (VUnion 0) (decode SessionUpdateUserMessageChunk_type (JObj kvs)))
    \<and> (list_all (\<lambda>k. sget kvs k = None) [''content'', ''toolCallId'', ''entries'', ''availableCommands'', ''currentModeId'', ''configOptions''] \<longrightarrow>
      decode SessionUpdate_type (JObj kvs) = map_option (VUnion 9) (decode SessionSessionInfoUpdate_type (JObj kvs)))"
proof -
  have d: "sh_disc SessionUpdate_shape = Some (d, kinds)" "d = ''sessionUpdate''"
    using assms(1) by (simp_all add: SessionUpdate_shape_def SessionUpdate_discriminator_def)
  have keys: "first_match (\<lambda>ks. has_keys ks kvs) (sh_keys SessionUpdate_shape) = Some i" if
    "sget kvs ''content'' \<noteq> None \<and> i = 0 \<or>
     list_all (\<lambda>k. sget kvs k = None) [''content'', ''toolCallId'', ''entries'', ''availableCommands'', ''currentModeId'', ''configOptions''] \<and> i = 9" for i
    using that assms(2) d(2) by (auto simp: SessionUpdate_shape_def SessionUpdate_keys_def has_keys_def)
  obtain vars w w' where t: "SessionUpdate_type = GUnion SessionUpdate_shape vars" "9 < length vars"
    "vars ! 0 = GVariant SessionUpdateUserMessageChunk_type w" "vars ! 9 = GVariant SessionSessionInfoUpdate_type w'"
    by (simp add: SessionUpdate_type_def SessionUpdate_writers_def)
  moreover have "vars \<noteq> []" using t(2) by auto
  ultimately show ?thesis
    using decode_by_keys [OF d(1) assms(2,3) keys, of 0 vars] decode_by_keys [OF d(1) assms(2,3) keys, of 9 vars] t(2)
    unfolding t(1) by (simp only: t(3,4) decode_variant.simps) auto
qed

lemma unknown_update_misread_witness:
  "decode SessionUpdate_type (JObj [(''sessionUpdate'', JStr ''summary''), (''content'', JObj [(''text'', JStr ''hi''), (''type'', JStr ''text'')])])
     = Some (VUnion 0 (VStruct [VObject None,
         VUnion 0 (VStruct [VObject None, VPtr None, VString ''hi'', VString ''text'']), VPtr None, VString ''summary'']))"
proof -
  let ?kvs = "[(''sessionUpdate'', JStr ''summary''), (''content'', JObj [(''text'', JStr ''hi''), (''type'', JStr ''text'')])]"
  let ?kinds = "snd (the SessionUpdate_discriminator)"
  have "SessionUpdate_discriminator = Some (''sessionUpdate'', ?kinds)" "map_of ?kinds ''summary'' = None"
    by (simp_all add: SessionUpdate_discriminator_def)
  moreover have "sget ?kvs ''sessionUpdate'' = Some (JStr ''summary'')" "sget ?kvs ''content'' \<noteq> None"
    by (simp_all add: sget_def)
  ultimately have "decode SessionUpdate_type (JObj ?kvs)
      = map_option (VUnion 0) (decode SessionUpdateUserMessageChunk_type (JObj ?kvs))"
    using unknown_update_misread [of "''sessionUpdate''" ?kinds ?kvs "''summary''"] by blast
  moreover have "decode SessionUpdateUserMessageChunk_type (JObj ?kvs) = Some (VStruct [VObject None,
         VUnion 0 (VStruct [VObject None, VPtr None, VString ''hi'', VString ''text'']), VPtr None, VString ''summary''])"
    by code_simp
  ultimately show ?thesis by simp
qed

text \<open>
  An elicitation response with an action other than accept, decline and cancel is read as an
  acceptance, and writing what was read replaces the action by \<open>accept\<close>.
\<close>

theorem custom_action_accepted:
  assumes "sget kvs ''action'' = Some (JStr s)" and "s \<notin> {''accept'', ''decline'', ''cancel''}"
    and "decode CreateElicitationResponse_type (JObj kvs) = Some v"
  shows "\<exists>w m. v = VUnion 0 w \<and> encode CreateElicitationResponse_type v = Some (JObj m) \<and> map_of m ''action'' = Some (JStr ''accept'')"
proof -
  have "first_match (\<lambda>ks. has_keys ks kvs) (sh_keys CreateElicitationResponse_shape) = Some 0"
    using assms(1) by (simp add: CreateElicitationResponse_shape_def has_keys_def)
  moreover have "sh_disc CreateElicitationResponse_shape = Some (''action'', [(''accept'', 0), (''decline'', 1), (''cancel'', 2)])"
    by (simp add: CreateElicitationResponse_shape_def)
  moreover obtain vars wr where t: "CreateElicitationResponse_type = GUnion CreateElicitationResponse_shape vars"
    "0 < length vars" "vars ! 0 = GVariant CreateElicitationAccept_type wr"
    by (simp add: CreateElicitationResponse_type_def CreateElicitationResponse_writers_def)
  ultimately have "decode CreateElicitationResponse_type (JObj kvs) = map_option (VUnion 0) (decode_variant (vars ! 0) (JObj kvs))"
    unfolding t(1) using assms(1,2) t(2) by (intro decode_by_keys) auto
  then have "decode CreateElicitationResponse_type (JObj kvs) = map_option (VUnion 0) (decode CreateElicitationAccept_type (JObj kvs))"
    by (simp only: t(3) decode_variant.simps)
  then obtain w where w: "v = VUnion 0 w" "decode CreateElicitationAccept_type (JObj kvs) = Some w"
    using assms(3) by (cases "decode CreateElicitationAccept_type (JObj kvs)") simp_all
  obtain meta action content where wd: "w = VStruct [VObject meta, VString action, VObject content]"
    using w(2) by (auto simp: CreateElicitationAccept_type_def object_of_def split: option.splits json.splits)
  have "is_struct CreateElicitationAccept_type" by (simp add: variant_structs)
  moreover have "\<exists>j. encode CreateElicitationAccept_type w = Some j"
    by (simp add: wd CreateElicitationAccept_type_def)
  ultimately obtain kvs' where "encode CreateElicitationAccept_type w = Some (JObj kvs')"
    using struct_is_object by blast
  then show ?thesis
    using w(1) payload_map_some [of kvs']
    by (auto simp: CreateElicitationResponse_type_def CreateElicitationResponse_writers_def write_variant_def map_of_copy)
qed

lemma custom_action_accepted_witness:
  "\<exists>w m. decode CreateElicitationResponse_type (JObj [(''action'', JStr ''_defer'')]) = Some (VUnion 0 w)
     \<and> encode CreateElicitationResponse_type (VUnion 0 w) = Some (JObj m) \<and> map_of m ''action'' = Some (JStr ''accept'')"
proof -
  let ?v = "VUnion 0 (VStruct [VObject None, VString ''_defer'', VObject None])"
  have r: "decode CreateElicitationResponse_type (JObj [(''action'', JStr ''_defer'')]) = Some ?v" by code_simp
  have "sget [(''action'', JStr ''_defer'')] ''action'' = Some (JStr ''_defer'')" by (simp add: sget_def)
  then show ?thesis using custom_action_accepted [OF _ _ r, of "''_defer''"] r by auto
qed

section \<open>What is lost\<close>

text \<open>A content block is written without its annotations and metadata.\<close>

lemma content_annotations_dropped:
  assumes "encode ContentBlockText_type (VStruct [meta, annotations, VString s, VString k]) \<noteq> None"
  shows "encode ContentBlock_type (VUnion 0 (VStruct [meta, annotations, VString s, VString k]))
    = Some (JObj [(''text'', JStr s), (''type'', JStr ''text'')])"
proof -
  obtain kvs where kvs: "encode ContentBlockText_type (VStruct [meta, annotations, VString s, VString k]) = Some (JObj kvs)"
    using assms struct_is_object [of ContentBlockText_type] variant_structs by blast
  then have "sget kvs ''text'' = Some (JStr s)"
    by (auto simp: ContentBlockText_type_def sget_append sget_Cons sget_fields(1) split: option.splits if_splits)
  moreover obtain m where m: "payload_map (JObj kvs) = Some m" "same_keys kvs m" "canonical m"
    using payload_map_some payload_map_object by blast
  ultimately have "map_of m ''text'' = Some (JStr s)" using canonical_sget by (simp add: same_keys_def)
  then show ?thesis
    using kvs m(1)
    by (simp add: ContentBlock_type_def ContentBlock_writers_def write_variant_def keep_keys_def map_copy_def any_at_def
        List.map_filter_simps)
qed

text \<open>An empty text cannot be written to a file.\<close>

lemma empty_file_refused:
  "\<not> Validate WriteTextFileRequest_type WriteTextFileRequest_Validate
       (VStruct [VObject None, VString [], VString ''/f'', VString ''s''])"
  by code_simp

end
