(* ===== verification/Protocol_Methods.thy ===== *)
theory Protocol_Methods
  imports Protocol_Properties
begin

text \<open>
  The methods of the protocol (\<open>src/acp/methods.go\<close>, \<open>schema_constants_gen.go\<close>) and the
  constructors of unions (\<open>helpers.go\<close>, \<open>schema_helpers_gen.go\<close>), whose values are well-formed.
\<close>

section \<open>Methods\<close>

definition ProtocolVersionNumber :: int where "ProtocolVersionNumber = 1"

datatype Peer = PeerAgent | PeerClient | PeerEither
datatype MessageKind = MessageRequest | MessageNotification

record Method =
  me_Name :: string
  me_Receiver :: Peer
  me_Kind :: MessageKind

definition agent_methods :: "(string \<times> MessageKind) list" where
  "agent_methods =
     [(''initialize'', MessageRequest), (''authenticate'', MessageRequest), (''session/new'', MessageRequest),
      (''session/load'', MessageRequest), (''session/set_mode'', MessageRequest),
      (''session/set_config_option'', MessageRequest), (''session/prompt'', MessageRequest),
      (''session/cancel'', MessageNotification), (''session/list'', MessageRequest), (''session/delete'', MessageRequest),
      (''session/resume'', MessageRequest), (''session/close'', MessageRequest), (''logout'', MessageRequest)]"

definition client_methods :: "(string \<times> MessageKind) list" where
  "client_methods =
     [(''session/request_permission'', MessageRequest), (''session/update'', MessageNotification),
      (''fs/write_text_file'', MessageRequest), (''fs/read_text_file'', MessageRequest),
      (''terminal/create'', MessageRequest), (''terminal/output'', MessageRequest),
      (''terminal/release'', MessageRequest), (''terminal/wait_for_exit'', MessageRequest),
      (''terminal/kill'', MessageRequest), (''elicitation/create'', MessageRequest),
      (''elicitation/complete'', MessageNotification)]"

definition Methods :: "Method list" where
  "Methods =
     map (\<lambda>(n, k). \<lparr>me_Name = n, me_Receiver = PeerAgent, me_Kind = k\<rparr>) agent_methods
     @ map (\<lambda>(n, k). \<lparr>me_Name = n, me_Receiver = PeerClient, me_Kind = k\<rparr>) client_methods
     @ [\<lparr>me_Name = ''$/cancel_request'', me_Receiver = PeerEither, me_Kind = MessageNotification\<rparr>]"

lemma methods_distinct: "distinct (map me_Name Methods)"
  by code_simp

section \<open>Constructors\<close>

definition no_meta :: goval where "no_meta = VObject None"
definition unset :: goval where "unset = VPtr None"

definition TextBlock :: "string \<Rightarrow> goval" where
  "TextBlock s = VUnion 0 (VStruct [no_meta, unset, VString s, VString ''text''])"

definition ImageBlock :: "string \<Rightarrow> string \<Rightarrow> goval" where
  "ImageBlock data mime = VUnion 1 (VStruct [no_meta, unset, VString data, VString mime, VString ''image'', unset])"

definition AudioBlock :: "string \<Rightarrow> string \<Rightarrow> goval" where
  "AudioBlock data mime = VUnion 2 (VStruct [no_meta, unset, VString data, VString mime, VString ''audio''])"

definition ResourceLinkBlock :: "string \<Rightarrow> string \<Rightarrow> goval" where
  "ResourceLinkBlock name uri =
     VUnion 3 (VStruct [no_meta, unset, unset, unset, VString name, unset, unset, VString ''resource_link'', VString uri])"

definition ResourceBlock :: "goval \<Rightarrow> goval" where
  "ResourceBlock resource = VUnion 4 (VStruct [no_meta, unset, resource, VString ''resource''])"

definition NewRequestPermissionOutcomeCancelled :: goval where
  "NewRequestPermissionOutcomeCancelled = VUnion 0 (VStruct [VString ''cancelled''])"

definition NewRequestPermissionOutcomeSelected :: "string \<Rightarrow> goval" where
  "NewRequestPermissionOutcomeSelected optionId =
     VUnion 1 (VStruct [no_meta, VString optionId, VString ''selected''])"

definition NewSessionConfigOptionSelect :: "string \<Rightarrow> goval \<Rightarrow> goval" where
  "NewSessionConfigOptionSelect currentValue opts =
     VUnion 0 (VStruct [no_meta, unset, VString currentValue, unset, VString [], VString [], opts, VString ''select''])"

definition NewSessionConfigOptionBoolean :: "bool \<Rightarrow> goval" where
  "NewSessionConfigOptionBoolean b =
     VUnion 1 (VStruct [no_meta, unset, VBool b, unset, VString [], VString [], VString ''boolean''])"

text \<open>What the constructors of complete variants build is valid, and survives the round trip.\<close>

lemma constructors_fit:
  "fits ContentBlock_type (TextBlock s)" "fits ContentBlock_type (ImageBlock data mime)"
  "fits ContentBlock_type (AudioBlock data mime)" "fits ContentBlock_type (ResourceLinkBlock name uri)"
  "fits RequestPermissionOutcome_type NewRequestPermissionOutcomeCancelled"
  "fits RequestPermissionOutcome_type (NewRequestPermissionOutcomeSelected optionId)"
  by (simp_all add: ContentBlock_type_def ContentBlock_writers_def ContentBlock_shape_def ContentBlock_discriminator_def
      ContentBlockText_type_def ContentBlockImage_type_def ContentBlockAudio_type_def ContentBlockResourceLink_type_def
      RequestPermissionOutcome_type_def RequestPermissionOutcome_writers_def RequestPermissionOutcome_shape_def
      RequestPermissionOutcomeCancelled_type_def RequestPermissionOutcomeSelected_type_def
      TextBlock_def ImageBlock_def AudioBlock_def ResourceLinkBlock_def NewRequestPermissionOutcomeCancelled_def
      NewRequestPermissionOutcomeSelected_def no_meta_def unset_def absent_value_def is_empty_def kept_by_def
      discriminated_def sget_Cons sget_fields(1))

end
