(* ===== verification/Client.thy ===== *)
theory Client
  imports Protocol_Methods Protocol_Properties Transport_Message
begin

text \<open>
  The client of the protocol (\<open>src/client/client.go\<close>): the handshake, the parameters of its calls,
  and what it makes of the agent's requests and notifications before it gives them to the host's
  handler. The process is that of the transport; its answers are arguments. The text of a decoding
  error is an argument too.
\<close>

section \<open>Errors\<close>

definition CodeInvalidParams :: int where "CodeInvalidParams = -32602"

datatype client_error = InvalidParams string | Undecoded string | Unsupported string

definition unsupported_text :: "string \<Rightarrow> string" where
  "unsupported_text m = ''unsupported ACP client method: '' @ m"

definition reported :: "client_error \<Rightarrow> handler_error" where
  "reported e =
     (case e of
        InvalidParams t \<Rightarrow> HandlerRPC \<lparr>er_Code = CodeInvalidParams, er_Message = t, er_Data = None\<rparr>
      | Undecoded t \<Rightarrow> HandlerFailed t
      | Unsupported m \<Rightarrow> HandlerRPC \<lparr>er_Code = CodeMethodNotFound, er_Message = unsupported_text m, er_Data = None\<rparr>)"

section \<open>Parameters (582--652)\<close>

text \<open>Raw parameters that are missing are no JSON value.\<close>

definition decodeParams :: "gotype \<Rightarrow> check list \<Rightarrow> string \<Rightarrow> json option \<Rightarrow> client_error + goval" where
  "decodeParams t checks problem raw =
     (case Option.bind raw (decode t) of
        None \<Rightarrow> Inl (InvalidParams problem)
      | Some v \<Rightarrow> if Validate t checks v then Inr v else Inl (InvalidParams problem))"

text \<open>\<open>json.Unmarshal\<close> into a map: the outer \<open>None\<close> is an error, the inner one the nil map.\<close>

definition params_map :: "json option \<Rightarrow> payload option option" where
  "params_map raw =
     (case raw of
        Some (JObj kvs) \<Rightarrow> Some (payload_map (JObj kvs))
      | Some JNull \<Rightarrow> Some None
      | _ \<Rightarrow> None)"

definition map_value :: "payload option \<Rightarrow> json" where
  "map_value m = (case m of None \<Rightarrow> JNull | Some kvs \<Rightarrow> JObj kvs)"

text \<open>A nested map is shared with the map that holds it: what is stored in one is seen in the other.\<close>

definition in_nested :: "string \<Rightarrow> (payload \<Rightarrow> payload) \<Rightarrow> payload option \<Rightarrow> payload option" where
  "in_nested k f m =
     (case m of
        None \<Rightarrow> None
      | Some kvs \<Rightarrow> (case map_of kvs k of Some (JObj inner) \<Rightarrow> Some (map_put k (JObj (f inner)) kvs) | _ \<Rightarrow> Some kvs))"

definition raw_input_of :: "payload \<Rightarrow> payload" where
  "raw_input_of call =
     map_copy [] (List.map_filter (\<lambda>k. map_option (Pair k) (map_of call k)) [''command'', ''path'', ''target'', ''args''])"

definition fill_raw_input :: "payload \<Rightarrow> payload" where
  "fill_raw_input call =
     (if map_of call ''rawInput'' = None \<and> raw_input_of call \<noteq> []
      then map_put ''rawInput'' (JObj (raw_input_of call)) call else call)"

definition decodePermissionRequest :: "string \<Rightarrow> json option \<Rightarrow> client_error + goval" where
  "decodePermissionRequest problem raw =
     (case params_map raw of
        None \<Rightarrow> Inl (Undecoded problem)
      | Some ps \<Rightarrow>
          decodeParams RequestPermissionRequest_type RequestPermissionRequest_Validate problem
            (Some (map_value (in_nested ''toolCall'' fill_raw_input ps))))"

text \<open>The fields of a tool call below the update move up to it, unless the update has them.\<close>

definition nested_call :: "payload \<Rightarrow> payload" where
  "nested_call update =
     (let discriminator = str_at update ''sessionUpdate'' in
      if discriminator = ''tool_call'' then obj_at update ''toolCall''
      else if discriminator = ''tool_call_update'' then obj_at update ''toolCallUpdate''
      else [])"

definition flatten_call :: "payload \<Rightarrow> payload" where
  "flatten_call update = fold (\<lambda>(k, v) u. if map_of u k = None then map_put k v u else u) (nested_call update) update"

definition decodeSessionNotification :: "string \<Rightarrow> json option \<Rightarrow> client_error + goval" where
  "decodeSessionNotification problem raw =
     (case params_map raw of
        None \<Rightarrow> Inl (InvalidParams problem)
      | Some ps \<Rightarrow>
          decodeParams SessionNotification_type [] problem (Some (map_value (in_nested ''update'' flatten_call ps))))"

text \<open>The verb \<open>%g\<close> for a whole number that a float holds exactly.\<close>

definition format_g :: "int \<Rightarrow> string" where
  "format_g i =
     (if \<bar>i\<bar> < 10 ^ 6 then show_int i
      else
        (let ds = show_nat (nat \<bar>i\<bar>); mant = rev (dropWhile (\<lambda>c. c = CHR ''0'') (rev ds)); e = length ds - 1 in
         (if i < 0 then ''-'' else []) @ take 1 mant @ (if length mant > 1 then CHR ''.'' # drop 1 mant else [])
         @ ''e+'' @ (if e < 10 then ''0'' else []) @ show_nat e))"

definition wireRequestID :: "json option \<Rightarrow> string" where
  "wireRequestID raw = (case raw of Some (JStr s) \<Rightarrow> s | Some (JNum i) \<Rightarrow> format_g i | _ \<Rightarrow> [])"

section \<open>What the agent asks of the client (383--554)\<close>

datatype interface = ISessionUpdate | IPermission | IFileSystem | ITerminal | IElicitation | IExtension

record Connection =
  cn_serves :: "interface \<Rightarrow> bool"
  cn_legacyExtensions :: bool

datatype handler_call =
  Invoke interface string goval
| InvokeExtension string "json option"

text \<open>The requests that are only decoded: interface, method of the handler, type and checks.\<close>

definition plain_requests :: "(string \<times> interface \<times> string \<times> gotype \<times> check list) list" where
  "plain_requests =
     [(''fs/read_text_file'', IFileSystem, ''ReadTextFile'', ReadTextFileRequest_type, ReadTextFileRequest_Validate),
      (''fs/write_text_file'', IFileSystem, ''WriteTextFile'', WriteTextFileRequest_type, WriteTextFileRequest_Validate),
      (''terminal/create'', ITerminal, ''CreateTerminal'', CreateTerminalRequest_type, CreateTerminalRequest_Validate),
      (''terminal/output'', ITerminal, ''TerminalOutput'', TerminalOutputRequest_type, []),
      (''terminal/wait_for_exit'', ITerminal, ''WaitForTerminalExit'', WaitForTerminalExitRequest_type, []),
      (''terminal/kill'', ITerminal, ''KillTerminal'', KillTerminalRequest_type, []),
      (''terminal/release'', ITerminal, ''ReleaseTerminal'', ReleaseTerminalRequest_type, []),
      (''elicitation/create'', IElicitation, ''CreateElicitation'', CreateElicitationRequest_type, CreateElicitationRequest_Validate)]"

definition client_request :: "Connection \<Rightarrow> string \<Rightarrow> string \<Rightarrow> json option \<Rightarrow> client_error + handler_call" where
  "client_request c problem m raw =
     (if m = ''session/request_permission'' then
        (if cn_serves c IPermission
         then map_sum id (Invoke IPermission ''RequestPermission'') (decodePermissionRequest problem raw)
         else Inl (Unsupported m))
      else case map_of plain_requests m of
        Some (i, f, t, checks) \<Rightarrow>
          if cn_serves c i then map_sum id (Invoke i f) (decodeParams t checks problem raw) else Inl (Unsupported m)
      | None \<Rightarrow>
          if (prefix ''_'' m \<or> cn_legacyExtensions c) \<and> cn_serves c IExtension
          then Inr (InvokeExtension m raw) else Inl (Unsupported m))"

text \<open>The answer to a request: the handler's, or the error.\<close>

definition client_answer :: "Connection \<Rightarrow> (handler_call \<Rightarrow> handler_error + json) \<Rightarrow> string \<Rightarrow> Message \<Rightarrow> Message" where
  "client_answer c handler problem msg =
     writeResponse (mg_ID msg)
       (case client_request c problem (mg_Method msg) (mg_Params msg) of
          Inl e \<Rightarrow> Inl (reported e)
        | Inr h \<Rightarrow> handler h)"

text \<open>A notification: what is called, and the error that \<open>OnHandlerError\<close> gets otherwise.\<close>

definition handleNotification :: "Connection \<Rightarrow> string \<Rightarrow> string \<Rightarrow> json option \<Rightarrow> client_error + handler_call option" where
  "handleNotification c problem m raw =
     (if m = ''session/update'' then
        (if cn_serves c ISessionUpdate
         then map_sum id (\<lambda>v. Some (Invoke ISessionUpdate ''SessionUpdate'' v)) (decodeSessionNotification problem raw)
         else Inl (Unsupported m))
      else if m = ''elicitation/complete'' then
        (if cn_serves c IElicitation
         then map_sum id (\<lambda>v. Some (Invoke IElicitation ''ElicitationComplete'' v))
           (decodeParams CompleteElicitationNotification_type [] problem raw)
         else Inl (Unsupported m))
      else if \<not> prefix ''_'' m \<and> \<not> cn_legacyExtensions c then Inl (Unsupported m)
      else Inr (if cn_serves c IExtension then Some (InvokeExtension m raw) else None))"

definition validateExtensionMethod :: "string \<Rightarrow> bool" where
  "validateExtensionMethod m \<longleftrightarrow> prefix ''_'' m"

definition validateProviderMethod :: "Connection option \<Rightarrow> string \<Rightarrow> bool" where
  "validateProviderMethod c m \<longleftrightarrow>
     prefix ''_'' m \<or> (case c of None \<Rightarrow> False | Some cn \<Rightarrow> cn_legacyExtensions cn \<and> TrimSpace m \<noteq> [])"

section \<open>The handshake (93--215)\<close>

text \<open>
  \<open>initializeParams\<close>: the request as a map, over which the host's fields are copied; then the
  capability fields are copied over the capabilities. The Go code stores them in the map it finds
  there, which is the host's own when \<open>fields\<close> brought it.
\<close>

definition initializeParams :: "goval \<Rightarrow> payload \<Rightarrow> payload \<Rightarrow> payload option" where
  "initializeParams request extra capabilityFields =
     (case Option.bind (encode InitializeRequest_type request) payload_map of
        None \<Rightarrow> None
      | Some m \<Rightarrow>
          (let params = map_copy m extra in
           Some (map_put ''clientCapabilities'' (JObj (map_copy (obj_at params ''clientCapabilities'') capabilityFields)) params)))"

definition boolean_capability :: "string \<Rightarrow> payload \<Rightarrow> payload" where
  "boolean_capability k session =
     (case map_of session k of
        Some (JBool True) \<Rightarrow> map_put k (JObj []) session
      | Some (JBool False) \<Rightarrow> map_del k session
      | _ \<Rightarrow> session)"

definition capability_names :: "string list" where
  "capability_names = [''additionalDirectories'', ''close'', ''delete'', ''list'', ''resume'']"

definition normalizeInitializeResponse :: "json \<Rightarrow> json option" where
  "normalizeInitializeResponse raw =
     map_option (\<lambda>response. map_value
         (in_nested ''agentCapabilities''
           (\<lambda>agent. the (in_nested ''sessionCapabilities'' (fold boolean_capability capability_names) (Some agent))) response))
       (params_map (Some raw))"

text \<open>A field of a struct, read and replaced.\<close>

fun replace_at :: "gofield list \<Rightarrow> goval list \<Rightarrow> string \<Rightarrow> goval \<Rightarrow> goval list" where
  "replace_at (GField k om t rd wd # fs) (v # vs) n w = (if k = n then w # vs else v # replace_at fs vs n w)"
| "replace_at _ vs n w = vs"

definition protocol_version :: "gotype \<Rightarrow> goval \<Rightarrow> int" where
  "protocol_version t v = (case member_of t v ''protocolVersion'' of Some (VInt i) \<Rightarrow> i | _ \<Rightarrow> 0)"

definition with_version :: "gotype \<Rightarrow> int \<Rightarrow> goval \<Rightarrow> goval" where
  "with_version t i v =
     (case (t, v) of (GStruct fs, VStruct vs) \<Rightarrow> VStruct (replace_at fs vs ''protocolVersion'' (VInt i)) | _ \<Rightarrow> v)"

definition default_version :: "gotype \<Rightarrow> int \<Rightarrow> goval \<Rightarrow> goval" where
  "default_version t i v = (if protocol_version t v = 0 then with_version t i v else v)"

text \<open>
  \<open>Start\<close>: what it returns and whether the process it started is still running. The error of the
  call carries the end of the agent's standard error when the agent has exited.
\<close>

datatype start_error =
  StartContext
| VersionRequested int
| RequestNotEncoded
| NotStarted
| CallFailed string
| ResponseNotDecoded
| VersionSelected int

definition connected :: "goval \<Rightarrow> json \<Rightarrow> start_error + goval" where
  "connected request raw =
     (case Option.bind (normalizeInitializeResponse raw) (decode InitializeResponse_type) of
        None \<Rightarrow> Inl ResponseNotDecoded
      | Some r0 \<Rightarrow>
          (let r = default_version InitializeResponse_type (protocol_version InitializeRequest_type request) r0 in
           if protocol_version InitializeResponse_type r = ProtocolVersionNumber then Inr r
           else Inl (VersionSelected (protocol_version InitializeResponse_type r))))"

definition stderr_tail :: "bool \<Rightarrow> string \<Rightarrow> string" where
  "stderr_tail exited tail = (if exited then TrimSpace tail else [])"

definition Start_client ::
    "bool \<Rightarrow> goval \<Rightarrow> payload \<Rightarrow> payload \<Rightarrow> bool \<Rightarrow> (payload \<Rightarrow> json option) \<Rightarrow> bool \<Rightarrow> string \<Rightarrow> (start_error + goval) \<times> bool" where
  "Start_client cancelled initialize extra capabilityFields starts answer exited tail =
     (if cancelled then (Inl StartContext, False)
      else
        (let request = default_version InitializeRequest_type ProtocolVersionNumber initialize in
         if protocol_version InitializeRequest_type request \<noteq> ProtocolVersionNumber
         then (Inl (VersionRequested (protocol_version InitializeRequest_type request)), False)
         else case initializeParams request extra capabilityFields of
           None \<Rightarrow> (Inl RequestNotEncoded, False)
         | Some params \<Rightarrow>
             if \<not> starts then (Inl NotStarted, False)
             else case answer params of
               None \<Rightarrow> (Inl (CallFailed (stderr_tail exited tail)), False)
             | Some raw \<Rightarrow>
                 (case connected request raw of
                    Inl e \<Rightarrow> (Inl e, False)
                  | Inr response \<Rightarrow> (Inr response, True))))"

section \<open>Calls (217--365, 597--612)\<close>

datatype call_error = EncodeFailed | CallError | ResponseError | MethodRefused string

text \<open>\<open>call\<close>: the answer decoded as the response type.\<close>

definition client_call :: "gotype \<Rightarrow> json option \<Rightarrow> (json \<Rightarrow> json option) \<Rightarrow> call_error + goval" where
  "client_call t params answer =
     (case params of
        None \<Rightarrow> Inl EncodeFailed
      | Some ps \<Rightarrow>
          (case answer ps of
             None \<Rightarrow> Inl CallError
           | Some raw \<Rightarrow> (case decode t raw of None \<Rightarrow> Inl ResponseError | Some v \<Rightarrow> Inr v)))"

text \<open>The calls whose parameters are the request itself: method, request and response types.\<close>

definition plain_calls :: "(string \<times> gotype \<times> gotype) list" where
  "plain_calls =
     [(''authenticate'', AuthenticateRequest_type, AuthenticateResponse_type),
      (''logout'', LogoutRequest_type, LogoutResponse_type),
      (''session/new'', NewSessionRequest_type, NewSessionResponse_type),
      (''session/load'', LoadSessionRequest_type, LoadSessionResponse_type),
      (''session/list'', ListSessionsRequest_type, ListSessionsResponse_type),
      (''session/delete'', DeleteSessionRequest_type, DeleteSessionResponse_type),
      (''session/close'', CloseSessionRequest_type, CloseSessionResponse_type),
      (''session/set_mode'', SetSessionModeRequest_type, SetSessionModeResponse_type),
      (''session/set_config_option'', SetSessionConfigOptionRequest_type, SetSessionConfigOptionResponse_type)]"

definition call_plain :: "string \<Rightarrow> goval \<Rightarrow> (json \<Rightarrow> json option) \<Rightarrow> call_error + goval" where
  "call_plain m request answer =
     (case map_of plain_calls m of
        None \<Rightarrow> Inl EncodeFailed
      | Some (t, u) \<Rightarrow> client_call u (encode t request) answer)"

text \<open>\<open>ResumeSession\<close> sends the lists also when they are nil, as null.\<close>

definition resume_params :: "goval \<Rightarrow> json option" where
  "resume_params request =
     (let at = member_of ResumeSessionRequest_type request in
      case (at ''cwd'', at ''sessionId'', Option.bind (at ''mcpServers'') (encode (GList McpServer_type)),
            Option.bind (at ''additionalDirectories'') (encode (GList GString)), at ''_meta'') of
        (Some (VString cwd), Some (VString sid), Some servers, Some dirs, Some (VObject meta)) \<Rightarrow>
          Some (JObj (map_copy []
            ([(''cwd'', JStr cwd), (''sessionId'', JStr sid), (''mcpServers'', servers), (''additionalDirectories'', dirs)]
             @ (case meta of None \<Rightarrow> [] | Some m \<Rightarrow> [(''_meta'', JObj m)]))))
      | _ \<Rightarrow> None)"

definition ResumeSession_call :: "goval \<Rightarrow> (json \<Rightarrow> json option) \<Rightarrow> call_error + goval" where
  "ResumeSession_call request answer = client_call ResumeSessionResponse_type (resume_params request) answer"

definition PromptWithFields :: "goval \<Rightarrow> payload \<Rightarrow> (json \<Rightarrow> json option) \<Rightarrow> call_error + goval" where
  "PromptWithFields request extra answer =
     client_call PromptResponse_type
       (map_option (\<lambda>m. JObj (map_copy m extra)) (Option.bind (encode PromptRequest_type request) payload_map)) answer"

text \<open>Methods outside the protocol are called and notified as they are, once their name is allowed.\<close>

definition call_raw :: "bool \<Rightarrow> string \<Rightarrow> json \<Rightarrow> (string \<Rightarrow> json \<Rightarrow> json option) \<Rightarrow> call_error + json" where
  "call_raw allowed m params answer =
     (if \<not> allowed then Inl (MethodRefused m)
      else case answer m params of None \<Rightarrow> Inl CallError | Some raw \<Rightarrow> Inr raw)"

definition notify_raw :: "bool \<Rightarrow> string \<Rightarrow> json \<Rightarrow> (string \<Rightarrow> json \<Rightarrow> bool) \<Rightarrow> call_error + unit" where
  "notify_raw allowed m params sent =
     (if \<not> allowed then Inl (MethodRefused m) else if sent m params then Inr () else Inl CallError)"

definition CallExtension :: "string \<Rightarrow> json \<Rightarrow> (string \<Rightarrow> json \<Rightarrow> json option) \<Rightarrow> call_error + json" where
  "CallExtension m = call_raw (validateExtensionMethod m) m"

definition CallProvider :: "Connection option \<Rightarrow> string \<Rightarrow> json \<Rightarrow> (string \<Rightarrow> json \<Rightarrow> json option) \<Rightarrow> call_error + json" where
  "CallProvider c m = call_raw (validateProviderMethod c m) m"

definition NotifyExtension :: "string \<Rightarrow> json \<Rightarrow> (string \<Rightarrow> json \<Rightarrow> bool) \<Rightarrow> call_error + unit" where
  "NotifyExtension m = notify_raw (validateExtensionMethod m) m"

definition NotifyProvider :: "Connection option \<Rightarrow> string \<Rightarrow> json \<Rightarrow> (string \<Rightarrow> json \<Rightarrow> bool) \<Rightarrow> call_error + unit" where
  "NotifyProvider c m = notify_raw (validateProviderMethod c m) m"

section \<open>Lookups\<close>

lemma in_nested_lookup:
  "in_nested k f (Some m) = Some m' \<Longrightarrow>
     map_of m' = (case map_of m k of Some (JObj inner) \<Rightarrow> (map_of m)(k \<mapsto> JObj (f inner)) | _ \<Rightarrow> map_of m)"
  by (auto simp: in_nested_def split: option.splits json.splits)

lemma fold_flatten:
  "distinct (map fst ns) \<Longrightarrow>
     map_of (fold (\<lambda>(k, v) u. if map_of u k = None then map_put k v u else u) ns u) k =
       (case map_of u k of Some w \<Rightarrow> Some w | None \<Rightarrow> map_of ns k)"
proof (induction ns arbitrary: u)
  case (Cons p ns)
  obtain j v where p: "p = (j, v)" by (cases p)
  let ?u = "if map_of u j = None then map_put j v u else u"
  have "map_of (fold (\<lambda>(k, v) u. if map_of u k = None then map_put k v u else u) ns ?u) k =
       (case map_of ?u k of Some w \<Rightarrow> Some w | None \<Rightarrow> map_of ns k)"
    using Cons by simp
  moreover have "map_of ns j = None" using Cons.prems p by (simp add: map_of_eq_None_iff)
  ultimately show ?case by (auto simp: p split: option.splits)
qed (simp split: option.split)

lemma canonical_nested: "canonical m \<Longrightarrow> map_of m k = Some (JObj inner) \<Longrightarrow> canonical inner"
proof -
  assume c: "canonical m" and k: "map_of m k = Some (JObj inner)"
  have "map_of m k = map_option canon (sget m k)" using c map_of_canon [of m m] by (simp add: canonical_def)
  moreover have "sget m k = map_of m k" by (rule canonical_sget [OF c])
  ultimately show "canonical inner" using k by (auto simp: canonical_def)
qed

lemma canonical_distinct: "canonical m \<Longrightarrow> distinct (map fst m)"
  using canon_object [of m] map_wf_distinct by (auto simp: canonical_def)

lemma fold_capabilities:
  "distinct ks \<Longrightarrow> map_of (fold boolean_capability ks s) k =
     (if k \<in> set ks then (case map_of s k of Some (JBool True) \<Rightarrow> Some (JObj []) | Some (JBool False) \<Rightarrow> None | x \<Rightarrow> x)
      else map_of s k)"
proof (induction ks arbitrary: s)
  case (Cons j ks)
  have "map_of (boolean_capability j s) k =
     (if k = j then (case map_of s k of Some (JBool True) \<Rightarrow> Some (JObj []) | Some (JBool False) \<Rightarrow> None | x \<Rightarrow> x) else map_of s k)"
    by (auto simp: boolean_capability_def split: option.split json.split bool.split)
  then show ?case using Cons by auto
qed simp

text \<open>A field of a decoded struct is what its own reader makes of the object.\<close>

lemma field_at_decoded:
  "map_all (\<lambda>f. decode_field f kvs) fs = Some vs \<Longrightarrow> GField k om t rd wd \<in> set fs \<Longrightarrow> distinct (map field_name fs) \<Longrightarrow>
     field_at fs vs k = decode_field (GField k om t rd wd) kvs"
proof (induction fs arbitrary: vs)
  case (Cons f fs)
  obtain v ws where vs: "vs = v # ws" "decode_field f kvs = Some v" "map_all (\<lambda>f. decode_field f kvs) fs = Some ws"
    using Cons.prems(1) by (auto split: option.splits)
  obtain k' om' t' rd' wd' where f: "f = GField k' om' t' rd' wd'" by (cases f)
  show ?case
  proof (cases "f = GField k om t rd wd")
    case True
    then show ?thesis using vs by simp
  next
    case False
    then have m: "GField k om t rd wd \<in> set fs" using Cons.prems(2) by simp
    then have "k \<in> field_name ` set fs" using image_iff by fastforce
    then have "k' \<noteq> k" using Cons.prems(3) f by auto
    then show ?thesis using Cons.IH [OF vs(3) m] Cons.prems(3) vs(1) f by simp
  qed
qed simp

lemma member_of_decoded:
  assumes "decode (GStruct fs) j = Some v" and "object_of j = Some kvs" and "GField k om t rd wd \<in> set fs"
    and "distinct (map field_name fs)"
  shows "member_of (GStruct fs) v k = decode_field (GField k om t rd wd) kvs"
  using field_at_decoded [OF _ assms(3,4)] assms(1,2) by (auto simp: member_of_def)

lemma field_at_replaced: "n \<noteq> k \<Longrightarrow> field_at fs (replace_at fs vs n w) k = field_at fs vs k"
  by (induction fs vs n w rule: replace_at.induct) auto

text \<open>The map of the merged update holds the update's own keys and the nested call's other ones.\<close>

lemma map_wf_flatten: "map_wf u \<Longrightarrow> map_wf (flatten_call u)"
proof -
  have "map_wf u \<Longrightarrow> map_wf (fold (\<lambda>(k, v) u. if map_of u k = None then map_put k v u else u) ns u)" for ns and u :: payload
    by (induction ns arbitrary: u) (auto simp: map_wf_put)
  then show "map_wf u \<Longrightarrow> map_wf (flatten_call u)" by (simp add: flatten_call_def)
qed

lemma canonical_wf: "canonical m \<Longrightarrow> map_wf m"
  using canon_object [of m] by (auto simp: canonical_def)

lemma flatten_sget:
  assumes "canonical u"
  shows "sget (flatten_call u) k = sget (nested_call u @ u) k"
proof -
  have n: "canonical (nested_call u)"
    using canonical_nested [OF assms] by (auto simp: nested_call_def Let_def obj_at_def split: option.split json.split)
  have "sget (flatten_call u) k = map_of (flatten_call u) k"
    by (rule map_of_distinct_put [OF map_wf_flatten [OF canonical_wf [OF assms]]])
  also have "\<dots> = (case map_of u k of Some w \<Rightarrow> Some w | None \<Rightarrow> map_of (nested_call u) k)"
    unfolding flatten_call_def by (rule fold_flatten [OF canonical_distinct [OF n]])
  finally show ?thesis using canonical_sget [OF assms] canonical_sget [OF n] by (simp add: sget_append split: option.split)
qed

lemma params_map_canonical: "params_map raw = Some (Some ps) \<Longrightarrow> canonical ps"
  using canonical_canon by (auto simp: params_map_def payload_map_def split: option.splits json.splits)

lemma in_nested_wf: "map_wf m \<Longrightarrow> in_nested k f (Some m) = Some m' \<Longrightarrow> map_wf m'"
  by (auto simp: in_nested_def map_wf_put split: option.splits json.splits)

lemma decode_local:
  "is_struct t \<Longrightarrow> (\<And>k. sget kvs k = sget kvs' k) \<Longrightarrow> decode t (JObj kvs) = decode t (JObj kvs')"
proof -
  assume "is_struct t" and s: "\<And>k. sget kvs k = sget kvs' k"
  then obtain fs where "t = GStruct fs" by (cases t) (auto simp: is_struct_def)
  moreover have "map_all (\<lambda>f. decode_field f kvs) fs = map_all (\<lambda>f. decode_field f kvs') fs"
    by (rule map_all_cong_set) (rule decode_field_local [OF s])
  ultimately show ?thesis by (simp add: object_of_def)
qed

section \<open>Properties\<close>

text \<open>
  C14: a client that serves every interface answers a request as unsupported exactly when it is not
  an extension and not one of the requests that the protocol's table of methods gives to the client;
  the answer has the request's identifier and the code of an unknown method.
\<close>

theorem client_serves_protocol:
  assumes "cn_serves c = (\<lambda>i. True)" and "\<not> cn_legacyExtensions c"
  shows "((\<exists>m. client_request c problem (mg_Method msg) (mg_Params msg) = Inl (Unsupported m)) \<longleftrightarrow>
      \<not> prefix ''_'' (mg_Method msg) \<and>
      \<not> list_ex (\<lambda>me. me_Name me = mg_Method msg \<and> me_Receiver me = PeerClient \<and> me_Kind me = MessageRequest) Methods)
    \<and> (\<forall>m. client_request c problem (mg_Method msg) (mg_Params msg) = Inl (Unsupported m) \<longrightarrow>
      client_answer c handler problem msg = empty_message\<lparr>mg_JSONRPC := ''2.0'', mg_ID := mg_ID msg,
        mg_Error := Some \<lparr>er_Code = -32601, er_Message = unsupported_text (mg_Method msg), er_Data = None\<rparr>\<rparr>)"
proof -
  let ?m = "mg_Method msg"
  let ?own = "insert ''session/request_permission'' (fst ` set plain_requests)"
  have decodes: "decodeParams t cs p raw \<noteq> Inl (Unsupported m)" for t cs p raw m
    by (simp add: decodeParams_def split: option.split)
  have permission: "decodePermissionRequest p raw \<noteq> Inl (Unsupported m)" for p raw m
    using decodes by (simp add: decodePermissionRequest_def split: option.split)
  have same: "map_sum id f x = Inl e \<longleftrightarrow> x = Inl e" for f :: "goval \<Rightarrow> handler_call" and x and e :: client_error
    by (cases x) simp_all
  have req: "client_request c problem ?m raw = Inl (Unsupported m) \<longleftrightarrow> \<not> prefix ''_'' ?m \<and> ?m \<notin> ?own \<and> m = ?m" for raw m
  proof (cases "map_of plain_requests ?m")
    case None
    then have "?m \<notin> fst ` set plain_requests" by (simp add: map_of_eq_None_iff)
    then show ?thesis using None assms permission by (auto simp: client_request_def same)
  next
    case (Some row)
    then have "?m \<in> fst ` set plain_requests" by (metis map_of_SomeD fst_conv image_eqI)
    then show ?thesis using Some assms permission decodes by (cases row) (auto simp: client_request_def same)
  qed
  have own: "list_ex (\<lambda>me. me_Name me = ?m \<and> me_Receiver me = PeerClient \<and> me_Kind me = MessageRequest) Methods \<longleftrightarrow> ?m \<in> ?own"
    by (auto simp: Methods_def agent_methods_def client_methods_def plain_requests_def)
  have answer: "client_answer c handler problem msg = empty_message\<lparr>mg_JSONRPC := ''2.0'', mg_ID := mg_ID msg,
        mg_Error := Some \<lparr>er_Code = -32601, er_Message = unsupported_text ?m, er_Data = None\<rparr>\<rparr>"
    if "client_request c problem ?m (mg_Params msg) = Inl (Unsupported m)" for m
  proof -
    have "m = ?m" using that req by blast
    then show ?thesis
      using that
      by (simp add: client_answer_def writeResponse_def reported_def rpc_error_of_def CodeMethodNotFound_def)
  qed
  show ?thesis
  proof (intro conjI allI impI)
    show "(\<exists>m. client_request c problem ?m (mg_Params msg) = Inl (Unsupported m)) \<longleftrightarrow> \<not> prefix ''_'' ?m \<and>
      \<not> list_ex (\<lambda>me. me_Name me = ?m \<and> me_Receiver me = PeerClient \<and> me_Kind me = MessageRequest) Methods"
      unfolding own using req by blast
  qed (rule answer)
qed

text \<open>The kinds of update that can carry a tool call below them, with their variants.\<close>

definition tool_call_kinds :: "(string \<times> nat \<times> gotype) list" where
  "tool_call_kinds = [(''tool_call'', 3, SessionUpdateToolCall_type), (''tool_call_update'', 4, SessionToolCallUpdate_type)]"

lemma decode_tool_call:
  assumes "(k, i, t) \<in> set tool_call_kinds" and "sget kvs ''sessionUpdate'' = Some (JStr k)"
  shows "decode SessionUpdate_type (JObj kvs) = map_option (VUnion i) (decode t (JObj kvs))"
proof -
  obtain vars w w' where t: "SessionUpdate_type = GUnion SessionUpdate_shape vars" "4 < length vars"
    "vars ! 3 = GVariant SessionUpdateToolCall_type w" "vars ! 4 = GVariant SessionToolCallUpdate_type w'"
    by (simp add: SessionUpdate_type_def SessionUpdate_writers_def)
  obtain kinds where d: "sh_disc SessionUpdate_shape = Some (''sessionUpdate'', kinds)"
    "map_of kinds ''tool_call'' = Some 3" "map_of kinds ''tool_call_update'' = Some 4"
    by (simp add: SessionUpdate_shape_def SessionUpdate_discriminator_def)
  have "3 < length vars" using t(2) by simp
  from assms(1) consider "k = ''tool_call''" "i = 3" "t = SessionUpdateToolCall_type"
    | "k = ''tool_call_update''" "i = 4" "t = SessionToolCallUpdate_type"
    by (auto simp: tool_call_kinds_def)
  then show ?thesis
  proof cases
    case 1
    then show ?thesis
      using decode_discriminated [OF d(1) assms(2), of 3 vars] d(2) \<open>3 < length vars\<close> unfolding t(1)
      by (simp only: t(3) decode_variant.simps)
  next
    case 2
    then show ?thesis
      using decode_discriminated [OF d(1) assms(2), of 4 vars] d(3) t(2) unfolding t(1)
      by (simp only: t(4) decode_variant.simps)
  qed
qed

text \<open>
  A tool call that an agent puts below its update reaches the handler in the update itself: the
  variant is that of the update's kind, and it is read from the nested call's fields followed by the
  update's own, which win.
\<close>

theorem nested_tool_call_merged:
  assumes "params_map raw = Some (Some ps)" and "map_of ps ''update'' = Some (JObj update)"
    and "(k, i, t) \<in> set tool_call_kinds" and "map_of update ''sessionUpdate'' = Some (JStr k)"
    and "decodeSessionNotification problem raw = Inr v"
  shows "\<exists>w. member_of SessionNotification_type v ''update'' = Some (VUnion i w)
    \<and> decode t (JObj (nested_call update @ update)) = Some w"
proof -
  have canon: "canonical ps" "canonical update"
    using params_map_canonical [OF assms(1)] canonical_nested assms(2) by blast+
  let ?u = "flatten_call update"
  let ?ps = "map_put ''update'' (JObj ?u) ps"
  have "in_nested ''update'' flatten_call (Some ps) = Some ?ps" using assms(2) by (simp add: in_nested_def)
  then have "decodeParams SessionNotification_type [] problem (Some (JObj ?ps)) = Inr v"
    using assms(1,5) by (simp add: decodeSessionNotification_def map_value_def)
  then have dec: "decode SessionNotification_type (JObj ?ps) = Some v"
    by (simp add: decodeParams_def split: option.splits if_splits)
  have "sget ?ps ''update'' = Some (JObj ?u)"
    using map_of_distinct_put [OF map_wf_put [OF canonical_wf [OF canon(1)]]] by simp
  moreover have "\<exists>v'. decode_field (required ''update'' SessionUpdate_type) ?ps = Some v' \<and>
      member_of SessionNotification_type v ''update'' = Some v'"
    using member_of_decoded [OF dec [unfolded SessionNotification_type_def], of ?ps "''update''"] dec
    by (auto simp: SessionNotification_type_def object_of_def split: option.splits)
  ultimately obtain v' where v': "decode SessionUpdate_type (JObj ?u) = Some v'"
    "member_of SessionNotification_type v ''update'' = Some v'"
    by (auto simp: field_value_def)
  have "sget ?u ''sessionUpdate'' = Some (JStr k)"
    using flatten_sget [OF canon(2)] canonical_sget [OF canon(2)] assms(4) by (simp add: sget_append)
  note decode_tool_call [OF assms(3) this]
  moreover have "decode t (JObj ?u) = decode t (JObj (nested_call update @ update))"
    using assms(3) by (intro decode_local flatten_sget [OF canon(2)]) (auto simp: tool_call_kinds_def variant_structs)
  ultimately show ?thesis using v' by (cases "decode t (JObj (nested_call update @ update))") auto
qed

lemma nested_tool_call_merged_witness:
  "\<exists>v w. decodeSessionNotification ''bad'' (Some (JObj [(''sessionId'', JStr ''s''), (''update'', JObj
       [(''sessionUpdate'', JStr ''tool_call''), (''title'', JStr ''Read''),
        (''toolCall'', JObj [(''title'', JStr ''read_file''), (''toolCallId'', JStr ''t1'')])])])) = Inr v
     \<and> member_of SessionNotification_type v ''update'' = Some (VUnion 3 w)
     \<and> member_of SessionUpdateToolCall_type w ''title'' = Some (VString ''Read'')
     \<and> member_of SessionUpdateToolCall_type w ''toolCallId'' = Some (VString ''t1'')"
proof -
  let ?update = "[(''sessionUpdate'', JStr ''tool_call''), (''title'', JStr ''Read''),
        (''toolCall'', JObj [(''title'', JStr ''read_file''), (''toolCallId'', JStr ''t1'')])]"
  let ?ps = "[(''sessionId'', JStr ''s''), (''update'', JObj ?update)]"
  let ?v = "case decodeSessionNotification ''bad'' (Some (JObj ?ps)) of Inr v \<Rightarrow> v"
  have "params_map (Some (JObj ?ps)) = Some (Some ?ps)" by code_simp
  moreover have "decodeSessionNotification ''bad'' (Some (JObj ?ps)) = Inr ?v" by code_simp
  ultimately obtain w where w: "member_of SessionNotification_type ?v ''update'' = Some (VUnion 3 w)"
    "decode SessionUpdateToolCall_type (JObj (nested_call ?update @ ?update)) = Some w"
    using nested_tool_call_merged [of "Some (JObj ?ps)" ?ps ?update "''tool_call''" 3 SessionUpdateToolCall_type "''bad''" ?v]
    by (auto simp: tool_call_kinds_def)
  let ?w = "the (decode SessionUpdateToolCall_type (JObj (nested_call ?update @ ?update)))"
  have "member_of SessionUpdateToolCall_type ?w ''title'' = Some (VString ''Read'')"
    "member_of SessionUpdateToolCall_type ?w ''toolCallId'' = Some (VString ''t1'')"
    by code_simp+
  then show ?thesis using w \<open>decodeSessionNotification ''bad'' (Some (JObj ?ps)) = Inr ?v\<close> by auto
qed

lemma client_serves_protocol_witness:
  "(\<exists>m. client_request \<lparr>cn_serves = (\<lambda>i. True), cn_legacyExtensions = False\<rparr> ''bad'' ''session/fork'' None = Inl (Unsupported m))
   \<and> \<not> (\<exists>m. client_request \<lparr>cn_serves = (\<lambda>i. True), cn_legacyExtensions = False\<rparr> ''bad'' ''terminal/kill'' None = Inl (Unsupported m))"
  using client_serves_protocol [of "\<lparr>cn_serves = (\<lambda>i. True), cn_legacyExtensions = False\<rparr>" "''bad''" "empty_message\<lparr>mg_Method := ''session/fork''\<rparr>"]
    client_serves_protocol [of "\<lparr>cn_serves = (\<lambda>i. True), cn_legacyExtensions = False\<rparr>" "''bad''" "empty_message\<lparr>mg_Method := ''terminal/kill''\<rparr>"]
  by (simp add: empty_message_def Methods_def agent_methods_def client_methods_def)

text \<open>A nested map that is there is replaced; the other keys stay.\<close>

lemma in_nested_sget:
  assumes "map_wf m" and "map_of m k = Some (JObj inner)"
  shows "in_nested k f (Some m) = Some (map_put k (JObj (f inner)) m)"
    and "sget (map_put k (JObj (f inner)) m) k = Some (JObj (f inner))"
  using map_of_distinct_put [OF map_wf_put [OF assms(1)]] assms(2) by (simp_all add: in_nested_def)

lemma map_wf_capabilities: "map_wf m \<Longrightarrow> map_wf (fold boolean_capability ks m)"
proof (induction ks arbitrary: m)
  case (Cons k ks)
  then show ?case
    by (auto simp: boolean_capability_def map_wf_put map_wf_del split: option.split json.split bool.split)
qed simp

text \<open>Every capability is a pointer to a struct that has only its metadata.\<close>

lemma capability_fields:
  assumes "k \<in> set capability_names"
  shows "\<exists>t. optional k (GPtr t) \<in> set (case SessionCapabilities_type of GStruct fs \<Rightarrow> fs | _ \<Rightarrow> [])
    \<and> decode t (JObj []) = Some (VStruct [VObject None])"
proof -
  have "decode (GStruct [optional ''_meta'' GObject]) (JObj []) = Some (VStruct [VObject None])"
    by (simp add: object_of_def field_value_def sget_def)
  moreover have "optional k (GPtr (GStruct [optional ''_meta'' GObject]))
      \<in> set (case SessionCapabilities_type of GStruct fs \<Rightarrow> fs | _ \<Rightarrow> [])"
    using assms unfolding capability_names_def
    by (simp add: SessionCapabilities_type_def SessionAdditionalDirectoriesCapabilities_type_def
        SessionCloseCapabilities_type_def SessionDeleteCapabilities_type_def SessionListCapabilities_type_def
        SessionResumeCapabilities_type_def)
  ultimately show ?thesis by blast
qed

definition has_field :: "gotype \<Rightarrow> string \<Rightarrow> gotype \<Rightarrow> bool" where
  "has_field t k u \<longleftrightarrow>
     (case t of
        GStruct fs \<Rightarrow> distinct (map field_name fs) \<and> (\<exists>om rd wd. GField k om u rd wd \<in> set fs)
      | _ \<Rightarrow> False)"

lemma member_of_object:
  assumes "decode t (JObj kvs) = Some v" and "has_field t k u" and "sget kvs k = Some (JObj inner)"
  shows "\<exists>w. member_of t v k = Some w \<and> decode u (JObj inner) = Some w"
proof -
  obtain fs om rd wd where f: "t = GStruct fs" "distinct (map field_name fs)" "GField k om u rd wd \<in> set fs"
    using assms(2) by (auto simp: has_field_def split: gotype.splits)
  have m: "member_of t v k = decode u (JObj inner)"
    using member_of_decoded [OF assms(1) [unfolded f(1)] _ f(3,2), of kvs] assms(3)
    by (simp add: f(1) object_of_def field_value_def)
  obtain vs where "map_all (\<lambda>f. decode_field f kvs) fs = Some vs" using assms(1) by (auto simp: f(1) object_of_def)
  then have "\<forall>f \<in> set fs. decode_field f kvs \<noteq> None" by (induction fs arbitrary: vs) (auto split: option.splits)
  then have "decode u (JObj inner) \<noteq> None" using f(3) assms(3) by (auto simp: field_value_def)
  then show ?thesis using m by auto
qed

lemma response_field:
  "has_field InitializeResponse_type ''agentCapabilities'' AgentCapabilities_type"
  by (auto simp: has_field_def InitializeResponse_type_def intro: exI [of _ True])

lemma agent_field:
  "has_field AgentCapabilities_type ''sessionCapabilities'' SessionCapabilities_type"
  by (auto simp: has_field_def AgentCapabilities_type_def intro: exI [of _ True])

lemma capabilities_distinct: "distinct capability_names"
  by (simp add: capability_names_def)

lemma member_of_version: "n \<noteq> ''protocolVersion'' \<Longrightarrow> member_of t (default_version t i v) n = member_of t v n"
  by (cases t; cases v) (simp_all add: default_version_def with_version_def member_of_def field_at_replaced)

text \<open>
  A session capability that the agent announces as a boolean is, in the response that a
  successful handshake returns, a set pointer when it is true and a nil one when it is false.
\<close>

theorem boolean_capability_read:
  assumes "connected request raw = Inr r" and "params_map (Some raw) = Some (Some ps)"
    and "map_of ps ''agentCapabilities'' = Some (JObj agent)" and "map_of agent ''sessionCapabilities'' = Some (JObj session)"
    and "k \<in> set capability_names" and "map_of session k = Some (JBool b)"
  shows "\<exists>caps scaps. member_of InitializeResponse_type r ''agentCapabilities'' = Some caps
    \<and> member_of AgentCapabilities_type caps ''sessionCapabilities'' = Some scaps
    \<and> member_of SessionCapabilities_type scaps k = Some (VPtr (if b then Some (VStruct [VObject None]) else None))"
proof -
  have wf: "map_wf ps" "map_wf agent" "map_wf session"
    using params_map_canonical [OF assms(2)] canonical_nested assms(3,4) canonical_wf by blast+
  let ?session = "fold boolean_capability capability_names session"
  let ?agent = "map_put ''sessionCapabilities'' (JObj ?session) agent"
  let ?ps = "map_put ''agentCapabilities'' (JObj ?agent) ps"
  note inner = in_nested_sget [OF wf(2) assms(4), of "fold boolean_capability capability_names"]
  note outer = in_nested_sget [OF wf(1) assms(3),
      of "\<lambda>agent. the (in_nested ''sessionCapabilities'' (fold boolean_capability capability_names) (Some agent))"]
  have raw: "normalizeInitializeResponse raw = Some (JObj ?ps)"
    using assms(2) outer(1) inner(1) by (simp add: normalizeInitializeResponse_def map_value_def)
  then obtain r0 where r0: "decode InitializeResponse_type (JObj ?ps) = Some r0"
    "r = default_version InitializeResponse_type (protocol_version InitializeRequest_type request) r0"
    using assms(1) by (auto simp: connected_def Let_def split: option.splits if_splits)
  have same: "member_of InitializeResponse_type r ''agentCapabilities'' = member_of InitializeResponse_type r0 ''agentCapabilities''"
    by (simp add: r0(2) member_of_version)
  obtain caps where caps: "member_of InitializeResponse_type r ''agentCapabilities'' = Some caps"
    "decode AgentCapabilities_type (JObj ?agent) = Some caps"
    using member_of_object [OF r0(1) response_field outer(2) [unfolded inner(1) option.sel]] same by auto
  obtain scaps where scaps: "member_of AgentCapabilities_type caps ''sessionCapabilities'' = Some scaps"
    "decode SessionCapabilities_type (JObj ?session) = Some scaps"
    using member_of_object [OF caps(2) agent_field inner(2)] by auto
  obtain t where t: "optional k (GPtr t) \<in> set (case SessionCapabilities_type of GStruct fs \<Rightarrow> fs | _ \<Rightarrow> [])"
    "decode t (JObj []) = Some (VStruct [VObject None])"
    using capability_fields [OF assms(5)] by blast
  obtain fs where fs: "SessionCapabilities_type = GStruct fs" "distinct (map field_name fs)"
    by (simp add: SessionCapabilities_type_def)
  have "sget ?session k = (if b then Some (JObj []) else None)"
    using assms(5,6) by (simp only: map_of_distinct_put [OF map_wf_capabilities [OF wf(3)]] fold_capabilities [OF capabilities_distinct]) simp
  then have "decode_field (optional k (GPtr t)) ?session = Some (VPtr (if b then Some (VStruct [VObject None]) else None))"
    using t(2) by (simp add: field_value_def)
  moreover have "member_of SessionCapabilities_type scaps k = decode_field (optional k (GPtr t)) ?session"
  proof -
    have "optional k (GPtr t) \<in> set fs" using t(1) by (simp add: fs(1))
    from member_of_decoded [OF scaps(2) [unfolded fs(1)] _ this fs(2), of ?session] show ?thesis
      by (simp add: object_of_def fs(1))
  qed
  ultimately show ?thesis using caps scaps by auto
qed

definition an_answer :: json where
  "an_answer =
     JObj [(''agentCapabilities'', JObj [(''sessionCapabilities'', JObj [(''list'', JBool True), (''resume'', JBool False)])]),
       (''protocolVersion'', JNum 1)]"

lemma boolean_capability_read_witness:
  "\<exists>r caps scaps. connected (zero_value InitializeRequest_type) an_answer = Inr r
     \<and> member_of InitializeResponse_type r ''agentCapabilities'' = Some caps
     \<and> member_of AgentCapabilities_type caps ''sessionCapabilities'' = Some scaps
     \<and> member_of SessionCapabilities_type scaps ''list'' = Some (VPtr (Some (VStruct [VObject None])))"
proof -
  let ?request = "zero_value InitializeRequest_type"
  let ?r = "case connected ?request an_answer of Inr r \<Rightarrow> r"
  let ?session = "[(''list'', JBool True), (''resume'', JBool False)]"
  let ?agent = "[(''sessionCapabilities'', JObj ?session)]"
  let ?ps = "[(''agentCapabilities'', JObj ?agent), (''protocolVersion'', JNum 1)]"
  have r: "connected ?request an_answer = Inr ?r" by code_simp
  have "params_map (Some an_answer) = Some (Some ?ps)" by code_simp
  then show ?thesis
    using boolean_capability_read [OF r, of ?ps ?agent ?session "''list''" True] r
    by (auto simp: capability_names_def)
qed

end
