(* ===== verification/Antigravity_Updates.thy ===== *)
theory Antigravity_Updates
  imports Tool_Display Runtime_Catalog Agent_Command
begin

text \<open>
  What the Antigravity adapter (\<open>src/adapters/antigravity/antigravity.go\<close>) translates between its
  provider and the host: options into catalogs and events, updates into events, answers into
  decisions; and where it finds the provider's program and directories. The provider is a package
  of its own: of its structs the fields that the adapter reads are here, and of an option the object
  it encodes to. \<open>sprint\<close> is \<open>fmt.Sprint\<close> on a value that is not a string.
\<close>

section \<open>Configuration\<close>

definition Antigravity_Backend :: Backend where "Antigravity_Backend = ''antigravity''"

record AntigravityConfig =
  ac_Command :: string
  ac_ConversationsDir :: string
  ac_StateDir :: string
  ac_Version :: string

definition New_antigravity :: "AntigravityConfig list \<Rightarrow> AntigravityConfig" where
  "New_antigravity cs =
     (case cs of
        [] \<Rightarrow> \<lparr>ac_Command = ''agy'', ac_ConversationsDir = [], ac_StateDir = [], ac_Version = ''1.0.0''\<rparr>
      | c # _ \<Rightarrow>
          \<lparr>ac_Command = (if TrimSpace (ac_Command c) \<noteq> [] then TrimSpace (ac_Command c) else ''agy''),
           ac_ConversationsDir = TrimSpace (ac_ConversationsDir c), ac_StateDir = TrimSpace (ac_StateDir c),
           ac_Version = (if TrimSpace (ac_Version c) \<noteq> [] then TrimSpace (ac_Version c) else ''1.0.0'')\<rparr>)"

section \<open>Options and catalogs\<close>

record OptionValue =
  ov_Value :: string
  ov_Name :: string
  ov_Description :: string

record ProviderOption =
  po_ID :: string
  po_Category :: string
  po_CurrentValue :: string
  po_Options :: "OptionValue list"
  po_JSON :: json

definition category_or_id :: "ProviderOption \<Rightarrow> string" where
  "category_or_id opt = (if TrimSpace (po_Category opt) = [] then TrimSpace (po_ID opt) else TrimSpace (po_Category opt))"

definition option_values :: "ProviderOption \<Rightarrow> (string \<times> OptionValue) list" where
  "option_values opt = filter (\<lambda>(i, v). i \<noteq> []) (map (\<lambda>v. (TrimSpace (ov_Value v), v)) (po_Options opt))"

definition add_provider_option :: "ProviderOption \<Rightarrow> BackendCatalog \<times> string \<times> string \<Rightarrow> BackendCatalog \<times> string \<times> string" where
  "add_provider_option opt = (\<lambda>(cat, model, mode).
     if category_or_id opt = ''model'' then
       (cat\<lparr>cat_Models := cat_Models cat
          @ map (\<lambda>(i, v). \<lparr>bm_ID = i, bm_Label = ov_Name v, bm_Reasoning = []\<rparr>) (option_values opt)\<rparr>,
        TrimSpace (po_CurrentValue opt), mode)
     else if category_or_id opt = ''mode'' then
       (cat\<lparr>cat_PermissionModes := cat_PermissionModes cat
          @ map (\<lambda>(i, v). \<lparr>pm_ID = i, pm_Label = ov_Name v, pm_Description = ov_Description v\<rparr>) (option_values opt)\<rparr>,
        model, TrimSpace (po_CurrentValue opt))
     else (cat, model, mode))"

definition no_catalog :: BackendCatalog where
  "no_catalog = \<lparr>cat_Models = [], cat_PermissionModes = [], cat_Reasoning = [], cat_SlashCommands = []\<rparr>"

definition catalogFromOptions :: "ProviderOption list \<Rightarrow> BackendCatalog \<times> string \<times> string" where
  "catalogFromOptions opts = fold add_provider_option opts (no_catalog, [], [])"

text \<open>The empty list is taken to be nil, which encodes as null.\<close>

definition provider_config_event :: "ProviderOption list \<Rightarrow> Event" where
  "provider_config_event opts =
     (let (cat, model, mode) = catalogFromOptions opts in
      (new_event EventConfigCatalog)\<lparr>ev_Data := map_copy []
        [(''catalog'', enc_catalog cat), (''config_options'', if opts = [] then JNull else JArr (map po_JSON opts)),
         (''current_model'', JStr model), (''current_mode'', JStr mode)]\<rparr>)"

definition provider_config_events :: "ProviderOption list \<Rightarrow> Event list" where
  "provider_config_events opts =
     (let (cat, model, mode) = catalogFromOptions opts in
      provider_config_event opts #
      (if cat_Models cat \<noteq> [] then
         [(new_event EventModels)\<lparr>ev_Data := map_copy []
            [(''models'', JArr (map enc_model (cat_Models cat))), (''current_model'', JStr model)]\<rparr>] else [])
      @ (if cat_PermissionModes cat \<noteq> [] then
         [(new_event EventPermissionModes)\<lparr>ev_Data := map_copy []
            [(''permission_modes'', JArr (map enc_mode (cat_PermissionModes cat))), (''current_mode'', JStr mode)]\<rparr>] else []))"

text \<open>\<open>Catalog\<close>: the models that the provider's program lists.\<close>

definition discovered_catalog :: "string list \<Rightarrow> BackendCatalog" where
  "discovered_catalog models =
     no_catalog\<lparr>cat_Models := map (\<lambda>m. \<lparr>bm_ID = m, bm_Label = m, bm_Reasoning = []\<rparr>) (filter (\<lambda>m. m \<noteq> []) (map TrimSpace models))\<rparr>"

definition Antigravity_Detect :: "agent_env \<Rightarrow> string option \<Rightarrow> (command_error \<Rightarrow> string) \<Rightarrow> AntigravityConfig \<Rightarrow> BackendStatus" where
  "Antigravity_Detect en shellPath describe cf =
     (case Resolve en shellPath (ac_Command cf) of
        Inl e \<Rightarrow> \<lparr>st_Backend = Antigravity_Backend, st_Available = False, st_Command = ac_Command cf, st_Version = [], st_Error = describe e\<rparr>
      | Inr c \<Rightarrow> \<lparr>st_Backend = Antigravity_Backend, st_Available = True, st_Command = cd_Path c, st_Version = [], st_Error = []\<rparr>)"

datatype catalog_error = CatalogNotResolved command_error | NotDiscovered

definition Antigravity_Catalog ::
    "agent_env \<Rightarrow> string option \<Rightarrow> (string \<Rightarrow> string list option) \<Rightarrow> AntigravityConfig \<Rightarrow> catalog_error + BackendCatalog" where
  "Antigravity_Catalog en shellPath discover cf =
     (case Resolve en shellPath (ac_Command cf) of
        Inl e \<Rightarrow> Inl (CatalogNotResolved e)
      | Inr c \<Rightarrow> (case discover (cd_Path c) of None \<Rightarrow> Inl NotDiscovered | Some ms \<Rightarrow> Inr (discovered_catalog ms)))"

section \<open>Directories\<close>

definition directories :: "agent_env \<Rightarrow> string \<Rightarrow> AntigravityConfig \<Rightarrow> (string \<times> string) option" where
  "directories en AGY_CONVERSATIONS_DIR cf =
     map_option (\<lambda>home.
       (if ac_ConversationsDir cf \<noteq> [] then ac_ConversationsDir cf
        else if TrimSpace AGY_CONVERSATIONS_DIR \<noteq> [] then TrimSpace AGY_CONVERSATIONS_DIR
        else JoinPath [home, ''.gemini'', ''antigravity-cli'', ''conversations''],
        if ac_StateDir cf \<noteq> [] then ac_StateDir cf else JoinPath [home, ''.agy-acp''])) (UserHomeDir en)"

text \<open>What \<open>os.Stat\<close> says of the worktree: an error, or whether it is a directory.\<close>

datatype worktree_problem = AbsoluteWorktreeRequired | WorktreeNotSeen | WorktreeNotDirectory

definition validateWorktree :: "(string \<Rightarrow> bool option) \<Rightarrow> string \<Rightarrow> worktree_problem + string" where
  "validateWorktree stat worktree0 =
     (let worktree = TrimSpace worktree0 in
      if worktree = [] \<or> \<not> IsAbs worktree then Inl AbsoluteWorktreeRequired
      else case stat worktree of
        None \<Rightarrow> Inl WorktreeNotSeen
      | Some False \<Rightarrow> Inl WorktreeNotDirectory
      | Some True \<Rightarrow> Inr (Clean worktree))"

section \<open>Updates\<close>

record ProviderCommand =
  pc_Name :: string
  pc_Description :: string

record ProviderUpdate =
  pu_SessionUpdate :: string
  pu_Content :: any
  pu_RawInput :: any
  pu_RawOutput :: any
  pu_Kind :: string
  pu_Status :: string
  pu_ToolCallID :: string
  pu_Title :: string
  pu_AvailableCommands :: "ProviderCommand list"
  pu_ConfigOptions :: "ProviderOption list"

text \<open>\<open>None\<close> is the nil map.\<close>

definition valueMap :: "any \<Rightarrow> payload option" where
  "valueMap v = (case v of JObj m \<Rightarrow> Some m | _ \<Rightarrow> None)"

definition outputText :: "(any \<Rightarrow> string) \<Rightarrow> any \<Rightarrow> string" where
  "outputText sprint v = (case v of JNull \<Rightarrow> [] | JStr s \<Rightarrow> s | _ \<Rightarrow> sprint v)"

definition provider_text :: "(any \<Rightarrow> string) \<Rightarrow> any \<Rightarrow> string" where
  "provider_text sprint v =
     (case v of
        JStr s \<Rightarrow> s
      | JObj m \<Rightarrow> TrimSpace (outputText sprint (any_at m ''text''))
      | _ \<Rightarrow> [])"

definition provider_tool_status :: "ProviderUpdate \<Rightarrow> string" where
  "provider_tool_status u =
     (let status = NormalizeToolStatus (pu_Status u) in
      if status \<noteq> [] then status
      else if pu_SessionUpdate u = ''tool_call_update'' then ''completed'' else ''in_progress'')"

definition provider_tool_event :: "(any \<Rightarrow> string) \<Rightarrow> ProviderUpdate \<Rightarrow> Event" where
  "provider_tool_event sprint u =
     (let input = (case valueMap (pu_RawInput u) of None \<Rightarrow> [] | Some m \<Rightarrow> m);
          output = outputText sprint (pu_RawOutput u);
          kind = NormalizeToolKind (pu_Kind u); command = toolDisplayCommand input; status = provider_tool_status u;
          ended = (pu_SessionUpdate u = ''tool_call_update'' \<or> status = ''completed'' \<or> status = ''failed'') in
      (new_event (if ended then EventToolOutput else EventToolStarted))
        \<lparr>ev_Message := output,
         ev_ToolDisplay := Some \<lparr>td_ID = pu_ToolCallID u, td_Title = FirstNonEmpty [pu_Title u, DefaultToolTitle kind command],
           td_Kind = kind, td_Status = status, td_Command = command, td_Target = ToolDisplayTarget input\<rparr>,
         ev_Data := map_copy []
           [(''toolCallId'', JStr (pu_ToolCallID u)), (''name'', JStr (pu_Kind u)),
            (''input'', case valueMap (pu_RawInput u) of None \<Rightarrow> JNull | Some m \<Rightarrow> JObj m),
            (''output'', JStr output), (''status'', JStr status)]\<rparr>)"

definition provider_delta :: "EventType \<Rightarrow> string \<Rightarrow> string \<Rightarrow> Event option" where
  "provider_delta ty role s =
     (if s = [] then None else Some ((new_event ty)\<lparr>ev_Role := role, ev_Message := s, ev_Data := [(''delta'', JStr s)]\<rparr>))"

definition translateUpdate :: "(any \<Rightarrow> string) \<Rightarrow> ProviderUpdate \<Rightarrow> Event option" where
  "translateUpdate sprint u =
     (if pu_SessionUpdate u = ''agent_message_chunk'' then provider_delta EventMessage ''assistant'' (provider_text sprint (pu_Content u))
      else if pu_SessionUpdate u = ''agent_thought_chunk'' then provider_delta EventThinking [] (provider_text sprint (pu_Content u))
      else if pu_SessionUpdate u = ''tool_call'' \<or> pu_SessionUpdate u = ''tool_call_update'' then Some (provider_tool_event sprint u)
      else if pu_SessionUpdate u = ''available_commands_update'' then
        Some ((new_event EventAvailableCommands)\<lparr>ev_Data :=
          [(''available_commands'', JArr (map (\<lambda>c. enc_command \<lparr>sc_Name = pc_Name c, sc_Description = pc_Description c, sc_InputHint = []\<rparr>)
             (pu_AvailableCommands u)))]\<rparr>)
      else if pu_SessionUpdate u = ''config_option_update'' then Some (provider_config_event (pu_ConfigOptions u))
      else None)"

text \<open>A permission request as the host sees it, and what its answer decides.\<close>

definition permission_request_event :: "(any \<Rightarrow> string) \<Rightarrow> string \<Rightarrow> any \<Rightarrow> Event" where
  "permission_request_event sprint i params =
     (let tool_call = (case valueMap params of
            Some (p # ps) \<Rightarrow>
              (let nested = obj_at (p # ps) ''toolCall'' in [(''tool_call'', JObj (if nested \<noteq> [] then nested else p # ps))])
          | _ \<Rightarrow> []) in
      (new_event EventInteractionRequested)\<lparr>ev_Interaction := Some
        \<lparr>ir_ID = i, ir_Kind = InteractionPermission, ir_Title = ''Permission requested'',
         ir_Message = ''Permission requested: '' @ (case params of JNull \<Rightarrow> ''<nil>'' | JStr s \<Rightarrow> s | _ \<Rightarrow> sprint params),
         ir_Options = [], ir_Fields = [], ir_Data = map_copy [] ((''params'', params) # tool_call)\<rparr>\<rparr>)"

definition permitted :: "string \<Rightarrow> bool" where
  "permitted act \<longleftrightarrow> act \<in> {''approve'', ''allow'', ''accept''}"

end
