(* ===== verification/Goroutines.thy ===== *)
theory Goroutines
  imports Main "HOL-Library.Multiset"
begin

text \<open>
  Goroutines over a shared world, and one argument for their invariants. A program is a tree of
  critical sections that branches on what each section finds; \<open>Spawns\<close> is a \<open>go\<close> statement. The
  argument \<open>'x\<close> of a section is what the environment answers; a section that gives \<open>None\<close> waits.
  Each section has a label, which says what it waits for.
\<close>

section \<open>Programs and machines\<close>

datatype ('w, 'x, 'l, 'a) go =
  Returns 'a
| Acts 'l "'x \<Rightarrow> 'w \<Rightarrow> ('w \<times> ('w, 'x, 'l, 'a) go) option"
| Spawns "('w, 'x, 'l, 'a) go" "('w, 'x, 'l, 'a) go"

record ('w, 'x, 'l, 'a) go_machine =
  go_world :: 'w
  go_threads :: "('w, 'x, 'l, 'a) go list"

inductive go_step :: "('w \<Rightarrow> ('w, 'x, 'l, 'a) go \<Rightarrow> bool) \<Rightarrow> ('w, 'x, 'l, 'a) go_machine \<Rightarrow> ('w, 'x, 'l, 'a) go_machine \<Rightarrow> bool"
  for calls where
  call: "calls (go_world s) p \<Longrightarrow> go_step calls s (s\<lparr>go_threads := go_threads s @ [p]\<rparr>)"
| act: "i < length (go_threads s) \<Longrightarrow> go_threads s ! i = Acts l f \<Longrightarrow> f x (go_world s) = Some (w, p) \<Longrightarrow>
    go_step calls s \<lparr>go_world = w, go_threads = (go_threads s)[i := p]\<rparr>"
| spawn: "i < length (go_threads s) \<Longrightarrow> go_threads s ! i = Spawns p q \<Longrightarrow>
    go_step calls s (s\<lparr>go_threads := (go_threads s)[i := q] @ [p]\<rparr>)"

inductive_cases go_stepE: "go_step calls s s'"

definition go_reachable :: "('w \<Rightarrow> ('w, 'x, 'l, 'a) go \<Rightarrow> bool) \<Rightarrow> 'w \<Rightarrow> ('w, 'x, 'l, 'a) go_machine \<Rightarrow> bool" where
  "go_reachable calls w0 s \<longleftrightarrow> (go_step calls)\<^sup>*\<^sup>* \<lparr>go_world = w0, go_threads = []\<rparr> s"

text \<open>A goroutine that can do its next step.\<close>

definition can_act :: "'w \<Rightarrow> ('w, 'x, 'l, 'a) go \<Rightarrow> bool" where
  "can_act w p \<longleftrightarrow>
     (case p of Returns r \<Rightarrow> False | Acts l f \<Rightarrow> (\<exists>x. f x w \<noteq> None) | Spawns p q \<Rightarrow> True)"

section \<open>Schedules\<close>

text \<open>A run with its choices written out: a call, or the next step of a goroutine with an answer.\<close>

datatype ('c, 'x) go_move = Arrive 'c | Go nat 'x

fun go_next :: "('c \<Rightarrow> 'w \<Rightarrow> ('w, 'x, 'l, 'a) go option) \<Rightarrow> ('c, 'x) go_move \<Rightarrow> ('w, 'x, 'l, 'a) go_machine \<Rightarrow> ('w, 'x, 'l, 'a) go_machine option" where
  "go_next program (Arrive c) s =
     map_option (\<lambda>p. s\<lparr>go_threads := go_threads s @ [p]\<rparr>) (program c (go_world s))"
| "go_next program (Go i x) s =
     (if i < length (go_threads s) then
        (case go_threads s ! i of
           Returns r \<Rightarrow> None
         | Spawns p q \<Rightarrow> Some (s\<lparr>go_threads := (go_threads s)[i := q] @ [p]\<rparr>)
         | Acts l f \<Rightarrow> map_option (\<lambda>(w, p). \<lparr>go_world = w, go_threads = (go_threads s)[i := p]\<rparr>) (f x (go_world s)))
      else None)"

fun go_run :: "('c \<Rightarrow> 'w \<Rightarrow> ('w, 'x, 'l, 'a) go option) \<Rightarrow> ('c, 'x) go_move list \<Rightarrow> ('w, 'x, 'l, 'a) go_machine \<Rightarrow> ('w, 'x, 'l, 'a) go_machine option" where
  "go_run program [] s = Some s"
| "go_run program (m # ms) s = (case go_next program m s of None \<Rightarrow> None | Some s' \<Rightarrow> go_run program ms s')"

definition called :: "('c \<Rightarrow> 'w \<Rightarrow> ('w, 'x, 'l, 'a) go option) \<Rightarrow> 'w \<Rightarrow> ('w, 'x, 'l, 'a) go \<Rightarrow> bool" where
  "called program w p \<longleftrightarrow> (\<exists>c. program c w = Some p)"

lemma go_next_step: "go_next program m s = Some s' \<Longrightarrow> go_step (called program) s s'"
proof (induction program m s rule: go_next.induct)
  case (1 program c s)
  then show ?case by (auto intro!: go_step.call simp: called_def)
qed (auto split: if_splits go.splits intro: go_step.intros)

lemma go_run_reachable:
  "go_run program ms s = Some s' \<Longrightarrow> go_reachable (called program) w0 s \<Longrightarrow> go_reachable (called program) w0 s'"
proof (induction ms arbitrary: s)
  case (Cons m ms)
  then obtain t where "go_next program m s = Some t" "go_run program ms t = Some s'" by (auto split: option.splits)
  then show ?case using Cons go_next_step unfolding go_reachable_def by (meson rtranclp.rtrancl_into_rtrancl)
qed simp

section \<open>Programs that keep to their rights\<close>

text \<open>
  A goroutine knows facts that stay true and holds rights, a multiset. \<open>sound\<close> relates the world to the
  rights of all goroutines together. A program keeps to its rights when each section takes the
  invariant to the invariant, whatever the others hold, and when it only waits for what its label
  says; a goroutine with an \<open>urgent\<close> right does not wait.
\<close>

inductive keeps ::
  "('w \<Rightarrow> 'r multiset \<Rightarrow> bool) \<Rightarrow> ('k \<Rightarrow> 'w \<Rightarrow> bool) \<Rightarrow> ('w \<Rightarrow> 'w \<Rightarrow> bool) \<Rightarrow> ('l \<Rightarrow> 'w \<Rightarrow> bool) \<Rightarrow> ('r \<Rightarrow> bool)
     \<Rightarrow> 'k set \<Rightarrow> 'r multiset \<Rightarrow> ('w, 'x, 'l, 'a) go \<Rightarrow> bool"
  for sound known guar over urgent where
  returns: "keeps sound known guar over urgent K {#} (Returns r)"
| acts: "(\<forall>x w w' p C. (\<forall>k \<in> K. known k w) \<longrightarrow> sound w (R + C) \<longrightarrow> f x w = Some (w', p) \<longrightarrow>
      guar w w' \<and> (\<exists>K' R'. (\<forall>k \<in> K'. known k w') \<and> sound w' (R' + C) \<and> keeps sound known guar over urgent K' R' p)) \<Longrightarrow>
    (\<forall>w C. (\<forall>k \<in> K. known k w) \<longrightarrow> sound w (R + C) \<longrightarrow> over l w \<longrightarrow> (\<exists>x. f x w \<noteq> None)) \<Longrightarrow>
    (\<forall>w. over l w) \<or> (\<forall>r \<in># R. \<not> urgent r) \<Longrightarrow>
    keeps sound known guar over urgent K R (Acts l f)"
| spawns: "keeps sound known guar over urgent K R p \<Longrightarrow> keeps sound known guar over urgent K S q \<Longrightarrow>
    keeps sound known guar over urgent K (R + S) (Spawns p q)"

inductive_cases keeps_returns: "keeps sound known guar over urgent K R (Returns r)"
inductive_cases keeps_acts: "keeps sound known guar over urgent K R (Acts l f)"
inductive_cases keeps_spawns: "keeps sound known guar over urgent K R (Spawns p q)"

locale rights =
  fixes calls :: "'w \<Rightarrow> ('w, 'x, 'l, 'a) go \<Rightarrow> bool" and w0 :: 'w
    and sound :: "'w \<Rightarrow> 'r multiset \<Rightarrow> bool" and known :: "'k \<Rightarrow> 'w \<Rightarrow> bool" and guar :: "'w \<Rightarrow> 'w \<Rightarrow> bool"
    and over :: "'l \<Rightarrow> 'w \<Rightarrow> bool" and urgent :: "'r \<Rightarrow> bool"
  assumes start: "sound w0 {#}"
    and stable: "guar w w' \<Longrightarrow> known k w \<Longrightarrow> known k w'"
    and waits_for: "sound w R \<Longrightarrow> \<not> over l w \<Longrightarrow> \<exists>r \<in># R. urgent r"
    and programs: "calls w p \<Longrightarrow> \<exists>K. (\<forall>k \<in> K. known k w) \<and> keeps sound known guar over urgent K {#} p"
begin

definition held :: "('w, 'x, 'l, 'a) go_machine \<Rightarrow> ('k set \<times> 'r multiset) list \<Rightarrow> bool" where
  "held s hs \<longleftrightarrow>
     length hs = length (go_threads s) \<and> sound (go_world s) (\<Sum>\<^sub># (mset (map snd hs)))
     \<and> (\<forall>i < length hs. (\<forall>k \<in> fst (hs ! i). known k (go_world s))
          \<and> keeps sound known guar over urgent (fst (hs ! i)) (snd (hs ! i)) (go_threads s ! i))"

lemma sum_others:
  assumes "i < length hs"
  shows "\<Sum>\<^sub># (mset (map snd hs)) = snd (hs ! i) + \<Sum>\<^sub># (mset (map snd (take i hs @ drop (Suc i) hs)))"
    and "\<Sum>\<^sub># (mset (map snd (hs[i := (K, R)]))) = R + \<Sum>\<^sub># (mset (map snd (take i hs @ drop (Suc i) hs)))"
proof -
  have "hs = take i hs @ hs ! i # drop (Suc i) hs" using assms by (rule id_take_nth_drop)
  then have "\<Sum>\<^sub># (mset (map snd hs)) = \<Sum>\<^sub># (mset (map snd (take i hs @ hs ! i # drop (Suc i) hs)))" by simp
  then show "\<Sum>\<^sub># (mset (map snd hs)) = snd (hs ! i) + \<Sum>\<^sub># (mset (map snd (take i hs @ drop (Suc i) hs)))"
    by (simp add: ac_simps)
  have "\<Sum>\<^sub># (mset (map snd (hs[i := (K, R)]))) = \<Sum>\<^sub># (mset (map snd (take i hs @ (K, R) # drop (Suc i) hs)))"
    using assms by (simp add: upd_conv_take_nth_drop)
  then show "\<Sum>\<^sub># (mset (map snd (hs[i := (K, R)]))) = R + \<Sum>\<^sub># (mset (map snd (take i hs @ drop (Suc i) hs)))"
    by (simp add: ac_simps)
qed

lemma act_held:
  assumes "held s hs" and "i < length (go_threads s)" and "go_threads s ! i = Acts l f" and "f x (go_world s) = Some (w, p)"
  shows "guar (go_world s) w \<and> (\<exists>hs'. held \<lparr>go_world = w, go_threads = (go_threads s)[i := p]\<rparr> hs')"
proof -
  let ?C = "\<Sum>\<^sub># (mset (map snd (take i hs @ drop (Suc i) hs)))"
  have i: "i < length hs" using assms by (simp add: held_def)
  have k: "keeps sound known guar over urgent (fst (hs ! i)) (snd (hs ! i)) (Acts l f)"
    "\<forall>k \<in> fst (hs ! i). known k (go_world s)"
    using assms(1,3) i by (auto simp: held_def)
  moreover have "sound (go_world s) (snd (hs ! i) + ?C)" using assms(1) sum_others(1) [OF i] by (simp add: held_def)
  ultimately have g: "guar (go_world s) w" and "\<exists>K' R'. (\<forall>k \<in> K'. known k w) \<and> sound w (R' + ?C)
      \<and> keeps sound known guar over urgent K' R' p"
    using assms(4) by (auto elim!: keeps_acts)
  then obtain K' R' where n: "\<forall>k \<in> K'. known k w" "sound w (R' + ?C)" "keeps sound known guar over urgent K' R' p" by blast
  let ?hs = "hs[i := (K', R')]"
  have "sound w (\<Sum>\<^sub># (mset (map snd ?hs)))" unfolding sum_others(2) [OF i] by (rule n(2))
  moreover have "\<forall>j < length ?hs. (\<forall>k \<in> fst (?hs ! j). known k w)
      \<and> keeps sound known guar over urgent (fst (?hs ! j)) (snd (?hs ! j)) ((go_threads s)[i := p] ! j)"
    using assms(1) n(1,3) stable [OF g] i by (auto simp: held_def nth_list_update)
  ultimately have "held \<lparr>go_world = w, go_threads = (go_threads s)[i := p]\<rparr> ?hs"
    using assms(1) unfolding held_def by simp
  then show ?thesis using g by blast
qed

lemma step_held:
  assumes "go_step calls s s'" and "held s hs"
  shows "(guar (go_world s) (go_world s') \<or> go_world s' = go_world s) \<and> (\<exists>hs'. held s' hs')"
  using assms(1)
proof cases
  case (call p)
  then obtain K where "\<forall>k \<in> K. known k (go_world s)" "keeps sound known guar over urgent K {#} p" using programs by blast
  then have "held s' (hs @ [(K, {#})])" using assms(2) call by (auto simp: held_def nth_append less_Suc_eq)
  then show ?thesis using call by auto
next
  case (act i l f x w p)
  then show ?thesis using act_held [OF assms(2)] by auto
next
  case (spawn i p q)
  have i: "i < length hs" using assms(2) spawn by (simp add: held_def)
  have k: "keeps sound known guar over urgent (fst (hs ! i)) (snd (hs ! i)) (Spawns p q)"
    using assms(2) spawn i by (metis held_def)
  then obtain R S where rs: "snd (hs ! i) = R + S" "keeps sound known guar over urgent (fst (hs ! i)) R p"
    "keeps sound known guar over urgent (fst (hs ! i)) S q"
    by (auto elim: keeps_spawns)
  let ?hs = "hs[i := (fst (hs ! i), S)] @ [(fst (hs ! i), R)]"
  have "\<Sum>\<^sub># (mset (map snd ?hs)) = \<Sum>\<^sub># (mset (map snd hs))"
    using sum_others(1) [OF i] sum_others(2) [OF i, of "fst (hs ! i)" S] rs(1) by (simp add: ac_simps)
  then have "held s' ?hs"
    using assms(2) spawn rs i by (auto simp: held_def nth_append nth_list_update less_Suc_eq)
  then show ?thesis using spawn by auto
qed

theorem reachable_held: "go_reachable calls w0 s \<Longrightarrow> \<exists>hs. held s hs"
  unfolding go_reachable_def
proof (induction rule: rtranclp_induct)
  case base
  have "held \<lparr>go_world = w0, go_threads = []\<rparr> []" using start by (simp add: held_def)
  then show ?case by blast
next
  case (step s t)
  then show ?case using step_held by blast
qed

theorem reachable_sound: "go_reachable calls w0 s \<Longrightarrow> \<exists>R. sound (go_world s) R"
  using reachable_held unfolding held_def by blast

theorem reachable_guar:
  "go_reachable calls w0 s \<Longrightarrow> go_step calls s s' \<Longrightarrow> guar (go_world s) (go_world s') \<or> go_world s' = go_world s"
  using reachable_held step_held by blast

theorem reachable_over: "go_reachable calls w0 s \<Longrightarrow> \<forall>p \<in> set (go_threads s). \<exists>r. p = Returns r \<Longrightarrow> sound (go_world s) {#}"
proof -
  assume "go_reachable calls w0 s" and r: "\<forall>p \<in> set (go_threads s). \<exists>r. p = Returns r"
  then obtain hs where hs: "held s hs" using reachable_held by blast
  have "snd h = {#}" if "h \<in> set hs" for h
  proof -
    obtain i where i: "i < length hs" "h = hs ! i" using \<open>h \<in> set hs\<close> by (metis in_set_conv_nth)
    then obtain r where "go_threads s ! i = Returns r" using r hs by (metis held_def nth_mem)
    then show "snd h = {#}" using hs i by (metis held_def keeps_returns)
  qed
  moreover have "(\<forall>h \<in> set hs. snd h = {#}) \<Longrightarrow> \<Sum>\<^sub># (mset (map snd hs)) = {#}" for hs :: "('k set \<times> 'r multiset) list"
    by (induction hs) auto
  ultimately have "\<Sum>\<^sub># (mset (map snd hs)) = {#}" by blast
  then show "sound (go_world s) {#}" using hs unfolding held_def by metis
qed

text \<open>A goroutine without urgent rights may wait; then one that has such a right does not.\<close>

theorem reachable_progress:
  assumes "go_reachable calls w0 s" and "\<exists>p \<in> set (go_threads s). \<forall>r. p \<noteq> Returns r"
  shows "\<exists>p \<in> set (go_threads s). can_act (go_world s) p"
proof -
  obtain hs where hs: "held s hs" using reachable_held [OF assms(1)] by blast
  have one: "can_act (go_world s) (go_threads s ! i) \<or> (\<exists>l. \<not> over l (go_world s) \<and> (\<forall>r \<in># snd (hs ! i). \<not> urgent r))"
    if i: "i < length hs" "\<forall>r. go_threads s ! i \<noteq> Returns r" for i
  proof (cases "go_threads s ! i")
    case (Acts l f)
    have k: "keeps sound known guar over urgent (fst (hs ! i)) (snd (hs ! i)) (Acts l f)"
      "\<forall>k \<in> fst (hs ! i). known k (go_world s)"
      using hs i(1) Acts by (auto simp: held_def)
    have "sound (go_world s) (snd (hs ! i) + \<Sum>\<^sub># (mset (map snd (take i hs @ drop (Suc i) hs))))"
      using hs sum_others(1) [OF i(1)] by (simp add: held_def)
    then have "over l (go_world s) \<longrightarrow> (\<exists>x. f x (go_world s) \<noteq> None)" "(\<forall>w. over l w) \<or> (\<forall>r \<in># snd (hs ! i). \<not> urgent r)"
      using k by (auto elim!: keeps_acts)
    then show ?thesis by (auto simp: can_act_def Acts)
  qed (use i in \<open>auto simp: can_act_def\<close>)
  obtain p where p: "p \<in> set (go_threads s)" "\<forall>r. p \<noteq> Returns r" using assms(2) by blast
  obtain i where i: "i < length hs" "go_threads s ! i = p"
    using p(1) hs by (metis held_def in_set_conv_nth)
  show ?thesis
  proof (rule ccontr)
    assume stuck: "\<not> ?thesis"
    then have none: "\<not> can_act (go_world s) (go_threads s ! j)" if "j < length hs" for j
      using that hs by (simp add: held_def)
    obtain l where "\<not> over l (go_world s)" using one [OF i(1)] none [OF i(1)] p(2) i(2) by blast
    then obtain r where r: "r \<in># \<Sum>\<^sub># (mset (map snd hs))" "urgent r" using hs waits_for by (metis held_def)
    then obtain j where j: "j < length hs" "r \<in># snd (hs ! j)"
      by (auto simp: in_Union_mset_iff in_set_conv_nth)
    then have "\<forall>r. go_threads s ! j \<noteq> Returns r" using hs by (metis held_def keeps_returns empty_iff set_mset_empty)
    then show False using one [OF j(1)] none [OF j(1)] j(2) r(2) by blast
  qed
qed

end

end
