(* ===== verification/Antigravity.thy ===== *)
theory Antigravity
  imports Antigravity_Updates Goroutines
begin

text \<open>
  The sessions of the Antigravity adapter (\<open>src/adapters/antigravity/antigravity.go\<close>): their state,
  and every method and callback as a program of critical sections. What the provider, the clock and
  the system answer is the argument of a section. Sessions, provider agents, contexts and channels
  are numbered in the order they are made. A second call of \<open>stop\<close> does not wait for the first.
\<close>

section \<open>State\<close>

datatype antigravity_error =
  SessionIDRequired | WorktreeRejected worktree_problem | CommandUnresolved command_error | NoUserHome
| StateDirectoryFailed | SessionExists string | ResumeRefused string | EmptyProviderID
| SessionNotFound string | FailedToStart string antigravity_error | PromptMissing | TurnBusy
| RestartDuringTurn | RestartRefused string | ClosedDuringRestart | NoInteraction string
| SessionIsClosed | PermissionTimedOut

text \<open>
  \<open>gs_emit\<close> is the number of the sink, \<open>gs_turnCancel\<close> the context of the turn,
  \<open>gs_interactions\<close> maps identifiers to channels.
\<close>

record AntigravitySession =
  gs_hostID :: string
  gs_backendID :: string
  gs_worktree :: string
  gs_agent :: nat
  gs_emit :: "nat option"
  gs_ready :: bool
  gs_startErr :: "antigravity_error option"
  gs_turn :: nat
  gs_turnID :: string
  gs_turnCancel :: "nat option"
  gs_restarting :: bool
  gs_interaction :: nat
  gs_interactions :: "nat gomap"
  gs_done :: bool

definition new_provider_session :: "nat \<Rightarrow> string \<Rightarrow> string \<Rightarrow> nat option \<Rightarrow> AntigravitySession" where
  "new_provider_session a sid worktree sink =
     \<lparr>gs_hostID = sid, gs_backendID = [], gs_worktree = worktree, gs_agent = a, gs_emit = sink, gs_ready = False,
      gs_startErr = None, gs_turn = 0, gs_turnID = [], gs_turnCancel = None, gs_restarting = False,
      gs_interaction = 0, gs_interactions = [], gs_done = False\<rparr>"

datatype provider_call =
  AgentCreated "string list" | NewProviderSession | ResumeProviderSession string | SetOption string string
| PromptCalled string string | PromptReturned string | CancelCalled string | CloseCalled string

text \<open>
  A channel holds the answer that was sent. \<open>gw_emitted\<close> has the session, the sink and the event;
  \<open>gw_calls\<close> lists the calls to the agents of the provider.
\<close>

record AntigravityWorld =
  gw_sessions :: "nat gomap"
  gw_objects :: "AntigravitySession list"
  gw_agents :: nat
  gw_contexts :: nat
  gw_cancelled :: "nat list"
  gw_channels :: "InteractionResponse option list"
  gw_emitted :: "(nat \<times> nat \<times> Event) list"
  gw_calls :: "(nat \<times> provider_call) list"

definition new_provider_world :: AntigravityWorld where
  "new_provider_world = \<lparr>gw_sessions = [], gw_objects = [], gw_agents = 0, gw_contexts = 0, gw_cancelled = [],
     gw_channels = [], gw_emitted = [], gw_calls = []\<rparr>"

text \<open>
  Answers: \<open>pa_ok\<close> says that a call succeeded, or which branch of a \<open>select\<close> is taken;
  \<open>pa_outcome\<close> is a prompt's outcome, its error and stop reason, unless it is nil.
\<close>

record provider_answer =
  pa_ok :: bool
  pa_expired :: bool
  pa_text :: string
  pa_options :: "ProviderOption list"
  pa_outcome :: "(string \<times> string) option"
  pa_env :: agent_env
  pa_shell :: "string option"
  pa_variable :: string
  pa_stat :: "string \<Rightarrow> bool option"
  pa_mkdir :: bool

datatype wait = Free | AwaitReady nat

datatype provider_result =
  PSession "antigravity_error + BackendSession" | PUnit "antigravity_error option" | PPermitted "antigravity_error + bool"

type_synonym provider_program = "(AntigravityWorld, provider_answer, wait, provider_result) go"

section \<open>Sections\<close>

definition look :: "nat \<Rightarrow> (AntigravitySession \<Rightarrow> 'v) \<Rightarrow> ('v \<Rightarrow> provider_program) \<Rightarrow> provider_program" where
  "look o' g k = Acts Free (\<lambda>x w.
     if o' < length (gw_objects w) then Some (w, k (g (gw_objects w ! o'))) else None)"

definition locked :: "nat \<Rightarrow> (AntigravitySession \<Rightarrow> 'v \<times> AntigravitySession) \<Rightarrow> ('v \<Rightarrow> provider_program) \<Rightarrow> provider_program" where
  "locked o' g k = Acts Free (\<lambda>x w.
     if o' < length (gw_objects w)
     then (let (v, s) = g (gw_objects w ! o') in Some (w\<lparr>gw_objects := (gw_objects w)[o' := s]\<rparr>, k v)) else None)"

definition provider :: "nat \<Rightarrow> provider_call \<Rightarrow> (provider_answer \<Rightarrow> provider_program) \<Rightarrow> provider_program" where
  "provider a c k = Acts Free (\<lambda>x w. Some (w\<lparr>gw_calls := gw_calls w @ [(a, c)]\<rparr>, k x))"

definition cancels :: "nat option \<Rightarrow> provider_program \<Rightarrow> provider_program" where
  "cancels c k = Acts Free (\<lambda>x w.
     Some (case c of None \<Rightarrow> w | Some n \<Rightarrow> w\<lparr>gw_cancelled := n # gw_cancelled w\<rparr>, k))"

definition await_ready :: "nat \<Rightarrow> provider_program \<Rightarrow> provider_program" where
  "await_ready o' k = Acts (AwaitReady o') (\<lambda>x w.
     if o' < length (gw_objects w) \<and> gs_ready (gw_objects w ! o') then Some (w, k) else None)"

section \<open>Events\<close>

definition emits :: "nat \<Rightarrow> nat \<Rightarrow> Event \<Rightarrow> provider_program \<Rightarrow> provider_program" where
  "emits o' sink e k = Acts Free (\<lambda>x w. Some (w\<lparr>gw_emitted := gw_emitted w @ [(o', sink, e)]\<rparr>, k))"

definition completed_event :: "string \<Rightarrow> Event \<Rightarrow> Event" where
  "completed_event b e =
     (let b' = (if ev_BackendSessionID e = [] then b else ev_BackendSessionID e) in
      e\<lparr>ev_Backend := Antigravity_Backend, ev_BackendSessionID := b',
        ev_BackendThreadID := (if ev_BackendThreadID e = [] then b' else ev_BackendThreadID e)\<rparr>)"

definition provider_emit :: "nat \<Rightarrow> Event \<Rightarrow> provider_program \<Rightarrow> provider_program" where
  "provider_emit o' e k =
     look o' (\<lambda>s. (gs_emit s, gs_backendID s)) (\<lambda>(sink, b). case sink of
       None \<Rightarrow> k
     | Some n \<Rightarrow>
         if ev_BackendTurnID e = []
         then look o' gs_turnID (\<lambda>t. emits o' n ((completed_event b e)\<lparr>ev_BackendTurnID := t\<rparr>) k)
         else emits o' n (completed_event b e) k)"

fun provider_emit_all :: "nat \<Rightarrow> Event list \<Rightarrow> provider_program \<Rightarrow> provider_program" where
  "provider_emit_all o' [] k = k"
| "provider_emit_all o' (e # es) k = provider_emit o' e (provider_emit_all o' es k)"

definition emit_provider_config :: "nat \<Rightarrow> ProviderOption list \<Rightarrow> provider_program \<Rightarrow> provider_program" where
  "emit_provider_config o' opts k = provider_emit_all o' (provider_config_events opts) k"

section \<open>Turns and interactions\<close>

definition provider_take_turn :: "nat \<Rightarrow> (string \<Rightarrow> nat option \<Rightarrow> provider_program) \<Rightarrow> provider_program" where
  "provider_take_turn o' k =
     locked o' (\<lambda>s. ((gs_turnID s, gs_turnCancel s), s\<lparr>gs_turnID := [], gs_turnCancel := None\<rparr>)) (\<lambda>(t, c). k t c)"

definition provider_finish_turn :: "nat \<Rightarrow> string \<Rightarrow> (bool \<Rightarrow> provider_program) \<Rightarrow> provider_program" where
  "provider_finish_turn o' t k =
     locked o' (\<lambda>s. if t = [] \<or> gs_turnID s \<noteq> t then (None, s)
                     else (Some (gs_turnCancel s), s\<lparr>gs_turnID := [], gs_turnCancel := None\<rparr>))
       (\<lambda>r. case r of None \<Rightarrow> k False | Some c \<Rightarrow> cancels c (k True))"

definition cancel_answer :: InteractionResponse where
  "cancel_answer = \<lparr>rs_RequestID = [], rs_Action = ''cancel'', rs_OptionID = [], rs_Message = [], rs_Values = []\<rparr>"

definition fill_channel :: "nat \<Rightarrow> InteractionResponse \<Rightarrow> AntigravityWorld \<Rightarrow> AntigravityWorld" where
  "fill_channel n r w = w\<lparr>gw_channels := (gw_channels w)[n := Some r]\<rparr>"

fun send_cancels :: "nat list \<Rightarrow> provider_program \<Rightarrow> provider_program" where
  "send_cancels [] k = k"
| "send_cancels (n # ns) k = Acts Free (\<lambda>x w.
     Some (if n < length (gw_channels w) \<and> gw_channels w ! n = None then fill_channel n cancel_answer w else w,
           send_cancels ns k))"

definition cancel_interactions :: "nat \<Rightarrow> provider_program \<Rightarrow> provider_program" where
  "cancel_interactions o' k =
     locked o' (\<lambda>s. (map snd (gs_interactions s), s\<lparr>gs_interactions := []\<rparr>)) (\<lambda>ns. send_cancels ns k)"

definition provider_stop :: "nat \<Rightarrow> provider_program \<Rightarrow> provider_program" where
  "provider_stop o' k =
     locked o' (\<lambda>s. (gs_done s, s\<lparr>gs_done := True\<rparr>)) (\<lambda>done'.
       if done' then k else provider_take_turn o' (\<lambda>t c. cancels c (cancel_interactions o' k)))"

section \<open>Sessions\<close>

definition with_provider_session :: "string \<Rightarrow> (antigravity_error \<Rightarrow> provider_program) \<Rightarrow> (nat \<Rightarrow> provider_program) \<Rightarrow> provider_program" where
  "with_provider_session sid fail k = Acts Free (\<lambda>x w. Some (w,
     case map_of (gw_sessions w) sid of
       None \<Rightarrow> fail (SessionNotFound sid)
     | Some o' \<Rightarrow> await_ready o' (look o' gs_startErr (\<lambda>e. case e of
         Some err \<Rightarrow> fail (FailedToStart sid err) | None \<Rightarrow> k o'))))"

definition createAgent ::
    "AntigravityConfig \<Rightarrow> string \<Rightarrow> (antigravity_error \<Rightarrow> provider_program) \<Rightarrow> (nat \<Rightarrow> provider_program) \<Rightarrow> provider_program" where
  "createAgent cf worktree fail k = Acts Free (\<lambda>x w. Some (
     case Resolve (pa_env x) (pa_shell x) (ac_Command cf) of
       Inl e \<Rightarrow> (w, fail (CommandUnresolved e))
     | Inr c \<Rightarrow> (case directories (pa_env x) (pa_variable x) cf of
         None \<Rightarrow> (w, fail NoUserHome)
       | Some (conversations, state) \<Rightarrow>
           if \<not> pa_mkdir x then (w, fail StateDirectoryFailed)
           else (w\<lparr>gw_agents := gw_agents w + 1, gw_calls := gw_calls w @ [(gw_agents w, AgentCreated
                  [cd_Path c, conversations, worktree, ac_Version cf, JoinPath [state, ''sessions.json''], state])]\<rparr>,
                 k (gw_agents w)))))"

definition finishStart :: "nat \<Rightarrow> antigravity_error option \<Rightarrow> provider_program \<Rightarrow> provider_program" where
  "finishStart o' e k =
     locked o' (\<lambda>s. ((), if gs_ready s then s else s\<lparr>gs_startErr := e, gs_ready := True\<rparr>)) (\<lambda>_. k)"

definition remove_session :: "string \<Rightarrow> nat \<Rightarrow> provider_program \<Rightarrow> provider_program" where
  "remove_session sid o' k = Acts Free (\<lambda>x w. Some (
     if map_of (gw_sessions w) sid = Some o' then w\<lparr>gw_sessions := map_del sid (gw_sessions w)\<rparr> else w,
     provider_stop o' k))"

definition finishRestart :: "nat \<Rightarrow> provider_program \<Rightarrow> provider_program" where
  "finishRestart o' k = locked o' (\<lambda>s. ((), s\<lparr>gs_restarting := False\<rparr>)) (\<lambda>_. k)"

section \<open>Selections\<close>

definition select_option ::
    "nat \<Rightarrow> nat \<Rightarrow> string \<Rightarrow> string \<Rightarrow> ProviderOption list \<Rightarrow> (ProviderOption list \<Rightarrow> provider_program) \<Rightarrow> provider_program" where
  "select_option o' a i value opts k =
     (if TrimSpace value = [] then k opts
      else provider a (SetOption i (TrimSpace value)) (\<lambda>x.
        if pa_ok x then k (pa_options x)
        else provider_emit o' ((new_event EventTraceUpdated)\<lparr>ev_Message := pa_text x,
               ev_Data := [(''configuration_error'', JStr (pa_text x))]\<rparr>) (k opts)))"

definition applyConfiguration ::
    "nat \<Rightarrow> string \<Rightarrow> string \<Rightarrow> ProviderOption list \<Rightarrow> (ProviderOption list \<Rightarrow> provider_program) \<Rightarrow> provider_program" where
  "applyConfiguration o' model mode opts k =
     look o' gs_agent (\<lambda>a. select_option o' a ''model'' model opts (\<lambda>opts'. select_option o' a ''mode'' mode opts' k))"

section \<open>Methods\<close>

definition provider_state :: "nat \<Rightarrow> string \<Rightarrow> (BackendSession \<Rightarrow> provider_program) \<Rightarrow> provider_program" where
  "provider_state o' t k = look o' gs_backendID (\<lambda>b. k \<lparr>bs_ID = b, bs_ThreadID = b, bs_TurnID = t\<rparr>)"

text \<open>What ends a turn: the error of the prompt, that of its outcome, or its stop reason.\<close>

definition prompt_end_event :: "string \<Rightarrow> provider_answer \<Rightarrow> Event" where
  "prompt_end_event t x =
     (let failed = (\<lambda>m. (new_event EventTurnFailed)\<lparr>ev_BackendTurnID := t, ev_Message := m\<rparr>);
          complete = (\<lambda>r. (new_event EventTurnComplete)\<lparr>ev_BackendTurnID := t, ev_Data := [(''stop_reason'', JStr r)]\<rparr>) in
      if \<not> pa_ok x then failed (pa_text x)
      else case pa_outcome x of
        None \<Rightarrow> complete ''end_turn''
      | Some (err, reason) \<Rightarrow>
          if TrimSpace err \<noteq> [] then failed err
          else complete (if TrimSpace reason \<noteq> [] then reason else ''end_turn''))"

definition if_running :: "nat \<Rightarrow> provider_program \<Rightarrow> provider_program" where
  "if_running c k = Acts Free (\<lambda>x w. Some (w, if c \<in> set (gw_cancelled w) then Returns (PUnit None) else k))"

definition provider_run_prompt :: "nat \<Rightarrow> nat \<Rightarrow> string \<Rightarrow> SendTurnRequest \<Rightarrow> provider_program" where
  "provider_run_prompt o' c t q =
     applyConfiguration o' (tr_Model q) (tr_PermissionMode q) [] (\<lambda>opts.
     (if opts = [] then id else emit_provider_config o' opts)
     (look o' (\<lambda>s. (gs_agent s, gs_backendID s)) (\<lambda>(a, b).
      provider a (PromptCalled b (tr_Prompt q)) (\<lambda>_.
      provider a (PromptReturned b) (\<lambda>x.
      if_running c
      (provider_finish_turn o' t (\<lambda>mine.
        if mine then provider_emit o' (prompt_end_event t x) (Returns (PUnit None)) else Returns (PUnit None))))))))"

definition begin_provider_turn :: "nat \<Rightarrow> SendTurnRequest \<Rightarrow> nat option \<Rightarrow> (antigravity_error + BackendSession \<Rightarrow> provider_program) \<Rightarrow> provider_program" where
  "begin_provider_turn o' q sink k = Acts Free (\<lambda>x w.
     if o' < length (gw_objects w) then
       (let s = gw_objects w ! o'; n = gs_turn s + 1; t = turn_id (gs_backendID s) n; c = gw_contexts w in
        if gs_turnID s \<noteq> [] \<or> gs_restarting s then Some (w, k (Inl TurnBusy))
        else Some (w\<lparr>gw_contexts := c + 1, gw_objects := (gw_objects w)[o' := s\<lparr>gs_turn := n, gs_turnID := t,
                 gs_turnCancel := Some c, gs_emit := (if sink = None then gs_emit s else sink)\<rparr>]\<rparr>,
          provider_emit o' ((new_event EventTurnStarted)\<lparr>ev_BackendTurnID := t, ev_Data := [(''turn_id'', JStr t)]\<rparr>)
            (Spawns (provider_run_prompt o' c t q) (provider_state o' t (\<lambda>st. k (Inr st))))))
     else None)"

definition provider_send_turn ::
    "string \<Rightarrow> SendTurnRequest \<Rightarrow> nat option \<Rightarrow> (antigravity_error + BackendSession \<Rightarrow> provider_program) \<Rightarrow> provider_program" where
  "provider_send_turn sid q sink k =
     with_provider_session sid (\<lambda>e. k (Inl e)) (\<lambda>o'.
       if TrimSpace (tr_Prompt q) = [] then k (Inl PromptMissing) else begin_provider_turn o' q sink k)"

definition Antigravity_SendTurn :: "string \<Rightarrow> SendTurnRequest \<Rightarrow> nat option \<Rightarrow> provider_program" where
  "Antigravity_SendTurn sid q sink = provider_send_turn sid q sink (\<lambda>r. Returns (PSession r))"

definition provider_close :: "string \<Rightarrow> provider_program \<Rightarrow> provider_program" where
  "provider_close sid k = Acts Free (\<lambda>x w. Some (w\<lparr>gw_sessions := map_del sid (gw_sessions w)\<rparr>,
     case map_of (gw_sessions w) sid of
       None \<Rightarrow> k
     | Some o' \<Rightarrow> await_ready o' (provider_stop o' (look o' (\<lambda>s. (gs_agent s, gs_backendID s)) (\<lambda>(a, b).
         provider a (CloseCalled b) (\<lambda>_. k))))))"

definition Antigravity_CloseSession :: "string \<Rightarrow> provider_program" where
  "Antigravity_CloseSession sid = provider_close sid (Returns (PUnit None))"

definition first_provider_turn :: "StartSessionRequest \<Rightarrow> SendTurnRequest" where
  "first_provider_turn q = \<lparr>tr_SessionID = [], tr_Prompt = ss_Prompt q, tr_Ext = [], tr_Attachments = ss_Attachments q, tr_Model = ss_Model q,
     tr_Reasoning = [], tr_PermissionMode = ss_PermissionMode q\<rparr>"

text \<open>The session has the identifier the provider gave it, or none.\<close>

definition start_named :: "string \<Rightarrow> nat \<Rightarrow> StartSessionRequest \<Rightarrow> nat option \<Rightarrow> string \<Rightarrow> ProviderOption list \<Rightarrow> provider_program" where
  "start_named sid o' q sink b opts =
     locked o' (\<lambda>s. ((), s\<lparr>gs_backendID := TrimSpace b\<rparr>)) (\<lambda>_.
     if TrimSpace b = [] then
       finishStart o' (Some EmptyProviderID) (remove_session sid o' (Returns (PSession (Inl EmptyProviderID))))
     else applyConfiguration o' (ss_Model q) (ss_PermissionMode q) opts (\<lambda>opts'.
       finishStart o' None (emit_provider_config o' opts'
         (if TrimSpace (ss_Prompt q) = [] then provider_state o' [] (\<lambda>st. Returns (PSession (Inr st)))
          else provider_send_turn sid (first_provider_turn q) sink (\<lambda>r. case r of
            Inr st \<Rightarrow> Returns (PSession (Inr st))
          | Inl e \<Rightarrow> provider_close sid (Returns (PSession (Inl e))))))))"

definition start_published :: "string \<Rightarrow> nat \<Rightarrow> nat \<Rightarrow> StartSessionRequest \<Rightarrow> nat option \<Rightarrow> provider_program" where
  "start_published sid o' a q sink =
     (let b = TrimSpace (ss_ResumeBackendSessionID q) in
      if b = [] then provider a NewProviderSession (\<lambda>x. start_named sid o' q sink (pa_text x) (pa_options x))
      else provider a (ResumeProviderSession b) (\<lambda>x.
        if pa_ok x then start_named sid o' q sink b (pa_options x)
        else finishStart o' (Some (ResumeRefused (pa_text x)))
          (remove_session sid o' (Returns (PSession (Inl (ResumeRefused (pa_text x))))))))"

definition publish_session :: "string \<Rightarrow> nat \<Rightarrow> string \<Rightarrow> nat option \<Rightarrow> (nat option \<Rightarrow> provider_program) \<Rightarrow> provider_program" where
  "publish_session sid a worktree sink k = Acts Free (\<lambda>x w. Some (
     if map_of (gw_sessions w) sid \<noteq> None then (w, k None)
     else (w\<lparr>gw_sessions := map_put sid (length (gw_objects w)) (gw_sessions w),
             gw_objects := gw_objects w @ [new_provider_session a sid worktree sink]\<rparr>, k (Some (length (gw_objects w))))))"

definition Antigravity_StartSession :: "AntigravityConfig \<Rightarrow> string \<Rightarrow> StartSessionRequest \<Rightarrow> nat option \<Rightarrow> provider_program" where
  "Antigravity_StartSession cf sid q sink =
     (let fail = (\<lambda>e. Returns (PSession (Inl e))) in
      if TrimSpace sid = [] then fail SessionIDRequired
      else Acts Free (\<lambda>x w. Some (w,
        case validateWorktree (pa_stat x) (ss_Worktree q) of
          Inl e \<Rightarrow> fail (WorktreeRejected e)
        | Inr worktree \<Rightarrow> createAgent cf worktree fail (\<lambda>a.
            publish_session sid a worktree sink (\<lambda>r. case r of
              None \<Rightarrow> fail (SessionExists sid)
            | Some o' \<Rightarrow> start_published sid o' a q sink)))))"

definition provider_interrupted_event :: "string \<Rightarrow> Event" where
  "provider_interrupted_event t = (new_event EventTurnFailed)\<lparr>ev_BackendTurnID := t,
     ev_Message := ''antigravity turn interrupted'', ev_Data := [(''interrupted'', JBool True)]\<rparr>"

definition Antigravity_Interrupt :: "string \<Rightarrow> provider_program" where
  "Antigravity_Interrupt sid =
     with_provider_session sid (\<lambda>e. Returns (PUnit (Some e))) (\<lambda>o'.
     provider_take_turn o' (\<lambda>t c.
     if t = [] then Returns (PUnit None)
     else look o' (\<lambda>s. (gs_agent s, gs_backendID s)) (\<lambda>(a, b).
       provider a (CancelCalled b) (\<lambda>_. cancels c (cancel_interactions o'
       (provider_emit o' (provider_interrupted_event t) (Returns (PUnit None))))))))"

definition provider_recovered_event :: Event where
  "provider_recovered_event = (new_event EventAgentRecovered)\<lparr>ev_Message := ''Antigravity session recovered'',
     ev_Data := [(''restarted'', JBool True)]\<rparr>"

text \<open>The new agent takes its place while the session is still in the table.\<close>

definition replace_agent :: "string \<Rightarrow> nat \<Rightarrow> nat \<Rightarrow> (bool \<Rightarrow> provider_program) \<Rightarrow> provider_program" where
  "replace_agent sid o' a k = Acts Free (\<lambda>x w.
     if o' < length (gw_objects w) then Some (
       if map_of (gw_sessions w) sid \<noteq> Some o' then (w, k False)
       else (w\<lparr>gw_objects := (gw_objects w)[o' := (gw_objects w ! o')\<lparr>gs_agent := a\<rparr>]\<rparr>, k True))
     else None)"

definition Antigravity_RestartSession :: "AntigravityConfig \<Rightarrow> string \<Rightarrow> provider_program" where
  "Antigravity_RestartSession cf sid =
     with_provider_session sid (\<lambda>e. Returns (PSession (Inl e))) (\<lambda>o'.
     locked o' (\<lambda>s. if gs_turnID s \<noteq> [] \<or> gs_restarting s then (True, s) else (False, s\<lparr>gs_restarting := True\<rparr>)) (\<lambda>active.
     if active then Returns (PSession (Inl RestartDuringTurn))
     else let fail = (\<lambda>e. finishRestart o' (Returns (PSession (Inl e)))) in
       look o' (\<lambda>s. (gs_worktree s, gs_backendID s)) (\<lambda>(worktree, b).
       createAgent cf worktree fail (\<lambda>a.
       provider a (ResumeProviderSession b) (\<lambda>x.
       if \<not> pa_ok x then fail (RestartRefused (pa_text x))
       else replace_agent sid o' a (\<lambda>there.
         if \<not> there then provider a (CloseCalled b) (\<lambda>_. fail ClosedDuringRestart)
         else emit_provider_config o' (pa_options x) (provider_emit o' provider_recovered_event
           (finishRestart o' (Returns (PSession (Inr \<lparr>bs_ID = b, bs_ThreadID = b, bs_TurnID = []\<rparr>)))))))))))"

definition send_answer :: "nat \<Rightarrow> nat \<Rightarrow> InteractionResponse \<Rightarrow> (bool \<Rightarrow> provider_program) \<Rightarrow> provider_program" where
  "send_answer o' n r k = Acts Free (\<lambda>x w.
     if o' < length (gw_objects w) then
       (if pa_ok x then (if n < length (gw_channels w) \<and> gw_channels w ! n = None then Some (fill_channel n r w, k True) else None)
        else if gs_done (gw_objects w ! o') then Some (w, k False) else None)
     else None)"

definition Antigravity_RespondInteraction :: "string \<Rightarrow> InteractionResponse \<Rightarrow> provider_program" where
  "Antigravity_RespondInteraction sid r =
     with_provider_session sid (\<lambda>e. Returns (PUnit (Some e))) (\<lambda>o'.
     locked o' (\<lambda>s. (map_of (gs_interactions s) (rs_RequestID r),
                      s\<lparr>gs_interactions := map_del (rs_RequestID r) (gs_interactions s)\<rparr>)) (\<lambda>pending.
     case pending of
       None \<Rightarrow> Returns (PUnit (Some (NoInteraction (rs_RequestID r))))
     | Some n \<Rightarrow> send_answer o' n r (\<lambda>sent.
         if sent then provider_emit o' ((new_event EventInteractionResolved)\<lparr>ev_InteractionResponse := Some r\<rparr>) (Returns (PUnit None))
         else Returns (PUnit (Some SessionIsClosed)))))"

definition Antigravity_RespondPermission :: "string \<Rightarrow> string \<Rightarrow> bool \<Rightarrow> string \<Rightarrow> provider_program" where
  "Antigravity_RespondPermission sid i allow message =
     Antigravity_RespondInteraction sid \<lparr>rs_RequestID = i, rs_Action = (if allow then ''approve'' else ''deny''), rs_OptionID = [],
       rs_Message = message, rs_Values = []\<rparr>"

section \<open>Callbacks\<close>

definition Client_Update :: "(any \<Rightarrow> string) \<Rightarrow> nat \<Rightarrow> string \<Rightarrow> ProviderUpdate option \<Rightarrow> provider_program" where
  "Client_Update sprint o' sid update =
     (case Option.bind update (translateUpdate sprint) of
        None \<Rightarrow> Returns (PUnit None)
      | Some e \<Rightarrow> provider_emit o'
          (e\<lparr>ev_BackendSessionID := (if ev_BackendSessionID e = [] then TrimSpace sid else ev_BackendSessionID e)\<rparr>)
          (Returns (PUnit None)))"

definition ask_permission :: "nat \<Rightarrow> (string \<Rightarrow> nat \<Rightarrow> provider_program) \<Rightarrow> provider_program" where
  "ask_permission o' k = Acts Free (\<lambda>x w.
     if o' < length (gw_objects w) then
       (let s = gw_objects w ! o'; m = gs_interaction s + 1; n = length (gw_channels w);
            i = gs_backendID s @ '':interaction:'' @ show_nat m in
        Some (w\<lparr>gw_channels := gw_channels w @ [None],
                gw_objects := (gw_objects w)[o' := s\<lparr>gs_interaction := m, gs_interactions := map_put i n (gs_interactions s)\<rparr>]\<rparr>,
              k i n))
     else None)"

definition await_permission :: "nat \<Rightarrow> nat \<Rightarrow> (antigravity_error + bool \<Rightarrow> provider_program) \<Rightarrow> provider_program" where
  "await_permission o' n k = Acts Free (\<lambda>x w.
     if o' < length (gw_objects w) then
       (if pa_expired x then Some (w, k (Inl PermissionTimedOut))
        else if pa_ok x then
          (case gw_channels w ! n of Some r \<Rightarrow> Some (w, k (Inr (permitted (rs_Action r)))) | None \<Rightarrow> None)
        else if gs_done (gw_objects w ! o') then Some (w, k (Inl SessionIsClosed)) else None)
     else None)"

definition Client_RequestPermission :: "(any \<Rightarrow> string) \<Rightarrow> nat \<Rightarrow> any \<Rightarrow> provider_program" where
  "Client_RequestPermission sprint o' params =
     ask_permission o' (\<lambda>i n.
     provider_emit o' (permission_request_event sprint i params)
     (await_permission o' n (\<lambda>r.
      locked o' (\<lambda>s. ((), s\<lparr>gs_interactions := map_del i (gs_interactions s)\<rparr>)) (\<lambda>_. Returns (PPermitted r)))))"

section \<open>The adapter at work\<close>

datatype antigravity_call =
  StartCall string StartSessionRequest "nat option" | SendCall string SendTurnRequest "nat option" | InterruptCall string
| CloseCall string | RestartCall string | RespondCall string InteractionResponse | PermissionCall string string bool string
| UpdateCallback nat string "ProviderUpdate option" | PermissionCallback nat any

text \<open>The provider's callbacks come for sessions that exist.\<close>

fun antigravity_program ::
    "AntigravityConfig \<Rightarrow> (any \<Rightarrow> string) \<Rightarrow> antigravity_call \<Rightarrow> AntigravityWorld \<Rightarrow> provider_program option" where
  "antigravity_program cf sprint (StartCall sid q sink) w = Some (Antigravity_StartSession cf sid q sink)"
| "antigravity_program cf sprint (SendCall sid q sink) w = Some (Antigravity_SendTurn sid q sink)"
| "antigravity_program cf sprint (InterruptCall sid) w = Some (Antigravity_Interrupt sid)"
| "antigravity_program cf sprint (CloseCall sid) w = Some (Antigravity_CloseSession sid)"
| "antigravity_program cf sprint (RestartCall sid) w = Some (Antigravity_RestartSession cf sid)"
| "antigravity_program cf sprint (RespondCall sid r) w = Some (Antigravity_RespondInteraction sid r)"
| "antigravity_program cf sprint (PermissionCall sid i allow message) w = Some (Antigravity_RespondPermission sid i allow message)"
| "antigravity_program cf sprint (UpdateCallback o' sid u) w =
     (if o' < length (gw_objects w) then Some (Client_Update sprint o' sid u) else None)"
| "antigravity_program cf sprint (PermissionCallback o' params) w =
     (if o' < length (gw_objects w) then Some (Client_RequestPermission sprint o' params) else None)"

type_synonym antigravity_machine = "(AntigravityWorld, provider_answer, wait, provider_result) go_machine"

definition antigravity_reachable :: "AntigravityConfig \<Rightarrow> (any \<Rightarrow> string) \<Rightarrow> antigravity_machine \<Rightarrow> bool" where
  "antigravity_reachable cf sprint = go_reachable (called (antigravity_program cf sprint)) new_provider_world"

end
