(* ===== verification/Antigravity_Rights.thy ===== *)
theory Antigravity_Rights
  imports Antigravity Map_Values
begin

text \<open>
  The rights that the goroutines of the Antigravity adapter hold: to report the end of a turn, to
  restart a session, to start it, and to answer an interaction. The invariant balances them against
  the state, and every method and callback keeps to its rights.
\<close>

section \<open>The invariant\<close>

datatype provider_right =
  EndTurn nat string | Restarting nat | Starting nat | Answering nat | Prompting nat string nat | Cancelling nat

definition ends_turn :: "EventType \<Rightarrow> bool" where
  "ends_turn ty \<longleftrightarrow> ty = EventTurnComplete \<or> ty = EventTurnFailed"

definition turn_ends :: "AntigravityWorld \<Rightarrow> nat \<Rightarrow> string \<Rightarrow> nat" where
  "turn_ends w o' t =
     length (filter (\<lambda>(n, sink, e). n = o' \<and> ends_turn (ev_Type e) \<and> ev_BackendTurnID e = t) (gw_emitted w))"

definition has_turn :: "AntigravitySession \<Rightarrow> string \<Rightarrow> nat" where
  "has_turn s t = (if t \<noteq> [] \<and> gs_turnID s = t then 1 else 0)"

definition marks_of :: "AntigravityWorld \<Rightarrow> provider_right multiset \<Rightarrow> nat \<Rightarrow> string \<Rightarrow> nat" where
  "marks_of w R o' t =
     turn_ends w o' t + count R (EndTurn o' t) + (if o' < length (gw_objects w) then has_turn (gw_objects w ! o') t else 0)"

definition waiting_answers :: "AntigravitySession \<Rightarrow> nat \<Rightarrow> nat" where
  "waiting_answers s n = count (mset (map snd (gs_interactions s))) n"

definition turn_sound :: "AntigravityWorld \<Rightarrow> provider_right multiset \<Rightarrow> bool" where
  "turn_sound w R \<longleftrightarrow>
     (\<forall>o' t. marks_of w R o' t \<le> 1
       \<and> (marks_of w R o' t > 0 \<longrightarrow> o' < length (gw_objects w) \<and> (\<exists>b n. t = turn_id b n \<and> n \<le> gs_turn (gw_objects w ! o'))))"

definition restart_sound :: "AntigravityWorld \<Rightarrow> provider_right multiset \<Rightarrow> bool" where
  "restart_sound w R \<longleftrightarrow>
     (\<forall>o'. count R (Restarting o') = (if o' < length (gw_objects w) \<and> gs_restarting (gw_objects w ! o') then 1 else 0)
       \<and> (o' < length (gw_objects w) \<and> gs_restarting (gw_objects w ! o') \<longrightarrow> gs_turnID (gw_objects w ! o') = []))"

definition start_sound :: "AntigravityWorld \<Rightarrow> provider_right multiset \<Rightarrow> bool" where
  "start_sound w R \<longleftrightarrow>
     (\<forall>o'. count R (Starting o') = (if o' < length (gw_objects w) \<and> \<not> gs_ready (gw_objects w ! o') then 1 else 0))"

definition filled :: "AntigravityWorld \<Rightarrow> nat \<Rightarrow> nat" where
  "filled w n = (if n < length (gw_channels w) \<and> gw_channels w ! n = None then 0 else 1)"

definition answer_sound :: "AntigravityWorld \<Rightarrow> provider_right multiset \<Rightarrow> bool" where
  "answer_sound w R \<longleftrightarrow>
     (\<forall>n. count R (Answering n) + sum_list (map (\<lambda>s. waiting_answers s n) (gw_objects w)) + filled w n \<le> 1)"

text \<open>
  A context belongs to a session, to the goroutine that took it to cancel it, or is cancelled; a
  session's turn has a goroutine that runs its prompt in the turn's context.
\<close>

definition context_marks :: "AntigravityWorld \<Rightarrow> provider_right multiset \<Rightarrow> nat \<Rightarrow> nat" where
  "context_marks w R c =
     count R (Cancelling c) + sum_list (map (\<lambda>s. if gs_turnCancel s = Some c then 1 else 0) (gw_objects w))
     + (if c \<in> set (gw_cancelled w) then 1 else 0) + (if gw_contexts w \<le> c then 1 else 0)"

definition turn_running :: "provider_right multiset \<Rightarrow> nat \<Rightarrow> AntigravitySession \<Rightarrow> bool" where
  "turn_running R o' s \<longleftrightarrow> gs_turnID s = [] \<or> (\<exists>c. gs_turnCancel s = Some c \<and> Prompting o' (gs_turnID s) c \<in># R)"

definition prompt_sound :: "AntigravityWorld \<Rightarrow> provider_right multiset \<Rightarrow> bool" where
  "prompt_sound w R \<longleftrightarrow>
     (\<forall>c. context_marks w R c \<le> 1) \<and> (\<forall>o' < length (gw_objects w). turn_running R o' (gw_objects w ! o'))"

definition table_sound :: "AntigravityWorld \<Rightarrow> bool" where
  "table_sound w \<longleftrightarrow> (\<forall>(sid, o') \<in> set (gw_sessions w). o' < length (gw_objects w))"

definition provider_sound :: "AntigravityWorld \<Rightarrow> provider_right multiset \<Rightarrow> bool" where
  "provider_sound w R \<longleftrightarrow> turn_sound w R \<and> restart_sound w R \<and> start_sound w R \<and> answer_sound w R \<and> prompt_sound w R \<and> table_sound w"

lemmas sound_defs = provider_sound_def turn_sound_def restart_sound_def start_sound_def answer_sound_def prompt_sound_def table_sound_def

definition exists_session :: "nat \<Rightarrow> AntigravityWorld \<Rightarrow> bool" where
  "exists_session o' w \<longleftrightarrow> o' < length (gw_objects w)"

text \<open>A session's agent is replaced only while it restarts and has no turn.\<close>

definition agents_kept :: "AntigravityWorld \<Rightarrow> AntigravityWorld \<Rightarrow> bool" where
  "agents_kept w w' \<longleftrightarrow>
     length (gw_objects w) \<le> length (gw_objects w')
     \<and> (\<forall>o' < length (gw_objects w). gs_agent (gw_objects w' ! o') = gs_agent (gw_objects w ! o')
          \<or> gs_restarting (gw_objects w ! o') \<and> gs_turnID (gw_objects w ! o') = [])"

fun wait_over :: "wait \<Rightarrow> AntigravityWorld \<Rightarrow> bool" where
  "wait_over Free w \<longleftrightarrow> True"
| "wait_over (AwaitReady o') w \<longleftrightarrow> (o' < length (gw_objects w) \<longrightarrow> gs_ready (gw_objects w ! o'))"

fun starts :: "provider_right \<Rightarrow> bool" where
  "starts (Starting o') \<longleftrightarrow> True"
| "starts r \<longleftrightarrow> False"

abbreviation obedient :: "nat set \<Rightarrow> provider_right multiset \<Rightarrow> provider_program \<Rightarrow> bool" where
  "obedient K R p \<equiv> keeps provider_sound exists_session agents_kept wait_over starts K R p"

lemma agents_kept_refl [simp]: "agents_kept w w"
  by (simp add: agents_kept_def)

lemma agents_kept_objects: "gw_objects w' = gw_objects w \<Longrightarrow> agents_kept w w'"
  by (simp add: agents_kept_def)

lemma exists_stable: "agents_kept w w' \<Longrightarrow> exists_session o' w \<Longrightarrow> exists_session o' w'"
  by (simp add: agents_kept_def exists_session_def)

lemma sum_list_changed:
  assumes "i < length xs"
  shows "sum_list (map f (xs[i := y])) + f (xs ! i) = sum_list (map f xs) + (f y :: nat)"
proof -
  have "sum_list (map f xs) = sum_list (map f (take i xs)) + f (xs ! i) + sum_list (map f (drop (Suc i) xs))"
    using id_take_nth_drop [OF assms] by (metis (no_types, lifting) add.assoc list.simps(9) map_append sum_list.Cons sum_list.append)
  then show ?thesis using assms by (simp add: upd_conv_take_nth_drop)
qed

section \<open>One section of a program\<close>

lemma obedient_acts:
  assumes "\<And>x w w' p C. \<forall>o' \<in> K. o' < length (gw_objects w) \<Longrightarrow> provider_sound w (R + C) \<Longrightarrow> f x w = Some (w', p) \<Longrightarrow>
      agents_kept w w' \<and> (\<exists>K' R'. (\<forall>o' \<in> K'. o' < length (gw_objects w')) \<and> provider_sound w' (R' + C) \<and> obedient K' R' p)"
    and "\<And>w C. \<forall>o' \<in> K. o' < length (gw_objects w) \<Longrightarrow> provider_sound w (R + C) \<Longrightarrow> wait_over l w \<Longrightarrow> \<exists>x. f x w \<noteq> None"
    and "l = Free \<or> (\<forall>r \<in># R. \<not> starts r)"
  shows "obedient K R (Acts l f)"
  using assms by (intro keeps.acts) (auto simp: exists_session_def)

text \<open>What a section on one session must keep, in terms of that session.\<close>

definition session_kept :: "nat \<Rightarrow> AntigravitySession \<Rightarrow> provider_right multiset \<Rightarrow> AntigravitySession \<Rightarrow> provider_right multiset \<Rightarrow> bool" where
  "session_kept o' s R s' R' \<longleftrightarrow>
     gs_agent s' = gs_agent s \<and> gs_turn s \<le> gs_turn s'
     \<and> (\<forall>t. count R' (EndTurn o' t) + has_turn s' t \<le> count R (EndTurn o' t) + has_turn s t)
     \<and> (\<forall>n t. n \<noteq> o' \<longrightarrow> count R' (EndTurn n t) \<le> count R (EndTurn n t))
     \<and> count R' (Restarting o') + (if gs_restarting s then 1 else 0) = count R (Restarting o') + (if gs_restarting s' then 1 else 0)
     \<and> (\<forall>n. n \<noteq> o' \<longrightarrow> count R' (Restarting n) = count R (Restarting n))
     \<and> (gs_restarting s' \<longrightarrow> gs_turnID s' = [])
     \<and> count R' (Starting o') + (if gs_ready s then 0 else 1) = count R (Starting o') + (if gs_ready s' then 0 else (1::nat))
     \<and> (\<forall>n. n \<noteq> o' \<longrightarrow> count R' (Starting n) = count R (Starting n))
     \<and> (\<forall>n. count R' (Answering n) + waiting_answers s' n \<le> count R (Answering n) + waiting_answers s n)
     \<and> (\<forall>c. count R' (Cancelling c) + (if gs_turnCancel s' = Some c then 1 else 0)
          \<le> count R (Cancelling c) + (if gs_turnCancel s = Some c then 1 else (0::nat)))
     \<and> (gs_turnID s' \<noteq> [] \<longrightarrow> gs_turnID s' = gs_turnID s \<and> gs_turnCancel s' = gs_turnCancel s)
     \<and> (\<forall>n t c. Prompting n t c \<in># R \<longrightarrow> Prompting n t c \<in># R' \<or> n = o' \<and> gs_turnID s' \<noteq> t)"

lemma sound_session:
  assumes "provider_sound w (R + C)" and "o' < length (gw_objects w)"
    and "session_kept o' (gw_objects w ! o') R s' R'"
  shows "provider_sound (w\<lparr>gw_objects := (gw_objects w)[o' := s']\<rparr>) (R' + C)"
proof -
  let ?w = "w\<lparr>gw_objects := (gw_objects w)[o' := s']\<rparr>" and ?s = "gw_objects w ! o'"
  note k = assms(3) [unfolded session_kept_def] and old = assms(1) [unfolded provider_sound_def]
  have less: "marks_of ?w (R' + C) n t \<le> marks_of w (R + C) n t" for n t
    using k assms(2) by (cases "n = o'") (auto simp: marks_of_def turn_ends_def nth_list_update add.assoc [symmetric] intro: add_mono)
  have "turn_sound ?w (R' + C)"
    unfolding turn_sound_def
  proof (intro allI conjI impI)
    fix n t
    have o: "marks_of w (R + C) n t \<le> 1"
      "marks_of w (R + C) n t > 0 \<Longrightarrow> n < length (gw_objects w) \<and> (\<exists>b m. t = turn_id b m \<and> m \<le> gs_turn (gw_objects w ! n))"
      using old by (simp_all add: turn_sound_def)
    show "marks_of ?w (R' + C) n t \<le> 1" using less [of n t] o(1) by linarith
    assume "marks_of ?w (R' + C) n t > 0"
    then have "marks_of w (R + C) n t > 0" using less [of n t] by (rule order_less_le_trans)
    then have "n < length (gw_objects w) \<and> (\<exists>b m. t = turn_id b m \<and> m \<le> gs_turn (gw_objects w ! n))"
      by (rule o(2))
    moreover have "gs_turn (gw_objects w ! n) \<le> gs_turn (gw_objects ?w ! n)" using k assms(2) by (cases "n = o'") simp_all
    ultimately show "n < length (gw_objects ?w)" "\<exists>b m. t = turn_id b m \<and> m \<le> gs_turn (gw_objects ?w ! n)"
      using order_trans by (simp, blast)
  qed
  moreover have "restart_sound ?w (R' + C)"
    unfolding restart_sound_def
  proof (intro allI)
    fix n
    have "count (R + C) (Restarting n) = (if n < length (gw_objects w) \<and> gs_restarting (gw_objects w ! n) then 1 else 0)
       \<and> (n < length (gw_objects w) \<and> gs_restarting (gw_objects w ! n) \<longrightarrow> gs_turnID (gw_objects w ! n) = [])"
      using old by (simp add: restart_sound_def)
    then show "count (R' + C) (Restarting n) = (if n < length (gw_objects ?w) \<and> gs_restarting (gw_objects ?w ! n) then 1 else 0)
       \<and> (n < length (gw_objects ?w) \<and> gs_restarting (gw_objects ?w ! n) \<longrightarrow> gs_turnID (gw_objects ?w ! n) = [])"
      using k assms(2) by (cases "n = o'") (auto split: if_splits)
  qed
  moreover have "start_sound ?w (R' + C)"
    unfolding start_sound_def
  proof
    fix n
    have "count (R + C) (Starting n) = (if n < length (gw_objects w) \<and> \<not> gs_ready (gw_objects w ! n) then 1 else 0)"
      using old by (simp add: start_sound_def)
    then show "count (R' + C) (Starting n) = (if n < length (gw_objects ?w) \<and> \<not> gs_ready (gw_objects ?w ! n) then 1 else 0)"
      using k assms(2) by (cases "n = o'") (auto split: if_splits)
  qed
  moreover have "answer_sound ?w (R' + C)"
    unfolding answer_sound_def
  proof
    fix n
    have "count (R + C) (Answering n) + sum_list (map (\<lambda>s. waiting_answers s n) (gw_objects w)) + filled w n \<le> 1"
      using old by (simp add: answer_sound_def)
    moreover have "count R' (Answering n) + waiting_answers s' n \<le> count R (Answering n) + waiting_answers ?s n" using k by blast
    ultimately show "count (R' + C) (Answering n) + sum_list (map (\<lambda>s. waiting_answers s n) (gw_objects ?w)) + filled ?w n \<le> 1"
      using sum_list_changed [OF assms(2), of "\<lambda>s. waiting_answers s n" s'] by (simp add: filled_def split: if_splits)
  qed
  moreover have "prompt_sound ?w (R' + C)"
    unfolding prompt_sound_def
  proof (intro conjI allI impI)
    fix c
    have "context_marks w (R + C) c \<le> 1" using old by (simp add: prompt_sound_def)
    moreover have "count R' (Cancelling c) + (if gs_turnCancel s' = Some c then 1 else 0)
        \<le> count R (Cancelling c) + (if gs_turnCancel ?s = Some c then 1 else (0::nat))" using k by blast
    ultimately show "context_marks ?w (R' + C) c \<le> 1"
      using sum_list_changed [OF assms(2), of "\<lambda>s. if gs_turnCancel s = Some c then 1 else 0" s'] by (simp add: context_marks_def)
  next
    fix n
    assume n: "n < length (gw_objects ?w)"
    then have r: "turn_running (R + C) n (gw_objects w ! n)" using old by (simp add: prompt_sound_def)
    have kt: "Prompting m t c \<in># R \<Longrightarrow> Prompting m t c \<in># R' \<or> m = o' \<and> gs_turnID s' \<noteq> t" for m t c using k by blast
    show "turn_running (R' + C) n (gw_objects ?w ! n)"
    proof (cases "n = o'")
      case True
      moreover have "gs_turnID s' \<noteq> [] \<Longrightarrow> gs_turnID s' = gs_turnID ?s \<and> gs_turnCancel s' = gs_turnCancel ?s" using k by blast
      ultimately show ?thesis using r kt assms(2) by (fastforce simp: turn_running_def)
    next
      case False
      then show ?thesis using r kt by (fastforce simp: turn_running_def)
    qed
  qed
  moreover have "table_sound ?w" using old by (simp add: table_sound_def)
  ultimately show ?thesis by (simp add: provider_sound_def)
qed

lemma kept_agents_session:
  "gs_agent s' = gs_agent (gw_objects w ! o') \<Longrightarrow> agents_kept w (w\<lparr>gw_objects := (gw_objects w)[o' := s']\<rparr>)"
  by (auto simp: agents_kept_def) (metis nth_list_update_eq nth_list_update_neq)+

lemma obedient_locked:
  assumes "o' \<in> K"
    and "\<And>w C v s'. provider_sound w (R + C) \<Longrightarrow> o' < length (gw_objects w) \<Longrightarrow> g (gw_objects w ! o') = (v, s') \<Longrightarrow>
      \<exists>R'. session_kept o' (gw_objects w ! o') R s' R' \<and> obedient K R' (k v)"
  shows "obedient K R (locked o' g k)"
  unfolding locked_def
proof (rule obedient_acts)
  fix x w w' p C
  assume K: "\<forall>o' \<in> K. o' < length (gw_objects w)" and s: "provider_sound w (R + C)"
    and st: "(if o' < length (gw_objects w)
       then (let (v, s) = g (gw_objects w ! o') in Some (w\<lparr>gw_objects := (gw_objects w)[o' := s]\<rparr>, k v)) else None) = Some (w', p)"
  obtain v s' where g: "g (gw_objects w ! o') = (v, s')" by (cases "g (gw_objects w ! o')")
  then have w': "w' = w\<lparr>gw_objects := (gw_objects w)[o' := s']\<rparr>" "p = k v" using st by (auto split: if_splits)
  obtain R' where R': "session_kept o' (gw_objects w ! o') R s' R'" "obedient K R' (k v)"
    using assms(2) [OF s _ g] K assms(1) by blast
  have "agents_kept w w'" unfolding w'(1) by (rule kept_agents_session) (use R'(1) in \<open>simp add: session_kept_def\<close>)
  moreover have "provider_sound w' (R' + C)" unfolding w'(1) by (rule sound_session [OF s _ R'(1)]) (use K assms(1) in blast)
  ultimately show "agents_kept w w' \<and> (\<exists>K' R'. (\<forall>o' \<in> K'. o' < length (gw_objects w')) \<and> provider_sound w' (R' + C) \<and> obedient K' R' p)"
    using R'(2) w' K by (intro conjI exI [of _ K] exI [of _ R']) auto
qed (use assms(1) in \<open>auto split: prod.split\<close>)

text \<open>A section that changes no session, channel, table or event.\<close>

lemma sound_unchanged:
  "gw_objects w' = gw_objects w \<Longrightarrow> gw_channels w' = gw_channels w \<Longrightarrow> gw_sessions w' = gw_sessions w \<Longrightarrow>
     gw_emitted w' = gw_emitted w \<Longrightarrow> gw_contexts w' = gw_contexts w \<Longrightarrow> gw_cancelled w' = gw_cancelled w \<Longrightarrow>
     provider_sound w' R = provider_sound w R"
  by (simp add: sound_defs marks_of_def turn_ends_def filled_def context_marks_def)

lemma obedient_unchanged:
  assumes "\<And>x w. \<exists>w' p. f x w = Some (w', p) \<and> gw_objects w' = gw_objects w \<and> gw_channels w' = gw_channels w
      \<and> gw_sessions w' = gw_sessions w \<and> gw_emitted w' = gw_emitted w
      \<and> gw_contexts w' = gw_contexts w \<and> gw_cancelled w' = gw_cancelled w \<and> obedient K R p"
  shows "obedient K R (Acts Free f)"
proof (rule obedient_acts)
  fix x w w' p C
  assume a: "\<forall>o' \<in> K. o' < length (gw_objects w)" "provider_sound w (R + C)" "f x w = Some (w', p)"
  then have "gw_objects w' = gw_objects w" "gw_channels w' = gw_channels w" "gw_sessions w' = gw_sessions w"
    "gw_emitted w' = gw_emitted w" "gw_contexts w' = gw_contexts w" "gw_cancelled w' = gw_cancelled w" "obedient K R p"
    using assms [of x w] by auto
  then show "agents_kept w w' \<and> (\<exists>K' R'. (\<forall>o' \<in> K'. o' < length (gw_objects w')) \<and> provider_sound w' (R' + C) \<and> obedient K' R' p)"
    using a sound_unchanged [of w' w "R + C"] agents_kept_objects [of w' w]
    by (intro conjI exI [of _ K] exI [of _ R]) simp_all
next
  fix w show "\<exists>x. f x w \<noteq> None" using assms [of undefined w] by auto
qed simp

section \<open>The sections of the adapter\<close>

named_theorems obeys_rules \<open>sections and methods keep to their rights\<close>

lemma session_kept_refl: "(gs_restarting s \<longrightarrow> gs_turnID s = []) \<Longrightarrow> session_kept o' s R s R"
  by (simp add: session_kept_def)

lemma restarting_no_turn:
  "provider_sound w R \<Longrightarrow> o' < length (gw_objects w) \<Longrightarrow> gs_restarting (gw_objects w ! o') \<Longrightarrow> gs_turnID (gw_objects w ! o') = []"
  by (simp add: sound_defs)

lemma look_locked: "look o' g k = locked o' (\<lambda>s. (g s, s)) k"
  by (simp add: look_def locked_def fun_eq_iff)

lemma obedient_look [obeys_rules]:
  assumes "o' \<in> K" and "\<And>v. obedient K R (k v)"
  shows "obedient K R (look o' g k)"
  unfolding look_locked
proof (rule obedient_locked [OF assms(1)])
  fix w C v s'
  assume "provider_sound w (R + C)" "o' < length (gw_objects w)" "(g (gw_objects w ! o'), gw_objects w ! o') = (v, s')"
  then show "\<exists>R'. session_kept o' (gw_objects w ! o') R s' R' \<and> obedient K R' (k v)"
    using assms(2) restarting_no_turn session_kept_refl by (intro exI [of _ R]) auto
qed

text \<open>A section that leaves the rights as they are.\<close>

lemma obedient_locked_same:
  assumes "o' \<in> K" and "\<And>v. obedient K R (k v)"
    and "\<And>s. let s' = snd (g s) in gs_agent s' = gs_agent s \<and> gs_turn s' = gs_turn s \<and> (gs_turnID s', gs_turnCancel s') = (gs_turnID s, gs_turnCancel s)
      \<and> gs_restarting s' = gs_restarting s \<and> gs_ready s' = gs_ready s \<and> (\<forall>n. waiting_answers s' n \<le> waiting_answers s n)"
  shows "obedient K R (locked o' g k)"
proof (rule obedient_locked [OF assms(1)])
  fix w C v s'
  assume s: "provider_sound w (R + C)" "o' < length (gw_objects w)" "g (gw_objects w ! o') = (v, s')"
  have "gs_agent s' = gs_agent (gw_objects w ! o') \<and> gs_turn s' = gs_turn (gw_objects w ! o')
      \<and> gs_turnID s' = gs_turnID (gw_objects w ! o') \<and> gs_turnCancel s' = gs_turnCancel (gw_objects w ! o')
      \<and> gs_restarting s' = gs_restarting (gw_objects w ! o') \<and> gs_ready s' = gs_ready (gw_objects w ! o')
      \<and> (\<forall>n. waiting_answers s' n \<le> waiting_answers (gw_objects w ! o') n)"
    using assms(3) [of "gw_objects w ! o'"] s(3) by (simp add: Let_def)
  then have "session_kept o' (gw_objects w ! o') R s' R"
    using restarting_no_turn [OF s(1,2)] by (auto simp: session_kept_def has_turn_def)
  then show "\<exists>R'. session_kept o' (gw_objects w ! o') R s' R' \<and> obedient K R' (k v)" using assms(2) by blast
qed

lemma obedient_provider [obeys_rules]: "(\<And>x. obedient K R (k x)) \<Longrightarrow> obedient K R (provider a c k)"
  unfolding provider_def by (rule obedient_unchanged) simp

lemma obedient_returns [obeys_rules]: "obedient K {#} (Returns r)"
  by (rule keeps.returns)

lemma obedient_await [obeys_rules]:
  assumes "o' \<in> K" and "\<forall>r \<in># R. \<not> starts r" and "obedient K R k"
  shows "obedient K R (await_ready o' k)"
  unfolding await_ready_def
proof (rule obedient_acts)
  fix x w w' p C
  assume K: "\<forall>o' \<in> K. o' < length (gw_objects w)" and s: "provider_sound w (R + C)"
    and st: "(if o' < length (gw_objects w) \<and> gs_ready (gw_objects w ! o') then Some (w, k) else None) = Some (w', p)"
  then have "w' = w" "p = k" by (auto split: if_splits)
  then show "agents_kept w w' \<and> (\<exists>K' R'. (\<forall>o' \<in> K'. o' < length (gw_objects w')) \<and> provider_sound w' (R' + C) \<and> obedient K' R' p)"
    using K s assms(3) by (intro conjI exI [of _ K] exI [of _ R]) simp_all
qed (use assms in auto)

section \<open>Events\<close>

lemma sound_same_sessions:
  assumes "provider_sound w R" and "gw_objects w' = gw_objects w" and "gw_sessions w' = gw_sessions w"
    and "\<And>n t. marks_of w' R' n t \<le> marks_of w R n t"
    and "\<And>n. count R' (Restarting n) = count R (Restarting n)" and "\<And>n. count R' (Starting n) = count R (Starting n)"
    and "\<And>n. count R' (Answering n) + filled w' n \<le> count R (Answering n) + filled w n"
    and "\<And>c. count R' (Cancelling c) + (if c \<in> set (gw_cancelled w') then 1 else 0)
      \<le> count R (Cancelling c) + (if c \<in> set (gw_cancelled w) then 1 else (0::nat))"
    and "gw_contexts w' = gw_contexts w"
    and "\<And>n t c. n < length (gw_objects w) \<Longrightarrow> gs_turnID (gw_objects w ! n) = t \<Longrightarrow> gs_turnCancel (gw_objects w ! n) = Some c \<Longrightarrow>
      Prompting n t c \<in># R \<Longrightarrow> Prompting n t c \<in># R'"
  shows "provider_sound w' R'"
proof -
  note old = assms(1) [unfolded provider_sound_def]
  have "turn_sound w' R'"
    unfolding turn_sound_def assms(2)
  proof (intro allI conjI impI)
    fix n t
    have o: "marks_of w R n t \<le> 1"
      "marks_of w R n t > 0 \<Longrightarrow> n < length (gw_objects w) \<and> (\<exists>b m. t = turn_id b m \<and> m \<le> gs_turn (gw_objects w ! n))"
      using old by (simp_all add: turn_sound_def)
    show "marks_of w' R' n t \<le> 1" using assms(4) [of n t] o(1) by linarith
    assume "marks_of w' R' n t > 0"
    then have "marks_of w R n t > 0" using assms(4) [of n t] by (rule order_less_le_trans)
    then show "n < length (gw_objects w)" "\<exists>b m. t = turn_id b m \<and> m \<le> gs_turn (gw_objects w ! n)" using o(2) by blast+
  qed
  moreover have "restart_sound w' R'" "start_sound w' R'" "table_sound w'"
    using old assms(2,3,5,6) by (simp_all add: restart_sound_def start_sound_def table_sound_def)
  moreover have "answer_sound w' R'"
    unfolding answer_sound_def
  proof
    fix n
    have "count R (Answering n) + sum_list (map (\<lambda>s. waiting_answers s n) (gw_objects w)) + filled w n \<le> 1"
      using old by (simp add: answer_sound_def)
    then show "count R' (Answering n) + sum_list (map (\<lambda>s. waiting_answers s n) (gw_objects w')) + filled w' n \<le> 1"
      using assms(7) [of n] by (simp add: assms(2))
  qed
  moreover have "prompt_sound w' R'"
    unfolding prompt_sound_def assms(2)
  proof (intro conjI allI impI)
    fix c
    have "context_marks w R c \<le> 1" using old by (simp add: prompt_sound_def)
    then show "context_marks w' R' c \<le> 1"
      using assms(8) [of c] unfolding context_marks_def assms(2,9) by linarith
  next
    fix n
    assume n: "n < length (gw_objects w)"
    then have "turn_running R n (gw_objects w ! n)" using old by (simp add: prompt_sound_def)
    then show "turn_running R' n (gw_objects w ! n)" using assms(10) [OF n] by (auto simp: turn_running_def)
  qed
  ultimately show ?thesis by (simp add: provider_sound_def)
qed

definition cancelling :: "nat option \<Rightarrow> provider_right multiset" where
  "cancelling c = (case c of None \<Rightarrow> {#} | Some n \<Rightarrow> {#Cancelling n#})"

lemma obedient_cancels:
  assumes "obedient K R k"
  shows "obedient K (cancelling c + R) (cancels c k)"
  unfolding cancels_def
proof (rule obedient_acts)
  fix x and w w' :: AntigravityWorld and p C
  assume K: "\<forall>o' \<in> K. o' < length (gw_objects w)" and s: "provider_sound w (cancelling c + R + C)"
    and st: "Some (case c of None \<Rightarrow> w | Some n \<Rightarrow> w\<lparr>gw_cancelled := n # gw_cancelled w\<rparr>, k) = Some (w', p)"
  have "provider_sound w' (R + C)"
    by (rule sound_same_sessions [OF s])
      (use st in \<open>auto simp: cancelling_def marks_of_def turn_ends_def filled_def split: option.splits\<close>)
  moreover have "gw_objects w' = gw_objects w" using st by (auto split: option.split)
  ultimately show "agents_kept w w' \<and> (\<exists>K' R'. (\<forall>o' \<in> K'. o' < length (gw_objects w')) \<and> provider_sound w' (R' + C) \<and> obedient K' R' p)"
    using K st assms agents_kept_objects [of w' w] by (intro conjI exI [of _ K] exI [of _ R]) auto
qed auto

lemma not_cancelled:
  assumes "provider_sound w R" and "o' < length (gw_objects w)" and "gs_turnCancel (gw_objects w ! o') = Some c"
  shows "c \<notin> set (gw_cancelled w)"
proof -
  have "(if gs_turnCancel (gw_objects w ! o') = Some c then 1 else 0)
      \<le> sum_list (map (\<lambda>s. if gs_turnCancel s = Some c then 1 else (0::nat)) (gw_objects w))"
    using assms(2) elem_le_sum_list [of o' "map (\<lambda>s. if gs_turnCancel s = Some c then 1 else (0::nat)) (gw_objects w)"] by simp
  moreover have "context_marks w R c \<le> 1" using assms(1) by (simp add: provider_sound_def prompt_sound_def)
  ultimately show ?thesis using assms(3) by (auto simp: context_marks_def split: if_splits)
qed

text \<open>A prompt whose context is cancelled is not that of the session's turn.\<close>

lemma obedient_if_running:
  assumes "obedient K {#Prompting o' t c#} k"
  shows "obedient K {#Prompting o' t c#} (if_running c k)"
  unfolding if_running_def
proof (rule obedient_acts)
  fix x and w w' :: AntigravityWorld and p C
  assume K: "\<forall>o' \<in> K. o' < length (gw_objects w)" and s: "provider_sound w ({#Prompting o' t c#} + C)"
    and st: "Some (w, if c \<in> set (gw_cancelled w) then Returns (PUnit None) else k) = Some (w', p)"
  show "agents_kept w w' \<and> (\<exists>K' R'. (\<forall>o' \<in> K'. o' < length (gw_objects w')) \<and> provider_sound w' (R' + C) \<and> obedient K' R' p)"
  proof (cases "c \<in> set (gw_cancelled w)")
    case True
    have "provider_sound w ({#} + C)"
      by (rule sound_same_sessions [OF s]) (use True not_cancelled [OF s] in \<open>auto simp: marks_of_def\<close>)
    then show ?thesis using st K True by (intro conjI exI [of _ K] exI [of _ "{#}"]) (auto intro: keeps.returns)
  next
    case False
    then show ?thesis using st K s assms by (intro conjI exI [of _ K] exI [of _ "{#Prompting o' t c#}"]) auto
  qed
qed auto

lemma translated_type: "translateUpdate sprint u = Some e \<Longrightarrow> \<not> ends_turn (ev_Type e)"
  by (auto simp: translateUpdate_def provider_delta_def provider_tool_event_def provider_config_event_def ends_turn_def
      new_event_def Let_def split: if_splits prod.splits)

lemma obedient_emits [obeys_rules]:
  assumes "\<not> ends_turn (ev_Type e)" and "obedient K R k"
  shows "obedient K R (emits o' sink e k)"
  unfolding emits_def
proof (rule obedient_acts)
  fix x w w' p C
  assume K: "\<forall>o' \<in> K. o' < length (gw_objects w)" and s: "provider_sound w (R + C)"
    and st: "Some (w\<lparr>gw_emitted := gw_emitted w @ [(o', sink, e)]\<rparr>, k) = Some (w', p)"
  have "provider_sound w' (R + C)"
    by (rule sound_same_sessions [OF s]) (use st assms(1) in \<open>auto simp: marks_of_def turn_ends_def filled_def\<close>)
  then show "agents_kept w w' \<and> (\<exists>K' R'. (\<forall>o' \<in> K'. o' < length (gw_objects w')) \<and> provider_sound w' (R' + C) \<and> obedient K' R' p)"
    using K st assms(2) agents_kept_objects [of w' w] by (intro conjI exI [of _ K] exI [of _ R]) auto
qed auto

lemma obedient_emits_end:
  assumes "ends_turn (ev_Type e)" and "ev_BackendTurnID e = t" and "obedient K R k"
  shows "obedient K (add_mset (EndTurn o' t) R) (emits o' sink e k)"
  unfolding emits_def
proof (rule obedient_acts)
  fix x w w' p C
  assume K: "\<forall>o' \<in> K. o' < length (gw_objects w)" and s: "provider_sound w (add_mset (EndTurn o' t) R + C)"
    and st: "Some (w\<lparr>gw_emitted := gw_emitted w @ [(o', sink, e)]\<rparr>, k) = Some (w', p)"
  have "provider_sound w' (R + C)"
    by (rule sound_same_sessions [OF s]) (use st assms(1,2) in \<open>auto simp: marks_of_def turn_ends_def filled_def\<close>)
  then show "agents_kept w w' \<and> (\<exists>K' R'. (\<forall>o' \<in> K'. o' < length (gw_objects w')) \<and> provider_sound w' (R' + C) \<and> obedient K' R' p)"
    using K st assms(3) agents_kept_objects [of w' w] by (intro conjI exI [of _ K] exI [of _ R]) auto
qed auto

lemma completed_fields [simp]:
  "ev_Type (completed_event b e) = ev_Type e" "ev_BackendTurnID (completed_event b e) = ev_BackendTurnID e"
  by (simp_all add: completed_event_def Let_def)

lemma obedient_emit [obeys_rules]:
  "o' \<in> K \<Longrightarrow> \<not> ends_turn (ev_Type e) \<Longrightarrow> obedient K R k \<Longrightarrow> obedient K R (provider_emit o' e k)"
  unfolding provider_emit_def
  by (rule obedient_look) (auto split: option.split intro!: obedient_look obedient_emits)

lemma obedient_emit_all [obeys_rules]:
  "o' \<in> K \<Longrightarrow> \<forall>e \<in> set es. \<not> ends_turn (ev_Type e) \<Longrightarrow> obedient K R k \<Longrightarrow> obedient K R (provider_emit_all o' es k)"
  by (induction es) (auto intro: obedient_emit)

lemma obedient_config [obeys_rules]:
  assumes "o' \<in> K" and "obedient K R k"
  shows "obedient K R (emit_provider_config o' opts k)"
proof -
  have "\<forall>e \<in> set (provider_config_events opts). \<not> ends_turn (ev_Type e)"
    by (auto simp: provider_config_events_def provider_config_event_def ends_turn_def new_event_def split: prod.split)
  then show ?thesis unfolding emit_provider_config_def using assms obedient_emit_all by blast
qed

text \<open>The event that ends a turn uses the right to end it, or leaves it when nobody listens.\<close>

lemma obedient_emit_end:
  assumes "o' \<in> K" and "ends_turn (ev_Type e)" and "ev_BackendTurnID e = t" and "t \<noteq> []" and "obedient K R k"
  shows "obedient K (add_mset (EndTurn o' t) R) (provider_emit o' e k)"
  unfolding provider_emit_def look_locked
proof (rule obedient_locked [OF assms(1)])
  fix w C v s'
  assume s: "provider_sound w (add_mset (EndTurn o' t) R + C)" "o' < length (gw_objects w)"
    and v: "((gs_emit (gw_objects w ! o'), gs_backendID (gw_objects w ! o')), gw_objects w ! o') = (v, s')"
  let ?s = "gw_objects w ! o'"
  have kept: "session_kept o' ?s (add_mset (EndTurn o' t) R) ?s R'"
    if "R' = R \<or> R' = add_mset (EndTurn o' t) R" for R'
    using that restarting_no_turn [OF s] by (auto simp: session_kept_def)
  show "\<exists>R'. session_kept o' ?s (add_mset (EndTurn o' t) R) s' R' \<and>
     obedient K R' (case v of (sink, b) \<Rightarrow> case sink of None \<Rightarrow> k | Some n \<Rightarrow>
         if ev_BackendTurnID e = []
         then locked o' (\<lambda>s. (gs_turnID s, s)) (\<lambda>t. emits o' n ((completed_event b e)\<lparr>ev_BackendTurnID := t\<rparr>) k)
         else emits o' n (completed_event b e) k)"
  proof (cases "gs_emit ?s")
    case None
    then show ?thesis using v kept assms(5) by (intro exI [of _ R]) auto
  next
    case (Some n)
    then show ?thesis
      using v kept assms by (intro exI [of _ "add_mset (EndTurn o' t) R"]) (auto intro!: obedient_emits_end)
  qed
qed

section \<open>Turns\<close>

lemma obedient_take_turn:
  assumes "o' \<in> K" and "\<And>t c. obedient K (if t = [] then R else cancelling c + add_mset (EndTurn o' t) R) (k t c)"
  shows "obedient K R (provider_take_turn o' k)"
  unfolding provider_take_turn_def
proof (rule obedient_locked [OF assms(1)])
  fix w C v s'
  assume s: "provider_sound w (R + C)" "o' < length (gw_objects w)"
    and g: "((gs_turnID (gw_objects w ! o'), gs_turnCancel (gw_objects w ! o')), (gw_objects w ! o')\<lparr>gs_turnID := [], gs_turnCancel := None\<rparr>) = (v, s')"
  let ?t = "gs_turnID (gw_objects w ! o')" and ?c = "gs_turnCancel (gw_objects w ! o')"
  let ?R = "if ?t = [] then R else cancelling ?c + add_mset (EndTurn o' ?t) R"
  have "session_kept o' (gw_objects w ! o') R s' ?R"
    using g by (auto simp: session_kept_def has_turn_def waiting_answers_def cancelling_def split: option.split)
  moreover have "obedient K ?R (case v of (t, c) \<Rightarrow> k t c)" using g assms(2) [of ?t ?c] by auto
  ultimately show "\<exists>R'. session_kept o' (gw_objects w ! o') R s' R' \<and> obedient K R' (case v of (t, c) \<Rightarrow> k t c)" by blast
qed

lemma obedient_drop_turn:
  assumes "o' \<in> K" and "\<And>t c. obedient K (cancelling c + R) (k t c)"
  shows "obedient K R (provider_take_turn o' k)"
  unfolding provider_take_turn_def
proof (rule obedient_locked [OF assms(1)])
  fix w C v s'
  assume s: "provider_sound w (R + C)" "o' < length (gw_objects w)"
    and g: "((gs_turnID (gw_objects w ! o'), gs_turnCancel (gw_objects w ! o')), (gw_objects w ! o')\<lparr>gs_turnID := [], gs_turnCancel := None\<rparr>) = (v, s')"
  let ?c = "gs_turnCancel (gw_objects w ! o')"
  have "session_kept o' (gw_objects w ! o') R s' (cancelling ?c + R)"
    using g by (auto simp: session_kept_def has_turn_def waiting_answers_def cancelling_def split: option.split)
  moreover have "obedient K (cancelling ?c + R) (case v of (t, c) \<Rightarrow> k t c)" using g assms(2) by auto
  ultimately show "\<exists>R'. session_kept o' (gw_objects w ! o') R s' R' \<and> obedient K R' (case v of (t, c) \<Rightarrow> k t c)" by blast
qed

text \<open>The goroutine that ran the prompt ends the turn, or finds that the turn is another one.\<close>

lemma obedient_finish_turn:
  assumes "o' \<in> K" and "obedient K R (k False)" and "t \<noteq> [] \<Longrightarrow> obedient K (add_mset (EndTurn o' t) R) (k True)" and "t \<noteq> []"
  shows "obedient K (add_mset (Prompting o' t c) R) (provider_finish_turn o' t k)"
  unfolding provider_finish_turn_def
proof (rule obedient_locked [OF assms(1)])
  fix w :: AntigravityWorld and C v s'
  let ?s = "gw_objects w ! o'" and ?R = "add_mset (Prompting o' t c) R"
  assume s: "provider_sound w (?R + C)" "o' < length (gw_objects w)"
    and g: "(if t = [] \<or> gs_turnID ?s \<noteq> t then (None, ?s)
       else (Some (gs_turnCancel ?s), ?s\<lparr>gs_turnID := [], gs_turnCancel := None\<rparr>)) = (v, s')"
  show "\<exists>R'. session_kept o' ?s ?R s' R' \<and> obedient K R' (case v of None \<Rightarrow> k False | Some c \<Rightarrow> cancels c (k True))"
  proof (cases "gs_turnID ?s \<noteq> t")
    case True
    then have "session_kept o' ?s ?R s' R" using g restarting_no_turn [OF s] by (auto simp: session_kept_def)
    then show ?thesis using g True assms(2) by auto
  next
    case False
    let ?R' = "cancelling (gs_turnCancel ?s) + add_mset (EndTurn o' t) R"
    have v: "v = Some (gs_turnCancel ?s)" "s' = ?s\<lparr>gs_turnID := [], gs_turnCancel := None\<rparr>" using g False assms(4) by auto
    have "session_kept o' ?s ?R s' ?R'"
      using False assms(4) by (auto simp: v(2) session_kept_def has_turn_def waiting_answers_def cancelling_def split: option.split)
    moreover have "obedient K ?R' (cancels (gs_turnCancel ?s) (k True))" by (rule obedient_cancels [OF assms(3) [OF assms(4)]])
    ultimately show ?thesis unfolding v(1) by auto
  qed
qed

section \<open>Interactions\<close>

lemma sound_filled:
  assumes "provider_sound w (add_mset (Answering n) R)"
  shows "n < length (gw_channels w) \<and> gw_channels w ! n = None" and "provider_sound (fill_channel n r w) R"
proof -
  have a: "count (add_mset (Answering n) R) (Answering m) + sum_list (map (\<lambda>s. waiting_answers s m) (gw_objects w)) + filled w m \<le> 1" for m
    using assms by (simp add: sound_defs)
  from a [of n] show n: "n < length (gw_channels w) \<and> gw_channels w ! n = None" by (auto simp: filled_def split: if_splits)
  show "provider_sound (fill_channel n r w) R"
    by (rule sound_same_sessions [OF assms])
      (use n in \<open>auto simp: fill_channel_def marks_of_def turn_ends_def filled_def\<close>)
qed

lemma obedient_send_cancels: "obedient K R k \<Longrightarrow> obedient K (mset (map Answering ns) + R) (send_cancels ns k)"
proof (induction ns)
  case (Cons n ns)
  show ?case
    unfolding send_cancels.simps
  proof (rule obedient_acts)
    fix x w w' p C
    assume K: "\<forall>o' \<in> K. o' < length (gw_objects w)" and s: "provider_sound w (mset (map Answering (n # ns)) + R + C)"
      and st: "Some (if n < length (gw_channels w) \<and> gw_channels w ! n = None then fill_channel n cancel_answer w else w,
           send_cancels ns k) = Some (w', p)"
    have s': "provider_sound w (add_mset (Answering n) (mset (map Answering ns) + R + C))" using s by simp
    then have "w' = fill_channel n cancel_answer w" "p = send_cancels ns k" using st sound_filled(1) by auto
    then show "agents_kept w w' \<and> (\<exists>K' R'. (\<forall>o' \<in> K'. o' < length (gw_objects w')) \<and> provider_sound w' (R' + C) \<and> obedient K' R' p)"
      using sound_filled(2) [OF s'] K Cons agents_kept_objects [of w' w]
      by (intro conjI exI [of _ K] exI [of _ "mset (map Answering ns) + R"]) (auto simp: fill_channel_def)
  qed auto
qed simp

lemma count_answering: "count (mset (map Answering ns)) (Answering n) = count (mset ns) n"
  by (induction ns) auto

lemma count_answering_none [simp]:
  "count (mset (map Answering ns)) (EndTurn o' t) = 0" "count (mset (map Answering ns)) (Restarting o') = 0"
  "count (mset (map Answering ns)) (Starting o') = 0"
  by (induction ns) auto

lemma obedient_cancel_interactions [obeys_rules]:
  assumes "o' \<in> K" and "obedient K R k"
  shows "obedient K R (cancel_interactions o' k)"
  unfolding cancel_interactions_def
proof (rule obedient_locked [OF assms(1)])
  fix w :: AntigravityWorld and C v s'
  let ?s = "gw_objects w ! o'"
  assume s: "provider_sound w (R + C)" "o' < length (gw_objects w)"
    and g: "(map snd (gs_interactions ?s), ?s\<lparr>gs_interactions := []\<rparr>) = (v, s')"
  have "session_kept o' ?s R s' (mset (map Answering v) + R)"
    using g restarting_no_turn [OF s] by (auto simp: session_kept_def has_turn_def waiting_answers_def count_answering simp del: mset_map)
  then show "\<exists>R'. session_kept o' ?s R s' R' \<and> obedient K R' (send_cancels v k)"
    using obedient_send_cancels [OF assms(2)] by blast
qed

lemma obedient_stop [obeys_rules]:
  assumes "o' \<in> K" and "obedient K R k"
  shows "obedient K R (provider_stop o' k)"
  unfolding provider_stop_def
  by (rule obedient_locked_same [OF assms(1)])
    (auto simp: waiting_answers_def assms intro!: obedient_drop_turn obedient_cancels obeys_rules)

end
