(* ===== verification/Antigravity_Programs.thy ===== *)
theory Antigravity_Programs
  imports Antigravity_Rights
begin

text \<open>
  Every method and callback of the Antigravity adapter keeps to its rights.
\<close>

section \<open>Sessions\<close>

lemma obedient_lookup [obeys_rules]:
  assumes "\<And>K' e. K \<subseteq> K' \<Longrightarrow> obedient K' R (fail e)" and "\<And>o'. obedient (insert o' K) R (k o')"
    and "\<forall>r \<in># R. \<not> starts r"
  shows "obedient K R (with_provider_session sid fail k)"
  unfolding with_provider_session_def
proof (rule obedient_acts)
  fix x and w w' :: AntigravityWorld and p C
  assume K: "\<forall>o' \<in> K. o' < length (gw_objects w)" and s: "provider_sound w (R + C)"
    and st: "Some (w, case map_of (gw_sessions w) sid of
       None \<Rightarrow> fail (SessionNotFound sid)
     | Some o' \<Rightarrow> await_ready o' (look o' gs_startErr (\<lambda>e. case e of
         Some err \<Rightarrow> fail (FailedToStart sid err) | None \<Rightarrow> k o'))) = Some (w', p)"
  show "agents_kept w w' \<and> (\<exists>K' R'. (\<forall>o' \<in> K'. o' < length (gw_objects w')) \<and> provider_sound w' (R' + C) \<and> obedient K' R' p)"
  proof (cases "map_of (gw_sessions w) sid")
    case None
    then show ?thesis using st K s assms(1) by (intro conjI exI [of _ K] exI [of _ R]) auto
  next
    case (Some o')
    then have "o' < length (gw_objects w)" using s map_of_SomeD by (fastforce simp: provider_sound_def table_sound_def)
    moreover have "obedient (insert o' K) R (fail e)" for e by (rule assms(1)) auto
    then have "obedient (insert o' K) R p"
      using st Some assms(2,3) by (auto split: option.split intro!: obedient_await obedient_look)
    ultimately show ?thesis using st K s by (intro conjI exI [of _ "insert o' K"] exI [of _ R]) auto
  qed
qed (use assms in auto)

lemma obedient_create [obeys_rules]:
  assumes "\<And>e. obedient K R (fail e)" and "\<And>a. obedient K R (k a)"
  shows "obedient K R (createAgent cf worktree fail k)"
  unfolding createAgent_def
  by (rule obedient_unchanged) (simp add: assms split: sum.split option.split)

lemma obedient_finish_start [obeys_rules]:
  assumes "o' \<in> K" and "obedient K R k"
  shows "obedient K (add_mset (Starting o') R) (finishStart o' e k)"
  unfolding finishStart_def
proof (rule obedient_locked [OF assms(1)])
  fix w :: AntigravityWorld and C s' and v :: unit
  let ?s = "gw_objects w ! o'"
  assume s: "provider_sound w (add_mset (Starting o') R + C)" "o' < length (gw_objects w)"
    and g: "((), if gs_ready ?s then ?s else ?s\<lparr>gs_startErr := e, gs_ready := True\<rparr>) = (v, s')"
  have "count (add_mset (Starting o') R + C) (Starting o') = (if \<not> gs_ready ?s then 1 else 0)"
    using s by (simp only: provider_sound_def start_sound_def) simp
  then have "\<not> gs_ready ?s" by (simp split: if_splits)
  then have "session_kept o' ?s (add_mset (Starting o') R) s' R"
    using g restarting_no_turn [OF s] by (auto simp: session_kept_def has_turn_def waiting_answers_def)
  then show "\<exists>R'. session_kept o' ?s (add_mset (Starting o') R) s' R' \<and> obedient K R' k" using assms(2) by blast
qed

lemma sound_table:
  assumes "provider_sound w R" and "\<forall>(sid, o') \<in> set ss. o' < length (gw_objects w)"
  shows "provider_sound (w\<lparr>gw_sessions := ss\<rparr>) R"
proof -
  have m: "marks_of (w\<lparr>gw_sessions := ss\<rparr>) R n t = marks_of w R n t" for n t
    by (simp add: marks_of_def turn_ends_def)
  note old = assms(1) [unfolded provider_sound_def]
  have "turn_sound (w\<lparr>gw_sessions := ss\<rparr>) R" using old unfolding turn_sound_def m by simp
  moreover have "restart_sound (w\<lparr>gw_sessions := ss\<rparr>) R" using old by (simp add: restart_sound_def)
  moreover have "start_sound (w\<lparr>gw_sessions := ss\<rparr>) R" using old by (simp add: start_sound_def)
  moreover have "answer_sound (w\<lparr>gw_sessions := ss\<rparr>) R" using old by (simp add: answer_sound_def filled_def)
  moreover have "prompt_sound (w\<lparr>gw_sessions := ss\<rparr>) R" using old by (simp add: prompt_sound_def context_marks_def)
  moreover have "table_sound (w\<lparr>gw_sessions := ss\<rparr>)" using assms(2) by (simp add: table_sound_def)
  ultimately show ?thesis by (simp add: provider_sound_def)
qed

lemma sound_deleted: "provider_sound w R \<Longrightarrow> provider_sound (w\<lparr>gw_sessions := map_del sid (gw_sessions w)\<rparr>) R"
  by (rule sound_table) (auto simp: provider_sound_def table_sound_def map_del_def)

lemma obedient_remove [obeys_rules]:
  assumes "o' \<in> K" and "obedient K R k"
  shows "obedient K R (remove_session sid o' k)"
  unfolding remove_session_def
proof (rule obedient_acts)
  fix x and w w' :: AntigravityWorld and p C
  assume K: "\<forall>o' \<in> K. o' < length (gw_objects w)" and s: "provider_sound w (R + C)"
    and st: "Some (if map_of (gw_sessions w) sid = Some o' then w\<lparr>gw_sessions := map_del sid (gw_sessions w)\<rparr> else w,
     provider_stop o' k) = Some (w', p)"
  have "provider_sound w' (R + C)" using s sound_deleted [OF s, of sid] st by (cases "map_of (gw_sessions w) sid = Some o'") auto
  then show "agents_kept w w' \<and> (\<exists>K' R'. (\<forall>o' \<in> K'. o' < length (gw_objects w')) \<and> provider_sound w' (R' + C) \<and> obedient K' R' p)"
    using K st obedient_stop [OF assms] agents_kept_objects [of w' w] by (intro conjI exI [of _ K] exI [of _ R]) auto
qed auto

lemma obedient_finish_restart [obeys_rules]:
  assumes "o' \<in> K" and "obedient K R k"
  shows "obedient K (add_mset (Restarting o') R) (finishRestart o' k)"
  unfolding finishRestart_def
proof (rule obedient_locked [OF assms(1)])
  fix w :: AntigravityWorld and C s' and v :: unit
  let ?s = "gw_objects w ! o'"
  assume s: "provider_sound w (add_mset (Restarting o') R + C)" "o' < length (gw_objects w)"
    and g: "((), ?s\<lparr>gs_restarting := False\<rparr>) = (v, s')"
  have "count (add_mset (Restarting o') R + C) (Restarting o') = (if gs_restarting ?s then 1 else 0)"
    using s by (simp only: provider_sound_def restart_sound_def) simp
  then have "gs_restarting ?s" by (simp split: if_splits)
  then have "session_kept o' ?s (add_mset (Restarting o') R) s' R"
    using g by (auto simp: session_kept_def has_turn_def waiting_answers_def)
  then show "\<exists>R'. session_kept o' ?s (add_mset (Restarting o') R) s' R' \<and> obedient K R' k" using assms(2) by blast
qed

lemma obedient_begin_restart:
  assumes "o' \<in> K" and "obedient K R (k True)" and "obedient K (add_mset (Restarting o') R) (k False)"
  shows "obedient K R (locked o' (\<lambda>s. if gs_turnID s \<noteq> [] \<or> gs_restarting s then (True, s) else (False, s\<lparr>gs_restarting := True\<rparr>)) k)"
proof (rule obedient_locked [OF assms(1)])
  fix w :: AntigravityWorld and C s' v
  let ?s = "gw_objects w ! o'"
  assume s: "provider_sound w (R + C)" "o' < length (gw_objects w)"
    and g: "(if gs_turnID ?s \<noteq> [] \<or> gs_restarting ?s then (True, ?s) else (False, ?s\<lparr>gs_restarting := True\<rparr>)) = (v, s')"
  show "\<exists>R'. session_kept o' ?s R s' R' \<and> obedient K R' (k v)"
  proof (cases "gs_turnID ?s \<noteq> [] \<or> gs_restarting ?s")
    case True
    then have v: "v = True" "s' = ?s" using g by auto
    have "session_kept o' ?s R ?s R" by (rule session_kept_refl) (use restarting_no_turn [OF s] in blast)
    then show ?thesis using assms(2) unfolding v by blast
  next
    case False
    then have v: "v = False" "s' = ?s\<lparr>gs_restarting := True\<rparr>" using g by auto
    have "session_kept o' ?s R s' (add_mset (Restarting o') R)"
      using False by (simp add: v(2) session_kept_def has_turn_def waiting_answers_def)
    then show ?thesis using v(1) assms(3) by blast
  qed
qed

lemma sound_agent:
  assumes "provider_sound w R" and "o' < length (gw_objects w)"
  shows "provider_sound (w\<lparr>gw_objects := (gw_objects w)[o' := (gw_objects w ! o')\<lparr>gs_agent := a\<rparr>]\<rparr>) R"
proof -
  let ?ss = "(gw_objects w)[o' := (gw_objects w ! o')\<lparr>gs_agent := a\<rparr>]"
  have f: "f (?ss ! n) = f (gw_objects w ! n)" if "\<And>s. f (s\<lparr>gs_agent := a\<rparr>) = f s" for n and f :: "AntigravitySession \<Rightarrow> 'b"
    by (cases "n = o'") (simp_all add: assms(2) that)
  have t: "has_turn (?ss ! n) t = has_turn (gw_objects w ! n) t" for n t
    by (rule f [of "\<lambda>s. has_turn s t"]) (simp add: has_turn_def)
  have a: "map (\<lambda>s. waiting_answers s n) ?ss = map (\<lambda>s. waiting_answers s n) (gw_objects w)" for n
    using assms(2) by (simp add: map_update waiting_answers_def list_update_same_conv)
  let ?w = "w\<lparr>gw_objects := ?ss\<rparr>"
  have m: "marks_of ?w R n u = marks_of w R n u" for n u by (simp add: marks_of_def turn_ends_def t)
  note old = assms(1) [unfolded provider_sound_def]
  have "turn_sound ?w R" using old f [of gs_turn] unfolding turn_sound_def m by simp
  moreover have "restart_sound ?w R" using old f [of gs_restarting] f [of gs_turnID] by (simp add: restart_sound_def)
  moreover have "start_sound ?w R" using old f [of gs_ready] by (simp add: start_sound_def)
  moreover have "answer_sound ?w R" using old a by (simp add: answer_sound_def filled_def)
  moreover have "map (\<lambda>s. if gs_turnCancel s = Some c then 1 else (0::nat)) ?ss = map (\<lambda>s. if gs_turnCancel s = Some c then 1 else 0) (gw_objects w)" for c
    using assms(2) by (simp add: map_update list_update_same_conv)
  then have "context_marks ?w R c = context_marks w R c" for c by (simp add: context_marks_def)
  then have "prompt_sound ?w R" using old f [of gs_turnID] f [of gs_turnCancel] by (simp add: prompt_sound_def turn_running_def)
  moreover have "table_sound ?w" using old by (simp add: table_sound_def)
  ultimately show ?thesis by (simp add: provider_sound_def)
qed

lemma obedient_replace_agent [obeys_rules]:
  assumes "o' \<in> K" and "\<And>b. obedient K (add_mset (Restarting o') R) (k b)"
  shows "obedient K (add_mset (Restarting o') R) (replace_agent sid o' a k)"
  unfolding replace_agent_def
proof (rule obedient_acts)
  fix x and w w' :: AntigravityWorld and p C
  let ?s = "gw_objects w ! o'"
  assume K: "\<forall>o' \<in> K. o' < length (gw_objects w)" and s: "provider_sound w (add_mset (Restarting o') R + C)"
    and st: "(if o' < length (gw_objects w) then Some (
       if map_of (gw_sessions w) sid \<noteq> Some o' then (w, k False)
       else (w\<lparr>gw_objects := (gw_objects w)[o' := ?s\<lparr>gs_agent := a\<rparr>]\<rparr>, k True)) else None) = Some (w', p)"
  have o: "o' < length (gw_objects w)" using K assms(1) by blast
  have "count (add_mset (Restarting o') R + C) (Restarting o') = (if gs_restarting ?s then 1 else 0)"
    using s o by (simp only: provider_sound_def restart_sound_def) simp
  then have r: "gs_restarting ?s" by (simp split: if_splits)
  then have "agents_kept w (w\<lparr>gw_objects := (gw_objects w)[o' := ?s\<lparr>gs_agent := a\<rparr>]\<rparr>)"
    using restarting_no_turn [OF s o] by (auto simp: agents_kept_def) (metis nth_list_update_neq)+
  then have "agents_kept w w'" using st o by (auto split: if_splits)
  moreover have "provider_sound w' (add_mset (Restarting o') R + C)" using st s o sound_agent [OF s o] by (auto split: if_splits)
  moreover have "obedient K (add_mset (Restarting o') R) p" "length (gw_objects w') = length (gw_objects w)"
    using st o assms(2) by (auto split: if_splits)
  ultimately show "agents_kept w w' \<and> (\<exists>K' R'. (\<forall>o' \<in> K'. o' < length (gw_objects w')) \<and> provider_sound w' (R' + C) \<and> obedient K' R' p)"
    using K by (intro conjI exI [of _ K] exI [of _ "add_mset (Restarting o') R"]) auto
qed (use assms in auto)

lemma obedient_publish:
  assumes "obedient K R (k None)" and "\<And>o'. obedient (insert o' K) (add_mset (Starting o') R) (k (Some o'))"
  shows "obedient K R (publish_session sid a worktree sink k)"
  unfolding publish_session_def
proof (rule obedient_acts)
  fix x and w w' :: AntigravityWorld and p C
  let ?n = "length (gw_objects w)" and ?s = "new_provider_session a sid worktree sink"
  assume K: "\<forall>o' \<in> K. o' < length (gw_objects w)" and s: "provider_sound w (R + C)"
    and st: "Some (if map_of (gw_sessions w) sid \<noteq> None then (w, k None)
     else (w\<lparr>gw_sessions := map_put sid ?n (gw_sessions w), gw_objects := gw_objects w @ [?s]\<rparr>, k (Some ?n))) = Some (w', p)"
  show "agents_kept w w' \<and> (\<exists>K' R'. (\<forall>o' \<in> K'. o' < length (gw_objects w')) \<and> provider_sound w' (R' + C) \<and> obedient K' R' p)"
  proof (cases "map_of (gw_sessions w) sid \<noteq> None")
    case True
    then show ?thesis using st s K assms(1) by (intro conjI exI [of _ K] exI [of _ R]) auto
  next
    case False
    then have w': "w' = w\<lparr>gw_sessions := map_put sid ?n (gw_sessions w), gw_objects := gw_objects w @ [?s]\<rparr>" "p = k (Some ?n)"
      using st by auto
    let ?R = "add_mset (Starting ?n) R"
    note old = s [unfolded provider_sound_def]
    have m: "marks_of w' (?R + C) n t = marks_of w (R + C) n t" for n t
      by (auto simp: w' marks_of_def turn_ends_def nth_append has_turn_def new_provider_session_def)
    have "turn_sound w' (?R + C)" using old unfolding turn_sound_def m by (fastforce simp: w' nth_append less_Suc_eq)
    moreover have "restart_sound w' (?R + C)"
      using old by (auto simp: restart_sound_def w' nth_append new_provider_session_def)
    moreover have "start_sound w' (?R + C)"
      using old by (auto simp: start_sound_def w' nth_append new_provider_session_def less_Suc_eq)
    moreover have "answer_sound w' (?R + C)"
      using old by (simp add: answer_sound_def w' new_provider_session_def waiting_answers_def filled_def)
    moreover have "context_marks w' (?R + C) c = context_marks (w) (R + C) c" for c
      by (simp add: w' context_marks_def new_provider_session_def)
    then have "prompt_sound w' (?R + C)"
      using old by (auto simp: prompt_sound_def turn_running_def w' nth_append new_provider_session_def less_Suc_eq)
    moreover have "table_sound w'"
      using old set_put_subset [of sid ?n "gw_sessions w"] unfolding table_sound_def by (fastforce simp: w' less_Suc_eq)
    moreover have "agents_kept w w'" by (simp add: agents_kept_def w' nth_append)
    ultimately show ?thesis
      using assms(2) [of ?n] K by (intro conjI exI [of _ "insert ?n K"] exI [of _ ?R]) (auto simp: w' provider_sound_def)
  qed
qed auto

section \<open>A new turn\<close>

lemma sound_begins:
  fixes w :: AntigravityWorld
  assumes "provider_sound w R" and o': "o' < length (gw_objects w)" and "s = gw_objects w ! o'" and "gs_turnID s = []" and "\<not> gs_restarting s"
    and w': "w' = w\<lparr>gw_contexts := gw_contexts w + 1, gw_objects := (gw_objects w)[o' := s\<lparr>gs_turn := gs_turn s + 1,
      gs_turnID := turn_id b (gs_turn s + 1), gs_turnCancel := Some (gw_contexts w), gs_emit := sink\<rparr>]\<rparr>"
  shows "provider_sound w' (add_mset (Prompting o' (turn_id b (gs_turn s + 1)) (gw_contexts w)) R)"
proof -
  let ?t = "turn_id b (gs_turn s + 1)" and ?c = "gw_contexts w"
  let ?R = "add_mset (Prompting o' ?t ?c) R"
  note old = assms(1) [unfolded provider_sound_def]
  have "marks_of w R o' ?t = 0"
  proof (rule ccontr)
    assume "marks_of w R o' ?t \<noteq> 0"
    then have "0 < marks_of w R o' ?t" by simp
    then have "\<exists>b' m. ?t = turn_id b' m \<and> m \<le> gs_turn s" using old assms(3) unfolding turn_sound_def by blast
    then obtain b' m where "?t = turn_id b' m" "m \<le> gs_turn s" by blast
    then show False using turn_id_inj by fastforce
  qed
  moreover have m: "marks_of w' ?R n t = marks_of w R n t + (if n = o' \<and> t = ?t then 1 else 0)" for n t
    using assms(3,4) o' turn_id_nonempty [of b, THEN not_sym]
    by (auto simp: w' marks_of_def turn_ends_def has_turn_def nth_list_update)
  moreover have g: "length (gw_objects w') = length (gw_objects w)" "gs_turn (gw_objects w ! n) \<le> gs_turn (gw_objects w' ! n)"
    "gs_turn (gw_objects w' ! o') = gs_turn s + 1" for n
    using o' assms(3) by (simp_all add: w' nth_list_update)
  ultimately have "turn_sound w' ?R"
    unfolding turn_sound_def
  proof (intro allI)
    fix n t
    show "marks_of w' ?R n t \<le> 1 \<and> (marks_of w' ?R n t > 0 \<longrightarrow>
        n < length (gw_objects w') \<and> (\<exists>b m. t = turn_id b m \<and> m \<le> gs_turn (gw_objects w' ! n)))"
    proof (cases "n = o' \<and> t = ?t")
      case True
      then show ?thesis using \<open>marks_of w R o' ?t = 0\<close> m [of o' ?t] g o' by auto
    next
      case False
      then have "marks_of w R n t \<le> 1 \<and> (marks_of w R n t > 0 \<longrightarrow>
          n < length (gw_objects w) \<and> (\<exists>b m. t = turn_id b m \<and> m \<le> gs_turn (gw_objects w ! n)))"
        using old unfolding turn_sound_def by blast
      then show ?thesis using m [of n t] False g(1) order_trans [OF _ g(2) [of n]] by auto
    qed
  qed
  moreover have "restart_sound w' ?R" "start_sound w' ?R" "table_sound w'"
    using old assms(3,5) o' by (auto simp: restart_sound_def start_sound_def table_sound_def w' nth_list_update)
  moreover have "map (\<lambda>s. waiting_answers s n) (gw_objects w') = map (\<lambda>s. waiting_answers s n) (gw_objects w)" for n
    using o' assms(3) by (simp add: w' map_update waiting_answers_def list_update_same_conv)
  then have "answer_sound w' ?R" using old by (simp add: answer_sound_def filled_def w')
  moreover have "prompt_sound w' ?R"
    unfolding prompt_sound_def
  proof (intro conjI allI impI)
    fix c
    let ?f = "\<lambda>s. if gs_turnCancel s = Some c then 1 else (0::nat)"
    have o: "context_marks w R c \<le> 1" using old by (simp add: prompt_sound_def)
    have "sum_list (map ?f (gw_objects w')) + ?f s = sum_list (map ?f (gw_objects w)) + (if c = ?c then 1 else 0)"
      using sum_list_changed [OF o', of ?f "gw_objects w' ! o'"] o' assms(3) by (auto simp: w')
    moreover have "(if gw_contexts w' \<le> c then 1 else 0) + (if c = ?c then 1 else 0) = (if ?c \<le> c then 1 else (0::nat))"
      "gw_cancelled w' = gw_cancelled w" "count ?R (Cancelling c) = count R (Cancelling c)"
      by (simp_all add: w')
    ultimately show "context_marks w' ?R c \<le> 1" using o unfolding context_marks_def by (simp only:)
  next
    fix n
    assume n: "n < length (gw_objects w')"
    then have "turn_running R n (gw_objects w ! n)" using old by (simp add: prompt_sound_def w')
    then show "turn_running ?R n (gw_objects w' ! n)"
      using o' by (cases "n = o'") (auto simp: turn_running_def w')
  qed
  ultimately show ?thesis by (simp add: provider_sound_def)
qed

lemma obedient_select [obeys_rules]:
  "o' \<in> K \<Longrightarrow> (\<And>opts. obedient K R (k opts)) \<Longrightarrow> obedient K R (select_option o' a i value opts k)"
  unfolding select_option_def by (auto simp: ends_turn_def new_event_def intro!: obeys_rules)

lemma obedient_apply [obeys_rules]:
  "o' \<in> K \<Longrightarrow> (\<And>opts. obedient K R (k opts)) \<Longrightarrow> obedient K R (applyConfiguration o' model mode opts k)"
  unfolding applyConfiguration_def by (auto intro!: obeys_rules)

lemma obedient_state [obeys_rules]:
  "o' \<in> K \<Longrightarrow> (\<And>st. obedient K R (k st)) \<Longrightarrow> obedient K R (provider_state o' t k)"
  unfolding provider_state_def by (auto intro!: obeys_rules)

lemma prompt_end_fields: "ends_turn (ev_Type (prompt_end_event t x))" "ev_BackendTurnID (prompt_end_event t x) = t"
  by (simp_all add: prompt_end_event_def Let_def ends_turn_def new_event_def split: option.split prod.split)

lemma obedient_run_prompt:
  assumes "o' \<in> K" and "t \<noteq> []"
  shows "obedient K {#Prompting o' t c#} (provider_run_prompt o' c t q)"
proof -
  have "obedient K {#Prompting o' t c#} (provider_finish_turn o' t (\<lambda>mine.
        if mine then provider_emit o' (prompt_end_event t x) (Returns (PUnit None)) else Returns (PUnit None)))" for x
    by (rule obedient_finish_turn [OF assms(1)]) (simp_all add: keeps.returns prompt_end_fields assms obedient_emit_end)
  then show ?thesis unfolding provider_run_prompt_def using assms(1) by (auto intro!: obedient_if_running obeys_rules)
qed

lemma obedient_begin [obeys_rules]:
  assumes "o' \<in> K" and "\<And>r. obedient K {#} (k r)"
  shows "obedient K {#} (begin_provider_turn o' q sink k)"
  unfolding begin_provider_turn_def Let_def
proof (rule obedient_acts)
  fix x and w w' :: AntigravityWorld and p C
  let ?s = "gw_objects w ! o'" and ?c = "gw_contexts w"
  let ?t = "turn_id (gs_backendID ?s) (gs_turn ?s + 1)"
  let ?w = "w\<lparr>gw_contexts := ?c + 1, gw_objects := (gw_objects w)[o' := ?s\<lparr>gs_turn := gs_turn ?s + 1, gs_turnID := ?t,
                 gs_turnCancel := Some ?c, gs_emit := (if sink = None then gs_emit ?s else sink)\<rparr>]\<rparr>"
  let ?p = "provider_emit o' ((new_event EventTurnStarted)\<lparr>ev_BackendTurnID := ?t, ev_Data := [(''turn_id'', JStr ?t)]\<rparr>)
            (Spawns (provider_run_prompt o' ?c ?t q) (provider_state o' ?t (\<lambda>st. k (Inr st))))"
  assume K: "\<forall>o' \<in> K. o' < length (gw_objects w)" and s: "provider_sound w ({#} + C)"
    and st: "(if o' < length (gw_objects w)
     then (if gs_turnID ?s \<noteq> [] \<or> gs_restarting ?s then Some (w, k (Inl TurnBusy)) else Some (?w, ?p)) else None) = Some (w', p)"
  have o: "o' < length (gw_objects w)" using K assms(1) by blast
  show "agents_kept w w' \<and> (\<exists>K' R'. (\<forall>o' \<in> K'. o' < length (gw_objects w')) \<and> provider_sound w' (R' + C) \<and> obedient K' R' p)"
  proof (cases "gs_turnID ?s \<noteq> [] \<or> gs_restarting ?s")
    case True
    then have "w' = w" "p = k (Inl TurnBusy)" using st o by auto
    then show ?thesis using K s assms(2) by (intro conjI exI [of _ K] exI [of _ "{#}"]) auto
  next
    case False
    then have w': "w' = ?w" "p = ?p" using st o by auto
    let ?R = "{#Prompting o' ?t ?c#}"
    have "obedient K ({#Prompting o' ?t ?c#} + {#}) (Spawns (provider_run_prompt o' ?c ?t q) (provider_state o' ?t (\<lambda>st. k (Inr st))))"
      using assms by (intro keeps.spawns obedient_run_prompt) (auto intro!: obeys_rules)
    then have "obedient K ?R ?p"
      by (intro obedient_emit [OF assms(1)]) (simp_all add: ends_turn_def new_event_def)
    moreover have "provider_sound ?w (?R + C)" using sound_begins [OF s o refl _ _ refl] False by simp
    moreover have "agents_kept w ?w" using o by (auto simp: agents_kept_def nth_list_update)
    ultimately show ?thesis using K unfolding w' by (intro conjI exI [of _ K] exI [of _ ?R]) auto
  qed
qed (use assms(1) in auto)

section \<open>Interactions\<close>

lemma obedient_send_answer:
  assumes "o' \<in> K" and "\<And>b. obedient K R (k b)"
  shows "obedient K (add_mset (Answering n) R) (send_answer o' n r k)"
  unfolding send_answer_def
proof (rule obedient_acts)
  fix x and w w' :: AntigravityWorld and p C
  assume K: "\<forall>o' \<in> K. o' < length (gw_objects w)" and s: "provider_sound w (add_mset (Answering n) R + C)"
    and st: "(if o' < length (gw_objects w) then
       (if pa_ok x then (if n < length (gw_channels w) \<and> gw_channels w ! n = None then Some (fill_channel n r w, k True) else None)
        else if gs_done (gw_objects w ! o') then Some (w, k False) else None)
     else None) = Some (w', p)"
  have s': "provider_sound w (add_mset (Answering n) (R + C))" using s by simp
  have "provider_sound w (R + C)" by (rule sound_same_sessions [OF s']) (auto simp: marks_of_def)
  then have "provider_sound w' (R + C)" "gw_objects w' = gw_objects w" "obedient K R p"
    using st sound_filled(2) [OF s', of r] assms(2) by (auto simp: fill_channel_def split: if_splits)
  then show "agents_kept w w' \<and> (\<exists>K' R'. (\<forall>o' \<in> K'. o' < length (gw_objects w')) \<and> provider_sound w' (R' + C) \<and> obedient K' R' p)"
    using K agents_kept_objects [of w' w] by (intro conjI exI [of _ K] exI [of _ R]) auto
next
  fix w :: AntigravityWorld and C
  assume "\<forall>o' \<in> K. o' < length (gw_objects w)" and s: "provider_sound w (add_mset (Answering n) R + C)"
  moreover have "n < length (gw_channels w) \<and> gw_channels w ! n = None" by (rule sound_filled(1) [of _ _ "R + C"]) (use s in simp)
  ultimately show "\<exists>x. (if o' < length (gw_objects w) then
       (if pa_ok x then (if n < length (gw_channels w) \<and> gw_channels w ! n = None then Some (fill_channel n r w, k True) else None)
        else if gs_done (gw_objects w ! o') then Some (w, k False) else None)
     else None) \<noteq> None"
    using assms(1) by (intro exI [of _ "undefined\<lparr>pa_ok := True\<rparr>"]) auto
qed simp

lemma obedient_take_answer:
  assumes "o' \<in> K" and "obedient K R (k None)" and "\<And>n. obedient K (add_mset (Answering n) R) (k (Some n))"
  shows "obedient K R (locked o' (\<lambda>s. (map_of (gs_interactions s) i, s\<lparr>gs_interactions := map_del i (gs_interactions s)\<rparr>)) k)"
proof (rule obedient_locked [OF assms(1)])
  fix w :: AntigravityWorld and C s' v
  let ?s = "gw_objects w ! o'"
  let ?R = "case v of None \<Rightarrow> R | Some n \<Rightarrow> add_mset (Answering n) R"
  assume s: "provider_sound w (R + C)" "o' < length (gw_objects w)"
    and g: "(map_of (gs_interactions ?s) i, ?s\<lparr>gs_interactions := map_del i (gs_interactions ?s)\<rparr>) = (v, s')"
  have "count ?R (Answering n) + waiting_answers s' n \<le> count R (Answering n) + waiting_answers ?s n" for n
    using g count_del [of i "gs_interactions ?s" n] by (auto simp: waiting_answers_def split: option.split if_splits)
  then have "session_kept o' ?s R s' ?R"
    using g restarting_no_turn [OF s] by (auto simp: session_kept_def has_turn_def split: option.split)
  moreover have "obedient K ?R (k v)" using assms(2,3) by (simp split: option.split)
  ultimately show "\<exists>R'. session_kept o' ?s R s' R' \<and> obedient K R' (k v)" by blast
qed

lemma obedient_drop_answer [obeys_rules]:
  "o' \<in> K \<Longrightarrow> obedient K R k \<Longrightarrow>
     obedient K R (locked o' (\<lambda>s. ((), s\<lparr>gs_interactions := map_del i (gs_interactions s)\<rparr>)) (\<lambda>_. k))"
proof (rule obedient_locked_same, assumption, assumption)
  fix s :: AntigravitySession
  have "waiting_answers (s\<lparr>gs_interactions := map_del i (gs_interactions s)\<rparr>) n \<le> waiting_answers s n" for n
    using count_del [of i "gs_interactions s" n] by (simp add: waiting_answers_def)
  then show "let s' = snd ((), s\<lparr>gs_interactions := map_del i (gs_interactions s)\<rparr>) in gs_agent s' = gs_agent s \<and> gs_turn s' = gs_turn s
      \<and> (gs_turnID s', gs_turnCancel s') = (gs_turnID s, gs_turnCancel s) \<and> gs_restarting s' = gs_restarting s \<and> gs_ready s' = gs_ready s
      \<and> (\<forall>n. waiting_answers s' n \<le> waiting_answers s n)"
    by simp
qed

lemma sound_asks:
  fixes w :: AntigravityWorld
  assumes "provider_sound w R" and o': "o' < length (gw_objects w)" and "s = gw_objects w ! o'"
    and w': "w' = w\<lparr>gw_channels := gw_channels w @ [None], gw_objects := (gw_objects w)[o' := s\<lparr>gs_interaction := m,
      gs_interactions := map_put i (length (gw_channels w)) (gs_interactions s)\<rparr>]\<rparr>"
  shows "provider_sound w' R"
proof -
  let ?n = "length (gw_channels w)" and ?s = "gw_objects w' ! o'"
  note old = assms(1) [unfolded provider_sound_def]
  have f: "f (gw_objects w' ! n) = f (gw_objects w ! n)"
    if "\<And>s is. f (s\<lparr>gs_interaction := m, gs_interactions := is\<rparr>) = f s" for n and f :: "AntigravitySession \<Rightarrow> 'b"
    using o' that by (cases "n = o'") (simp_all add: w' assms(3))
  have l: "length (gw_objects w') = length (gw_objects w)" by (simp add: w')
  have "marks_of w' R n t = marks_of w R n t" for n t
    using f [of "\<lambda>s. has_turn s t" n] by (simp add: w' marks_of_def turn_ends_def has_turn_def)
  then have "turn_sound w' R" using old f [of gs_turn] unfolding turn_sound_def l by simp
  moreover have "restart_sound w' R" using old f [of gs_restarting] f [of gs_turnID] by (simp add: restart_sound_def l)
  moreover have "start_sound w' R" using old f [of gs_ready] by (simp add: start_sound_def l)
  moreover have "map (\<lambda>s. if gs_turnCancel s = Some c then 1 else (0::nat)) (gw_objects w') = map (\<lambda>s. if gs_turnCancel s = Some c then 1 else 0) (gw_objects w)" for c
    using o' assms(3) by (simp add: w' map_update list_update_same_conv)
  then have "context_marks w' R c = context_marks w R c" for c unfolding context_marks_def by (simp add: w')
  then have "prompt_sound w' R" using old f [of gs_turnID] f [of gs_turnCancel] by (simp add: prompt_sound_def turn_running_def l)
  moreover have "table_sound w'" using old by (simp add: table_sound_def w')
  moreover have "answer_sound w' R"
    unfolding answer_sound_def
  proof
    fix n
    have o: "count R (Answering n) + sum_list (map (\<lambda>s. waiting_answers s n) (gw_objects w)) + filled w n \<le> 1"
      using old by (simp add: answer_sound_def)
    have "waiting_answers ?s n \<le> waiting_answers s n + (if n = ?n then 1 else 0)"
      using o' count_put [of i ?n "gs_interactions s" n] by (simp add: w' waiting_answers_def)
    moreover have "filled w' n + (if n = ?n then 1 else 0) = filled w n" by (auto simp: filled_def w' nth_append)
    moreover have "sum_list (map (\<lambda>s. waiting_answers s n) (gw_objects w')) + waiting_answers s n
        = sum_list (map (\<lambda>s. waiting_answers s n) (gw_objects w)) + waiting_answers ?s n"
      using sum_list_changed [OF o', of "\<lambda>s. waiting_answers s n" ?s] o' by (simp add: w' assms(3))
    ultimately show "count R (Answering n) + sum_list (map (\<lambda>s. waiting_answers s n) (gw_objects w')) + filled w' n \<le> 1"
      using o by linarith
  qed
  ultimately show ?thesis by (simp add: provider_sound_def)
qed

lemma obedient_ask [obeys_rules]:
  assumes "o' \<in> K" and "\<And>i n. obedient K R (k i n)"
  shows "obedient K R (ask_permission o' k)"
  unfolding ask_permission_def Let_def
proof (rule obedient_acts)
  fix x and w w' :: AntigravityWorld and p C
  let ?s = "gw_objects w ! o'"
  let ?i = "gs_backendID ?s @ '':interaction:'' @ show_nat (gs_interaction ?s + 1)"
  let ?w = "w\<lparr>gw_channels := gw_channels w @ [None], gw_objects := (gw_objects w)[o' := ?s\<lparr>gs_interaction := gs_interaction ?s + 1,
      gs_interactions := map_put ?i (length (gw_channels w)) (gs_interactions ?s)\<rparr>]\<rparr>"
  assume K: "\<forall>o' \<in> K. o' < length (gw_objects w)" and s: "provider_sound w (R + C)"
    and st: "(if o' < length (gw_objects w) then Some (?w, k ?i (length (gw_channels w))) else None) = Some (w', p)"
  have o: "o' < length (gw_objects w)" using K assms(1) by blast
  then have w': "w' = ?w" "p = k ?i (length (gw_channels w))" using st by auto
  have "agents_kept w ?w" using o by (auto simp: agents_kept_def nth_list_update)
  moreover have "provider_sound ?w (R + C)" by (rule sound_asks [OF s o refl refl])
  ultimately show "agents_kept w w' \<and> (\<exists>K' R'. (\<forall>o' \<in> K'. o' < length (gw_objects w')) \<and> provider_sound w' (R' + C) \<and> obedient K' R' p)"
    using K assms(2) unfolding w' by (intro conjI exI [of _ K] exI [of _ R]) auto
qed (use assms in auto)

lemma obedient_await_permission [obeys_rules]:
  assumes "o' \<in> K" and "\<And>r. obedient K R (k r)"
  shows "obedient K R (await_permission o' n k)"
  unfolding await_permission_def
proof (rule obedient_acts)
  fix x and w w' :: AntigravityWorld and p C
  assume K: "\<forall>o' \<in> K. o' < length (gw_objects w)" and s: "provider_sound w (R + C)"
    and st: "(if o' < length (gw_objects w) then
       (if pa_expired x then Some (w, k (Inl PermissionTimedOut))
        else if pa_ok x then
          (case gw_channels w ! n of Some r \<Rightarrow> Some (w, k (Inr (permitted (rs_Action r)))) | None \<Rightarrow> None)
        else if gs_done (gw_objects w ! o') then Some (w, k (Inl SessionIsClosed)) else None)
     else None) = Some (w', p)"
  then have "w' = w" "\<exists>r. p = k r" by (auto split: if_splits option.splits)
  then show "agents_kept w w' \<and> (\<exists>K' R'. (\<forall>o' \<in> K'. o' < length (gw_objects w')) \<and> provider_sound w' (R' + C) \<and> obedient K' R' p)"
    using K s assms(2) by (intro conjI exI [of _ K] exI [of _ R]) auto
next
  fix w :: AntigravityWorld and C
  assume "\<forall>o' \<in> K. o' < length (gw_objects w)"
  then show "\<exists>x. (if o' < length (gw_objects w) then
       (if pa_expired x then Some (w, k (Inl PermissionTimedOut))
        else if pa_ok x then
          (case gw_channels w ! n of Some r \<Rightarrow> Some (w, k (Inr (permitted (rs_Action r)))) | None \<Rightarrow> None)
        else if gs_done (gw_objects w ! o') then Some (w, k (Inl SessionIsClosed)) else None)
     else None) \<noteq> None"
    using assms(1) by (intro exI [of _ "undefined\<lparr>pa_expired := True\<rparr>"]) auto
qed simp

section \<open>The methods\<close>

lemma obedient_send [obeys_rules]:
  "(\<And>K r. obedient K {#} (k r)) \<Longrightarrow> obedient K {#} (provider_send_turn sid q sink k)"
  unfolding provider_send_turn_def by (auto intro!: obeys_rules)

lemma obedient_closing:
  assumes "obedient K R k" and "\<And>o'. obedient (insert o' K) R (f o')"
  shows "obedient K R (Acts Free (\<lambda>x w. Some (w\<lparr>gw_sessions := map_del sid (gw_sessions w)\<rparr>,
     case map_of (gw_sessions w) sid of None \<Rightarrow> k | Some o' \<Rightarrow> f o')))"
proof (rule obedient_acts)
  fix x and w w' :: AntigravityWorld and p C
  assume K: "\<forall>o' \<in> K. o' < length (gw_objects w)" and s: "provider_sound w (R + C)"
    and st: "Some (w\<lparr>gw_sessions := map_del sid (gw_sessions w)\<rparr>, case map_of (gw_sessions w) sid of None \<Rightarrow> k | Some o' \<Rightarrow> f o') = Some (w', p)"
  have w': "w' = w\<lparr>gw_sessions := map_del sid (gw_sessions w)\<rparr>" using st by simp
  then have a: "provider_sound w' (R + C)" "agents_kept w w'" "gw_objects w' = gw_objects w"
    using sound_deleted [OF s] by (simp_all add: agents_kept_objects)
  show "agents_kept w w' \<and> (\<exists>K' R'. (\<forall>o' \<in> K'. o' < length (gw_objects w')) \<and> provider_sound w' (R' + C) \<and> obedient K' R' p)"
  proof (cases "map_of (gw_sessions w) sid")
    case None
    then show ?thesis using st a K assms(1) by (intro conjI exI [of _ K] exI [of _ R]) auto
  next
    case (Some o')
    then have "o' < length (gw_objects w)" using s map_of_SomeD by (fastforce simp: provider_sound_def table_sound_def)
    then show ?thesis using st Some a K assms(2) by (intro conjI exI [of _ "insert o' K"] exI [of _ R]) auto
  qed
qed auto

lemma obedient_close [obeys_rules]:
  assumes "\<And>K. obedient K {#} k"
  shows "obedient K {#} (provider_close sid k)"
  unfolding provider_close_def by (rule obedient_closing) (auto intro!: obeys_rules assms)

lemma obedient_named [obeys_rules]:
  assumes "o' \<in> K"
  shows "obedient K {#Starting o'#} (start_named sid o' q sink b opts)"
  unfolding start_named_def
  by (rule obedient_locked_same [OF assms]) (use assms in \<open>auto simp: waiting_answers_def intro!: obeys_rules split: sum.split\<close>)

lemma obedient_start_published [obeys_rules]:
  "o' \<in> K \<Longrightarrow> obedient K {#Starting o'#} (start_published sid o' a q sink)"
  unfolding start_published_def Let_def by (auto intro!: obeys_rules)

lemma obedient_StartSession: "obedient K {#} (Antigravity_StartSession cf sid q sink)"
proof -
  let ?p = "\<lambda>x. case validateWorktree (pa_stat x) (ss_Worktree q) of
      Inl e \<Rightarrow> Returns (PSession (Inl (WorktreeRejected e)))
    | Inr worktree \<Rightarrow> createAgent cf worktree (\<lambda>e. Returns (PSession (Inl e))) (\<lambda>a.
        publish_session sid a worktree sink (\<lambda>r. case r of
          None \<Rightarrow> Returns (PSession (Inl (SessionExists sid)))
        | Some o' \<Rightarrow> start_published sid o' a q sink))"
  have "obedient K {#} (?p x)" for x
    by (auto intro!: obeys_rules obedient_publish split: sum.split)
  then have "obedient K {#} (Acts Free (\<lambda>x w. Some (w, ?p x)))" by (intro obedient_unchanged) simp
  then show ?thesis unfolding Antigravity_StartSession_def Let_def by (auto intro!: keeps.returns)
qed

lemma obedient_SendTurn: "obedient K {#} (Antigravity_SendTurn sid q sink)"
  unfolding Antigravity_SendTurn_def by (auto intro!: obeys_rules)

lemma obedient_CloseSession: "obedient K {#} (Antigravity_CloseSession sid)"
  unfolding Antigravity_CloseSession_def by (auto intro!: obeys_rules)

lemma obedient_Interrupt: "obedient K {#} (Antigravity_Interrupt sid)"
proof -
  have "obedient (insert o' K) (cancelling c + {#EndTurn o' t#}) (look o' (\<lambda>s. (gs_agent s, gs_backendID s)) (\<lambda>(a, b).
       provider a (CancelCalled b) (\<lambda>_. cancels c (cancel_interactions o'
       (provider_emit o' (provider_interrupted_event t) (Returns (PUnit None)))))))"
    if t: "t \<noteq> []" for o' t c
  proof -
    have "obedient (insert o' K) {#EndTurn o' t#} (provider_emit o' (provider_interrupted_event t) (Returns (PUnit None)))"
      using t by (intro obedient_emit_end) (simp_all add: provider_interrupted_event_def ends_turn_def new_event_def keeps.returns)
    then have "obedient (insert o' K) (cancelling c + {#EndTurn o' t#}) (cancels c (cancel_interactions o'
       (provider_emit o' (provider_interrupted_event t) (Returns (PUnit None)))))"
      by (intro obedient_cancels obedient_cancel_interactions) auto
    then show ?thesis by (auto intro!: obedient_look obedient_provider)
  qed
  then show ?thesis
    unfolding Antigravity_Interrupt_def by (auto intro!: obedient_lookup obedient_take_turn keeps.returns)
qed

lemma obedient_RestartSession: "obedient K {#} (Antigravity_RestartSession cf sid)"
  unfolding Antigravity_RestartSession_def Let_def
  by (intro obedient_lookup obedient_begin_restart)
    (auto intro!: obedient_look obedient_create obedient_provider obedient_replace_agent obedient_finish_restart
      obedient_config obedient_emit keeps.returns simp: provider_recovered_event_def ends_turn_def new_event_def)

lemma obedient_RespondInteraction: "obedient K {#} (Antigravity_RespondInteraction sid r)"
  unfolding Antigravity_RespondInteraction_def
  by (rule obedient_lookup)
    (auto intro!: obedient_take_answer obedient_send_answer obedient_emit keeps.returns simp: ends_turn_def new_event_def)

lemma obedient_RequestPermission: "o' \<in> K \<Longrightarrow> obedient K {#} (Client_RequestPermission sprint o' params)"
  unfolding Client_RequestPermission_def
  by (auto intro!: obeys_rules simp: permission_request_event_def ends_turn_def new_event_def Let_def)

lemma obedient_Update:
  assumes "o' \<in> K"
  shows "obedient K {#} (Client_Update sprint o' sid update)"
proof (cases "Option.bind update (translateUpdate sprint)")
  case (Some e)
  then have "\<not> ends_turn (ev_Type e)" using translated_type by (auto simp: Option.bind_eq_Some_conv)
  then show ?thesis using Some assms by (auto simp: Client_Update_def intro!: obeys_rules)
qed (simp add: Client_Update_def keeps.returns)

section \<open>The adapter keeps the invariant\<close>

interpretation adapter: rights "called (antigravity_program cf sprint)" new_provider_world provider_sound exists_session agents_kept wait_over starts
  for cf sprint
proof
  show "provider_sound new_provider_world {#}"
    by (simp add: sound_defs new_provider_world_def marks_of_def turn_ends_def filled_def context_marks_def)
next
  fix w R l
  assume "provider_sound w R" "\<not> wait_over l w"
  then show "\<exists>r \<in># R. starts r"
    by (cases l) (auto simp: provider_sound_def start_sound_def intro!: bexI [of _ "Starting n" for n] simp flip: count_greater_zero_iff)
next
  fix w p
  assume "called (antigravity_program cf sprint) w p"
  then obtain c where c: "antigravity_program cf sprint c w = Some p" unfolding called_def by blast
  let ?K = "{o'. o' < length (gw_objects w)}"
  have "obedient ?K {#} p"
    using c by (cases c)
      (auto simp: Antigravity_RespondPermission_def obedient_StartSession obedient_SendTurn obedient_CloseSession obedient_Interrupt
        obedient_RestartSession obedient_RespondInteraction obedient_RequestPermission obedient_Update split: if_splits)
  then show "\<exists>K. (\<forall>k \<in> K. exists_session k w) \<and> obedient K {#} p"
    by (intro exI [of _ ?K]) (simp add: exists_session_def)
qed (rule exists_stable)

end
