(* ===== verification/Antigravity_Properties.thy ===== *)
theory Antigravity_Properties
  imports Antigravity_Programs
begin

text \<open>
  What holds of the Antigravity adapter in every interleaving of its methods and callbacks, and a
  schedule in which an interrupt reaches the wrong turn.
\<close>

section \<open>Sample schedules\<close>

definition sample_config :: AntigravityConfig where
  "sample_config = \<lparr>ac_Command = ''/a'', ac_ConversationsDir = ''/c'', ac_StateDir = ''/s'', ac_Version = ''1''\<rparr>"

text \<open>Every call succeeds, at first without options.\<close>

definition sample_answer :: provider_answer where
  "sample_answer = \<lparr>pa_ok = True, pa_expired = False, pa_text = ''b'', pa_options = [], pa_outcome = None,
     pa_env = \<lparr>ae_PATH = [], ae_HOME = ''/h'', ae_SHELL = [], ae_cwd = None, ae_executable = (\<lambda>p. True),
       ae_shell_output = (\<lambda>a b. None)\<rparr>,
     pa_shell = None, pa_variable = [], pa_stat = (\<lambda>p. Some True), pa_mkdir = True\<rparr>"

definition sample_start :: StartSessionRequest where
  "sample_start = \<lparr>ss_Backend = ''antigravity'', ss_SessionID = ''s'', ss_Worktree = ''/w'', ss_Prompt = [], ss_Ext = [],
     ss_Attachments = [], ss_Model = [], ss_Reasoning = [], ss_PermissionMode = [], ss_ResumeBackendSessionID = []\<rparr>"

definition sample_send :: "string \<Rightarrow> antigravity_call" where
  "sample_send prompt = SendCall ''s'' \<lparr>tr_SessionID = ''s'', tr_Prompt = prompt, tr_Ext = [], tr_Attachments = [], tr_Model = [],
     tr_Reasoning = [], tr_PermissionMode = []\<rparr> None"

definition sample_go :: "nat \<Rightarrow> nat \<Rightarrow> (antigravity_call, provider_answer) go_move list" where
  "sample_go n i = replicate n (Go i sample_answer)"

definition started :: "(antigravity_call, provider_answer) go_move list" where
  "started = Arrive (StartCall ''s'' sample_start (Some 0)) # sample_go 11 0"

definition one_turn :: "(antigravity_call, provider_answer) go_move list" where
  "one_turn = started @ Arrive (sample_send ''one'') # sample_go 8 1 @ sample_go 9 2"

definition restarting :: "(antigravity_call, provider_answer) go_move list" where
  "restarting = one_turn @ Arrive (RestartCall ''s'') # sample_go 7 3"

text \<open>The interrupt of the first turn is overtaken by the second turn.\<close>

definition overtaken :: "(antigravity_call, provider_answer) go_move list" where
  "overtaken = started @ Arrive (sample_send ''one'') # sample_go 8 1 @ sample_go 3 2
     @ Arrive (InterruptCall ''s'') # sample_go 4 3 @ Arrive (sample_send ''two'') # sample_go 8 4 @ sample_go 3 5 @ sample_go 6 3"

definition after_moves :: "(any \<Rightarrow> string) \<Rightarrow> (antigravity_call, provider_answer) go_move list \<Rightarrow> antigravity_machine option" where
  "after_moves sprint ms = go_run (antigravity_program sample_config sprint) ms \<lparr>go_world = new_provider_world, go_threads = []\<rparr>"

lemma after_moves_reachable: "after_moves sprint ms = Some s \<Longrightarrow> antigravity_reachable sample_config sprint s"
  unfolding after_moves_def antigravity_reachable_def by (erule go_run_reachable) (simp add: go_reachable_def)

lemma observed:
  assumes "map_option f (after_moves sprint ms) = Some v"
  obtains s where "antigravity_reachable sample_config sprint s" and "f s = v"
  using assms after_moves_reachable by (auto simp: map_option_case split: option.splits)

definition returned :: "('w, 'x, 'l, 'a) go \<Rightarrow> bool" where
  "returned p \<longleftrightarrow> (case p of Returns r \<Rightarrow> True | _ \<Rightarrow> False)"

lemma returned_iff: "returned p \<longleftrightarrow> (\<exists>r. p = Returns r)"
  by (cases p) (simp_all add: returned_def)

section \<open>Properties\<close>

text \<open>
  C10: in every interleaving the end of a turn is reported at most once, and the turn that a session
  has is not one whose end was reported.
\<close>
theorem provider_turn_ends_once:
  "antigravity_reachable cf sprint s \<Longrightarrow>
     turn_ends (go_world s) o' t
       + (if o' < length (gw_objects (go_world s)) then has_turn (gw_objects (go_world s) ! o') t else 0) \<le> 1"
proof -
  assume "antigravity_reachable cf sprint s"
  then obtain R where "provider_sound (go_world s) R"
    using adapter.reachable_sound [of cf sprint s] unfolding antigravity_reachable_def by blast
  then have "marks_of (go_world s) R o' t \<le> 1" by (simp add: provider_sound_def turn_sound_def)
  then show ?thesis by (simp add: marks_of_def)
qed

theorem provider_turn_ends_once_witness:
  "\<exists>s. antigravity_reachable sample_config undefined s \<and> turn_ends (go_world s) 0 ''b:1'' = 1
     \<and> turn_ends (go_world s) 0 ''b:1''
       + (if 0 < length (gw_objects (go_world s)) then has_turn (gw_objects (go_world s) ! 0) ''b:1'' else 0) \<le> 1"
proof -
  have "map_option (\<lambda>s. turn_ends (go_world s) 0 ''b:1'') (after_moves undefined one_turn) = Some 1" by code_simp
  then obtain s where "antigravity_reachable sample_config undefined s" "turn_ends (go_world s) 0 ''b:1'' = 1" by (rule observed)
  then show ?thesis using provider_turn_ends_once [of sample_config undefined s 0 "''b:1''"] by blast
qed

text \<open>
  C18: a step of a goroutine changes the agent of a session only while the session is restarting and has
  no turn, so no turn loses the agent that runs it.
\<close>
theorem agent_replaced_restarting:
  assumes "antigravity_reachable cf sprint s" and "go_step (called (antigravity_program cf sprint)) s s'"
    and "o' < length (gw_objects (go_world s))"
    and "gs_agent (gw_objects (go_world s') ! o') \<noteq> gs_agent (gw_objects (go_world s) ! o')"
  shows "gs_restarting (gw_objects (go_world s) ! o') \<and> gs_turnID (gw_objects (go_world s) ! o') = []"
proof -
  have "agents_kept (go_world s) (go_world s') \<or> go_world s' = go_world s"
    using adapter.reachable_guar assms(1,2) unfolding antigravity_reachable_def by blast
  then show ?thesis using assms(3,4) by (auto simp: agents_kept_def)
qed

theorem agent_replaced_restarting_witness:
  "\<exists>s s'. antigravity_reachable sample_config undefined s
     \<and> go_step (called (antigravity_program sample_config undefined)) s s'
     \<and> gs_agent (gw_objects (go_world s) ! 0) = 0 \<and> gs_agent (gw_objects (go_world s') ! 0) = 1
     \<and> gs_restarting (gw_objects (go_world s) ! 0) \<and> gs_turnID (gw_objects (go_world s) ! 0) = []"
proof -
  let ?n = "\<lambda>s. go_next (antigravity_program sample_config undefined) (Go 3 sample_answer) s"
  have "map_option (\<lambda>s. (length (gw_objects (go_world s)), gs_agent (gw_objects (go_world s) ! 0),
      map_option (\<lambda>s'. gs_agent (gw_objects (go_world s') ! 0)) (?n s))) (after_moves undefined restarting) = Some (1, 0, Some 1)"
    by code_simp
  then obtain s where s: "antigravity_reachable sample_config undefined s"
    and v: "(length (gw_objects (go_world s)), gs_agent (gw_objects (go_world s) ! 0),
      map_option (\<lambda>s'. gs_agent (gw_objects (go_world s') ! 0)) (?n s)) = (1, 0, Some 1)"
    by (rule observed)
  then obtain s' where s': "?n s = Some s'" "gs_agent (gw_objects (go_world s') ! 0) = 1" by auto
  then show ?thesis
    using s v agent_replaced_restarting [OF s go_next_step [OF s'(1)], of 0] go_next_step [OF s'(1)] by auto
qed

text \<open>
  C19: no schedule blocks the adapter: while a method, a callback or a prompt has not returned, one of the
  goroutines can do its next step, the waits for a session's start and for a free channel included.
\<close>
theorem adapter_never_stuck:
  "antigravity_reachable cf sprint s \<Longrightarrow> \<exists>p \<in> set (go_threads s). \<not> returned p \<Longrightarrow>
     \<exists>p \<in> set (go_threads s). can_act (go_world s) p"
  unfolding antigravity_reachable_def returned_iff using adapter.reachable_progress by blast

theorem adapter_never_stuck_witness:
  "\<exists>s. antigravity_reachable sample_config undefined s \<and> (\<exists>p \<in> set (go_threads s). can_act (go_world s) p)"
proof -
  have "map_option (\<lambda>s. map returned (go_threads s)) (after_moves undefined restarting) = Some [True, True, True, False]"
    by code_simp
  then obtain s where s: "antigravity_reachable sample_config undefined s"
    and r: "map returned (go_threads s) = [True, True, True, False]" by (rule observed)
  have "False \<in> set (map returned (go_threads s))" unfolding r by simp
  then have "\<exists>p \<in> set (go_threads s). \<not> returned p" by auto
  then show ?thesis using s adapter_never_stuck [OF s] by blast
qed

text \<open>
  C11: when every method, callback and prompt has returned, each session was started, is not restarting and
  has no turn, so the next turn is not refused.
\<close>
theorem quiet_adapter_idle:
  assumes "antigravity_reachable cf sprint s" and "\<forall>p \<in> set (go_threads s). returned p"
    and "o' < length (gw_objects (go_world s))"
  shows "gs_ready (gw_objects (go_world s) ! o') \<and> \<not> gs_restarting (gw_objects (go_world s) ! o')
    \<and> gs_turnID (gw_objects (go_world s) ! o') = []"
proof -
  have "provider_sound (go_world s) {#}"
    using adapter.reachable_over assms(1,2) unfolding antigravity_reachable_def returned_iff by blast
  then have "start_sound (go_world s) {#}" "restart_sound (go_world s) {#}" "prompt_sound (go_world s) {#}"
    by (simp_all add: provider_sound_def)
  then show ?thesis
    using assms(3) by (simp add: start_sound_def restart_sound_def prompt_sound_def turn_running_def split: if_splits)
qed

theorem quiet_adapter_idle_witness:
  "\<exists>s. antigravity_reachable sample_config undefined s \<and> length (go_threads s) = 3
     \<and> gs_ready (gw_objects (go_world s) ! 0) \<and> \<not> gs_restarting (gw_objects (go_world s) ! 0)
     \<and> gs_turnID (gw_objects (go_world s) ! 0) = []"
proof -
  have "map_option (\<lambda>s. (length (gw_objects (go_world s)), map returned (go_threads s))) (after_moves undefined one_turn)
      = Some (1, [True, True, True])"
    by code_simp
  then obtain s where s: "antigravity_reachable sample_config undefined s"
    and v: "(length (gw_objects (go_world s)), map returned (go_threads s)) = (1, [True, True, True])" by (rule observed)
  have "length (map returned (go_threads s)) = 3" "\<forall>b \<in> set (map returned (go_threads s)). b" using v by simp_all
  then have "length (go_threads s) = 3" "\<forall>p \<in> set (go_threads s). returned p" by simp_all
  then show ?thesis using s v quiet_adapter_idle [OF s, of 0] by auto
qed

text \<open>
  C38: an interrupt can cancel the turn after the one it ends. The lock of the session is released when
  the turn is taken from it; a turn that begins then is prompted before the agent is told to cancel,
  and only the end of the first turn is reported as an interruption.
\<close>
theorem interrupt_cancels_next_turn:
  "\<exists>s. antigravity_reachable sample_config sprint s
     \<and> map snd (drop 2 (gw_calls (go_world s))) = [PromptCalled ''b'' ''one'', PromptCalled ''b'' ''two'', CancelCalled ''b'']
     \<and> map gs_turnID (gw_objects (go_world s)) = [''b:2'']
     \<and> map (\<lambda>(o', n, e). (ev_Type e, ev_BackendTurnID e)) (drop 1 (gw_emitted (go_world s)))
       = [(EventTurnStarted, ''b:1''), (EventTurnStarted, ''b:2''), (EventTurnFailed, ''b:1'')]"
proof -
  let ?f = "\<lambda>s. (map snd (drop 2 (gw_calls (go_world s))), map gs_turnID (gw_objects (go_world s)),
      map (\<lambda>(o', n, e). (ev_Type e, ev_BackendTurnID e)) (drop 1 (gw_emitted (go_world s))))"
  let ?v = "([PromptCalled ''b'' ''one'', PromptCalled ''b'' ''two'', CancelCalled ''b''], [''b:2''],
        [(EventTurnStarted, ''b:1''), (EventTurnStarted, ''b:2''), (EventTurnFailed, ''b:1'')])"
  have "map_option ?f (after_moves sprint overtaken) = Some ?v" by code_simp
  then obtain s where "antigravity_reachable sample_config sprint s" "?f s = ?v" by (rule observed [of ?f sprint overtaken ?v])
  then show ?thesis by (intro exI [of _ s]) simp
qed

end
