(* ===== verification/Vendor_Adapters.thy ===== *)
theory Vendor_Adapters
  imports Acp_Turns
begin

text \<open>
  The adapters of Claude, Codex and Cursor (\<open>src/adapters/claude/claude.go\<close>, \<open>codex/codex.go\<close>,
  \<open>cursor/cursor.go\<close>): configurations of the ACP adapter, what Codex reads from its messages, and
  \<open>ForkPrompt\<close>, whose programs call the methods of the ACP adapter one after the other. A value in
  parameters is what it encodes to. Capabilities, arguments and the grace period of a configuration
  are not part of the model of the ACP adapter.
\<close>

section \<open>Configurations\<close>

definition Claude_Backend :: Backend where "Claude_Backend = ''claude''"
definition Codex_Backend :: Backend where "Codex_Backend = ''codex''"
definition Cursor_Backend :: Backend where "Cursor_Backend = ''cursor''"

definition New_claude :: AgentConfig where
  "New_claude = New_agent
     \<lparr>ag_Backend = Claude_Backend, ag_Command = ''claude-agent-acp'', ag_ClientName = [], ag_ClientVersion = [],
      ag_LoadSessionFirst = True, ag_RestartOnExit = True, ag_LegacyExtensions = True, ag_BestEffortConfiguration = True,
      ag_SessionModeValues = [], ag_CompleteOnDone = False, ag_ModelInPrompt = False, ag_ResumeTurnCount = None,
      ag_ReplayTurnIdentity = None\<rparr>"

text \<open>A nested struct, zero when the field is absent or null.\<close>

definition sub_object :: "(string \<times> json) list \<Rightarrow> string \<Rightarrow> (string \<times> json) list option" where
  "sub_object fs k = (case sget fs k of None \<Rightarrow> Some [] | Some j \<Rightarrow> object_fields j)"

definition codexResumeTurnCount :: "json \<Rightarrow> nat" where
  "codexResumeTurnCount j =
     (case Option.bind (object_fields j) (\<lambda>fs. Option.bind (sub_object fs ''thread'') (\<lambda>ts. get_list ts ''turns'')) of
        None \<Rightarrow> 0 | Some turns \<Rightarrow> length turns)"

definition codexReplayTurnIdentity :: "json \<Rightarrow> string" where
  "codexReplayTurnIdentity j =
     (case object_fields j of None \<Rightarrow> [] | Some fs \<Rightarrow>
     (case (get_str fs ''method'', sub_object fs ''params'') of
        (Some name, Some ps) \<Rightarrow>
          (case (get_str ps ''sessionId'', sub_object ps ''update'') of
             (Some sid, Some us) \<Rightarrow>
               (case (get_str us ''sessionUpdate'', get_str us ''messageId'', get_str us ''itemId'') of
                  (Some kind, Some messageID, Some itemID) \<Rightarrow>
                    if name \<noteq> ''session/update'' \<or> kind \<noteq> ''user_message_chunk'' then []
                    else let i = (if TrimSpace messageID = [] then TrimSpace itemID else TrimSpace messageID) in
                      if i = [] then [] else TrimSpace sid @ '':'' @ i
                | _ \<Rightarrow> [])
           | _ \<Rightarrow> [])
      | _ \<Rightarrow> []))"

definition New_codex :: AgentConfig where
  "New_codex = New_agent
     \<lparr>ag_Backend = Codex_Backend, ag_Command = ''codex-acp'', ag_ClientName = [], ag_ClientVersion = [],
      ag_LoadSessionFirst = True, ag_RestartOnExit = True, ag_LegacyExtensions = True, ag_BestEffortConfiguration = True,
      ag_SessionModeValues = [''plan''], ag_CompleteOnDone = False, ag_ModelInPrompt = False,
      ag_ResumeTurnCount = Some codexResumeTurnCount, ag_ReplayTurnIdentity = Some codexReplayTurnIdentity\<rparr>"

definition New_cursor :: AgentConfig where
  "New_cursor = New_agent
     \<lparr>ag_Backend = Cursor_Backend, ag_Command = ''cursor-agent'', ag_ClientName = [], ag_ClientVersion = [],
      ag_LoadSessionFirst = False, ag_RestartOnExit = True, ag_LegacyExtensions = True, ag_BestEffortConfiguration = True,
      ag_SessionModeValues = [''agent'', ''plan'', ''ask''], ag_CompleteOnDone = True, ag_ModelInPrompt = True,
      ag_ResumeTurnCount = None, ag_ReplayTurnIdentity = None\<rparr>"

section \<open>One method after another\<close>

primrec and_then :: "aprog \<Rightarrow> (agent_result \<Rightarrow> aprog) \<Rightarrow> aprog" where
  "and_then (Ret r) k = k r"
| "and_then (Do op f) k = Do op (\<lambda>a. and_then (f a) k)"
| "and_then (Fork p q) k = Fork p (and_then q k)"

definition on_text :: "(string \<Rightarrow> aprog) \<Rightarrow> agent_result \<Rightarrow> aprog" where
  "on_text k r =
     (case r of RText (Inr s) \<Rightarrow> k s | RText (Inl e) \<Rightarrow> Ret (RForked (Inl (ForkCallFailed e))) | _ \<Rightarrow> Ret r)"

section \<open>Forks of Claude\<close>

definition enc_fork_env :: "ForkMCPEnv \<Rightarrow> json" where
  "enc_fork_env e = JObj [(''name'', JStr (fe_Name e)), (''value'', JStr (fe_Value e))]"

definition enc_fork_header :: "ForkMCPHTTPHeader \<Rightarrow> json" where
  "enc_fork_header h = JObj [(''name'', JStr (fh_Name h)), (''value'', JStr (fh_Value h))]"

text \<open>A copy of no headers is a nil slice, which encodes as null.\<close>

definition claude_server :: "ForkMCPServer \<Rightarrow> json" where
  "claude_server m = JObj
     [(''args'', JArr (map JStr (fm_Args m))), (''command'', JStr (fm_Command m)), (''env'', JArr (map enc_fork_env (fm_Env m))),
      (''headers'', if fm_Headers m = [] then JNull else JArr (map enc_fork_header (fm_Headers m))),
      (''name'', JStr (fm_Name m)), (''type'', JStr (fm_Type m)), (''url'', JStr (fm_URL m))]"

definition claude_params :: "string \<Rightarrow> ForkPromptRequest \<Rightarrow> payload" where
  "claude_params directory q =
     map_copy [] ([(''cwd'', JStr directory), (''mcpServers'', JArr (map claude_server (fp_MCPServers q)))]
       @ (let i = TrimSpace (fp_Instructions q) in
          if i = [] then [] else [(''_meta'', JObj [(''systemPrompt'', JStr i)])]))"

definition fork_child :: "string \<Rightarrow> string option" where
  "fork_child raw =
     Option.bind (unmarshal raw) (\<lambda>j. Option.bind (object_fields j) (\<lambda>fs. map_option TrimSpace (get_str fs ''sessionId'')))"

definition runFork :: "string \<Rightarrow> string \<Rightarrow> string \<Rightarrow> ForkMCPServer list \<Rightarrow> aprog" where
  "runFork sid child prompt servers = and_then (PromptForkSession sid child prompt servers) (\<lambda>_. CloseBackendSession sid child)"

definition Claude_ForkPrompt :: "AgentConfig \<Rightarrow> ForkPromptRequest \<Rightarrow> aprog" where
  "Claude_ForkPrompt cf q =
     (let sid = fp_SessionID q; fail = (\<lambda>e. Ret (RForked (Inl e))) in
      if TrimSpace sid = [] then fail ForkSessionRequired
      else if TrimSpace (fp_Prompt q) = [] then fail ForkPromptRequired
      else and_then (SessionDirectory sid) (on_text (\<lambda>directory.
        and_then (CallSession cf sid ''session/fork'' (claude_params directory q)) (on_text (\<lambda>raw.
          case fork_child raw of
            None \<Rightarrow> fail ForkUnreadable
          | Some child \<Rightarrow>
              if child = [] then fail ForkChildMissing
              else if child = TrimSpace sid then fail ForkChildInvalid
              else Fork (runFork sid child (fp_Prompt q) (fp_MCPServers q)) (Ret (RForked (Inr \<lparr>fr_Accepted = True\<rparr>))))))))"

section \<open>Forks of Codex\<close>

definition enc_fork_server :: "ForkMCPServer \<Rightarrow> json" where
  "enc_fork_server m = JObj
     (opt_str ''type'' (fm_Type m) @ [(''name'', JStr (fm_Name m))] @ opt_str ''command'' (fm_Command m)
      @ (if fm_Args m = [] then [] else [(''args'', JArr (map JStr (fm_Args m)))])
      @ (if fm_Env m = [] then [] else [(''env'', JArr (map enc_fork_env (fm_Env m)))])
      @ opt_str ''url'' (fm_URL m)
      @ (if fm_Headers m = [] then [] else [(''headers'', JArr (map enc_fork_header (fm_Headers m)))]))"

definition codex_params :: "ForkPromptRequest \<Rightarrow> payload" where
  "codex_params q = [(''mcpServers'', JArr (map enc_fork_server (fp_MCPServers q))), (''prompt'', JStr (fp_Prompt q))]"

definition fork_response :: "string \<Rightarrow> ForkPromptResponse option" where
  "fork_response raw =
     Option.bind (unmarshal raw) (\<lambda>j. Option.bind (object_fields j) (\<lambda>fs.
       map_option (\<lambda>b. \<lparr>fr_Accepted = b\<rparr>) (get_bool fs ''accepted'')))"

definition Codex_ForkPrompt :: "AgentConfig \<Rightarrow> ForkPromptRequest \<Rightarrow> aprog" where
  "Codex_ForkPrompt cf q =
     (let sid = fp_SessionID q; fail = (\<lambda>e. Ret (RForked (Inl e))) in
      if TrimSpace sid = [] then fail ForkSessionRequired
      else if TrimSpace (fp_Prompt q) = [] then fail ForkPromptRequired
      else and_then (CallSession cf sid ''codex/fork_prompt'' (codex_params q)) (on_text (\<lambda>raw.
        case fork_response raw of None \<Rightarrow> fail ForkUnreadable | Some r \<Rightarrow> Ret (RForked (Inr r)))))"

section \<open>Runs of one program\<close>

text \<open>The operations of a program for the answers given, what it forks, and its result when it returns.\<close>

fun run_with :: "answer list \<Rightarrow> aprog \<Rightarrow> (agent_op \<times> answer) list \<times> aprog list \<times> agent_result option" where
  "run_with as (Ret r) = ([], [], Some r)"
| "run_with [] (Do op f) = ([], [], None)"
| "run_with (a # as) (Do op f) = (let (ops, ps, r) = run_with as (f a) in ((op, a) # ops, ps, r))"
| "run_with as (Fork p q) = (let (ops, ps, r) = run_with as q in (ops, p # ps, r))"

lemma run_with_Ret: "run_with as (Ret r) = (ops, ps, v) \<longleftrightarrow> ops = [] \<and> ps = [] \<and> v = Some r"
  by (cases as) auto

lemma run_with_Do:
  "run_with as (Do op f) = (ops, ps, Some r) \<longleftrightarrow> (\<exists>a bs ops'. as = a # bs \<and> ops = (op, a) # ops' \<and> run_with bs (f a) = (ops', ps, Some r))"
  by (cases as) (auto split: prod.split)

lemma run_with_cases:
  "run_with as (case v of None \<Rightarrow> p | Some x \<Rightarrow> f x) = y \<longleftrightarrow>
     v = None \<and> run_with as p = y \<or> (\<exists>x. v = Some x \<and> run_with as (f x) = y)"
  "run_with as (if b then p else q) = y \<longleftrightarrow> b \<and> run_with as p = y \<or> \<not> b \<and> run_with as q = y"
  by (cases v) simp_all

lemma and_then_cases:
  "and_then (case v of None \<Rightarrow> p | Some x \<Rightarrow> f x) k = (case v of None \<Rightarrow> and_then p k | Some x \<Rightarrow> and_then (f x) k)"
  "and_then (if b then p else q) k = (if b then and_then p k else and_then q k)"
  by (cases v) simp_all

text \<open>
  Every path of the goroutine of a fork that the session's table allows to return withdraws the
  permissions of the child and closes it, unless the session is gone.
\<close>

lemma fork_cleans_up:
  assumes "run_with as (runFork sid child prompt servers) = (ops, ps, Some r)"
  shows "(OAsk o' (QSetFork c fo) \<in> fst ` set ops \<longrightarrow> OAsk o' (QRemoveFork c) \<in> fst ` set ops)
     \<and> ((\<exists>o' a. last ops = (ORemote (RCloseBackend o' (TrimSpace child)), a))
        \<or> (\<exists>a. last ops = (OTable (XSession sid), a) \<and> an_opt a = None))"
  using assms
  by (auto simp: runFork_def PromptForkSession_def prompt_session_def CloseBackendSession_def with_session_def error_result_def Let_def
      run_with_Ret run_with_Do run_with_cases and_then_cases split del: if_split)

section \<open>What the bundled adapters share\<close>

lemma bundled_ends:
  "ends_in New_claude interrupted_restart (\<lambda>s. aw_ended (am_world s) = [(0, ''x:1''), (1, ''x:1'')])"
  "ends_in New_codex interrupted_restart (\<lambda>s. aw_ended (am_world s) = [(0, ''x:1''), (1, ''x:1'')])"
  "ends_in New_cursor interrupted_restart (\<lambda>s. aw_ended (am_world s) = [(0, ''x:1''), (1, ''x:1'')])"
  by code_simp+


section \<open>A fork of the parent\<close>

definition sample_fork :: ForkPromptRequest where
  "sample_fork = \<lparr>fp_SessionID = ''s'', fp_Prompt = ''look'', fp_Instructions = [], fp_MCPServers = []\<rparr>"

text \<open>The table has the session as object 0; its agent's session is \<open>b\<close>, and the agent forks it into itself.\<close>

definition found :: "string \<Rightarrow> answer" where
  "found t = no_answer\<lparr>an_bool := True, an_opt := Some 0, an_text := t\<rparr>"

definition fork_answers :: "answer list" where
  "fork_answers = [found [], found ''/w'', found [], found ''b'', found ([CHR 0x7B, CHR 0x22] @ ''sessionId'' @ [CHR 0x22, CHR '':'', CHR 0x22, CHR ''b'', CHR 0x22, CHR 0x7D])]"

lemma fork_run:
  "case run_with fork_answers (Claude_ForkPrompt New_claude sample_fork) of (ops, ps, r) \<Rightarrow>
     r = Some (RForked (Inr \<lparr>fr_Accepted = True\<rparr>)) \<and> (OSession 0 SBackend, found ''b'') \<in> set ops \<and> length ps = 1
     \<and> (let calls = map fst (fst (run_with (replicate 7 (found [])) (hd ps))) in
         ORemote (RForkPrompt 0 ''b'' ''look'') \<in> set calls \<and> last calls = ORemote (RCloseBackend 0 ''b''))"
  by code_simp


end
