(* ===== verification/Spec2Isabelle.thy ===== *)
theory Spec2Isabelle
  imports Journal_Store Journal_Replay Journal_Events Session_Lifecycle Coalescer Runtime_Properties Runtime_Catalog Tool_Display
    Worktree_Manager Transport_Process Engine_Properties
    Acp_Answers Acp_Channels Agent_Shell Client Antigravity_Properties Vendor_Adapters
begin

text \<open>
  A verification library for durable-acp, a Go backend that hosts coding agents speaking the Agent
  Client Protocol. The library translates the packages of the repository one by one and proves
  what they promise; this theory imports all of it.

  \<^bold>\<open>The program.\<close> An \<open>Engine\<close> (\<open>src/engine.go\<close>) owns one
  home directory. It keeps one manifest file per session, creates or inspects the session's workspace
  through the worktree manager (\<open>src/worktree/manager.go\<close>), and hands the session to the
  \<open>Runtime\<close> (\<open>src/runtime/runtime.go\<close>), which queues turns, calls the adapter
  of the session's agent and receives the agent's events. Events pass a coalescer
  (\<open>coalesce.go\<close>) that joins text deltas, are matched against the history when an agent
  replays it (\<open>src/journal/replay.go\<close>), are written to an append-only journal
  (\<open>src/journal/store.go\<close>, \<open>record.go\<close>, \<open>events.go\<close>) and then
  reach the host. Adapters (\<open>src/adapters\<close>) speak to agent processes through the client
  (\<open>src/client/client.go\<close>) over JSON-RPC pipes (\<open>src/transport/process.go\<close>).

  \<^bold>\<open>Theories.\<close>

  \<^item> \<open>Prelude\<close>, \<open>Json\<close>, \<open>Paths\<close>: strings as bytes, Go maps as association lists in key
    order (an interpretation of the locale \<open>keyed_table\<close>), \<open>encoding/json\<close> with the theorem that reading undoes writing, \<open>path/filepath\<close> on Unix.
  \<^item> \<open>Host_Types\<close>: the records of \<open>src/host/types.go\<close> with their JSON forms and round trips.
    \<open>Session_Lifecycle\<close>: the status machine of \<open>src/session/session.go\<close>.
  \<^item> \<open>Journal_Record\<close>, \<open>Journal_Events\<close>, \<open>Journal_File\<close>, \<open>Journal_Store\<close>,
    \<open>Journal_Replay\<close>: the line format, the vocabulary of \<open>Translate\<close>, one file as bytes with
    torn-tail repair and ranged reading, the store over a disk whose calls may fail, and the replay
    matcher. The locale \<open>line_codec\<close> is what a file needs of the line format, interpreted
    by the record's encoder; \<open>durable_log\<close> is what a log promises over any run of its operations,
    interpreted by the store.
  \<^item> \<open>Coalescer\<close>: cumulative snapshots of a stream of deltas.
  \<^item> \<open>Runtime_Types\<close>, \<open>Runtime_Core\<close>, \<open>Runtime_Events\<close>, \<open>Runtime_Methods\<close>,
    \<open>Runtime_Restore\<close>, \<open>Runtime_Catalog\<close>: the methods of the runtime as critical sections.
    \<open>Runtime_Machine\<close> runs them as goroutines and holds the locale \<open>session_contract\<close>, which
    says what a session property must satisfy to hold in every reachable state;
    \<open>Runtime_Invariants\<close> interprets it, \<open>Runtime_Properties\<close> states the results.
  \<^item> \<open>Worktree_Manager\<close>: git worktrees through any git program over any file system.
  \<^item> \<open>Transport_Message\<close>, \<open>Transport_Process\<close>: the wire form of messages; calls, requests and
    the end of the connection as a step relation.
  \<^item> \<open>Tool_Display\<close>: what is shown of a tool call (\<open>src/adapters/acpx/display.go\<close>).
  \<^item> \<open>Acp_Types\<close>, \<open>Acp_Config\<close>, \<open>Acp_Interaction\<close>, \<open>Acp_Updates\<close>: what the ACP adapter
    (\<open>src/adapters/acpx/acpx.go\<close>, \<open>config.go\<close>) translates between the protocol and the host, as
    functions on protocol values: configuration options and catalogs, permissions and forms,
    session updates and tool tables, forked sessions.
  \<^item> \<open>Acp_Session\<close>, \<open>Acp_Programs\<close>, \<open>Acp_Methods\<close>: the sessions of the adapter and their critical
    sections, and every method and handler (\<open>acpx.go\<close>, \<open>operations.go\<close>) as a tree of operations that
    branches on each answer and forks at each \<open>go\<close> statement. \<open>Acp_Machine\<close> runs the trees as
    goroutines. Its locale \<open>obedience\<close> says what a discipline of rights must satisfy for the shared
    steps to keep to it, and \<open>discipline\<close> adds an invariant that balances the rights held against
    the state. \<open>Acp_Locks\<close>, \<open>Acp_Turns\<close>, \<open>Acp_Answers\<close> and \<open>Acp_Channels\<close> interpret both for
    the prompt lock, the right to end a turn, the right to answer an interaction and the duty to
    close a channel; \<open>Acp_Frames\<close> holds what operations leave unchanged.
  \<^item> \<open>Agent_Command\<close>, \<open>Agent_Shell\<close>: how an agent's executable is found
    (\<open>src/adapters/acpx/command.go\<close>), and the cached reading of the login shell's path as a step
    machine of concurrent callers.
  \<^item> \<open>Protocol_Types\<close>, \<open>Protocol_Schema\<close>, \<open>Protocol_Methods\<close>: the generated types of
    \<open>src/acp/schema_types_gen.go\<close>. A type is a value of \<open>gotype\<close>; \<open>decode\<close>, \<open>encode\<close> and
    \<open>Validate\<close> interpret it as the generated methods do, and \<open>Protocol_Schema\<close> has one such value
    for each struct and union of the file. \<open>Protocol_Round_Trip\<close> and \<open>Protocol_Properties\<close> show
    that reading undoes writing for all of them, and what unions make of kinds they do not know.
  \<^item> \<open>Client\<close>: the handshake, the calls and the dispatch of the agent's messages
    (\<open>src/client/client.go\<close>), over the transport's messages and the protocol's types.
  \<^item> \<open>Antigravity_Updates\<close>, \<open>Antigravity\<close>: the adapter of the Antigravity agent
    (\<open>src/adapters/antigravity/antigravity.go\<close>): what it translates, and its methods and callbacks as
    programs of critical sections. \<open>Goroutines\<close> runs such programs over a shared world; its locale
    \<open>rights\<close> gives invariants, guarantees and progress from one statement about each program, that
    it keeps to the rights it holds. \<open>Antigravity_Rights\<close> has the invariant and the sections,
    \<open>Antigravity_Programs\<close> the methods and the interpretation, \<open>Antigravity_Properties\<close> what follows.
  \<^item> \<open>Vendor_Adapters\<close>: the configurations of the ACP adapter for Claude, Codex and Cursor
    (\<open>src/adapters/claude\<close>, \<open>codex\<close>, \<open>cursor\<close>), and their prompts to forked sessions as programs over it.
  \<^item> \<open>Engine_Manifest\<close>, \<open>Engine_Programs\<close>, \<open>Engine_Machine\<close>, \<open>Engine_Properties\<close>: the
    settings and manifests, every method of the engine as a program of operations, the machine that
    runs the programs against the models of the other components, and the results about them.

  \<^bold>\<open>How the code is represented.\<close> A struct is a record with its fields in order, a
  closed set of constants a datatype, an error a value of a sum or option type, one constructor per kind
  of error; its message text is kept only where other code reads it. Concurrency is a step relation:
  code under one lock is a step, and any goroutine may act between two steps. The clock, random
  identifiers, the file system, git, agents and adapters are arguments or answers given with a step, so
  that a theorem holds for all of them; \<open>io\<close> lists the failures of one call's file
  operations. Times are natural numbers, with 0 for Go's zero time. Numbers in JSON are integers; text
  is taken to be UTF-8.

  \<^bold>\<open>What is shown.\<close> For the journal: acknowledged records survive failures, closes
  and restarts in order, a torn tail is cut exactly, files shared by two identifiers never mix, reading
  is the range it names, lines read back as written. For the runtime, in every reachable state: the
  queue is bounded and each entry issued is waiting or left it once, sessions are consistent, closed is
  final; and section by section how turns are sent, queued, dispatched, ended, interrupted, closed and
  restored, and that an event is durable before it is emitted. For the transport: at most one response
  per call, no call hangs once the connection is done, messages survive the wire. For worktrees and the
  engine: every git command and deletion stays below the root and the branch prefix in every state an
  engine reaches, only managed worktrees are touched, a failed start is undone, manifests read back as
  written. For the ACP adapter, in every interleaving of calls, agent messages, restarts and exits: one
  goroutine prompts a session at a time and the lock is given back on every path, a turn ends once when
  sessions are not restarted on exit (and may end twice when they are), an answer finds its channel
  empty, the channel of a prompt is closed once; and permissions go only to options and tools that were
  offered. For the search for executables: what is found by an absolute entry is outside the user's
  content folders, and the callers that share the shell's path all return. For the protocol and its
  client: values survive the wire, the client serves the requests the protocol gives it, nested tool
  calls and boolean capabilities are normalised as meant. For the Antigravity adapter, in every
  interleaving: the end of a turn is reported at most once, an agent is replaced only while its session
  restarts without a turn, no schedule blocks it, and when all goroutines have returned no session is
  busy; but an interrupt may cancel the turn after the one it ends. For the adapters of vendors: each
  restarts an agent that exits, with the double end above; a fork of Claude is closed on every path, and
  may be the parent. Some theorems state defects of the code; they are the findings of the manifest and
  are marked by their texts.

  \<^bold>\<open>Bounds.\<close> The readers of JSON and of request lines recurse on the length of what
  is left; the readers take a fuel of the length of their input, which is enough because every call
  consumes a byte (the round-trip theorems rest on this). The repair of a torn tail scans back in blocks
  and terminates by the length that is left. Journal sequence numbers and the transport's request
  counter wrap at 64 bits as in Go; theorems that need no wrap say so, with a bound on the number of
  records or of calls. Queue bounds are the configured ones.

  \<^bold>\<open>Not modelled.\<close> The composition of the bundled adapters
  (\<open>src/adapters/adapters.go\<close>), the code generator and the conformance suite. The protocol
  values of the ACP adapter are those of \<open>Acp_Types\<close>, not the decoded ones of
  \<open>Protocol_Types\<close>. Of the ACP adapter the options that set a field, \<open>Detect\<close>
  and the initialize request are left out; of the Antigravity adapter, that a second concurrent stop of
  a session waits for the first. The tests for nil receivers, contexts whose deadline passes before a
  call begins, log files, file modes, listener registration and the single-field accessors are left out.
  One operation of the worktree manager is one step of the engine's machine.
\<close>

end
